(* ===== verification/Prelude.thy ===== *)
theory Prelude imports Main begin

text \<open>
  The vocabulary shared by the theories of the development: the error values of the Go code, results
  and state-passing operations with early return, the fact collections the component proofs use and
  a few generic lemmas on lists, options and maps.
\<close>

section \<open>Errors and results\<close>

text \<open>
  A Go function returning \<open>(T, error)\<close> becomes a function into \<open>go_error + T\<close>. The sentinel errors
  that the code compares with \<open>errors.Is\<close> and the error structs it inspects with \<open>errors.As\<close> are
  constructors of their own; every other error is its text. \<open>Panic\<close> stands for a run-time panic.
\<close>

datatype go_error =
    ErrNotFound
  | ErrQueueFull
  | ErrDispatch string
  | ErrText string
  | AgentErr (agent_status: int) (agent_code: string) (agent_detail: string)
  | IntegrationErr (integration_status: int) (integration_code: string) (integration_detail: string)
  | Panic string

type_synonym 'a result = "go_error + 'a"

text \<open>The text that the method \<open>Error()\<close> returns.\<close>

fun error_text :: "go_error \<Rightarrow> string" where
  "error_text ErrNotFound = ''repository record was not found''"
| "error_text ErrQueueFull = ''agent task queue is full''"
| "error_text (ErrDispatch cause) = ''task dispatch failed: '' @ cause"
| "error_text (ErrText t) = t"
| "error_text (AgentErr status code detail) = detail"
| "error_text (IntegrationErr status code detail) = detail"
| "error_text (Panic t) = t"

named_theorems go_defs "definitions that unfold straight into the Go code's own control flow"
named_theorems status_defs "the status and task type constants"
named_theorems op_simps "how results and operations with early return compute"

section \<open>State passing with early return\<close>

text \<open>
  An operation of the program is a function from a state to a result and the state after it. The
  state after an error is kept: an early return in Go undoes no effect that came before it.
\<close>

type_synonym ('s, 'a) op = "'s \<Rightarrow> 'a result \<times> 's"

definition retS :: "'a \<Rightarrow> ('s, 'a) op" where
  "retS a = (\<lambda>s. (Inr a, s))"

definition failS :: "go_error \<Rightarrow> ('s, 'a) op" where
  "failS e = (\<lambda>s. (Inl e, s))"

definition bindS :: "('s, 'a) op \<Rightarrow> ('a \<Rightarrow> ('s, 'b) op) \<Rightarrow> ('s, 'b) op" where
  "bindS m f = (\<lambda>s. case m s of (Inl e, s') \<Rightarrow> (Inl e, s') | (Inr a, s') \<Rightarrow> f a s')"

text \<open>\<open>tryS m f\<close> runs \<open>m\<close> and hands its result, error or not, to \<open>f\<close>.\<close>

definition tryS :: "('s, 'a) op \<Rightarrow> ('a result \<Rightarrow> ('s, 'b) op) \<Rightarrow> ('s, 'b) op" where
  "tryS m f = (\<lambda>s. case m s of (r, s') \<Rightarrow> f r s')"

definition liftR :: "'a result \<Rightarrow> ('s, 'a) op" where
  "liftR r = (\<lambda>s. (r, s))"

lemma retS_apply [simp, op_simps]: "retS a s = (Inr a, s)"
  by (simp add: retS_def)

lemma failS_apply [simp, op_simps]: "failS e s = (Inl e, s)"
  by (simp add: failS_def)

lemma liftR_apply [simp, op_simps]: "liftR r s = (r, s)"
  by (simp add: liftR_def)

lemma bindS_ok [simp, op_simps]: "m s = (Inr a, s') \<Longrightarrow> bindS m f s = f a s'"
  by (simp add: bindS_def)

lemma bindS_err [simp, op_simps]: "m s = (Inl e, s') \<Longrightarrow> bindS m f s = (Inl e, s')"
  by (simp add: bindS_def)

lemma bindS_Inr_iff:
  "bindS m f s = (Inr b, s'') \<longleftrightarrow> (\<exists>a s'. m s = (Inr a, s') \<and> f a s' = (Inr b, s''))"
  by (auto simp: bindS_def split: prod.splits sum.splits)

text \<open>The laws of the monad.\<close>

lemma bindS_assoc: "bindS (bindS m f) g = bindS m (\<lambda>a. bindS (f a) g)"
  by (rule ext) (simp add: bindS_def split: prod.split sum.split)

lemma bindS_ret_left: "bindS (retS a) f = f a"
  by (rule ext) (simp add: bindS_def)

lemma bindS_ret_right: "bindS m retS = m"
  by (auto simp: bindS_def fun_eq_iff split: prod.splits sum.splits)

lemma bindS_InrE:
  assumes "bindS m f s = (Inr b, s'')"
  obtains a s' where "m s = (Inr a, s')" and "f a s' = (Inr b, s'')"
  using assms by (auto simp: bindS_Inr_iff)

text \<open>
  An operation keeps a predicate of the state when every run, whether it returns or fails, ends in
  a state that satisfies it; sequencing and branching keep what their parts keep.
\<close>

definition keeps :: "('s \<Rightarrow> bool) \<Rightarrow> ('s, 'a) op \<Rightarrow> bool" where
  "keeps P m \<longleftrightarrow> (\<forall>s. P s \<longrightarrow> P (snd (m s)))"

named_theorems keeps_intros "operations that keep an invariant"

lemma keepsI: "(\<And>s. P s \<Longrightarrow> P (snd (m s))) \<Longrightarrow> keeps P m"
  by (simp add: keeps_def)

lemma keepsD: "keeps P m \<Longrightarrow> P s \<Longrightarrow> P (snd (m s))"
  by (simp add: keeps_def)

lemma keepsD_eq: "keeps P m \<Longrightarrow> m s = (r, s') \<Longrightarrow> P s \<Longrightarrow> P s'"
  by (metis keepsD snd_conv)

lemma keeps_ret [keeps_intros]: "keeps P (retS a)"
  by (simp add: keeps_def)

lemma keeps_fail [keeps_intros]: "keeps P (failS e)"
  by (simp add: keeps_def)

lemma keeps_lift [keeps_intros]: "keeps P (liftR r)"
  by (simp add: keeps_def)

lemma keeps_bind [keeps_intros]: "keeps P m \<Longrightarrow> (\<And>a. keeps P (f a)) \<Longrightarrow> keeps P (bindS m f)"
  by (fastforce simp: keeps_def bindS_def split: prod.splits sum.splits dest: spec)

lemma keeps_try [keeps_intros]: "keeps P m \<Longrightarrow> (\<And>r. keeps P (f r)) \<Longrightarrow> keeps P (tryS m f)"
  by (fastforce simp: keeps_def tryS_def split: prod.splits dest: spec)

lemma keeps_if [keeps_intros]: "keeps P m \<Longrightarrow> keeps P n \<Longrightarrow> keeps P (if c then m else n)"
  by simp

lemma keeps_case_option [keeps_intros]:
  "keeps P m \<Longrightarrow> (\<And>a. keeps P (f a)) \<Longrightarrow> keeps P (case x of None \<Rightarrow> m | Some a \<Rightarrow> f a)"
  by (cases x) auto

lemma keeps_case_sum [keeps_intros]:
  "(\<And>a. keeps P (f a)) \<Longrightarrow> (\<And>b. keeps P (g b)) \<Longrightarrow> keeps P (case x of Inl a \<Rightarrow> f a | Inr b \<Rightarrow> g b)"
  by (cases x) auto

lemma keeps_case_prod [keeps_intros]: "(\<And>a b. keeps P (f a b)) \<Longrightarrow> keeps P (case x of (a, b) \<Rightarrow> f a b)"
  by (cases x) simp

lemma keeps_case_list [keeps_intros]:
  "keeps P m \<Longrightarrow> (\<And>a b. keeps P (f a b)) \<Longrightarrow> keeps P (case x of [] \<Rightarrow> m | a # b \<Rightarrow> f a b)"
  by (cases x) auto

section \<open>Lists, maps and results\<close>

lemma option_list_Some: "(\<exists>y. x = Some y \<and> P y) \<longleftrightarrow> (case x of None \<Rightarrow> False | Some y \<Rightarrow> P y)"
  by (cases x) auto

lemma filter_filter_conj: "filter P (filter Q xs) = filter (\<lambda>x. P x \<and> Q x) xs"
  by (metis (mono_tags, lifting) filter_cong filter_filter)

lemma ran_upd_subset: "ran (m(k \<mapsto> v)) \<subseteq> insert v (ran m)"
  by (auto simp: ran_def)

lemma ball_ran_upd: "\<forall>x \<in> ran m. P x \<Longrightarrow> P v \<Longrightarrow> \<forall>x \<in> ran (m(k \<mapsto> v)). P x"
  using ran_upd_subset by fastforce

text \<open>Go's \<open>len\<close>, an integer.\<close>

definition go_len :: "'a list \<Rightarrow> int" where
  "go_len xs = int (length xs)"

lemma go_len_simps [simp]: "go_len [] = 0" "go_len (x # xs) = go_len xs + 1" "0 \<le> go_len xs"
    "go_len (xs @ ys) = go_len xs + go_len ys" "go_len xs = 0 \<longleftrightarrow> xs = []"
  by (simp_all add: go_len_def)

text \<open>A loop over a slice that returns the first error it meets.\<close>

fun first_error :: "('a \<Rightarrow> go_error option) \<Rightarrow> 'a list \<Rightarrow> go_error option" where
  "first_error f [] = None"
| "first_error f (x # xs) = (case f x of Some e \<Rightarrow> Some e | None \<Rightarrow> first_error f xs)"

lemma first_error_None: "first_error f xs = None \<longleftrightarrow> (\<forall>x \<in> set xs. f x = None)"
  by (induction xs) (auto split: option.splits)

section \<open>The interface of a keyed table\<close>

text \<open>
  A table of records with a lookup by key and a save that gives the record as it is stored. A failing
  save changes nothing, and a save changes the record under its own key only.
\<close>

locale keyed_store =
  fixes key :: "'v \<Rightarrow> string"
    and lookup :: "string \<Rightarrow> ('s, 'v) op"
    and save :: "'a \<Rightarrow> ('s, 'v) op"
  assumes lookup_reads: "snd (lookup k s) = s"
    and lookup_saved: "save x s = (Inr v, s') \<Longrightarrow> fst (lookup (key v) s') = Inr v"
    and lookup_other: "save x s = (Inr v, s') \<Longrightarrow> k \<noteq> key v \<Longrightarrow> fst (lookup k s') = fst (lookup k s)"
    and save_failed: "save x s = (Inl e, s') \<Longrightarrow> s' = s"

text \<open>A sequence of saves: the records as stored, and the state at the end.\<close>

fun save_all :: "('a \<Rightarrow> ('s, 'v) op) \<Rightarrow> 'a list \<Rightarrow> 's \<Rightarrow> 'v list \<times> 's" where
  "save_all save [] s = ([], s)"
| "save_all save (x # xs) s =
     (case save x s of
        (Inl e, s') \<Rightarrow> save_all save xs s'
      | (Inr v, s') \<Rightarrow> (let (vs, s'') = save_all save xs s' in (v # vs, s'')))"

text \<open>The last record with a key, if there is one.\<close>

definition last_with :: "('v \<Rightarrow> string) \<Rightarrow> string \<Rightarrow> 'v list \<Rightarrow> 'v option" where
  "last_with key k vs = find (\<lambda>v. key v = k) (rev vs)"

lemma last_with_Nil [simp]: "last_with key k [] = None"
  by (simp add: last_with_def)

lemma find_append: "find P (xs @ ys) = (case find P xs of None \<Rightarrow> find P ys | Some x \<Rightarrow> Some x)"
  by (induction xs) auto

lemma last_with_Cons [simp]:
  "last_with key k (v # vs) =
     (case last_with key k vs of None \<Rightarrow> (if key v = k then Some v else None) | Some w \<Rightarrow> Some w)"
  by (simp add: last_with_def find_append split: option.split)

context keyed_store begin

lemma lookup_after_save:
  "save x s = (Inr v, s') \<Longrightarrow> fst (lookup k s') = (if k = key v then Inr v else fst (lookup k s))"
  by (simp add: lookup_saved lookup_other)

lemma lookup_eq: "lookup k s = (fst (lookup k s), s)"
  by (metis lookup_reads prod.collapse)

lemma lookup_after_saves:
  "fst (lookup k (snd (save_all save xs s))) =
     (case last_with key k (fst (save_all save xs s)) of Some v \<Rightarrow> Inr v | None \<Rightarrow> fst (lookup k s))"
proof (induction xs arbitrary: s)
  case (Cons x xs)
  obtain r s' where step: "save x s = (r, s')" by (cases "save x s")
  show ?case
  proof (cases r)
    case (Inl e)
    with step have "s' = s" by (simp add: save_failed)
    with step Inl Cons.IH [of s] show ?thesis by simp
  next
    case (Inr v)
    with step Cons.IH [of s'] lookup_after_save [of x s v s' k] show ?thesis
      by (auto simp: split_beta split: option.splits)
  qed
qed simp

lemma saves_distinct_commute:
  assumes "save x s = (Inr v, s1)" and "save y s1 = (Inr w, s2)" and "key v \<noteq> key w"
  shows "fst (lookup (key v) s2) = Inr v"
  using assms by (simp add: lookup_other lookup_saved)

end

end
