(* ===== verification/Domain.thy ===== *)
theory Domain imports Complex_Main Prelude begin

text \<open>
  The data model of backend/internal/domain/domain.go: one record per struct, with the fields in the
  order of the source, and the status and task type constants. Pointers that may be nil are options,
  slices are lists (nil and empty slices are both \<open>[]\<close>), \<open>map[string]any\<close> is a JSON value,
  \<open>time.Time\<close> is the number of nanoseconds since Go's zero time and a \<open>float64\<close> decoded from JSON
  (finite, hence rational) is a \<open>rat\<close>. The structs are copied by value, as in Go.
\<close>

type_synonym gotime = int

definition time_IsZero :: "gotime \<Rightarrow> bool" where
  "time_IsZero t = (t = 0)"

definition nanos_per_second :: int where
  "nanos_per_second = 10 ^ 9"

definition seconds :: "int \<Rightarrow> int" where
  "seconds n = n * nanos_per_second"

datatype json =
    JNull
  | JBool bool
  | JNum rat
  | JStr string
  | JArr "json list"
  | JObj "(string \<times> json) list"

section \<open>Status constants\<close>

definition TaskQueued :: string where [status_defs]: "TaskQueued = ''queued''"
definition TaskProcessing :: string where [status_defs]: "TaskProcessing = ''processing''"
definition TaskCompleted :: string where [status_defs]: "TaskCompleted = ''completed''"
definition TaskFailed :: string where [status_defs]: "TaskFailed = ''failed''"

definition SessionGenerating :: string where [status_defs]: "SessionGenerating = ''queued''"
definition SessionProcessing :: string where [status_defs]: "SessionProcessing = ''processing''"
definition SessionPlanGenerated :: string where
  [status_defs]: "SessionPlanGenerated = ''plan_generated''"
definition SessionApproved :: string where [status_defs]: "SessionApproved = ''approved''"
definition SessionCodeGenerationQueued :: string where
  [status_defs]: "SessionCodeGenerationQueued = ''code_generation_queued''"
definition SessionCodeGenerationProcessing :: string where
  [status_defs]: "SessionCodeGenerationProcessing = ''code_generation_processing''"
definition SessionCodeGenerated :: string where
  [status_defs]: "SessionCodeGenerated = ''code_generated''"
definition SessionCorrectionRequested :: string where
  [status_defs]: "SessionCorrectionRequested = ''correction_requested''"
definition SessionRejected :: string where [status_defs]: "SessionRejected = ''rejected''"
definition SessionFailed :: string where [status_defs]: "SessionFailed = ''failed''"

definition TaskInitialPlan :: string where [status_defs]: "TaskInitialPlan = ''initial_plan''"
definition TaskPlanRevision :: string where [status_defs]: "TaskPlanRevision = ''plan_revision''"
definition TaskCodeGeneration :: string where [status_defs]: "TaskCodeGeneration = ''code_generation''"

section \<open>Issues, sessions and tasks\<close>

record repository_metadata =
  repo_id :: string
  repo_name :: string
  repo_default_branch :: string
  repo_commit_sha :: string
  repo_web_url :: string

record issue_payload =
  issue_id :: string
  issue_title :: string
  issue_body :: string
  issue_author :: string
  issue_state :: string

record repository_file =
  rf_path :: string
  rf_content :: string
  rf_type :: string

record issue_analyze_request =
  req_repository :: repository_metadata
  req_issue :: issue_payload
  req_yaml_config :: string
  req_repository_files :: "repository_file list"
  req_repository_context :: "string list"
  req_metadata :: json

record ai_config =
  cfg_raw :: string
  cfg_version :: string
  cfg_default_branch :: string
  cfg_target_branch_prefix :: string
  cfg_analysis_enabled :: bool
  cfg_require_approval :: bool
  cfg_recommendations_enabled :: bool
  cfg_include_patterns :: "string list"
  cfg_exclude_patterns :: "string list"
  cfg_recommendation_categories :: "string list"
  cfg_max_files :: int
  cfg_max_snippets_per_file :: int
  cfg_retention_days :: int
  cfg_reviewer_policy :: string
  cfg_approve_command :: string
  cfg_correct_command :: string
  cfg_reject_command :: string

record generated_file_operation =
  gf_action :: string
  gf_path :: string
  gf_content :: string
  gf_diff :: string
  gf_explanation :: string
  gf_status :: string
  gf_validation_error :: string

record generated_files_contract =
  gc_request_id :: string
  gc_task_id :: string
  gc_summary :: string
  gc_branch_name :: string
  gc_base_branch :: string
  gc_files :: "generated_file_operation list"
  gc_commit_message :: string
  gc_pr_title :: string
  gc_reviewer :: string
  gc_apply_status :: string
  gc_commit_sha :: string
  gc_pull_request_id :: string
  gc_pull_request_url :: string
  gc_apply_error :: string
  gc_applied_at :: "gotime option"

record issue_session =
  ses_id :: string
  ses_status :: string
  ses_plan_markdown :: string
  ses_request :: issue_analyze_request
  ses_config :: ai_config
  ses_revision :: int
  ses_feedback_history :: "string list"
  ses_generated_files :: "generated_files_contract option"
  ses_created_at :: gotime
  ses_updated_at :: gotime

record task_error =
  te_http_status :: int
  te_code :: string
  te_detail :: string

record relevant_file =
  rel_path :: string
  rel_reason :: string
  rel_create :: bool

record agent_usage =
  us_prompt_tokens :: int
  us_completion_tokens :: int
  us_total_tokens :: int
  us_tool_calls :: int
  us_reasoning_chars :: int
  us_generation_time_seconds :: rat

record agent_task =
  task_id :: string
  task_session_id :: string
  task_issue_id :: string
  task_type :: string
  task_status :: string
  task_generated_plan_id :: string
  task_attempt :: int
  task_plan_markdown :: string
  task_err :: "task_error option"
  task_tool_execution_summary :: string
  task_relevant_files :: "relevant_file list"
  task_model :: string
  task_usage :: agent_usage
  task_created_at :: gotime
  task_updated_at :: gotime

section \<open>The agent engine's requests and responses\<close>

record agent_issue =
  ai_id :: string
  ai_title :: string
  ai_body :: string

record agent_repository =
  ar_id :: string
  ar_default_branch :: string
  ar_commit_sha :: string

record agent_plan_request =
  pr_request_id :: string
  pr_issue :: agent_issue
  pr_repository :: agent_repository
  pr_configuration_yaml :: string
  pr_repository_files :: "repository_file list"
  pr_previous_plan :: "string option"
  pr_correction_feedback :: "string option"

record agent_plan_response =
  pl_request_id :: string
  pl_status :: string
  pl_plan_markdown :: string
  pl_relevant_files :: "relevant_file list"
  pl_model :: string
  pl_usage :: agent_usage

record agent_code_generation_request =
  cg_request_id :: string
  cg_issue :: agent_issue
  cg_repository :: agent_repository
  cg_approved_plan_markdown :: string
  cg_configuration_yaml :: string
  cg_repository_files :: "repository_file list"

record agent_generated_files_response =
  fr_request_id :: string
  fr_status :: string
  fr_summary :: string
  fr_files :: "generated_file_operation list"
  fr_model :: string
  fr_usage :: agent_usage

record agent_job =
  job_task_id :: string
  job_session_id :: string
  job_type :: string
  job_attempt :: int
  job_request :: agent_plan_request
  job_code_generation_request :: agent_code_generation_request

text \<open>The zero values that Go gives to fields left out of a struct literal.\<close>

definition no_issue :: agent_issue where
  "no_issue = \<lparr>ai_id = [], ai_title = [], ai_body = []\<rparr>"

definition no_repository :: agent_repository where
  "no_repository = \<lparr>ar_id = [], ar_default_branch = [], ar_commit_sha = []\<rparr>"

definition no_plan_request :: agent_plan_request where
  "no_plan_request = \<lparr>pr_request_id = [], pr_issue = no_issue, pr_repository = no_repository,
     pr_configuration_yaml = [], pr_repository_files = [], pr_previous_plan = None,
     pr_correction_feedback = None\<rparr>"

definition no_code_generation_request :: agent_code_generation_request where
  "no_code_generation_request = \<lparr>cg_request_id = [], cg_issue = no_issue,
     cg_repository = no_repository, cg_approved_plan_markdown = [], cg_configuration_yaml = [],
     cg_repository_files = []\<rparr>"

definition no_usage :: agent_usage where
  "no_usage = \<lparr>us_prompt_tokens = 0, us_completion_tokens = 0, us_total_tokens = 0,
     us_tool_calls = 0, us_reasoning_chars = 0, us_generation_time_seconds = 0\<rparr>"

section \<open>Users, connections, webhooks and snapshots\<close>

record gitflame_apply_result =
  apr_branch_name :: string
  apr_commit_sha :: string
  apr_pull_request_id :: string
  apr_pull_request_url :: string

record app_user =
  user_id :: string
  user_gitflame_user_id :: string
  user_username :: string
  user_created_at :: gotime
  user_updated_at :: gotime

record app_session =
  aps_id :: string
  aps_user :: app_user
  aps_expires_at :: gotime
  aps_last_seen_at :: "gotime option"
  aps_revoked_at :: "gotime option"
  aps_created_at :: gotime

record gitflame_token_material =
  tok_ciphertext :: string
  tok_nonce :: string
  tok_key_version :: int

record gitflame_connection =
  con_id :: string
  con_user_id :: string
  con_repository :: repository_metadata
  con_repo_url :: string
  con_default_branch :: string
  con_access_token_encrypted :: string
  con_token_material :: gitflame_token_material
  con_token_last4 :: string
  con_token_status :: string
  con_scopes :: "string list"
  con_token_expires_at :: "gotime option"
  con_last_validated_at :: "gotime option"
  con_last_used_at :: "gotime option"
  con_revoked_at :: "gotime option"
  con_created_at :: gotime
  con_updated_at :: gotime

record gitflame_webhook_registration =
  wh_id :: string
  wh_connection_id :: string
  wh_webhook_url :: string
  wh_webhook_secret_hash :: string
  wh_events :: "string list"
  wh_status :: string
  wh_external_webhook_id :: string
  wh_created_at :: gotime
  wh_updated_at :: gotime

record gitflame_webhook_event =
  ev_id :: string
  ev_webhook_id :: string
  ev_event_type :: string
  ev_action :: string
  ev_delivery_id :: string
  ev_repository_id :: string
  ev_issue_session_id :: string
  ev_payload :: "(string \<times> json) list option"
  ev_status :: string
  ev_error :: "task_error option"
  ev_received_at :: gotime
  ev_processed_at :: "gotime option"

record repository_snapshot =
  sn_id :: string
  sn_repository_id :: string
  sn_connection_id :: string
  sn_ref :: string
  sn_commit_sha :: string
  sn_ai_config_id :: string
  sn_file_count :: int
  sn_status :: string
  sn_error :: "task_error option"
  sn_fetched_at :: gotime

record repository_snapshot_file =
  sf_path :: string
  sf_content_hash :: string
  sf_commit_sha :: string

record recommendation_card =
  card_id :: string
  card_finding_fingerprint :: string
  card_severity :: string
  card_category :: string
  card_file :: string
  card_line :: "int option"
  card_problem :: string
  card_suggestion :: string
  card_confidence :: "rat option"
  card_state :: string

record recommendation_report =
  rep_repository_id :: string
  rep_summary :: string
  rep_status :: string
  rep_recommendations :: "recommendation_card list"

end
