(* ===== verification/Recommendations.thy ===== *)
theory Recommendations imports Domain Go_Strings begin

text \<open>
  backend/internal/repository/recommendations.go, the storage invariant of recommendation reports (at
  most one card per finding), and backend/internal/repository/id.go, the identifiers of records.
  \<open>sha256\<close>, which maps bytes to the 32 bytes of their digest, is a parameter; the properties that need
  it assume its documented output length.
\<close>

section \<open>Fingerprints\<close>

definition unit_separator :: string where
  "unit_separator = [CHR 0x1F]"

definition normalizeRecommendationText :: "string \<Rightarrow> string" where
  "normalizeRecommendationText value = to_lower (join_with '' '' (fields value))"

definition recommendationContentFingerprint :: "(string \<Rightarrow> string) \<Rightarrow> recommendation_card \<Rightarrow> string" where
  "recommendationContentFingerprint sha256 item =
     (let line = (case card_line item of None \<Rightarrow> [] | Some n \<Rightarrow> int_text n);
          identity = join_with unit_separator
            [normalizeRecommendationText (card_category item),
             trim_prefix (replace_all [CHR 0x5C] ''/'' (trim_space (card_file item))) ''./'',
             line,
             normalizeRecommendationText (card_problem item),
             normalizeRecommendationText (card_suggestion item)]
      in hex_encode (sha256 identity))"

definition validRecommendationFingerprint :: "string \<Rightarrow> bool" where
  "validRecommendationFingerprint value \<longleftrightarrow>
     go_len value = 32 * 2 \<and>
     (case hex_decode value of None \<Rightarrow> False | Some decoded \<Rightarrow> go_len decoded = 32)"

definition card_fingerprint :: "(string \<Rightarrow> string) \<Rightarrow> recommendation_card \<Rightarrow> string" where
  "card_fingerprint sha256 item =
     (let fingerprint = to_lower (trim_space (card_finding_fingerprint item)) in
      if \<not> validRecommendationFingerprint fingerprint then recommendationContentFingerprint sha256 item
      else fingerprint)"

fun normalize_cards ::
    "(string \<Rightarrow> string) \<Rightarrow> string list \<Rightarrow> recommendation_card list \<Rightarrow> recommendation_card list" where
  "normalize_cards sha256 seen [] = []"
| "normalize_cards sha256 seen (item # cards) =
     (let fingerprint = card_fingerprint sha256 item in
      if fingerprint \<in> set seen then normalize_cards sha256 seen cards
      else item\<lparr>card_finding_fingerprint := fingerprint\<rparr> #
             normalize_cards sha256 (fingerprint # seen) cards)"

definition NormalizeRecommendations ::
    "(string \<Rightarrow> string) \<Rightarrow> recommendation_card list \<Rightarrow> recommendation_card list" where
  "NormalizeRecommendations sha256 cards = normalize_cards sha256 [] cards"

section \<open>Fingerprints are lower-case hexadecimal\<close>

definition digest_length :: "(string \<Rightarrow> string) \<Rightarrow> bool" where
  "digest_length sha256 \<longleftrightarrow> (\<forall>s. length (sha256 s) = 32)"

definition lower_hex :: "char \<Rightarrow> bool" where
  "lower_hex c \<longleftrightarrow> (48 \<le> byte_of c \<and> byte_of c \<le> 57) \<or> (97 \<le> byte_of c \<and> byte_of c \<le> 102)"

lemma to_lower_no_upper: "c \<in> set (to_lower s) \<Longrightarrow> \<not> (65 \<le> byte_of c \<and> byte_of c \<le> 90)"
proof (induction s rule: to_lower.induct)
  case (2 c' cs)
  have "\<not> (65 \<le> byte_of (lower_char x) \<and> byte_of (lower_char x) \<le> 90)" for x
    by (auto simp: lower_char_def byte_of_def)
  moreover have "\<not> (65 \<le> byte_of x \<and> byte_of x \<le> 90)" if "x = CHR ''i'' \<or> x = CHR ''k''" for x
    using that by (auto simp: byte_of_def)
  ultimately show ?case
    using 2 by (auto split: if_splits)
qed simp

lemma hex_decode_chars: "hex_decode s = Some bs \<Longrightarrow> c \<in> set s \<Longrightarrow> hex_value c \<noteq> None"
  by (induction s arbitrary: bs rule: hex_decode.induct) (auto split: option.splits)

lemma hex_value_lower: "hex_value c \<noteq> None \<Longrightarrow> \<not> (65 \<le> byte_of c \<and> byte_of c \<le> 90) \<Longrightarrow> lower_hex c"
  by (auto simp: hex_value_def lower_hex_def Let_def split: if_splits)

lemma lower_hex_lower_char: "lower_hex c \<Longrightarrow> lower_char c = c"
  by (auto simp: lower_hex_def lower_char_def)

lemma to_lower_hex: "list_all lower_hex s \<Longrightarrow> to_lower s = s"
proof (induction s)
  case (Cons c s)
  then have "c \<noteq> CHR 0xC4" "c \<noteq> CHR 0xE2" by (auto simp: lower_hex_def byte_of_def)
  with Cons show ?case by (simp add: lower_hex_lower_char)
qed simp

lemma lower_hex_no_space:
  assumes "lower_hex c"
  shows "strip_one unicode_spaces (c # cs) = None" and "strip_one (map rev unicode_spaces) (c # cs) = None"
proof -
  have "c \<notin> {CHR 0x09, CHR 0x0A, CHR 0x0B, CHR 0x0C, CHR 0x0D, CHR 0x20, CHR 0xC2, CHR 0xE1, CHR 0xE2,
      CHR 0xE3, CHR 0x85, CHR 0xA0, CHR 0x80, CHR 0x81, CHR 0x82, CHR 0x83, CHR 0x84, CHR 0x86, CHR 0x87,
      CHR 0x88, CHR 0x89, CHR 0x8A, CHR 0xA8, CHR 0xA9, CHR 0xAF, CHR 0x9F}"
    using assms by (auto simp: lower_hex_def byte_of_def)
  then show "strip_one unicode_spaces (c # cs) = None" and "strip_one (map rev unicode_spaces) (c # cs) = None"
    by (auto simp: unicode_spaces_def)
qed

lemma trim_space_hex: "list_all lower_hex s \<Longrightarrow> trim_space s = s"
proof (cases s)
  case (Cons c cs)
  assume s: "list_all lower_hex s"
  then have left: "trim_left_of unicode_spaces s = s"
    using Cons by (intro trim_left_of_fixed) (auto simp: lower_hex_no_space)
  obtain d ds where rev: "rev s = d # ds" using Cons by (cases "rev s") auto
  then have "d \<in> set s" by (metis list.set_intros(1) set_rev)
  with s have "lower_hex d" by (auto simp: list_all_iff)
  with rev have "trim_left_of (map rev unicode_spaces) (rev s) = rev s"
    by (intro trim_left_of_fixed) (auto simp: lower_hex_no_space)
  with left show ?thesis by (simp add: trim_space_def)
qed simp

lemma hex_encode_lower: "list_all lower_hex (hex_encode s)"
proof -
  have "lower_hex (hex_char d)" if "d < 16" for d
    using that by (auto simp: hex_char_def lower_hex_def byte_of_def)
  moreover have "byte_of c div 16 < 16" for c
    using byte_of_less [of c] by auto
  ultimately show ?thesis
    by (auto simp: hex_encode_def hex_byte_def list_all_iff)
qed

lemma valid_fingerprint_lower:
  assumes "validRecommendationFingerprint (to_lower s)"
  shows "list_all lower_hex (to_lower s)"
proof -
  obtain bs where "hex_decode (to_lower s) = Some bs"
    using assms by (auto simp: validRecommendationFingerprint_def split: option.splits)
  then show ?thesis
    by (auto simp: list_all_iff intro: hex_value_lower dest: hex_decode_chars to_lower_no_upper)
qed

lemma hex_encode_valid: "length d = 32 \<Longrightarrow> validRecommendationFingerprint (hex_encode d)"
  by (simp add: validRecommendationFingerprint_def hex_decode_encode hex_encode_length go_len_def)

lemma card_fingerprint_valid:
  assumes "digest_length sha256"
  shows "validRecommendationFingerprint (card_fingerprint sha256 item) \<and>
    list_all lower_hex (card_fingerprint sha256 item)"
  using assms
  by (auto simp: card_fingerprint_def Let_def recommendationContentFingerprint_def digest_length_def
      hex_encode_valid hex_encode_lower valid_fingerprint_lower)

lemma card_fingerprint_stable:
  assumes "digest_length sha256" and "card_finding_fingerprint item = card_fingerprint sha256 c"
  shows "card_fingerprint sha256 item = card_fingerprint sha256 c"
  using card_fingerprint_valid [OF assms(1), of c]
  unfolding card_fingerprint_def [of sha256 item] assms(2) Let_def
  by (simp add: trim_space_hex to_lower_hex)

section \<open>What normalisation establishes\<close>

lemma normalize_cards_fresh:
  "item \<in> set (normalize_cards sha256 seen cards) \<Longrightarrow>
     card_finding_fingerprint item \<notin> set seen \<and>
     (\<exists>c \<in> set cards. card_finding_fingerprint item = card_fingerprint sha256 c \<and>
        item = c\<lparr>card_finding_fingerprint := card_fingerprint sha256 c\<rparr>)"
  by (induction sha256 seen cards rule: normalize_cards.induct) (auto simp: Let_def split: if_splits)

lemma normalize_cards_distinct:
  "distinct (map card_finding_fingerprint (normalize_cards sha256 seen cards))"
  by (induction sha256 seen cards rule: normalize_cards.induct)
    (auto simp: Let_def dest!: normalize_cards_fresh)

lemma normalize_cards_all:
  "item \<in> set cards \<Longrightarrow>
     card_fingerprint sha256 item \<in> set seen \<union>
       card_finding_fingerprint ` set (normalize_cards sha256 seen cards)"
  by (induction sha256 seen cards rule: normalize_cards.induct) (auto simp: Let_def)

lemma normalize_cards_keeps:
  assumes "\<forall>c \<in> set cards. card_fingerprint sha256 c = card_finding_fingerprint c"
    and "distinct (map card_finding_fingerprint cards)"
    and "\<forall>c \<in> set cards. card_finding_fingerprint c \<notin> set seen"
  shows "normalize_cards sha256 seen cards = cards"
  using assms
proof (induction cards arbitrary: seen)
  case (Cons c cards)
  then have "card_finding_fingerprint d \<noteq> card_finding_fingerprint c" if "d \<in> set cards" for d
    using that by (metis distinct.simps(2) image_eqI list.set_map list.simps(9))
  with Cons show ?case by (simp add: Let_def)
qed simp

text \<open>The stored cards have pairwise different fingerprints, each of 64 hexadecimal digits, and every
  finding of the analysis is still represented by a stored card.\<close>

theorem NormalizeRecommendations_invariant:
  assumes "digest_length sha256"
  shows "distinct (map card_finding_fingerprint (NormalizeRecommendations sha256 cards)) \<and>
    list_all (\<lambda>c. validRecommendationFingerprint (card_finding_fingerprint c))
      (NormalizeRecommendations sha256 cards) \<and>
    card_finding_fingerprint ` set (NormalizeRecommendations sha256 cards) =
      card_fingerprint sha256 ` set cards"
  using normalize_cards_all [of _ cards sha256 "[]"] card_fingerprint_valid [OF assms]
  by (auto simp: NormalizeRecommendations_def normalize_cards_distinct list_all_iff
      dest!: normalize_cards_fresh)

definition zero_digest :: "string \<Rightarrow> string" where
  "zero_digest s = replicate 32 CHR 0x00"

lemma zero_digest_length: "digest_length zero_digest"
  by (simp add: digest_length_def zero_digest_def)

definition sample_card :: recommendation_card where
  "sample_card = \<lparr>card_id = ''1'', card_finding_fingerprint = [], card_severity = ''high'',
     card_category = ''bug'', card_file = ''./a.py'', card_line = Some 3, card_problem = ''p'',
     card_suggestion = ''s'', card_confidence = None, card_state = ''open''\<rparr>"

lemma NormalizeRecommendations_invariant_witness:
  "distinct (map card_finding_fingerprint
     (NormalizeRecommendations zero_digest [sample_card, sample_card])) \<and>
   length (NormalizeRecommendations zero_digest [sample_card, sample_card]) = 1"
proof -
  have "length (NormalizeRecommendations zero_digest [sample_card, sample_card]) = 1" by code_simp
  with NormalizeRecommendations_invariant [OF zero_digest_length, of "[sample_card, sample_card]"]
  show ?thesis by simp
qed

text \<open>Normalising the cards of a stored report again changes nothing.\<close>

theorem NormalizeRecommendations_idempotent:
  assumes "digest_length sha256"
  shows "NormalizeRecommendations sha256 (NormalizeRecommendations sha256 cards) =
    NormalizeRecommendations sha256 cards"
  unfolding NormalizeRecommendations_def [of sha256 "NormalizeRecommendations sha256 cards"]
proof (rule normalize_cards_keeps)
  show "\<forall>c \<in> set (NormalizeRecommendations sha256 cards).
      card_fingerprint sha256 c = card_finding_fingerprint c"
    using card_fingerprint_stable [OF assms]
    by (auto simp: NormalizeRecommendations_def dest!: normalize_cards_fresh)
qed (simp_all add: NormalizeRecommendations_def normalize_cards_distinct)

lemma NormalizeRecommendations_idempotent_witness:
  "NormalizeRecommendations zero_digest (NormalizeRecommendations zero_digest [sample_card]) =
     NormalizeRecommendations zero_digest [sample_card]"
  by (rule NormalizeRecommendations_idempotent [OF zero_digest_length])

section \<open>Record identifiers\<close>

fun nat_hex :: "nat \<Rightarrow> string" where
  "nat_hex n = (if n < 16 then [hex_char n] else nat_hex (n div 16) @ [hex_char (n mod 16)])"

declare nat_hex.simps [simp del]

text \<open>\<open>strconv.FormatInt(i, 16)\<close>.\<close>

definition int_hex :: "int \<Rightarrow> string" where
  "int_hex i = (if i < 0 then CHR ''-'' # nat_hex (nat (- i)) else nat_hex (nat i))"

text \<open>The random source either fills the 16 bytes or fails, and then the clock stands in.\<close>

definition NewID :: "string option \<Rightarrow> int \<Rightarrow> string" where
  "NewID random unixNano =
     (case random of
        Some b \<Rightarrow>
          (let encoded = hex_encode b in
           take 8 encoded @ ''-'' @ take 4 (drop 8 encoded) @ ''-'' @ take 4 (drop 12 encoded) @ ''-'' @
             take 4 (drop 16 encoded) @ ''-'' @ drop 20 encoded)
      | None \<Rightarrow> int_hex unixNano)"

lemma take_drop_join: "take m xs @ take n (drop m xs) = take (m + n) xs"
  by (simp add: take_add)

lemma dashed_inj:
  assumes "length xs = 32" and "length ys = 32"
    and "take 8 xs @ d # take 4 (drop 8 xs) @ d # take 4 (drop 12 xs) @ d # take 4 (drop 16 xs) @ d # drop 20 xs
       = take 8 ys @ d # take 4 (drop 8 ys) @ d # take 4 (drop 12 ys) @ d # take 4 (drop 16 ys) @ d # drop 20 ys"
  shows "xs = ys"
proof -
  have split: "zs = take 8 zs @ take 4 (drop 8 zs) @ take 4 (drop 12 zs) @ take 4 (drop 16 zs) @ drop 20 zs"
    if "length zs = 32" for zs :: "'a list"
  proof -
    have "drop 16 zs = take 4 (drop 16 zs) @ drop 20 zs"
      using append_take_drop_id [of 4 "drop 16 zs"] by simp
    moreover have "drop 12 zs = take 4 (drop 12 zs) @ drop 16 zs"
      using append_take_drop_id [of 4 "drop 12 zs"] by simp
    moreover have "drop 8 zs = take 4 (drop 8 zs) @ drop 12 zs"
      using append_take_drop_id [of 4 "drop 8 zs"] by simp
    ultimately show ?thesis using append_take_drop_id [of 8 zs] by simp
  qed
  have "take 8 xs = take 8 ys \<and> take 4 (drop 8 xs) = take 4 (drop 8 ys) \<and>
      take 4 (drop 12 xs) = take 4 (drop 12 ys) \<and> take 4 (drop 16 xs) = take 4 (drop 16 ys) \<and>
      drop 20 xs = drop 20 ys"
    using assms by (simp add: append_eq_append_conv)
  with split [OF assms(1)] split [OF assms(2)] show ?thesis by simp
qed

text \<open>Identifiers are 36 characters long and two of them are equal only when their 16 random bytes
  are: the hyphenated form loses nothing.\<close>

theorem NewID_injective:
  assumes "length b = 16" and "length c = 16"
  shows "length (NewID (Some b) n) = 36 \<and> (NewID (Some b) n = NewID (Some c) m \<longleftrightarrow> b = c)"
proof
  show "length (NewID (Some b) n) = 36"
    using assms by (simp add: NewID_def Let_def hex_encode_length)
  show "NewID (Some b) n = NewID (Some c) m \<longleftrightarrow> b = c"
    using dashed_inj [of "hex_encode b" "hex_encode c" "CHR ''-''"] assms
    by (auto simp: NewID_def Let_def hex_encode_length hex_encode_inj)
qed

lemma NewID_injective_witness:
  "NewID (Some (replicate 16 CHR ''a'')) 0 \<noteq> NewID (Some (replicate 16 CHR ''b'')) 0"
  using NewID_injective [of "replicate 16 CHR ''a''" "replicate 16 CHR ''b''" 0 0] by simp

end
