(* ===== verification/Memory_Store.thy ===== *)
theory Memory_Store imports Recommendations begin

text \<open>
  backend/internal/repository/memory.go: the in-memory store, one map per table, and its operations,
  each of which runs under the store's lock. The clock reading \<open>now\<close> and the identifier \<open>nid\<close> that an
  operation asks for are arguments. A loop over a map takes the order in which Go happens to visit the
  keys as the argument \<open>order\<close>; the properties hold for every order. The clone functions copy a record
  so that no caller shares memory with the store; values do that by themselves here. \<open>sort.Slice\<close> is not
  stable, so any order of equal keys may come out of it: a stable sort of an arbitrary visiting order
  gives every one of them.
\<close>

section \<open>State\<close>

record memory_store =
  ms_sessions :: "string \<rightharpoonup> issue_session"
  ms_issueIndex :: "string \<rightharpoonup> string"
  ms_tasks :: "string \<rightharpoonup> agent_task"
  ms_reports :: "string \<rightharpoonup> recommendation_report"
  ms_configs :: "string \<rightharpoonup> ai_config"
  ms_users :: "string \<rightharpoonup> app_user"
  ms_userIndex :: "string \<rightharpoonup> string"
  ms_appSessions :: "string \<rightharpoonup> app_session"
  ms_sessionHashes :: "string \<rightharpoonup> string"
  ms_connections :: "string \<rightharpoonup> gitflame_connection"
  ms_webhooks :: "string \<rightharpoonup> gitflame_webhook_registration"
  ms_events :: "string \<rightharpoonup> gitflame_webhook_event"
  ms_snapshots :: "string \<rightharpoonup> repository_snapshot"
  ms_snapshotFiles :: "string \<rightharpoonup> repository_snapshot_file list"

type_synonym 'a store_op = "(memory_store, 'a) op"

definition NewMemoryStore :: memory_store where
  "NewMemoryStore = \<lparr>ms_sessions = Map.empty, ms_issueIndex = Map.empty, ms_tasks = Map.empty,
     ms_reports = Map.empty, ms_configs = Map.empty, ms_users = Map.empty, ms_userIndex = Map.empty,
     ms_appSessions = Map.empty, ms_sessionHashes = Map.empty, ms_connections = Map.empty,
     ms_webhooks = Map.empty, ms_events = Map.empty, ms_snapshots = Map.empty,
     ms_snapshotFiles = Map.empty\<rparr>"

definition Ping :: "unit store_op" where
  "Ping s = (Inr (), s)"

definition nil_dereference :: go_error where
  "nil_dereference = Panic ''nil pointer dereference''"

text \<open>The values of a map in visiting order, and the orders that a loop over it may have.\<close>

definition ranging :: "('k \<rightharpoonup> 'v) \<Rightarrow> 'k list \<Rightarrow> 'v list" where
  "ranging m order = List.map_filter m order"

definition visits :: "('k \<rightharpoonup> 'v) \<Rightarrow> 'k list \<Rightarrow> bool" where
  "visits m order \<longleftrightarrow> distinct order \<and> set order = dom m"

lemma set_ranging: "visits m order \<Longrightarrow> set (ranging m order) = ran m"
  by (force simp: visits_def ranging_def map_filter_def ran_def dom_def)

lemma ranging_member: "x \<in> set (ranging m order) \<Longrightarrow> x \<in> ran m"
  by (auto simp: ranging_def map_filter_def ran_def)

section \<open>Users and application sessions\<close>

definition UpsertAppUser :: "gotime \<Rightarrow> string \<Rightarrow> app_user \<Rightarrow> app_user store_op" where
  "UpsertAppUser now nid v0 s =
     (if user_gitflame_user_id v0 = [] then (Inl (ErrText ''gitflame user id is required''), s)
      else
        let v = (if trim_space (user_username v0) = []
                 then v0\<lparr>user_username := user_gitflame_user_id v0\<rparr> else v0) in
        (case ms_userIndex s (user_gitflame_user_id v) of
           Some uid \<Rightarrow>
             (case ms_users s uid of
                None \<Rightarrow> (Inl nil_dereference, s)
              | Some existing0 \<Rightarrow>
                  let existing = existing0\<lparr>user_username := user_username v, user_updated_at := now\<rparr>
                  in (Inr existing, s\<lparr>ms_users := (ms_users s)(uid \<mapsto> existing)\<rparr>))
         | None \<Rightarrow>
             let w = v\<lparr>user_id := (if user_id v = [] then nid else user_id v),
                       user_created_at := now, user_updated_at := now\<rparr>
             in (Inr w, s\<lparr>ms_users := (ms_users s)(user_id w \<mapsto> w),
                         ms_userIndex := (ms_userIndex s)(user_gitflame_user_id w \<mapsto> user_id w)\<rparr>)))"

definition CreateAppSession :: "gotime \<Rightarrow> string \<Rightarrow> string \<Rightarrow> string \<Rightarrow> gotime \<Rightarrow> app_session store_op" where
  "CreateAppSession now nid userID tokenHash expiresAt s =
     (case ms_users s userID of
        None \<Rightarrow> (Inl ErrNotFound, s)
      | Some user \<Rightarrow>
          let session = \<lparr>aps_id = nid, aps_user = user, aps_expires_at = expiresAt,
                aps_last_seen_at = None, aps_revoked_at = None, aps_created_at = now\<rparr>
          in (Inr session,
              s\<lparr>ms_appSessions := (ms_appSessions s)(aps_id session \<mapsto> session),
                ms_sessionHashes := (ms_sessionHashes s)(tokenHash \<mapsto> aps_id session)\<rparr>))"

text \<open>The code reads the clock twice, for the expiry test and for the time of the visit.\<close>

definition AppSessionByTokenHash :: "gotime \<Rightarrow> gotime \<Rightarrow> string \<Rightarrow> app_session store_op" where
  "AppSessionByTokenHash now now2 tokenHash s =
     (case ms_sessionHashes s tokenHash of
        None \<Rightarrow> (Inl ErrNotFound, s)
      | Some sid \<Rightarrow>
          (case ms_appSessions s sid of
             None \<Rightarrow> (Inl ErrNotFound, s)
           | Some session \<Rightarrow>
               if aps_revoked_at session \<noteq> None \<or> \<not> aps_expires_at session > now
               then (Inl ErrNotFound, s)
               else let seen = session\<lparr>aps_last_seen_at := Some now2\<rparr>
                    in (Inr seen, s\<lparr>ms_appSessions := (ms_appSessions s)(sid \<mapsto> seen)\<rparr>)))"

definition RevokeAppSession :: "gotime \<Rightarrow> string \<Rightarrow> unit store_op" where
  "RevokeAppSession now sessionID s =
     (case ms_appSessions s sessionID of
        None \<Rightarrow> (Inl ErrNotFound, s)
      | Some session \<Rightarrow>
          (Inr (), s\<lparr>ms_appSessions :=
             (ms_appSessions s)(sessionID \<mapsto> session\<lparr>aps_revoked_at := Some now\<rparr>)\<rparr>))"

section \<open>Issue sessions and tasks\<close>

definition sessionKey :: "string \<Rightarrow> string \<Rightarrow> string" where
  "sessionKey repositoryID issueID = repositoryID @ CHR 0x00 # issueID"

definition issue_of :: "issue_session \<Rightarrow> string" where
  "issue_of v = issue_id (req_issue (ses_request v))"

definition session_key_of :: "issue_session \<Rightarrow> string" where
  "session_key_of v = sessionKey (repo_id (req_repository (ses_request v))) (issue_of v)"

definition CreateSession ::
    "gotime \<Rightarrow> string \<Rightarrow> issue_analyze_request \<Rightarrow> ai_config \<Rightarrow> (issue_session \<times> bool) store_op" where
  "CreateSession now nid req cfg s =
     (case ms_issueIndex s (sessionKey (repo_id (req_repository req)) (issue_id (req_issue req))) of
        Some sid \<Rightarrow>
          (case ms_sessions s sid of
             None \<Rightarrow> (Inl nil_dereference, s)
           | Some v \<Rightarrow> (Inr (v, False), s))
      | None \<Rightarrow>
          let v = \<lparr>ses_id = nid, ses_status = SessionGenerating, ses_plan_markdown = [], ses_request = req,
                ses_config = cfg, ses_revision = 0, ses_feedback_history = [], ses_generated_files = None,
                ses_created_at = now, ses_updated_at = now\<rparr>
          in (Inr (v, True),
              s\<lparr>ms_sessions := (ms_sessions s)(ses_id v \<mapsto> v),
                ms_issueIndex := (ms_issueIndex s)(issue_id (req_issue req) \<mapsto> ses_id v,
                  sessionKey (repo_id (req_repository req)) (issue_id (req_issue req)) \<mapsto> ses_id v)\<rparr>))"

definition Session :: "string \<Rightarrow> issue_session store_op" where
  "Session k s =
     (let sid = (case ms_issueIndex s k of Some mapped \<Rightarrow> mapped | None \<Rightarrow> k) in
      case ms_sessions s sid of None \<Rightarrow> (Inl ErrNotFound, s) | Some v \<Rightarrow> (Inr v, s))"

text \<open>The update stamps the caller's record as well as the stored one, so it returns it.\<close>

definition UpdateSession :: "gotime \<Rightarrow> issue_session \<Rightarrow> issue_session store_op" where
  "UpdateSession now v0 s =
     (let v = v0\<lparr>ses_updated_at := now\<rparr> in
      (Inr v, s\<lparr>ms_sessions := (ms_sessions s)(ses_id v \<mapsto> v),
                ms_issueIndex := (ms_issueIndex s)(issue_of v \<mapsto> ses_id v, session_key_of v \<mapsto> ses_id v)\<rparr>))"

definition CreateTask :: "gotime \<Rightarrow> string \<Rightarrow> string \<Rightarrow> string \<Rightarrow> string \<Rightarrow> agent_task store_op" where
  "CreateTask now nid sessionID issueID taskType s =
     (let v = \<lparr>task_id = nid, task_session_id = sessionID, task_issue_id = issueID, task_type = taskType,
          task_status = TaskQueued, task_generated_plan_id = [], task_attempt = 1, task_plan_markdown = [],
          task_err = None, task_tool_execution_summary = [], task_relevant_files = [], task_model = [],
          task_usage = no_usage, task_created_at = now, task_updated_at = now\<rparr>
      in (Inr v, s\<lparr>ms_tasks := (ms_tasks s)(task_id v \<mapsto> v)\<rparr>))"

definition Task :: "string \<Rightarrow> agent_task store_op" where
  "Task k s = (case ms_tasks s k of None \<Rightarrow> (Inl ErrNotFound, s) | Some v \<Rightarrow> (Inr v, s))"

definition latest_task :: "string \<Rightarrow> agent_task list \<Rightarrow> agent_task option" where
  "latest_task sessionID tasks =
     foldl (\<lambda>latest task.
         if task_session_id task = sessionID \<and>
            (case latest of None \<Rightarrow> True | Some l \<Rightarrow> task_created_at task > task_created_at l)
         then Some task else latest) None tasks"

definition LatestTask :: "string list \<Rightarrow> string \<Rightarrow> agent_task store_op" where
  "LatestTask order sessionID s =
     (case latest_task sessionID (ranging (ms_tasks s) order) of
        None \<Rightarrow> (Inl ErrNotFound, s)
      | Some v \<Rightarrow> (Inr v, s))"

definition UpdateTask :: "gotime \<Rightarrow> agent_task \<Rightarrow> agent_task store_op" where
  "UpdateTask now v0 s =
     (let v = v0\<lparr>task_updated_at := now\<rparr> in (Inr v, s\<lparr>ms_tasks := (ms_tasks s)(task_id v \<mapsto> v)\<rparr>))"

section \<open>Recommendations and configurations\<close>

definition SaveRecommendations ::
    "(string \<Rightarrow> string) \<Rightarrow> repository_metadata \<Rightarrow> ai_config \<Rightarrow> string \<Rightarrow> recommendation_card list \<Rightarrow>
     recommendation_report store_op" where
  "SaveRecommendations sha256 repository cfg summary cards s =
     (let v = \<lparr>rep_repository_id = repo_id repository, rep_summary = summary, rep_status = ''ready'',
           rep_recommendations = NormalizeRecommendations sha256 cards\<rparr>
      in (Inr v, s\<lparr>ms_reports := (ms_reports s)(repo_id repository \<mapsto> v)\<rparr>))"

definition SaveAIConfig :: "repository_metadata \<Rightarrow> ai_config \<Rightarrow> unit store_op" where
  "SaveAIConfig repository cfg s =
     (if trim_space (repo_id repository) = [] then (Inl (ErrText ''repository id is required''), s)
      else (Inr (), s\<lparr>ms_configs := (ms_configs s)(repo_id repository \<mapsto> cfg)\<rparr>))"

definition LatestAIConfig :: "string \<Rightarrow> ai_config store_op" where
  "LatestAIConfig repositoryID s =
     (case ms_configs s repositoryID of None \<Rightarrow> (Inl ErrNotFound, s) | Some cfg \<Rightarrow> (Inr cfg, s))"

definition Recommendations :: "string \<Rightarrow> recommendation_report store_op" where
  "Recommendations k s =
     (case ms_reports s k of None \<Rightarrow> (Inl ErrNotFound, s) | Some v \<Rightarrow> (Inr v, s))"

text \<open>The inner loops over the cards of one report: the first card with the identifier is closed, or
  removed.\<close>

fun close_card :: "string \<Rightarrow> recommendation_card list \<Rightarrow> (recommendation_card \<times> recommendation_card list) option"
  where
  "close_card k [] = None"
| "close_card k (c # cs) =
     (if card_id c = k then Some (c\<lparr>card_state := ''closed''\<rparr>, c\<lparr>card_state := ''closed''\<rparr> # cs)
      else (case close_card k cs of None \<Rightarrow> None | Some (shut, cs') \<Rightarrow> Some (shut, c # cs')))"

fun remove_card :: "string \<Rightarrow> recommendation_card list \<Rightarrow> recommendation_card list option" where
  "remove_card k [] = None"
| "remove_card k (c # cs) =
     (if card_id c = k then Some cs
      else (case remove_card k cs of None \<Rightarrow> None | Some cs' \<Rightarrow> Some (c # cs')))"

fun CloseRecommendation :: "string list \<Rightarrow> string \<Rightarrow> recommendation_card store_op" where
  "CloseRecommendation [] k s = (Inl ErrNotFound, s)"
| "CloseRecommendation (repo # order) k s =
     (case ms_reports s repo of
        None \<Rightarrow> CloseRecommendation order k s
      | Some r \<Rightarrow>
          (case close_card k (rep_recommendations r) of
             None \<Rightarrow> CloseRecommendation order k s
           | Some (shut, cards) \<Rightarrow>
               (Inr shut, s\<lparr>ms_reports := (ms_reports s)(repo \<mapsto> r\<lparr>rep_recommendations := cards\<rparr>)\<rparr>)))"

fun DeleteRecommendation :: "string list \<Rightarrow> string \<Rightarrow> unit store_op" where
  "DeleteRecommendation [] k s = (Inl ErrNotFound, s)"
| "DeleteRecommendation (repo # order) k s =
     (case ms_reports s repo of
        None \<Rightarrow> DeleteRecommendation order k s
      | Some r \<Rightarrow>
          (case remove_card k (rep_recommendations r) of
             None \<Rightarrow> DeleteRecommendation order k s
           | Some cards \<Rightarrow>
               (Inr (), s\<lparr>ms_reports := (ms_reports s)(repo \<mapsto> r\<lparr>rep_recommendations := cards\<rparr>)\<rparr>)))"

section \<open>Connections\<close>

definition same_target :: "gitflame_connection \<Rightarrow> gitflame_connection \<Rightarrow> bool" where
  "same_target existing v \<longleftrightarrow>
     con_user_id existing = con_user_id v \<and>
     repo_id (con_repository existing) = repo_id (con_repository v) \<and> repo_id (con_repository v) \<noteq> []"

definition connection_identity ::
    "gotime \<Rightarrow> string \<Rightarrow> string list \<Rightarrow> gitflame_connection \<Rightarrow> memory_store \<Rightarrow> gitflame_connection" where
  "connection_identity now nid order v0 s =
     (let v = (case find (\<lambda>existing. same_target existing v0) (ranging (ms_connections s) order) of
                 Some existing \<Rightarrow> v0\<lparr>con_id := con_id existing, con_created_at := con_created_at existing\<rparr>
               | None \<Rightarrow> v0)
      in if con_id v = [] then v\<lparr>con_id := nid, con_created_at := now\<rparr>
         else (case ms_connections s (con_id v) of
                 Some existing \<Rightarrow> v\<lparr>con_created_at := con_created_at existing\<rparr>
               | None \<Rightarrow> v))"

definition connection_defaults :: "gitflame_connection \<Rightarrow> gitflame_connection" where
  "connection_defaults v0 =
     (let v1 = (if con_token_status v0 = [] then v0\<lparr>con_token_status := ''active''\<rparr> else v0);
          v2 = (if con_default_branch v1 = []
                then v1\<lparr>con_default_branch := repo_default_branch (con_repository v1)\<rparr> else v1)
      in if repo_default_branch (con_repository v2) = []
         then v2\<lparr>con_repository := (con_repository v2)\<lparr>repo_default_branch := con_default_branch v2\<rparr>\<rparr>
         else v2)"

definition SaveGitFlameConnection ::
    "gotime \<Rightarrow> string \<Rightarrow> string list \<Rightarrow> gitflame_connection \<Rightarrow> gitflame_connection store_op" where
  "SaveGitFlameConnection now nid order v0 s =
     (let v = (connection_defaults (connection_identity now nid order v0 s))\<lparr>con_updated_at := now\<rparr>
      in (Inr v, s\<lparr>ms_connections := (ms_connections s)(con_id v \<mapsto> v)\<rparr>))"

definition GitFlameConnection :: "string \<Rightarrow> gitflame_connection store_op" where
  "GitFlameConnection k s =
     (case ms_connections s k of None \<Rightarrow> (Inl ErrNotFound, s) | Some v \<Rightarrow> (Inr v, s))"

definition UserGitFlameConnection :: "string \<Rightarrow> string \<Rightarrow> gitflame_connection store_op" where
  "UserGitFlameConnection userID k =
     bindS (GitFlameConnection k)
       (\<lambda>connection. if con_user_id connection \<noteq> userID then failS ErrNotFound else retS connection)"

definition UserGitFlameConnectionByRepository ::
    "string list \<Rightarrow> string \<Rightarrow> string \<Rightarrow> gitflame_connection store_op" where
  "UserGitFlameConnectionByRepository order userID repositoryID s =
     (case find (\<lambda>c. con_user_id c = userID \<and> repo_id (con_repository c) = repositoryID \<and>
                  con_revoked_at c = None) (ranging (ms_connections s) order) of
        Some c \<Rightarrow> (Inr c, s)
      | None \<Rightarrow> (Inl ErrNotFound, s))"

definition RevokeGitFlameConnection :: "gotime \<Rightarrow> string \<Rightarrow> string \<Rightarrow> gitflame_connection store_op" where
  "RevokeGitFlameConnection now userID k s =
     (case ms_connections s k of
        None \<Rightarrow> (Inl ErrNotFound, s)
      | Some connection \<Rightarrow>
          if con_user_id connection \<noteq> userID then (Inl ErrNotFound, s)
          else let revoked = connection\<lparr>con_token_status := ''revoked'', con_revoked_at := Some now,
                                  con_updated_at := now\<rparr>
               in (Inr revoked, s\<lparr>ms_connections := (ms_connections s)(k \<mapsto> revoked)\<rparr>))"

definition TouchGitFlameConnection :: "gotime \<Rightarrow> string \<Rightarrow> string \<Rightarrow> unit store_op" where
  "TouchGitFlameConnection now userID k s =
     (case ms_connections s k of
        None \<Rightarrow> (Inl ErrNotFound, s)
      | Some connection \<Rightarrow>
          if con_user_id connection \<noteq> userID then (Inl ErrNotFound, s)
          else (Inr (), s\<lparr>ms_connections := (ms_connections s)
                 (k \<mapsto> connection\<lparr>con_last_used_at := Some now, con_updated_at := now\<rparr>)\<rparr>))"

section \<open>Webhooks and their events\<close>

definition SaveGitFlameWebhook ::
    "gotime \<Rightarrow> string \<Rightarrow> gitflame_webhook_registration \<Rightarrow> gitflame_webhook_registration store_op" where
  "SaveGitFlameWebhook now nid v0 s =
     (let v1 = (if wh_id v0 = [] then v0\<lparr>wh_id := nid, wh_created_at := now\<rparr>
                else (case ms_webhooks s (wh_id v0) of
                        Some existing \<Rightarrow> v0\<lparr>wh_created_at := wh_created_at existing\<rparr>
                      | None \<Rightarrow> v0));
          v2 = (if wh_status v1 = [] then v1\<lparr>wh_status := ''pending''\<rparr> else v1);
          v = v2\<lparr>wh_updated_at := now\<rparr>
      in (Inr v, s\<lparr>ms_webhooks := (ms_webhooks s)(wh_id v \<mapsto> v)\<rparr>))"

definition GitFlameWebhook :: "string \<Rightarrow> gitflame_webhook_registration store_op" where
  "GitFlameWebhook k s =
     (case ms_webhooks s k of None \<Rightarrow> (Inl ErrNotFound, s) | Some v \<Rightarrow> (Inr v, s))"

definition GitFlameWebhookByConnection ::
    "string list \<Rightarrow> string \<Rightarrow> gitflame_webhook_registration store_op" where
  "GitFlameWebhookByConnection order connectionID s =
     (case find (\<lambda>w. wh_connection_id w = connectionID) (ranging (ms_webhooks s) order) of
        Some w \<Rightarrow> (Inr w, s)
      | None \<Rightarrow> (Inl ErrNotFound, s))"

definition SaveGitFlameWebhookEvent ::
    "gotime \<Rightarrow> string \<Rightarrow> gitflame_webhook_event \<Rightarrow> gitflame_webhook_event store_op" where
  "SaveGitFlameWebhookEvent now nid v0 s =
     (let v1 = (if ev_id v0 = [] then v0\<lparr>ev_id := nid\<rparr> else v0);
          v2 = (if ev_status v1 = [] then v1\<lparr>ev_status := ''received''\<rparr> else v1);
          v = (if time_IsZero (ev_received_at v2) then v2\<lparr>ev_received_at := now\<rparr> else v2)
      in (Inr v, s\<lparr>ms_events := (ms_events s)(ev_id v \<mapsto> v)\<rparr>))"

definition GitFlameWebhookEvents ::
    "string list \<Rightarrow> string \<Rightarrow> int \<Rightarrow> gitflame_webhook_event list store_op" where
  "GitFlameWebhookEvents order webhookID limit0 s =
     (let limit = (if limit0 < 1 \<or> limit0 > 100 then 50 else limit0);
          result = sort_key (\<lambda>e. - ev_received_at e)
            (filter (\<lambda>e. ev_webhook_id e = webhookID) (ranging (ms_events s) order))
      in (Inr (if go_len result > limit then take (nat limit) result else result), s))"

section \<open>Snapshots\<close>

definition SaveRepositorySnapshot ::
    "gotime \<Rightarrow> string \<Rightarrow> repository_snapshot \<Rightarrow> repository_snapshot_file list \<Rightarrow>
     repository_snapshot store_op" where
  "SaveRepositorySnapshot now nid v0 files s =
     (let v1 = (if sn_id v0 = [] then v0\<lparr>sn_id := nid\<rparr> else v0);
          v2 = (if sn_status v1 = [] then v1\<lparr>sn_status := ''fetched''\<rparr> else v1)
      in if trim_space (sn_repository_id v2) = []
         then (Inl (ErrText ''repository snapshot requires repository id''), s)
         else
           let v3 = (if time_IsZero (sn_fetched_at v2) then v2\<lparr>sn_fetched_at := now\<rparr> else v2);
               v = (if sn_file_count v3 = 0 then v3\<lparr>sn_file_count := go_len files\<rparr> else v3)
           in (Inr v, s\<lparr>ms_snapshots := (ms_snapshots s)(sn_id v \<mapsto> v),
                       ms_snapshotFiles := (ms_snapshotFiles s)(sn_id v \<mapsto> files)\<rparr>))"

definition RepositorySnapshot ::
    "string \<Rightarrow> (repository_snapshot \<times> repository_snapshot_file list) store_op" where
  "RepositorySnapshot k s =
     (case ms_snapshots s k of
        None \<Rightarrow> (Inl ErrNotFound, s)
      | Some v \<Rightarrow> (Inr (v, case ms_snapshotFiles s k of None \<Rightarrow> [] | Some files \<Rightarrow> files), s))"

section \<open>Operational views\<close>

text \<open>Counting occurrences in a Go map: \<open>m[key]++\<close>.\<close>

definition increment :: "(string \<rightharpoonup> int) \<Rightarrow> string \<Rightarrow> (string \<rightharpoonup> int)" where
  "increment m k = m(k \<mapsto> (case m k of None \<Rightarrow> 1 | Some n \<Rightarrow> n + 1))"

definition tally :: "string list \<Rightarrow> (string \<rightharpoonup> int)" where
  "tally ks = foldl increment Map.empty ks"

record observability_counts =
  oc_connections_by_token_status :: "string \<rightharpoonup> int"
  oc_tasks_by_status_last24h :: "string \<rightharpoonup> int"

definition ObservabilityCounts ::
    "gotime \<Rightarrow> string list \<Rightarrow> string list \<Rightarrow> observability_counts store_op" where
  "ObservabilityCounts now corder torder s =
     (let threshold = now - seconds (24 * 3600)
      in (Inr \<lparr>oc_connections_by_token_status =
            tally (map (\<lambda>c. if con_token_status c = [] then ''unknown'' else con_token_status c)
              (ranging (ms_connections s) corder)),
           oc_tasks_by_status_last24h =
            tally (map task_status
              (filter (\<lambda>t. \<not> task_created_at t < threshold) (ranging (ms_tasks s) torder)))\<rparr>, s))"

record recent_tasks_query =
  rq_limit :: int
  rq_status :: string

record agent_task_summary =
  sum_id :: string
  sum_session_id :: string
  sum_type :: string
  sum_status :: string
  sum_attempt :: int
  sum_model :: string
  sum_error_code :: string
  sum_duration_ms :: int
  sum_created_at :: gotime
  sum_updated_at :: gotime

text \<open>\<open>Time.Sub\<close> saturates at the range of a 64-bit duration; \<open>Milliseconds\<close> truncates towards zero.\<close>

definition time_Sub :: "gotime \<Rightarrow> gotime \<Rightarrow> int" where
  "time_Sub t u = max (- (2 ^ 63)) (min (2 ^ 63 - 1) (t - u))"

definition milliseconds_of :: "int \<Rightarrow> int" where
  "milliseconds_of d = (if d < 0 then - ((- d) div 1000000) else d div 1000000)"

definition summarizeTask :: "agent_task \<Rightarrow> agent_task_summary" where
  "summarizeTask task =
     \<lparr>sum_id = task_id task, sum_session_id = task_session_id task, sum_type = task_type task,
      sum_status = task_status task, sum_attempt = task_attempt task, sum_model = task_model task,
      sum_error_code = (case task_err task of None \<Rightarrow> [] | Some e \<Rightarrow> te_code e),
      sum_duration_ms =
        (if \<not> time_IsZero (task_updated_at task) \<and> \<not> time_IsZero (task_created_at task)
         then milliseconds_of (time_Sub (task_updated_at task) (task_created_at task)) else 0),
      sum_created_at = task_created_at task, sum_updated_at = task_updated_at task\<rparr>"

definition RecentAgentTasks ::
    "string list \<Rightarrow> recent_tasks_query \<Rightarrow> agent_task_summary list store_op" where
  "RecentAgentTasks order query s =
     (let summaries = sort_key (\<lambda>m. - sum_created_at m)
            (map summarizeTask
              (filter (\<lambda>t. \<not> (rq_status query \<noteq> [] \<and> task_status t \<noteq> rq_status query))
                (ranging (ms_tasks s) order)))
      in (Inr (if rq_limit query > 0 \<and> go_len summaries > rq_limit query
               then take (nat (rq_limit query)) summaries else summaries), s))"

section \<open>The tables are keyed stores\<close>

interpretation tasks: keyed_store task_id Task "\<lambda>(now, v). UpdateTask now v"
  by unfold_locales (auto simp: Task_def UpdateTask_def Let_def split: option.splits)

interpretation new_tasks: keyed_store task_id Task
    "\<lambda>(now, nid, sessionID, issueID, taskType). CreateTask now nid sessionID issueID taskType"
  by unfold_locales (auto simp: Task_def CreateTask_def Let_def split: option.splits)

interpretation connections: keyed_store con_id GitFlameConnection
    "\<lambda>(now, nid, order, v). SaveGitFlameConnection now nid order v"
  by unfold_locales (auto simp: GitFlameConnection_def SaveGitFlameConnection_def Let_def split: option.splits)

interpretation webhooks: keyed_store wh_id GitFlameWebhook "\<lambda>(now, nid, v). SaveGitFlameWebhook now nid v"
  by unfold_locales (auto simp: GitFlameWebhook_def SaveGitFlameWebhook_def Let_def split: option.splits)

interpretation reports: keyed_store rep_repository_id Recommendations
    "\<lambda>(repository, cfg, summary, cards). SaveRecommendations sha256 repository cfg summary cards"
  for sha256
  by unfold_locales (auto simp: Recommendations_def SaveRecommendations_def Let_def split: option.splits)

interpretation snapshots: keyed_store "\<lambda>(v, files). sn_id v" RepositorySnapshot
    "\<lambda>(now, nid, v, files). bindS (SaveRepositorySnapshot now nid v files) (\<lambda>saved. retS (saved, files))"
  by unfold_locales
    (auto simp: RepositorySnapshot_def SaveRepositorySnapshot_def bindS_def Let_def
      split: option.splits if_splits sum.splits prod.splits)

section \<open>The invariant of the store\<close>

definition keyed :: "('v \<Rightarrow> string) \<Rightarrow> (string \<rightharpoonup> 'v) \<Rightarrow> bool" where
  "keyed key m \<longleftrightarrow> (\<forall>k v. m k = Some v \<longrightarrow> key v = k)"

lemma keyed_upd: "keyed key m \<Longrightarrow> key v = k \<Longrightarrow> keyed key (m(k \<mapsto> v))"
  by (simp add: keyed_def)

lemma keyed_empty [simp]: "keyed key Map.empty"
  by (simp add: keyed_def)

definition sessions_ok :: "memory_store \<Rightarrow> bool" where
  "sessions_ok s \<longleftrightarrow> keyed ses_id (ms_sessions s) \<and> ran (ms_issueIndex s) \<subseteq> dom (ms_sessions s)"

definition users_ok :: "memory_store \<Rightarrow> bool" where
  "users_ok s \<longleftrightarrow> keyed user_id (ms_users s) \<and>
     (\<forall>g uid. ms_userIndex s g = Some uid \<longrightarrow>
        (\<exists>u. ms_users s uid = Some u \<and> user_gitflame_user_id u = g))"

definition app_sessions_ok :: "memory_store \<Rightarrow> bool" where
  "app_sessions_ok s \<longleftrightarrow> keyed aps_id (ms_appSessions s) \<and>
     ran (ms_sessionHashes s) \<subseteq> dom (ms_appSessions s)"

definition unique_targets :: "(string \<rightharpoonup> gitflame_connection) \<Rightarrow> bool" where
  "unique_targets m \<longleftrightarrow> (\<forall>c \<in> ran m. \<forall>d \<in> ran m. same_target c d \<longrightarrow> c = d)"

definition connections_ok :: "memory_store \<Rightarrow> bool" where
  "connections_ok s \<longleftrightarrow> keyed con_id (ms_connections s) \<and> unique_targets (ms_connections s) \<and>
     (\<forall>c \<in> ran (ms_connections s). con_id c \<noteq> [])"

definition reports_ok :: "memory_store \<Rightarrow> bool" where
  "reports_ok s \<longleftrightarrow> keyed rep_repository_id (ms_reports s) \<and>
     (\<forall>r \<in> ran (ms_reports s). distinct (map card_finding_fingerprint (rep_recommendations r)))"

definition store_ok :: "memory_store \<Rightarrow> bool" where
  "store_ok s \<longleftrightarrow> sessions_ok s \<and> keyed task_id (ms_tasks s) \<and> users_ok s \<and> app_sessions_ok s \<and>
     connections_ok s \<and> reports_ok s \<and> keyed wh_id (ms_webhooks s) \<and> keyed ev_id (ms_events s) \<and>
     keyed sn_id (ms_snapshots s) \<and> dom (ms_snapshotFiles s) = dom (ms_snapshots s)"

lemmas store_ok_defs = sessions_ok_def users_ok_def app_sessions_ok_def connections_ok_def reports_ok_def

lemma store_ok_new: "store_ok NewMemoryStore"
  by (simp add: store_ok_def store_ok_defs NewMemoryStore_def unique_targets_def)

text \<open>Operations that read the store leave it as it is.\<close>

lemma reads_only [simp]:
  "snd (Session k s) = s" "snd (Task k s) = s" "snd (LatestTask order k s) = s"
  "snd (LatestAIConfig k s) = s" "snd (Recommendations k s) = s" "snd (GitFlameConnection k s) = s"
  "snd (UserGitFlameConnection u k s) = s" "snd (UserGitFlameConnectionByRepository order u k s) = s"
  "snd (GitFlameWebhook k s) = s" "snd (GitFlameWebhookByConnection order k s) = s"
  "snd (GitFlameWebhookEvents order k n s) = s" "snd (RepositorySnapshot k s) = s"
  "snd (ObservabilityCounts now corder torder s) = s" "snd (RecentAgentTasks order q s) = s"
  "snd (Ping s) = s"
  by (auto simp: Session_def Task_def LatestTask_def LatestAIConfig_def Recommendations_def
      GitFlameConnection_def UserGitFlameConnection_def UserGitFlameConnectionByRepository_def
      GitFlameWebhook_def GitFlameWebhookByConnection_def GitFlameWebhookEvents_def RepositorySnapshot_def
      ObservabilityCounts_def RecentAgentTasks_def Ping_def bindS_def Let_def
      split: option.splits sum.splits prod.splits)

lemma ran_upd_dom: "ran m \<subseteq> D \<Longrightarrow> x \<in> D \<Longrightarrow> ran (m(k \<mapsto> x)) \<subseteq> D"
  using ran_upd_subset by fastforce

lemma keeps_UpdateSession [keeps_intros]: "keeps store_ok (UpdateSession now v)"
proof (rule keepsI)
  fix s assume "store_ok s"
  then have "keyed ses_id (ms_sessions s)" "ran (ms_issueIndex s) \<subseteq> insert (ses_id v) (dom (ms_sessions s))"
    by (auto simp: store_ok_def sessions_ok_def)
  then have "sessions_ok (snd (UpdateSession now v s))"
    by (simp add: sessions_ok_def UpdateSession_def Let_def keyed_upd ran_upd_dom)
  with \<open>store_ok s\<close> show "store_ok (snd (UpdateSession now v s))"
    by (simp add: store_ok_def UpdateSession_def Let_def users_ok_def app_sessions_ok_def connections_ok_def reports_ok_def)
qed

lemma keeps_CreateSession [keeps_intros]: "keeps store_ok (CreateSession now nid req cfg)"
proof (rule keepsI)
  fix s assume ok: "store_ok s"
  let ?k = "sessionKey (repo_id (req_repository req)) (issue_id (req_issue req))"
  show "store_ok (snd (CreateSession now nid req cfg s))"
  proof (cases "ms_issueIndex s ?k")
    case None
    have "keyed ses_id (ms_sessions s)" "ran (ms_issueIndex s) \<subseteq> insert nid (dom (ms_sessions s))"
      using ok by (auto simp: store_ok_def sessions_ok_def)
    with None have "sessions_ok (snd (CreateSession now nid req cfg s))"
      by (simp add: sessions_ok_def CreateSession_def Let_def keyed_upd ran_upd_dom)
    with ok None show ?thesis
      by (simp add: store_ok_def CreateSession_def Let_def users_ok_def app_sessions_ok_def connections_ok_def reports_ok_def)
  next
    case (Some sid)
    with ok show ?thesis
      by (cases "ms_sessions s sid") (simp_all add: CreateSession_def)
  qed
qed

lemma keeps_tasks [keeps_intros]:
  "keeps store_ok (CreateTask now nid sessionID issueID taskType)" "keeps store_ok (UpdateTask now v)"
  by (auto intro!: keepsI simp: store_ok_def store_ok_defs CreateTask_def UpdateTask_def Let_def keyed_upd)

lemma keeps_readers [keeps_intros]:
  "keeps P (Session k)" "keeps P (Task k)" "keeps P (LatestTask order k)" "keeps P (LatestAIConfig k)"
  "keeps P (Recommendations k)" "keeps P (GitFlameConnection k)" "keeps P (UserGitFlameConnection u k)"
  "keeps P (UserGitFlameConnectionByRepository order u k)" "keeps P (GitFlameWebhook k)"
  "keeps P (GitFlameWebhookByConnection order k)" "keeps P (GitFlameWebhookEvents order k n)"
  "keeps P (RepositorySnapshot k)" "keeps P (ObservabilityCounts now corder torder)"
  "keeps P (RecentAgentTasks order q)" "keeps P Ping"
  by (simp_all add: keeps_def)

text \<open>A new user needs an identifier that is not in use: the caller's or a fresh one.\<close>

lemma UpsertAppUser_store_ok:
  assumes ok: "store_ok s" and fresh: "user_id v = []" "ms_users s nid = None"
  shows "store_ok (snd (UpsertAppUser now nid v s))"
proof -
  have key: "keyed user_id (ms_users s)"
    and idx: "\<And>g uid. ms_userIndex s g = Some uid \<Longrightarrow>
      \<exists>u. ms_users s uid = Some u \<and> user_gitflame_user_id u = g"
    using ok by (auto simp: store_ok_def users_ok_def)
  have "users_ok (snd (UpsertAppUser now nid v s))"
  proof (cases "user_gitflame_user_id v = []")
    case False
    show ?thesis
    proof (cases "ms_userIndex s (user_gitflame_user_id v)")
      case None
      have "uid \<noteq> nid" if "ms_userIndex s g = Some uid" for g uid
        using idx [OF that] fresh by auto
      with None False fresh idx key show ?thesis
        by (fastforce simp: UpsertAppUser_def users_ok_def Let_def keyed_upd)
    next
      case (Some uid)
      with idx obtain u where u: "ms_users s uid = Some u" "user_gitflame_user_id u = user_gitflame_user_id v"
        by blast
      moreover from u key have "user_id u = uid" by (simp add: keyed_def)
      ultimately show ?thesis
        using Some False idx key
        by (fastforce simp: UpsertAppUser_def users_ok_def Let_def keyed_upd)
    qed
  qed (use key idx in \<open>simp add: UpsertAppUser_def users_ok_def\<close>)
  with ok show ?thesis
    by (auto simp: store_ok_def UpsertAppUser_def Let_def sessions_ok_def app_sessions_ok_def
        connections_ok_def reports_ok_def split: option.splits)
qed

lemma keeps_app_sessions [keeps_intros]:
  "keeps store_ok (CreateAppSession now nid userID tokenHash expiresAt)"
  "keeps store_ok (AppSessionByTokenHash now now2 tokenHash)"
  "keeps store_ok (RevokeAppSession now sessionID)"
proof -
  have app: "store_ok s \<Longrightarrow> keyed aps_id (ms_appSessions s) \<and> ran (ms_sessionHashes s) \<subseteq> dom (ms_appSessions s)"
    for s by (simp add: store_ok_def app_sessions_ok_def)
  have frame: "store_ok s \<Longrightarrow> keyed aps_id A \<Longrightarrow> ran H \<subseteq> dom A \<Longrightarrow>
      store_ok (s\<lparr>ms_appSessions := A, ms_sessionHashes := H\<rparr>)"
    "store_ok s \<Longrightarrow> keyed aps_id A \<Longrightarrow> ran (ms_sessionHashes s) \<subseteq> dom A \<Longrightarrow>
      store_ok (s\<lparr>ms_appSessions := A\<rparr>)" for s A H
    by (simp_all add: store_ok_def store_ok_defs)
  have upd: "ran (ms_sessionHashes s) \<subseteq> insert k (dom (ms_appSessions s))" if "store_ok s" for s k
    using app [OF that] by blast
  have known: "\<exists>y. ms_appSessions s x = Some y" if "store_ok s" "x \<in> ran (ms_sessionHashes s)" for s x
    using app [OF that(1)] that(2) by blast
  show "keeps store_ok (CreateAppSession now nid userID tokenHash expiresAt)"
    by (rule keepsI) (auto simp: CreateAppSession_def Let_def app keyed_upd
        intro!: frame dest!: ran_upd_subset [THEN subsetD] dest: known split: option.splits)
  have same: "aps_id a = k" if "store_ok s" "ms_appSessions s k = Some a" for s k a
    using app [OF that(1)] that(2) by (simp add: keyed_def)
  show "keeps store_ok (AppSessionByTokenHash now now2 tokenHash)"
    by (rule keepsI) (auto simp: AppSessionByTokenHash_def Let_def app keyed_upd same upd
        intro!: frame dest: known split: option.splits)
  show "keeps store_ok (RevokeAppSession now sessionID)"
    by (rule keepsI) (auto simp: RevokeAppSession_def app keyed_upd same upd
        intro!: frame dest: known split: option.splits)
qed

text \<open>A saved connection takes the identifier of the connection that has its target already.\<close>

lemma connection_defaults_simps [simp]:
  "con_id (connection_defaults v) = con_id v" "con_user_id (connection_defaults v) = con_user_id v"
  "repo_id (con_repository (connection_defaults v)) = repo_id (con_repository v)"
  "con_revoked_at (connection_defaults v) = con_revoked_at v"
  by (simp_all add: connection_defaults_def Let_def)

lemma connection_identity_simps [simp]:
  "con_user_id (connection_identity now nid order v s) = con_user_id v"
  "con_repository (connection_identity now nid order v s) = con_repository v"
  by (auto simp: connection_identity_def Let_def split: option.split)

lemma find_Some_member: "find P xs = Some x \<Longrightarrow> x \<in> set xs \<and> P x"
  by (induction xs) (auto split: if_splits)

lemma connection_identity_id:
  assumes "keyed con_id (ms_connections s)" and "visits (ms_connections s) order"
    and "\<forall>c \<in> ran (ms_connections s). con_id c \<noteq> []"
    and "c \<in> ran (ms_connections s)" and "same_target c v" and "unique_targets (ms_connections s)"
  shows "con_id (connection_identity now nid order v s) = con_id c"
proof -
  have "find (\<lambda>e. same_target e v) (ranging (ms_connections s) order) \<noteq> None"
    using assms(4,5) set_ranging [OF assms(2)] by (auto simp: find_None_iff)
  then obtain d where d: "find (\<lambda>e. same_target e v) (ranging (ms_connections s) order) = Some d" by blast
  then have "d \<in> ran (ms_connections s)" "same_target d v"
    using find_Some_member [OF d] set_ranging [OF assms(2)] by auto
  moreover from this have "same_target c d" using assms(5) by (auto simp: same_target_def)
  ultimately have "d = c" using assms(4,6) by (auto simp: unique_targets_def)
  with d assms(3,4) show ?thesis
    by (auto simp: connection_identity_def Let_def split: option.split)
qed

lemma same_target_sym: "same_target c d \<Longrightarrow> same_target d c"
  by (auto simp: same_target_def)

lemma same_target_trans: "same_target c d \<Longrightarrow> same_target d e \<Longrightarrow> same_target c e"
  by (auto simp: same_target_def)

lemma keyed_ran: "keyed key m \<Longrightarrow> c \<in> ran m \<Longrightarrow> m (key c) = Some c"
  by (auto simp: keyed_def ran_def)

lemma ran_upd_keyed:
  "keyed key m \<Longrightarrow> c \<in> ran (m(k \<mapsto> v)) \<Longrightarrow> c = v \<or> (c \<in> ran m \<and> key c \<noteq> k)"
  by (auto simp: keyed_def ran_def split: if_splits)

lemma unique_targets_upd:
  assumes "keyed con_id m" and "unique_targets m" and "con_id v = k"
    and "\<And>c. c \<in> ran m \<Longrightarrow> same_target c v \<Longrightarrow> con_id c = k"
  shows "unique_targets (m(k \<mapsto> v))"
  unfolding unique_targets_def
proof (intro ballI impI)
  fix c d assume cd: "c \<in> ran (m(k \<mapsto> v))" "d \<in> ran (m(k \<mapsto> v))" "same_target c d"
  show "c = d"
    using ran_upd_keyed [OF assms(1) cd(1)] ran_upd_keyed [OF assms(1) cd(2)] assms(2,4) cd(3)
    by (auto simp: unique_targets_def dest: same_target_sym)
qed

lemma SaveGitFlameConnection_store_ok:
  assumes ok: "store_ok s" and "nid \<noteq> []" and "visits (ms_connections s) order"
  shows "store_ok (snd (SaveGitFlameConnection now nid order v s))"
proof -
  have c: "keyed con_id (ms_connections s)" "unique_targets (ms_connections s)"
      "\<forall>c \<in> ran (ms_connections s). con_id c \<noteq> []"
    using ok by (auto simp: store_ok_def connections_ok_def)
  have ne: "con_id (connection_identity now nid order v s) \<noteq> []"
    using assms(2) by (auto simp: connection_identity_def Let_def split: option.split)
  have "connections_ok (snd (SaveGitFlameConnection now nid order v s))"
  proof -
    define w where "w = (connection_defaults (connection_identity now nid order v s))\<lparr>con_updated_at := now\<rparr>"
    have id: "con_id w = con_id (connection_identity now nid order v s)" by (simp add: w_def)
    have "con_id d = con_id w" if "d \<in> ran (ms_connections s)" "same_target d w" for d
    proof -
      have "same_target d v" using that(2) by (simp add: w_def same_target_def)
      from connection_identity_id [OF c(1) assms(3) c(3) that(1) this c(2)] id show ?thesis by simp
    qed
    then have "unique_targets ((ms_connections s)(con_id w \<mapsto> w))"
      by (intro unique_targets_upd c) simp_all
    moreover have "\<forall>d \<in> ran ((ms_connections s)(con_id w \<mapsto> w)). con_id d \<noteq> []"
      using c(3) ne id by (intro ball_ran_upd) auto
    ultimately show ?thesis
      using c(1) by (simp add: connections_ok_def SaveGitFlameConnection_def Let_def w_def [symmetric] keyed_upd)
  qed
  with ok show ?thesis
    by (simp add: store_ok_def SaveGitFlameConnection_def Let_def sessions_ok_def users_ok_def
        app_sessions_ok_def reports_ok_def)
qed

lemma connection_update_store_ok:
  assumes ok: "store_ok s" and at: "ms_connections s k = Some c"
    and same: "con_id d = con_id c" "con_user_id d = con_user_id c" "con_repository d = con_repository c"
  shows "store_ok (s\<lparr>ms_connections := (ms_connections s)(k \<mapsto> d)\<rparr>)"
proof -
  have c: "keyed con_id (ms_connections s)" "unique_targets (ms_connections s)"
      "\<forall>c \<in> ran (ms_connections s). con_id c \<noteq> []"
    using ok by (auto simp: store_ok_def connections_ok_def)
  have mem: "c \<in> ran (ms_connections s)" and id: "con_id c = k"
    using at c(1) by (auto simp: ran_def keyed_def)
  have "con_id e = k" if "e \<in> ran (ms_connections s)" "same_target e d" for e
  proof -
    have "same_target e c" using that same by (simp add: same_target_def)
    then show ?thesis using c(2) that(1) mem id by (auto simp: unique_targets_def)
  qed
  then have "connections_ok (s\<lparr>ms_connections := (ms_connections s)(k \<mapsto> d)\<rparr>)"
    using c id mem same
    by (auto simp: connections_ok_def keyed_upd intro!: unique_targets_upd dest!: ran_upd_subset [THEN subsetD])
  with ok show ?thesis
    by (simp add: store_ok_def sessions_ok_def users_ok_def app_sessions_ok_def reports_ok_def)
qed

lemma keeps_connections [keeps_intros]:
  "keeps store_ok (RevokeGitFlameConnection now userID k)"
  "keeps store_ok (TouchGitFlameConnection now userID k)"
  by (auto intro!: keepsI simp: RevokeGitFlameConnection_def TouchGitFlameConnection_def Let_def
      connection_update_store_ok split: option.split)

lemma keeps_webhooks [keeps_intros]:
  "keeps store_ok (SaveGitFlameWebhook now nid v)" "keeps store_ok (SaveGitFlameWebhookEvent now nid e)"
  "keeps store_ok (SaveRepositorySnapshot now nid sn files)" "keeps store_ok (SaveAIConfig repository cfg)"
  by (auto intro!: keepsI simp: SaveGitFlameWebhook_def SaveGitFlameWebhookEvent_def
      SaveRepositorySnapshot_def SaveAIConfig_def Let_def store_ok_def store_ok_defs keyed_upd)

lemma reports_store_ok:
  assumes "store_ok s" and "rep_repository_id r = k"
    and "distinct (map card_finding_fingerprint (rep_recommendations r))"
  shows "store_ok (s\<lparr>ms_reports := (ms_reports s)(k \<mapsto> r)\<rparr>)"
  using assms
  by (auto simp: store_ok_def store_ok_defs keyed_upd dest!: ran_upd_subset [THEN subsetD])

lemma keeps_SaveRecommendations [keeps_intros]:
  "keeps store_ok (SaveRecommendations sha256 repository cfg summary cards)"
  by (rule keepsI) (simp add: SaveRecommendations_def Let_def reports_store_ok NormalizeRecommendations_def
      normalize_cards_distinct)

lemma close_card_fingerprints:
  "close_card k cs = Some (shut, cs') \<Longrightarrow>
     map card_finding_fingerprint cs' = map card_finding_fingerprint cs \<and>
     card_id shut = k \<and> card_state shut = ''closed'' \<and> shut \<in> set cs'"
  by (induction cs arbitrary: cs') (auto split: if_splits option.splits)

lemma remove_card_split: "remove_card k cs = Some cs' \<Longrightarrow> \<exists>a c b. cs = a @ c # b \<and> cs' = a @ b \<and> card_id c = k"
proof (induction cs arbitrary: cs')
  case (Cons c cs)
  show ?case
  proof (cases "card_id c = k")
    case True
    with Cons.prems show ?thesis by (intro exI [of _ "[]"] exI [of _ c] exI [of _ cs]) simp
  next
    case False
    with Cons.prems obtain ds where "remove_card k cs = Some ds" "cs' = c # ds"
      by (auto split: option.splits)
    with Cons.IH obtain a d b where "cs = a @ d # b" "ds = a @ b" "card_id d = k" by blast
    with \<open>cs' = c # ds\<close> show ?thesis by (intro exI [of _ "c # a"] exI [of _ d] exI [of _ b]) simp
  qed
qed simp

lemma report_member: "store_ok s \<Longrightarrow> ms_reports s k = Some r \<Longrightarrow>
    rep_repository_id r = k \<and> distinct (map card_finding_fingerprint (rep_recommendations r))"
  by (auto simp: store_ok_def reports_ok_def keyed_def ran_def)

lemma keeps_CloseRecommendation [keeps_intros]: "keeps store_ok (CloseRecommendation order k)"
proof (induction order)
  case (Cons repo order)
  then show ?case
    by (auto simp: keeps_def report_member dest: close_card_fingerprints
        intro!: reports_store_ok split: option.split)
qed (simp add: keeps_def)

lemma keeps_DeleteRecommendation [keeps_intros]: "keeps store_ok (DeleteRecommendation order k)"
proof (induction order)
  case (Cons repo order)
  have removed: "distinct (map card_finding_fingerprint cs')"
    if "remove_card k (rep_recommendations r) = Some cs'" "ms_reports s repo = Some r" "store_ok s" for s r cs'
    using remove_card_split [OF that(1)] report_member [OF that(3,2)] by auto
  show ?case
    using Cons by (auto simp: keeps_def report_member intro!: reports_store_ok dest: removed split: option.split)
qed (simp add: keeps_def)

end
