(* ===== verification/Go_Path.thy ===== *)
theory Go_Path imports Go_Strings begin

text \<open>
  Go's \<open>path.Clean\<close> and \<open>path.Join\<close>, processing a slash-separated path element by element on a
  stack (kept in reverse), and what a cleaned path looks like. The lemmas are what the path guards
  of the program rely on: a cleaned relative path has all its \<open>..\<close> elements in front.
\<close>

section \<open>Cleaning a path\<close>

definition slash :: char where
  "slash = CHR ''/''"

definition dot :: string where
  "dot = ''.''"

definition dotdot :: string where
  "dotdot = ''..''"

definition clean_step :: "bool \<Rightarrow> string list \<Rightarrow> string \<Rightarrow> string list" where
  "clean_step rooted st w =
     (if w = [] \<or> w = dot then st
      else if w = dotdot then
        (case st of [] \<Rightarrow> (if rooted then [] else [dotdot])
         | v # vs \<Rightarrow> (if v = dotdot then dotdot # st else vs))
      else w # st)"

definition clean_elements :: "bool \<Rightarrow> string list \<Rightarrow> string list" where
  "clean_elements rooted ws = rev (foldl (clean_step rooted) [] ws)"

definition path_Clean :: "string \<Rightarrow> string" where
  "path_Clean p =
     (if p = [] then dot
      else let rooted = has_prefix p [slash];
               out = (if rooted then [slash] else [])
                       @ join_with [slash] (clean_elements rooted (split_on slash p))
           in if out = [] then dot else out)"

definition path_Join :: "string list \<Rightarrow> string" where
  "path_Join ws =
     (let vs = filter (\<lambda>w. w \<noteq> []) ws
      in if vs = [] then [] else path_Clean (join_with [slash] vs))"

definition path_Base :: "string \<Rightarrow> string" where
  "path_Base p =
     (if p = [] then dot
      else let q = trim_right_chars [slash] p
           in if q = [] then [slash] else last (split_on slash q))"

section \<open>Clean element lists\<close>

text \<open>
  The elements of a cleaned path: none is empty or \<open>.\<close>, none holds a slash, and a \<open>..\<close> is only
  preceded by \<open>..\<close>; a rooted path has no \<open>..\<close> at all.
\<close>

definition proper_element :: "string \<Rightarrow> bool" where
  "proper_element w \<longleftrightarrow> w \<noteq> [] \<and> w \<noteq> dot \<and> slash \<notin> set w"

definition clean_stack :: "bool \<Rightarrow> string list \<Rightarrow> bool" where
  "clean_stack rooted st \<longleftrightarrow>
     (\<forall>w \<in> set st. proper_element w) \<and>
     (\<exists>us n. st = us @ replicate n dotdot \<and> dotdot \<notin> set us \<and> (rooted \<longrightarrow> n = 0))"

lemma dot_simps [simp]: "dot \<noteq> []" "dotdot \<noteq> []" "dot \<noteq> dotdot" "dotdot \<noteq> dot"
  "slash \<notin> set dot" "slash \<notin> set dotdot"
  by (simp_all add: dot_def dotdot_def slash_def)

lemma clean_stack_Nil: "clean_stack rooted []"
  by (simp add: clean_stack_def)

lemma clean_stack_push:
  assumes "clean_stack rooted st" and "proper_element w" and "w \<noteq> dotdot"
  shows "clean_stack rooted (w # st)"
proof -
  from assms(1) obtain us n where
    "st = us @ replicate n dotdot" "dotdot \<notin> set us" "rooted \<longrightarrow> n = 0"
    by (auto simp: clean_stack_def)
  with assms have "w # st = (w # us) @ replicate n dotdot" "dotdot \<notin> set (w # us)"
    by auto
  with assms \<open>rooted \<longrightarrow> n = 0\<close> show ?thesis
    by (auto simp: clean_stack_def intro!: exI [of _ "w # us"] exI [of _ n])
qed

lemma clean_stack_pop:
  assumes "clean_stack rooted (v # vs)" and "v \<noteq> dotdot"
  shows "clean_stack rooted vs"
proof -
  from assms(1) obtain us n where
    us: "v # vs = us @ replicate n dotdot" "dotdot \<notin> set us" "rooted \<longrightarrow> n = 0"
    by (auto simp: clean_stack_def)
  from us(1) assms(2) obtain us' where "us = v # us'"
    by (cases us) (auto simp: Cons_replicate_eq)
  with us have "vs = us' @ replicate n dotdot" "dotdot \<notin> set us'" by auto
  with assms(1) us(3) show ?thesis
    by (auto simp: clean_stack_def)
qed

lemma clean_stack_up:
  assumes "clean_stack rooted (dotdot # vs)"
  shows "clean_stack rooted (dotdot # dotdot # vs)"
proof -
  from assms obtain us n where
    us: "dotdot # vs = us @ replicate n dotdot" "dotdot \<notin> set us" "rooted \<longrightarrow> n = 0"
    by (auto simp: clean_stack_def)
  from us(1,2) have "us = []" by (cases us) auto
  with us(1) have "dotdot # dotdot # vs = [] @ replicate (Suc n) dotdot" and "n \<noteq> 0"
    by (auto intro: gr0I)
  with assms us(3) show ?thesis
    unfolding clean_stack_def
    by (metis empty_iff insert_iff list.set(1) list.simps(15))
qed

lemma clean_stack_step:
  assumes "clean_stack rooted st" and "slash \<notin> set w"
  shows "clean_stack rooted (clean_step rooted st w)"
proof (cases "w = [] \<or> w = dot")
  case True
  with assms show ?thesis by (simp add: clean_step_def)
next
  case False
  show ?thesis
  proof (cases "w = dotdot")
    case True
    show ?thesis
    proof (cases st)
      case Nil
      have "clean_stack False [dotdot]"
        unfolding clean_stack_def
        by (intro conjI exI [of _ "[]"] exI [of _ "Suc 0"]) (simp_all add: proper_element_def)
      with True Nil show ?thesis by (auto simp: clean_step_def clean_stack_Nil)
    next
      case (Cons v vs)
      with True assms show ?thesis
        by (auto simp: clean_step_def intro: clean_stack_up clean_stack_pop)
    qed
  next
    case False
    with \<open>\<not> (w = [] \<or> w = dot)\<close> assms show ?thesis
      by (simp add: clean_step_def clean_stack_push proper_element_def)
  qed
qed

lemma clean_stack_foldl:
  "clean_stack rooted st \<Longrightarrow> \<forall>w \<in> set ws. slash \<notin> set w \<Longrightarrow>
     clean_stack rooted (foldl (clean_step rooted) st ws)"
  by (induction ws arbitrary: st) (auto simp: clean_stack_step)

text \<open>The elements of a cleaned path: \<open>..\<close> elements, then elements that are none.\<close>

lemma clean_elements_shape:
  assumes "\<forall>w \<in> set ws. slash \<notin> set w"
  obtains n us where "clean_elements rooted ws = replicate n dotdot @ us"
    and "\<forall>w \<in> set us. proper_element w \<and> w \<noteq> dotdot" and "rooted \<longrightarrow> n = 0"
proof -
  have "clean_stack rooted (foldl (clean_step rooted) [] ws)"
    using assms by (intro clean_stack_foldl clean_stack_Nil)
  then obtain us n where
    "foldl (clean_step rooted) [] ws = us @ replicate n dotdot"
    "dotdot \<notin> set us" "rooted \<longrightarrow> n = 0" "\<forall>w \<in> set us. proper_element w"
    by (auto simp: clean_stack_def)
  then show thesis
    by (intro that [of n "rev us"]) (auto simp: clean_elements_def)
qed

text \<open>Cleaning a clean list of elements changes nothing.\<close>

lemma foldl_clean_proper:
  "\<forall>w \<in> set us. proper_element w \<and> w \<noteq> dotdot \<Longrightarrow>
     foldl (clean_step rooted) st us = rev us @ st"
  by (induction us arbitrary: st) (auto simp: clean_step_def proper_element_def)

lemma foldl_clean_dotdots:
  "foldl (clean_step False) (replicate m dotdot) (replicate n dotdot) = replicate (m + n) dotdot"
proof (induction n arbitrary: m)
  case 0
  then show ?case by simp
next
  case (Suc n)
  have "clean_step False (replicate m dotdot) dotdot = replicate (Suc m) dotdot"
    by (cases m) (simp_all add: clean_step_def)
  then show ?case using Suc.IH [of "Suc m"] by simp
qed

lemma clean_elements_clean:
  assumes "\<forall>w \<in> set us. proper_element w \<and> w \<noteq> dotdot" and "rooted \<longrightarrow> n = 0"
  shows "clean_elements rooted (replicate n dotdot @ us) = replicate n dotdot @ us"
proof (cases rooted)
  case True
  with assms show ?thesis by (simp add: clean_elements_def foldl_clean_proper)
next
  case False
  with assms foldl_clean_dotdots [of 0 n] show ?thesis
    by (simp add: clean_elements_def foldl_clean_proper)
qed

section \<open>Cleaned paths\<close>

text \<open>A list of elements as cleaning leaves it.\<close>

definition clean_list :: "bool \<Rightarrow> string list \<Rightarrow> bool" where
  "clean_list rooted es \<longleftrightarrow>
     (\<exists>n us. es = replicate n dotdot @ us \<and> (\<forall>w \<in> set us. proper_element w \<and> w \<noteq> dotdot) \<and>
       (rooted \<longrightarrow> n = 0))"

definition render_path :: "bool \<Rightarrow> string list \<Rightarrow> string" where
  "render_path rooted es =
     (if rooted then slash # join_with [slash] es else if es = [] then dot else join_with [slash] es)"

lemma proper_dotdot: "proper_element dotdot"
  by (simp add: proper_element_def)

lemma clean_list_element:
  assumes "clean_list rooted es" and "w \<in> set es"
  shows "proper_element w"
proof -
  obtain n us where "es = replicate n dotdot @ us" "\<forall>w \<in> set us. proper_element w"
    using assms(1) unfolding clean_list_def by blast
  with assms(2) show ?thesis by (auto simp: proper_dotdot)
qed

lemma clean_list_Nil [simp]: "clean_list rooted []"
  unfolding clean_list_def by (intro exI [of _ 0] exI [of _ "[]"]) simp

lemma clean_list_clean:
  assumes "clean_list rooted es"
  shows "clean_elements rooted es = es"
proof -
  obtain n us where "es = replicate n dotdot @ us"
    "\<forall>w \<in> set us. proper_element w \<and> w \<noteq> dotdot" "rooted \<longrightarrow> n = 0"
    using assms unfolding clean_list_def by blast
  then show ?thesis by (simp only: clean_elements_clean)
qed

lemma clean_elements_list:
  assumes "\<forall>w \<in> set ws. slash \<notin> set w"
  shows "clean_list rooted (clean_elements rooted ws)"
proof -
  obtain n us where "clean_elements rooted ws = replicate n dotdot @ us"
    "\<forall>w \<in> set us. proper_element w \<and> w \<noteq> dotdot" "rooted \<longrightarrow> n = 0"
    by (rule clean_elements_shape [OF assms])
  then show ?thesis unfolding clean_list_def by blast
qed

lemma join_with_Nil_iff: "join_with [c] ws = [] \<longleftrightarrow> ws = [] \<or> ws = [[]]"
  by (induction "[c]" ws rule: join_with.induct) auto

lemma split_slash_no_slash: "\<forall>w \<in> set (split_on slash p). slash \<notin> set w"
  by (auto dest: split_on_no_sep)

lemma join_clean_not_Nil: "clean_list rooted es \<Longrightarrow> es \<noteq> [] \<Longrightarrow> join_with [slash] es \<noteq> []"
  using clean_list_element [of rooted es "[]"]
  by (auto simp: join_with_Nil_iff proper_element_def)

text \<open>What \<open>path_Clean\<close> returns, by the elements of the path.\<close>

lemma path_Clean_shape:
  obtains es where
    "path_Clean p = render_path (has_prefix p [slash]) es" "clean_list (has_prefix p [slash]) es"
proof (cases "p = []")
  case True
  then have "path_Clean p = render_path (has_prefix p [slash]) []"
    by (simp add: path_Clean_def render_path_def)
  then show thesis by (intro that [of "[]"]) simp_all
next
  case False
  let ?r = "has_prefix p [slash]" and ?es = "clean_elements (has_prefix p [slash]) (split_on slash p)"
  have cl: "clean_list ?r ?es"
    by (rule clean_elements_list [OF split_slash_no_slash])
  have "path_Clean p = render_path ?r ?es"
    using False join_clean_not_Nil [OF cl]
    unfolding path_Clean_def Let_def render_path_def
    by (cases "?es = []"; cases ?r) (simp_all only: if_True if_False append_Cons append_Nil
      join_with.simps list.distinct simp_thms)
  with cl show thesis by (intro that)
qed

lemma has_prefix_single: "has_prefix s [c] \<longleftrightarrow> s \<noteq> [] \<and> hd s = c"
  by (cases s) auto

lemma join_hd: "w \<noteq> [] \<Longrightarrow> hd (join_with sep (w # ws)) = hd w \<and> join_with sep (w # ws) \<noteq> []"
  by (cases ws) auto

lemma render_relative_not_rooted:
  assumes "clean_list False es"
  shows "\<not> has_prefix (render_path False es) [slash]"
proof (cases es)
  case Nil
  then show ?thesis by (simp add: render_path_def has_prefix_single dot_def slash_def)
next
  case (Cons w ws)
  then have "proper_element w"
    using clean_list_element [OF assms, of w] by simp
  then have "w \<noteq> []" and "hd w \<noteq> slash"
    by (auto simp: proper_element_def dest: list.set_sel(1))
  with Cons show ?thesis
    by (simp add: render_path_def has_prefix_single join_hd)
qed

lemma split_render:
  assumes "clean_list rooted es"
  shows "split_on slash (render_path rooted es) =
    (if es = [] then (if rooted then [[], []] else [dot]) else (if rooted then [[]] else []) @ es)"
proof -
  have "split_on slash (join_with [slash] es) = es" if "es \<noteq> []"
    using that clean_list_element [OF assms]
    by (intro split_join) (auto simp: proper_element_def)
  then show ?thesis
    by (simp add: render_path_def split_on_absent)
qed

lemma clean_elements_render:
  assumes "clean_list rooted es"
  shows "clean_elements rooted (split_on slash (render_path rooted es)) = es"
proof -
  have skip: "clean_elements r ([] # ws) = clean_elements r ws" for r ws
    by (simp add: clean_elements_def clean_step_def)
  have nil: "clean_elements r [[], []] = []" "clean_elements r [dot] = []" for r
    by (simp_all add: clean_elements_def clean_step_def)
  show ?thesis
    using clean_list_clean [OF assms]
    unfolding split_render [OF assms]
    by (cases "es = []"; cases rooted) (simp_all add: skip nil)
qed

theorem path_Clean_idem: "path_Clean (path_Clean p) = path_Clean p"
proof -
  let ?r = "has_prefix p [slash]"
  obtain es where sh: "path_Clean p = render_path ?r es" and cl: "clean_list ?r es"
    by (rule path_Clean_shape)
  have rooted: "has_prefix (render_path ?r es) [slash] = ?r"
    using render_relative_not_rooted [of es] cl
    by (cases ?r) (simp_all add: render_path_def)
  have "path_Clean (render_path ?r es) = render_path ?r es"
    using join_clean_not_Nil [OF cl]
    unfolding path_Clean_def Let_def rooted clean_elements_render [OF cl]
    by (cases ?r; cases "es = []") (simp_all add: render_path_def)
  with sh show ?thesis by simp
qed

lemma path_Clean_not_Nil: "path_Clean p \<noteq> []"
  by (simp add: path_Clean_def Let_def)

text \<open>The bytes of a cleaned path are bytes of the path, apart from slashes and dots.\<close>

lemma foldl_clean_step_members:
  "w \<in> set (foldl (clean_step rooted) st ws) \<Longrightarrow> w \<in> set st \<union> set ws \<union> {dotdot}"
proof (induction ws arbitrary: st)
  case (Cons v ws)
  then have "w \<in> set (clean_step rooted st v) \<union> set ws \<union> {dotdot}" by simp
  moreover have "set (clean_step rooted st v) \<subseteq> set st \<union> {v, dotdot}"
    by (auto simp: clean_step_def split: list.splits if_splits)
  ultimately show ?case by auto
qed simp

lemma set_join_with: "set (join_with sep ws) \<subseteq> set sep \<union> \<Union> (set ` set ws)"
  by (induction sep ws rule: join_with.induct) auto

lemma split_on_members: "w \<in> set (split_on c s) \<Longrightarrow> set w \<subseteq> set s"
proof (induction s arbitrary: w)
  case (Cons x xs)
  obtain v vs where v: "split_on c xs = v # vs"
    by (cases "split_on c xs") auto
  with Cons show ?case by (fastforce split: if_splits)
qed simp

lemma path_Clean_members: "set (path_Clean p) \<subseteq> set p \<union> {slash, CHR ''.''}"
proof -
  have "set w \<subseteq> set p \<union> {CHR ''.''}" if "w \<in> set (clean_elements r (split_on slash p))" for r w
  proof -
    have "w \<in> set (split_on slash p) \<or> w = dotdot"
      using foldl_clean_step_members [of w r "[]" "split_on slash p"] that
      by (auto simp: clean_elements_def)
    then show ?thesis
      using split_on_members [of w slash p] by (auto simp: dotdot_def)
  qed
  then have "set (join_with [slash] (clean_elements r (split_on slash p)))
      \<subseteq> set p \<union> {slash, CHR ''.''}" for r
    using set_join_with [of "[slash]" "clean_elements r (split_on slash p)"] by fastforce
  then show ?thesis
    by (auto simp: path_Clean_def dot_def Let_def split: if_splits)
qed

end
