(* ===== verification/Go_Regex.thy ===== *)
theory Go_Regex imports Go_Strings begin

text \<open>
  The part of Go's package regexp that the plan validator uses: expressions built from repeated
  character classes, line anchors, capture groups and optional groups, matched leftmost-first. A
  matcher returns every way to match at a position, in the order of preference that Go (as Perl)
  gives them; the match is the first of them.
\<close>

section \<open>Expressions\<close>

text \<open>
  \<open>Many greedy lo hi cls\<close> matches between \<open>lo\<close> and \<open>hi\<close> bytes of the class (no upper bound if
  \<open>hi\<close> is \<open>None\<close>), longest first if greedy. \<open>Grp k xs\<close> is the capture group \<open>k\<close> and \<open>Opt xs\<close>
  the greedy optional form of \<open>xs\<close>.
\<close>

datatype rx =
    Many bool nat "nat option" "char \<Rightarrow> bool"
  | Bol
  | Eol
  | Grp nat "rx list"
  | Opt "rx list"

text \<open>A position in the text: the bytes before it (last one first) and the bytes after it.\<close>

type_synonym position = "string \<times> string"

type_synonym captures = "nat \<Rightarrow> string"

definition newline :: char where
  "newline = CHR 0x0A"

definition counts :: "bool \<Rightarrow> nat \<Rightarrow> nat \<Rightarrow> nat list" where
  "counts greedy lo hi = (let ks = [lo ..< Suc hi] in if greedy then rev ks else ks)"

definition advance :: "position \<Rightarrow> nat \<Rightarrow> position" where
  "advance p k = (rev (take k (snd p)) @ fst p, drop k (snd p))"

definition many_max :: "nat option \<Rightarrow> (char \<Rightarrow> bool) \<Rightarrow> string \<Rightarrow> nat" where
  "many_max hi cls s =
     (let n = length (takeWhile cls s) in case hi of None \<Rightarrow> n | Some h \<Rightarrow> min h n)"

fun at_bol :: "position \<Rightarrow> bool" where
  "at_bol ([], r) = True"
| "at_bol (c # b, r) = (c = newline)"

fun at_eol :: "position \<Rightarrow> bool" where
  "at_eol (b, []) = True"
| "at_eol (b, c # r) = (c = newline)"

section \<open>Matching\<close>

fun run_one :: "rx \<Rightarrow> position \<Rightarrow> captures \<Rightarrow> (position \<times> captures) list"
  and run_all :: "rx list \<Rightarrow> position \<Rightarrow> captures \<Rightarrow> (position \<times> captures) list" where
  "run_one (Many greedy lo hi cls) p g =
     map (\<lambda>k. (advance p k, g)) (counts greedy lo (many_max hi cls (snd p)))"
| "run_one Bol p g = (if at_bol p then [(p, g)] else [])"
| "run_one Eol p g = (if at_eol p then [(p, g)] else [])"
| "run_one (Grp k xs) p g =
     map (\<lambda>(q, h). (q, h(k := take (length (snd p) - length (snd q)) (snd p)))) (run_all xs p g)"
| "run_one (Opt xs) p g = run_all xs p g @ [(p, g)]"
| "run_all [] p g = [(p, g)]"
| "run_all (x # xs) p g = concat (map (\<lambda>(q, h). run_all xs q h) (run_one x p g))"

definition match_at :: "rx list \<Rightarrow> position \<Rightarrow> (position \<times> captures) option" where
  "match_at xs p = (case run_all xs p (\<lambda>k. []) of [] \<Rightarrow> None | m # ms \<Rightarrow> Some m)"

text \<open>
  One match: where it starts, where it ends and what its groups captured; a group that took no part
  captured the empty string, as in \<open>FindAllStringSubmatch\<close>.
\<close>

record rx_match =
  match_start :: nat
  match_end :: nat
  match_groups :: captures

text \<open>
  All successive matches, left to right and without overlap. A match of the empty string moves on by
  one byte; the expressions of this program never match the empty string.
\<close>

function find_all :: "rx list \<Rightarrow> position \<Rightarrow> rx_match list" where
  "find_all xs p =
     (case match_at xs p of
        Some (q, g) \<Rightarrow>
          \<lparr>match_start = length (fst p), match_end = length (fst q), match_groups = g\<rparr> #
            (if length (snd q) < length (snd p) then find_all xs q
             else if snd p = [] then [] else find_all xs (advance p 1))
      | None \<Rightarrow> (if snd p = [] then [] else find_all xs (advance p 1)))"
  by pat_completeness auto
termination
  by (relation "measure (\<lambda>(xs, p). length (snd p))") (auto simp: advance_def)

declare find_all.simps [simp del]

definition find_all_matches :: "rx list \<Rightarrow> string \<Rightarrow> rx_match list" where
  "find_all_matches xs s = find_all xs ([], s)"

function matches_from :: "rx list \<Rightarrow> position \<Rightarrow> bool" where
  "matches_from xs p =
     (if match_at xs p \<noteq> None then True
      else if snd p = [] then False else matches_from xs (advance p 1))"
  by pat_completeness auto
termination
  by (relation "measure (\<lambda>(xs, p). length (snd p))") (auto simp: advance_def)

declare matches_from.simps [simp del]

definition match_string :: "rx list \<Rightarrow> string \<Rightarrow> bool" where
  "match_string xs s = matches_from xs ([], s)"

section \<open>Matches lie in the text\<close>

definition text_of :: "position \<Rightarrow> string" where
  "text_of p = rev (fst p) @ snd p"

text \<open>Every way to match moves forward in the same text.\<close>

definition extends :: "position \<Rightarrow> position \<Rightarrow> bool" where
  "extends p q \<longleftrightarrow> text_of q = text_of p \<and> length (snd q) \<le> length (snd p)"

lemma extends_refl [simp]: "extends p p"
  by (simp add: extends_def)

lemma extends_trans: "extends p q \<Longrightarrow> extends q r \<Longrightarrow> extends p r"
  by (simp add: extends_def)

lemma extends_advance: "extends p (advance p k)"
  by (simp add: extends_def text_of_def advance_def)

lemma run_extends:
  "(q, h) \<in> set (run_one x p g) \<Longrightarrow> extends p q"
  "(q, h) \<in> set (run_all xs p g) \<Longrightarrow> extends p q"
proof (induction x p g and xs p g arbitrary: q h and q h rule: run_one_run_all.induct)
  case (1 greedy lo hi cls p g)
  then show ?case by (auto simp: extends_advance)
next
  case (2 p g)
  then show ?case by (simp split: if_splits)
next
  case (3 p g)
  then show ?case by (simp split: if_splits)
next
  case (4 k xs p g)
  then obtain h' where "(q, h') \<in> set (run_all xs p g)" by auto
  then show ?case by (rule "4.IH")
next
  case (5 xs p g)
  then show ?case by (cases q) auto
next
  case (6 p g)
  then show ?case by simp
next
  case (7 x xs p g)
  from "7.prems" obtain q1 h1 where
    q1: "(q1, h1) \<in> set (run_one x p g)" and q: "(q, h) \<in> set (run_all xs q1 h1)"
    by auto
  have "extends p q1" by (rule "7.IH"(1) [OF q1])
  moreover have "extends q1 q" by (rule "7.IH"(2) [OF q1 refl q])
  ultimately show ?case by (rule extends_trans)
qed

lemma match_at_extends: "match_at xs p = Some (q, g) \<Longrightarrow> extends p q"
  using run_extends(2) [of q g xs p "\<lambda>k. []"]
  by (cases "run_all xs p (\<lambda>k. [])") (auto simp: match_at_def)

lemma text_of_length: "length (text_of p) = length (fst p) + length (snd p)"
  by (simp add: text_of_def)

lemma extends_start: "extends p q \<Longrightarrow> length (fst p) \<le> length (fst q)"
  using text_of_length [of p] text_of_length [of q] by (simp add: extends_def)

text \<open>The matches of \<open>find_all\<close> are in order, do not overlap and stay within the text.\<close>

fun matches_within :: "nat \<Rightarrow> nat \<Rightarrow> rx_match list \<Rightarrow> bool" where
  "matches_within lo hi [] = (lo \<le> hi)"
| "matches_within lo hi (m # ms) =
     (lo \<le> match_start m \<and> match_start m \<le> match_end m \<and> matches_within (match_end m) hi ms)"

lemma matches_within_mono: "matches_within lo hi ms \<Longrightarrow> lo' \<le> lo \<Longrightarrow> matches_within lo' hi ms"
  by (cases ms) auto

lemma advance_fst: "snd p \<noteq> [] \<Longrightarrow> length (fst (advance p 1)) = Suc (length (fst p))"
  by (cases "snd p") (simp_all add: advance_def)

lemma find_all_within: "matches_within (length (fst p)) (length (text_of p)) (find_all xs p)"
proof (induction xs p rule: find_all.induct)
  case (1 xs p)
  have adv: "matches_within (length (fst p)) (length (text_of p)) (find_all xs (advance p 1))"
    if "matches_within (length (fst (advance p 1))) (length (text_of (advance p 1)))
          (find_all xs (advance p 1))"
    using that extends_advance [of p 1] extends_start [OF extends_advance [of p 1]]
    by (simp add: extends_def matches_within_mono)
  show ?case
  proof (cases "match_at xs p")
    case None
    with 1 adv show ?thesis
      by (auto simp: find_all.simps [of xs p] text_of_length)
  next
    case (Some qg)
    obtain q g where qg: "qg = (q, g)" by (cases qg)
    with Some have ext: "extends p q" by (simp add: match_at_extends)
    note le = extends_start [OF ext]
    show ?thesis
    proof (cases "length (snd q) < length (snd p)")
      case True
      have "matches_within (length (fst q)) (length (text_of q)) (find_all xs q)"
        using "1.IH"(2) [OF Some qg [symmetric]] True by simp
      with Some qg True ext le show ?thesis
        by (simp add: find_all.simps [of xs p] extends_def)
    next
      case False
      with ext have eq: "length (fst q) = length (fst p)"
        using text_of_length [of p] text_of_length [of q] by (simp add: extends_def)
      with 1 Some qg False adv show ?thesis
        by (auto simp: find_all.simps [of xs p] text_of_length)
    qed
  qed
qed

end
