(* ===== verification/Plan_Validation.thy ===== *)
theory Plan_Validation imports Domain Go_Path Go_Regex begin

text \<open>
  backend/internal/service/plan_validation.go: the guard that a Markdown plan has to pass before it
  is stored in a session or approved, and the path normalisation and path guard that the plan
  validator shares with the checks on repository files and generated files.
\<close>

section \<open>Path guard\<close>

definition backslash :: char where
  "backslash = CHR 0x5C"

definition normalizePlanPath :: "string \<Rightarrow> string" where
  "normalizePlanPath value =
     trim_prefix (path_Clean (replace_all [backslash] [slash] value)) ''./''"

definition safePlanPath :: "string \<Rightarrow> bool" where
  "safePlanPath value \<longleftrightarrow>
     value \<noteq> [] \<and> value \<noteq> ''.'' \<and> \<not> has_prefix value ''/'' \<and> value \<noteq> ''..'' \<and>
     \<not> has_prefix value ''../'' \<and> value \<noteq> ''.git'' \<and> \<not> has_prefix value ''.git/''"

definition git_dir :: string where
  "git_dir = ''.git''"

text \<open>A path that stays inside the repository: proper elements only, outside \<open>.git\<close>.\<close>

definition confined_path :: "string \<Rightarrow> bool" where
  "confined_path p \<longleftrightarrow>
     (let es = split_on slash p
      in (\<forall>e \<in> set es. proper_element e \<and> e \<noteq> dotdot) \<and> hd es \<noteq> git_dir)"

lemma git_dir_simps [simp]: "slash \<notin> set git_dir" "git_dir \<noteq> []"
  by (simp_all add: git_dir_def slash_def)

lemma safePlanPath_elements:
  "safePlanPath v \<longleftrightarrow>
     v \<noteq> [] \<and> v \<noteq> dot \<and> \<not> has_prefix v [slash] \<and> v \<noteq> dotdot \<and>
     \<not> has_prefix v (dotdot @ [slash]) \<and> v \<noteq> git_dir \<and> \<not> has_prefix v (git_dir @ [slash])"
  by (simp add: safePlanPath_def dot_def dotdot_def slash_def git_dir_def)

lemma join_prefix_element:
  assumes "slash \<notin> set w" and "ws \<noteq> []" and "slash \<notin> set (hd ws)"
  shows "has_prefix (join_with [slash] ws) (w @ [slash]) \<longleftrightarrow> hd ws = w \<and> tl ws \<noteq> []"
proof -
  obtain v vs where ws: "ws = v # vs" using assms(2) by (cases ws) auto
  have eq: "v @ rest = w @ slash # r \<Longrightarrow> slash \<notin> set v \<Longrightarrow> rest = [] \<or> hd rest = slash \<Longrightarrow>
      v = w \<and> rest = slash # r" for rest r
    using assms(1)
  proof (induction v arbitrary: w)
    case Nil
    then show ?case by (cases w) auto
  next
    case (Cons x v)
    then show ?case by (cases w) auto
  qed
  show ?thesis
  proof (cases vs)
    case Nil
    have "v = w @ slash # r \<Longrightarrow> False" for r
      using assms(3) ws by auto
    with Nil ws show ?thesis by (auto simp: has_prefix_iff)
  next
    case (Cons u us)
    with ws assms(3) eq show ?thesis
      by (auto simp: has_prefix_iff)
  qed
qed

lemma path_Clean_no_dot_slash: "\<not> has_prefix (path_Clean p) ''./''"
proof -
  have "\<not> has_prefix (path_Clean p) (dot @ [slash])"
  proof -
    obtain es where sh: "path_Clean p = render_path (has_prefix p [slash]) es"
      and cl: "clean_list (has_prefix p [slash]) es"
      by (rule path_Clean_shape)
    show ?thesis
    proof (cases "has_prefix p [slash]")
      case True
      with sh show ?thesis by (simp add: render_path_def slash_def dot_def)
    next
      case False
      show ?thesis
      proof (cases "es = []")
        case True
        with False sh show ?thesis by (simp add: render_path_def dot_def)
      next
        case nonempty: False
        then have "proper_element (hd es)"
          using clean_list_element [OF cl, of "hd es"] by simp
        with join_prefix_element [of dot es] nonempty False sh show ?thesis
          by (auto simp add: render_path_def proper_element_def)
      qed
    qed
  qed
  then show ?thesis by (simp add: dot_def slash_def)
qed

text \<open>The \<open>TrimPrefix\<close> after \<open>path.Clean\<close> never finds anything to trim.\<close>

lemma normalizePlanPath_clean:
  "normalizePlanPath v = path_Clean (replace_all [backslash] [slash] v)"
  using path_Clean_no_dot_slash by (simp add: normalizePlanPath_def trim_prefix_def)

lemma normalizePlanPath_not_Nil [simp]: "normalizePlanPath v \<noteq> []"
  by (simp add: normalizePlanPath_clean path_Clean_not_Nil)

lemma safe_path_Clean_confined:
  assumes "safePlanPath (path_Clean p)"
  shows "confined_path (path_Clean p)"
proof -
  obtain es where sh: "path_Clean p = render_path (has_prefix p [slash]) es"
    and cl: "clean_list (has_prefix p [slash]) es"
    by (rule path_Clean_shape)
  have rel: "\<not> has_prefix p [slash]"
    using assms sh by (auto simp: safePlanPath_elements render_path_def)
  with cl have cl: "clean_list False es" by simp
  from rel sh have eq: "path_Clean p = render_path False es" by simp
  have ne: "es \<noteq> []"
    using assms eq by (auto simp: safePlanPath_elements render_path_def)
  with eq have join: "path_Clean p = join_with [slash] es"
    by (simp add: render_path_def)
  have proper: "\<forall>e \<in> set es. proper_element e"
    using clean_list_element [OF cl] by blast
  then have hd_ns: "slash \<notin> set (hd es)"
    using ne by (simp add: proper_element_def)
  have first: "hd es \<noteq> w" if "path_Clean p \<noteq> w" "\<not> has_prefix (path_Clean p) (w @ [slash])"
      "slash \<notin> set w" for w
  proof
    assume w: "hd es = w"
    from join_prefix_element [OF that(3) ne hd_ns] that(2) w join have "tl es = []"
      by simp
    with w ne have "es = [w]" by (cases es) auto
    with join that show False by simp
  qed
  have "hd es \<noteq> dotdot" and git: "hd es \<noteq> git_dir"
    using assms by (intro first; simp add: safePlanPath_elements)+
  moreover obtain n us where nus: "es = replicate n dotdot @ us"
    "\<forall>w \<in> set us. proper_element w \<and> w \<noteq> dotdot"
    using cl unfolding clean_list_def by blast
  ultimately have "n = 0" by (cases n) auto
  with nus proper git show ?thesis
    using split_render [OF cl] ne eq by (simp add: confined_path_def Let_def)
qed

text \<open>C14: Every path the guard lets through stays inside the repository working tree.\<close>

theorem safePlanPath_confined:
  "safePlanPath (normalizePlanPath v) \<Longrightarrow> confined_path (normalizePlanPath v)"
  by (simp add: normalizePlanPath_clean safe_path_Clean_confined)

lemma safePlanPath_confined_witness: "confined_path (normalizePlanPath ''src/../cmd/./main.go'')"
proof -
  have "safePlanPath (normalizePlanPath ''src/../cmd/./main.go'')" by code_simp
  then show ?thesis by (rule safePlanPath_confined)
qed

lemma replace_all_absent:
  "c \<notin> set s \<Longrightarrow> replace_all [c] new s = s"
  by (induction s) auto

lemma replace_all_removes:
  "c \<notin> set new \<Longrightarrow> c \<notin> set (replace_all [c] new s)"
  by (induction s) auto

text \<open>Normalising a path once is enough.\<close>

lemma normalizePlanPath_idem [simp]:
  "normalizePlanPath (normalizePlanPath v) = normalizePlanPath v"
proof -
  have "backslash \<notin> set (replace_all [backslash] [slash] v)"
    by (rule replace_all_removes) (simp add: backslash_def slash_def)
  then have "backslash \<notin> set (normalizePlanPath v)"
    using path_Clean_members [of "replace_all [backslash] [slash] v"]
    by (auto simp: normalizePlanPath_clean backslash_def slash_def)
  then show ?thesis
    by (simp add: normalizePlanPath_clean replace_all_absent path_Clean_idem)
qed

section \<open>Patterns\<close>

definition is_ws :: "char \<Rightarrow> bool" where
  "is_ws c \<longleftrightarrow> c \<in> {CHR 0x09, CHR 0x0A, CHR 0x0C, CHR 0x0D, CHR 0x20}"

definition backquote :: char where
  "backquote = CHR 0x60"

definition rx_lit :: "char \<Rightarrow> rx" where
  "rx_lit c = Many True 1 (Some 1) (\<lambda>x. x = c)"

definition headingPattern :: "rx list" where
  "headingPattern =
     [Bol, Grp 1 [Many True 1 (Some 6) (\<lambda>c. c = CHR ''#'')], Many True 1 None is_ws,
      Grp 2 [Many False 1 None (\<lambda>c. c \<noteq> newline)], Many True 0 None is_ws, Eol]"

definition fileBulletPattern :: "rx list" where
  "fileBulletPattern =
     [Bol, Many True 0 None is_ws, Many True 1 (Some 1) (\<lambda>c. c = CHR ''-'' \<or> c = CHR ''*''),
      Many True 1 None is_ws, rx_lit backquote,
      Grp 1 [Many True 1 None (\<lambda>c. c \<noteq> backquote)], rx_lit backquote,
      Opt [Grp 2 (Many True 0 None is_ws # map rx_lit ''(create)'')],
      Many True 0 None is_ws, rx_lit CHR '':'', Many True 0 None is_ws,
      Grp 3 [Many False 1 None (\<lambda>c. c \<noteq> newline)], Many True 0 None is_ws, Eol]"

definition orderedStepPattern :: "rx list" where
  "orderedStepPattern =
     [Bol, Many True 0 None is_ws, rx_lit CHR ''1'', rx_lit CHR ''.'', Many True 1 None is_ws,
      Many True 1 (Some 1) (\<lambda>c. \<not> is_ws c)]"

section \<open>The validator\<close>

definition requiredPlanSections :: "string list" where
  "requiredPlanSections =
     [''Implementation Plan'', ''Issue Summary'', ''Goal'', ''Relevant Files'', ''Proposed Changes'',
      ''Implementation Steps'', ''Expected Files to Change'', ''Tests and Verification'',
      ''Risks and Open Questions'']"

fun headings_ok :: "string \<Rightarrow> string list \<Rightarrow> rx_match list \<Rightarrow> bool" where
  "headings_ok level [] hs = True"
| "headings_ok level (expected # es) (h # hs) =
     (match_groups h 1 = level \<and> match_groups h 2 = expected \<and> headings_ok ''##'' es hs)"
| "headings_ok level (expected # es) [] = False"

fun splitPlanSections :: "string \<Rightarrow> rx_match list \<Rightarrow> (string \<rightharpoonup> string)" where
  "splitPlanSections plan [] = Map.empty"
| "splitPlanSections plan (h # hs) =
     (let start = match_end h;
          stop = (case hs of [] \<Rightarrow> length plan | next_h # _ \<Rightarrow> match_start next_h)
      in [match_groups h 2 \<mapsto> trim_space (take (stop - start) (drop start plan))]
           ++ splitPlanSections plan hs)"

definition section_text :: "(string \<rightharpoonup> string) \<Rightarrow> string \<Rightarrow> string" where
  "section_text sections name = (case sections name of None \<Rightarrow> [] | Some t \<Rightarrow> t)"

definition check_bullet :: "string list \<Rightarrow> rx_match \<Rightarrow> go_error option" where
  "check_bullet allowed bullet =
     (let filePath = normalizePlanPath (match_groups bullet 1);
          isCreate = trim_space (match_groups bullet 2) \<noteq> []
      in if \<not> safePlanPath filePath then
           Some (ErrText (''plan contains unsafe repository path: '' @ match_groups bullet 1))
         else if filePath \<notin> set allowed \<and> \<not> isCreate then
           Some (ErrText (''plan references unavailable repository file: '' @ filePath))
         else None)"

definition check_file_section :: "string list \<Rightarrow> (string \<rightharpoonup> string) \<Rightarrow> string \<Rightarrow> go_error option" where
  "check_file_section allowed sections name =
     (let bullets = find_all_matches fileBulletPattern (section_text sections name)
      in if bullets = [] then Some (ErrText (''section '' @ name @ '' must contain path bullets''))
         else first_error (check_bullet allowed) bullets)"

definition check_not_empty :: "(string \<rightharpoonup> string) \<Rightarrow> string \<Rightarrow> go_error option" where
  "check_not_empty sections name =
     (if trim_space (section_text sections name) = []
      then Some (ErrText (''section '' @ name @ '' is empty'')) else None)"

definition file_sections :: "string list" where
  "file_sections = [''Relevant Files'', ''Expected Files to Change'']"

definition code_fence :: string where
  "code_fence = [backquote, backquote, backquote]"

definition plan_title :: string where
  "plan_title = ''# Implementation Plan'' @ [newline]"

definition ValidatePlan :: "string \<Rightarrow> repository_file list \<Rightarrow> go_error option" where
  "ValidatePlan markdown repositoryFiles =
     (let plan = trim_space markdown in
      if plan = [] then Some (ErrText ''Agent Engine returned an empty plan'')
      else if go_len plan > 200000 then Some (ErrText ''plan exceeds 200000 characters'')
      else if contains_str plan code_fence then
        Some (ErrText ''fenced code blocks are not allowed'')
      else if \<not> has_prefix plan plan_title then
        Some (ErrText ''plan must start with # Implementation Plan'')
      else
        let headings = find_all_matches headingPattern plan in
        if length headings \<noteq> length requiredPlanSections
           \<or> \<not> headings_ok ''#'' requiredPlanSections headings then
          Some (ErrText ''headings are missing, duplicated, or out of order'')
        else
          let sections = splitPlanSections plan headings in
          (case first_error (check_not_empty sections) (tl requiredPlanSections) of
             Some e \<Rightarrow> Some e
           | None \<Rightarrow>
               if \<not> match_string orderedStepPattern (section_text sections ''Implementation Steps'')
               then Some (ErrText ''Implementation Steps must contain an ordered list'')
               else first_error
                 (check_file_section (map (\<lambda>f. normalizePlanPath (rf_path f)) repositoryFiles) sections)
                 file_sections))"

section \<open>What an accepted plan looks like\<close>

definition plan_sections :: "string \<Rightarrow> (string \<rightharpoonup> string)" where
  "plan_sections plan = splitPlanSections plan (find_all_matches headingPattern plan)"

definition plan_bullets :: "string \<Rightarrow> string \<Rightarrow> rx_match list" where
  "plan_bullets plan name = find_all_matches fileBulletPattern (section_text (plan_sections plan) name)"

text \<open>The structure of a plan, apart from the files that it refers to.\<close>

definition well_formed_plan :: "string \<Rightarrow> bool" where
  "well_formed_plan plan \<longleftrightarrow>
     plan \<noteq> [] \<and> go_len plan \<le> 200000 \<and> \<not> contains_str plan code_fence \<and> has_prefix plan plan_title \<and>
     map (\<lambda>h. match_groups h 2) (find_all_matches headingPattern plan) = requiredPlanSections \<and>
     map (\<lambda>h. match_groups h 1) (find_all_matches headingPattern plan) = ''#'' # replicate 8 ''##'' \<and>
     (\<forall>name \<in> set (tl requiredPlanSections). trim_space (section_text (plan_sections plan) name) \<noteq> []) \<and>
     match_string orderedStepPattern (section_text (plan_sections plan) ''Implementation Steps'') \<and>
     (\<forall>name \<in> set file_sections. plan_bullets plan name \<noteq> [])"

definition grounded_bullet :: "repository_file list \<Rightarrow> rx_match \<Rightarrow> bool" where
  "grounded_bullet files bullet \<longleftrightarrow>
     (let p = normalizePlanPath (match_groups bullet 1)
      in safePlanPath p \<and>
         (p \<in> normalizePlanPath ` rf_path ` set files \<or> trim_space (match_groups bullet 2) \<noteq> []))"

lemma check_bullet_None: "check_bullet (map (\<lambda>f. normalizePlanPath (rf_path f)) files) b = None \<longleftrightarrow>
    grounded_bullet files b"
  by (auto simp: check_bullet_def grounded_bullet_def Let_def image_image)

lemma headings_ok_iff:
  "length hs = length es \<Longrightarrow> headings_ok level es hs \<longleftrightarrow>
     map (\<lambda>h. match_groups h 2) hs = es \<and>
     map (\<lambda>h. match_groups h 1) hs = (case es of [] \<Rightarrow> [] | e # es' \<Rightarrow> level # replicate (length es') ''##'')"
proof (induction level es hs rule: headings_ok.induct)
  case (2 level expected es h hs)
  then show ?case by (cases es) auto
qed auto

lemma required_sections_length: "length requiredPlanSections = 9"
  by (simp add: requiredPlanSections_def)

lemma required_headings_iff:
  "length hs = length requiredPlanSections \<and> headings_ok ''#'' requiredPlanSections hs \<longleftrightarrow>
     map (\<lambda>h. match_groups h 2) hs = requiredPlanSections \<and>
     map (\<lambda>h. match_groups h 1) hs = ''#'' # replicate 8 ''##''"
proof (cases "length hs = length requiredPlanSections")
  case True
  have "(case requiredPlanSections of [] \<Rightarrow> [] | e # es' \<Rightarrow> ''#'' # replicate (length es') ''##'')
      = ''#'' # replicate 8 ''##''"
    by (simp add: requiredPlanSections_def numeral_eq_Suc)
  with headings_ok_iff [OF True, of "''#''"] True show ?thesis by simp
next
  case False
  then have "map (\<lambda>h. match_groups h 2) hs \<noteq> requiredPlanSections"
    by (metis length_map)
  with False show ?thesis by blast
qed

lemma check_file_section_None:
  "check_file_section (map (\<lambda>f. normalizePlanPath (rf_path f)) files) (plan_sections plan) name = None
     \<longleftrightarrow> plan_bullets plan name \<noteq> [] \<and> (\<forall>b \<in> set (plan_bullets plan name). grounded_bullet files b)"
  by (simp add: check_file_section_def plan_bullets_def Let_def first_error_None check_bullet_None)

lemma check_not_empty_None:
  "check_not_empty sections name = None \<longleftrightarrow> trim_space (section_text sections name) \<noteq> []"
  by (simp add: check_not_empty_def)

text \<open>The validator accepts exactly the well-formed plans all of whose file bullets are grounded.\<close>

lemma ValidatePlan_None_iff:
  "ValidatePlan md files = None \<longleftrightarrow>
     well_formed_plan (trim_space md) \<and>
     (\<forall>name \<in> set file_sections. \<forall>b \<in> set (plan_bullets (trim_space md) name). grounded_bullet files b)"
proof -
  define plan where "plan = trim_space md"
  define hs where "hs = find_all_matches headingPattern plan"
  have hd: "length hs \<noteq> length requiredPlanSections \<or> \<not> headings_ok ''#'' requiredPlanSections hs \<longleftrightarrow>
     \<not> (map (\<lambda>h. match_groups h 2) hs = requiredPlanSections \<and>
       map (\<lambda>h. match_groups h 1) hs = ''#'' # replicate 8 ''##'')"
    by (simp only: required_headings_iff [symmetric] de_Morgan_conj)
  have sections: "splitPlanSections plan hs = plan_sections plan"
    by (simp add: plan_sections_def hs_def)
  let ?E = "first_error (check_not_empty (plan_sections plan)) (tl requiredPlanSections)"
  have nonempty: "?E = None \<longleftrightarrow>
      (\<forall>name \<in> set (tl requiredPlanSections). trim_space (section_text (plan_sections plan) name) \<noteq> [])"
    by (simp add: first_error_None check_not_empty_None)
  have bullets: "first_error (check_file_section (map (\<lambda>f. normalizePlanPath (rf_path f)) files)
        (plan_sections plan)) file_sections = None \<longleftrightarrow>
      (\<forall>name \<in> set file_sections. plan_bullets plan name \<noteq> [] \<and>
         (\<forall>b \<in> set (plan_bullets plan name). grounded_bullet files b))"
    by (simp only: first_error_None check_file_section_None)
  show ?thesis
    unfolding ValidatePlan_def plan_def [symmetric] Let_def hs_def [symmetric] hd sections
      well_formed_plan_def not_less [symmetric]
    using nonempty bullets
    by (cases ?E) (auto simp add: plan_bullets_def)
qed

text \<open>The structural part of the check does not depend on the repository files.\<close>

lemma ValidatePlan_well_formed: "ValidatePlan md files = None \<Longrightarrow> well_formed_plan (trim_space md)"
  by (simp add: ValidatePlan_None_iff)

end
