(* ===== verification/Generated_Files.thy ===== *)
theory Generated_Files imports Plan_Validation begin

text \<open>
  The checks of backend/internal/service/workflow.go on the files of a request and on the file
  operations that the agent engine generates: normalisation, the removal of no-op and truncated
  modifications, and validation. The maps and index tables of the Go loops are modelled as the
  loops build them; the theorems relate the loops to declarative specifications.
\<close>

section \<open>Files of an analysis request\<close>

fun check_repository_files :: "string list \<Rightarrow> repository_file list \<Rightarrow> go_error option" where
  "check_repository_files seen [] = None"
| "check_repository_files seen (file # files) =
     (let normalized = normalizePlanPath (rf_path file) in
      if trim_space (rf_path file) = [] \<or> \<not> safePlanPath normalized then
        Some (ErrText (''repository_files contains unsafe path '' @ go_quote (rf_path file)))
      else if go_len (rf_content file) > 500000 then
        Some (ErrText (''repository file '' @ go_quote normalized @ '' exceeds 500000 characters''))
      else if normalized \<in> set seen then
        Some (ErrText (''repository_files contains duplicate path '' @ go_quote normalized))
      else check_repository_files (normalized # seen) files)"

definition validateRepositoryFiles :: "repository_file list \<Rightarrow> go_error option" where
  "validateRepositoryFiles files =
     (if go_len files > 2000 then
        Some (ErrText ''repository_files cannot contain more than 2000 files'')
      else check_repository_files [] files)"

definition maxIndexPayloadBytes :: int where
  "maxIndexPayloadBytes = 20000000"

fun check_payload_bytes :: "int \<Rightarrow> repository_file list \<Rightarrow> go_error option" where
  "check_payload_bytes totalBytes [] = None"
| "check_payload_bytes totalBytes (file # files) =
     (let total = totalBytes + go_len (rf_content file) in
      if total > maxIndexPayloadBytes then
        Some (ErrText (''repository index payload exceeds '' @ int_text maxIndexPayloadBytes @ '' bytes''))
      else check_payload_bytes total files)"

definition ValidateRepositoryFilesForIntegration :: "repository_file list \<Rightarrow> go_error option" where
  "ValidateRepositoryFilesForIntegration files =
     (case validateRepositoryFiles files of
        Some e \<Rightarrow> Some e
      | None \<Rightarrow> check_payload_bytes 0 files)"

definition file_at :: "string \<Rightarrow> repository_file" where
  "file_at p = \<lparr>rf_path = p, rf_content = [], rf_type = []\<rparr>"

definition ValidateAnalyze :: "issue_analyze_request \<Rightarrow> go_error option" where
  "ValidateAnalyze v =
     (if trim_space (repo_id (req_repository v)) = [] then
        Some (ErrText ''repository.id is required'')
      else if trim_space (repo_default_branch (req_repository v)) = [] then
        Some (ErrText ''repository.default_branch is required'')
      else if trim_space (issue_id (req_issue v)) = [] then Some (ErrText ''issue.id is required'')
      else if trim_space (issue_title (req_issue v)) = [] then
        Some (ErrText ''issue.title is required'')
      else if trim_space (issue_body (req_issue v)) = [] then
        Some (ErrText ''issue.body is required'')
      else if trim_space (issue_author (req_issue v)) = [] then
        Some (ErrText ''issue.author is required'')
      else if req_repository_files v = [] \<and> req_repository_context v = [] then
        Some (ErrText ''repository_files must contain at least one file'')
      else validateRepositoryFiles
        (if req_repository_files v = [] then map file_at (req_repository_context v)
         else req_repository_files v))"

text \<open>What a valid list of repository files is.\<close>

definition valid_repository_file :: "repository_file \<Rightarrow> bool" where
  "valid_repository_file file \<longleftrightarrow>
     trim_space (rf_path file) \<noteq> [] \<and> safePlanPath (normalizePlanPath (rf_path file)) \<and>
     go_len (rf_content file) \<le> 500000"

lemma check_repository_files_None:
  "check_repository_files seen files = None \<longleftrightarrow>
     (\<forall>file \<in> set files. valid_repository_file file) \<and>
     distinct (map (\<lambda>file. normalizePlanPath (rf_path file)) files) \<and>
     (\<forall>file \<in> set files. normalizePlanPath (rf_path file) \<notin> set seen)"
proof (induction files arbitrary: seen)
  case Nil
  then show ?case by simp
next
  case (Cons f fs)
  show ?case
    by (auto simp: Let_def Cons.IH valid_repository_file_def) (metis imageI)
qed

lemma validateRepositoryFiles_None:
  "validateRepositoryFiles files = None \<longleftrightarrow>
     go_len files \<le> 2000 \<and> (\<forall>file \<in> set files. valid_repository_file file) \<and>
     distinct (map (\<lambda>file. normalizePlanPath (rf_path file)) files)"
  by (auto simp: validateRepositoryFiles_def check_repository_files_None)

definition payload_bytes :: "repository_file list \<Rightarrow> int" where
  "payload_bytes files = sum_list (map (\<lambda>file. go_len (rf_content file)) files)"

lemma check_payload_bytes_None:
  "t \<le> maxIndexPayloadBytes \<Longrightarrow>
     check_payload_bytes t files = None \<longleftrightarrow> t + payload_bytes files \<le> maxIndexPayloadBytes"
proof (induction files arbitrary: t)
  case Nil
  then show ?case by (simp add: payload_bytes_def)
next
  case (Cons f fs)
  have "0 \<le> payload_bytes fs"
    unfolding payload_bytes_def by (rule sum_list_nonneg) auto
  with Cons show ?case
    by (auto simp: Let_def payload_bytes_def)
qed

text \<open>A snapshot is accepted for indexing exactly when it has at most 2000 files with distinct,
  confined paths and contents of at most 500000 bytes each and 20000000 bytes together.\<close>

theorem integration_files_accepted_iff:
  "ValidateRepositoryFilesForIntegration files = None \<longleftrightarrow>
     go_len files \<le> 2000 \<and> list_all valid_repository_file files \<and>
     distinct (map (\<lambda>file. normalizePlanPath (rf_path file)) files) \<and>
     payload_bytes files \<le> 20000000"
  using check_payload_bytes_None [of 0 files] validateRepositoryFiles_None [of files]
  by (auto simp: list_all_iff ValidateRepositoryFilesForIntegration_def maxIndexPayloadBytes_def split: option.splits)

section \<open>Merging the operations on one path\<close>

definition mergeExplanation :: "string \<Rightarrow> string \<Rightarrow> string" where
  "mergeExplanation prev nxt =
     (let previous = trim_space prev; new = trim_space nxt in
      if previous = [] then new
      else if new = [] then previous
      else if previous = new then new
      else previous @ [newline] @ new)"

definition merge_operation ::
    "generated_file_operation \<Rightarrow> generated_file_operation \<Rightarrow> generated_file_operation" where
  "merge_operation previous op =
     op\<lparr>gf_action := (if trim_space (gf_action op) = [] then gf_action previous else gf_action op),
        gf_content := (if trim_space (gf_content op) = [] then gf_content previous else gf_content op),
        gf_diff := (if trim_space (gf_diff op) = [] then gf_diff previous else gf_diff op),
        gf_explanation := mergeExplanation (gf_explanation previous) (gf_explanation op)\<rparr>"

definition normalize_path_of :: "generated_file_operation \<Rightarrow> generated_file_operation" where
  "normalize_path_of op = op\<lparr>gf_path := normalizePlanPath (gf_path op)\<rparr>"

text \<open>One round of the loop of \<open>NormalizeGeneratedFiles\<close>: the merged operations so far and the index
  of each path in them.\<close>

definition normalize_step ::
    "generated_file_operation list \<times> (string \<rightharpoonup> nat) \<Rightarrow> generated_file_operation \<Rightarrow>
     generated_file_operation list \<times> (string \<rightharpoonup> nat)" where
  "normalize_step st f =
     (let op = normalize_path_of f; merged = fst st; indexByPath = snd st in
      if gf_path op = [] then (merged @ [op], indexByPath)
      else case indexByPath (gf_path op) of
             None \<Rightarrow> (merged @ [op], indexByPath(gf_path op \<mapsto> length merged))
           | Some i \<Rightarrow> (merged[i := merge_operation (merged ! i) op], indexByPath))"

definition NormalizeGeneratedFiles ::
    "generated_file_operation list \<Rightarrow> generated_file_operation list" where
  "NormalizeGeneratedFiles files = fst (foldl normalize_step ([], Map.empty) files)"

text \<open>The reference: group the operations by path, in the order in which the paths first occur, and
  merge each group from left to right.\<close>

definition first_occurrences :: "'a list \<Rightarrow> 'a list" where
  "first_occurrences xs = rev (remdups (rev xs))"

definition merge_group :: "generated_file_operation list \<Rightarrow> generated_file_operation" where
  "merge_group ops = foldl merge_operation (hd ops) (tl ops)"

definition merged_by_path :: "generated_file_operation list \<Rightarrow> generated_file_operation list" where
  "merged_by_path ops =
     map (\<lambda>p. merge_group (filter (\<lambda>op. gf_path op = p) ops)) (first_occurrences (map gf_path ops))"

lemma first_occurrences_snoc:
  "first_occurrences (xs @ [x]) =
     (if x \<in> set xs then first_occurrences xs else first_occurrences xs @ [x])"
  by (simp add: first_occurrences_def)

lemma set_first_occurrences [simp]: "set (first_occurrences xs) = set xs"
  by (simp add: first_occurrences_def)

lemma distinct_first_occurrences [simp]: "distinct (first_occurrences xs)"
  by (simp add: first_occurrences_def)

lemma first_occurrences_distinct: "distinct xs \<Longrightarrow> first_occurrences xs = xs"
  by (simp add: first_occurrences_def distinct_remdups_id)

lemma merge_group_snoc: "ops \<noteq> [] \<Longrightarrow> merge_group (ops @ [op]) = merge_operation (merge_group ops) op"
  by (cases ops) (simp_all add: merge_group_def)

lemma merge_group_single [simp]: "merge_group [op] = op"
  by (simp add: merge_group_def)

lemma merge_operation_path [simp]: "gf_path (merge_operation a b) = gf_path b"
  by (simp add: merge_operation_def)

lemma merge_group_path:
  assumes "\<forall>op \<in> set ops. gf_path op = p" and "ops \<noteq> []"
  shows "gf_path (merge_group ops) = p"
  using assms
proof (induction ops rule: rev_induct)
  case (snoc op ops)
  then show ?case by (cases "ops = []") (simp_all add: merge_group_snoc)
qed simp

lemma merged_by_path_paths: "map gf_path (merged_by_path ops) = first_occurrences (map gf_path ops)"
proof -
  have "gf_path (merge_group (filter (\<lambda>op. gf_path op = p) ops)) = p" if "p \<in> gf_path ` set ops" for p
    using that by (intro merge_group_path) (auto simp: filter_empty_conv)
  then have "map (\<lambda>p. gf_path (merge_group (filter (\<lambda>op. gf_path op = p) ops)))
      (first_occurrences (map gf_path ops)) = first_occurrences (map gf_path ops)"
    by (intro map_idI) simp
  then show ?thesis by (simp add: merged_by_path_def comp_def)
qed

text \<open>The index table of the loop gives the position of each path among the first occurrences.\<close>

definition index_in :: "string list \<Rightarrow> string \<rightharpoonup> nat" where
  "index_in ps p = (if p \<in> set ps then Some (LEAST i. i < length ps \<and> ps ! i = p) else None)"

lemma index_in_nth: "distinct ps \<Longrightarrow> i < length ps \<Longrightarrow> index_in ps (ps ! i) = Some i"
  by (auto simp: index_in_def nth_eq_iff_index_eq intro!: Least_equality)

lemma index_in_None: "p \<notin> set ps \<Longrightarrow> index_in ps p = None"
  by (simp add: index_in_def)

lemma index_in_snoc: "p \<notin> set ps \<Longrightarrow> distinct ps \<Longrightarrow> index_in (ps @ [p]) = (index_in ps)(p \<mapsto> length ps)"
proof (rule ext)
  fix q
  assume p: "p \<notin> set ps" "distinct ps"
  then have d: "distinct (ps @ [p])" by simp
  show "index_in (ps @ [p]) q = ((index_in ps)(p \<mapsto> length ps)) q"
  proof (cases "q \<in> set (ps @ [p])")
    case True
    then obtain i where i: "i < length (ps @ [p])" "q = (ps @ [p]) ! i"
      by (metis in_set_conv_nth)
    with index_in_nth [OF d i(1)] p index_in_nth [OF p(2), of i] show ?thesis
      by (cases "i = length ps") (auto simp: nth_append)
  next
    case False
    then show ?thesis by (simp add: index_in_None)
  qed
qed

lemma filter_path_snoc:
  "p \<noteq> gf_path op \<Longrightarrow> filter (\<lambda>x. gf_path x = p) (ops @ [op]) = filter (\<lambda>x. gf_path x = p) ops"
  by simp

lemma merged_snoc_new:
  assumes "gf_path op \<notin> set (map gf_path ops)"
  shows "merged_by_path (ops @ [op]) = merged_by_path ops @ [op]"
proof -
  have "filter (\<lambda>x. gf_path x = gf_path op) ops = []"
    using assms by (auto simp: filter_empty_conv image_iff)
  moreover have "map (\<lambda>p. merge_group (filter (\<lambda>x. gf_path x = p) (ops @ [op])))
      (first_occurrences (map gf_path ops)) = merged_by_path ops"
    using assms unfolding merged_by_path_def by (intro map_cong) auto
  ultimately show ?thesis
    using assms by (simp add: merged_by_path_def first_occurrences_snoc)
qed

lemma merged_snoc_old:
  assumes "i < length (first_occurrences (map gf_path ops))"
    and "first_occurrences (map gf_path ops) ! i = gf_path op"
  shows "merged_by_path (ops @ [op]) =
    (merged_by_path ops)[i := merge_operation (merged_by_path ops ! i) op]"
proof (rule nth_equalityI)
  let ?ps = "first_occurrences (map gf_path ops)"
  have mem: "gf_path op \<in> set (map gf_path ops)"
    using assms by (metis nth_mem set_first_occurrences)
  then have ps: "first_occurrences (map gf_path (ops @ [op])) = ?ps"
    by (simp add: first_occurrences_snoc)
  show "length (merged_by_path (ops @ [op])) =
      length ((merged_by_path ops)[i := merge_operation (merged_by_path ops ! i) op])"
    by (simp add: merged_by_path_def ps del: map_append)
  fix j
  assume "j < length (merged_by_path (ops @ [op]))"
  then have j: "j < length ?ps" by (simp add: merged_by_path_def ps del: map_append)
  have old: "merged_by_path ops ! k = merge_group (filter (\<lambda>x. gf_path x = ?ps ! k) ops)"
    if "k < length ?ps" for k
    using that by (simp add: merged_by_path_def)
  have new: "merged_by_path (ops @ [op]) ! j
      = merge_group (filter (\<lambda>x. gf_path x = ?ps ! j) (ops @ [op]))"
    using j by (simp add: merged_by_path_def ps del: map_append filter_append)
  show "merged_by_path (ops @ [op]) ! j =
      (merged_by_path ops)[i := merge_operation (merged_by_path ops ! i) op] ! j"
  proof (cases "j = i")
    case True
    have "filter (\<lambda>x. gf_path x = gf_path op) ops \<noteq> []"
      using mem by (auto simp: filter_empty_conv)
    with True assms new old [OF j] j show ?thesis
      by (simp add: merge_group_snoc merged_by_path_def)
  next
    case False
    then have "?ps ! j \<noteq> gf_path op"
      using assms j by (metis distinct_first_occurrences nth_eq_iff_index_eq)
    with False new old [OF j] show ?thesis by simp
  qed
qed

lemma normalize_fold:
  "foldl normalize_step ([], Map.empty) files =
     (merged_by_path (map normalize_path_of files),
      index_in (first_occurrences (map gf_path (map normalize_path_of files))))"
proof (induction files rule: rev_induct)
  case Nil
  then show ?case by (auto simp: merged_by_path_def first_occurrences_def index_in_def)
next
  case (snoc f files)
  let ?ops = "map normalize_path_of files" and ?op = "normalize_path_of f"
  let ?ps = "first_occurrences (map gf_path ?ops)"
  have path: "gf_path ?op \<noteq> []" by (simp add: normalize_path_of_def)
  have len: "length (merged_by_path ?ops) = length ?ps"
    by (metis length_map merged_by_path_paths)
  show ?case
  proof (cases "gf_path ?op \<in> set (map gf_path ?ops)")
    case True
    then obtain i where i: "i < length ?ps" "?ps ! i = gf_path ?op"
      by (metis in_set_conv_nth set_first_occurrences)
    then have "index_in ?ps (gf_path ?op) = Some i"
      using index_in_nth [of ?ps i] by simp
    moreover have "first_occurrences (map gf_path (?ops @ [?op])) = ?ps"
      using True by (simp add: first_occurrences_snoc)
    ultimately show ?thesis
      using snoc.IH path merged_snoc_old [OF i] by (simp add: normalize_step_def Let_def)
  next
    case False
    then have "index_in ?ps (gf_path ?op) = None"
      by (intro index_in_None) simp
    moreover have "first_occurrences (map gf_path (?ops @ [?op])) = ?ps @ [gf_path ?op]"
      using False by (simp add: first_occurrences_snoc)
    moreover have "index_in (?ps @ [gf_path ?op]) = (index_in ?ps)(gf_path ?op \<mapsto> length ?ps)"
      using False by (intro index_in_snoc) simp_all
    ultimately show ?thesis
      using snoc.IH path merged_snoc_new [OF False] len
      by (simp add: normalize_step_def Let_def fun_eq_iff)
  qed
qed

text \<open>\<open>NormalizeGeneratedFiles\<close> computes the reference: one operation per normalised path, in the
  order of first occurrence, each the left-to-right merge of the operations on its path.\<close>

theorem NormalizeGeneratedFiles_groups:
  "NormalizeGeneratedFiles files = merged_by_path (map normalize_path_of files)"
  by (simp add: NormalizeGeneratedFiles_def normalize_fold)

lemma NormalizeGeneratedFiles_paths:
  "map gf_path (NormalizeGeneratedFiles files) =
     first_occurrences (map (\<lambda>f. normalizePlanPath (gf_path f)) files)"
  by (simp add: NormalizeGeneratedFiles_def normalize_fold merged_by_path_paths normalize_path_of_def
      comp_def)

section \<open>Unchanged and truncated modifications\<close>

definition crlf :: string where
  "crlf = [CHR 0x0D, CHR 0x0A]"

definition normalizeGeneratedFileContent :: "string \<Rightarrow> string" where
  "normalizeGeneratedFileContent value = replace_all crlf [newline] value"

definition meaningfulLines :: "string \<Rightarrow> string list" where
  "meaningfulLines value = filter (\<lambda>line. line \<noteq> []) (map trim_space (split_on newline value))"

text \<open>The loop that fills \<open>contentByPath\<close>: a later file with the same path wins.\<close>

definition content_by_path :: "(string \<Rightarrow> string) \<Rightarrow> repository_file list \<Rightarrow> string \<rightharpoonup> string" where
  "content_by_path conv repositoryFiles =
     foldl (\<lambda>m file. m(normalizePlanPath (rf_path file) \<mapsto> conv (rf_content file)))
       Map.empty repositoryFiles"

text \<open>Reading a Go map gives the zero value for a missing key.\<close>

definition content_of :: "(string \<rightharpoonup> string) \<Rightarrow> string \<Rightarrow> string" where
  "content_of m p = (case m p of None \<Rightarrow> [] | Some c \<Rightarrow> c)"

definition DropNoopGeneratedFiles ::
    "generated_file_operation list \<Rightarrow> repository_file list \<Rightarrow> generated_file_operation list" where
  "DropNoopGeneratedFiles files repositoryFiles =
     (let contentByPath = content_by_path normalizeGeneratedFileContent repositoryFiles in
      filter (\<lambda>file. \<not> (gf_action file = ''modify'' \<and>
                normalizeGeneratedFileContent (gf_content file) =
                content_of contentByPath (normalizePlanPath (gf_path file)))) files)"

definition DropNoopGeneratedFilesForApply ::
    "generated_file_operation list \<Rightarrow> repository_file list \<Rightarrow> generated_file_operation list" where
  "DropNoopGeneratedFilesForApply files repositoryFiles =
     (let contentByPath = content_by_path normalizeGeneratedFileContent repositoryFiles in
      filter (\<lambda>file. \<not> (gf_action file = ''modify'' \<and>
                normalizeGeneratedFileContent (gf_content file) =
                content_of contentByPath (normalizePlanPath (gf_path file)))) files)"

text \<open>The shares of the original below which a replacement counts as truncated; Go divides towards
  zero, which on lengths is \<open>div\<close>.\<close>

definition looksLikePartialModifyContent :: "string \<Rightarrow> string \<Rightarrow> bool" where
  "looksLikePartialModifyContent generated0 original0 =
     (let generated = trim_space (normalizeGeneratedFileContent generated0);
          original = trim_space (normalizeGeneratedFileContent original0) in
      if generated = [] \<or> original = [] then False
      else
        let generatedLines = go_len (meaningfulLines generated);
            originalLines = go_len (meaningfulLines original) in
        if originalLines < 3 \<and> go_len original < 120 then False
        else if originalLines \<ge> 3 \<and> generatedLines \<le> 1 then True
        else if go_len original \<ge> 120 \<and>
                go_len generated < max 80 (go_len original * 35 div 100) then True
        else if originalLines \<ge> 8 \<and>
                generatedLines < max 3 (originalLines * 35 div 100) then True
        else False)"

definition DropUnsafePartialModifyFiles ::
    "generated_file_operation list \<Rightarrow> repository_file list \<Rightarrow> generated_file_operation list" where
  "DropUnsafePartialModifyFiles files repositoryFiles =
     (let contentByPath = content_by_path (\<lambda>c. c) repositoryFiles in
      filter (\<lambda>file. \<not> (gf_action file = ''modify'' \<and>
                (case contentByPath (normalizePlanPath (gf_path file)) of
                   None \<Rightarrow> False
                 | Some original \<Rightarrow> looksLikePartialModifyContent (gf_content file) original))) files)"

section \<open>Validation of the generated operations\<close>

definition check_action :: "string list \<Rightarrow> string \<Rightarrow> generated_file_operation \<Rightarrow> go_error option" where
  "check_action existing filePath file =
     (let alreadyExists = filePath \<in> set existing in
      if gf_action file = ''create'' then
        (if alreadyExists then Some (ErrText (''create operation targets an existing file: '' @ filePath))
         else if trim_space (gf_content file) = [] then
           Some (ErrText (''create operation for '' @ filePath @ '' requires non-empty content''))
         else None)
      else if gf_action file = ''modify'' then
        (if \<not> alreadyExists then
           Some (ErrText (''modify operation targets an unavailable file: '' @ filePath))
         else if trim_space (gf_content file) = [] then
           Some (ErrText (''modify operation for '' @ filePath @ '' requires non-empty content''))
         else None)
      else if gf_action file = ''delete'' then
        (if \<not> alreadyExists then
           Some (ErrText (''delete operation targets an unavailable file: '' @ filePath))
         else if gf_content file \<noteq> [] \<or> gf_diff file \<noteq> [] then
           Some (ErrText (''delete operation for '' @ filePath @ '' must not include content or diff''))
         else None)
      else Some (ErrText (''generated file '' @ filePath @ '' has unsupported action '' @
                  go_quote (gf_action file))))"

fun check_generated_files ::
    "string list \<Rightarrow> string list \<Rightarrow> generated_file_operation list \<Rightarrow> go_error option" where
  "check_generated_files existing seen [] = None"
| "check_generated_files existing seen (file # files) =
     (let filePath = normalizePlanPath (gf_path file) in
      if \<not> safePlanPath filePath then
        Some (ErrText (''generated file contains unsafe path: '' @ gf_path file))
      else if filePath \<in> set seen then
        Some (ErrText (''generated files response contains duplicate path: '' @ filePath))
      else if trim_space (gf_explanation file) = [] then
        Some (ErrText (''generated file '' @ filePath @ '' must include an explanation''))
      else case check_action existing filePath file of
        Some e \<Rightarrow> Some e
      | None \<Rightarrow> check_generated_files existing (filePath # seen) files)"

definition ValidateGeneratedFiles ::
    "generated_file_operation list \<Rightarrow> repository_file list \<Rightarrow> go_error option" where
  "ValidateGeneratedFiles files repositoryFiles =
     (if files = [] then
        Some (ErrText ''generated files response must contain at least one file operation'')
      else if go_len files > 500 then
        Some (ErrText ''generated files response cannot contain more than 500 file operations'')
      else check_generated_files (map (\<lambda>f. normalizePlanPath (rf_path f)) repositoryFiles) [] files)"

section \<open>What the checks guarantee\<close>

definition valid_operation :: "repository_file list \<Rightarrow> generated_file_operation \<Rightarrow> bool" where
  "valid_operation repositoryFiles op \<longleftrightarrow>
     (let p = normalizePlanPath (gf_path op);
          existing = normalizePlanPath ` rf_path ` set repositoryFiles in
      safePlanPath p \<and> trim_space (gf_explanation op) \<noteq> [] \<and>
      (gf_action op = ''create'' \<and> p \<notin> existing \<and> trim_space (gf_content op) \<noteq> [] \<or>
       gf_action op = ''modify'' \<and> p \<in> existing \<and> trim_space (gf_content op) \<noteq> [] \<or>
       gf_action op = ''delete'' \<and> p \<in> existing \<and> gf_content op = [] \<and> gf_diff op = []))"

lemma check_action_None:
  "check_action (map (\<lambda>f. normalizePlanPath (rf_path f)) repositoryFiles) (normalizePlanPath (gf_path op)) op
      = None \<and> safePlanPath (normalizePlanPath (gf_path op)) \<and> trim_space (gf_explanation op) \<noteq> []
   \<longleftrightarrow> valid_operation repositoryFiles op"
  by (auto simp: check_action_def valid_operation_def Let_def image_image)

lemma check_generated_files_None:
  "check_generated_files (map (\<lambda>f. normalizePlanPath (rf_path f)) repositoryFiles) seen ops = None \<longleftrightarrow>
     (\<forall>op \<in> set ops. valid_operation repositoryFiles op) \<and>
     distinct (map (\<lambda>op. normalizePlanPath (gf_path op)) ops) \<and>
     (\<forall>op \<in> set ops. normalizePlanPath (gf_path op) \<notin> set seen)"
proof (induction ops arbitrary: seen)
  case Nil
  then show ?case by simp
next
  case (Cons op ops)
  show ?case
    unfolding check_generated_files.simps Let_def
    by (auto simp: Cons.IH check_action_None [symmetric] split: option.splits) (metis imageI)
qed

lemma ValidateGeneratedFiles_None:
  "ValidateGeneratedFiles ops repositoryFiles = None \<longleftrightarrow>
     ops \<noteq> [] \<and> go_len ops \<le> 500 \<and> (\<forall>op \<in> set ops. valid_operation repositoryFiles op) \<and>
     distinct (map (\<lambda>op. normalizePlanPath (gf_path op)) ops)"
  by (auto simp: ValidateGeneratedFiles_def check_generated_files_None)

text \<open>C36: The validator accepts exactly the lists of one to 500 operations on distinct, confined paths,
  each explained: a create of a path that does not exist, a modify of a path that does, both with
  content, or a delete of an existing path without content or diff.\<close>

theorem ValidateGeneratedFiles_accepts_iff:
  "ValidateGeneratedFiles ops repositoryFiles = None \<longleftrightarrow>
     ops \<noteq> [] \<and> go_len ops \<le> 500 \<and> list_all (valid_operation repositoryFiles) ops \<and>
     distinct (map (\<lambda>op. normalizePlanPath (gf_path op)) ops)"
  by (simp add: ValidateGeneratedFiles_None list_all_iff)

text \<open>The paths of normalised operations are distinct and normalised, so normalising again changes
  nothing.\<close>

lemma NormalizeGeneratedFiles_distinct: "distinct (map gf_path (NormalizeGeneratedFiles files))"
  by (simp add: NormalizeGeneratedFiles_paths)

lemma NormalizeGeneratedFiles_normal:
  assumes "op \<in> set (NormalizeGeneratedFiles files)"
  shows "normalizePlanPath (gf_path op) = gf_path op"
proof -
  from assms have "gf_path op \<in> set (map gf_path (NormalizeGeneratedFiles files))" by simp
  then show ?thesis unfolding NormalizeGeneratedFiles_paths by auto
qed

lemma merged_by_path_distinct: "distinct (map gf_path ops) \<Longrightarrow> merged_by_path ops = ops"
proof (induction ops rule: rev_induct)
  case (snoc op ops)
  then show ?case by (simp add: merged_snoc_new)
qed (simp add: merged_by_path_def first_occurrences_def)

text \<open>Normalisation is idempotent: the operations that the workflow stores would survive a second
  pass, as the one in the apply path, unchanged.\<close>

theorem NormalizeGeneratedFiles_idempotent:
  "NormalizeGeneratedFiles (NormalizeGeneratedFiles files) = NormalizeGeneratedFiles files"
proof -
  let ?ops = "NormalizeGeneratedFiles files"
  have same: "map normalize_path_of ?ops = ?ops"
    by (rule map_idI) (simp add: normalize_path_of_def NormalizeGeneratedFiles_normal)
  have "NormalizeGeneratedFiles ?ops = merged_by_path (map normalize_path_of ?ops)"
    by (simp add: NormalizeGeneratedFiles_def [of ?ops] normalize_fold)
  then show ?thesis
    using merged_by_path_distinct [OF NormalizeGeneratedFiles_distinct] by (simp add: same)
qed

text \<open>The two filters for unchanged modifications, the one of the code-generation task and the one
  of the apply endpoint, are the same function.\<close>

theorem DropNoop_variants_equal:
  "DropNoopGeneratedFilesForApply files repositoryFiles = DropNoopGeneratedFiles files repositoryFiles"
  by (simp add: DropNoopGeneratedFilesForApply_def DropNoopGeneratedFiles_def)

text \<open>What the loops leave in \<open>contentByPath\<close> when the paths are distinct.\<close>

lemma content_by_path_snoc:
  "content_by_path conv (fs @ [f]) =
     (content_by_path conv fs)(normalizePlanPath (rf_path f) \<mapsto> conv (rf_content f))"
  by (simp add: content_by_path_def)

lemma content_by_path_in:
  "p \<in> normalizePlanPath ` rf_path ` set fs \<longleftrightarrow> content_by_path conv fs p \<noteq> None"
  by (induction fs rule: rev_induct) (auto simp: content_by_path_snoc content_by_path_def)

lemma content_by_path_conv: "content_by_path conv fs p = map_option conv (content_by_path (\<lambda>c. c) fs p)"
  by (induction fs rule: rev_induct) (auto simp: content_by_path_snoc content_by_path_def)

lemma content_by_path_distinct:
  assumes "distinct (map (\<lambda>f. normalizePlanPath (rf_path f)) fs)" and "f \<in> set fs"
  shows "content_by_path conv fs (normalizePlanPath (rf_path f)) = Some (conv (rf_content f))"
  using assms
proof (induction fs rule: rev_induct)
  case (snoc g fs)
  show ?case
  proof (cases "f = g")
    case False
    with snoc.prems have f: "f \<in> set fs" by simp
    then have "normalizePlanPath (rf_path f) \<in> (\<lambda>f. normalizePlanPath (rf_path f)) ` set fs" by blast
    with snoc.prems(1) have "normalizePlanPath (rf_path f) \<noteq> normalizePlanPath (rf_path g)" by auto
    with snoc f show ?thesis by (simp add: content_by_path_snoc)
  qed (simp add: content_by_path_snoc)
qed simp

text \<open>The filters keep an operation or drop it; they change none.\<close>

lemma DropNoop_subset: "set (DropNoopGeneratedFiles files repositoryFiles) \<subseteq> set files"
  by (auto simp: DropNoopGeneratedFiles_def Let_def)

lemma DropUnsafePartial_subset: "set (DropUnsafePartialModifyFiles files repositoryFiles) \<subseteq> set files"
  by (auto simp: DropUnsafePartialModifyFiles_def Let_def)

lemma distinct_map_filter_path:
  "distinct (map gf_path ops) \<Longrightarrow> distinct (map gf_path (filter P ops))"
  by (simp add: distinct_map_filter)

lemma Drop_distinct:
  "distinct (map gf_path ops) \<Longrightarrow> distinct (map gf_path (DropNoopGeneratedFiles ops fs))"
  "distinct (map gf_path ops) \<Longrightarrow> distinct (map gf_path (DropUnsafePartialModifyFiles ops fs))"
  by (simp_all add: DropNoopGeneratedFiles_def DropUnsafePartialModifyFiles_def Let_def
      distinct_map_filter_path)

text \<open>C37: A modification that passes both filters really changes its file and does not look truncated,
  whatever file of the request it targets.\<close>

theorem surviving_modification_changes_file:
  assumes "op \<in> set (DropUnsafePartialModifyFiles (DropNoopGeneratedFiles ops fs) fs)"
    and "gf_action op = ''modify''"
    and "f \<in> set fs" and "normalizePlanPath (rf_path f) = normalizePlanPath (gf_path op)"
    and "distinct (map (\<lambda>f. normalizePlanPath (rf_path f)) fs)"
  shows "normalizeGeneratedFileContent (gf_content op) \<noteq> normalizeGeneratedFileContent (rf_content f) \<and>
    \<not> looksLikePartialModifyContent (gf_content op) (rf_content f)"
proof (rule conjI)
  have at: "content_by_path conv fs (normalizePlanPath (gf_path op)) = Some (conv (rf_content f))" for conv
    using content_by_path_distinct [OF assms(5,3)] assms(4) by simp
  from assms(1) have noop: "op \<in> set (DropNoopGeneratedFiles ops fs)"
    using DropUnsafePartial_subset by blast
  then show "normalizeGeneratedFileContent (gf_content op) \<noteq> normalizeGeneratedFileContent (rf_content f)"
    using assms(2) by (simp add: DropNoopGeneratedFiles_def Let_def at content_of_def)
  show "\<not> looksLikePartialModifyContent (gf_content op) (rf_content f)"
    using assms(1,2) by (simp add: DropUnsafePartialModifyFiles_def Let_def at)
qed

definition sample_op :: generated_file_operation where
  "sample_op = \<lparr>gf_action = ''modify'', gf_path = ''./a.go'', gf_content = ''x := 2'', gf_diff = [],
     gf_explanation = ''new value'', gf_status = [], gf_validation_error = []\<rparr>"

definition sample_original :: repository_file where
  "sample_original = \<lparr>rf_path = ''a.go'', rf_content = ''x := 1'', rf_type = []\<rparr>"

lemma surviving_modification_changes_file_witness:
  "normalizeGeneratedFileContent (gf_content sample_op) \<noteq> normalizeGeneratedFileContent (rf_content sample_original)
   \<and> \<not> looksLikePartialModifyContent (gf_content sample_op) (rf_content sample_original)"
proof -
  have "sample_op \<in> set (DropUnsafePartialModifyFiles (DropNoopGeneratedFiles [sample_op] [sample_original])
      [sample_original])" and "gf_action sample_op = ''modify''"
    and "normalizePlanPath (rf_path sample_original) = normalizePlanPath (gf_path sample_op)"
    by code_simp+
  then show ?thesis
    using surviving_modification_changes_file [of sample_op "[sample_op]" "[sample_original]" sample_original]
    by simp
qed

text \<open>A replacement with no fewer characters and no fewer lines than the original, both without
  surrounding space, never counts as truncated.\<close>

theorem partial_content_is_shorter:
  assumes "looksLikePartialModifyContent new old"
  shows "go_len (trim_space (normalizeGeneratedFileContent new)) < go_len (trim_space (normalizeGeneratedFileContent old))
     \<or> go_len (meaningfulLines (trim_space (normalizeGeneratedFileContent new))) <
       go_len (meaningfulLines (trim_space (normalizeGeneratedFileContent old)))"
proof -
  define g where "g = trim_space (normalizeGeneratedFileContent new)"
  define h where "h = trim_space (normalizeGeneratedFileContent old)"
  have "max 80 (go_len h * 35 div 100) \<le> go_len h" if "120 \<le> go_len h" using that by auto
  moreover have "max 3 (n * 35 div 100) \<le> n" if "8 \<le> n" for n :: int using that by auto
  ultimately show ?thesis
    using assms unfolding looksLikePartialModifyContent_def Let_def g_def [symmetric] h_def [symmetric]
    by (smt (verit))
qed

lemma partial_content_is_shorter_witness:
  "go_len (trim_space (normalizeGeneratedFileContent ''d'')) <
     go_len (trim_space (normalizeGeneratedFileContent [CHR ''a'', newline, CHR ''b'', newline, CHR ''c'']))
   \<or> go_len (meaningfulLines (trim_space (normalizeGeneratedFileContent ''d''))) <
     go_len (meaningfulLines (trim_space (normalizeGeneratedFileContent
       [CHR ''a'', newline, CHR ''b'', newline, CHR ''c''])))"
proof -
  have "looksLikePartialModifyContent ''d'' [CHR ''a'', newline, CHR ''b'', newline, CHR ''c'']"
    by code_simp
  then show ?thesis by (rule partial_content_is_shorter)
qed

text \<open>A modify operation without content is dropped as unchanged when its target is not among the
  request's files, so the validator never gets to report the unavailable target.\<close>

theorem empty_modify_of_unavailable_file_dropped:
  assumes "gf_action op = ''modify''" and "gf_content op = []"
    and "normalizePlanPath (gf_path op) \<notin> normalizePlanPath ` rf_path ` set fs"
  shows "op \<notin> set (DropNoopGeneratedFiles ops fs) \<and>
    check_action (map (\<lambda>f. normalizePlanPath (rf_path f)) fs) (normalizePlanPath (gf_path op)) op
      = Some (ErrText (''modify operation targets an unavailable file: '' @ normalizePlanPath (gf_path op)))"
proof (rule conjI)
  have "content_by_path normalizeGeneratedFileContent fs (normalizePlanPath (gf_path op)) = None"
    using assms(3) content_by_path_in [of "normalizePlanPath (gf_path op)" fs] by blast
  then show "op \<notin> set (DropNoopGeneratedFiles ops fs)"
    using assms(1,2)
    by (simp add: DropNoopGeneratedFiles_def Let_def content_of_def normalizeGeneratedFileContent_def)
  show "check_action (map (\<lambda>f. normalizePlanPath (rf_path f)) fs) (normalizePlanPath (gf_path op)) op
      = Some (ErrText (''modify operation targets an unavailable file: '' @ normalizePlanPath (gf_path op)))"
    using assms by (simp add: check_action_def image_image)
qed

lemma empty_modify_of_unavailable_file_dropped_witness:
  "sample_op\<lparr>gf_path := ''b.go'', gf_content := []\<rparr> \<notin> set (DropNoopGeneratedFiles
     [sample_op\<lparr>gf_path := ''b.go'', gf_content := []\<rparr>] [sample_original])"
proof -
  let ?op = "sample_op\<lparr>gf_path := ''b.go'', gf_content := []\<rparr>"
  have "gf_action ?op = ''modify''" "gf_content ?op = []" by (simp_all add: sample_op_def)
  moreover have "normalizePlanPath (gf_path ?op) \<notin> normalizePlanPath ` rf_path ` set [sample_original]"
    by code_simp
  ultimately show ?thesis
    using empty_modify_of_unavailable_file_dropped [of ?op "[sample_original]" "[?op]"] by blast
qed

end
