(* ===== verification/Config.thy ===== *)
theory Config imports Domain Go_Strings begin

text \<open>
  backend/internal/service/config.go: the repository's .yml configuration. The YAML parser
  (gopkg.in/yaml.v3) is a parameter \<open>unmarshal\<close>; what it decodes into an \<open>any\<close> is a value of type
  \<open>yaml\<close>. The entries of a mapping are listed in the order in which Go happens to visit the map.
\<close>

section \<open>Decoded documents\<close>

text \<open>
  A scalar (boolean, number, string, timestamp) is the text that \<open>fmt.Sprint\<close> prints for it. yaml.v3
  decodes a mapping with string keys only to a \<open>map[string]any\<close>, any other to a \<open>map[any]any\<close>, which
  comes with the text that \<open>fmt.Sprint\<close> prints.
\<close>

datatype yaml =
    YNull
  | YScalar string
  | YSeq "yaml list"
  | YMap "(string \<times> yaml) list"
  | YAnyMap string "(yaml \<times> yaml) list"

type_synonym unmarshal = "string \<Rightarrow> string + yaml"

fun str_le :: "string \<Rightarrow> string \<Rightarrow> bool" where
  "str_le [] t = True"
| "str_le (c # cs) [] = False"
| "str_le (c # cs) (d # ds) = (byte_of c < byte_of d \<or> c = d \<and> str_le cs ds)"

fun insert_entry :: "string \<times> string \<Rightarrow> (string \<times> string) list \<Rightarrow> (string \<times> string) list" where
  "insert_entry e [] = [e]"
| "insert_entry e (f # fs) = (if str_le (fst e) (fst f) then e # f # fs else f # insert_entry e fs)"

text \<open>\<open>fmt.Sprint\<close>: maps are printed with their keys in order.\<close>

fun sprint :: "yaml \<Rightarrow> string" where
  "sprint YNull = ''<nil>''"
| "sprint (YScalar t) = t"
| "sprint (YSeq ys) = ''['' @ join_with '' '' (map sprint ys) @ '']''"
| "sprint (YMap kvs) =
     ''map['' @ join_with '' '' (map (\<lambda>(k, t). k @ '':'' @ t)
        (foldr insert_entry (map (\<lambda>(k, v). (k, sprint v)) kvs) [])) @ '']''"
| "sprint (YAnyMap t kvs) = t"

section \<open>Flattening\<close>

record yaml_doc =
  yd_scalars :: "string \<rightharpoonup> string"
  yd_lists :: "string \<rightharpoonup> string list"

definition nested_path :: "string \<Rightarrow> string \<Rightarrow> string" where
  "nested_path pfx key = (if pfx \<noteq> [] then pfx @ ''.'' @ key else key)"

fun flattenYAML :: "yaml_doc \<Rightarrow> string \<Rightarrow> yaml \<Rightarrow> yaml_doc"
  and flatten_entries :: "yaml_doc \<Rightarrow> string \<Rightarrow> (string \<times> yaml) list \<Rightarrow> yaml_doc" where
  "flattenYAML d pfx (YMap kvs) = flatten_entries d pfx kvs"
| "flattenYAML d pfx (YSeq ys) = d\<lparr>yd_lists := (yd_lists d)(pfx \<mapsto> map sprint ys)\<rparr>"
| "flattenYAML d pfx YNull = d"
| "flattenYAML d pfx (YScalar t) = d\<lparr>yd_scalars := (yd_scalars d)(pfx \<mapsto> t)\<rparr>"
| "flattenYAML d pfx (YAnyMap t kvs) = d\<lparr>yd_scalars := (yd_scalars d)(pfx \<mapsto> t)\<rparr>"
| "flatten_entries d pfx [] = d"
| "flatten_entries d pfx ((key, nested) # kvs) =
     flatten_entries (flattenYAML d (nested_path pfx key) nested) pfx kvs"

definition empty_doc :: yaml_doc where
  "empty_doc = \<lparr>yd_scalars = Map.empty, yd_lists = Map.empty\<rparr>"

text \<open>The second decoding, into a \<open>map[string]any\<close>, fails on a document that is no such mapping.\<close>

definition parseSimpleYAML :: "unmarshal \<Rightarrow> string \<Rightarrow> yaml_doc" where
  "parseSimpleYAML unmarshal raw =
     (case unmarshal raw of
        Inr (YMap kvs) \<Rightarrow> flattenYAML empty_doc [] (YMap kvs)
      | _ \<Rightarrow> empty_doc)"

section \<open>Reading settings\<close>

definition scalar :: "yaml_doc \<Rightarrow> string \<Rightarrow> string \<Rightarrow> string" where
  "scalar d k f = (case yd_scalars d k of Some v \<Rightarrow> if v \<noteq> [] then v else f | None \<Rightarrow> f)"

definition boolean :: "yaml_doc \<Rightarrow> string \<Rightarrow> bool \<Rightarrow> bool" where
  "boolean d k f = (case yd_scalars d k of None \<Rightarrow> f | Some v \<Rightarrow> equal_fold v ''true'')"

definition list_setting :: "yaml_doc \<Rightarrow> string \<Rightarrow> string list \<Rightarrow> string list" where
  "list_setting d k f = (case yd_lists d k of Some v \<Rightarrow> v | None \<Rightarrow> f)"

definition integer :: "yaml_doc \<Rightarrow> string \<Rightarrow> int \<Rightarrow> int" where
  "integer d key fallback =
     (case yd_scalars d key of
        None \<Rightarrow> fallback
      | Some value \<Rightarrow>
          (case parse_int value of
             None \<Rightarrow> fallback
           | Some parsed \<Rightarrow> if parsed < 1 then fallback else parsed))"

definition strictInteger :: "yaml_doc \<Rightarrow> string \<Rightarrow> int \<Rightarrow> int result" where
  "strictInteger d key fallback =
     (case yd_scalars d key of
        None \<Rightarrow> Inr fallback
      | Some value \<Rightarrow>
          (case parse_int value of
             None \<Rightarrow> Inl (ErrText (key @ '' must be an integer''))
           | Some parsed \<Rightarrow> Inr parsed))"

definition model_key :: "string \<Rightarrow> bool" where
  "model_key key \<longleftrightarrow>
     replace_all ''-'' ''_'' (to_lower key) \<in> {''model'', ''model_id'', ''agent_model'', ''llm_model''}"

fun containsModelSelection :: "yaml \<Rightarrow> bool"
  and entries_select_model :: "(string \<times> yaml) list \<Rightarrow> bool"
  and elements_select_model :: "yaml list \<Rightarrow> bool" where
  "containsModelSelection (YMap kvs) = entries_select_model kvs"
| "containsModelSelection (YSeq ys) = elements_select_model ys"
| "containsModelSelection YNull = False"
| "containsModelSelection (YScalar t) = False"
| "containsModelSelection (YAnyMap t kvs) = False"
| "entries_select_model [] = False"
| "entries_select_model ((key, nested) # kvs) =
     (if model_key key then True
      else if containsModelSelection nested then True else entries_select_model kvs)"
| "elements_select_model [] = False"
| "elements_select_model (nested # ys) =
     (if containsModelSelection nested then True else elements_select_model ys)"

definition is_string_map :: "yaml \<Rightarrow> bool" where
  "is_string_map y = (case y of YMap kvs \<Rightarrow> True | _ \<Rightarrow> False)"

text \<open>On an error after decoding the Go function returns the half-checked configuration beside the error;
  no caller reads it.\<close>

definition ParseAIConfig :: "unmarshal \<Rightarrow> string \<Rightarrow> ai_config result" where
  "ParseAIConfig unmarshal raw =
     (if trim_space raw = [] then Inl (ErrText ''missing .yml configuration'')
      else case unmarshal raw of
        Inl e \<Rightarrow> Inl (ErrText (''invalid YAML configuration: '' @ e))
      | Inr document \<Rightarrow>
          if \<not> is_string_map document then Inl (ErrText ''YAML configuration must contain a mapping'')
          else if containsModelSelection document then Inl (ErrText ''model selection is operator-controlled'')
          else
            let doc = parseSimpleYAML unmarshal raw in
            (case strictInteger doc ''storage.recommendation_ttl_days'' 30 of
               Inl e \<Rightarrow> Inl e
             | Inr retentionDays \<Rightarrow>
                 let cfg = \<lparr>cfg_raw = raw,
                       cfg_version = scalar doc ''version'' ''1'',
                       cfg_default_branch = scalar doc ''repository.default_branch'' ''main'',
                       cfg_target_branch_prefix = scalar doc ''repository.target_branch_prefix'' ''ai-'',
                       cfg_analysis_enabled = boolean doc ''analysis.enabled'' True,
                       cfg_require_approval = boolean doc ''code_generation.require_user_approval'' True,
                       cfg_recommendations_enabled = boolean doc ''recommendations.enabled'' True,
                       cfg_include_patterns = list_setting doc ''analysis.include'' [''**/*''],
                       cfg_exclude_patterns = list_setting doc ''analysis.exclude''
                         [''.git/**'', ''node_modules/**'', ''dist/**'', ''build/**''],
                       cfg_recommendation_categories = list_setting doc ''recommendations.categories'' [],
                       cfg_max_files = integer doc ''analysis.max_files'' 20,
                       cfg_max_snippets_per_file = integer doc ''analysis.max_snippets_per_file'' 3,
                       cfg_retention_days = retentionDays,
                       cfg_reviewer_policy = scalar doc ''code_generation.reviewer_policy'' ''issue_author'',
                       cfg_approve_command =
                         scalar doc ''code_generation.allowed_actions.approve_command'' ''/approve'',
                       cfg_correct_command =
                         scalar doc ''code_generation.allowed_actions.correct_command'' ''/correct'',
                       cfg_reject_command =
                         scalar doc ''code_generation.allowed_actions.reject_command'' ''/reject''\<rparr>
                 in if \<not> cfg_analysis_enabled cfg then
                      Inl (ErrText ''repository analysis is disabled in .yml configuration'')
                    else if trim_space (cfg_default_branch cfg) = [] \<or>
                            trim_space (cfg_target_branch_prefix cfg) = [] then
                      Inl (ErrText ''repository branch configuration is required'')
                    else if cfg_retention_days cfg < 1 \<or> cfg_retention_days cfg > 365 then
                      Inl (ErrText ''storage.recommendation_ttl_days must be between 1 and 365'')
                    else Inr cfg))"

section \<open>What an accepted configuration satisfies\<close>

lemma integer_positive: "1 \<le> fallback \<Longrightarrow> 1 \<le> integer d key fallback"
  by (simp add: integer_def split: option.split)

text \<open>C39: An accepted configuration is usable: analysis is on, both branch settings are non-blank, the
  retention lies between 1 and 365 days, the limits are positive and the raw text is kept.\<close>

theorem ParseAIConfig_bounds:
  assumes "ParseAIConfig unmarshal raw = Inr cfg"
  shows "cfg_raw cfg = raw \<and> cfg_analysis_enabled cfg \<and> trim_space (cfg_default_branch cfg) \<noteq> [] \<and>
    trim_space (cfg_target_branch_prefix cfg) \<noteq> [] \<and> 1 \<le> cfg_retention_days cfg \<and>
    cfg_retention_days cfg \<le> 365 \<and> 1 \<le> cfg_max_files cfg \<and> 1 \<le> cfg_max_snippets_per_file cfg"
  using assms
  by (auto simp: ParseAIConfig_def Let_def integer_positive split: if_splits sum.splits)

definition sample_unmarshal :: unmarshal where
  "sample_unmarshal raw = Inr (YMap [(''version'', YScalar ''1''),
     (''repository'', YMap [(''target_branch_prefix'', YScalar ''ai/'')]),
     (''storage'', YMap [(''recommendation_ttl_days'', YScalar ''7'')])])"

lemma ParseAIConfig_bounds_witness:
  "case ParseAIConfig sample_unmarshal ''version: 1'' of
     Inl e \<Rightarrow> False | Inr cfg \<Rightarrow> 1 \<le> cfg_retention_days cfg \<and> cfg_retention_days cfg = 7"
proof -
  have "\<exists>cfg. ParseAIConfig sample_unmarshal ''version: 1'' = Inr cfg \<and> cfg_retention_days cfg = 7"
  proof -
    have "case ParseAIConfig sample_unmarshal ''version: 1'' of Inl e \<Rightarrow> False | Inr cfg \<Rightarrow> cfg_retention_days cfg = 7"
      by code_simp
    then show ?thesis by (auto split: sum.splits)
  qed
  then show ?thesis using ParseAIConfig_bounds [of sample_unmarshal "''version: 1''"] by auto
qed

section \<open>Model selection\<close>

text \<open>A document selects a model when a model key occurs in a mapping at any depth, below mappings with
  string keys and sequences.\<close>

inductive selects_model :: "yaml \<Rightarrow> bool" where
  model_key_here: "(key, v) \<in> set kvs \<Longrightarrow> model_key key \<Longrightarrow> selects_model (YMap kvs)"
| model_key_below: "(key, v) \<in> set kvs \<Longrightarrow> selects_model v \<Longrightarrow> selects_model (YMap kvs)"
| model_key_in_element: "y \<in> set ys \<Longrightarrow> selects_model y \<Longrightarrow> selects_model (YSeq ys)"

inductive_simps selects_model_simps [simp]:
  "selects_model YNull" "selects_model (YScalar t)" "selects_model (YSeq ys)" "selects_model (YMap kvs)"
  "selects_model (YAnyMap t kvs)"

lemma containsModelSelection_iff:
  "containsModelSelection y \<longleftrightarrow> selects_model y"
  "entries_select_model kvs \<longleftrightarrow> (\<exists>(k, v) \<in> set kvs. model_key k \<or> selects_model v)"
  "elements_select_model ys \<longleftrightarrow> (\<exists>y \<in> set ys. selects_model y)"
  by (induction y and kvs and ys
      rule: containsModelSelection_entries_select_model_elements_select_model.induct) auto

text \<open>An accepted configuration has no model key in any mapping with string keys, however deeply nested.\<close>

theorem accepted_config_selects_no_model:
  assumes "ParseAIConfig unmarshal raw = Inr cfg"
  shows "\<exists>kvs. unmarshal raw = Inr (YMap kvs) \<and> \<not> selects_model (YMap kvs)"
  using assms
  by (auto simp: ParseAIConfig_def containsModelSelection_iff is_string_map_def
      split: if_splits sum.splits yaml.splits)

lemma accepted_config_selects_no_model_witness:
  "\<exists>kvs. sample_unmarshal ''version: 1'' = Inr (YMap kvs) \<and> \<not> selects_model (YMap kvs)"
proof -
  have "case ParseAIConfig sample_unmarshal ''version: 1'' of Inl e \<Rightarrow> False | Inr cfg \<Rightarrow> True"
    by code_simp
  then show ?thesis
    using accepted_config_selects_no_model [of sample_unmarshal "''version: 1''"] by (auto split: sum.splits)
qed

text \<open>The check does not look below a mapping that has a key which is no string.\<close>

definition hidden_model_unmarshal :: unmarshal where
  "hidden_model_unmarshal raw = Inr (YMap [(''agent'', YAnyMap ''map[1:x model:gpt]''
     [(YScalar ''1'', YScalar ''x''), (YScalar ''model'', YScalar ''gpt'')])])"

text \<open>The guard against model selection can be evaded: a configuration with a \<open>model\<close> key in a mapping
  that also has a non-string key is accepted.\<close>

theorem model_selection_guard_evaded:
  "(case hidden_model_unmarshal raw of
      Inr (YMap [(k, YAnyMap t kvs)]) \<Rightarrow> (\<exists>v. (YScalar ''model'', v) \<in> set kvs)
    | _ \<Rightarrow> False) \<and>
   (case ParseAIConfig hidden_model_unmarshal ''agent: {1: x, model: gpt}'' of Inr cfg \<Rightarrow> True | Inl e \<Rightarrow> False)"
proof
  show "case ParseAIConfig hidden_model_unmarshal ''agent: {1: x, model: gpt}'' of Inr cfg \<Rightarrow> True | Inl e \<Rightarrow> False"
    by code_simp
qed (simp add: hidden_model_unmarshal_def)

section \<open>Flattening finds every setting\<close>

definition plain_key :: "string \<Rightarrow> bool" where
  "plain_key k \<longleftrightarrow> k \<noteq> [] \<and> CHR ''.'' \<notin> set k"

fun plain :: "yaml \<Rightarrow> bool"
  and plain_entries :: "(string \<times> yaml) list \<Rightarrow> bool" where
  "plain (YMap kvs) = (distinct (map fst kvs) \<and> plain_entries kvs)"
| "plain (YSeq ys) = True"
| "plain YNull = True"
| "plain (YScalar t) = True"
| "plain (YAnyMap t kvs) = True"
| "plain_entries [] = True"
| "plain_entries ((k, v) # kvs) = (plain_key k \<and> plain v \<and> plain_entries kvs)"

fun yaml_at :: "string list \<Rightarrow> yaml \<Rightarrow> yaml option" where
  "yaml_at [] y = Some y"
| "yaml_at (k # ks) (YMap kvs) = (case map_of kvs k of None \<Rightarrow> None | Some v \<Rightarrow> yaml_at ks v)"
| "yaml_at (k # ks) y = None"

definition scalar_at :: "string list \<Rightarrow> yaml \<Rightarrow> string option" where
  "scalar_at ks y = (case yaml_at ks y of Some (YScalar t) \<Rightarrow> Some t | Some (YAnyMap t kvs) \<Rightarrow> Some t | _ \<Rightarrow> None)"

definition list_at :: "string list \<Rightarrow> yaml \<Rightarrow> string list option" where
  "list_at ks y = (case yaml_at ks y of Some (YSeq ys) \<Rightarrow> Some (map sprint ys) | _ \<Rightarrow> None)"

definition path_from :: "string \<Rightarrow> string list \<Rightarrow> string" where
  "path_from pfx ks = foldl nested_path pfx ks"

lemma path_from_simps [simp]:
  "path_from pfx [] = pfx" "path_from pfx (k # ks) = path_from (nested_path pfx k) ks"
  by (simp_all add: path_from_def)

lemma path_from_nonempty:
  "pfx \<noteq> [] \<Longrightarrow> path_from pfx ks = pfx @ concat (map (\<lambda>k. CHR ''.'' # k) ks)"
proof (induction ks arbitrary: pfx)
  case (Cons k ks)
  then show ?case by (simp add: nested_path_def)
qed simp

lemma join_Cons_head: "join_with sep ((c # j) # ks) = c # join_with sep (j # ks)"
  by (cases ks) simp_all

lemma dotted_join: "concat (map (\<lambda>k. c # k) (k # ks)) = c # join_with [c] (k # ks)"
proof (induction ks arbitrary: k)
  case (Cons j ks)
  then show ?case by (simp add: join_Cons_head)
qed simp

lemma path_from_empty: "list_all plain_key ks \<Longrightarrow> path_from [] ks = join_with ''.'' ks"
proof (cases ks)
  case (Cons k ks')
  assume "list_all plain_key ks"
  with Cons have "path_from [] ks = k @ concat (map (\<lambda>k. CHR ''.'' # k) ks')"
    by (simp add: nested_path_def path_from_nonempty plain_key_def)
  also have "\<dots> = join_with ''.'' ks"
    using Cons by (cases ks') (simp_all add: dotted_join [simplified] join_Cons_head)
  finally show ?thesis .
qed simp

lemma join_plain_inj:
  assumes "list_all plain_key ks" and "list_all plain_key js" and "join_with ''.'' ks = join_with ''.'' js"
  shows "ks = js"
proof -
  have split: "split_on CHR ''.'' (join_with ''.'' ls) = ls" if "list_all plain_key ls" "ls \<noteq> []" for ls
    using that by (intro split_join) (auto simp: list_all_iff plain_key_def)
  have nil: "join_with ''.'' ls = [] \<longleftrightarrow> ls = []" if "list_all plain_key ls" for ls
    using that by (cases ls; cases "tl ls") (auto simp: plain_key_def)
  show ?thesis
    using assms split nil by metis
qed

lemma path_from_inj:
  assumes "list_all plain_key ks" and "list_all plain_key js" and "path_from pfx ks = path_from pfx js"
  shows "ks = js"
proof (cases "pfx = []")
  case True
  with assms join_plain_inj show ?thesis by (simp add: path_from_empty)
next
  case False
  then have eq: "concat (map (\<lambda>k. CHR ''.'' # k) ks) = concat (map (\<lambda>k. CHR ''.'' # k) js)"
    using assms(3) by (simp add: path_from_nonempty)
  show ?thesis
  proof (cases ks)
    case Nil
    with eq show ?thesis by (cases js) auto
  next
    case (Cons k ks')
    with eq obtain j js' where js: "js = j # js'" by (cases js) auto
    with Cons eq have "join_with ''.'' ks = join_with ''.'' js"
      unfolding Cons js dotted_join by simp
    with assms join_plain_inj show ?thesis by blast
  qed
qed

text \<open>Flattening a document below a path writes at extensions of that path only.\<close>

lemma flatten_frame:
  "\<forall>ks. list_all plain_key ks \<longrightarrow> p \<noteq> path_from pfx ks \<Longrightarrow> plain y \<Longrightarrow>
     yd_scalars (flattenYAML d pfx y) p = yd_scalars d p \<and> yd_lists (flattenYAML d pfx y) p = yd_lists d p"
  "\<forall>ks. list_all plain_key ks \<longrightarrow> p \<noteq> path_from pfx ks \<Longrightarrow> plain_entries kvs \<Longrightarrow>
     yd_scalars (flatten_entries d pfx kvs) p = yd_scalars d p \<and>
     yd_lists (flatten_entries d pfx kvs) p = yd_lists d p"
proof (induction d pfx y and d pfx kvs rule: flattenYAML_flatten_entries.induct)
  case (7 d pfx k n kvs)
  have "p \<noteq> path_from (nested_path pfx k) ks" if "list_all plain_key ks" for ks
    using "7.prems"(1) [rule_format, of "k # ks"] "7.prems"(2) that by simp
  with 7 show ?case by simp
qed (auto dest: spec [where x = "[]"])

lemma plain_entries_map_of: "plain_entries kvs \<Longrightarrow> map_of kvs k = Some v \<Longrightarrow> plain_key k \<and> plain v"
  by (induction kvs rule: list.induct) (auto split: if_splits)

lemma flatten_at:
  "plain y \<Longrightarrow> list_all plain_key ks \<Longrightarrow>
     yd_scalars (flattenYAML d pfx y) (path_from pfx ks) =
       (case scalar_at ks y of Some t \<Rightarrow> Some t | None \<Rightarrow> yd_scalars d (path_from pfx ks)) \<and>
     yd_lists (flattenYAML d pfx y) (path_from pfx ks) =
       (case list_at ks y of Some t \<Rightarrow> Some t | None \<Rightarrow> yd_lists d (path_from pfx ks))"
  "plain_entries kvs \<Longrightarrow> distinct (map fst kvs) \<Longrightarrow> list_all plain_key ks \<Longrightarrow>
     yd_scalars (flatten_entries d pfx kvs) (path_from pfx ks) =
       (case scalar_at ks (YMap kvs) of Some t \<Rightarrow> Some t | None \<Rightarrow> yd_scalars d (path_from pfx ks)) \<and>
     yd_lists (flatten_entries d pfx kvs) (path_from pfx ks) =
       (case list_at ks (YMap kvs) of Some t \<Rightarrow> Some t | None \<Rightarrow> yd_lists d (path_from pfx ks))"
proof (induction d pfx y and d pfx kvs arbitrary: ks and ks rule: flattenYAML_flatten_entries.induct)
  case (2 d pfx ys)
  then show ?case
    using path_from_inj [of ks "[]" pfx] by (cases ks) (auto simp: scalar_at_def list_at_def)
next
  case (3 d pfx)
  then show ?case by (cases ks) (auto simp: scalar_at_def list_at_def)
next
  case (4 d pfx t)
  then show ?case
    using path_from_inj [of ks "[]" pfx] by (cases ks) (auto simp: scalar_at_def list_at_def)
next
  case (5 d pfx t kvs)
  then show ?case
    using path_from_inj [of ks "[]" pfx] by (cases ks) (auto simp: scalar_at_def list_at_def)
next
  case (6 d pfx)
  then show ?case by (cases ks) (auto simp: scalar_at_def list_at_def)
next
  case (7 d pfx k n kvs)
  let ?d = "flattenYAML d (nested_path pfx k) n"
  have rest: "yd_scalars (flatten_entries ?d pfx kvs) (path_from pfx ks) =
      (case scalar_at ks (YMap kvs) of Some t \<Rightarrow> Some t | None \<Rightarrow> yd_scalars ?d (path_from pfx ks)) \<and>
    yd_lists (flatten_entries ?d pfx kvs) (path_from pfx ks) =
      (case list_at ks (YMap kvs) of Some t \<Rightarrow> Some t | None \<Rightarrow> yd_lists ?d (path_from pfx ks))"
    using 7 by simp
  show ?case
  proof (cases "ks \<noteq> [] \<and> hd ks = k")
    case True
    then obtain js where js: "ks = k # js" by (cases ks) auto
    have "map_of kvs k = None" using "7.prems"(2) by (simp add: map_of_eq_None_iff)
    moreover have "yd_scalars ?d (path_from pfx ks) =
        (case scalar_at js n of Some t \<Rightarrow> Some t | None \<Rightarrow> yd_scalars d (path_from pfx ks)) \<and>
      yd_lists ?d (path_from pfx ks) =
        (case list_at js n of Some t \<Rightarrow> Some t | None \<Rightarrow> yd_lists d (path_from pfx ks))"
      using "7.IH"(1) [of js] "7.prems" unfolding js by (simp cong: option.case_cong)
    ultimately show ?thesis
      using rest js by (simp add: scalar_at_def list_at_def)
  next
    case False
    have "path_from pfx ks \<noteq> path_from (nested_path pfx k) js" if "list_all plain_key js" for js
      using path_from_inj [of ks "k # js" pfx] False "7.prems" that by auto
    then have "yd_scalars ?d (path_from pfx ks) = yd_scalars d (path_from pfx ks) \<and>
        yd_lists ?d (path_from pfx ks) = yd_lists d (path_from pfx ks)"
      using flatten_frame(1) [of "path_from pfx ks" "nested_path pfx k" n d] "7.prems" by simp
    moreover have "scalar_at ks (YMap ((k, n) # kvs)) = scalar_at ks (YMap kvs) \<and>
        list_at ks (YMap ((k, n) # kvs)) = list_at ks (YMap kvs)"
      using False by (cases ks) (auto simp: scalar_at_def list_at_def)
    ultimately show ?thesis
      using rest by (simp cong: option.case_cong)
  qed
qed simp_all

text \<open>When no key of the document is empty or contains a dot, the flattened tables hold exactly the
  scalars and sequences of the document under their dotted paths, in whatever order the maps are visited.\<close>

theorem flattenYAML_finds_settings:
  assumes "plain (YMap kvs)" and "list_all plain_key ks"
  shows "yd_scalars (flattenYAML empty_doc [] (YMap kvs)) (join_with ''.'' ks) = scalar_at ks (YMap kvs) \<and>
    yd_lists (flattenYAML empty_doc [] (YMap kvs)) (join_with ''.'' ks) = list_at ks (YMap kvs)"
  using flatten_at(1) [OF assms, of empty_doc "[]"] assms(2)
  by (auto simp: empty_doc_def path_from_empty split: option.splits)

lemma flattenYAML_finds_settings_witness:
  "yd_scalars (flattenYAML empty_doc [] (YMap [(''a'', YMap [(''b'', YScalar ''1'')])])) (join_with ''.'' [''a'', ''b''])
     = Some ''1''"
  using flattenYAML_finds_settings [of "[(''a'', YMap [(''b'', YScalar ''1'')])]" "[''a'', ''b'']"]
  by (simp add: plain_key_def scalar_at_def)

text \<open>With dots in keys a setting can have two values, and the visiting order of the map decides which
  one is read.\<close>

theorem dotted_keys_make_flattening_ambiguous:
  "let e1 = (''analysis.enabled'', YScalar ''false''); e2 = (''analysis'', YMap [(''enabled'', YScalar ''true'')]) in
   boolean (flattenYAML empty_doc [] (YMap [e1, e2])) ''analysis.enabled'' True \<and>
   \<not> boolean (flattenYAML empty_doc [] (YMap [e2, e1])) ''analysis.enabled'' True"
  by code_simp

end
