(* ===== verification/Branch_Names.thy ===== *)
theory Branch_Names imports Domain Go_Strings begin

text \<open>
  The branch and pull-request payload of backend/internal/service/workflow.go: the slug made from the
  issue title and the normalisation of branch names.
\<close>

definition branch_char :: "char \<Rightarrow> bool" where
  "branch_char c \<longleftrightarrow> is_alnum c \<or> c = CHR ''.'' \<or> c = CHR ''_'' \<or> c = CHR ''-''"

definition normalizeGitFlameBranchName :: "string \<Rightarrow> string" where
  "normalizeGitFlameBranchName value =
     (let normalized = trim_chars ''-.'' (replace_runs (\<lambda>c. \<not> branch_char c) ''-'' (trim_space value))
      in if normalized = [] then ''ai-issue'' else normalized)"

definition issue_slug :: "string \<Rightarrow> string" where
  "issue_slug title =
     (let slug = trim_chars ''-'' (replace_runs (\<lambda>c. \<not> is_alnum c) ''-'' (to_lower title));
          cut = (if go_len slug > 40 then take 40 slug else slug)
      in if cut = [] then ''issue'' else cut)"

definition branchPRPayload :: "issue_session \<Rightarrow> generated_files_contract" where
  "branchPRPayload session =
     (let request = ses_request session; issue = req_issue request;
          branch = normalizeGitFlameBranchName
            (cfg_target_branch_prefix (ses_config session) @ issue_id issue @ ''-'' @ issue_slug (issue_title issue))
      in \<lparr>gc_request_id = [], gc_task_id = [], gc_summary = [], gc_branch_name = branch,
          gc_base_branch = repo_default_branch (req_repository request), gc_files = [],
          gc_commit_message = ''Implement '' @ issue_title issue, gc_pr_title = issue_title issue,
          gc_reviewer = issue_author issue, gc_apply_status = [], gc_commit_sha = [],
          gc_pull_request_id = [], gc_pull_request_url = [], gc_apply_error = [], gc_applied_at = None\<rparr>)"

section \<open>Characters of branch names\<close>

lemma replace_runs_chars: "x \<in> set (replace_runs P r s) \<Longrightarrow> x \<in> set r \<or> (x \<in> set s \<and> \<not> P x)"
proof (induction P r s rule: replace_runs.induct)
  case (2 P r c cs)
  show ?case
  proof (cases "P c")
    case True
    with 2 show ?thesis by (auto dest: set_dropWhileD)
  next
    case False
    with 2 show ?thesis by auto
  qed
qed simp

lemma trim_chars_subset: "set (trim_chars cs s) \<subseteq> set s"
  unfolding trim_chars_def trim_right_chars_def trim_left_chars_def
  by (auto dest!: set_dropWhileD)

lemma dropWhile_hd: "dropWhile P xs \<noteq> [] \<Longrightarrow> \<not> P (hd (dropWhile P xs))"
  by (rule hd_dropWhile)

lemma last_dropWhile: "dropWhile P xs \<noteq> [] \<Longrightarrow> last (dropWhile P xs) = last xs"
  by (induction xs) auto

lemma trim_chars_ends:
  assumes "trim_chars cs s \<noteq> []"
  shows "hd (trim_chars cs s) \<notin> set cs" and "last (trim_chars cs s) \<notin> set cs"
proof -
  let ?P = "\<lambda>c. c \<in> set cs"
  define l where "l = dropWhile ?P s"
  define r where "r = dropWhile ?P (rev l)"
  have t: "trim_chars cs s = rev r"
    by (simp add: trim_chars_def trim_right_chars_def trim_left_chars_def l_def r_def)
  then have "r \<noteq> []" using assms by simp
  then have "l \<noteq> []" by (auto simp: r_def)
  then have "hd l \<notin> set cs" unfolding l_def by (rule dropWhile_hd)
  moreover have "last r = last (rev l)" using \<open>r \<noteq> []\<close> unfolding r_def by (rule last_dropWhile)
  ultimately show "hd (trim_chars cs s) \<notin> set cs"
    using \<open>r \<noteq> []\<close> \<open>l \<noteq> []\<close> by (simp add: t hd_rev last_rev)
  have "hd r \<notin> set cs" using \<open>r \<noteq> []\<close> unfolding r_def by (rule dropWhile_hd)
  then show "last (trim_chars cs s) \<notin> set cs"
    using \<open>r \<noteq> []\<close> by (simp add: t last_rev)
qed

definition valid_branch_name :: "string \<Rightarrow> bool" where
  "valid_branch_name b \<longleftrightarrow> b \<noteq> [] \<and> list_all branch_char b \<and> hd b \<notin> set ''-.'' \<and> last b \<notin> set ''-.''"

lemma default_branch_name_valid: "valid_branch_name ''ai-issue''"
  by code_simp

lemma normalizeGitFlameBranchName_valid: "valid_branch_name (normalizeGitFlameBranchName value)"
proof -
  define n where "n = trim_chars ''-.'' (replace_runs (\<lambda>c. \<not> branch_char c) ''-'' (trim_space value))"
  have "branch_char x" if "x \<in> set n" for x
  proof -
    have "x \<in> set (replace_runs (\<lambda>c. \<not> branch_char c) ''-'' (trim_space value))"
      using that trim_chars_subset by (auto simp: n_def)
    from replace_runs_chars [OF this] show ?thesis by (auto simp: branch_char_def)
  qed
  then have "n \<noteq> [] \<Longrightarrow> valid_branch_name n"
    using trim_chars_ends [of "''-.''"] unfolding valid_branch_name_def n_def list_all_iff by blast
  then show ?thesis
    using default_branch_name_valid
    by (simp add: normalizeGitFlameBranchName_def n_def [symmetric] Let_def)
qed

text \<open>Whatever the title, the issue identifier and the configured prefix, the branch of a generated change
  has a non-empty name of letters, digits, dots, underscores and hyphens that neither starts nor ends
  with a hyphen or a dot.\<close>

theorem branchPRPayload_branch_valid: "valid_branch_name (gc_branch_name (branchPRPayload session))"
  by (simp add: branchPRPayload_def Let_def normalizeGitFlameBranchName_valid)

text \<open>A valid name is left alone.\<close>

lemma replace_runs_none: "list_all (\<lambda>c. \<not> P c) s \<Longrightarrow> replace_runs P r s = s"
  by (induction s) auto

lemma trim_chars_none: "s \<noteq> [] \<Longrightarrow> hd s \<notin> set cs \<Longrightarrow> last s \<notin> set cs \<Longrightarrow> trim_chars cs s = s"
proof -
  assume s: "s \<noteq> []" "hd s \<notin> set cs" "last s \<notin> set cs"
  then have "dropWhile (\<lambda>c. c \<in> set cs) s = s" by (cases s) auto
  moreover have "dropWhile (\<lambda>c. c \<in> set cs) (rev s) = rev s"
    using s by (cases s rule: rev_cases) auto
  ultimately show ?thesis
    by (simp add: trim_chars_def trim_right_chars_def trim_left_chars_def)
qed

lemma branch_char_no_space:
  assumes "branch_char c"
  shows "strip_one unicode_spaces (c # cs) = None" and "strip_one (map rev unicode_spaces) (c # cs) = None"
proof -
  have "32 < byte_of c \<and> byte_of c < 128"
    using assms by (auto simp: branch_char_def is_alnum_def is_digit_def byte_of_def)
  then have "c \<notin> {CHR 0x09, CHR 0x0A, CHR 0x0B, CHR 0x0C, CHR 0x0D, CHR 0x20, CHR 0xC2, CHR 0xE1, CHR 0xE2,
      CHR 0xE3, CHR 0x85, CHR 0xA0, CHR 0x80, CHR 0x81, CHR 0x82, CHR 0x83, CHR 0x84, CHR 0x86, CHR 0x87,
      CHR 0x88, CHR 0x89, CHR 0x8A, CHR 0xA8, CHR 0xA9, CHR 0xAF, CHR 0x9F}"
    by (auto simp: byte_of_def)
  then show "strip_one unicode_spaces (c # cs) = None" and "strip_one (map rev unicode_spaces) (c # cs) = None"
    by (auto simp: unicode_spaces_def)
qed

lemma trim_space_branch:
  assumes "list_all branch_char s"
  shows "trim_space s = s"
proof (cases s)
  case (Cons c cs)
  then have "branch_char c" using assms by simp
  with Cons have left: "trim_left_of unicode_spaces s = s"
    by (simp only: trim_left_of_fixed branch_char_no_space)
  obtain d ds where rev: "rev s = d # ds" using Cons by (cases "rev s") auto
  then have "d \<in> set s" by (metis list.set_intros(1) set_rev)
  then have "branch_char d" using assms by (simp add: list_all_iff)
  with rev have "trim_left_of (map rev unicode_spaces) (rev s) = rev s"
    by (simp only: trim_left_of_fixed branch_char_no_space)
  with left show ?thesis by (simp add: trim_space_def)
qed simp

text \<open>Normalising a branch name is idempotent and changes nothing in a valid name.\<close>

theorem normalizeGitFlameBranchName_fixed:
  assumes "valid_branch_name b"
  shows "normalizeGitFlameBranchName b = b"
  using assms
  by (simp add: normalizeGitFlameBranchName_def valid_branch_name_def trim_space_branch
      replace_runs_none list_all_iff trim_chars_none)

lemma normalizeGitFlameBranchName_fixed_witness:
  "normalizeGitFlameBranchName (normalizeGitFlameBranchName ''ai/ 42-Add login'') =
     normalizeGitFlameBranchName ''ai/ 42-Add login''"
  by (rule normalizeGitFlameBranchName_fixed [OF normalizeGitFlameBranchName_valid])

end
