(* ===== verification/Workflow.thy ===== *)
theory Workflow imports Memory_Store Generated_Files Config Branch_Names begin

text \<open>
  The type \<open>Workflow\<close> of backend/internal/service/workflow.go on the in-memory store: the requests of the
  API (analyze, correct, retry, approve, reject) and the execution of agent tasks. The agent engine, the
  broker and the YAML parser are parameters; each operation reads its clock, new identifiers, map visiting
  order and the broker's answer from a record \<open>ambient\<close>, indexed in the order of the reads.
\<close>

section \<open>State and surroundings\<close>

record ambient =
  am_now :: "nat \<Rightarrow> gotime"
  am_id :: "nat \<Rightarrow> string"
  am_order :: "string list"
  am_publish :: "agent_job \<Rightarrow> go_error option"

text \<open>How tasks leave the workflow: to the broker, to a goroutine of the same process, or not at all.\<close>

datatype dispatcher = QueueDispatcher | InlineDispatcher | NoDispatcher

text \<open>The store, the jobs that the broker accepted, the jobs of started goroutines, and the pairs of task
  type and outcome counted by the metric of executed tasks.\<close>

record workflow_state =
  ws_store :: memory_store
  ws_published :: "agent_job list"
  ws_spawned :: "agent_job list"
  ws_executed :: "(string \<times> string) list"

type_synonym 'a workflow_op = "(workflow_state, 'a) op"

record generator =
  gen_plan :: "agent_plan_request \<Rightarrow> agent_plan_response result"
  gen_files :: "agent_code_generation_request \<Rightarrow> agent_generated_files_response result"

definition NewWorkflow :: "bool \<Rightarrow> dispatcher" where
  "NewWorkflow has_generator = (if has_generator then InlineDispatcher else NoDispatcher)"

definition NewQueuedWorkflow :: dispatcher where
  "NewQueuedWorkflow = QueueDispatcher"

definition on_store :: "'a store_op \<Rightarrow> 'a workflow_op" where
  "on_store m s = (case m (ws_store s) of (r, st) \<Rightarrow> (r, s\<lparr>ws_store := st\<rparr>))"

section \<open>Statuses, errors and requests\<close>

definition queuedStatusForTask :: "string \<Rightarrow> string" where
  "queuedStatusForTask taskType =
     (if taskType = TaskCodeGeneration then SessionCodeGenerationQueued else SessionGenerating)"

definition processingStatusForTask :: "string \<Rightarrow> string" where
  "processingStatusForTask taskType =
     (if taskType = TaskCodeGeneration then SessionCodeGenerationProcessing else SessionProcessing)"

fun toTaskError :: "go_error \<Rightarrow> task_error" where
  "toTaskError (AgentErr status code detail) = \<lparr>te_http_status = status, te_code = code, te_detail = detail\<rparr>"
| "toTaskError err = \<lparr>te_http_status = 502, te_code = ''agent_engine_error'', te_detail = error_text err\<rparr>"

definition recoverableTaskError :: "task_error \<Rightarrow> bool" where
  "recoverableTaskError e \<longleftrightarrow>
     te_http_status e = 503 \<or> te_http_status e = 504 \<or>
     te_http_status e = 502 \<and> (te_code e = ''agent_engine_unreachable'' \<or> te_code e = ''agent_engine_error'')"

definition repositoryFilesForSession :: "issue_session \<Rightarrow> repository_file list" where
  "repositoryFilesForSession session =
     (let files = req_repository_files (ses_request session) in
      if files = [] then map file_at (req_repository_context (ses_request session)) else files)"

definition agent_issue_of :: "issue_session \<Rightarrow> agent_issue" where
  "agent_issue_of session =
     \<lparr>ai_id = issue_id (req_issue (ses_request session)),
      ai_title = issue_title (req_issue (ses_request session)),
      ai_body = issue_body (req_issue (ses_request session))\<rparr>"

definition agent_repository_of :: "issue_session \<Rightarrow> agent_repository" where
  "agent_repository_of session =
     \<lparr>ar_id = repo_id (req_repository (ses_request session)),
      ar_default_branch = repo_default_branch (req_repository (ses_request session)),
      ar_commit_sha = repo_commit_sha (req_repository (ses_request session))\<rparr>"

definition agentRequest ::
    "string \<Rightarrow> issue_session \<Rightarrow> string option \<Rightarrow> string option \<Rightarrow> agent_plan_request" where
  "agentRequest taskID session previousPlan feedback =
     \<lparr>pr_request_id = taskID, pr_issue = agent_issue_of session, pr_repository = agent_repository_of session,
      pr_configuration_yaml = cfg_raw (ses_config session),
      pr_repository_files = repositoryFilesForSession session,
      pr_previous_plan = previousPlan, pr_correction_feedback = feedback\<rparr>"

definition codeGenerationRequest :: "string \<Rightarrow> issue_session \<Rightarrow> agent_code_generation_request" where
  "codeGenerationRequest taskID session =
     \<lparr>cg_request_id = taskID, cg_issue = agent_issue_of session, cg_repository = agent_repository_of session,
      cg_approved_plan_markdown = ses_plan_markdown session,
      cg_configuration_yaml = cfg_raw (ses_config session),
      cg_repository_files = repositoryFilesForSession session\<rparr>"

definition plan_job :: "agent_task \<Rightarrow> issue_session \<Rightarrow> int \<Rightarrow> agent_plan_request \<Rightarrow> agent_job" where
  "plan_job task session attempt request =
     \<lparr>job_task_id = task_id task, job_session_id = ses_id session, job_type = task_type task,
      job_attempt = attempt, job_request = request,
      job_code_generation_request = no_code_generation_request\<rparr>"

section \<open>Failing and dispatching\<close>

definition failTask :: "gotime \<Rightarrow> gotime \<Rightarrow> string \<Rightarrow> go_error \<Rightarrow> unit workflow_op" where
  "failTask t1 t2 taskID cause =
     bindS (on_store (Task taskID)) (\<lambda>task.
     bindS (on_store (UpdateTask t1 (task\<lparr>task_status := TaskFailed, task_err := Some (toTaskError cause)\<rparr>))) (\<lambda>_.
     tryS (on_store (Session (task_session_id task))) (\<lambda>r.
       case r of
         Inl e \<Rightarrow> retS ()
       | Inr session \<Rightarrow>
           tryS (on_store (UpdateSession t2 (session\<lparr>ses_status := SessionFailed\<rparr>))) (\<lambda>_. retS ()))))"

definition accept_job :: "agent_job \<Rightarrow> unit workflow_op" where
  "accept_job job s = (Inr (), s\<lparr>ws_published := ws_published s @ [job]\<rparr>)"

definition spawn_job :: "agent_job \<Rightarrow> unit workflow_op" where
  "spawn_job job s = (Inr (), s\<lparr>ws_spawned := ws_spawned s @ [job]\<rparr>)"

text \<open>The clock of the failure path is read last, at the indices 8 and 9.\<close>

definition dispatch :: "dispatcher \<Rightarrow> ambient \<Rightarrow> agent_job \<Rightarrow> unit workflow_op" where
  "dispatch disp am job =
     (case disp of
        QueueDispatcher \<Rightarrow>
          (case am_publish am job of
             Some err \<Rightarrow> tryS (failTask (am_now am 8) (am_now am 9) (job_task_id job) err)
                          (\<lambda>_. failS (ErrDispatch (error_text err)))
           | None \<Rightarrow> accept_job job)
      | InlineDispatcher \<Rightarrow> spawn_job job
      | NoDispatcher \<Rightarrow> failS (ErrDispatch ''task dispatcher is not configured''))"

section \<open>Requests of the API\<close>

definition start_initial_plan ::
    "dispatcher \<Rightarrow> ambient \<Rightarrow> issue_analyze_request \<Rightarrow> issue_session \<Rightarrow> (issue_session \<times> agent_task) workflow_op"
  where
  "start_initial_plan disp am req session =
     bindS (on_store (CreateTask (am_now am 1) (am_id am 1) (ses_id session) (issue_id (req_issue req)) TaskInitialPlan))
       (\<lambda>task. bindS (dispatch disp am (plan_job task session 1 (agentRequest (task_id task) session None None)))
       (\<lambda>_. retS (session, task)))"

definition Analyze ::
    "unmarshal \<Rightarrow> dispatcher \<Rightarrow> ambient \<Rightarrow> issue_analyze_request \<Rightarrow> (issue_session \<times> agent_task) workflow_op" where
  "Analyze unmarshal disp am req =
     (case ValidateAnalyze req of
        Some e \<Rightarrow> failS e
      | None \<Rightarrow>
          bindS (liftR (ParseAIConfig unmarshal (req_yaml_config req))) (\<lambda>cfg.
          bindS (on_store (CreateSession (am_now am 0) (am_id am 0) req cfg)) (\<lambda>(session, created).
            if \<not> created then
              tryS (on_store (LatestTask (am_order am) (ses_id session))) (\<lambda>r.
                case r of
                  Inr task \<Rightarrow> retS (session, task)
                | Inl err \<Rightarrow>
                    if err \<noteq> ErrNotFound \<or> ses_status session \<noteq> SessionGenerating then failS err
                    else start_initial_plan disp am req session)
            else start_initial_plan disp am req session)))"

definition Correct :: "dispatcher \<Rightarrow> ambient \<Rightarrow> string \<Rightarrow> string \<Rightarrow> agent_task workflow_op" where
  "Correct disp am issueID feedback =
     (if trim_space feedback = [] then failS (ErrText ''feedback is required'')
      else
        bindS (on_store (Session issueID)) (\<lambda>session0.
          if ses_status session0 \<noteq> SessionPlanGenerated then
            failS (ErrText (''plan cannot be corrected while session status is '' @ ses_status session0))
          else
            bindS (on_store (UpdateSession (am_now am 0) (session0\<lparr>ses_status := SessionCorrectionRequested,
                ses_feedback_history := ses_feedback_history session0 @ [feedback]\<rparr>))) (\<lambda>session.
            bindS (on_store (CreateTask (am_now am 1) (am_id am 1) (ses_id session) (issue_of session) TaskPlanRevision)) (\<lambda>task.
            bindS (dispatch disp am (plan_job task session 1
                (agentRequest (task_id task) session (Some (ses_plan_markdown session)) (Some feedback)))) (\<lambda>_.
            retS task)))))"

definition retry_job :: "agent_task \<Rightarrow> issue_session \<Rightarrow> string \<Rightarrow> agent_job" where
  "retry_job task session failed_type =
     (let previousPlan = (if failed_type = TaskPlanRevision then Some (ses_plan_markdown session) else None);
          feedback = (if failed_type = TaskPlanRevision \<and> ses_feedback_history session \<noteq> []
                      then Some (last (ses_feedback_history session)) else None);
          job = plan_job task session (task_attempt task) (agentRequest (task_id task) session previousPlan feedback)
      in if failed_type = TaskCodeGeneration
         then job\<lparr>job_request := no_plan_request,
                  job_code_generation_request := codeGenerationRequest (task_id task) session\<rparr>
         else job)"

definition Retry :: "dispatcher \<Rightarrow> ambient \<Rightarrow> string \<Rightarrow> agent_task workflow_op" where
  "Retry disp am taskID =
     bindS (on_store (Task taskID)) (\<lambda>failed.
       if task_status failed \<noteq> TaskFailed \<or>
          (case task_err failed of None \<Rightarrow> True | Some e \<Rightarrow> \<not> recoverableTaskError e) then
         failS (ErrText ''only failed tasks with a temporary Agent Engine error can be retried'')
       else
         bindS (on_store (Session (task_session_id failed))) (\<lambda>session0.
         bindS (on_store (CreateTask (am_now am 0) (am_id am 0) (ses_id session0) (issue_of session0) (task_type failed))) (\<lambda>task0.
         bindS (on_store (UpdateTask (am_now am 1) (task0\<lparr>task_attempt := task_attempt failed + 1\<rparr>))) (\<lambda>task.
         bindS (on_store (UpdateSession (am_now am 2) (session0\<lparr>ses_status := queuedStatusForTask (task_type failed)\<rparr>))) (\<lambda>session.
         bindS (dispatch disp am (retry_job task session (task_type failed))) (\<lambda>_. retS task))))))"

text \<open>The plan that an approval works with: the stored one, or a valid edit of it.\<close>

definition approve_edit :: "ambient \<Rightarrow> issue_session \<Rightarrow> string option \<Rightarrow> issue_session workflow_op" where
  "approve_edit am session editedPlan =
     (case editedPlan of
        None \<Rightarrow> retS session
      | Some edited \<Rightarrow>
          let plan = trim_space edited in
          if plan = [] then failS (ErrText ''plan_markdown cannot be empty'')
          else if plan \<noteq> ses_plan_markdown session then
            (case ValidatePlan plan (repositoryFilesForSession session) of
               Some e \<Rightarrow> failS (ErrText (''edited plan is invalid: '' @ error_text e))
             | None \<Rightarrow> on_store (UpdateSession (am_now am 0)
                 (session\<lparr>ses_plan_markdown := plan, ses_revision := ses_revision session + 1\<rparr>)))
          else retS session)"

definition Approve ::
    "dispatcher \<Rightarrow> ambient \<Rightarrow> string \<Rightarrow> string option \<Rightarrow> (issue_session \<times> agent_task) workflow_op" where
  "Approve disp am issueID editedPlan =
     bindS (on_store (Session issueID)) (\<lambda>session0.
       if ses_status session0 \<noteq> SessionPlanGenerated then
         failS (ErrText (''plan cannot be approved while session status is '' @ ses_status session0))
       else
         bindS (approve_edit am session0 editedPlan) (\<lambda>session1.
         bindS (on_store (UpdateSession (am_now am 1) (session1\<lparr>
             ses_generated_files := Some (branchPRPayload session1), ses_status := SessionApproved\<rparr>))) (\<lambda>session2.
         bindS (on_store (CreateTask (am_now am 2) (am_id am 2) (ses_id session2) (issue_of session2) TaskCodeGeneration)) (\<lambda>task.
         bindS (on_store (UpdateSession (am_now am 3) (session2\<lparr>ses_status := SessionCodeGenerationQueued\<rparr>))) (\<lambda>session.
         bindS (dispatch disp am
             \<lparr>job_task_id = task_id task, job_session_id = ses_id session, job_type = task_type task,
              job_attempt = 1, job_request = no_plan_request,
              job_code_generation_request = codeGenerationRequest (task_id task) session\<rparr>) (\<lambda>_.
         retS (session, task)))))))"

definition Reject :: "ambient \<Rightarrow> string \<Rightarrow> issue_session workflow_op" where
  "Reject am issueID =
     bindS (on_store (Session issueID)) (\<lambda>session.
       if ses_status session \<in> {SessionApproved, SessionCodeGenerationQueued,
            SessionCodeGenerationProcessing, SessionCodeGenerated} then
         failS (ErrText ''approved plan cannot be rejected'')
       else on_store (UpdateSession (am_now am 0) (session\<lparr>ses_status := SessionRejected\<rparr>)))"

section \<open>Executing tasks\<close>

text \<open>The verb \<open>%.3f\<close>: the nearest multiple of a thousandth, ties to even.\<close>

definition round_half_even :: "rat \<Rightarrow> int" where
  "round_half_even y =
     (let f = floor y; d = y - of_int f in
      if d < 1 / 2 then f else if d > 1 / 2 then f + 1 else if even f then f else f + 1)"

definition fixed3 :: "rat \<Rightarrow> string" where
  "fixed3 x =
     (let m = nat (round_half_even (abs x * 1000)); frac = m mod 1000 in
      (if x < 0 then ''-'' else []) @ nat_text (m div 1000) @ ''.'' @
        [digit_char (frac div 100), digit_char (frac div 10 mod 10), digit_char (frac mod 10)])"

definition usage_summary :: "agent_usage \<Rightarrow> string" where
  "usage_summary u =
     ''; prompt_tokens='' @ int_text (us_prompt_tokens u) @ ''; completion_tokens='' @
     int_text (us_completion_tokens u) @ ''; total_tokens='' @ int_text (us_total_tokens u) @
     ''; reasoning_chars='' @ int_text (us_reasoning_chars u) @ ''; generation_seconds='' @
     fixed3 (us_generation_time_seconds u)"

text \<open>An execution up to the call of the agent engine: the task and the session become \<open>processing\<close>.\<close>

definition begin_task :: "ambient \<Rightarrow> agent_job \<Rightarrow> (agent_task \<times> issue_session) workflow_op" where
  "begin_task am job =
     bindS (on_store (Task (job_task_id job))) (\<lambda>task0.
     bindS (on_store (UpdateTask (am_now am 0) (task0\<lparr>task_status := TaskProcessing,
         task_attempt := job_attempt job, task_err := None\<rparr>))) (\<lambda>task.
     bindS (on_store (Session (task_session_id task))) (\<lambda>session0.
     bindS (on_store (UpdateSession (am_now am 1)
         (session0\<lparr>ses_status := processingStatusForTask (task_type task)\<rparr>))) (\<lambda>session.
     retS (task, session)))))"

definition fail_with :: "ambient \<Rightarrow> string \<Rightarrow> go_error \<Rightarrow> unit workflow_op" where
  "fail_with am taskID err =
     tryS (failTask (am_now am 2) (am_now am 3) taskID err) (\<lambda>_. failS err)"

text \<open>The rest of \<open>executePlanTask\<close>, once the engine has answered.\<close>

definition executePlanTask ::
    "ambient \<Rightarrow> agent_plan_response result \<Rightarrow> agent_task \<Rightarrow> agent_job \<Rightarrow> unit workflow_op" where
  "executePlanTask am reply task job =
     (case reply of
        Inl err \<Rightarrow> fail_with am (job_task_id job) err
      | Inr result \<Rightarrow>
          let validationFiles = pr_repository_files (job_request job) @
                map (\<lambda>relevant. file_at (rel_path relevant)) (pl_relevant_files result) in
          (case ValidatePlan (pl_plan_markdown result) validationFiles of
             Some e \<Rightarrow> fail_with am (job_task_id job) (AgentErr 422 ''invalid_output'' (error_text e))
           | None \<Rightarrow>
               bindS (on_store (UpdateTask (am_now am 2) (task\<lparr>task_status := TaskCompleted,
                   task_plan_markdown := pl_plan_markdown result,
                   task_relevant_files := pl_relevant_files result, task_model := pl_model result,
                   task_usage := pl_usage result,
                   task_tool_execution_summary := ''model='' @ pl_model result @ ''; tool_calls='' @
                     int_text (us_tool_calls (pl_usage result)) @ usage_summary (pl_usage result)\<rparr>))) (\<lambda>_.
               bindS (on_store (Session (task_session_id task))) (\<lambda>session.
               bindS (on_store (UpdateSession (am_now am 3) (session\<lparr>
                   ses_plan_markdown := pl_plan_markdown result, ses_status := SessionPlanGenerated,
                   ses_revision := ses_revision session + 1\<rparr>))) (\<lambda>_. retS ())))))"

definition code_request :: "agent_task \<Rightarrow> issue_session \<Rightarrow> agent_job \<Rightarrow> agent_code_generation_request" where
  "code_request task session job =
     (let request = job_code_generation_request job in
      if cg_request_id request = [] then codeGenerationRequest (task_id task) session else request)"

text \<open>The pipeline of checks on the generated operations: the operations to deliver, or the error.\<close>

definition deliverable_files ::
    "generated_file_operation list \<Rightarrow> repository_file list \<Rightarrow> generated_file_operation list result" where
  "deliverable_files files repositoryFiles =
     (let normalized = NormalizeGeneratedFiles files;
          withoutNoops = DropNoopGeneratedFiles normalized repositoryFiles in
      if go_len normalized > 0 \<and> go_len withoutNoops = 0 then
        Inl (AgentErr 422 ''invalid_generated_files'' ''Agent Engine returned only unchanged modify operations'')
      else
        let kept = DropUnsafePartialModifyFiles withoutNoops repositoryFiles in
        if go_len withoutNoops > 0 \<and> go_len kept = 0 then
          Inl (AgentErr 422 ''invalid_generated_files'' ''Agent Engine returned only incomplete modify operations'')
        else
          (case ValidateGeneratedFiles kept repositoryFiles of
             Some e \<Rightarrow> Inl (AgentErr 422 ''invalid_generated_files'' (error_text e))
           | None \<Rightarrow> Inr (map (\<lambda>op. op\<lparr>gf_path := normalizePlanPath (gf_path op), gf_status := ''valid''\<rparr>) kept)))"

text \<open>The rest of \<open>executeCodeGenerationTask\<close>, once the engine has answered.\<close>

definition executeCodeGenerationTask ::
    "ambient \<Rightarrow> agent_generated_files_response result \<Rightarrow> agent_task \<Rightarrow> issue_session \<Rightarrow> agent_job \<Rightarrow> unit workflow_op" where
  "executeCodeGenerationTask am reply task session job =
     (case reply of
        Inl err \<Rightarrow> fail_with am (job_task_id job) err
      | Inr result \<Rightarrow>
          (case deliverable_files (fr_files result) (cg_repository_files (code_request task session job)) of
             Inl invalid \<Rightarrow> fail_with am (job_task_id job) invalid
           | Inr files \<Rightarrow>
               let contract = (branchPRPayload session)\<lparr>gc_request_id := fr_request_id result,
                     gc_task_id := task_id task, gc_summary := fr_summary result, gc_files := files\<rparr> in
               bindS (on_store (UpdateTask (am_now am 2) (task\<lparr>task_status := TaskCompleted,
                   task_model := fr_model result, task_usage := fr_usage result,
                   task_tool_execution_summary := ''model='' @ fr_model result @ ''; file_operations='' @
                     int_text (go_len files) @ usage_summary (fr_usage result)\<rparr>))) (\<lambda>_.
               bindS (on_store (Session (task_session_id task))) (\<lambda>stored.
               bindS (on_store (UpdateSession (am_now am 3) (stored\<lparr>
                   ses_generated_files := Some contract, ses_status := SessionCodeGenerated\<rparr>))) (\<lambda>_.
               retS ())))))"

definition finish_task ::
    "ambient \<Rightarrow> generator \<Rightarrow> agent_job \<Rightarrow> agent_task \<Rightarrow> issue_session \<Rightarrow> unit workflow_op" where
  "finish_task am gen job task session =
     (if task_type task = TaskCodeGeneration
      then executeCodeGenerationTask am (gen_files gen (code_request task session job)) task session job
      else executePlanTask am (gen_plan gen (job_request job)) task job)"

text \<open>The deferred function that counts the execution under its outcome.\<close>

definition count_execution :: "agent_job \<Rightarrow> 'a workflow_op \<Rightarrow> 'a workflow_op" where
  "count_execution job m =
     tryS m (\<lambda>r s. (r, s\<lparr>ws_executed := ws_executed s @
       [(if job_type job = [] then ''unknown'' else job_type job,
         case r of Inl e \<Rightarrow> ''failure'' | Inr a \<Rightarrow> ''success'')]\<rparr>))"

definition ExecuteTask :: "ambient \<Rightarrow> generator option \<Rightarrow> agent_job \<Rightarrow> unit workflow_op" where
  "ExecuteTask am generator job =
     (case generator of
        None \<Rightarrow> failS (ErrText ''Agent Engine client is not configured'')
      | Some gen \<Rightarrow>
          count_execution job (bindS (begin_task am job) (\<lambda>(task, session). finish_task am gen job task session)))"

definition RetryTask :: "ambient \<Rightarrow> agent_job \<Rightarrow> unit workflow_op" where
  "RetryTask am job =
     bindS (on_store (Task (job_task_id job))) (\<lambda>task0.
     bindS (on_store (UpdateTask (am_now am 0) (task0\<lparr>task_status := TaskQueued, task_attempt := job_attempt job\<rparr>))) (\<lambda>task.
     bindS (on_store (Session (task_session_id task))) (\<lambda>session.
     bindS (on_store (UpdateSession (am_now am 1) (session\<lparr>ses_status := queuedStatusForTask (task_type task)\<rparr>))) (\<lambda>_.
     retS ()))))"

section \<open>What is delivered\<close>

definition deliverable_operation :: "generated_file_operation \<Rightarrow> bool" where
  "deliverable_operation op \<longleftrightarrow>
     confined_path (gf_path op) \<and> trim_space (gf_explanation op) \<noteq> [] \<and>
     (gf_action op \<in> {''create'', ''modify''} \<and> trim_space (gf_content op) \<noteq> [] \<or>
      gf_action op = ''delete'' \<and> gf_content op = [] \<and> gf_diff op = [])"

definition deliverable :: "generated_file_operation list \<Rightarrow> bool" where
  "deliverable ops \<longleftrightarrow> ops \<noteq> [] \<and> go_len ops \<le> 500 \<and> distinct (map gf_path ops) \<and>
     (\<forall>op \<in> set ops. deliverable_operation op)"

lemma valid_operation_deliverable:
  assumes "valid_operation fs op"
  shows "deliverable_operation (op\<lparr>gf_path := normalizePlanPath (gf_path op), gf_status := t\<rparr>)"
  using assms safe_path_Clean_confined
  by (auto simp: valid_operation_def deliverable_operation_def Let_def normalizePlanPath_clean)

lemma deliverable_files_deliverable:
  assumes "deliverable_files files repositoryFiles = Inr ops"
  shows "deliverable ops"
proof -
  obtain kept where kept: "ValidateGeneratedFiles kept repositoryFiles = None"
    "ops = map (\<lambda>op. op\<lparr>gf_path := normalizePlanPath (gf_path op), gf_status := ''valid''\<rparr>) kept"
    using assms by (auto simp: deliverable_files_def Let_def split: if_splits option.splits)
  then show ?thesis
    by (auto simp: deliverable_def ValidateGeneratedFiles_None comp_def go_len_def
        intro: valid_operation_deliverable)
qed

text \<open>C4: Whatever the agent engine returns, the operations that a code-generation task delivers are one to 500
  explained creates, modifies and deletes on distinct paths inside the repository, all of them paths that
  the engine's response names.\<close>

theorem delivered_files_safe:
  assumes "deliverable_files files repositoryFiles = Inr ops"
  shows "deliverable ops \<and> set (map gf_path ops) \<subseteq> (\<lambda>f. normalizePlanPath (gf_path f)) ` set files"
proof -
  obtain kept where kept: "kept = DropUnsafePartialModifyFiles
      (DropNoopGeneratedFiles (NormalizeGeneratedFiles files) repositoryFiles) repositoryFiles"
    "ops = map (\<lambda>op. op\<lparr>gf_path := normalizePlanPath (gf_path op), gf_status := ''valid''\<rparr>) kept"
    using assms by (auto simp: deliverable_files_def Let_def split: if_splits option.splits)
  then have sub: "set kept \<subseteq> set (NormalizeGeneratedFiles files)"
    using DropUnsafePartial_subset DropNoop_subset by blast
  have "normalizePlanPath (gf_path op) \<in> (\<lambda>f. normalizePlanPath (gf_path f)) ` set files" if "op \<in> set kept" for op
  proof -
    have "gf_path op \<in> set (map gf_path (NormalizeGeneratedFiles files))" using that sub by auto
    then have "gf_path op \<in> (\<lambda>f. normalizePlanPath (gf_path f)) ` set files"
      unfolding NormalizeGeneratedFiles_paths by simp
    then show ?thesis by auto
  qed
  with kept(2) show ?thesis
    using deliverable_files_deliverable [OF assms] by auto
qed

lemma delivered_files_safe_witness:
  "case deliverable_files [sample_op] [sample_original] of Inl e \<Rightarrow> False | Inr ops \<Rightarrow> deliverable ops"
proof -
  have "case deliverable_files [sample_op] [sample_original] of Inl e \<Rightarrow> False | Inr ops \<Rightarrow> True"
    by code_simp
  then show ?thesis
    using delivered_files_safe [of "[sample_op]" "[sample_original]"] by (auto split: sum.splits)
qed

end
