(* ===== verification/Store_Properties.thy ===== *)
theory Store_Properties imports Memory_Store "HOL-Library.Multiset" begin

text \<open>
  What the in-memory store promises its callers: the runs of the store as a step relation, the invariant
  of every reachable store, and the behaviour of the operations that the service layer relies on.
\<close>

section \<open>Runs of the store\<close>

text \<open>
  A step is one operation under the lock. \<open>NewID\<close> yields identifiers that are not in use (128 random
  bits), and a loop over a map visits every key once.
\<close>

inductive store_step :: "memory_store \<Rightarrow> memory_store \<Rightarrow> bool" where
  upsert_user: "user_id v = [] \<Longrightarrow> ms_users s nid = None \<Longrightarrow> store_step s (snd (UpsertAppUser now nid v s))"
| create_app_session: "ms_appSessions s nid = None \<Longrightarrow>
    store_step s (snd (CreateAppSession now nid userID tokenHash expiresAt s))"
| visit_app_session: "store_step s (snd (AppSessionByTokenHash now now2 tokenHash s))"
| revoke_app_session: "store_step s (snd (RevokeAppSession now sessionID s))"
| create_session: "store_step s (snd (CreateSession now nid req cfg s))"
| update_session: "store_step s (snd (UpdateSession now v s))"
| create_task: "store_step s (snd (CreateTask now nid sessionID issueID taskType s))"
| update_task: "store_step s (snd (UpdateTask now t s))"
| save_recommendations: "store_step s (snd (SaveRecommendations sha256 repository cfg summary cards s))"
| save_config: "store_step s (snd (SaveAIConfig repository cfg s))"
| close_recommendation: "visits (ms_reports s) order \<Longrightarrow> store_step s (snd (CloseRecommendation order k s))"
| delete_recommendation: "visits (ms_reports s) order \<Longrightarrow> store_step s (snd (DeleteRecommendation order k s))"
| save_connection: "nid \<noteq> [] \<Longrightarrow> visits (ms_connections s) order \<Longrightarrow>
    store_step s (snd (SaveGitFlameConnection now nid order c s))"
| revoke_connection: "store_step s (snd (RevokeGitFlameConnection now userID k s))"
| touch_connection: "store_step s (snd (TouchGitFlameConnection now userID k s))"
| save_webhook: "store_step s (snd (SaveGitFlameWebhook now nid w s))"
| save_event: "store_step s (snd (SaveGitFlameWebhookEvent now nid e s))"
| save_snapshot: "store_step s (snd (SaveRepositorySnapshot now nid sn files s))"

inductive_cases store_stepE: "store_step s s'"

definition reachable_store :: "memory_store \<Rightarrow> bool" where
  "reachable_store s \<longleftrightarrow> store_step\<^sup>*\<^sup>* NewMemoryStore s"

lemma store_step_ok: "store_step s s' \<Longrightarrow> store_ok s \<Longrightarrow> store_ok s'"
  by (induction rule: store_step.induct)
    (simp_all add: UpsertAppUser_store_ok SaveGitFlameConnection_store_ok keepsD keeps_intros)

lemma store_run_ok: "store_step\<^sup>*\<^sup>* s s' \<Longrightarrow> store_ok s \<Longrightarrow> store_ok s'"
  by (induction rule: rtranclp_induct) (auto intro: store_step_ok)

lemma reachable_ok: "reachable_store s \<Longrightarrow> store_ok s"
  unfolding reachable_store_def by (rule store_run_ok [OF _ store_ok_new])

lemma reachable_new: "reachable_store NewMemoryStore"
  by (simp add: reachable_store_def)

lemma reachable_step: "reachable_store s \<Longrightarrow> store_step s s' \<Longrightarrow> reachable_store s'"
  unfolding reachable_store_def by (rule rtranclp.rtrancl_into_rtrancl)

definition sample_user :: app_user where
  "sample_user = \<lparr>user_id = [], user_gitflame_user_id = ''7'', user_username = ''ann'',
     user_created_at = 0, user_updated_at = 0\<rparr>"

definition one_user :: memory_store where
  "one_user = snd (UpsertAppUser 1 ''u'' sample_user NewMemoryStore)"

lemma one_user_step: "store_step NewMemoryStore one_user"
  unfolding one_user_def by (rule upsert_user) (simp_all add: sample_user_def NewMemoryStore_def)

lemma one_user_reachable: "reachable_store one_user"
  using reachable_step [OF reachable_new one_user_step] .

text \<open>C25: In every store that the operations can produce, each record lies under its own identifier, every
  index entry and token hash leads to a record, no two connections of a user have the same repository
  and no report has two cards for one finding.\<close>

theorem reachable_store_invariant: "reachable_store s \<Longrightarrow> store_ok s"
  by (rule reachable_ok)

lemma reachable_store_invariant_witness: "store_ok one_user"
  by (rule reachable_store_invariant [OF one_user_reachable])

section \<open>Authentication\<close>

lemma AppSessionByTokenHash_Inr:
  "AppSessionByTokenHash now now2 tokenHash s = (Inr b, s') \<Longrightarrow>
     \<exists>sid a. ms_sessionHashes s tokenHash = Some sid \<and> ms_appSessions s sid = Some a \<and>
       aps_revoked_at a = None \<and> now < aps_expires_at a \<and> b = a\<lparr>aps_last_seen_at := Some now2\<rparr>"
  by (auto simp: AppSessionByTokenHash_def Let_def split: option.splits if_splits)

definition revoked_in :: "memory_store \<Rightarrow> string \<Rightarrow> bool" where
  "revoked_in s sid \<longleftrightarrow> (case ms_appSessions s sid of None \<Rightarrow> False | Some a \<Rightarrow> aps_revoked_at a \<noteq> None)"

lemma recommendation_ops_frame:
  "ms_appSessions (snd (CloseRecommendation order k s)) = ms_appSessions s"
  "ms_appSessions (snd (DeleteRecommendation order k s)) = ms_appSessions s"
  by (induction order) (auto split: option.splits)

lemma revoked_step: "store_step s s' \<Longrightarrow> revoked_in s sid \<Longrightarrow> revoked_in s' sid"
  by (induction rule: store_step.induct)
    (auto simp: recommendation_ops_frame revoked_in_def UpsertAppUser_def CreateAppSession_def AppSessionByTokenHash_def
    RevokeAppSession_def CreateSession_def UpdateSession_def CreateTask_def UpdateTask_def
    SaveRecommendations_def SaveAIConfig_def SaveGitFlameConnection_def RevokeGitFlameConnection_def
    TouchGitFlameConnection_def SaveGitFlameWebhook_def SaveGitFlameWebhookEvent_def
    SaveRepositorySnapshot_def Let_def split: option.splits)

lemma revoked_run: "store_step\<^sup>*\<^sup>* s s' \<Longrightarrow> revoked_in s sid \<Longrightarrow> revoked_in s' sid"
  by (induction rule: rtranclp_induct) (auto intro: revoked_step)

lemma revoke_revokes:
  "RevokeAppSession now sid s = (Inr (), s') \<Longrightarrow> revoked_in s' sid"
  by (auto simp: RevokeAppSession_def revoked_in_def split: option.splits)

text \<open>Once an application session has been revoked, no token authenticates as it again, whatever
  happens to the store in between.\<close>

theorem revoked_session_never_authenticates:
  assumes "reachable_store s" and "RevokeAppSession now sid s = (Inr (), s1)" and "store_step\<^sup>*\<^sup>* s1 s2"
    and "AppSessionByTokenHash t t' tokenHash s2 = (Inr session, s3)"
  shows "aps_id session \<noteq> sid"
proof
  assume id: "aps_id session = sid"
  have "store_step s s1" using assms(2) revoke_app_session [of s now sid] by simp
  with assms(1,3) have "store_ok s2" by (meson reachable_ok store_run_ok store_step_ok)
  moreover obtain k a where at: "ms_appSessions s2 k = Some a" "aps_revoked_at a = None"
      "session = a\<lparr>aps_last_seen_at := Some t'\<rparr>"
    using AppSessionByTokenHash_Inr [OF assms(4)] by blast
  ultimately have "k = sid"
    using id by (auto simp: store_ok_def app_sessions_ok_def keyed_def)
  with at revoked_run [OF assms(3) revoke_revokes [OF assms(2)]] show False
    by (simp add: revoked_in_def)
qed

definition two_app_sessions :: memory_store where
  "two_app_sessions = snd (CreateAppSession 2 ''s2'' ''u'' ''h2'' 100
     (snd (CreateAppSession 2 ''s1'' ''u'' ''h1'' 100 one_user)))"

lemma two_app_sessions_reachable: "reachable_store two_app_sessions"
  unfolding two_app_sessions_def
proof (rule reachable_step [OF reachable_step [OF one_user_reachable]])
  show "store_step one_user (snd (CreateAppSession 2 ''s1'' ''u'' ''h1'' 100 one_user))"
    by (rule create_app_session) code_simp
  show "store_step (snd (CreateAppSession 2 ''s1'' ''u'' ''h1'' 100 one_user))
      (snd (CreateAppSession 2 ''s2'' ''u'' ''h2'' 100 (snd (CreateAppSession 2 ''s1'' ''u'' ''h1'' 100 one_user))))"
    by (rule create_app_session) code_simp
qed

definition revoked_first :: memory_store where
  "revoked_first = snd (RevokeAppSession 3 ''s1'' two_app_sessions)"

lemma revoked_session_never_authenticates_witness:
  "(case AppSessionByTokenHash 4 4 ''h2'' revoked_first of
      (Inr session, s3) \<Rightarrow> aps_id session = ''s2'' \<and> aps_id session \<noteq> ''s1'' | (Inl e, s3) \<Rightarrow> False)"
proof -
  have "RevokeAppSession 3 ''s1'' two_app_sessions = (Inr (), revoked_first)"
    unfolding revoked_first_def by (simp add: RevokeAppSession_def two_app_sessions_def CreateAppSession_def
        one_user_def UpsertAppUser_def NewMemoryStore_def sample_user_def Let_def)
  from revoked_session_never_authenticates [OF two_app_sessions_reachable this rtranclp.rtrancl_refl, of 4 4 "''h2''"]
  show ?thesis
    by (simp add: AppSessionByTokenHash_def revoked_first_def RevokeAppSession_def two_app_sessions_def
        CreateAppSession_def one_user_def UpsertAppUser_def NewMemoryStore_def sample_user_def Let_def)
qed

text \<open>A token hash authenticates exactly when it is indexed, its session has not been revoked and has not
  expired; the visit is recorded, and a refused attempt changes nothing.\<close>

theorem authentication_outcome:
  "AppSessionByTokenHash now now2 tokenHash s =
     (case Option.bind (ms_sessionHashes s tokenHash) (ms_appSessions s) of
        Some a \<Rightarrow>
          if aps_revoked_at a = None \<and> now < aps_expires_at a
          then (Inr (a\<lparr>aps_last_seen_at := Some now2\<rparr>),
                s\<lparr>ms_appSessions := (ms_appSessions s)
                   (the (ms_sessionHashes s tokenHash) \<mapsto> a\<lparr>aps_last_seen_at := Some now2\<rparr>)\<rparr>)
          else (Inl ErrNotFound, s)
      | None \<Rightarrow> (Inl ErrNotFound, s))"
  by (auto simp: AppSessionByTokenHash_def Let_def split: option.splits)

section \<open>Connections\<close>

definition active_target :: "string \<Rightarrow> string \<Rightarrow> gitflame_connection \<Rightarrow> bool" where
  "active_target userID repositoryID c \<longleftrightarrow>
     con_user_id c = userID \<and> repo_id (con_repository c) = repositoryID \<and> con_revoked_at c = None"

lemma find_unique:
  assumes "x \<in> set xs" and "P x" and "\<And>y. y \<in> set xs \<Longrightarrow> P y \<Longrightarrow> y = x"
  shows "find P xs = Some x"
proof (cases "find P xs")
  case None
  then show ?thesis using assms(1,2) by (auto simp: find_None_iff)
next
  case (Some y)
  with find_Some_member [OF Some] assms(3) show ?thesis by blast
qed

lemma connection_unique:
  assumes "store_ok s" and "d \<in> ran (ms_connections s)" and "c \<in> ran (ms_connections s)" and "r \<noteq> []"
    and "active_target u r d" and "active_target u r c"
  shows "d = c"
proof -
  have "same_target d c" using assms(4-6) by (simp add: active_target_def same_target_def)
  then show ?thesis
    using assms(1-3) unfolding store_ok_def connections_ok_def unique_targets_def by blast
qed

lemma ByRepository_find: "UserGitFlameConnectionByRepository order u r s =
    (case find (active_target u r) (ranging (ms_connections s) order) of
       Some c \<Rightarrow> (Inr c, s) | None \<Rightarrow> (Inl ErrNotFound, s))"
  by (simp only: UserGitFlameConnectionByRepository_def active_target_def [abs_def])

lemma ByRepository_finds:
  assumes "store_ok s" and "visits (ms_connections s) order" and "r \<noteq> []"
    and "c \<in> ran (ms_connections s)" and "active_target u r c"
  shows "UserGitFlameConnectionByRepository order u r s = (Inr c, s)"
proof -
  have "find (active_target u r) (ranging (ms_connections s) order) = Some c"
  proof (rule find_unique)
    fix d assume "d \<in> set (ranging (ms_connections s) order)" "active_target u r d"
    then show "d = c"
      using connection_unique [OF assms(1) _ assms(4) assms(3) _ assms(5)] set_ranging [OF assms(2)]
      by simp
  qed (use assms(2,4,5) in \<open>simp_all add: set_ranging\<close>)
  then show ?thesis by (simp add: ByRepository_find)
qed

definition active_connections :: "memory_store \<Rightarrow> string \<Rightarrow> string \<Rightarrow> gitflame_connection set" where
  "active_connections s userID repositoryID =
     {c \<in> ran (ms_connections s). active_target userID repositoryID c}"

text \<open>Which connection a user's repository resolves to does not depend on the order in which Go visits
  the map: there is at most one that is not revoked, and it is found whenever it exists.\<close>

theorem connection_by_repository_deterministic:
  assumes "reachable_store s" and "visits (ms_connections s) order" and "repositoryID \<noteq> []"
  shows "UserGitFlameConnectionByRepository order userID repositoryID s =
    (if active_connections s userID repositoryID = {} then (Inl ErrNotFound, s)
     else (Inr (the_elem (active_connections s userID repositoryID)), s))"
proof (cases "active_connections s userID repositoryID = {}")
  case False
  then obtain c where c: "c \<in> ran (ms_connections s)" "active_target userID repositoryID c"
    by (auto simp: active_connections_def)
  have "d = c" if "d \<in> active_connections s userID repositoryID" for d
    using connection_unique [OF reachable_ok [OF assms(1)] _ c(1) assms(3) _ c(2), of d] that
    unfolding active_connections_def by blast
  with c have "active_connections s userID repositoryID = {c}"
    unfolding active_connections_def by blast
  with ByRepository_finds [OF reachable_ok [OF assms(1)] assms(2,3) c] show ?thesis by simp
next
  case True
  then have "find (active_target userID repositoryID) (ranging (ms_connections s) order) = None"
    using assms(2) by (auto simp: find_None_iff set_ranging active_connections_def)
  with True show ?thesis by (simp add: ByRepository_find)
qed

definition sample_connection :: gitflame_connection where
  "sample_connection = \<lparr>con_id = [], con_user_id = ''u'', con_repository = \<lparr>repo_id = ''r'',
     repo_name = ''n'', repo_default_branch = ''main'', repo_commit_sha = [], repo_web_url = []\<rparr>,
     con_repo_url = [], con_default_branch = [], con_access_token_encrypted = [],
     con_token_material = \<lparr>tok_ciphertext = [], tok_nonce = [], tok_key_version = 0\<rparr>,
     con_token_last4 = [], con_token_status = [], con_scopes = [], con_token_expires_at = None,
     con_last_validated_at = None, con_last_used_at = None, con_revoked_at = None,
     con_created_at = 0, con_updated_at = 0\<rparr>"

definition one_connection :: memory_store where
  "one_connection = snd (SaveGitFlameConnection 1 ''c'' [] sample_connection NewMemoryStore)"

lemma one_connection_at: "ms_connections one_connection = [''c'' \<mapsto> sample_connection\<lparr>con_id := ''c'',
    con_created_at := 1, con_token_status := ''active'', con_default_branch := ''main'', con_updated_at := 1\<rparr>]"
  by (simp add: one_connection_def SaveGitFlameConnection_def connection_identity_def connection_defaults_def
      ranging_def map_filter_def sample_connection_def NewMemoryStore_def Let_def)

lemma one_connection_reachable: "reachable_store one_connection"
  unfolding one_connection_def
  by (rule reachable_step [OF reachable_new]) (rule save_connection; simp add: visits_def NewMemoryStore_def)

lemma connection_by_repository_deterministic_witness:
  "map_sum id con_id (fst (UserGitFlameConnectionByRepository [''c''] ''u'' ''r'' one_connection)) = Inr ''c'' \<and>
   fst (UserGitFlameConnectionByRepository [''c''] ''u'' ''x'' one_connection) = Inl ErrNotFound"
proof -
  have v: "visits (ms_connections one_connection) [''c'']" by (simp add: visits_def one_connection_at)
  note det = connection_by_repository_deterministic [OF one_connection_reachable v]
  have "active_connections one_connection ''u'' ''r'' = ran (ms_connections one_connection)"
    "active_connections one_connection ''u'' ''x'' = {}"
    by (auto simp: active_connections_def one_connection_at active_target_def sample_connection_def)
  then show ?thesis
    using det [of "''r''" "''u''"] det [of "''x''" "''u''"]
    by (simp add: active_connections_def one_connection_at active_target_def sample_connection_def)
qed

text \<open>After any sequence of connection saves, a lookup by identifier gives the last record saved under
  it, or what was there before when no save touched it.\<close>

theorem connection_lookup_after_saves:
  "fst (GitFlameConnection k (snd (save_all
      (\<lambda>(now, nid, order, v). SaveGitFlameConnection now nid order v) inputs s))) =
    (case last_with con_id k (fst (save_all
        (\<lambda>(now, nid, order, v). SaveGitFlameConnection now nid order v) inputs s)) of
       Some v \<Rightarrow> Inr v
     | None \<Rightarrow> fst (GitFlameConnection k s))"
  by (rule connections.lookup_after_saves)

text \<open>Only the owner of a connection can revoke it, and a revoked connection is never offered again for
  its repository until it is saved anew.\<close>

theorem revoked_connection_not_offered:
  assumes "reachable_store s" and "RevokeGitFlameConnection now userID k s = (Inr c, s')"
    and "visits (ms_connections s') order" and "repo_id (con_repository c) \<noteq> []"
  shows "con_user_id c = userID \<and> con_token_status c = ''revoked'' \<and>
    UserGitFlameConnectionByRepository order userID (repo_id (con_repository c)) s' = (Inl ErrNotFound, s')"
proof -
  obtain d where d: "ms_connections s k = Some d" "con_user_id d = userID"
    "c = d\<lparr>con_token_status := ''revoked'', con_revoked_at := Some now, con_updated_at := now\<rparr>"
    "s' = s\<lparr>ms_connections := (ms_connections s)(k \<mapsto> c)\<rparr>"
    using assms(2) by (auto simp: RevokeGitFlameConnection_def Let_def split: option.splits if_splits)
  have "store_ok s'"
    using keepsD_eq [OF keeps_connections(1) assms(2) reachable_ok [OF assms(1)]] .
  moreover have "c \<in> ran (ms_connections s')" using d(4) by (auto simp: ran_def)
  ultimately have only: "e = c" if "e \<in> ran (ms_connections s')"
      "con_user_id e = userID" "repo_id (con_repository e) = repo_id (con_repository c)" for e
    using that assms(4) d(2,3) by (auto simp: store_ok_def connections_ok_def unique_targets_def same_target_def)
  have "con_revoked_at c \<noteq> None" using d(3) by simp
  with only have "find (active_target userID (repo_id (con_repository c))) (ranging (ms_connections s') order) = None"
    using assms(3) by (auto simp: find_None_iff set_ranging active_target_def)
  then show ?thesis
    using d(2,3) by (simp add: ByRepository_find)
qed

lemma revoked_connection_not_offered_witness:
  "fst (UserGitFlameConnectionByRepository [''c''] ''u'' ''r''
     (snd (RevokeGitFlameConnection 5 ''u'' ''c'' one_connection))) = Inl ErrNotFound"
proof -
  obtain c s' where r: "RevokeGitFlameConnection 5 ''u'' ''c'' one_connection = (Inr c, s')"
    and c: "repo_id (con_repository c) = ''r''" and m: "dom (ms_connections s') = {''c''}"
    by (simp add: RevokeGitFlameConnection_def one_connection_at sample_connection_def Let_def)
  from m have "visits (ms_connections s') [''c'']" by (simp add: visits_def)
  from revoked_connection_not_offered [OF one_connection_reachable r this] c show ?thesis
    by (simp add: r)
qed

section \<open>Issue sessions\<close>

lemma recommendation_ops_index:
  "ms_issueIndex (snd (CloseRecommendation order k s)) = ms_issueIndex s"
  "ms_issueIndex (snd (DeleteRecommendation order k s)) = ms_issueIndex s"
  by (induction order) (auto split: option.splits)

lemma index_step: "store_step s s' \<Longrightarrow> ms_issueIndex s k \<noteq> None \<Longrightarrow> ms_issueIndex s' k \<noteq> None"
  by (induction rule: store_step.induct)
    (auto simp: recommendation_ops_index UpsertAppUser_def CreateAppSession_def AppSessionByTokenHash_def
    RevokeAppSession_def CreateSession_def UpdateSession_def CreateTask_def UpdateTask_def
    SaveRecommendations_def SaveAIConfig_def SaveGitFlameConnection_def RevokeGitFlameConnection_def
    TouchGitFlameConnection_def SaveGitFlameWebhook_def SaveGitFlameWebhookEvent_def
    SaveRepositorySnapshot_def Let_def split: option.splits)

lemma index_run: "store_step\<^sup>*\<^sup>* s s' \<Longrightarrow> ms_issueIndex s k \<noteq> None \<Longrightarrow> ms_issueIndex s' k \<noteq> None"
  by (induction rule: rtranclp_induct) (auto dest: index_step)

lemma index_session: "store_ok s \<Longrightarrow> ms_issueIndex s k = Some sid \<Longrightarrow> \<exists>v. ms_sessions s sid = Some v \<and> ses_id v = sid"
proof -
  assume s: "store_ok s" "ms_issueIndex s k = Some sid"
  then have "sid \<in> ran (ms_issueIndex s)" by (auto simp: ran_def)
  with s(1) have "sid \<in> dom (ms_sessions s)" and key: "keyed ses_id (ms_sessions s)"
    unfolding store_ok_def sessions_ok_def by blast+
  then show ?thesis by (auto simp: keyed_def)
qed

text \<open>A repository's issue gets one session: after any successful \<open>CreateSession\<close>, whatever happens to the
  store, a later one for the same repository and issue creates nothing and never fails.\<close>

theorem issue_session_created_once:
  assumes "reachable_store s" and "CreateSession now nid req cfg s = (Inr (v, created), s1)"
    and "store_step\<^sup>*\<^sup>* s1 s2"
    and "repo_id (req_repository req') = repo_id (req_repository req)"
    and "issue_id (req_issue req') = issue_id (req_issue req)"
  shows "\<exists>w. CreateSession now' nid' req' cfg' s2 = (Inr (w, False), s2)"
proof -
  let ?k = "sessionKey (repo_id (req_repository req)) (issue_id (req_issue req))"
  have "ms_issueIndex s1 ?k \<noteq> None"
    using assms(2) by (auto simp: CreateSession_def Let_def split: option.splits)
  then obtain sid where sid: "ms_issueIndex s2 ?k = Some sid"
    using index_run [OF assms(3)] by blast
  have "store_step s s1" using create_session [of s now nid req cfg] assms(2) by simp
  with assms(1,3) have "store_ok s2" by (meson reachable_ok store_run_ok store_step_ok)
  with sid index_session obtain w where "ms_sessions s2 sid = Some w" by blast
  with sid assms(4,5) show ?thesis by (simp add: CreateSession_def)
qed

definition sample_request :: issue_analyze_request where
  "sample_request = \<lparr>req_repository = \<lparr>repo_id = ''r'', repo_name = ''n'', repo_default_branch = ''main'',
       repo_commit_sha = [], repo_web_url = []\<rparr>,
     req_issue = \<lparr>issue_id = ''42'', issue_title = ''Add login'', issue_body = ''b'', issue_author = ''a'',
       issue_state = []\<rparr>,
     req_yaml_config = [], req_repository_files = [\<lparr>rf_path = ''m.go'', rf_content = ''x'', rf_type = []\<rparr>],
     req_repository_context = [], req_metadata = JNull\<rparr>"

definition sample_config :: ai_config where
  "sample_config = \<lparr>cfg_raw = [], cfg_version = ''1'', cfg_default_branch = ''main'',
     cfg_target_branch_prefix = ''ai/'', cfg_analysis_enabled = True, cfg_require_approval = True,
     cfg_recommendations_enabled = True, cfg_include_patterns = [], cfg_exclude_patterns = [],
     cfg_recommendation_categories = [], cfg_max_files = 10, cfg_max_snippets_per_file = 3,
     cfg_retention_days = 30, cfg_reviewer_policy = [], cfg_approve_command = [],
     cfg_correct_command = [], cfg_reject_command = []\<rparr>"

lemma sample_CreateSession:
  "CreateSession 1 ''s'' sample_request sample_config NewMemoryStore =
     (Inr (fst (sum.projr (fst (CreateSession 1 ''s'' sample_request sample_config NewMemoryStore))), True),
      snd (CreateSession 1 ''s'' sample_request sample_config NewMemoryStore))"
  by (simp add: CreateSession_def NewMemoryStore_def Let_def)

lemma issue_session_created_once_witness:
  "\<exists>w. CreateSession 9 ''t'' sample_request sample_config
       (snd (CreateSession 1 ''s'' sample_request sample_config NewMemoryStore)) =
     (Inr (w, False), snd (CreateSession 1 ''s'' sample_request sample_config NewMemoryStore))"
  by (rule issue_session_created_once [OF reachable_new sample_CreateSession rtranclp.rtrancl_refl refl refl])

text \<open>The index by bare issue identifier is shared by all repositories: creating a session for an issue of
  one repository takes the identifier away from the session that another repository has under it.\<close>

theorem bare_issue_id_moves_to_newest_session:
  assumes "Session i s = (Inr old, s)" and "issue_id (req_issue req) = i"
    and "CreateSession now nid req cfg s = (Inr (v, True), s')"
  shows "Session i s' = (Inr v, s') \<and> ses_id v = nid"
proof -
  have at: "ms_issueIndex s' i = Some nid" "ms_sessions s' nid = Some v" "ses_id v = nid"
    using assms(2,3) by (auto simp: CreateSession_def Let_def split: option.splits)
  then show ?thesis by (simp add: Session_def)
qed

lemma bare_issue_id_moves_to_newest_session_witness:
  "let other = sample_request\<lparr>req_repository := (req_repository sample_request)\<lparr>repo_id := ''r2''\<rparr>\<rparr>;
       s1 = snd (CreateSession 1 ''s'' sample_request sample_config NewMemoryStore);
       s2 = snd (CreateSession 2 ''t'' other sample_config s1)
   in map_sum id ses_id (fst (Session ''42'' s1)) = Inr ''s'' \<and>
      map_sum id ses_id (fst (Session ''42'' s2)) = Inr ''t''"
proof -
  define other where "other = sample_request\<lparr>req_repository := (req_repository sample_request)\<lparr>repo_id := ''r2''\<rparr>\<rparr>"
  define s1 where "s1 = snd (CreateSession 1 ''s'' sample_request sample_config NewMemoryStore)"
  obtain old where old: "Session ''42'' s1 = (Inr old, s1)" "ses_id old = ''s''"
    by (simp add: s1_def Session_def CreateSession_def NewMemoryStore_def sample_request_def sessionKey_def Let_def)
  obtain v where v: "CreateSession 2 ''t'' other sample_config s1 = (Inr (v, True), snd (CreateSession 2 ''t'' other sample_config s1))"
    by (simp add: s1_def other_def CreateSession_def NewMemoryStore_def sample_request_def sessionKey_def Let_def)
  have "issue_id (req_issue other) = ''42''" by (simp add: other_def sample_request_def)
  from bare_issue_id_moves_to_newest_session [OF old(1) this v] old(2) show ?thesis
    by (simp add: Let_def other_def [symmetric] s1_def [symmetric] old(1))
qed

section \<open>Tasks, events and counts\<close>

lemma latest_task_spec:
  "(case latest_task sid ts of
      None \<Rightarrow> (\<forall>t \<in> set ts. task_session_id t \<noteq> sid)
    | Some l \<Rightarrow> l \<in> set ts \<and> task_session_id l = sid \<and>
        (\<forall>t \<in> set ts. task_session_id t = sid \<longrightarrow> task_created_at t \<le> task_created_at l))"
proof (induction ts rule: rev_induct)
  case (snoc t ts)
  have step: "latest_task sid (ts @ [t]) =
      (if task_session_id t = sid \<and> (case latest_task sid ts of None \<Rightarrow> True | Some l \<Rightarrow> task_created_at t > task_created_at l)
       then Some t else latest_task sid ts)"
    by (simp add: latest_task_def)
  show ?case
    using snoc unfolding step by (cases "latest_task sid ts") fastforce+
qed (simp add: latest_task_def)

text \<open>\<open>LatestTask\<close> fails exactly when the session has no task, and otherwise returns one of its tasks that
  none of its other tasks is newer than, whatever the visiting order.\<close>

theorem LatestTask_latest:
  assumes "visits (ms_tasks s) order"
  shows "case LatestTask order sid s of
      (Inl e, s') \<Rightarrow> s' = s \<and> e = ErrNotFound \<and> {t \<in> ran (ms_tasks s). task_session_id t = sid} = {}
    | (Inr l, s') \<Rightarrow> s' = s \<and> l \<in> ran (ms_tasks s) \<and> task_session_id l = sid \<and>
        task_created_at l = Max (task_created_at ` {t \<in> ran (ms_tasks s). task_session_id t = sid})"
proof -
  have fin: "finite (ran (ms_tasks s))"
    using set_ranging [OF assms] by (metis List.finite_set)
  show ?thesis
    using latest_task_spec [where sid = sid and ts = "ranging (ms_tasks s) order"] fin
    by (auto simp: LatestTask_def set_ranging [OF assms] split: option.splits intro!: Max_eqI [symmetric])
qed

definition one_task :: memory_store where
  "one_task = snd (CreateTask 4 ''t'' ''s'' ''42'' TaskInitialPlan NewMemoryStore)"

lemma LatestTask_latest_witness:
  "case LatestTask [''t''] ''s'' one_task of (Inl e, s') \<Rightarrow> False | (Inr l, s') \<Rightarrow> task_session_id l = ''s''"
proof -
  have "visits (ms_tasks one_task) [''t'']"
    by (simp add: visits_def one_task_def CreateTask_def NewMemoryStore_def Let_def)
  from LatestTask_latest [OF this, of "''s''"] show ?thesis
    by (auto simp: one_task_def CreateTask_def NewMemoryStore_def Let_def split: prod.splits sum.splits)
qed

lemma sort_key_take_newest:
  assumes "x \<in> set (take n (sort_key (\<lambda>e. - f e) xs))" and "y \<in> set (drop n (sort_key (\<lambda>e. - f e) xs))"
  shows "(f y :: int) \<le> f x"
proof -
  have "sorted (map (\<lambda>e. - f e) (take n (sort_key (\<lambda>e. - f e) xs) @ drop n (sort_key (\<lambda>e. - f e) xs)))"
    by (simp only: append_take_drop_id sorted_sort_key)
  then have "- f x \<le> - f y"
    using assms unfolding map_append sorted_append by auto
  then show ?thesis by simp
qed

text \<open>The page of webhook events holds events of that webhook only, at most 100 of them, newest first,
  and no event left out is newer than one on the page.\<close>

theorem webhook_events_page:
  "case GitFlameWebhookEvents order webhookID limit s of
      (Inl e, s') \<Rightarrow> False
    | (Inr page, s') \<Rightarrow> s' = s \<and> go_len page \<le> 100 \<and> sorted (map (\<lambda>e. - ev_received_at e) page) \<and>
        (\<exists>rest. mset (page @ rest) =
             mset (filter (\<lambda>e. ev_webhook_id e = webhookID) (ranging (ms_events s) order)) \<and>
           list_all (\<lambda>x. list_all (\<lambda>y. ev_received_at y \<le> ev_received_at x) rest) page)"
proof -
  define all where "all = sort_key (\<lambda>e. - ev_received_at e)
    (filter (\<lambda>e. ev_webhook_id e = webhookID) (ranging (ms_events s) order))"
  define lim where "lim = (if limit < 1 \<or> limit > 100 then 50 else limit)"
  have lim: "1 \<le> lim" "lim \<le> 100" by (auto simp: lim_def)
  have cut: "GitFlameWebhookEvents order webhookID limit s = (Inr (take (nat lim) all), s)"
    using lim by (auto simp: GitFlameWebhookEvents_def Let_def all_def [symmetric] lim_def [symmetric] go_len_def)
  have "sorted (map (\<lambda>e. - ev_received_at e) (take (nat lim) all))"
    by (simp add: all_def take_map [symmetric] sorted_wrt_take)
  moreover have "mset (take (nat lim) all @ drop (nat lim) all) =
      mset (filter (\<lambda>e. ev_webhook_id e = webhookID) (ranging (ms_events s) order))"
    by (simp only: append_take_drop_id) (simp add: all_def)
  moreover have "list_all (\<lambda>x. list_all (\<lambda>y. ev_received_at y \<le> ev_received_at x) (drop (nat lim) all))
      (take (nat lim) all)"
    unfolding list_all_iff all_def by (intro ballI sort_key_take_newest)
  ultimately have "\<exists>rest. mset (take (nat lim) all @ rest) =
        mset (filter (\<lambda>e. ev_webhook_id e = webhookID) (ranging (ms_events s) order)) \<and>
      list_all (\<lambda>x. list_all (\<lambda>y. ev_received_at y \<le> ev_received_at x) rest) (take (nat lim) all)"
    by blast
  then show ?thesis
    using lim \<open>sorted _\<close> unfolding cut by (simp add: go_len_def)
qed

lemma tally_count: "tally ks k = (if k \<in> set ks then Some (int (count_list ks k)) else None)"
  by (induction ks rule: rev_induct) (auto simp: tally_def increment_def)

end
