(* ===== verification/Workflow_Safety.thy ===== *)
theory Workflow_Safety imports Workflow Store_Properties begin

text \<open>
  The safety of the workflow: an invariant that relates sessions, tasks and jobs, kept by every request of
  the API and by every part of a task's execution in any interleaving, and what follows from it.
\<close>

section \<open>The invariant\<close>

definition planned :: "issue_session \<Rightarrow> bool" where
  "planned v \<longleftrightarrow> well_formed_plan (trim_space (ses_plan_markdown v))"

definition planned_statuses :: "string set" where
  "planned_statuses = {SessionPlanGenerated, SessionApproved, SessionCodeGenerationQueued,
     SessionCodeGenerationProcessing, SessionCodeGenerated}"

text \<open>A plan is absent or well formed; a session past planning has one; generated code is deliverable.\<close>

definition session_ok :: "issue_session \<Rightarrow> bool" where
  "session_ok v \<longleftrightarrow>
     (ses_plan_markdown v = [] \<or> planned v) \<and>
     (ses_status v \<in> planned_statuses \<longrightarrow> planned v) \<and>
     (ses_status v = SessionCodeGenerated \<longrightarrow>
        (\<exists>c. ses_generated_files v = Some c \<and> deliverable (gc_files c) \<and> valid_branch_name (gc_branch_name c)))"

text \<open>The session of a task exists, and has a plan when the task is to generate code.\<close>

definition anchored :: "memory_store \<Rightarrow> string \<Rightarrow> string \<Rightarrow> bool" where
  "anchored st sid ty \<longleftrightarrow> (\<exists>v. ms_sessions st sid = Some v \<and> (ty = TaskCodeGeneration \<longrightarrow> planned v))"

definition task_ok :: "memory_store \<Rightarrow> agent_task \<Rightarrow> bool" where
  "task_ok st t \<longleftrightarrow> anchored st (task_session_id t) (task_type t) \<and>
     (task_status t = TaskFailed \<longrightarrow> task_err t \<noteq> None)"

text \<open>No issue identifier is the identifier of a session, and every session is indexed.\<close>

definition index_ok :: "memory_store \<Rightarrow> bool" where
  "index_ok st \<longleftrightarrow> dom (ms_issueIndex st) \<inter> dom (ms_sessions st) = {} \<and>
     (\<forall>v \<in> ran (ms_sessions st). {issue_of v, session_key_of v} \<subseteq> dom (ms_issueIndex st))"

definition same_task :: "memory_store \<Rightarrow> string \<Rightarrow> string \<Rightarrow> string \<Rightarrow> bool" where
  "same_task st tid sid ty \<longleftrightarrow>
     (\<exists>t. ms_tasks st tid = Some t \<and> task_session_id t = sid \<and> task_type t = ty)"

definition job_ok :: "memory_store \<Rightarrow> agent_job \<Rightarrow> bool" where
  "job_ok st job \<longleftrightarrow> same_task st (job_task_id job) (job_session_id job) (job_type job) \<and>
     (if job_type job = TaskCodeGeneration
      then cg_request_id (job_code_generation_request job) = job_task_id job \<and>
        well_formed_plan (trim_space (cg_approved_plan_markdown (job_code_generation_request job)))
      else pr_request_id (job_request job) = job_task_id job)"

definition store_safe :: "memory_store \<Rightarrow> bool" where
  "store_safe st \<longleftrightarrow> store_ok st \<and> index_ok st \<and> (\<forall>v \<in> ran (ms_sessions st). session_ok v) \<and>
     (\<forall>t \<in> ran (ms_tasks st). task_ok st t)"

definition flow_ok :: "workflow_state \<Rightarrow> bool" where
  "flow_ok s \<longleftrightarrow> store_safe (ws_store s) \<and>
     (\<forall>job \<in> set (ws_published s) \<union> set (ws_spawned s). job_ok (ws_store s) job)"

section \<open>Growth of the store\<close>

text \<open>What no operation takes back: sessions stay, keep their request and their having a plan; tasks stay
  with their session and type.\<close>

definition grows :: "memory_store \<Rightarrow> memory_store \<Rightarrow> bool" where
  "grows st st' \<longleftrightarrow>
     (\<forall>k v. ms_sessions st k = Some v \<longrightarrow>
        (\<exists>w. ms_sessions st' k = Some w \<and> ses_request w = ses_request v \<and> (planned v \<longrightarrow> planned w))) \<and>
     (\<forall>k t. ms_tasks st k = Some t \<longrightarrow> same_task st' k (task_session_id t) (task_type t))"

lemma grows_refl [simp]: "grows st st"
  by (simp add: grows_def same_task_def)

lemma grows_session:
  "grows st st' \<Longrightarrow> ms_sessions st k = Some v \<Longrightarrow>
     \<exists>w. ms_sessions st' k = Some w \<and> ses_request w = ses_request v \<and> (planned v \<longrightarrow> planned w)"
  by (simp add: grows_def)

lemma grows_task: "grows st st' \<Longrightarrow> ms_tasks st k = Some t \<Longrightarrow> same_task st' k (task_session_id t) (task_type t)"
  by (simp add: grows_def)

lemma grows_trans:
  assumes ab: "grows a b" and bc: "grows b c"
  shows "grows a c"
  unfolding grows_def
proof (intro conjI allI impI)
  fix k v assume "ms_sessions a k = Some v"
  from grows_session [OF ab this] obtain w where w: "ms_sessions b k = Some w" "ses_request w = ses_request v"
    "planned v \<longrightarrow> planned w" by blast
  from grows_session [OF bc w(1)] w(2,3)
  show "\<exists>x. ms_sessions c k = Some x \<and> ses_request x = ses_request v \<and> (planned v \<longrightarrow> planned x)" by auto
next
  fix k t assume "ms_tasks a k = Some t"
  from grows_task [OF ab this] obtain u where u: "ms_tasks b k = Some u" "task_session_id u = task_session_id t"
    "task_type u = task_type t" by (auto simp: same_task_def)
  from grows_task [OF bc u(1)] u(2,3) show "same_task c k (task_session_id t) (task_type t)" by simp
qed

lemma anchored_grows: "grows st st' \<Longrightarrow> anchored st sid ty \<Longrightarrow> anchored st' sid ty"
  unfolding grows_def anchored_def by metis

lemma same_task_grows: "grows st st' \<Longrightarrow> same_task st tid sid ty \<Longrightarrow> same_task st' tid sid ty"
  unfolding grows_def same_task_def by metis

lemma job_ok_grows: "grows st st' \<Longrightarrow> job_ok st job \<Longrightarrow> job_ok st' job"
  unfolding job_ok_def using same_task_grows by auto

lemma task_ok_grows: "grows st st' \<Longrightarrow> task_ok st t \<Longrightarrow> task_ok st' t"
  unfolding task_ok_def using anchored_grows by auto

lemma flow_ok_store:
  assumes "flow_ok s" and "store_safe st'" and "grows (ws_store s) st'"
  shows "flow_ok (s\<lparr>ws_store := st'\<rparr>)"
  using assms job_ok_grows by (auto simp: flow_ok_def)

section \<open>Writing a session or a task\<close>

lemma store_safe_sessions:
  assumes "store_safe st" and "ms_sessions st k = Some v"
  shows "session_ok v" and "ses_id v = k" and "ms_issueIndex st (ses_id v) = None"
    and "issue_of v \<in> dom (ms_issueIndex st)" and "session_key_of v \<in> dom (ms_issueIndex st)"
proof -
  have "v \<in> ran (ms_sessions st)" using assms(2) by (auto simp: ran_def)
  then show "session_ok v" "issue_of v \<in> dom (ms_issueIndex st)" "session_key_of v \<in> dom (ms_issueIndex st)"
    using assms(1) by (auto simp: store_safe_def index_ok_def)
  show id: "ses_id v = k"
    using assms by (auto simp: store_safe_def store_ok_def sessions_ok_def keyed_def)
  have "dom (ms_issueIndex st) \<inter> dom (ms_sessions st) = {}"
    using assms(1) by (simp add: store_safe_def index_ok_def)
  then show "ms_issueIndex st (ses_id v) = None" using assms(2) id by auto
qed

lemma store_safe_tasks:
  assumes "store_safe st" and "ms_tasks st k = Some t"
  shows "task_ok st t" and "task_id t = k"
proof -
  show "task_ok st t" using assms by (auto simp: store_safe_def ran_def)
  show "task_id t = k" using assms by (auto simp: store_safe_def store_ok_def keyed_def)
qed

lemma UpdateSession_eq:
  "UpdateSession now v st = (Inr (v\<lparr>ses_updated_at := now\<rparr>), snd (UpdateSession now v st))"
  by (simp add: UpdateSession_def Let_def)

lemma UpdateSession_fields [simp]:
  "ms_sessions (snd (UpdateSession now v st)) = (ms_sessions st)(ses_id v \<mapsto> v\<lparr>ses_updated_at := now\<rparr>)"
  "ms_tasks (snd (UpdateSession now v st)) = ms_tasks st"
  "ms_issueIndex (snd (UpdateSession now v st)) =
     (ms_issueIndex st)(issue_of v \<mapsto> ses_id v, session_key_of v \<mapsto> ses_id v)"
  by (simp_all add: UpdateSession_def Let_def issue_of_def session_key_of_def)

lemma UpdateTask_eq:
  "UpdateTask now t st = (Inr (t\<lparr>task_updated_at := now\<rparr>), snd (UpdateTask now t st))"
  by (simp add: UpdateTask_def Let_def)

lemma UpdateTask_fields [simp]:
  "ms_sessions (snd (UpdateTask now t st)) = ms_sessions st"
  "ms_issueIndex (snd (UpdateTask now t st)) = ms_issueIndex st"
  "ms_tasks (snd (UpdateTask now t st)) = (ms_tasks st)(task_id t \<mapsto> t\<lparr>task_updated_at := now\<rparr>)"
  by (simp_all add: UpdateTask_def Let_def)

lemma session_ok_time [simp]: "session_ok (v\<lparr>ses_updated_at := now\<rparr>) = session_ok v"
  by (simp add: session_ok_def planned_def)

lemma planned_time [simp]: "planned (v\<lparr>ses_updated_at := now\<rparr>) = planned v"
  by (simp add: planned_def)

lemma update_session_safe:
  assumes safe: "store_safe st" and at: "ms_sessions st (ses_id v) = Some u"
    and v: "ses_request v = ses_request u" "session_ok v" "planned u \<Longrightarrow> planned v"
  shows "store_safe (snd (UpdateSession now v st)) \<and> grows st (snd (UpdateSession now v st))"
proof
  let ?st = "snd (UpdateSession now v st)"
  show grow: "grows st ?st"
    using at v by (auto simp: grows_def same_task_def)
  have names: "issue_of v = issue_of u" "session_key_of v = session_key_of u"
    using v(1) by (simp_all add: issue_of_def session_key_of_def)
  note u = store_safe_sessions [OF safe at]
  have idx: "dom (ms_issueIndex ?st) = dom (ms_issueIndex st)" "dom (ms_sessions ?st) = dom (ms_sessions st)"
    using u at names by auto
  have "index_ok ?st"
    using safe idx names u(4,5) unfolding index_ok_def store_safe_def UpdateSession_fields(1)
    by (auto simp: issue_of_def session_key_of_def dest!: ran_upd_subset [THEN subsetD])
  moreover have "store_ok ?st"
    using safe keepsD [OF keeps_UpdateSession] by (simp add: store_safe_def)
  moreover have "\<forall>w \<in> ran (ms_sessions ?st). session_ok w"
    unfolding UpdateSession_fields(1)
    using safe v(2) by (intro ball_ran_upd) (simp_all add: store_safe_def)
  moreover have "\<forall>t \<in> ran (ms_tasks ?st). task_ok ?st t"
    using safe task_ok_grows [OF grow] by (auto simp: store_safe_def)
  ultimately show "store_safe ?st" by (simp add: store_safe_def)
qed

lemma update_task_safe:
  assumes safe: "store_safe st" and ok: "task_ok st t"
    and same: "\<And>u. ms_tasks st (task_id t) = Some u \<Longrightarrow> task_session_id u = task_session_id t \<and> task_type u = task_type t"
  shows "store_safe (snd (UpdateTask now t st)) \<and> grows st (snd (UpdateTask now t st))"
proof
  let ?st = "snd (UpdateTask now t st)"
  show grow: "grows st ?st"
    using same by (auto simp: grows_def same_task_def)
  have "\<forall>u \<in> ran (ms_tasks ?st). task_ok ?st u"
    unfolding UpdateTask_fields(3)
    using safe ok task_ok_grows [OF grow]
    by (intro ball_ran_upd) (auto simp: store_safe_def task_ok_def anchored_def)
  moreover have "store_ok ?st"
    using safe keepsD [OF keeps_tasks(2)] by (simp add: store_safe_def)
  ultimately show "store_safe ?st"
    using safe by (simp add: store_safe_def index_ok_def)
qed

lemma CreateTask_fields:
  obtains t where "CreateTask now nid sid iid ty st = (Inr t, st\<lparr>ms_tasks := (ms_tasks st)(nid \<mapsto> t)\<rparr>)"
    and "task_id t = nid" "task_session_id t = sid" "task_type t = ty" "task_status t = TaskQueued" "task_err t = None"
  by (simp add: CreateTask_def Let_def)

lemma create_task_safe:
  assumes safe: "store_safe st" and fresh: "ms_tasks st nid = None" and anch: "anchored st sid ty"
  shows "store_safe (snd (CreateTask now nid sid iid ty st)) \<and> grows st (snd (CreateTask now nid sid iid ty st))"
proof -
  obtain t where t: "CreateTask now nid sid iid ty st = (Inr t, st\<lparr>ms_tasks := (ms_tasks st)(nid \<mapsto> t)\<rparr>)"
    "task_session_id t = sid" "task_type t = ty" "task_status t = TaskQueued"
    by (rule CreateTask_fields)
  let ?st = "st\<lparr>ms_tasks := (ms_tasks st)(nid \<mapsto> t)\<rparr>"
  have grow: "grows st ?st"
    using fresh by (auto simp: grows_def same_task_def)
  have "task_ok ?st t"
    using anch t by (simp add: task_ok_def anchored_def TaskQueued_def TaskFailed_def)
  then have "\<forall>u \<in> ran (ms_tasks ?st). task_ok ?st u"
    using safe task_ok_grows [OF grow] by (auto simp: store_safe_def dest!: ran_upd_subset [THEN subsetD])
  moreover have "store_ok ?st"
    using safe keepsD [OF keeps_tasks(1), of st now nid sid iid ty] by (simp add: store_safe_def t(1))
  ultimately have "store_safe ?st"
    using safe by (simp add: store_safe_def index_ok_def)
  with grow show ?thesis by (simp add: t(1))
qed

text \<open>Reading a session by the identifier of a task's session finds that very session.\<close>

lemma Session_by_id:
  assumes "store_safe st" and "ms_sessions st k = Some v"
  shows "Session k st = (Inr v, st)"
proof -
  have "dom (ms_issueIndex st) \<inter> dom (ms_sessions st) = {}"
    using assms(1) by (simp add: store_safe_def index_ok_def)
  then have "ms_issueIndex st k = None" using assms(2) by auto
  with assms(2) show ?thesis by (simp add: Session_def)
qed

section \<open>Outcomes of an operation\<close>

text \<open>An outcome is good when the invariant holds after it and the store has only grown since \<open>s0\<close>; a
  returned value satisfies the postcondition.\<close>

definition outcome ::
    "workflow_state \<Rightarrow> ('a \<Rightarrow> workflow_state \<Rightarrow> bool) \<Rightarrow> 'a result \<times> workflow_state \<Rightarrow> bool" where
  "outcome s0 Q out \<longleftrightarrow> flow_ok (snd out) \<and> grows (ws_store s0) (ws_store (snd out)) \<and>
     (\<forall>a. fst out = Inr a \<longrightarrow> Q a (snd out))"

named_theorems outcome_rules "the rules that run an operation step by step"

lemma outcome_ret [outcome_rules]:
  "flow_ok s \<Longrightarrow> grows (ws_store s0) (ws_store s) \<Longrightarrow> Q a s \<Longrightarrow> outcome s0 Q (retS a s)"
  by (simp add: outcome_def)

lemma outcome_fail [outcome_rules]:
  "flow_ok s \<Longrightarrow> grows (ws_store s0) (ws_store s) \<Longrightarrow> outcome s0 Q (failS e s)"
  by (simp add: outcome_def)

lemma outcome_weaken: "outcome s0 Q out \<Longrightarrow> (\<And>a s. Q a s \<Longrightarrow> R a s) \<Longrightarrow> outcome s0 R out"
  by (simp add: outcome_def)

lemma outcome_bind:
  assumes "outcome s0 Q (m s)"
    and "\<And>a s1. flow_ok s1 \<Longrightarrow> grows (ws_store s0) (ws_store s1) \<Longrightarrow> Q a s1 \<Longrightarrow> outcome s0 R (f a s1)"
  shows "outcome s0 R (bindS m f s)"
  using assms by (auto simp: outcome_def bindS_def split: prod.splits sum.splits)

lemma outcome_try:
  assumes "outcome s0 Q (m s)"
    and "\<And>r s1. flow_ok s1 \<Longrightarrow> grows (ws_store s0) (ws_store s1) \<Longrightarrow> (\<And>a. r = Inr a \<Longrightarrow> Q a s1) \<Longrightarrow> outcome s0 R (f r s1)"
  shows "outcome s0 R (tryS m f s)"
  using assms by (auto simp: outcome_def tryS_def split: prod.splits)

lemma on_store_reader: "snd (m (ws_store s)) = ws_store s \<Longrightarrow> on_store m s = (fst (m (ws_store s)), s)"
  by (cases "m (ws_store s)") (simp add: on_store_def)

lemma outcome_Session_try [outcome_rules]:
  assumes "flow_ok s"
    and "\<And>v. ms_sessions (ws_store s) (ses_id v) = Some v \<Longrightarrow> session_ok v \<Longrightarrow>
      ms_sessions (ws_store s) k = Some v \<or> ms_sessions (ws_store s) k = None \<Longrightarrow> outcome s0 Q (f (Inr v) s)"
    and "(ms_sessions (ws_store s) k = None \<Longrightarrow> outcome s0 Q (f (Inl ErrNotFound) s))"
  shows "outcome s0 Q (tryS (on_store (Session k)) f s)"
proof -
  have safe: "store_safe (ws_store s)" using assms(1) by (simp add: flow_ok_def)
  have run: "tryS (on_store (Session k)) f s = f (fst (Session k (ws_store s))) s"
    by (simp add: tryS_def on_store_reader)
  show ?thesis
  proof (cases "fst (Session k (ws_store s))")
    case (Inr v)
    then obtain j where j: "ms_sessions (ws_store s) j = Some v"
      by (auto simp: Session_def Let_def split: option.splits)
    note v = store_safe_sessions [OF safe j]
    have "ms_sessions (ws_store s) k = Some v \<or> ms_sessions (ws_store s) k = None"
      using Session_by_id [OF safe, of k] Inr by (cases "ms_sessions (ws_store s) k") simp_all
    with assms(2) [of v] j v Inr show ?thesis by (simp add: run)
  next
    case (Inl e)
    then have "e = ErrNotFound" by (auto simp: Session_def Let_def split: option.splits)
    moreover have "ms_sessions (ws_store s) k = None"
      using Inl Session_by_id [OF safe, of k] by (cases "ms_sessions (ws_store s) k") auto
    ultimately show ?thesis using assms(3) Inl by (simp add: run)
  qed
qed

lemma bindS_try: "bindS m f s = tryS m (\<lambda>r. case r of Inl e \<Rightarrow> failS e | Inr a \<Rightarrow> f a) s"
  by (auto simp: bindS_def tryS_def split: prod.splits sum.splits)

lemma outcome_Session [outcome_rules]:
  assumes "flow_ok s" and "grows (ws_store s0) (ws_store s)"
    and "\<And>v. ms_sessions (ws_store s) (ses_id v) = Some v \<Longrightarrow> session_ok v \<Longrightarrow>
      ms_sessions (ws_store s) k = Some v \<or> ms_sessions (ws_store s) k = None \<Longrightarrow> outcome s0 Q (f v s)"
  shows "outcome s0 Q (bindS (on_store (Session k)) f s)"
  unfolding bindS_try using assms by (intro outcome_Session_try) (simp_all add: outcome_def)

lemma outcome_Task [outcome_rules]:
  assumes "flow_ok s" and "grows (ws_store s0) (ws_store s)"
    and "\<And>t. ms_tasks (ws_store s) (task_id t) = Some t \<Longrightarrow> task_id t = k \<Longrightarrow> task_ok (ws_store s) t \<Longrightarrow>
      outcome s0 Q (f t s)"
  shows "outcome s0 Q (bindS (on_store (Task k)) f s)"
proof (cases "ms_tasks (ws_store s) k")
  case None
  with assms show ?thesis by (simp add: bindS_def on_store_def Task_def outcome_def)
next
  case (Some t)
  have "store_safe (ws_store s)" using assms(1) by (simp add: flow_ok_def)
  from store_safe_tasks [OF this Some] Some assms(3) [of t] show ?thesis
    by (simp add: bindS_def on_store_def Task_def)
qed

text \<open>A session that may be written: it has the request of the stored one and loses no plan.\<close>

definition replaces :: "memory_store \<Rightarrow> issue_session \<Rightarrow> bool" where
  "replaces st v \<longleftrightarrow>
     (\<exists>u. ms_sessions st (ses_id v) = Some u \<and> ses_request v = ses_request u \<and> (planned u \<longrightarrow> planned v))"

lemma outcome_UpdateSession [outcome_rules]:
  assumes "flow_ok s" and "grows (ws_store s0) (ws_store s)"
    and "replaces (ws_store s) v" and "session_ok v"
    and "\<And>s1. flow_ok s1 \<Longrightarrow> grows (ws_store s0) (ws_store s1) \<Longrightarrow>
      ws_store s1 = snd (UpdateSession now v (ws_store s)) \<Longrightarrow> outcome s0 Q (f (v\<lparr>ses_updated_at := now\<rparr>) s1)"
  shows "outcome s0 Q (bindS (on_store (UpdateSession now v)) f s)"
proof -
  have "store_safe (ws_store s)" using assms(1) by (simp add: flow_ok_def)
  obtain u where u: "ms_sessions (ws_store s) (ses_id v) = Some u" "ses_request v = ses_request u"
    "planned u \<Longrightarrow> planned v" using assms(3) by (auto simp: replaces_def)
  from update_session_safe [OF \<open>store_safe _\<close> u(1,2) assms(4) u(3)]
  have st: "store_safe (snd (UpdateSession now v (ws_store s)))"
    "grows (ws_store s) (snd (UpdateSession now v (ws_store s)))" by auto
  let ?s = "s\<lparr>ws_store := snd (UpdateSession now v (ws_store s))\<rparr>"
  have "outcome s0 Q (f (v\<lparr>ses_updated_at := now\<rparr>) ?s)"
    using flow_ok_store [OF assms(1) st] grows_trans [OF assms(2) st(2)] by (intro assms(5)) simp_all
  moreover have "on_store (UpdateSession now v) s = (Inr (v\<lparr>ses_updated_at := now\<rparr>), ?s)"
    by (subst on_store_def, subst UpdateSession_eq) simp
  ultimately show ?thesis by simp
qed

lemma outcome_UpdateTask [outcome_rules]:
  assumes "flow_ok s" and "grows (ws_store s0) (ws_store s)"
    and "same_task (ws_store s) (task_id t) (task_session_id t) (task_type t)" and "task_ok (ws_store s) t"
    and "\<And>s1. flow_ok s1 \<Longrightarrow> grows (ws_store s0) (ws_store s1) \<Longrightarrow>
      ws_store s1 = snd (UpdateTask now t (ws_store s)) \<Longrightarrow> outcome s0 Q (f (t\<lparr>task_updated_at := now\<rparr>) s1)"
  shows "outcome s0 Q (bindS (on_store (UpdateTask now t)) f s)"
proof -
  have "store_safe (ws_store s)" using assms(1) by (simp add: flow_ok_def)
  from update_task_safe [OF this assms(4), of now] assms(3)
  have st: "store_safe (snd (UpdateTask now t (ws_store s)))"
    "grows (ws_store s) (snd (UpdateTask now t (ws_store s)))" by (auto simp: same_task_def)
  let ?s = "s\<lparr>ws_store := snd (UpdateTask now t (ws_store s))\<rparr>"
  have "outcome s0 Q (f (t\<lparr>task_updated_at := now\<rparr>) ?s)"
    using flow_ok_store [OF assms(1) st] grows_trans [OF assms(2) st(2)] by (intro assms(5)) simp_all
  moreover have "on_store (UpdateTask now t) s = (Inr (t\<lparr>task_updated_at := now\<rparr>), ?s)"
    by (subst on_store_def, subst UpdateTask_eq) simp
  ultimately show ?thesis by simp
qed

lemma outcome_CreateTask [outcome_rules]:
  assumes "flow_ok s" and "grows (ws_store s0) (ws_store s)"
    and "ms_tasks (ws_store s) nid = None" and "anchored (ws_store s) sid ty"
    and "\<And>t s1. flow_ok s1 \<Longrightarrow> grows (ws_store s0) (ws_store s1) \<Longrightarrow> task_id t = nid \<Longrightarrow>
      task_session_id t = sid \<Longrightarrow> task_type t = ty \<Longrightarrow> task_status t = TaskQueued \<Longrightarrow> task_err t = None \<Longrightarrow>
      ms_tasks (ws_store s1) = (ms_tasks (ws_store s))(nid \<mapsto> t) \<Longrightarrow>
      ms_sessions (ws_store s1) = ms_sessions (ws_store s) \<Longrightarrow> outcome s0 Q (f t s1)"
  shows "outcome s0 Q (bindS (on_store (CreateTask now nid sid iid ty)) f s)"
proof -
  have "store_safe (ws_store s)" using assms(1) by (simp add: flow_ok_def)
  from create_task_safe [OF this assms(3,4), of now iid]
  have st: "store_safe (snd (CreateTask now nid sid iid ty (ws_store s)))"
    "grows (ws_store s) (snd (CreateTask now nid sid iid ty (ws_store s)))" by auto
  let ?s = "s\<lparr>ws_store := snd (CreateTask now nid sid iid ty (ws_store s))\<rparr>"
  let ?t = "sum.projr (fst (CreateTask now nid sid iid ty (ws_store s)))"
  have "outcome s0 Q (f ?t ?s)"
    using flow_ok_store [OF assms(1) st] grows_trans [OF assms(2) st(2)]
    by (intro assms(5)) (simp_all add: CreateTask_def Let_def)
  moreover have "on_store (CreateTask now nid sid iid ty) s = (Inr ?t, ?s)"
    by (simp add: on_store_def CreateTask_def Let_def)
  ultimately show ?thesis by simp
qed

section \<open>Every operation keeps the invariant\<close>

lemma session_ok_status:
  assumes "session_ok v" and "t \<notin> planned_statuses \<or> (planned v \<and> t \<noteq> SessionCodeGenerated)"
  shows "session_ok (v\<lparr>ses_status := t\<rparr>)"
proof -
  have "t = SessionCodeGenerated \<Longrightarrow> t \<in> planned_statuses" by (simp add: planned_statuses_def)
  with assms show ?thesis by (auto simp: session_ok_def planned_def)
qed

lemma planned_status [simp]: "planned (v\<lparr>ses_status := t\<rparr>) = planned v"
  by (simp add: planned_def)

lemma unplanned_statuses [simp]:
  "SessionFailed \<notin> planned_statuses" "SessionGenerating \<notin> planned_statuses"
  "SessionProcessing \<notin> planned_statuses" "SessionRejected \<notin> planned_statuses"
  "SessionCorrectionRequested \<notin> planned_statuses"
  by (simp_all add: planned_statuses_def status_defs)

lemma session_ok_planned: "session_ok v \<Longrightarrow> ses_status v \<in> planned_statuses \<Longrightarrow> planned v"
  by (simp add: session_ok_def)

lemma tryS_UpdateSession:
  "tryS (on_store (UpdateSession now v)) g s = bindS (on_store (UpdateSession now v)) (\<lambda>a. g (Inr a)) s"
  by (simp add: tryS_def bindS_def on_store_def UpdateSession_def Let_def)

lemma outcome_failTask:
  assumes "flow_ok s" and "grows (ws_store s0) (ws_store s)"
  shows "outcome s0 (\<lambda>a s1. True) (failTask t1 t2 taskID cause s)"
  unfolding failTask_def
proof (intro outcome_Task outcome_UpdateTask assms)
  fix t s1
  assume t: "ms_tasks (ws_store s) (task_id t) = Some t" "task_ok (ws_store s) t"
  let ?t = "t\<lparr>task_status := TaskFailed, task_err := Some (toTaskError cause)\<rparr>"
  show "same_task (ws_store s) (task_id ?t) (task_session_id ?t) (task_type ?t)"
    using t by (simp add: same_task_def)
  show "task_ok (ws_store s) ?t" using t by (simp add: task_ok_def)
  assume s1: "flow_ok s1" "grows (ws_store s0) (ws_store s1)"
  show "outcome s0 (\<lambda>a s1. True)
     (tryS (on_store (Session (task_session_id t)))
       (\<lambda>r. case r of Inl e \<Rightarrow> retS ()
            | Inr session \<Rightarrow> tryS (on_store (UpdateSession t2 (session\<lparr>ses_status := SessionFailed\<rparr>))) (\<lambda>_. retS ())) s1)"
  proof (rule outcome_Session_try [OF s1(1)]; simp del: bindS_ok)
    fix v assume v: "ms_sessions (ws_store s1) (ses_id v) = Some v" "session_ok v"
    show "outcome s0 (\<lambda>a s1. True) (tryS (on_store (UpdateSession t2 (v\<lparr>ses_status := SessionFailed\<rparr>))) (\<lambda>_. retS ()) s1)"
      unfolding tryS_UpdateSession
      by (rule outcome_UpdateSession [OF s1]) (simp_all add: v session_ok_status outcome_def replaces_def)
  next
    show "outcome s0 (\<lambda>a s1. True) (Inr (), s1)" using s1 by (simp add: outcome_def)
  qed
qed

lemma outcome_dispatch [outcome_rules]:
  assumes s: "flow_ok s" "grows (ws_store s0) (ws_store s)" and job: "job_ok (ws_store s) job"
    and cont: "\<And>s1. flow_ok s1 \<Longrightarrow> grows (ws_store s0) (ws_store s1) \<Longrightarrow> outcome s0 Q (f () s1)"
  shows "outcome s0 Q (bindS (dispatch disp am job) f s)"
proof (rule outcome_bind [where Q = "\<lambda>a s1. True"])
  show "outcome s0 (\<lambda>a s1. True) (dispatch disp am job s)"
  proof (cases disp)
    case QueueDispatcher
    show ?thesis
    proof (cases "am_publish am job")
      case None
      with QueueDispatcher s job show ?thesis
        by (auto simp: dispatch_def accept_job_def outcome_def flow_ok_def)
    next
      case (Some err)
      have "outcome s0 (\<lambda>a s1. True) (tryS (failTask (am_now am 8) (am_now am 9) (job_task_id job) err)
          (\<lambda>_. failS (ErrDispatch (error_text err))) s)"
        by (rule outcome_try [where Q = "\<lambda>a s1. True"]) (use outcome_failTask [OF s] in \<open>auto simp: outcome_def\<close>)
      with QueueDispatcher Some show ?thesis by (simp add: dispatch_def)
    qed
  next
    case InlineDispatcher
    with s job show ?thesis
      by (auto simp: dispatch_def spawn_job_def outcome_def flow_ok_def)
  qed (use s in \<open>simp add: dispatch_def outcome_def\<close>)
  show "outcome s0 Q (f a s1)" if "flow_ok s1" "grows (ws_store s0) (ws_store s1)" for a s1
    using cont [OF that] by simp
qed

lemma plan_job_ok:
  assumes "ms_tasks st (task_id t) = Some t" and "task_session_id t = ses_id v"
    and "task_type t \<noteq> TaskCodeGeneration" and "pr_request_id req = task_id t"
  shows "job_ok st (plan_job t v n req)"
  using assms by (simp add: job_ok_def same_task_def plan_job_def)

lemma agentRequest_id [simp]: "pr_request_id (agentRequest k v p f) = k"
  by (simp add: agentRequest_def)

lemma task_types [simp]: "TaskInitialPlan \<noteq> TaskCodeGeneration" "TaskPlanRevision \<noteq> TaskCodeGeneration"
    "TaskCodeGeneration \<noteq> TaskInitialPlan" "TaskCodeGeneration \<noteq> TaskPlanRevision"
  by (simp_all add: status_defs)

text \<open>New identifiers are unused.\<close>

definition fresh_ids :: "ambient \<Rightarrow> workflow_state \<Rightarrow> bool" where
  "fresh_ids am s \<longleftrightarrow> (\<forall>i. ms_sessions (ws_store s) (am_id am i) = None \<and>
     ms_issueIndex (ws_store s) (am_id am i) = None \<and> ms_tasks (ws_store s) (am_id am i) = None)"

lemma fresh_idsD:
  "fresh_ids am s \<Longrightarrow> ms_sessions (ws_store s) (am_id am i) = None"
  "fresh_ids am s \<Longrightarrow> ms_issueIndex (ws_store s) (am_id am i) = None"
  "fresh_ids am s \<Longrightarrow> ms_tasks (ws_store s) (am_id am i) = None"
  by (simp_all add: fresh_ids_def)

lemma outcome_if [outcome_rules]:
  "(c \<Longrightarrow> outcome s0 Q (m s)) \<Longrightarrow> (\<not> c \<Longrightarrow> outcome s0 Q (n s)) \<Longrightarrow> outcome s0 Q ((if c then m else n) s)"
  by simp

lemma session_ok_correction:
  "session_ok v \<Longrightarrow> session_ok (v\<lparr>ses_status := SessionCorrectionRequested, ses_feedback_history := h\<rparr>)"
  using session_ok_status [of v SessionCorrectionRequested] by (simp add: session_ok_def planned_def)

lemma planned_fields [simp]:
  "planned (v\<lparr>ses_feedback_history := h\<rparr>) = planned v" "planned (v\<lparr>ses_generated_files := g\<rparr>) = planned v"
  "planned (v\<lparr>ses_revision := n\<rparr>) = planned v"
  by (simp_all add: planned_def)

lemma outcome_Correct:
  assumes s: "flow_ok s" and fresh: "fresh_ids am s"
  shows "outcome s (\<lambda>t s1. True) (Correct disp am issueID feedback s)"
  unfolding Correct_def
  by (intro outcome_rules s grows_refl)
    (auto simp: session_ok_correction anchored_def replaces_def fresh_idsD [OF fresh] intro!: plan_job_ok)

lemma outcome_Reject:
  assumes s: "flow_ok s"
  shows "outcome s (\<lambda>t s1. True) (Reject am issueID s)"
  unfolding Reject_def
  by (subst bindS_ret_right [of "on_store (UpdateSession t v)" for t v, symmetric])
    (intro outcome_rules s grows_refl; auto simp: session_ok_status replaces_def)

lemma code_job_ok:
  assumes "ms_tasks st k = Some t" and "task_session_id t = sid"
    and "task_type t = TaskCodeGeneration" and "planned v"
  shows "job_ok st \<lparr>job_task_id = k, job_session_id = sid, job_type = TaskCodeGeneration,
    job_attempt = n, job_request = r, job_code_generation_request = codeGenerationRequest k v\<rparr>"
  using assms by (simp add: job_ok_def same_task_def codeGenerationRequest_def planned_def)

lemma retry_job_ok:
  assumes "ms_tasks st (task_id t) = Some t" and "task_session_id t = ses_id v" and "task_type t = ty"
    and "ty = TaskCodeGeneration \<longrightarrow> planned v"
  shows "job_ok st (retry_job t v ty)"
  using assms
  by (auto simp: retry_job_def Let_def job_ok_def same_task_def plan_job_def codeGenerationRequest_def planned_def)

lemma session_ok_queued:
  "session_ok v \<Longrightarrow> ty = TaskCodeGeneration \<longrightarrow> planned v \<Longrightarrow> session_ok (v\<lparr>ses_status := queuedStatusForTask ty\<rparr>)"
  by (rule session_ok_status) (auto simp: queuedStatusForTask_def planned_statuses_def status_defs)

lemma session_ok_processing:
  "session_ok v \<Longrightarrow> ty = TaskCodeGeneration \<longrightarrow> planned v \<Longrightarrow> session_ok (v\<lparr>ses_status := processingStatusForTask ty\<rparr>)"
  by (rule session_ok_status) (auto simp: processingStatusForTask_def planned_statuses_def status_defs)

lemma task_not_failed [simp]: "TaskQueued \<noteq> TaskFailed" "TaskProcessing \<noteq> TaskFailed" "TaskCompleted \<noteq> TaskFailed"
  by (simp_all add: status_defs)

lemma outcome_Retry:
  assumes s: "flow_ok s" and fresh: "fresh_ids am s"
  shows "outcome s (\<lambda>t s1. True) (Retry disp am taskID s)"
  unfolding Retry_def
proof (intro outcome_Task outcome_if s grows_refl; (rule outcome_fail [OF s grows_refl])?)
  fix t assume t: "ms_tasks (ws_store s) (task_id t) = Some t" "task_id t = taskID" "task_ok (ws_store s) t"
  then obtain v where v: "ms_sessions (ws_store s) (task_session_id t) = Some v"
    "task_type t = TaskCodeGeneration \<longrightarrow> planned v" by (auto simp: task_ok_def anchored_def)
  have "task_id t \<noteq> am_id am 0" using t(1) fresh_idsD(3) [OF fresh, of 0] by auto
  then show "outcome s (\<lambda>t s1. True) (bindS (on_store (Session (task_session_id t))) (\<lambda>session0.
         bindS (on_store (CreateTask (am_now am 0) (am_id am 0) (ses_id session0) (issue_of session0) (task_type t))) (\<lambda>task0.
         bindS (on_store (UpdateTask (am_now am 1) (task0\<lparr>task_attempt := task_attempt t + 1\<rparr>))) (\<lambda>task.
         bindS (on_store (UpdateSession (am_now am 2) (session0\<lparr>ses_status := queuedStatusForTask (task_type t)\<rparr>))) (\<lambda>session.
         bindS (dispatch disp am (retry_job task session (task_type t))) (\<lambda>_. retS task))))) s)"
    using v
    by (intro outcome_rules s grows_refl)
      (auto simp: anchored_def fresh_idsD [OF fresh] task_ok_def session_ok_queued replaces_def same_task_def
        intro!: retry_job_ok)
qed

lemma outcome_RetryTask:
  assumes s: "flow_ok s"
  shows "outcome s (\<lambda>t s1. True) (RetryTask am job s)"
  unfolding RetryTask_def
  by (intro outcome_rules s grows_refl)
    (auto simp: task_ok_def anchored_def session_ok_queued replaces_def same_task_def)

lemma outcome_approve_edit:
  assumes s: "flow_ok s" "grows (ws_store s0) (ws_store s)"
    and v: "ms_sessions (ws_store s) (ses_id v) = Some v" "session_ok v" "planned v"
    and cont: "\<And>w s1. flow_ok s1 \<Longrightarrow> grows (ws_store s0) (ws_store s1) \<Longrightarrow>
      ms_sessions (ws_store s1) (ses_id w) = Some w \<Longrightarrow> session_ok w \<Longrightarrow> planned w \<Longrightarrow> ses_id w = ses_id v \<Longrightarrow>
      ms_tasks (ws_store s1) = ms_tasks (ws_store s) \<Longrightarrow> outcome s0 Q (f w s1)"
  shows "outcome s0 Q (bindS (approve_edit am v edited) f s)"
proof -
  have same: "outcome s0 Q (f v s)" using s v by (intro cont) simp_all
  show ?thesis
  proof (cases edited)
    case None
    with same show ?thesis by (simp add: approve_edit_def)
  next
    case (Some e)
    let ?p = "trim_space e"
    have edit: "outcome s0 Q (bindS (on_store (UpdateSession (am_now am 0)
        (v\<lparr>ses_plan_markdown := ?p, ses_revision := ses_revision v + 1\<rparr>))) f s)"
      if "ValidatePlan ?p (repositoryFilesForSession v) = None"
    proof -
      have p: "planned (v\<lparr>ses_plan_markdown := ?p, ses_revision := ses_revision v + 1\<rparr>)"
        using ValidatePlan_well_formed [OF that] by (simp add: planned_def)
      with v(2) have "session_ok (v\<lparr>ses_plan_markdown := ?p, ses_revision := ses_revision v + 1\<rparr>)"
        by (simp add: session_ok_def)
      with p s v show ?thesis
        by (intro outcome_UpdateSession cont) (auto simp: replaces_def)
    qed
    show ?thesis
      using Some same edit s
      by (auto simp: approve_edit_def Let_def bindS_def outcome_def split: option.split)
  qed
qed

lemma session_ok_approved:
  "session_ok v \<Longrightarrow> planned v \<Longrightarrow> session_ok (v\<lparr>ses_generated_files := g, ses_status := SessionApproved\<rparr>)"
  by (simp add: session_ok_def planned_def status_defs)

lemma session_ok_code_queued:
  "session_ok v \<Longrightarrow> planned v \<Longrightarrow>
     session_ok (v\<lparr>ses_generated_files := g, ses_updated_at := t, ses_status := SessionCodeGenerationQueued\<rparr>)"
  by (simp add: session_ok_def planned_def status_defs)

lemma outcome_Approve:
  assumes s: "flow_ok s" and fresh: "fresh_ids am s"
  shows "outcome s (\<lambda>t s1. True) (Approve disp am issueID edited s)"
  unfolding Approve_def
proof (intro outcome_Session outcome_if s grows_refl; (rule outcome_fail [OF s grows_refl])?)
  fix v assume v: "ms_sessions (ws_store s) (ses_id v) = Some v" "session_ok v"
    and st: "\<not> ses_status v \<noteq> SessionPlanGenerated"
  then have "planned v" by (intro session_ok_planned) (simp_all add: planned_statuses_def)
  then show "outcome s (\<lambda>t s1. True) (bindS (approve_edit am v edited) (\<lambda>session1.
         bindS (on_store (UpdateSession (am_now am 1) (session1\<lparr>
             ses_generated_files := Some (branchPRPayload session1), ses_status := SessionApproved\<rparr>))) (\<lambda>session2.
         bindS (on_store (CreateTask (am_now am 2) (am_id am 2) (ses_id session2) (issue_of session2) TaskCodeGeneration)) (\<lambda>task.
         bindS (on_store (UpdateSession (am_now am 3) (session2\<lparr>ses_status := SessionCodeGenerationQueued\<rparr>))) (\<lambda>session.
         bindS (dispatch disp am
             \<lparr>job_task_id = task_id task, job_session_id = ses_id session, job_type = task_type task,
              job_attempt = 1, job_request = no_plan_request,
              job_code_generation_request = codeGenerationRequest (task_id task) session\<rparr>) (\<lambda>_.
         retS (session, task)))))) s)"
    using v
    by (intro outcome_approve_edit outcome_UpdateSession outcome_CreateTask outcome_dispatch outcome_ret s grows_refl)
      (auto simp: anchored_def fresh_idsD [OF fresh] session_ok_approved session_ok_code_queued replaces_def
        intro!: code_job_ok)
qed

text \<open>Issue identifiers are not session identifiers.\<close>

definition separate_issue :: "ambient \<Rightarrow> issue_analyze_request \<Rightarrow> workflow_state \<Rightarrow> bool" where
  "separate_issue am req s \<longleftrightarrow>
     (\<forall>k \<in> {issue_id (req_issue req), sessionKey (repo_id (req_repository req)) (issue_id (req_issue req))}.
        ms_sessions (ws_store s) k = None \<and> (\<forall>i. am_id am i \<noteq> k))"

lemma create_session_safe:
  assumes safe: "store_safe st" and none: "ms_issueIndex st (sessionKey (repo_id (req_repository req)) (issue_id (req_issue req))) = None"
    and fresh: "ms_sessions st nid = None" "ms_issueIndex st nid = None"
    and sep: "\<And>k. k \<in> {issue_id (req_issue req), sessionKey (repo_id (req_repository req)) (issue_id (req_issue req))} \<Longrightarrow>
      ms_sessions st k = None \<and> nid \<noteq> k"
  obtains v where "CreateSession now nid req cfg st = (Inr (v, True), snd (CreateSession now nid req cfg st))"
    and "store_safe (snd (CreateSession now nid req cfg st))" and "grows st (snd (CreateSession now nid req cfg st))"
    and "ms_sessions (snd (CreateSession now nid req cfg st)) (ses_id v) = Some v"
    and "ms_tasks (snd (CreateSession now nid req cfg st)) = ms_tasks st"
proof -
  let ?i = "issue_id (req_issue req)"
  let ?k = "sessionKey (repo_id (req_repository req)) ?i"
  define v where "v = \<lparr>ses_id = nid, ses_status = SessionGenerating, ses_plan_markdown = [], ses_request = req,
      ses_config = cfg, ses_revision = 0, ses_feedback_history = [], ses_generated_files = None,
      ses_created_at = now, ses_updated_at = now\<rparr>"
  define st' where "st' = st\<lparr>ms_sessions := (ms_sessions st)(nid \<mapsto> v), ms_issueIndex := (ms_issueIndex st)(?i \<mapsto> nid, ?k \<mapsto> nid)\<rparr>"
  have run: "CreateSession now nid req cfg st = (Inr (v, True), st')"
    using none by (simp add: CreateSession_def Let_def v_def st'_def)
  have v: "session_ok v" "issue_of v = ?i" "session_key_of v = ?k"
    by (simp_all add: v_def session_ok_def issue_of_def session_key_of_def planned_statuses_def status_defs)
  have grow: "grows st st'"
    using fresh by (auto simp: grows_def same_task_def st'_def)
  have "store_ok st'"
    using safe keepsD [OF keeps_CreateSession, of st now nid req cfg] by (simp add: store_safe_def run)
  moreover have "index_ok st'"
    using safe fresh sep v(2,3) unfolding index_ok_def store_safe_def st'_def
    by (auto dest!: ran_upd_subset [THEN subsetD])
  moreover have "\<forall>w \<in> ran (ms_sessions st'). session_ok w"
    using safe v(1) by (auto simp: store_safe_def st'_def dest!: ran_upd_subset [THEN subsetD])
  moreover have "\<forall>t \<in> ran (ms_tasks st'). task_ok st' t"
    using safe task_ok_grows [OF grow] by (auto simp: store_safe_def st'_def)
  ultimately have "store_safe st'" by (simp add: store_safe_def)
  with grow show thesis
    by (intro that [of v]) (simp_all add: run, simp_all add: st'_def v_def)
qed

lemma outcome_CreateSession:
  assumes s: "flow_ok s" and fresh: "fresh_ids am s" and sep: "separate_issue am req s"
    and cont: "\<And>v created s1. flow_ok s1 \<Longrightarrow> grows (ws_store s) (ws_store s1) \<Longrightarrow>
      ms_sessions (ws_store s1) (ses_id v) = Some v \<Longrightarrow> ms_tasks (ws_store s1) = ms_tasks (ws_store s) \<Longrightarrow>
      outcome s Q (f (v, created) s1)"
  shows "outcome s Q (bindS (on_store (CreateSession now (am_id am 0) req cfg)) f s)"
proof -
  let ?k = "sessionKey (repo_id (req_repository req)) (issue_id (req_issue req))"
  have safe: "store_safe (ws_store s)" using s by (simp add: flow_ok_def)
  show ?thesis
  proof (cases "ms_issueIndex (ws_store s) ?k")
    case None
    let ?st = "snd (CreateSession now (am_id am 0) req cfg (ws_store s))"
    obtain v where run: "CreateSession now (am_id am 0) req cfg (ws_store s) = (Inr (v, True), ?st)"
      and st: "store_safe ?st" "grows (ws_store s) ?st"
      and at: "ms_sessions ?st (ses_id v) = Some v" "ms_tasks ?st = ms_tasks (ws_store s)"
    proof (rule create_session_safe [OF safe None fresh_idsD(1,2) [OF fresh, of 0], of now cfg])
      fix k assume "k \<in> {issue_id (req_issue req), ?k}"
      from bspec [OF sep [unfolded separate_issue_def] this]
      show "ms_sessions (ws_store s) k = None \<and> am_id am 0 \<noteq> k" by simp
    qed
    have "fst (CreateSession now (am_id am 0) req cfg (ws_store s)) = Inr (v, True)"
      using arg_cong [OF run, of fst] by (simp only: fst_conv)
    then have "bindS (on_store (CreateSession now (am_id am 0) req cfg)) f s = f (v, True) (s\<lparr>ws_store := ?st\<rparr>)"
      by (intro bindS_ok) (simp add: on_store_def split_beta)
    moreover have "outcome s Q (f (v, True) (s\<lparr>ws_store := ?st\<rparr>))"
      using flow_ok_store [OF s st] st(2) at by (intro cont) simp_all
    ultimately show ?thesis by (simp only:)
  next
    case (Some sid)
    have "store_ok (ws_store s)" using safe by (simp add: store_safe_def)
    from index_session [OF this Some] obtain v where v: "ms_sessions (ws_store s) sid = Some v" "ses_id v = sid"
      by blast
    with Some s cont [of s v False] show ?thesis
      by (simp add: bindS_def on_store_def CreateSession_def)
  qed
qed

lemma outcome_start_initial_plan:
  assumes "flow_ok s" and "grows (ws_store s0) (ws_store s)"
    and "ms_sessions (ws_store s) (ses_id v) = Some v" and "ms_tasks (ws_store s) (am_id am 1) = None"
  shows "outcome s0 (\<lambda>t s1. True) (start_initial_plan disp am req v s)"
  unfolding start_initial_plan_def using assms
  by (intro outcome_rules) (auto simp: anchored_def intro!: plan_job_ok)

lemma outcome_Analyze:
  assumes s: "flow_ok s" and fresh: "fresh_ids am s" and sep: "separate_issue am req s"
  shows "outcome s (\<lambda>t s1. True) (Analyze unmarshal disp am req s)"
proof -
  have created: "outcome s (\<lambda>t s1. True) (bindS (on_store (CreateSession (am_now am 0) (am_id am 0) req cfg)) (\<lambda>(session, created).
            if \<not> created then
              tryS (on_store (LatestTask (am_order am) (ses_id session))) (\<lambda>r.
                case r of
                  Inr task \<Rightarrow> retS (session, task)
                | Inl err \<Rightarrow>
                    if err \<noteq> ErrNotFound \<or> ses_status session \<noteq> SessionGenerating then failS err
                    else start_initial_plan disp am req session)
            else start_initial_plan disp am req session) s)" for cfg
  proof (rule outcome_CreateSession [OF s fresh sep])
    fix v created s1
    assume s1: "flow_ok s1" "grows (ws_store s) (ws_store s1)" "ms_sessions (ws_store s1) (ses_id v) = Some v"
      "ms_tasks (ws_store s1) = ms_tasks (ws_store s)"
    then have start: "outcome s (\<lambda>t s1. True) (start_initial_plan disp am req v s1)"
      using fresh_idsD(3) [OF fresh, of 1] by (intro outcome_start_initial_plan) simp_all
    have latest: "on_store (LatestTask (am_order am) (ses_id v)) s1 = (fst (LatestTask (am_order am) (ses_id v) (ws_store s1)), s1)"
      by (rule on_store_reader) simp
    show "outcome s (\<lambda>t s1. True) ((case (v, created) of (session, created) \<Rightarrow>
            if \<not> created then
              tryS (on_store (LatestTask (am_order am) (ses_id session))) (\<lambda>r.
                case r of
                  Inr task \<Rightarrow> retS (session, task)
                | Inl err \<Rightarrow>
                    if err \<noteq> ErrNotFound \<or> ses_status session \<noteq> SessionGenerating then failS err
                    else start_initial_plan disp am req session)
            else start_initial_plan disp am req session) s1)"
      using s1 start
      by (auto simp: tryS_def latest outcome_ret outcome_fail outcome_def split: sum.splits)
  qed
  show ?thesis
    using s created
    by (cases "ValidateAnalyze req"; cases "ParseAIConfig unmarshal (req_yaml_config req)")
      (simp_all add: Analyze_def outcome_def bindS_def)
qed

section \<open>Executions\<close>

text \<open>An execution that waits for the agent engine holds copies of its task and session.\<close>

definition flight_ok :: "memory_store \<Rightarrow> agent_job \<times> agent_task \<times> issue_session \<Rightarrow> bool" where
  "flight_ok st flight \<longleftrightarrow> (case flight of (job, t, v) \<Rightarrow>
     same_task st (task_id t) (task_session_id t) (task_type t) \<and> anchored st (task_session_id t) (task_type t))"

lemma flight_ok_grows: "grows st st' \<Longrightarrow> flight_ok st flight \<Longrightarrow> flight_ok st' flight"
  by (auto simp: flight_ok_def same_task_grows anchored_grows split: prod.splits)

lemma outcome_begin_task:
  assumes s: "flow_ok s"
  shows "outcome s (\<lambda>(t, v) s1. flight_ok (ws_store s1) (job, t, v)) (begin_task am job s)"
  unfolding begin_task_def
  by (intro outcome_rules s grows_refl)
    (auto simp: task_ok_def anchored_def session_ok_processing replaces_def same_task_def flight_ok_def)

lemma outcome_fail_with:
  assumes "flow_ok s"
  shows "outcome s (\<lambda>a s1. True) (fail_with am taskID err s)"
  unfolding fail_with_def
  by (rule outcome_try [where Q = "\<lambda>a s1. True"]) (use outcome_failTask [OF assms grows_refl] in \<open>auto simp: outcome_def\<close>)

lemma outcome_fail_with' [outcome_rules]: "flow_ok s \<Longrightarrow> outcome s (\<lambda>a s1. True) (fail_with am taskID err s)"
  by (rule outcome_fail_with)

lemma session_ok_new_plan:
  assumes "ValidatePlan p files = None"
  shows "session_ok (v\<lparr>ses_plan_markdown := p, ses_status := SessionPlanGenerated, ses_revision := n\<rparr>)"
    and "planned (v\<lparr>ses_plan_markdown := p, ses_status := SessionPlanGenerated, ses_revision := n\<rparr>)"
    and "planned (v\<lparr>ses_plan_markdown := p\<rparr>)"
  using ValidatePlan_well_formed [OF assms] by (simp_all add: session_ok_def planned_def status_defs)

lemma outcome_executePlanTask:
  assumes s: "flow_ok s" and flight: "flight_ok (ws_store s) (job, t, v)"
  shows "outcome s (\<lambda>a s1. True) (executePlanTask am reply t job s)"
proof (cases reply)
  case (Inl e)
  with s show ?thesis by (simp add: executePlanTask_def outcome_fail_with)
next
  case (Inr result)
  let ?files = "pr_repository_files (job_request job) @ map (\<lambda>relevant. file_at (rel_path relevant)) (pl_relevant_files result)"
  show ?thesis
  proof (cases "ValidatePlan (pl_plan_markdown result) ?files")
    case (Some e)
    with Inr s show ?thesis by (simp add: executePlanTask_def outcome_fail_with)
  next
    case None
    show ?thesis
      unfolding executePlanTask_def Inr sum.case Let_def None option.case
      by (intro outcome_UpdateTask outcome_Session outcome_UpdateSession outcome_ret s grows_refl)
        (use flight in \<open>auto simp: flight_ok_def task_ok_def replaces_def same_task_def
          session_ok_new_plan [OF None]\<close>)
  qed
qed

lemma session_ok_generated:
  "session_ok v \<Longrightarrow> planned v \<Longrightarrow> deliverable (gc_files c) \<Longrightarrow> valid_branch_name (gc_branch_name c) \<Longrightarrow>
     session_ok (v\<lparr>ses_generated_files := Some c, ses_status := SessionCodeGenerated\<rparr>)"
  by (simp add: session_ok_def planned_def)

lemma outcome_executeCodeGenerationTask:
  assumes s: "flow_ok s" and flight: "flight_ok (ws_store s) (job, t, v)" and ty: "task_type t = TaskCodeGeneration"
  shows "outcome s (\<lambda>a s1. True) (executeCodeGenerationTask am reply t v job s)"
proof (cases reply)
  case (Inl e)
  with s show ?thesis by (simp add: executeCodeGenerationTask_def outcome_fail_with)
next
  case (Inr result)
  show ?thesis
  proof (cases "deliverable_files (fr_files result) (cg_repository_files (code_request t v job))")
    case (Inl e)
    with Inr s show ?thesis by (simp add: executeCodeGenerationTask_def outcome_fail_with)
  next
    case files: (Inr files)
    note safe = deliverable_files_deliverable [OF files]
    have branch: "valid_branch_name (gc_branch_name (branchPRPayload v))"
      by (simp add: branchPRPayload_def Let_def normalizeGitFlameBranchName_valid)
    show ?thesis
      unfolding executeCodeGenerationTask_def Inr files sum.case Let_def
      by (intro outcome_UpdateTask outcome_Session outcome_UpdateSession outcome_ret s grows_refl)
        (use flight ty safe branch in \<open>auto simp: flight_ok_def task_ok_def replaces_def same_task_def
          anchored_def session_ok_generated\<close>)
  qed
qed

lemma outcome_finish_task:
  assumes "flow_ok s" and "flight_ok (ws_store s) (job, t, v)"
  shows "outcome s (\<lambda>a s1. True) (finish_task am gen job t v s)"
  using assms by (simp add: finish_task_def outcome_executeCodeGenerationTask outcome_executePlanTask)

end
