(* ===== verification/Workflow_System.thy ===== *)
theory Workflow_System imports Workflow_Safety begin

text \<open>
  The workflow as a concurrent system: requests of the API and executions of tasks interleave, an
  execution being two steps, before and after the call of the agent engine. The store's operations are
  atomic by its lock; the handlers between their store operations are taken as atomic here. That is more
  than the code ensures: a handler reads a session and writes it back as a whole, with no lock in between,
  so a write of another handler in the meantime is lost. What holds of all reachable states (by the
  invariant below) holds as far as handlers of one session do not overlap; what an overlap can do is
  stale_rejection_discards_work in Workflow_Properties.
\<close>

section \<open>Steps\<close>

record system =
  sys_flow :: workflow_state
  sys_running :: "(agent_job \<times> agent_task \<times> issue_session) list"

definition initial_flow :: workflow_state where
  "initial_flow = \<lparr>ws_store = NewMemoryStore, ws_published = [], ws_spawned = [], ws_executed = []\<rparr>"

definition initial_system :: system where
  "initial_system = \<lparr>sys_flow = initial_flow, sys_running = []\<rparr>"

definition after :: "system \<Rightarrow> 'a workflow_op \<Rightarrow> system" where
  "after y m = y\<lparr>sys_flow := snd (m (sys_flow y))\<rparr>"

text \<open>A redelivered job is one that was handed over, with any attempt number.\<close>

definition handed_over :: "system \<Rightarrow> agent_job \<Rightarrow> bool" where
  "handed_over y job \<longleftrightarrow>
     (\<exists>j \<in> set (ws_published (sys_flow y)) \<union> set (ws_spawned (sys_flow y)). \<exists>n. job = j\<lparr>job_attempt := n\<rparr>)"

inductive sys_step :: "system \<Rightarrow> system \<Rightarrow> bool" where
  analyze: "fresh_ids am (sys_flow y) \<Longrightarrow> separate_issue am req (sys_flow y) \<Longrightarrow>
    sys_step y (after y (Analyze unmarshal disp am req))"
| correct: "fresh_ids am (sys_flow y) \<Longrightarrow> sys_step y (after y (Correct disp am issueID feedback))"
| retry: "fresh_ids am (sys_flow y) \<Longrightarrow> sys_step y (after y (Retry disp am taskID))"
| approve: "fresh_ids am (sys_flow y) \<Longrightarrow> sys_step y (after y (Approve disp am issueID edited))"
| reject: "sys_step y (after y (Reject am issueID))"
| begin_execution: "handed_over y job \<Longrightarrow> begin_task am job (sys_flow y) = (Inr (t, v), s') \<Longrightarrow>
    sys_step y (y\<lparr>sys_flow := s', sys_running := sys_running y @ [(job, t, v)]\<rparr>)"
| begin_failed: "handed_over y job \<Longrightarrow> begin_task am job (sys_flow y) = (Inl e, s') \<Longrightarrow>
    sys_step y (y\<lparr>sys_flow := s'\<rparr>)"
| finish_execution: "(job, t, v) \<in> set (sys_running y) \<Longrightarrow>
    sys_step y (y\<lparr>sys_flow := snd (finish_task am gen job t v (sys_flow y)),
      sys_running := remove1 (job, t, v) (sys_running y)\<rparr>)"
| requeue: "handed_over y job \<Longrightarrow> sys_step y (after y (bindS (RetryTask am job) (\<lambda>_. accept_job job)))"

inductive_cases sys_stepE: "sys_step y y'"

definition reachable :: "system \<Rightarrow> bool" where
  "reachable y \<longleftrightarrow> sys_step\<^sup>*\<^sup>* initial_system y"

section \<open>The invariant of the system\<close>

definition system_ok :: "system \<Rightarrow> bool" where
  "system_ok y \<longleftrightarrow> flow_ok (sys_flow y) \<and> (\<forall>f \<in> set (sys_running y). flight_ok (ws_store (sys_flow y)) f)"

lemma job_ok_attempt [simp]: "job_ok st (job\<lparr>job_attempt := n\<rparr>) = job_ok st job"
  by (simp add: job_ok_def)

lemma handed_over_ok: "handed_over y job \<Longrightarrow> flow_ok (sys_flow y) \<Longrightarrow> job_ok (ws_store (sys_flow y)) job"
  by (auto simp: handed_over_def flow_ok_def)

lemma after_ok:
  assumes "system_ok y" and "outcome (sys_flow y) Q (m (sys_flow y))"
  shows "system_ok (after y m) \<and> grows (ws_store (sys_flow y)) (ws_store (sys_flow (after y m)))"
  using assms flight_ok_grows by (auto simp: system_ok_def after_def outcome_def)

lemma sys_step_ok:
  assumes "sys_step y y'" and ok: "system_ok y"
  shows "system_ok y' \<and> grows (ws_store (sys_flow y)) (ws_store (sys_flow y'))"
proof -
  have flow: "flow_ok (sys_flow y)" using ok by (simp add: system_ok_def)
  note kept = after_ok [where Q = "\<lambda>a s. True", OF ok]
  from assms(1) show ?thesis
  proof (cases rule: sys_step.cases)
    case (analyze am req unmarshal disp)
    then show ?thesis by (simp add: kept outcome_Analyze flow)
  next
    case (correct am disp issueID feedback)
    then show ?thesis by (simp add: kept outcome_Correct flow)
  next
    case (retry am disp taskID)
    then show ?thesis by (simp add: kept outcome_Retry flow)
  next
    case (approve am disp issueID edited)
    then show ?thesis by (simp add: kept outcome_Approve flow)
  next
    case (reject am issueID)
    then show ?thesis by (simp add: kept outcome_Reject flow)
  next
    case (begin_execution job am t v s')
    have "outcome (sys_flow y) (\<lambda>(t, v) s1. flight_ok (ws_store s1) (job, t, v)) (Inr (t, v), s')"
      using outcome_begin_task [OF flow, of job am] begin_execution(3) by simp
    with begin_execution(1) ok show ?thesis
      using flight_ok_grows by (auto simp: system_ok_def outcome_def)
  next
    case (begin_failed job am e s')
    have "outcome (sys_flow y) (\<lambda>(t, v) s1. flight_ok (ws_store s1) (job, t, v)) (Inl e, s')"
      using outcome_begin_task [OF flow, of job am] begin_failed(3) by simp
    with begin_failed(1) ok show ?thesis
      using flight_ok_grows by (auto simp: system_ok_def outcome_def)
  next
    case (finish_execution job t v am gen)
    then have "flight_ok (ws_store (sys_flow y)) (job, t, v)" using ok by (simp add: system_ok_def)
    moreover have "set (remove1 (job, t, v) (sys_running y)) \<subseteq> set (sys_running y)"
      by (rule set_remove1_subset)
    ultimately show ?thesis
      using outcome_finish_task [OF flow, of job t v am gen] finish_execution(1) ok flight_ok_grows
      unfolding system_ok_def outcome_def by (auto 0 3)
  next
    case (requeue job am)
    have job: "job_ok (ws_store (sys_flow y)) job" using handed_over_ok [OF requeue(2) flow] .
    have "outcome (sys_flow y) (\<lambda>a s1. True) (bindS (RetryTask am job) (\<lambda>_. accept_job job) (sys_flow y))"
    proof (rule outcome_bind [where Q = "\<lambda>a s1. True"])
      show "outcome (sys_flow y) (\<lambda>a s1. True) (RetryTask am job (sys_flow y))"
        by (rule outcome_RetryTask [OF flow])
      fix s1 assume "flow_ok s1" "grows (ws_store (sys_flow y)) (ws_store s1)"
      then show "outcome (sys_flow y) (\<lambda>a s1. True) (accept_job job s1)"
        using job_ok_grows [OF _ job] by (auto simp: accept_job_def outcome_def flow_ok_def)
    qed
    then show ?thesis using kept [of "bindS (RetryTask am job) (\<lambda>_. accept_job job)"] requeue(1) by simp
  qed
qed

lemma initial_ok: "system_ok initial_system"
  by (simp add: system_ok_def flow_ok_def store_safe_def initial_system_def initial_flow_def store_ok_new)
    (simp add: NewMemoryStore_def index_ok_def)

lemma reachable_system_ok: "reachable y \<Longrightarrow> system_ok y"
  unfolding reachable_def
  by (induction rule: rtranclp_induct) (auto simp: initial_ok dest: sys_step_ok)

lemma reachable_next: "reachable y \<Longrightarrow> sys_step y y' \<Longrightarrow> reachable y'"
  unfolding reachable_def by (rule rtranclp.rtrancl_into_rtrancl)

end
