(* ===== verification/Sample_Run.thy ===== *)
theory Sample_Run imports Workflow_System begin

text \<open>
  A complete run of the workflow on a small issue, from its analysis to the delivered code: every step is
  computed from the model's definitions. It shows that the states which the safety properties speak of are
  reachable, and serves them as witness.
\<close>

section \<open>Inputs\<close>


lemma UpdateSession_indexed:
  assumes "ms_issueIndex st (issue_of v) = Some (ses_id v)" and "ms_issueIndex st (session_key_of v) = Some (ses_id v)"
  shows "UpdateSession now v st =
    (Inr (v\<lparr>ses_updated_at := now\<rparr>), st\<lparr>ms_sessions := (ms_sessions st)(ses_id v \<mapsto> v\<lparr>ses_updated_at := now\<rparr>)\<rparr>)"
proof -
  have "(ms_issueIndex st)(issue_of v \<mapsto> ses_id v, session_key_of v \<mapsto> ses_id v) = ms_issueIndex st"
    using assms by (simp add: fun_upd_idem)
  then show ?thesis by (simp add: UpdateSession_def Let_def issue_of_def session_key_of_def)
qed

definition sample_plan :: string where
  "sample_plan = join_with [newline] [''# Implementation Plan'', ''## Issue Summary'', ''a'', ''## Goal'', ''b'',
     ''## Relevant Files'', ''- '' @ [backquote] @ ''m.go'' @ [backquote] @ '': x'', ''## Proposed Changes'', ''c'',
     ''## Implementation Steps'', ''1. d'', ''## Expected Files to Change'',
     ''- '' @ [backquote] @ ''n.go'' @ [backquote] @ '' (create): y'', ''## Tests and Verification'', ''e'',
     ''## Risks and Open Questions'', ''f'']"

definition sample_file :: repository_file where
  "sample_file = \<lparr>rf_path = ''m.go'', rf_content = ''x'', rf_type = []\<rparr>"

lemma sample_plan_valid: "ValidatePlan sample_plan [sample_file] = None"
  by code_simp

definition sample_ambient :: "string \<Rightarrow> ambient" where
  "sample_ambient x = \<lparr>am_now = (\<lambda>i. 10), am_id = (\<lambda>i. x), am_order = [], am_publish = (\<lambda>j. None)\<rparr>"

definition sample_generator :: generator where
  "sample_generator = \<lparr>
     gen_plan = (\<lambda>r. Inr \<lparr>pl_request_id = pr_request_id r, pl_status = TaskCompleted,
       pl_plan_markdown = sample_plan, pl_relevant_files = [], pl_model = ''m'', pl_usage = no_usage\<rparr>),
     gen_files = (\<lambda>r. Inr \<lparr>fr_request_id = cg_request_id r, fr_status = TaskCompleted, fr_summary = ''s'',
       fr_files = [sample_op\<lparr>gf_path := ''m.go''\<rparr>], fr_model = ''m'', fr_usage = no_usage\<rparr>)\<rparr>"

definition sample_issue :: issue_analyze_request where
  "sample_issue = sample_request\<lparr>req_yaml_config := ''version: 1'', req_repository_files := [sample_file]\<rparr>"

definition sample_parsed :: ai_config where
  "sample_parsed = sum.projr (ParseAIConfig sample_unmarshal ''version: 1'')"

lemma sample_parsed: "ParseAIConfig sample_unmarshal ''version: 1'' = Inr sample_parsed"
proof -
  have "case ParseAIConfig sample_unmarshal ''version: 1'' of Inl e \<Rightarrow> False | Inr c \<Rightarrow> True" by code_simp
  then show ?thesis by (auto simp: sample_parsed_def split: sum.splits)
qed

lemma sample_issue_valid: "ValidateAnalyze sample_issue = None"
  by code_simp

definition session1 :: issue_session where
  "session1 = \<lparr>ses_id = ''a'', ses_status = SessionGenerating, ses_plan_markdown = [], ses_request = sample_issue,
     ses_config = sample_parsed, ses_revision = 0, ses_feedback_history = [], ses_generated_files = None,
     ses_created_at = 10, ses_updated_at = 10\<rparr>"

definition task1 :: agent_task where
  "task1 = \<lparr>task_id = ''a'', task_session_id = ''a'', task_issue_id = ''42'', task_type = TaskInitialPlan,
     task_status = TaskQueued, task_generated_plan_id = [], task_attempt = 1, task_plan_markdown = [],
     task_err = None, task_tool_execution_summary = [], task_relevant_files = [], task_model = [],
     task_usage = no_usage, task_created_at = 10, task_updated_at = 10\<rparr>"

definition job1 :: agent_job where
  "job1 = plan_job task1 session1 1 (agentRequest ''a'' session1 None None)"

definition sample_index :: "string \<rightharpoonup> string" where
  "sample_index = [''42'' \<mapsto> ''a'', sessionKey ''r'' ''42'' \<mapsto> ''a'']"

definition sample_flow :: "issue_session \<Rightarrow> (string \<rightharpoonup> agent_task) \<Rightarrow> agent_job list \<Rightarrow> workflow_state" where
  "sample_flow v ts jobs = \<lparr>ws_store = NewMemoryStore\<lparr>ms_sessions := [''a'' \<mapsto> v],
     ms_issueIndex := sample_index, ms_tasks := ts\<rparr>, ws_published = jobs, ws_spawned = [], ws_executed = []\<rparr>"

lemma sample_names: "issue_id (req_issue sample_issue) = ''42''" "repo_id (req_repository sample_issue) = ''r''"
  "req_yaml_config sample_issue = ''version: 1''" "req_repository_files sample_issue = [sample_file]"
  by (simp_all add: sample_issue_def sample_request_def)

lemma sample_index: "sample_index ''42'' = Some ''a''" "sample_index (sessionKey ''r'' ''42'') = Some ''a''"
  "sample_index ''a'' = None"
  by (simp_all add: sample_index_def sessionKey_def)

lemma sample_analyze:
  "Analyze sample_unmarshal QueueDispatcher (sample_ambient ''a'') sample_issue initial_flow =
     (Inr (session1, task1), sample_flow session1 [''a'' \<mapsto> task1] [job1])"
  by (simp add: Analyze_def sample_issue_valid sample_names sample_parsed bindS_def on_store_def CreateSession_def
      initial_flow_def NewMemoryStore_def sample_ambient_def start_initial_plan_def CreateTask_def Let_def
      dispatch_def accept_job_def sample_flow_def session1_def task1_def job1_def sample_index_def)

definition session2 :: issue_session where
  "session2 = session1\<lparr>ses_status := SessionProcessing\<rparr>"
definition task2 :: agent_task where
  "task2 = task1\<lparr>task_status := TaskProcessing\<rparr>"

lemma sample_begin:
  "begin_task (sample_ambient ''z'') job1 (sample_flow session1 [''a'' \<mapsto> task1] [job1]) =
     (Inr (task2, session2), sample_flow session2 [''a'' \<mapsto> task2] [job1])"
  by (simp add: begin_task_def bindS_def on_store_def Task_def UpdateTask_def Session_def UpdateSession_indexed
      sample_flow_def job1_def plan_job_def sample_index sample_names Let_def issue_of_def session_key_of_def
      session1_def task1_def session2_def task2_def sample_ambient_def processingStatusForTask_def)

definition session3 :: issue_session where
  "session3 = session2\<lparr>ses_plan_markdown := sample_plan, ses_status := SessionPlanGenerated, ses_revision := 1\<rparr>"

definition task3 :: agent_task where
  "task3 = task2\<lparr>task_status := TaskCompleted, task_plan_markdown := sample_plan, task_model := ''m'',
     task_tool_execution_summary := ''model=m; tool_calls=0'' @ usage_summary no_usage\<rparr>"

lemma sample_no_tool_calls: "int_text (us_tool_calls no_usage) = ''0''"
  by code_simp

lemma sample_finish_plan:
  "finish_task (sample_ambient ''z'') sample_generator job1 task2 session2
     (sample_flow session2 [''a'' \<mapsto> task2] [job1]) = (Inr (), sample_flow session3 [''a'' \<mapsto> task3] [job1])"
proof -
  have files: "pr_repository_files (job_request job1) = [sample_file]"
    by (simp add: job1_def plan_job_def agentRequest_def repositoryFilesForSession_def session1_def sample_names)
  have ty: "task_type task2 \<noteq> TaskCodeGeneration" by (simp add: task2_def task1_def)
  show ?thesis
    using sample_plan_valid files
    by (simp add: finish_task_def ty executePlanTask_def sample_generator_def bindS_def on_store_def UpdateTask_def
        Session_def UpdateSession_indexed sample_flow_def sample_index sample_names Let_def issue_of_def
        session_key_of_def session1_def task1_def session2_def task2_def session3_def task3_def
        sample_ambient_def sample_no_tool_calls no_usage_def [symmetric])
qed

definition session4 :: issue_session where
  "session4 = session3\<lparr>ses_generated_files := Some (branchPRPayload session3), ses_status := SessionCodeGenerationQueued\<rparr>"

definition task4 :: agent_task where
  "task4 = task1\<lparr>task_id := ''b'', task_type := TaskCodeGeneration\<rparr>"

definition job2 :: agent_job where
  "job2 = \<lparr>job_task_id = ''b'', job_session_id = ''a'', job_type = TaskCodeGeneration, job_attempt = 1,
     job_request = no_plan_request, job_code_generation_request = codeGenerationRequest ''b'' session4\<rparr>"

lemma sample_approve:
  "Approve QueueDispatcher (sample_ambient ''b'') ''42'' None (sample_flow session3 [''a'' \<mapsto> task3] [job1]) =
     (Inr (session4, task4), sample_flow session4 [''a'' \<mapsto> task3, ''b'' \<mapsto> task4] [job1, job2])"
  by (simp add: Approve_def approve_edit_def bindS_def on_store_def Session_def UpdateSession_indexed CreateTask_def
      dispatch_def accept_job_def sample_flow_def sample_index sample_names Let_def issue_of_def
      session_key_of_def session1_def task1_def session2_def session3_def session4_def task4_def job2_def
      sample_ambient_def)

definition session5 :: issue_session where
  "session5 = session4\<lparr>ses_status := SessionCodeGenerationProcessing\<rparr>"

definition task5 :: agent_task where
  "task5 = task4\<lparr>task_status := TaskProcessing\<rparr>"

lemma sample_begin_code:
  "begin_task (sample_ambient ''z'') job2 (sample_flow session4 [''a'' \<mapsto> task3, ''b'' \<mapsto> task4] [job1, job2]) =
     (Inr (task5, session5), sample_flow session5 [''a'' \<mapsto> task3, ''b'' \<mapsto> task5] [job1, job2])"
  by (simp add: begin_task_def bindS_def on_store_def Task_def UpdateTask_def Session_def UpdateSession_indexed
      sample_flow_def job2_def sample_index sample_names Let_def issue_of_def session_key_of_def
      session1_def task1_def session2_def session3_def session4_def session5_def task4_def task5_def
      sample_ambient_def processingStatusForTask_def)

definition sample_files :: "generated_file_operation list" where
  "sample_files = [sample_op\<lparr>gf_path := ''m.go'', gf_status := ''valid''\<rparr>]"

lemma sample_deliverable: "deliverable_files [sample_op\<lparr>gf_path := ''m.go''\<rparr>] [sample_file] = Inr sample_files"
  by code_simp

definition session6 :: issue_session where
  "session6 = session5\<lparr>ses_generated_files := Some ((branchPRPayload session5)\<lparr>gc_request_id := ''b'',
     gc_task_id := ''b'', gc_summary := ''s'', gc_files := sample_files\<rparr>), ses_status := SessionCodeGenerated\<rparr>"

definition task6 :: agent_task where
  "task6 = task5\<lparr>task_status := TaskCompleted, task_model := ''m'',
     task_tool_execution_summary := ''model=m; file_operations=1'' @ usage_summary no_usage\<rparr>"

lemma sample_one_operation: "int_text (go_len sample_files) = ''1''"
  by code_simp

lemma sample_finish_code:
  "finish_task (sample_ambient ''z'') sample_generator job2 task5 session5
     (sample_flow session5 [''a'' \<mapsto> task3, ''b'' \<mapsto> task5] [job1, job2]) =
   (Inr (), sample_flow session6 [''a'' \<mapsto> task3, ''b'' \<mapsto> task6] [job1, job2])"
proof -
  have request: "code_request task5 session5 job2 = codeGenerationRequest ''b'' session4"
    by (simp add: code_request_def job2_def codeGenerationRequest_def)
  have files: "cg_repository_files (codeGenerationRequest ''b'' session4) = [sample_file]"
    by (simp add: codeGenerationRequest_def repositoryFilesForSession_def session4_def session3_def session2_def
        session1_def sample_names)
  have id: "cg_request_id (codeGenerationRequest ''b'' session4) = ''b''"
    by (simp add: codeGenerationRequest_def)
  have ty: "task_type task5 = TaskCodeGeneration" by (simp add: task5_def task4_def)
  have gen: "gen_files sample_generator (codeGenerationRequest ''b'' session4) =
      Inr \<lparr>fr_request_id = ''b'', fr_status = TaskCompleted, fr_summary = ''s'',
        fr_files = [sample_op\<lparr>gf_path := ''m.go''\<rparr>], fr_model = ''m'', fr_usage = no_usage\<rparr>"
    by (simp add: sample_generator_def id)
  show ?thesis
    unfolding finish_task_def if_P [OF ty] request gen executeCodeGenerationTask_def sum.case files
      agent_generated_files_response.select_convs sample_deliverable Let_def
    by (simp add: bindS_def
        on_store_def UpdateTask_def Session_def UpdateSession_indexed sample_flow_def sample_index sample_names
        Let_def issue_of_def session_key_of_def session1_def task1_def session2_def session3_def session4_def
        session5_def session6_def task4_def task5_def task6_def sample_ambient_def sample_one_operation)
qed

section \<open>The run\<close>

definition sys1 :: system where
  "sys1 = \<lparr>sys_flow = sample_flow session1 [''a'' \<mapsto> task1] [job1], sys_running = []\<rparr>"
definition sys2 :: system where
  "sys2 = \<lparr>sys_flow = sample_flow session2 [''a'' \<mapsto> task2] [job1], sys_running = [(job1, task2, session2)]\<rparr>"
definition sys3 :: system where
  "sys3 = \<lparr>sys_flow = sample_flow session3 [''a'' \<mapsto> task3] [job1], sys_running = []\<rparr>"
definition sys4 :: system where
  "sys4 = \<lparr>sys_flow = sample_flow session4 [''a'' \<mapsto> task3, ''b'' \<mapsto> task4] [job1, job2], sys_running = []\<rparr>"
definition sys5 :: system where
  "sys5 = \<lparr>sys_flow = sample_flow session5 [''a'' \<mapsto> task3, ''b'' \<mapsto> task5] [job1, job2],
     sys_running = [(job2, task5, session5)]\<rparr>"
definition sys6 :: system where
  "sys6 = \<lparr>sys_flow = sample_flow session6 [''a'' \<mapsto> task3, ''b'' \<mapsto> task6] [job1, job2], sys_running = []\<rparr>"

lemma job_same_attempt: "\<exists>n. job = job\<lparr>job_attempt := n\<rparr>"
  by (rule exI [of _ "job_attempt job"]) simp

lemma sys1_reachable: "reachable sys1"
proof (rule reachable_next)
  show "reachable initial_system" by (simp add: reachable_def)
  have "sys_step initial_system (after initial_system (Analyze sample_unmarshal QueueDispatcher (sample_ambient ''a'') sample_issue))"
    by (rule analyze) (simp_all add: fresh_ids_def separate_issue_def initial_system_def initial_flow_def
        NewMemoryStore_def sample_ambient_def sample_names sessionKey_def)
  then show "sys_step initial_system sys1"
    by (simp add: after_def initial_system_def sample_analyze sys1_def)
qed

lemma sys2_step: "sys_step sys1 sys2"
proof -
  have "handed_over sys1 job1" using job_same_attempt by (auto simp: handed_over_def sys1_def sample_flow_def)
  then have "sys_step sys1 (sys1\<lparr>sys_flow := sample_flow session2 [''a'' \<mapsto> task2] [job1],
      sys_running := sys_running sys1 @ [(job1, task2, session2)]\<rparr>)"
    by (rule begin_execution [where am = "sample_ambient ''z''"]) (simp add: sys1_def sample_begin)
  then show ?thesis by (simp add: sys1_def sys2_def)
qed

lemma sys2_reachable: "reachable sys2"
  by (rule reachable_next [OF sys1_reachable sys2_step])

lemma sys3_step: "sys_step sys2 sys3"
proof -
  have "(job1, task2, session2) \<in> set (sys_running sys2)" by (simp add: sys2_def)
  from finish_execution [OF this, of "sample_ambient ''z''" sample_generator]
  show ?thesis by (simp add: sys2_def sample_finish_plan sys3_def)
qed

lemma sys3_reachable: "reachable sys3"
  by (rule reachable_next [OF sys2_reachable sys3_step])

lemma sys4_step: "sys_step sys3 sys4"
proof -
  have "fresh_ids (sample_ambient ''b'') (sys_flow sys3)"
    by (simp add: fresh_ids_def sys3_def sample_flow_def sample_ambient_def sample_index_def sessionKey_def)
  from approve [OF this, of QueueDispatcher "''42''" None]
  show ?thesis by (simp add: after_def sys3_def sample_approve sys4_def)
qed

lemma sys4_reachable: "reachable sys4"
  by (rule reachable_next [OF sys3_reachable sys4_step])

lemma sys5_step: "sys_step sys4 sys5"
proof -
  have "handed_over sys4 job2" using job_same_attempt by (auto simp: handed_over_def sys4_def sample_flow_def)
  then have "sys_step sys4 (sys4\<lparr>sys_flow := sample_flow session5 [''a'' \<mapsto> task3, ''b'' \<mapsto> task5] [job1, job2],
      sys_running := sys_running sys4 @ [(job2, task5, session5)]\<rparr>)"
    by (rule begin_execution [where am = "sample_ambient ''z''"]) (simp add: sys4_def sample_begin_code)
  then show ?thesis by (simp add: sys4_def sys5_def)
qed

lemma sys5_reachable: "reachable sys5"
  by (rule reachable_next [OF sys4_reachable sys5_step])

lemma sys6_step: "sys_step sys5 sys6"
proof -
  have "(job2, task5, session5) \<in> set (sys_running sys5)" by (simp add: sys5_def)
  from finish_execution [OF this, of "sample_ambient ''z''" sample_generator]
  show ?thesis by (simp add: sys5_def sample_finish_code sys6_def)
qed

lemma sys6_reachable: "reachable sys6"
  by (rule reachable_next [OF sys5_reachable sys6_step])

end
