(* ===== verification/Workflow_Properties.thy ===== *)
theory Workflow_Properties imports Sample_Run begin

text \<open>
  What the workflow guarantees in every reachable state, the effect of its operations on failures, and
  the races that the handlers leave open.
\<close>

section \<open>Reachable states\<close>

lemma reachable_session:
  assumes "reachable y" and "ms_sessions (ws_store (sys_flow y)) k = Some v"
  shows "session_ok v"
  using reachable_system_ok [OF assms(1)] store_safe_sessions(1) [OF _ assms(2)]
  by (simp add: system_ok_def flow_ok_def)







text \<open>In every reachable state a failed task records its error, and each task belongs to a stored session.\<close>

theorem failed_tasks_have_errors:
  assumes "reachable y" and "ms_tasks (ws_store (sys_flow y)) k = Some t"
  shows "task_id t = k \<and> ms_sessions (ws_store (sys_flow y)) (task_session_id t) \<noteq> None \<and>
    (task_status t = TaskFailed \<longrightarrow> task_err t \<noteq> None)"
proof -
  have "store_safe (ws_store (sys_flow y))"
    using reachable_system_ok [OF assms(1)] by (simp add: system_ok_def flow_ok_def)
  from store_safe_tasks [OF this assms(2)] show ?thesis by (auto simp: task_ok_def anchored_def)
qed

section \<open>Failures and counts\<close>

definition refusing_ambient :: ambient where
  "refusing_ambient = (sample_ambient ''a'')\<lparr>am_publish := (\<lambda>j. Some ErrQueueFull)\<rparr>"

definition refused_system :: system where
  "refused_system = after initial_system (Analyze sample_unmarshal QueueDispatcher refusing_ambient sample_issue)"

lemma refused_reachable: "reachable refused_system"
proof (rule reachable_next)
  show "reachable initial_system" by (simp add: reachable_def)
  show "sys_step initial_system refused_system"
    unfolding refused_system_def
    by (rule analyze) (simp_all add: fresh_ids_def separate_issue_def initial_system_def initial_flow_def
        NewMemoryStore_def refusing_ambient_def sample_ambient_def sample_names sessionKey_def)
qed

lemma failed_tasks_have_errors_witness:
  "(case ms_tasks (ws_store (sys_flow refused_system)) ''a'' of
      None \<Rightarrow> False | Some t \<Rightarrow> task_status t = TaskFailed \<and> task_err t \<noteq> None)"
proof -
  obtain t where t: "ms_tasks (ws_store (sys_flow refused_system)) ''a'' = Some t" "task_status t = TaskFailed"
    by (simp add: refused_system_def after_def initial_system_def Analyze_def sample_issue_valid sample_names
        sample_parsed bindS_def on_store_def CreateSession_def initial_flow_def NewMemoryStore_def
        refusing_ambient_def sample_ambient_def start_initial_plan_def CreateTask_def Let_def dispatch_def
        plan_job_def failTask_def tryS_def Task_def UpdateTask_def Session_def UpdateSession_def
        sessionKey_def)
  with failed_tasks_have_errors [OF refused_reachable t(1)] show ?thesis by simp
qed

text \<open>When the broker refuses a job, the caller gets a dispatch error, nothing is published, and the task
  and its session are marked failed with the broker's error, whatever their state was.\<close>

theorem refused_job_is_recorded:
  assumes "am_publish am job = Some err" and "ms_tasks (ws_store s) (job_task_id job) = Some t"
    and "Session (task_session_id t) (ws_store s) = (Inr v, ws_store s)" and "task_id t = job_task_id job"
  shows "\<exists>s'. dispatch QueueDispatcher am job s = (Inl (ErrDispatch (error_text err)), s') \<and>
    ws_published s' = ws_published s \<and>
    ms_tasks (ws_store s') (job_task_id job) =
      Some (t\<lparr>task_status := TaskFailed, task_err := Some (toTaskError err), task_updated_at := am_now am 8\<rparr>) \<and>
    ms_sessions (ws_store s') (ses_id v) = Some (v\<lparr>ses_status := SessionFailed, ses_updated_at := am_now am 9\<rparr>)"
proof -
  let ?t = "t\<lparr>task_status := TaskFailed, task_err := Some (toTaskError err)\<rparr>"
  have "Session (task_session_id t) (snd (UpdateTask (am_now am 8) ?t (ws_store s))) =
      (Inr v, snd (UpdateTask (am_now am 8) ?t (ws_store s)))"
    using assms(3) by (auto simp: Session_def UpdateTask_def Let_def split: option.splits)
  then show ?thesis
    using assms(1,2,4)
    by (simp add: dispatch_def failTask_def tryS_def bindS_def on_store_def Task_def UpdateTask_def
        UpdateSession_def Let_def)
qed

lemma refused_job_is_recorded_witness:
  "\<exists>s'. dispatch QueueDispatcher refusing_ambient job1 (sys_flow sys1) =
      (Inl (ErrDispatch ''agent task queue is full''), s') \<and> ws_published s' = [job1]"
proof -
  have "am_publish refusing_ambient job1 = Some ErrQueueFull" by (simp add: refusing_ambient_def)
  moreover have "ms_tasks (ws_store (sys_flow sys1)) (job_task_id job1) = Some task1"
      "Session (task_session_id task1) (ws_store (sys_flow sys1)) = (Inr session1, ws_store (sys_flow sys1))"
      "task_id task1 = job_task_id job1" "ws_published (sys_flow sys1) = [job1]"
    by (simp_all add: sys1_def sample_flow_def job1_def plan_job_def task1_def Session_def sample_index)
  ultimately show ?thesis
    using refused_job_is_recorded [of refusing_ambient job1 ErrQueueFull "sys_flow sys1" task1 session1] by auto
qed

text \<open>Executing a task adds one entry to the metric of executed tasks and publishes nothing.\<close>

lemma on_store_frame [simp]:
  "ws_executed (snd (on_store m s)) = ws_executed s" "ws_published (snd (on_store m s)) = ws_published s"
  "ws_spawned (snd (on_store m s)) = ws_spawned s"
  by (simp_all add: on_store_def split: prod.splits)

definition only_store :: "'a workflow_op \<Rightarrow> bool" where
  "only_store m \<longleftrightarrow> (\<forall>s. ws_executed (snd (m s)) = ws_executed s \<and> ws_published (snd (m s)) = ws_published s \<and>
     ws_spawned (snd (m s)) = ws_spawned s)"

lemma only_store_bind: "only_store m \<Longrightarrow> (\<And>a. only_store (f a)) \<Longrightarrow> only_store (bindS m f)"
  unfolding only_store_def bindS_def
  by (metis (mono_tags, lifting) old.prod.case prod.collapse sum.case_eq_if snd_conv)

lemma only_store_try: "only_store m \<Longrightarrow> (\<And>a. only_store (f a)) \<Longrightarrow> only_store (tryS m f)"
  unfolding only_store_def tryS_def by (metis (mono_tags, lifting) old.prod.case prod.collapse)

lemma only_store_basic: "only_store (on_store m)" "only_store (retS a)" "only_store (failS e)"
  by (simp_all add: only_store_def)

lemma only_store_case: "(\<And>e. only_store (f e)) \<Longrightarrow> (\<And>a. only_store (g a)) \<Longrightarrow>
    only_store (case r of Inl e \<Rightarrow> f e | Inr a \<Rightarrow> g a)"
  by (cases r) auto

lemma only_store_option: "only_store m \<Longrightarrow> (\<And>a. only_store (g a)) \<Longrightarrow>
    only_store (case r of None \<Rightarrow> m | Some a \<Rightarrow> g a)"
  by (cases r) auto

lemmas only_store_rules = only_store_bind only_store_try only_store_basic only_store_case only_store_option

lemma only_store_fail_with: "only_store (fail_with am k e)"
  unfolding fail_with_def failTask_def by (intro only_store_rules)

lemma only_store_begin: "only_store (begin_task am job)"
  unfolding begin_task_def by (intro only_store_rules)

lemma only_store_finish: "only_store (finish_task am gen job t v)"
  unfolding finish_task_def executePlanTask_def executeCodeGenerationTask_def Let_def
  by (auto intro!: only_store_rules only_store_fail_with)

text \<open>Every execution is counted once, under the type of its job (or \<open>unknown\<close>) and the outcome that the
  caller sees; executing publishes and spawns nothing.\<close>

theorem execution_counted_once:
  "case ExecuteTask am (Some gen) job s of (r, s') \<Rightarrow>
     ws_executed s' = ws_executed s @ [(if job_type job = [] then ''unknown'' else job_type job,
       if isl r then ''failure'' else ''success'')] \<and>
     ws_published s' = ws_published s \<and> ws_spawned s' = ws_spawned s"
proof -
  let ?m = "bindS (begin_task am job) (\<lambda>(t, v). finish_task am gen job t v)"
  have "only_store ?m"
    by (intro only_store_bind only_store_begin) (auto intro: only_store_finish)
  then have frame: "ws_executed (snd (?m s)) = ws_executed s" "ws_published (snd (?m s)) = ws_published s"
      "ws_spawned (snd (?m s)) = ws_spawned s"
    by (simp_all add: only_store_def)
  obtain r s1 where run: "?m s = (r, s1)" by (cases "?m s")
  show ?thesis
    using frame unfolding ExecuteTask_def option.case count_execution_def tryS_def run
    by (cases r) simp_all
qed

section \<open>Races and repeated requests\<close>

definition rejected_system :: system where
  "rejected_system = after sys2 (Reject (sample_ambient ''z'') ''42'')"

lemma rejected_system_eq:
  "rejected_system = sys2\<lparr>sys_flow := sample_flow (session2\<lparr>ses_status := SessionRejected\<rparr>) [''a'' \<mapsto> task2] [job1]\<rparr>"
  by (simp add: rejected_system_def after_def sys2_def Reject_def bindS_def on_store_def Session_def
      UpdateSession_indexed sample_flow_def sample_index sample_names issue_of_def session_key_of_def
      session2_def session1_def sample_ambient_def status_defs)

text \<open>A rejection can be lost: from a reachable state in which the user has rejected a session, the plan task
  that was in flight finishes and makes the session \<open>plan_generated\<close> again, open for approval.\<close>

theorem rejection_can_be_lost:
  "\<exists>y y' v w. reachable y \<and> sys_step y y' \<and> ms_sessions (ws_store (sys_flow y)) ''a'' = Some v \<and>
     ses_status v = SessionRejected \<and> ms_sessions (ws_store (sys_flow y')) ''a'' = Some w \<and>
     ses_status w = SessionPlanGenerated"
proof -
  have reach: "reachable rejected_system"
    unfolding rejected_system_def by (rule reachable_next [OF sys2_reachable reject])
  have "(job1, task2, session2) \<in> set (sys_running rejected_system)"
    by (simp add: rejected_system_eq sys2_def)
  note step = finish_execution [OF this, of "sample_ambient ''z''" sample_generator]
  have files: "pr_repository_files (job_request job1) = [sample_file]"
    by (simp add: job1_def plan_job_def agentRequest_def repositoryFilesForSession_def session1_def sample_names)
  have "task_type task2 \<noteq> TaskCodeGeneration" by (simp add: task2_def task1_def)
  then have "\<exists>w. ms_sessions (ws_store (snd (finish_task (sample_ambient ''z'') sample_generator job1 task2 session2
      (sys_flow rejected_system)))) ''a'' = Some w \<and> ses_status w = SessionPlanGenerated"
    using sample_plan_valid files
    by (simp add: finish_task_def executePlanTask_def sample_generator_def bindS_def on_store_def UpdateTask_def
        Session_def UpdateSession_indexed rejected_system_eq sample_flow_def sample_index sample_names Let_def
        issue_of_def session_key_of_def session1_def task1_def session2_def task2_def sample_ambient_def)
  moreover have "ms_sessions (ws_store (sys_flow rejected_system)) ''a'' = Some (session2\<lparr>ses_status := SessionRejected\<rparr>)"
    by (simp add: rejected_system_eq sample_flow_def)
  ultimately show ?thesis using reach step by fastforce
qed

text \<open>The two store operations of \<open>Reject\<close>: the session is read and its status checked, and the whole session is written back. Nothing
  holds a lock between them.\<close>

definition reject_read :: "string \<Rightarrow> issue_session workflow_op" where
  "reject_read issueID =
     bindS (on_store (Session issueID)) (\<lambda>session.
       if ses_status session \<in> {SessionApproved, SessionCodeGenerationQueued,
            SessionCodeGenerationProcessing, SessionCodeGenerated} then
         failS (ErrText ''approved plan cannot be rejected'')
       else retS session)"

definition reject_write :: "ambient \<Rightarrow> issue_session \<Rightarrow> issue_session workflow_op" where
  "reject_write am session = on_store (UpdateSession (am_now am 0) (session\<lparr>ses_status := SessionRejected\<rparr>))"

lemma Reject_halves: "Reject am issueID = bindS (reject_read issueID) (reject_write am)"
  by (auto simp: Reject_def reject_read_def reject_write_def bindS_def fun_eq_iff split: prod.split sum.split)

text \<open>The write stores every field as it was read, whatever is stored by then.\<close>

lemma stale_write:
  "reject_write am v s = (Inr u, s') \<Longrightarrow> ms_sessions (ws_store s') (ses_id v) = Some u \<and>
     u = v\<lparr>ses_status := SessionRejected, ses_updated_at := am_now am 0\<rparr>"
  by (auto simp: reject_write_def on_store_def UpdateSession_def Let_def)

text \<open>C35: A rejection that is slow can discard approved and finished work. There is a run in which a request to reject an issue reads the
  session while its first plan is being made; before it writes the session back, the plan is stored, the user approves it and the
  code is generated and stored. From then on a new request to reject is refused, as it should be. But the write of the slow one,
  whose check lies back, still succeeds: the session is rejected, and its plan and its generated files are gone.\<close>

theorem stale_rejection_discards_work:
  "\<exists>y y' v w u s. reachable y \<and> reject_read ''42'' (sys_flow y) = (Inr v, sys_flow y) \<and> sys_step\<^sup>*\<^sup>* y y' \<and>
     ms_sessions (ws_store (sys_flow y')) (ses_id v) = Some w \<and> ses_status w = SessionCodeGenerated \<and>
     well_formed_plan (trim_space (ses_plan_markdown w)) \<and> ses_generated_files w \<noteq> None \<and>
     isl (fst (Reject am ''42'' (sys_flow y'))) \<and>
     reject_write am v (sys_flow y') = (Inr u, s) \<and> ms_sessions (ws_store s) (ses_id v) = Some u \<and>
     ses_status u = SessionRejected \<and> ses_plan_markdown u = [] \<and> ses_generated_files u = None"
proof -
  have read: "reject_read ''42'' (sys_flow sys2) = (Inr session2, sys_flow sys2)"
    by (simp add: reject_read_def bindS_def on_store_def Session_def sys2_def sample_flow_def sample_index session2_def session1_def status_defs)
  have "sys_step\<^sup>*\<^sup>* sys2 sys4" using sys3_step sys4_step by (meson rtranclp.simps)
  then have run: "sys_step\<^sup>*\<^sup>* sys2 sys6" using sys5_step sys6_step by (meson rtranclp.rtrancl_into_rtrancl)
  have id: "ses_id session2 = ''a''" by (simp add: session2_def session1_def)
  have w: "ms_sessions (ws_store (sys_flow sys6)) ''a'' = Some session6" by (simp add: sys6_def sample_flow_def)
  have code: "ses_status session6 = SessionCodeGenerated" "ses_generated_files session6 \<noteq> None" by (simp_all add: session6_def)
  have plan: "well_formed_plan (trim_space (ses_plan_markdown session6))"
    using reachable_session [OF sys6_reachable w] code(1) by (simp add: session_ok_def planned_def planned_statuses_def)
  have refused: "isl (fst (Reject am ''42'' (sys_flow sys6)))"
    by (simp add: Reject_def bindS_def on_store_def Session_def sys6_def sample_flow_def sample_index code(1))
  obtain u s where late: "reject_write am session2 (sys_flow sys6) = (Inr u, s)"
    by (auto simp: reject_write_def on_store_def UpdateSession_def Let_def)
  have "ses_plan_markdown u = []" "ses_generated_files u = None" "ses_status u = SessionRejected"
    using stale_write [OF late] by (simp_all add: session2_def session1_def)
  with sys2_reachable read run w code plan refused late stale_write [OF late] show ?thesis
    by (intro exI [of _ sys2] exI [of _ sys6] exI [of _ session2] exI [of _ session6] exI [of _ u] exI [of _ s]) (simp add: id)
qed

text \<open>A retry looks at the failed task only: it starts a new task and puts the session back to the queued
  status of the task's type, even when the session has been approved, rejected or completed since.\<close>

theorem Retry_resets_any_session:
  assumes "ms_tasks (ws_store s) k = Some t" and "task_status t = TaskFailed" and "task_err t = Some e"
    and "recoverableTaskError e" and "Session (task_session_id t) (ws_store s) = (Inr v, ws_store s)"
  shows "\<exists>u s'. Retry InlineDispatcher am k s = (Inr u, s') \<and> task_attempt u = task_attempt t + 1 \<and>
    task_type u = task_type t \<and> ms_tasks (ws_store s') (am_id am 0) = Some u \<and>
    ms_sessions (ws_store s') (ses_id v) =
      Some (v\<lparr>ses_status := queuedStatusForTask (task_type t), ses_updated_at := am_now am 2\<rparr>)"
  using assms
  by (simp add: Retry_def bindS_def on_store_def Task_def CreateTask_def UpdateTask_def UpdateSession_def
      dispatch_def spawn_job_def Let_def)

definition late_failure :: workflow_state where
  "late_failure = sample_flow session6 [''f'' \<mapsto> task1\<lparr>task_id := ''f'', task_status := TaskFailed,
     task_err := Some \<lparr>te_http_status = 503, te_code = [], te_detail = []\<rparr>\<rparr>] []"

lemma Retry_resets_any_session_witness:
  "ses_status session6 = SessionCodeGenerated \<and>
   (\<exists>u s' v. Retry InlineDispatcher (sample_ambient ''r'') ''f'' late_failure = (Inr u, s') \<and>
     ms_sessions (ws_store s') ''a'' = Some v \<and> ses_status v = SessionGenerating)"
proof -
  let ?e = "\<lparr>te_http_status = 503, te_code = [], te_detail = []\<rparr>"
  let ?t = "task1\<lparr>task_id := ''f'', task_status := TaskFailed, task_err := Some ?e\<rparr>"
  have "ms_tasks (ws_store late_failure) ''f'' = Some ?t" "recoverableTaskError ?e"
    "Session (task_session_id ?t) (ws_store late_failure) = (Inr session6, ws_store late_failure)"
    "ses_id session6 = ''a''" "ses_status session6 = SessionCodeGenerated"
    "queuedStatusForTask (task_type ?t) = SessionGenerating"
    by (simp_all add: late_failure_def sample_flow_def recoverableTaskError_def Session_def task1_def sample_index
        session6_def session5_def session4_def session3_def session2_def session1_def queuedStatusForTask_def)
  with Retry_resets_any_session [of late_failure "''f''" ?t ?e session6 "sample_ambient ''r''"]
  show ?thesis by fastforce
qed

end
