(* ===== verification/Agent_Client.thy ===== *)
theory Agent_Client imports Workflow begin

text \<open>
  The client of the agent engine, backend/internal/agent/client.go. The HTTP transport and the JSON decoding of
  its bodies are parameters: an exchange is the outcome of the request, a failure (by a deadline or not) or
  a reply with its status and body. The state of the operations is the list of the upstream outcomes that
  \<open>ObserveUpstream\<close> counted.
\<close>

section \<open>Exchanges\<close>

datatype http_outcome = HttpFailed bool | HttpReply int string

type_synonym 'a observed = "((string \<times> string) list, 'a) op"

definition UpstreamOutcome :: "int \<Rightarrow> string" where
  "UpstreamOutcome status =
     (if status \<ge> 500 then ''server_error'' else if status \<ge> 400 then ''client_error'' else ''success'')"

definition ObserveUpstream :: "string \<Rightarrow> string \<Rightarrow> unit observed" where
  "ObserveUpstream upstream outc seen = (Inr (), seen @ [(upstream, outc)])"

text \<open>How bodies decode: the detail and code of a problem (empty where the body has none) and the two results.\<close>

record agent_decoder =
  dec_problem :: "string \<Rightarrow> string \<times> string"
  dec_plan :: "string \<Rightarrow> agent_plan_response option"
  dec_files :: "string \<Rightarrow> agent_generated_files_response option"

definition NewClient :: "string \<Rightarrow> string" where
  "NewClient baseURL = trim_right_chars ''/'' baseURL"

definition agent_normalizeStatus :: "int \<Rightarrow> int" where
  "agent_normalizeStatus status = (if status \<in> {400, 404, 422, 502, 503, 504} then status else 502)"

definition successful :: "int \<Rightarrow> bool" where
  "successful status \<longleftrightarrow> \<not> (status < 200 \<or> status \<ge> 300)"

text \<open>The readiness probe; an unsuccessful status is an error, and a failed request is its own.\<close>

definition agent_Ready :: "go_error option \<Rightarrow> go_error + int \<Rightarrow> unit result" where
  "agent_Ready request_error reply =
     (case request_error of
        Some e \<Rightarrow> Inl e
      | None \<Rightarrow>
          (case reply of
             Inl e \<Rightarrow> Inl e
           | Inr status \<Rightarrow>
               if \<not> successful status
               then Inl (ErrText (''Agent Engine readiness returned status '' @ int_text status)) else Inr ()))"

definition problem_error :: "agent_decoder \<Rightarrow> int \<Rightarrow> string \<Rightarrow> go_error" where
  "problem_error dec status body =
     (let (detail, code) = dec_problem dec body in
      AgentErr (agent_normalizeStatus status) (if code = [] then ''agent_engine_error'' else code)
        (if detail = [] then ''Agent Engine returned status '' @ int_text status else detail))"

text \<open>The part that both requests share: the body of a successful reply, or the error.\<close>

definition agent_exchange ::
    "string \<Rightarrow> agent_decoder \<Rightarrow> go_error option \<Rightarrow> http_outcome \<Rightarrow> string observed" where
  "agent_exchange timeout_detail dec request_error outc =
     (case request_error of
        Some e \<Rightarrow> failS e
      | None \<Rightarrow>
          (case outc of
             HttpFailed by_deadline \<Rightarrow>
               if by_deadline
               then bindS (ObserveUpstream ''agent_engine'' ''timeout'') (\<lambda>_.
                      failS (AgentErr 504 ''inference_timeout'' timeout_detail))
               else bindS (ObserveUpstream ''agent_engine'' ''unreachable'') (\<lambda>_.
                      failS (AgentErr 502 ''agent_engine_unreachable'' ''Agent Engine is unreachable''))
           | HttpReply status body \<Rightarrow>
               bindS (ObserveUpstream ''agent_engine'' (UpstreamOutcome status)) (\<lambda>_.
                 if \<not> successful status then failS (problem_error dec status body) else retS body)))"

text \<open>The checks on a decoded result.\<close>

definition check_reply :: "string \<Rightarrow> string \<Rightarrow> string \<Rightarrow> string \<Rightarrow> go_error option" where
  "check_reply mismatch_detail sent_id request_id status =
     (if request_id \<noteq> [] \<and> request_id \<noteq> sent_id then Some (AgentErr 502 ''request_id_mismatch'' mismatch_detail)
      else if status \<noteq> [] \<and> status \<noteq> TaskCompleted then
        Some (AgentErr 502 ''invalid_agent_status'' (''Agent Engine returned unexpected status '' @ go_quote status))
      else None)"

definition invalid_json :: go_error where
  "invalid_json = AgentErr 502 ''invalid_agent_response'' ''Agent Engine returned invalid JSON''"

definition GeneratePlan ::
    "agent_decoder \<Rightarrow> go_error option \<Rightarrow> (agent_plan_request \<Rightarrow> http_outcome) \<Rightarrow> agent_plan_request \<Rightarrow>
       agent_plan_response observed" where
  "GeneratePlan dec request_error send payload =
     bindS (agent_exchange ''Agent Engine request timed out'' dec request_error (send payload)) (\<lambda>body.
       case dec_plan dec body of
         None \<Rightarrow> failS invalid_json
       | Some res \<Rightarrow>
           (case check_reply ''Agent Engine returned a result for a different task'' (pr_request_id payload)
                   (pl_request_id res) (pl_status res) of
              Some e \<Rightarrow> failS e
            | None \<Rightarrow>
                if trim_space (pl_plan_markdown res) = [] then
                  failS (AgentErr 422 ''empty_output'' ''Agent Engine returned an empty plan'')
                else retS res))"

definition GenerateFiles ::
    "agent_decoder \<Rightarrow> go_error option \<Rightarrow> (agent_code_generation_request \<Rightarrow> http_outcome) \<Rightarrow>
       agent_code_generation_request \<Rightarrow> agent_generated_files_response observed" where
  "GenerateFiles dec request_error send payload =
     bindS (agent_exchange ''Agent Engine code generation request timed out'' dec request_error (send payload)) (\<lambda>body.
       case dec_files dec body of
         None \<Rightarrow> failS invalid_json
       | Some res \<Rightarrow>
           (case check_reply ''Agent Engine returned a file contract for a different task'' (cg_request_id payload)
                   (fr_request_id res) (fr_status res) of
              Some e \<Rightarrow> failS e
            | None \<Rightarrow>
                if go_len (fr_files res) = 0 then
                  failS (AgentErr 422 ''empty_output'' ''Agent Engine returned no generated file operations'')
                else retS res))"

text \<open>The client as the generator of the workflow.\<close>

definition client_generator ::
    "agent_decoder \<Rightarrow> go_error option \<Rightarrow> (agent_plan_request \<Rightarrow> http_outcome) \<Rightarrow>
       (agent_code_generation_request \<Rightarrow> http_outcome) \<Rightarrow> generator" where
  "client_generator dec request_error send_plan send_files =
     \<lparr>gen_plan = (\<lambda>payload. fst (GeneratePlan dec request_error send_plan payload [])),
      gen_files = (\<lambda>payload. fst (GenerateFiles dec request_error send_files payload []))\<rparr>"

section \<open>What the client guarantees\<close>

text \<open>The statuses that an error of the agent engine can have.\<close>

definition agent_statuses :: "int set" where
  "agent_statuses = {400, 404, 422, 502, 503, 504}"

fun agent_failure :: "go_error \<Rightarrow> bool" where
  "agent_failure (AgentErr status code detail) \<longleftrightarrow> status \<in> agent_statuses \<and> code \<noteq> []"
| "agent_failure e \<longleftrightarrow> False"

definition belongs_to :: "string \<Rightarrow> string \<Rightarrow> string \<Rightarrow> bool" where
  "belongs_to sent_id request_id status \<longleftrightarrow> request_id \<in> {[], sent_id} \<and> status \<in> {[], TaskCompleted}"

lemma problem_error_failure: "agent_failure (problem_error dec status body)"
  by (auto simp: problem_error_def agent_normalizeStatus_def agent_statuses_def split: prod.split)

lemma check_reply_cases:
  "case check_reply m s r st of None \<Rightarrow> belongs_to s r st | Some e \<Rightarrow> agent_failure e"
  by (auto simp: check_reply_def belongs_to_def agent_statuses_def)

lemma agent_exchange_fails: "fst (agent_exchange d dec None outc seen) = Inl e \<Longrightarrow> agent_failure e"
  by (auto simp: agent_exchange_def bindS_def ObserveUpstream_def problem_error_failure agent_statuses_def
      split: http_outcome.splits if_splits)

lemma agent_exchange_observes: "\<exists>l. snd (agent_exchange d dec None outc seen) = seen @ [(''agent_engine'', l)]"
  by (auto simp: agent_exchange_def bindS_def ObserveUpstream_def split: http_outcome.splits)

lemma exchange_cases:
  obtains (failed) e l where "agent_exchange d dec None outc seen = (Inl e, seen @ [(''agent_engine'', l)])" "agent_failure e"
  | (body) b l where "agent_exchange d dec None outc seen = (Inr b, seen @ [(''agent_engine'', l)])"
  using agent_exchange_fails [of d dec outc seen] agent_exchange_observes [of d dec outc seen]
  by (cases "agent_exchange d dec None outc seen"; cases "fst (agent_exchange d dec None outc seen)") auto

text \<open>Whatever the agent engine answers, a plan request ends in a nonblank plan that belongs to the request, or in
  an agent error with one of six statuses and a code; it is counted exactly once as an upstream call.\<close>

theorem GeneratePlan_outcome:
  "case GeneratePlan dec None send payload seen of (r, seen') \<Rightarrow>
     (case r of
        Inl e \<Rightarrow> agent_failure e
      | Inr res \<Rightarrow> belongs_to (pr_request_id payload) (pl_request_id res) (pl_status res) \<and>
          trim_space (pl_plan_markdown res) \<noteq> []) \<and>
     (\<exists>l. seen' = seen @ [(''agent_engine'', l)])"
proof (cases rule: exchange_cases [of "''Agent Engine request timed out''" dec "send payload" seen])
  case (failed e l)
  then show ?thesis by (simp add: GeneratePlan_def bindS_def)
next
  case (body b l)
  show ?thesis
  proof (cases "dec_plan dec b")
    case None
    with body show ?thesis by (simp add: GeneratePlan_def bindS_def invalid_json_def agent_statuses_def)
  next
    case (Some res)
    with body show ?thesis
      using check_reply_cases [where m = "''Agent Engine returned a result for a different task''"
          and s = "pr_request_id payload" and r = "pl_request_id res" and st = "pl_status res"]
      by (simp add: GeneratePlan_def bindS_def agent_statuses_def split: option.splits)
  qed
qed

text \<open>Whatever the agent engine answers, a code-generation request ends in at least one operation of a response that
  belongs to the request, or in an agent error with one of six statuses and a code; it is counted exactly
  once as an upstream call.\<close>

theorem GenerateFiles_outcome:
  "case GenerateFiles dec None send payload seen of (r, seen') \<Rightarrow>
     (case r of
        Inl e \<Rightarrow> agent_failure e
      | Inr res \<Rightarrow> belongs_to (cg_request_id payload) (fr_request_id res) (fr_status res) \<and> fr_files res \<noteq> []) \<and>
     (\<exists>l. seen' = seen @ [(''agent_engine'', l)])"
proof (cases rule: exchange_cases
    [of "''Agent Engine code generation request timed out''" dec "send payload" seen])
  case (failed e l)
  then show ?thesis by (simp add: GenerateFiles_def bindS_def)
next
  case (body b l)
  show ?thesis
  proof (cases "dec_files dec b")
    case None
    with body show ?thesis by (simp add: GenerateFiles_def bindS_def invalid_json_def agent_statuses_def)
  next
    case (Some res)
    with body show ?thesis
      using check_reply_cases [where m = "''Agent Engine returned a file contract for a different task''"
          and s = "cg_request_id payload" and r = "fr_request_id res" and st = "fr_status res"]
      by (simp add: GenerateFiles_def bindS_def agent_statuses_def split: option.splits)
  qed
qed

end
