(* ===== verification/Redis_Protocol.thy ===== *)
theory Redis_Protocol imports Go_Strings begin

text \<open>
  The wire protocol of backend/internal/queue/redis.go: \<open>writeCommand\<close> and \<open>readRESP\<close>. A reader is the bytes
  that the connection delivers before it ends, or before its deadline. \<open>readRESP\<close> recurses over nested
  arrays with fuel; one more than the number of bytes left is enough fuel for every input.
\<close>

section \<open>Values\<close>

text \<open>The values of type \<open>any\<close> that \<open>readRESP\<close> builds: \<open>nil\<close>, \<open>string\<close>, \<open>int64\<close> and \<open>[]any\<close>.\<close>

datatype resp = RNil | RStr string | RInt int | RArr "resp list"

type_synonym 'a reader = "(string, 'a) op"

definition crlf :: string where
  "crlf = [CHR 0x0D, CHR 0x0A]"

definition io_EOF :: go_error where
  "io_EOF = ErrText ''EOF''"

text \<open>The largest allocation, in bytes, that Go's run time attempts on a 64-bit machine; \<open>make\<close> panics above it
  and for a negative length.\<close>

definition max_alloc :: int where
  "max_alloc = 2 ^ 48"

section \<open>Writing commands\<close>

definition bulk_text :: "string \<Rightarrow> string" where
  "bulk_text argument = ''$'' @ int_text (go_len argument) @ crlf @ argument @ crlf"

definition writeCommand :: "string list \<Rightarrow> string" where
  "writeCommand args = ''*'' @ int_text (go_len args) @ crlf @ concat (map bulk_text args)"

section \<open>Reading replies\<close>

definition read_byte :: "char reader" where
  "read_byte s = (case s of [] \<Rightarrow> (Inl io_EOF, []) | c # cs \<Rightarrow> (Inr c, cs))"

text \<open>\<open>ReadString\<close> up to a line feed, without the line end.\<close>

definition read_line :: "string reader" where
  "read_line s =
     (let value = takeWhile (\<lambda>c. c \<noteq> CHR 0x0A) s in
      case dropWhile (\<lambda>c. c \<noteq> CHR 0x0A) s of
        [] \<Rightarrow> (Inl io_EOF, [])
      | c # rest \<Rightarrow> (Inr (trim_suffix (trim_suffix (value @ [c]) [CHR 0x0A]) [CHR 0x0D]), rest))"

text \<open>\<open>io.ReadFull\<close>.\<close>

definition read_full :: "nat \<Rightarrow> string reader" where
  "read_full n s =
     (if n \<le> length s then (Inr (take n s), drop n s)
      else (Inl (if s = [] then io_EOF else ErrText ''unexpected EOF''), []))"

text \<open>\<open>strconv.ParseInt\<close> and \<open>strconv.Atoi\<close> with their errors.\<close>

definition number_error :: "string \<Rightarrow> string \<Rightarrow> go_error" where
  "number_error func s =
     (let ds = (if has_prefix s ''-'' \<or> has_prefix s ''+'' then tl s else s) in
      ErrText (''strconv.'' @ func @ '': parsing '' @ go_quote s @ '': '' @
        (if ds = [] \<or> \<not> list_all is_digit ds then ''invalid syntax'' else ''value out of range'')))"

definition parse_number :: "string \<Rightarrow> string \<Rightarrow> int reader" where
  "parse_number func s = (case parse_int s of None \<Rightarrow> failS (number_error func s) | Some i \<Rightarrow> retS i)"

definition read_bulk :: "int \<Rightarrow> resp reader" where
  "read_bulk n =
     (if n = -1 then retS RNil
      else if n + 2 < 0 \<or> n + 2 > max_alloc then failS (Panic ''runtime error: makeslice: len out of range'')
      else bindS (read_full (nat (n + 2))) (\<lambda>buffer.
             if n < 0 then failS (Panic (''runtime error: slice bounds out of range [:'' @ int_text n @ '']''))
             else retS (RStr (take (nat n) buffer))))"

text \<open>The verb \<open>%q\<close> of a byte: the quoted character with that code point.\<close>

definition quote_byte :: "char \<Rightarrow> string" where
  "quote_byte c =
     (let n = byte_of c in
      CHR 0x27 #
        (if c = CHR 0x27 \<or> c = CHR 0x5C then [CHR 0x5C, c]
         else if c = CHR 0x22 then [c]
         else if n < 128 then quote_char c
         else if n \<le> 160 \<or> n = 173 then [CHR 0x5C] @ ''u00'' @ hex_byte c
         else [char_of (192 + n div 64), char_of (128 + n mod 64)]) @ [CHR 0x27])"

text \<open>The elements of an array, read one after the other by the recursive call; its result is \<open>None\<close> when it
  runs out of fuel.\<close>

primrec read_items ::
    "(string \<Rightarrow> (resp result \<times> string) option) \<Rightarrow> nat \<Rightarrow> string \<Rightarrow> (resp list result \<times> string) option" where
  "read_items read 0 s = Some (Inr [], s)"
| "read_items read (Suc k) s =
     (case read s of
        None \<Rightarrow> None
      | Some (Inl e, s') \<Rightarrow> Some (Inl e, s')
      | Some (Inr v, s') \<Rightarrow>
          (case read_items read k s' of
             None \<Rightarrow> None
           | Some (Inl e, s'') \<Rightarrow> Some (Inl e, s'')
           | Some (Inr vs, s'') \<Rightarrow> Some (Inr (v # vs), s'')))"

definition read_array ::
    "(string \<Rightarrow> (resp result \<times> string) option) \<Rightarrow> int \<Rightarrow> string \<Rightarrow> (resp result \<times> string) option" where
  "read_array read n s =
     (if n = -1 then Some (Inr RNil, s)
      else if n < 0 \<or> 16 * n > max_alloc then Some (Inl (Panic ''runtime error: makeslice: len out of range''), s)
      else (case read_items read (nat n) s of
              None \<Rightarrow> None
            | Some (Inl e, s') \<Rightarrow> Some (Inl e, s')
            | Some (Inr vs, s') \<Rightarrow> Some (Inr (RArr vs), s')))"

text \<open>The replies that contain no others: strings, errors and integers.\<close>

definition read_plain :: "char \<Rightarrow> resp reader" where
  "read_plain tag =
     (if tag = CHR ''+'' then bindS read_line (\<lambda>value. retS (RStr value))
      else if tag = CHR ''-'' then bindS read_line (\<lambda>value. failS (ErrText value))
      else if tag = CHR '':'' then bindS read_line (\<lambda>value. bindS (parse_number ''ParseInt'' value) (\<lambda>i. retS (RInt i)))
      else if tag = CHR ''$'' then bindS read_line (\<lambda>value. bindS (parse_number ''Atoi'' value) read_bulk)
      else failS (ErrText (''unsupported Redis response prefix '' @ quote_byte tag)))"

text \<open>One call of \<open>readRESP\<close>, for the recursive call \<open>read\<close>.\<close>

definition reply_step ::
    "(string \<Rightarrow> (resp result \<times> string) option) \<Rightarrow> string \<Rightarrow> (resp result \<times> string) option" where
  "reply_step read s =
     (case read_byte s of
        (Inl e, s1) \<Rightarrow> Some (Inl e, s1)
      | (Inr tag, s1) \<Rightarrow>
          if tag = CHR ''*'' then
            (case bindS read_line (parse_number ''Atoi'') s1 of
               (Inl e, s2) \<Rightarrow> Some (Inl e, s2)
             | (Inr n, s2) \<Rightarrow> read_array read n s2)
          else Some (read_plain tag s1))"

primrec readRESP_within :: "nat \<Rightarrow> string \<Rightarrow> (resp result \<times> string) option" where
  "readRESP_within 0 s = None"
| "readRESP_within (Suc fuel) s = reply_step (readRESP_within fuel) s"

definition readRESP :: "resp reader" where
  "readRESP s = the (readRESP_within (Suc (length s)) s)"

section \<open>Termination\<close>

text \<open>Every reader leaves at most the bytes it was given, and \<open>readRESP\<close> takes at least its prefix byte.\<close>

text \<open>\<open>shrinks m\<close>: the reader \<open>m\<close> never leaves more than it was given.\<close>

definition shrinks :: "'a reader \<Rightarrow> bool" where
  "shrinks m \<longleftrightarrow> (\<forall>s. length (snd (m s)) \<le> length s)"

named_theorems shrink_rules "readers that only shrink their input"

lemma shrinks_ret [shrink_rules]: "shrinks (retS v)" and shrinks_fail [shrink_rules]: "shrinks (failS e)"
  by (simp_all add: shrinks_def)

lemma shrinks_bind [shrink_rules]:
  assumes "shrinks m" and "\<And>v. shrinks (f v)"
  shows "shrinks (bindS m f)"
  unfolding shrinks_def
proof
  fix s
  obtain r s' where step: "m s = (r, s')" by (cases "m s")
  then have "length s' \<le> length s" using assms(1) unfolding shrinks_def by (metis snd_conv)
  moreover have "length (snd (f v s')) \<le> length s'" for v using assms(2) by (simp add: shrinks_def)
  ultimately show "length (snd (bindS m f s)) \<le> length s"
    using step by (cases r) (auto simp: bindS_def intro: le_trans)
qed

lemma shrinks_if [shrink_rules]: "shrinks m \<Longrightarrow> shrinks n \<Longrightarrow> shrinks (if c then m else n)"
  by simp

lemma shrinks_line [shrink_rules]: "shrinks read_line"
  unfolding shrinks_def
proof
  fix s
  have "length (dropWhile (\<lambda>c. c \<noteq> CHR 0x0A) s) \<le> length s" by (rule length_dropWhile_le)
  then show "length (snd (read_line s)) \<le> length s"
    by (cases "dropWhile (\<lambda>c. c \<noteq> CHR 0x0A) s") (simp_all add: read_line_def Let_def del: dropWhile_eq_Nil_conv)
qed

lemma shrinks_number [shrink_rules]: "shrinks (parse_number func v)"
  by (cases "parse_int v") (simp_all add: parse_number_def shrink_rules)

lemma shrinks_full [shrink_rules]: "shrinks (read_full n)"
  by (simp add: shrinks_def read_full_def)

lemma shrinks_bulk [shrink_rules]: "shrinks (read_bulk n)"
  unfolding read_bulk_def by (intro shrink_rules)

lemma shrinks_plain [shrink_rules]: "shrinks (read_plain tag)"
  unfolding read_plain_def by (intro shrink_rules)

lemma shrinksD: "shrinks m \<Longrightarrow> m s = (r, s') \<Longrightarrow> length s' \<le> length s"
  unfolding shrinks_def by (metis snd_conv)

text \<open>\<open>reads read n\<close>: on inputs shorter than \<open>n\<close>, \<open>read\<close> returns and leaves no more than it was given.\<close>

definition reads :: "(string \<Rightarrow> ('a \<times> string) option) \<Rightarrow> nat \<Rightarrow> bool" where
  "reads read n \<longleftrightarrow> (\<forall>s. length s < n \<longrightarrow> (\<exists>r s'. read s = Some (r, s') \<and> length s' \<le> length s))"

lemma reads_mono: "reads read n \<Longrightarrow> m \<le> n \<Longrightarrow> reads read m"
  by (simp add: reads_def)

lemma read_items_reads:
  assumes "reads read n"
  shows "reads (read_items read k) n"
proof (induction k)
  case 0
  then show ?case by (simp add: reads_def)
next
  case (Suc k)
  show ?case
    unfolding reads_def
  proof (intro allI impI)
    fix s :: string assume short: "length s < n"
    obtain r s' where first: "read s = Some (r, s')" "length s' \<le> length s"
      using assms short unfolding reads_def by blast
    then obtain r' s'' where "read_items read k s' = Some (r', s'')" "length s'' \<le> length s'"
      using Suc short unfolding reads_def by (meson le_less_trans)
    with first show "\<exists>r s'. read_items read (Suc k) s = Some (r, s') \<and> length s' \<le> length s"
      by (auto split: sum.split)
  qed
qed

lemma read_array_reads:
  assumes "reads read n"
  shows "reads (read_array read k) n"
  unfolding reads_def
proof (intro allI impI)
  fix s :: string assume "length s < n"
  then obtain r s' where "read_items read (nat k) s = Some (r, s')" "length s' \<le> length s"
    using read_items_reads [OF assms] unfolding reads_def by blast
  then show "\<exists>r s'. read_array read k s = Some (r, s') \<and> length s' \<le> length s"
    by (auto simp: read_array_def split: sum.split)
qed

lemma reply_step_reads:
  assumes "reads read n"
  shows "reads (reply_step read) (Suc n)"
  unfolding reads_def
proof (intro allI impI)
  fix s :: string assume short: "length s < Suc n"
  show "\<exists>r s'. reply_step read s = Some (r, s') \<and> length s' \<le> length s"
  proof (cases s)
    case Nil
    then show ?thesis by (simp add: reply_step_def read_byte_def)
  next
    case (Cons c s1)
    obtain r2 s2 where number: "bindS read_line (parse_number ''Atoi'') s1 = (r2, s2)"
      by (cases "bindS read_line (parse_number ''Atoi'') s1")
    have le2: "length s2 \<le> length s1"
    proof -
      have "shrinks (bindS read_line (parse_number ''Atoi''))" by (intro shrink_rules)
      with number show ?thesis unfolding shrinks_def by (metis snd_conv)
    qed
    have array: "\<exists>r s'. read_array read k s2 = Some (r, s') \<and> length s' \<le> length s" for k
    proof -
      have "length s2 < n" using Cons short le2 by simp
      then obtain r s' where "read_array read k s2 = Some (r, s')" "length s' \<le> length s2"
        using read_array_reads [OF assms] unfolding reads_def by blast
      with le2 Cons show ?thesis by auto
    qed
    obtain r3 s3 where plain: "read_plain c s1 = (r3, s3)" by (cases "read_plain c s1")
    then have "length s3 \<le> length s" using shrinksD [OF shrinks_plain] Cons by fastforce
    with plain number array le2 Cons show ?thesis
      by (cases r2) (auto simp: reply_step_def read_byte_def)
  qed
qed

lemma readRESP_within_reads: "reads (readRESP_within n) n"
proof (induction n)
  case 0
  then show ?case by (simp add: reads_def)
next
  case (Suc n)
  have "readRESP_within (Suc n) = reply_step (readRESP_within n)" by (rule ext) simp
  with reply_step_reads [OF Suc] show ?case by simp
qed

lemma readRESP_within_enough: "length s < n \<Longrightarrow> readRESP_within n s \<noteq> None"
  using readRESP_within_reads [of n] unfolding reads_def by fastforce

text \<open>More fuel does not change a result.\<close>

definition extends :: "(string \<Rightarrow> 'a option) \<Rightarrow> (string \<Rightarrow> 'a option) \<Rightarrow> bool" where
  "extends f g \<longleftrightarrow> (\<forall>s r. f s = Some r \<longrightarrow> g s = Some r)"

lemma read_items_extends:
  assumes "extends f g"
  shows "extends (read_items f k) (read_items g k)"
proof (induction k)
  case (Suc k)
  then show ?case
    using assms by (fastforce simp: extends_def split: option.splits sum.splits prod.splits)
qed (simp add: extends_def)

lemma reply_step_extends: "extends f g \<Longrightarrow> extends (reply_step f) (reply_step g)"
  using read_items_extends [of f g]
  by (fastforce simp: extends_def reply_step_def read_array_def split: option.splits sum.splits prod.splits if_splits)

lemma readRESP_within_Suc: "extends (readRESP_within n) (readRESP_within (Suc n))"
proof (induction n)
  case 0
  then show ?case by (simp add: extends_def)
next
  case (Suc n)
  have "readRESP_within (Suc m) = reply_step (readRESP_within m)" for m by (rule ext) simp
  with reply_step_extends [OF Suc] show ?case by metis
qed

lemma readRESP_within_mono: "readRESP_within n s = Some r \<Longrightarrow> n \<le> m \<Longrightarrow> readRESP_within m s = Some r"
proof (induction m)
  case (Suc m)
  then show ?case
    using readRESP_within_Suc [of m] by (cases "n = Suc m") (simp_all add: extends_def del: readRESP_within.simps split_paired_All)
qed simp

lemma readRESP_within_eq: "length s < n \<Longrightarrow> readRESP_within n s = Some (readRESP s)"
  unfolding readRESP_def
  using readRESP_within_enough [of s "Suc (length s)"] readRESP_within_mono [of "Suc (length s)" s _ n]
  by (auto simp del: readRESP_within.simps)

text \<open>C38: \<open>readRESP\<close> terminates on every input, however deeply its arrays nest: with one unit of fuel per byte of
  the input and one more, it always has a result, the same for any larger amount of fuel, and it never
  gives back more than it was given.\<close>

theorem readRESP_terminates:
  "readRESP_within (Suc (length s) + k) s = Some (readRESP s) \<and> length (snd (readRESP s)) \<le> length s"
proof -
  have "readRESP_within (Suc (length s)) s = Some (readRESP s)" by (rule readRESP_within_eq) simp
  then have "length (snd (readRESP s)) \<le> length s"
    using readRESP_within_reads [of "Suc (length s)"] unfolding reads_def
    by (metis lessI option.inject snd_conv)
  then show ?thesis using readRESP_within_eq [of s "Suc (length s) + k"] by simp
qed

section \<open>Round trips\<close>

text \<open>The recursion of \<open>readRESP\<close> without fuel.\<close>

lemma readRESP_unfold: "Some (readRESP s) = reply_step (\<lambda>t. Some (readRESP t)) s"
proof -
  have "extends (readRESP_within (length s)) (\<lambda>t. Some (readRESP t))"
    unfolding extends_def
  proof (intro allI impI)
    fix t r assume "readRESP_within (length s) t = Some r"
    then have "readRESP_within (length s + Suc (length t)) t = Some r" by (rule readRESP_within_mono) simp
    then show "Some (readRESP t) = Some r" using readRESP_within_eq [of t "length s + Suc (length t)"] by simp
  qed
  from reply_step_extends [OF this] show ?thesis
    using readRESP_within_eq [of s "Suc (length s)"] by (simp add: extends_def del: split_paired_All)
qed

lemma readRESP_eq: "reply_step (\<lambda>t. Some (readRESP t)) s = Some r \<Longrightarrow> readRESP s = r"
  by (simp flip: readRESP_unfold)

text \<open>The encoding of a reply in the protocol: what a server sends for a value.\<close>

fun encode_resp :: "resp \<Rightarrow> string" where
  "encode_resp RNil = ''$-1'' @ crlf"
| "encode_resp (RStr s) = bulk_text s"
| "encode_resp (RInt i) = '':'' @ int_text i @ crlf"
| "encode_resp (RArr vs) = ''*'' @ int_text (go_len vs) @ crlf @ concat (map encode_resp vs)"

text \<open>Values that fit: 64-bit integers, and no string or array above the allocation limit.\<close>

fun resp_fits :: "resp \<Rightarrow> bool" where
  "resp_fits RNil = True"
| "resp_fits (RStr s) = (go_len s + 2 \<le> max_alloc)"
| "resp_fits (RInt i) = (- (2 ^ 63) \<le> i \<and> i < 2 ^ 63)"
| "resp_fits (RArr vs) = (16 * go_len vs \<le> max_alloc \<and> list_all resp_fits vs)"

lemma int_text_no_newline: "CHR 0x0A \<notin> set (int_text i)"
  using nat_text_digits [of "nat i"] nat_text_digits [of "nat (- i)"]
  by (auto simp: int_text_def list_all_iff is_digit_def byte_of_def)

lemma read_line_crlf: "CHR 0x0A \<notin> set t \<Longrightarrow> read_line (t @ crlf @ rest) = (Inr t, rest)"
proof -
  assume t: "CHR 0x0A \<notin> set t"
  have "takeWhile (\<lambda>c. c \<noteq> CHR 0x0A) (t @ crlf @ rest) = t @ [CHR 0x0D]"
    "dropWhile (\<lambda>c. c \<noteq> CHR 0x0A) (t @ crlf @ rest) = CHR 0x0A # rest"
    using t by (auto simp: crlf_def takeWhile_append dropWhile_append)
  then show ?thesis
    by (simp add: read_line_def trim_suffix_def has_suffix_def)
qed

lemma parse_number_text: "- (2 ^ 63) \<le> i \<Longrightarrow> i < 2 ^ 63 \<Longrightarrow> parse_number func (int_text i) s = (Inr i, s)"
  by (simp add: parse_number_def parse_int_text)

lemma read_number_text:
  "- (2 ^ 63) \<le> i \<Longrightarrow> i < 2 ^ 63 \<Longrightarrow>
     bindS read_line (parse_number func) (int_text i @ crlf @ rest) = (Inr i, rest)"
  by (simp add: bindS_def read_line_crlf int_text_no_newline parse_number_text)

text \<open>What \<open>readRESP\<close> does by the first byte.\<close>

lemma readRESP_plain: "c \<noteq> CHR ''*'' \<Longrightarrow> readRESP (c # s) = read_plain c s"
  by (rule readRESP_eq) (simp add: reply_step_def read_byte_def)

lemma readRESP_array:
  "bindS read_line (parse_number ''Atoi'') s = (Inr n, s') \<Longrightarrow>
     read_array (\<lambda>t. Some (readRESP t)) n s' = Some r \<Longrightarrow> readRESP (CHR ''*'' # s) = r"
  by (rule readRESP_eq) (simp add: reply_step_def read_byte_def)

lemma max_alloc_less: "max_alloc < 2 ^ 63"
  by (simp add: max_alloc_def)

lemma length_in_range: "go_len xs \<le> max_alloc \<Longrightarrow> - (2 ^ 63) \<le> go_len xs \<and> go_len xs < 2 ^ 63"
  using go_len_simps(3) [of xs] by (simp add: max_alloc_def del: go_len_simps)

lemma readRESP_bulk:
  assumes "go_len t + 2 \<le> max_alloc"
  shows "readRESP (bulk_text t @ rest) = (Inr (RStr t), rest)"
proof -
  have len: "0 \<le> go_len t" "nat (go_len t + 2) = length t + 2" "nat (go_len t) = length t"
    by (simp_all add: go_len_def nat_add_distrib)
  have full: "read_full (length t + 2) (t @ crlf @ rest) = (Inr (t @ crlf), rest)"
    by (simp add: read_full_def crlf_def)
  have "bindS read_line (\<lambda>value. bindS (parse_number ''Atoi'' value) read_bulk)
      (int_text (go_len t) @ crlf @ t @ crlf @ rest) = read_bulk (go_len t) (t @ crlf @ rest)"
    using length_in_range [of t] assms
    by (simp add: bindS_def [of read_line] read_line_crlf int_text_no_newline)
      (simp add: bindS_def parse_number_text)
  also have "\<dots> = (Inr (RStr t), rest)"
    using assms len full by (simp add: read_bulk_def bindS_def)
  finally show ?thesis by (simp add: bulk_text_def readRESP_plain read_plain_def)
qed

lemma readRESP_integer:
  assumes "- (2 ^ 63) \<le> i" and "i < 2 ^ 63"
  shows "readRESP (CHR '':'' # int_text i @ crlf @ rest) = (Inr (RInt i), rest)"
  using assms by (simp add: readRESP_plain read_plain_def)
    (simp add: bindS_def read_line_crlf int_text_no_newline parse_number_text)

lemma readRESP_nil: "readRESP (CHR ''$'' # ''-1'' @ crlf @ rest) = (Inr RNil, rest)"
proof -
  have "''-1'' = int_text (- 1)" by code_simp
  then show ?thesis
    by (simp add: readRESP_plain read_plain_def)
      (simp add: bindS_def read_line_crlf int_text_no_newline parse_number_text read_bulk_def)
qed

lemma read_items_concat:
  assumes "\<And>v t. v \<in> set vs \<Longrightarrow> readRESP (f v @ t) = (Inr (g v), t)"
  shows "read_items (\<lambda>t. Some (readRESP t)) (length vs) (concat (map f vs) @ rest) = Some (Inr (map g vs), rest)"
  using assms by (induction vs) simp_all

lemma readRESP_items:
  assumes "16 * go_len vs \<le> max_alloc" and "\<And>v t. v \<in> set vs \<Longrightarrow> readRESP (f v @ t) = (Inr (g v), t)"
  shows "readRESP (''*'' @ int_text (go_len vs) @ crlf @ concat (map f vs) @ rest) = (Inr (RArr (map g vs)), rest)"
proof -
  have len: "\<not> go_len vs < 0" "go_len vs \<noteq> - 1" "nat (go_len vs) = length vs" by (simp_all add: go_len_def)
  have "bindS read_line (parse_number ''Atoi'') (int_text (go_len vs) @ crlf @ concat (map f vs) @ rest)
      = (Inr (go_len vs), concat (map f vs) @ rest)"
    using assms(1) length_in_range [of vs] len(1) by (intro read_number_text) linarith+
  moreover have "read_array (\<lambda>t. Some (readRESP t)) (go_len vs) (concat (map f vs) @ rest)
      = Some (Inr (RArr (map g vs)), rest)"
    using assms len by (simp add: read_array_def read_items_concat)
  ultimately show ?thesis by (simp add: readRESP_array)
qed

text \<open>C18: \<open>readRESP\<close> inverts the encoding of every reply that fits (nil, strings of arbitrary bytes, 64-bit
  integers and arrays of them, nested to any depth) and leaves what follows it untouched.\<close>

theorem readRESP_encode_resp:
  assumes "resp_fits v"
  shows "readRESP (encode_resp v @ rest) = (Inr v, rest)"
  using assms
proof (induction v arbitrary: rest)
  case (RArr vs)
  have "readRESP (''*'' @ int_text (go_len vs) @ crlf @ concat (map encode_resp vs) @ rest)
      = (Inr (RArr (map (\<lambda>v. v) vs)), rest)"
    by (rule readRESP_items) (use RArr in \<open>auto simp: list_all_iff\<close>)
  then show ?case by simp
qed (simp_all add: readRESP_nil [simplified] readRESP_bulk readRESP_integer)

lemma readRESP_encode_resp_witness:
  "readRESP (encode_resp (RArr [RStr [CHR 0x0D, CHR 0x0A, CHR ''*''], RArr [RInt (- 7), RNil]]) @ ''+OK'')
     = (Inr (RArr [RStr [CHR 0x0D, CHR 0x0A, CHR ''*''], RArr [RInt (- 7), RNil]]), ''+OK'')"
  by (rule readRESP_encode_resp) (simp add: max_alloc_def)

text \<open>A command is one array of strings to the reader of the connection whatever bytes its arguments
  contain, line ends and protocol text included: no argument can start another command.\<close>

theorem writeCommand_roundtrip:
  assumes "16 * go_len args \<le> max_alloc" and "list_all (\<lambda>a. go_len a + 2 \<le> max_alloc) args"
  shows "readRESP (writeCommand args @ rest) = (Inr (RArr (map RStr args)), rest)"
  using readRESP_items [of args bulk_text RStr rest] assms
  by (simp add: writeCommand_def readRESP_bulk list_all_iff)

lemma writeCommand_roundtrip_witness:
  "readRESP (writeCommand [''XDEL'', [CHR ''1'', CHR 0x0D, CHR 0x0A] @ ''*1''] @ writeCommand [''PING''])
     = (Inr (RArr [RStr ''XDEL'', RStr ([CHR ''1'', CHR 0x0D, CHR 0x0A] @ ''*1'')]), writeCommand [''PING''])"
  using writeCommand_roundtrip [of "[''XDEL'', [CHR ''1'', CHR 0x0D, CHR 0x0A] @ ''*1'']" "writeCommand [''PING'']"]
  by (simp add: max_alloc_def)

text \<open>A negative length other than -1, in an array or bulk-string header, is not an error that the caller sees
  but a run-time panic of the worker or server that reads the reply.\<close>

theorem negative_length_panics:
  assumes "- (2 ^ 63) \<le> n" and "n < -1" and "tag = CHR ''*'' \<or> tag = CHR ''$''"
  shows "\<exists>t. fst (readRESP (tag # int_text n @ crlf @ rest)) = Inl (Panic t)"
proof -
  have number: "bindS read_line (parse_number ''Atoi'') (int_text n @ crlf @ rest) = (Inr n, rest)"
    using assms by (intro read_number_text) simp_all
  have "readRESP (CHR ''*'' # int_text n @ crlf @ rest) = (Inl (Panic ''runtime error: makeslice: len out of range''), rest)"
    by (rule readRESP_array [OF number]) (use assms(2) in \<open>simp add: read_array_def\<close>)
  moreover have "\<exists>t. fst (read_bulk n rest) = Inl (Panic t)"
    using assms(2) by (auto simp: read_bulk_def bindS_def read_full_def max_alloc_def)
  then have "\<exists>t. fst (readRESP (CHR ''$'' # int_text n @ crlf @ rest)) = Inl (Panic t)"
    using assms(1,2) by (simp add: readRESP_plain read_plain_def)
      (simp add: bindS_def [of read_line] read_line_crlf int_text_no_newline, simp add: bindS_def parse_number_text)
  ultimately show ?thesis using assms(3) by auto
qed

lemma negative_length_panics_witness: "\<exists>t. fst (readRESP (''*-2'' @ crlf)) = Inl (Panic t)"
proof -
  have "''-2'' = int_text (- 2)" by code_simp
  then show ?thesis using negative_length_panics [of "- 2" "CHR ''*''" "[]"] by simp
qed

end
