(* ===== verification/Redis_Broker.thy ===== *)
theory Redis_Broker imports Redis_Protocol Domain begin

text \<open>
  The type \<open>RedisBroker\<close> of backend/internal/queue/redis.go and the interface of queue.go. A connection is a
  state of the server with the bytes that it has sent and the broker has not read; how the server answers
  a written command is a parameter, and so are \<open>url.Parse\<close> and the JSON encoding of a job. The operations
  are stated over the method \<open>command\<close>, whatever it answers.
\<close>

section \<open>The broker\<close>

record redis_broker =
  rb_address :: string
  rb_username :: string
  rb_password :: string
  rb_stream :: string
  rb_group :: string
  rb_deadLetter :: string
  rb_database :: int
  rb_maxLength :: int

text \<open>What \<open>NewRedisBroker\<close> asks of a parsed URL.\<close>

record parsed_url =
  url_scheme :: string
  url_host :: string
  url_hostname :: string
  url_port :: string
  url_path :: string
  url_username :: string
  url_password :: string

definition join_host_port :: "string \<Rightarrow> string \<Rightarrow> string" where
  "join_host_port host port =
     (if CHR '':'' \<in> set host \<or> CHR 0x25 \<in> set host then ''['' @ host @ '']:'' @ port else host @ '':'' @ port)"

definition redis_database :: "string \<Rightarrow> int result" where
  "redis_database path =
     (if path = [] then Inr 0
      else case parse_int path of
             None \<Rightarrow> Inl (ErrText ''invalid Redis database in REDIS_URL'')
           | Some database \<Rightarrow>
               if database < 0 then Inl (ErrText ''invalid Redis database in REDIS_URL'') else Inr database)"

definition NewRedisBroker ::
    "(string \<Rightarrow> parsed_url result) \<Rightarrow> string \<Rightarrow> string \<Rightarrow> string \<Rightarrow> int \<Rightarrow> redis_broker result" where
  "NewRedisBroker parse_url rawURL stream groupName maxLength =
     (case parse_url rawURL of
        Inl e \<Rightarrow> Inl (ErrText ''invalid REDIS_URL'')
      | Inr parsed \<Rightarrow>
          if url_scheme parsed \<noteq> ''redis'' \<or> url_host parsed = [] then Inl (ErrText ''invalid REDIS_URL'')
          else (case redis_database (trim_prefix (url_path parsed) ''/'') of
                  Inl e \<Rightarrow> Inl e
                | Inr database \<Rightarrow>
                    let name = (if stream = [] then ''gitflame:agent:tasks'' else stream) in
                    Inr \<lparr>rb_address = (if url_port parsed = [] then join_host_port (url_hostname parsed) ''6379''
                                       else url_host parsed),
                         rb_username = url_username parsed, rb_password = url_password parsed, rb_stream = name,
                         rb_group = (if groupName = [] then ''gitflame-agent-workers'' else groupName),
                         rb_deadLetter = name @ '':dead-letter'', rb_database = database,
                         rb_maxLength = (if maxLength < 1 then 1000 else maxLength)\<rparr>))"

section \<open>A command on a fresh connection\<close>

text \<open>How the server behaves: whether a dial succeeds, and what it sends for the bytes of a written command, or
  that the write fails.\<close>

record 'r redis_server =
  srv_dial :: "string \<Rightarrow> 'r \<Rightarrow> go_error option \<times> 'r"
  srv_write :: "string \<Rightarrow> 'r \<Rightarrow> go_error option \<times> string \<times> 'r"

definition send_command :: "'r redis_server \<Rightarrow> string list \<Rightarrow> ('r \<times> string, unit) op" where
  "send_command server args = (\<lambda>(r, inbox).
     case srv_write server (writeCommand args) r of
       (Some e, sent, r') \<Rightarrow> (Inl e, (r', inbox @ sent))
     | (None, sent, r') \<Rightarrow> (Inr (), (r', inbox @ sent)))"

definition receive_reply :: "('r \<times> string, resp) op" where
  "receive_reply = (\<lambda>(r, inbox). case readRESP inbox of (v, rest) \<Rightarrow> (v, (r, rest)))"

definition exchange :: "'r redis_server \<Rightarrow> string list \<Rightarrow> ('r \<times> string, resp) op" where
  "exchange server args = bindS (send_command server args) (\<lambda>_. receive_reply)"

definition auth_command :: "redis_broker \<Rightarrow> string list" where
  "auth_command b =
     (if rb_username b \<noteq> [] then [''AUTH'', rb_username b, rb_password b] else [''AUTH'', rb_password b])"

definition handshake :: "'r redis_server \<Rightarrow> redis_broker \<Rightarrow> ('r \<times> string, unit) op" where
  "handshake server b =
     bindS (if rb_password b \<noteq> [] then bindS (exchange server (auth_command b)) (\<lambda>_. retS ()) else retS ()) (\<lambda>_.
       if rb_database b \<noteq> 0
       then bindS (exchange server [''SELECT'', int_text (rb_database b)]) (\<lambda>_. retS ()) else retS ())"

definition redis_command :: "'r redis_server \<Rightarrow> redis_broker \<Rightarrow> string list \<Rightarrow> ('r, resp) op" where
  "redis_command server b args r =
     (case srv_dial server (rb_address b) r of
        (Some e, r') \<Rightarrow> (Inl e, r')
      | (None, r') \<Rightarrow>
          (case bindS (handshake server b) (\<lambda>_. exchange server args) (r', []) of
             (v, (r'', inbox)) \<Rightarrow> (v, r'')))"

section \<open>Jobs in the stream\<close>

record queue_message =
  msg_id :: string
  msg_job :: agent_job

definition no_job :: agent_job where
  "no_job = \<lparr>job_task_id = [], job_session_id = [], job_type = [], job_attempt = 0,
     job_request = no_plan_request, job_code_generation_request = no_code_generation_request\<rparr>"

text \<open>The loop over the fields of a message, two at a time: the value of the last field called \<open>job\<close>, empty
  when that is not a string.\<close>

fun job_field :: "resp list \<Rightarrow> string \<Rightarrow> string" where
  "job_field (name # field_value # fs) payload =
     job_field fs
       (if name = RStr ''job'' then (case field_value of RStr s \<Rightarrow> s | _ \<Rightarrow> []) else payload)"
| "job_field fs payload = payload"

text \<open>A message and an error can be returned together: the caller dead-letters the message.\<close>

type_synonym read_result = "queue_message option \<times> go_error option"

definition decode_job :: "(string \<Rightarrow> agent_job result) \<Rightarrow> string \<Rightarrow> resp list \<Rightarrow> read_result" where
  "decode_job unmarshal mid fs =
     (let payload = job_field fs [] in
      if payload = [] then
        (Some \<lparr>msg_id = mid, msg_job = no_job\<rparr>, Some (ErrText ''Redis message does not contain job payload''))
      else case unmarshal payload of
             Inl e \<Rightarrow> (Some \<lparr>msg_id = mid, msg_job = no_job\<rparr>, Some (ErrText (''decode Redis job: '' @ error_text e)))
           | Inr job \<Rightarrow> (Some \<lparr>msg_id = mid, msg_job = job\<rparr>, None))"

fun decodeStreamMessage :: "(string \<Rightarrow> agent_job result) \<Rightarrow> resp \<Rightarrow> read_result" where
  "decodeStreamMessage unmarshal (RArr [RStr mid, RArr fs]) = decode_job unmarshal mid fs"
| "decodeStreamMessage unmarshal (RArr [RStr mid, other]) = (None, Some (ErrText ''invalid Redis message fields''))"
| "decodeStreamMessage unmarshal (RArr [other, fs]) = (None, Some (ErrText ''invalid Redis message id''))"
| "decodeStreamMessage unmarshal other = (None, Some (ErrText ''invalid Redis message''))"

section \<open>Operations\<close>

type_synonym 'r executor = "string list \<Rightarrow> ('r, resp) op"

definition queue_Ping :: "'r executor \<Rightarrow> ('r, unit) op" where
  "queue_Ping exec =
     bindS (exec [''PING'']) (\<lambda>v.
       if v \<noteq> RStr ''PONG'' then failS (ErrText ''unexpected Redis PING response'') else retS ())"

definition stream_full :: "redis_broker \<Rightarrow> resp \<Rightarrow> bool" where
  "stream_full b v = (case v of RInt count \<Rightarrow> count \<ge> rb_maxLength b | _ \<Rightarrow> False)"

definition Publish ::
    "(agent_job \<Rightarrow> string result) \<Rightarrow> 'r executor \<Rightarrow> redis_broker \<Rightarrow> agent_job \<Rightarrow> ('r, unit) op" where
  "Publish marshal exec b job =
     bindS (exec [''XLEN'', rb_stream b]) (\<lambda>len.
       if stream_full b len then failS ErrQueueFull
       else bindS (liftR (marshal job)) (\<lambda>payload.
            bindS (exec [''XADD'', rb_stream b, ''*'', ''job'', payload]) (\<lambda>_. retS ())))"

definition EnsureGroup :: "'r executor \<Rightarrow> redis_broker \<Rightarrow> ('r, unit) op" where
  "EnsureGroup exec b =
     tryS (exec [''XGROUP'', ''CREATE'', rb_stream b, rb_group b, ''0'', ''MKSTREAM'']) (\<lambda>r.
       case r of
         Inl e \<Rightarrow> if contains_str (error_text e) ''BUSYGROUP'' then retS () else failS e
       | Inr v \<Rightarrow> retS ())"

text \<open>The messages that XAUTOCLAIM hands over, if any.\<close>

fun claimed_message :: "resp \<Rightarrow> resp option" where
  "claimed_message (RArr (cursor # RArr (m # ms) # others)) = Some m"
| "claimed_message other = None"

fun group_message :: "resp \<Rightarrow> resp option result" where
  "group_message RNil = Inr None"
| "group_message (RArr (RArr [stream, RArr (m # ms)] # others)) = Inr (Some m)"
| "group_message (RArr (RArr [stream, other] # others)) = Inr None"
| "group_message (RArr (entry # others)) = Inl (ErrText ''invalid Redis stream entry'')"
| "group_message other = Inl (ErrText ''invalid Redis stream response'')"

definition claim_command :: "redis_broker \<Rightarrow> string \<Rightarrow> string list" where
  "claim_command b consumer =
     [''XAUTOCLAIM'', rb_stream b, rb_group b, consumer, ''60000'', ''0-0'', ''COUNT'', ''1'']"

definition read_command :: "redis_broker \<Rightarrow> string \<Rightarrow> string list" where
  "read_command b consumer =
     [''XREADGROUP'', ''GROUP'', rb_group b, consumer, ''COUNT'', ''1'', ''BLOCK'', ''1000'', ''STREAMS'',
      rb_stream b, ''>'']"

definition queue_Read ::
    "(string \<Rightarrow> agent_job result) \<Rightarrow> 'r executor \<Rightarrow> redis_broker \<Rightarrow> string \<Rightarrow> 'r \<Rightarrow> read_result \<times> 'r" where
  "queue_Read unmarshal exec b consumer r =
     (case exec (claim_command b consumer) r of
        (Inl e, r1) \<Rightarrow> ((None, Some e), r1)
      | (Inr claimed, r1) \<Rightarrow>
          (case claimed_message claimed of
             Some m \<Rightarrow> (decodeStreamMessage unmarshal m, r1)
           | None \<Rightarrow>
               (case exec (read_command b consumer) r1 of
                  (Inl e, r2) \<Rightarrow> ((None, Some e), r2)
                | (Inr v, r2) \<Rightarrow>
                    (case group_message v of
                       Inl e \<Rightarrow> ((None, Some e), r2)
                     | Inr None \<Rightarrow> ((None, None), r2)
                     | Inr (Some m) \<Rightarrow> (decodeStreamMessage unmarshal m, r2)))))"

definition Ack :: "'r executor \<Rightarrow> redis_broker \<Rightarrow> string \<Rightarrow> ('r, unit) op" where
  "Ack exec b mid =
     bindS (exec [''XACK'', rb_stream b, rb_group b, mid]) (\<lambda>_.
     bindS (exec [''XDEL'', rb_stream b, mid]) (\<lambda>_. retS ()))"

definition DeadLetter ::
    "(agent_job \<Rightarrow> string result) \<Rightarrow> 'r executor \<Rightarrow> redis_broker \<Rightarrow> queue_message \<Rightarrow> go_error \<Rightarrow> ('r, unit) op" where
  "DeadLetter marshal exec b message cause =
     bindS (liftR (marshal (msg_job message))) (\<lambda>payload.
     bindS (exec [''XADD'', rb_deadLetter b, ''*'', ''original_id'', msg_id message, ''error'',
       error_text cause, ''job'', payload]) (\<lambda>_. retS ()))"

section \<open>Depths and the dead-letter list\<close>

record queue_depths =
  dp_stream :: int
  dp_pending :: int
  dp_dead_letter :: int

fun int_or_zero :: "resp \<Rightarrow> int" where
  "int_or_zero (RInt i) = i"
| "int_or_zero other = 0"

fun str_or_empty :: "resp \<Rightarrow> string" where
  "str_or_empty (RStr s) = s"
| "str_or_empty other = []"

definition streamLength :: "'r executor \<Rightarrow> string \<Rightarrow> ('r, int) op" where
  "streamLength exec stream = bindS (exec [''XLEN'', stream]) (\<lambda>v. retS (int_or_zero v))"

fun pending_total :: "resp \<Rightarrow> int" where
  "pending_total (RArr (count # others)) = int_or_zero count"
| "pending_total other = 0"

definition pendingCount :: "'r executor \<Rightarrow> redis_broker \<Rightarrow> ('r, int) op" where
  "pendingCount exec b =
     tryS (exec [''XPENDING'', rb_stream b, rb_group b]) (\<lambda>r.
       case r of
         Inl e \<Rightarrow> if contains_str (error_text e) ''NOGROUP'' then retS 0 else failS e
       | Inr v \<Rightarrow> retS (pending_total v))"

definition Depths :: "'r executor \<Rightarrow> redis_broker \<Rightarrow> ('r, queue_depths) op" where
  "Depths exec b =
     bindS (streamLength exec (rb_stream b)) (\<lambda>stream.
     bindS (streamLength exec (rb_deadLetter b)) (\<lambda>deadLetter.
     bindS (pendingCount exec b) (\<lambda>pending.
     retS \<lparr>dp_stream = stream, dp_pending = pending, dp_dead_letter = deadLetter\<rparr>)))"

record dead_letter_entry =
  dle_id :: string
  dle_task_id :: string
  dle_task_type :: string
  dle_error :: string

text \<open>The cut text ends with the three bytes of an ellipsis.\<close>

definition ellipsis :: string where
  "ellipsis = [CHR 0xE2, CHR 0x80, CHR 0xA6]"

definition truncateCause :: "string \<Rightarrow> string" where
  "truncateCause cause = (if go_len cause \<le> 300 then cause else take 300 cause @ ellipsis)"

fun dead_letter_fields ::
    "(string \<Rightarrow> agent_job result) \<Rightarrow> resp list \<Rightarrow> dead_letter_entry \<Rightarrow> dead_letter_entry" where
  "dead_letter_fields unmarshal (name # field_value # fs) decoded =
     dead_letter_fields unmarshal fs
       (if str_or_empty name = ''error'' then decoded\<lparr>dle_error := truncateCause (str_or_empty field_value)\<rparr>
        else if str_or_empty name = ''job'' then
          (case unmarshal (str_or_empty field_value) of
             Inl e \<Rightarrow> decoded
           | Inr job \<Rightarrow> decoded\<lparr>dle_task_id := job_task_id job, dle_task_type := job_type job\<rparr>)
        else decoded)"
| "dead_letter_fields unmarshal fs decoded = decoded"

fun fields_of :: "resp \<Rightarrow> resp list" where
  "fields_of (RArr fs) = fs"
| "fields_of other = []"

fun dead_letter_of :: "(string \<Rightarrow> agent_job result) \<Rightarrow> resp \<Rightarrow> dead_letter_entry option" where
  "dead_letter_of unmarshal (RArr (mid # fs # others)) =
     Some (dead_letter_fields unmarshal (fields_of fs)
       \<lparr>dle_id = str_or_empty mid, dle_task_id = [], dle_task_type = [], dle_error = []\<rparr>)"
| "dead_letter_of unmarshal other = None"

definition dead_letter_limit :: "int \<Rightarrow> int" where
  "dead_letter_limit limit = (if limit \<le> 0 \<or> limit > 100 then 20 else limit)"

definition DeadLetterEntries ::
    "(string \<Rightarrow> agent_job result) \<Rightarrow> 'r executor \<Rightarrow> redis_broker \<Rightarrow> int \<Rightarrow> ('r, dead_letter_entry list) op" where
  "DeadLetterEntries unmarshal exec b limit =
     bindS (exec [''XREVRANGE'', rb_deadLetter b, ''+'', ''-'', ''COUNT'', int_text (dead_letter_limit limit)]) (\<lambda>v.
       retS (List.map_filter (dead_letter_of unmarshal) (fields_of v)))"

section \<open>The contract of a broker\<close>

text \<open>
  What the worker relies on: a set of waiting messages and a set of dead-lettered jobs. A failing operation
  may still have taken effect, because its reply can be lost.
\<close>

definition publish_contract ::
    "('s \<Rightarrow> (string \<times> agent_job) set) \<Rightarrow> ('s \<Rightarrow> agent_job set) \<Rightarrow> (agent_job \<Rightarrow> ('s, unit) op) \<Rightarrow> bool" where
  "publish_contract waiting dead publish \<longleftrightarrow>
     (\<forall>job s. case publish job s of (r, s') \<Rightarrow>
        dead s' = dead s \<and>
        ((\<exists>mid. mid \<notin> fst ` waiting s \<and> waiting s' = insert (mid, job) (waiting s)) \<or>
         (\<exists>e. r = Inl e) \<and> waiting s' = waiting s))"

definition ack_contract ::
    "('s \<Rightarrow> (string \<times> agent_job) set) \<Rightarrow> ('s \<Rightarrow> agent_job set) \<Rightarrow> (string \<Rightarrow> ('s, unit) op) \<Rightarrow> bool" where
  "ack_contract waiting dead ack \<longleftrightarrow>
     (\<forall>mid s. case ack mid s of (r, s') \<Rightarrow>
        dead s' = dead s \<and>
        (waiting s' = {m \<in> waiting s. fst m \<noteq> mid} \<or> (\<exists>e. r = Inl e) \<and> waiting s' = waiting s))"

definition dead_letter_contract ::
    "('s \<Rightarrow> (string \<times> agent_job) set) \<Rightarrow> ('s \<Rightarrow> agent_job set) \<Rightarrow>
       (queue_message \<Rightarrow> go_error \<Rightarrow> ('s, unit) op) \<Rightarrow> bool" where
  "dead_letter_contract waiting dead dead_letter \<longleftrightarrow>
     (\<forall>message cause s. case dead_letter message cause s of (r, s') \<Rightarrow>
        waiting s' = waiting s \<and>
        (dead s' = insert (msg_job message) (dead s) \<or> (\<exists>e. r = Inl e) \<and> dead s' = dead s))"

section \<open>Redis streams\<close>

text \<open>
  The documented effect of the commands that the broker sends, on a view of the server as a list of entries
  per stream: an identifier and the field names and values. XLEN counts, XADD appends an entry under a new
  identifier, XACK changes no stream and XDEL deletes an entry. A command that fails has its effect or none.
\<close>

type_synonym 'r stream_view = "'r \<Rightarrow> string \<Rightarrow> (string \<times> string list) list"

definition xlen_counts :: "'r executor \<Rightarrow> 'r stream_view \<Rightarrow> bool" where
  "xlen_counts exec view \<longleftrightarrow>
     (\<forall>s k v s'. exec [''XLEN'', k] s = (v, s') \<longrightarrow>
        view s' = view s \<and> (\<forall>x. v = Inr x \<longrightarrow> x = RInt (go_len (view s k))))"

definition xadd_appends :: "'r executor \<Rightarrow> 'r stream_view \<Rightarrow> bool" where
  "xadd_appends exec view \<longleftrightarrow>
     (\<forall>s k fs v s'. exec ([''XADD'', k, ''*''] @ fs) s = (v, s') \<longrightarrow>
        (\<exists>mid. mid \<notin> fst ` set (view s k) \<and> view s' = (view s)(k := view s k @ [(mid, fs)])) \<or>
        (\<exists>e. v = Inl e) \<and> view s' = view s)"

definition xack_keeps :: "'r executor \<Rightarrow> 'r stream_view \<Rightarrow> bool" where
  "xack_keeps exec view \<longleftrightarrow> (\<forall>s k g mid v s'. exec [''XACK'', k, g, mid] s = (v, s') \<longrightarrow> view s' = view s)"

definition xdel_deletes :: "'r executor \<Rightarrow> 'r stream_view \<Rightarrow> bool" where
  "xdel_deletes exec view \<longleftrightarrow>
     (\<forall>s k mid v s'. exec [''XDEL'', k, mid] s = (v, s') \<longrightarrow>
        view s' = (view s)(k := filter (\<lambda>e. fst e \<noteq> mid) (view s k)) \<or> (\<exists>e. v = Inl e) \<and> view s' = view s)"

definition stream_commands :: "'r executor \<Rightarrow> 'r stream_view \<Rightarrow> bool" where
  "stream_commands exec view \<longleftrightarrow>
     xlen_counts exec view \<and> xadd_appends exec view \<and> xack_keeps exec view \<and> xdel_deletes exec view"

text \<open>The JSON encoding of a job decodes to the job. This is what encoding/json does for jobs whose strings are valid UTF-8, and an
  idealisation for others: it replaces invalid bytes by U+FFFD.\<close>

definition json_roundtrip :: "(agent_job \<Rightarrow> string result) \<Rightarrow> (string \<Rightarrow> agent_job result) \<Rightarrow> bool" where
  "json_roundtrip marshal unmarshal \<longleftrightarrow>
     (\<forall>job payload. marshal job = Inr payload \<longrightarrow> payload \<noteq> [] \<and> unmarshal payload = Inr job)"

text \<open>The job of an entry, as the broker reads it.\<close>

definition entry_job :: "(string \<Rightarrow> agent_job result) \<Rightarrow> string list \<Rightarrow> agent_job option" where
  "entry_job unmarshal fs =
     (case decode_job unmarshal [] (map RStr fs) of (Some m, None) \<Rightarrow> Some (msg_job m) | _ \<Rightarrow> None)"

definition waiting_jobs ::
    "(string \<Rightarrow> agent_job result) \<Rightarrow> 'r stream_view \<Rightarrow> redis_broker \<Rightarrow> 'r \<Rightarrow> (string \<times> agent_job) set" where
  "waiting_jobs unmarshal view b s =
     {(mid, job). \<exists>fs. (mid, fs) \<in> set (view s (rb_stream b)) \<and> entry_job unmarshal fs = Some job}"

definition dead_jobs ::
    "(string \<Rightarrow> agent_job result) \<Rightarrow> 'r stream_view \<Rightarrow> redis_broker \<Rightarrow> 'r \<Rightarrow> agent_job set" where
  "dead_jobs unmarshal view b s =
     {job. \<exists>mid fs. (mid, fs) \<in> set (view s (rb_deadLetter b)) \<and> entry_job unmarshal fs = Some job}"

lemma entry_job_published:
  "json_roundtrip marshal unmarshal \<Longrightarrow> marshal job = Inr payload \<Longrightarrow>
     entry_job unmarshal [''job'', payload] = Some job"
  by (simp add: entry_job_def decode_job_def json_roundtrip_def)

lemma entry_job_dead:
  "json_roundtrip marshal unmarshal \<Longrightarrow> marshal job = Inr payload \<Longrightarrow>
     entry_job unmarshal [''original_id'', mid, ''error'', cause, ''job'', payload] = Some job"
  by (simp add: entry_job_def decode_job_def json_roundtrip_def)

lemma stream_names_differ: "NewRedisBroker parse rawURL stream grp maxlen = Inr b \<Longrightarrow> rb_deadLetter b \<noteq> rb_stream b"
  by (auto simp: NewRedisBroker_def Let_def split: sum.splits if_splits)

lemma same_view:
  assumes "view s' = view s"
  shows "waiting_jobs unmarshal view b s' = waiting_jobs unmarshal view b s"
    and "dead_jobs unmarshal view b s' = dead_jobs unmarshal view b s"
  using assms by (simp_all add: waiting_jobs_def dead_jobs_def)

lemma stream_append:
  assumes "view s' = (view s)(rb_stream b := view s (rb_stream b) @ [(mid, fs)])"
    and "entry_job unmarshal fs = Some job" and "rb_deadLetter b \<noteq> rb_stream b"
  shows "waiting_jobs unmarshal view b s' = insert (mid, job) (waiting_jobs unmarshal view b s)"
    and "dead_jobs unmarshal view b s' = dead_jobs unmarshal view b s"
  using assms by (auto simp: waiting_jobs_def dead_jobs_def)

lemma dead_append:
  assumes "view s' = (view s)(rb_deadLetter b := view s (rb_deadLetter b) @ [(mid, fs)])"
    and "entry_job unmarshal fs = Some job" and "rb_deadLetter b \<noteq> rb_stream b"
  shows "dead_jobs unmarshal view b s' = insert job (dead_jobs unmarshal view b s)"
    and "waiting_jobs unmarshal view b s' = waiting_jobs unmarshal view b s"
  using assms by (auto simp: waiting_jobs_def dead_jobs_def)

lemma stream_delete:
  assumes "view s' = (view s)(rb_stream b := filter (\<lambda>e. fst e \<noteq> mid) (view s (rb_stream b)))"
    and "rb_deadLetter b \<noteq> rb_stream b"
  shows "waiting_jobs unmarshal view b s' = {m \<in> waiting_jobs unmarshal view b s. fst m \<noteq> mid}"
    and "dead_jobs unmarshal view b s' = dead_jobs unmarshal view b s"
  using assms by (auto simp: waiting_jobs_def dead_jobs_def)

lemma new_id: "mid \<notin> fst ` set (view s (rb_stream b)) \<Longrightarrow> mid \<notin> fst ` waiting_jobs unmarshal view b s"
  by (force simp: waiting_jobs_def)

lemma Publish_contract:
  assumes "stream_commands exec view" and "json_roundtrip marshal unmarshal" and "rb_deadLetter b \<noteq> rb_stream b"
  shows "publish_contract (waiting_jobs unmarshal view b) (dead_jobs unmarshal view b) (Publish marshal exec b)"
    (is "publish_contract ?waiting ?dead _")
  unfolding publish_contract_def
proof (intro allI)
  fix job s
  obtain r1 s1 where len: "exec [''XLEN'', rb_stream b] s = (r1, s1)" by fastforce
  then have view1: "view s1 = view s"
    using assms(1) by (simp add: stream_commands_def xlen_counts_def)
  show "case Publish marshal exec b job s of (r, s') \<Rightarrow>
      ?dead s' = ?dead s \<and>
      ((\<exists>mid. mid \<notin> fst ` ?waiting s \<and> ?waiting s' = insert (mid, job) (?waiting s)) \<or>
       (\<exists>e. r = Inl e) \<and> ?waiting s' = ?waiting s)"
  proof (cases "\<exists>x payload. r1 = Inr x \<and> \<not> stream_full b x \<and> marshal job = Inr payload")
    case False
    then show ?thesis using len same_view [of view s1 s, OF view1]
      by (cases r1; cases "marshal job") (auto simp: Publish_def bindS_def)
  next
    case True
    then obtain x payload where ok: "r1 = Inr x" "\<not> stream_full b x" "marshal job = Inr payload" by blast
    obtain r2 s2 where add: "exec [''XADD'', rb_stream b, ''*'', ''job'', payload] s1 = (r2, s2)" by fastforce
    have run: "Publish marshal exec b job s = ((case r2 of Inl e \<Rightarrow> Inl e | Inr v \<Rightarrow> Inr ()), s2)"
      using len ok add by (cases r2) (simp_all add: Publish_def bindS_def)
    have job: "entry_job unmarshal [''job'', payload] = Some job"
      by (rule entry_job_published [OF assms(2) ok(3)])
    have "xadd_appends exec view" using assms(1) by (simp add: stream_commands_def)
    then consider (added) mid where "mid \<notin> fst ` set (view s (rb_stream b))"
        "view s2 = (view s)(rb_stream b := view s (rb_stream b) @ [(mid, [''job'', payload])])"
      | (failed) e where "r2 = Inl e" "view s2 = view s"
      using add view1 unfolding xadd_appends_def
      by (metis append_Cons append_Nil)
    then show ?thesis
    proof cases
      case added
      have "mid \<notin> fst ` ?waiting s" by (rule new_id [where view = view, OF added(1)])
      with stream_append [where view = view, OF added(2) job assms(3)] show ?thesis
        unfolding run by (simp only: prod.case) blast
    next
      case failed
      with run same_view [where view = view, OF failed(2)] show ?thesis by simp
    qed
  qed
qed

lemma Ack_contract:
  assumes "stream_commands exec view" and "rb_deadLetter b \<noteq> rb_stream b"
  shows "ack_contract (waiting_jobs unmarshal view b) (dead_jobs unmarshal view b) (Ack exec b)"
    (is "ack_contract ?waiting ?dead _")
  unfolding ack_contract_def
proof (intro allI)
  fix mid s
  obtain r1 s1 where xack: "exec [''XACK'', rb_stream b, rb_group b, mid] s = (r1, s1)" by fastforce
  obtain r2 s2 where xdel: "exec [''XDEL'', rb_stream b, mid] s1 = (r2, s2)" by fastforce
  have view1: "view s1 = view s"
    using assms(1) xack by (simp add: stream_commands_def xack_keeps_def)
  have view2: "view s2 = (view s)(rb_stream b := filter (\<lambda>e. fst e \<noteq> mid) (view s (rb_stream b))) \<or>
      (\<exists>e. r2 = Inl e) \<and> view s2 = view s"
    using assms(1) xdel view1 unfolding stream_commands_def xdel_deletes_def by metis
  show "case Ack exec b mid s of (r, s') \<Rightarrow>
      ?dead s' = ?dead s \<and>
      (?waiting s' = {m \<in> ?waiting s. fst m \<noteq> mid} \<or> (\<exists>e. r = Inl e) \<and> ?waiting s' = ?waiting s)"
  proof (cases r1)
    case (Inl e)
    with xack same_view [where view = view, OF view1] show ?thesis by (simp add: Ack_def bindS_def)
  next
    case (Inr v)
    have run: "Ack exec b mid s = ((case r2 of Inl e \<Rightarrow> Inl e | Inr v \<Rightarrow> Inr ()), s2)"
      using xack Inr xdel by (cases r2) (simp_all add: Ack_def bindS_def)
    from view2 show ?thesis
    proof
      assume "view s2 = (view s)(rb_stream b := filter (\<lambda>e. fst e \<noteq> mid) (view s (rb_stream b)))"
      from stream_delete [where view = view, OF this assms(2)] show ?thesis
        unfolding run by (simp only: prod.case) blast
    next
      assume failed: "(\<exists>e. r2 = Inl e) \<and> view s2 = view s"
      with same_view [where view = view, of s2 s] show ?thesis unfolding run by auto
    qed
  qed
qed

lemma DeadLetter_contract:
  assumes "stream_commands exec view" and "json_roundtrip marshal unmarshal" and "rb_deadLetter b \<noteq> rb_stream b"
  shows "dead_letter_contract (waiting_jobs unmarshal view b) (dead_jobs unmarshal view b) (DeadLetter marshal exec b)"
    (is "dead_letter_contract ?waiting ?dead _")
  unfolding dead_letter_contract_def
proof (intro allI)
  fix message cause s
  show "case DeadLetter marshal exec b message cause s of (r, s') \<Rightarrow>
      ?waiting s' = ?waiting s \<and>
      (?dead s' = insert (msg_job message) (?dead s) \<or> (\<exists>e. r = Inl e) \<and> ?dead s' = ?dead s)"
  proof (cases "marshal (msg_job message)")
    case (Inl e)
    then show ?thesis by (simp add: DeadLetter_def bindS_def)
  next
    case (Inr payload)
    let ?fs = "[''original_id'', msg_id message, ''error'', error_text cause, ''job'', payload]"
    obtain r1 s1 where add: "exec ([''XADD'', rb_deadLetter b, ''*''] @ ?fs) s = (r1, s1)" by fastforce
    have run: "DeadLetter marshal exec b message cause s = ((case r1 of Inl e \<Rightarrow> Inl e | Inr v \<Rightarrow> Inr ()), s1)"
      using Inr add by (cases r1) (simp_all add: DeadLetter_def bindS_def)
    have job: "entry_job unmarshal ?fs = Some (msg_job message)"
      by (rule entry_job_dead [OF assms(2) Inr])
    have "(\<exists>mid. view s1 = (view s)(rb_deadLetter b := view s (rb_deadLetter b) @ [(mid, ?fs)])) \<or>
        (\<exists>e. r1 = Inl e) \<and> view s1 = view s"
      using assms(1) add unfolding stream_commands_def xadd_appends_def by metis
    then show ?thesis
    proof
      assume "\<exists>mid. view s1 = (view s)(rb_deadLetter b := view s (rb_deadLetter b) @ [(mid, ?fs)])"
      then obtain mid where "view s1 = (view s)(rb_deadLetter b := view s (rb_deadLetter b) @ [(mid, ?fs)])" by blast
      from dead_append [where view = view, OF this job assms(3)] show ?thesis
        unfolding run by (simp only: prod.case) blast
    next
      assume "(\<exists>e. r1 = Inl e) \<and> view s1 = view s"
      with same_view [where view = view, of s1 s] show ?thesis unfolding run by auto
    qed
  qed
qed

section \<open>Properties\<close>

text \<open>C17: On a server whose stream commands have their documented effect, the Redis broker refines the contract
  of a broker: publishing adds the job under a new identifier, acknowledging removes that message and no
  other, dead-lettering records the job and removes nothing, and a failing operation has its whole effect
  or none.\<close>

theorem RedisBroker_refines_contract:
  assumes "stream_commands exec view" and "json_roundtrip marshal unmarshal"
    and "NewRedisBroker parse_url rawURL stream groupName maxLength = Inr b"
  shows "publish_contract (waiting_jobs unmarshal view b) (dead_jobs unmarshal view b) (Publish marshal exec b) \<and>
     ack_contract (waiting_jobs unmarshal view b) (dead_jobs unmarshal view b) (Ack exec b) \<and>
     dead_letter_contract (waiting_jobs unmarshal view b) (dead_jobs unmarshal view b) (DeadLetter marshal exec b)"
  using Publish_contract Ack_contract DeadLetter_contract assms stream_names_differ by blast

text \<open>A server for the witnesses: its state is the entries of each stream.\<close>

definition unused_id :: "(string \<times> string list) list \<Rightarrow> string" where
  "unused_id es = replicate (Suc (sum_list (map (\<lambda>e. length (fst e)) es))) CHR ''x''"

fun sample_exec :: "(string \<Rightarrow> (string \<times> string list) list) executor" where
  "sample_exec [cmd, k] s = (if cmd = ''XLEN'' then (Inr (RInt (go_len (s k))), s) else (Inr RNil, s))"
| "sample_exec [cmd, k, mid] s =
     (if cmd = ''XADD'' \<and> mid = ''*'' then (Inr (RStr (unused_id (s k))), s(k := s k @ [(unused_id (s k), [])]))
      else if cmd = ''XDEL'' then (Inr (RInt 1), s(k := filter (\<lambda>e. fst e \<noteq> mid) (s k))) else (Inr RNil, s))"
| "sample_exec (cmd # k # star # fs) s =
     (if cmd = ''XADD'' \<and> star = ''*'' then (Inr (RStr (unused_id (s k))), s(k := s k @ [(unused_id (s k), fs)]))
      else (Inr RNil, s))"
| "sample_exec args s = (Inr RNil, s)"

lemma unused_id_new: "unused_id es \<notin> fst ` set es"
proof
  assume "unused_id es \<in> fst ` set es"
  then obtain e where "e \<in> set es" "unused_id es = fst e" by auto
  then have "length (unused_id es) \<le> sum_list (map (\<lambda>e. length (fst e)) es)"
    using member_le_sum_list [of "length (fst e)" "map (\<lambda>e. length (fst e)) es"] by simp
  then show False by (simp add: unused_id_def)
qed

lemma sample_exec_streams: "stream_commands sample_exec (\<lambda>s. s)"
proof -
  have add: "sample_exec (''XADD'' # k # ''*'' # fs) s =
      (Inr (RStr (unused_id (s k))), s(k := s k @ [(unused_id (s k), fs)]))" for k fs s
    by (cases fs) simp_all
  have "xadd_appends sample_exec (\<lambda>s. s)"
    unfolding xadd_appends_def using unused_id_new by (fastforce simp: add)
  then show ?thesis
    by (simp add: stream_commands_def xlen_counts_def xack_keeps_def xdel_deletes_def)
qed

definition sample_url :: parsed_url where
  "sample_url = \<lparr>url_scheme = ''redis'', url_host = ''redis:6379'', url_hostname = ''redis'', url_port = ''6379'',
     url_path = ''/2'', url_username = [], url_password = ''secret''\<rparr>"

definition sample_broker :: redis_broker where
  "sample_broker = \<lparr>rb_address = ''redis:6379'', rb_username = [], rb_password = ''secret'', rb_stream = ''jobs'',
     rb_group = ''workers'', rb_deadLetter = ''jobs:dead-letter'', rb_database = 2, rb_maxLength = 1000\<rparr>"

lemma sample_broker_new: "NewRedisBroker (\<lambda>u. Inr sample_url) ''redis://redis:6379/2'' ''jobs'' ''workers'' 0 = Inr sample_broker"
  by code_simp

definition sample_marshal :: "agent_job \<Rightarrow> string result" where
  "sample_marshal job = (if job = no_job then Inr ''{}'' else Inl (ErrText ''unsupported''))"

lemma sample_json: "json_roundtrip sample_marshal (\<lambda>p. Inr no_job)"
  by (simp add: json_roundtrip_def sample_marshal_def)

lemma RedisBroker_refines_contract_witness:
  "publish_contract (waiting_jobs (\<lambda>p. Inr no_job) (\<lambda>s. s) sample_broker)
     (dead_jobs (\<lambda>p. Inr no_job) (\<lambda>s. s) sample_broker) (Publish sample_marshal sample_exec sample_broker)"
  using RedisBroker_refines_contract [OF sample_exec_streams sample_json sample_broker_new] by blast

text \<open>The job that \<open>Publish\<close> appends to the stream is the job that the worker decodes from that entry, under
  whatever identifier the server gives it.\<close>

theorem published_job_read_back:
  assumes "json_roundtrip marshal unmarshal" and "Publish marshal exec b job s = (Inr (), s')"
  shows "\<exists>fs v s1. exec ([''XADD'', rb_stream b, ''*''] @ fs) s1 = (Inr v, s') \<and>
     decodeStreamMessage unmarshal (RArr [RStr mid, RArr (map RStr fs)]) =
       (Some \<lparr>msg_id = mid, msg_job = job\<rparr>, None)"
proof -
  obtain len s1 payload v where "exec [''XLEN'', rb_stream b] s = (Inr len, s1)" "marshal job = Inr payload"
    "exec [''XADD'', rb_stream b, ''*'', ''job'', payload] s1 = (Inr v, s')"
    using assms(2) by (auto simp: Publish_def bindS_Inr_iff split: if_splits)
  moreover have "decodeStreamMessage unmarshal (RArr [RStr mid, RArr (map RStr [''job'', payload])]) =
      (Some \<lparr>msg_id = mid, msg_job = job\<rparr>, None)"
    using assms(1) \<open>marshal job = Inr payload\<close> by (simp add: decode_job_def json_roundtrip_def)
  ultimately show ?thesis by (intro exI [of _ "[''job'', payload]"]) auto
qed

lemma published_job_read_back_witness:
  "\<exists>fs v s1. sample_exec ([''XADD'', ''jobs'', ''*''] @ fs) s1 = (Inr v, (\<lambda>k. [])(''jobs'' := [(''x'', [''job'', ''{}''])])) \<and>
     decodeStreamMessage (\<lambda>p. Inr no_job) (RArr [RStr ''1-0'', RArr (map RStr fs)]) =
       (Some \<lparr>msg_id = ''1-0'', msg_job = no_job\<rparr>, None)"
proof -
  have "Publish sample_marshal sample_exec sample_broker no_job (\<lambda>k. []) =
      (Inr (), (\<lambda>k. [])(''jobs'' := [(''x'', [''job'', ''{}''])]))"
    by (simp add: Publish_def bindS_def stream_full_def sample_marshal_def sample_broker_def unused_id_def)
  from published_job_read_back [OF sample_json this] show ?thesis by (simp add: sample_broker_def)
qed

definition visible_job :: "agent_job result \<Rightarrow> (string \<times> string) option" where
  "visible_job r = (case r of Inl e \<Rightarrow> None | Inr job \<Rightarrow> Some (job_task_id job, job_type job))"

lemma dead_letter_fields_visible:
  assumes "\<And>p. visible_job (u p) = visible_job (u' p)"
  shows "dead_letter_fields u fs d = dead_letter_fields u' fs d"
proof (induction fs arbitrary: d rule: induct_list012)
  case (3 name v fs)
  have "(case u (str_or_empty v) of Inl e \<Rightarrow> d
        | Inr job \<Rightarrow> d\<lparr>dle_task_id := job_task_id job, dle_task_type := job_type job\<rparr>) =
      (case u' (str_or_empty v) of Inl e \<Rightarrow> d
        | Inr job \<Rightarrow> d\<lparr>dle_task_id := job_task_id job, dle_task_type := job_type job\<rparr>)"
    using assms [of "str_or_empty v"] by (auto simp: visible_job_def split: sum.splits)
  with 3(1) show ?case by simp
qed simp_all

lemma dead_letter_of_visible:
  assumes "\<And>p. visible_job (u p) = visible_job (u' p)"
  shows "dead_letter_of u v = dead_letter_of u' v"
  using dead_letter_fields_visible [of u u', OF assms]
  by (induction u v rule: dead_letter_of.induct) simp_all

lemma truncateCause_bound: "go_len (truncateCause t) \<le> 303"
  by (simp add: truncateCause_def ellipsis_def go_len_def)

lemma dead_letter_fields_bound:
  "go_len (dle_error d) \<le> 303 \<Longrightarrow> go_len (dle_error (dead_letter_fields u fs d)) \<le> 303"
proof (induction fs arbitrary: d rule: induct_list012)
  case (3 name v fs)
  show ?case
    using 3(3) truncateCause_bound [of "str_or_empty v"]
    by (cases "u (str_or_empty v)") (simp_all add: 3(1))
qed simp_all

lemma dead_letter_of_bound: "dead_letter_of u v = Some d \<Longrightarrow> go_len (dle_error d) \<le> 303"
  by (induction u v rule: dead_letter_of.induct) (auto intro!: dead_letter_fields_bound)

text \<open>The list of dead letters shows of a stored job only its task identifier and type: two decoders that
  agree on those give the same list, whatever else the jobs contain. No cause of a failure takes more than
  303 bytes in it.\<close>

theorem DeadLetterEntries_hide_jobs:
  assumes "\<And>p. visible_job (u p) = visible_job (u' p)"
  shows "DeadLetterEntries u exec b limit s = DeadLetterEntries u' exec b limit s \<and>
     (case fst (DeadLetterEntries u exec b limit s) of
        Inl e \<Rightarrow> True | Inr entries \<Rightarrow> list_all (\<lambda>d. go_len (dle_error d) \<le> 303) entries)"
proof -
  have "dead_letter_of u = dead_letter_of u'"
    by (rule ext) (rule dead_letter_of_visible [OF assms])
  then have same: "DeadLetterEntries u exec b limit s = DeadLetterEntries u' exec b limit s"
    by (simp add: DeadLetterEntries_def)
  have "list_all (\<lambda>d. go_len (dle_error d) \<le> 303) (List.map_filter (dead_letter_of u) vs)" for vs
    by (induction vs) (auto simp: List.map_filter_simps dest: dead_letter_of_bound split: option.split)
  then have "case fst (DeadLetterEntries u exec b limit s) of
      Inl e \<Rightarrow> True | Inr entries \<Rightarrow> list_all (\<lambda>d. go_len (dle_error d) \<le> 303) entries"
    by (simp add: DeadLetterEntries_def bindS_def split: sum.split prod.split)
  with same show ?thesis by blast
qed

lemma DeadLetterEntries_hide_jobs_witness:
  "DeadLetterEntries (\<lambda>p. Inr no_job) sample_exec sample_broker 5 (\<lambda>k. []) =
     DeadLetterEntries (\<lambda>p. Inr (no_job\<lparr>job_session_id := p\<rparr>)) sample_exec sample_broker 5 (\<lambda>k. [])"
proof -
  have "visible_job ((\<lambda>p. Inr no_job) p) = visible_job ((\<lambda>p. Inr (no_job\<lparr>job_session_id := p\<rparr>)) p)" for p
    by (simp add: visible_job_def)
  then show ?thesis
    by (intro DeadLetterEntries_hide_jobs [THEN conjunct1]) simp
qed

section \<open>The commands of a connection\<close>

text \<open>The commands that one call of \<open>command\<close> has to write, and a server that records what is written to it.\<close>

definition session_commands :: "redis_broker \<Rightarrow> string list \<Rightarrow> string list list" where
  "session_commands b args =
     (if rb_password b \<noteq> [] then [auth_command b] else []) @
     (if rb_database b \<noteq> 0 then [[''SELECT'', int_text (rb_database b)]] else []) @ [args]"

definition recording :: "'r redis_server \<Rightarrow> ('r \<times> string list) redis_server" where
  "recording server =
     \<lparr>srv_dial = (\<lambda>addr (r, written). case srv_dial server addr r of (e, r') \<Rightarrow> (e, (r', written))),
      srv_write = (\<lambda>bytes (r, written).
        case srv_write server bytes r of (e, sent, r') \<Rightarrow> (e, sent, (r', written @ [bytes])))\<rparr>"

lemma exchange_recorded:
  "\<exists>v r' inbox'. exchange (recording server) args ((r, written), inbox) =
     (v, ((r', written @ [writeCommand args]), inbox'))"
proof -
  obtain e sent r' where "srv_write server (writeCommand args) r = (e, sent, r')"
    by (cases "srv_write server (writeCommand args) r") auto
  then show ?thesis
    by (cases e) (auto simp: exchange_def bindS_def send_command_def receive_reply_def recording_def split: prod.split)
qed

text \<open>A run of exchanges, each after the success of the one before.\<close>

primrec exchanges :: "'r redis_server \<Rightarrow> string list list \<Rightarrow> ('r \<times> string, resp) op" where
  "exchanges server [] = retS RNil"
| "exchanges server (c # cs) =
     (if cs = [] then exchange server c else bindS (exchange server c) (\<lambda>_. exchanges server cs))"

lemma session_exchanges:
  "bindS (handshake server b) (\<lambda>_. exchange server args) = exchanges server (session_commands b args)"
  by (simp add: handshake_def session_commands_def bindS_assoc bindS_ret_left)

lemma exchanges_recorded:
  "\<exists>v r' n inbox'. exchanges (recording server) cs ((r, written), inbox) =
     (v, ((r', written @ map writeCommand (take n cs)), inbox')) \<and> ((\<exists>x. v = Inr x) \<longrightarrow> n = length cs)"
proof (induction cs arbitrary: r written inbox)
  case Nil
  then show ?case by (auto intro: exI [of _ 0])
next
  case (Cons c cs)
  obtain v r' inbox' where first: "exchange (recording server) c ((r, written), inbox) =
      (v, ((r', written @ [writeCommand c]), inbox'))"
    using exchange_recorded [of server c r written inbox] by blast
  show ?case
  proof (cases "cs = [] \<or> (\<exists>e. v = Inl e)")
    case True
    then show ?thesis
      using first by (intro exI [of _ v] exI [of _ r'] exI [of _ 1] exI [of _ inbox']) (auto simp: bindS_def)
  next
    case False
    then obtain x where v: "v = Inr x" by (cases v) auto
    obtain w r'' n inbox'' where "exchanges (recording server) cs ((r', written @ [writeCommand c]), inbox') =
        (w, ((r'', (written @ [writeCommand c]) @ map writeCommand (take n cs)), inbox''))"
      "(\<exists>x. w = Inr x) \<longrightarrow> n = length cs"
      using Cons.IH [of r' "written @ [writeCommand c]" inbox'] by blast
    with first v False show ?thesis
      by (intro exI [of _ w] exI [of _ r''] exI [of _ "Suc n"] exI [of _ inbox'']) (auto simp: bindS_def)
  qed
qed

text \<open>On its fresh connection a command writes the authentication, the choice of the database and the command
  itself, in this order, and stops at the first that fails: nothing is ever sent before the server has
  accepted the authentication, and a command that returns a value was sent whole and last.\<close>

theorem redis_command_sequence:
  "case redis_command (recording server) b args (r, []) of (v, (r', written)) \<Rightarrow>
     \<exists>n. written = map writeCommand (take n (session_commands b args)) \<and>
       ((\<exists>e. v = Inl e) \<or> n = length (session_commands b args))"
proof (cases "srv_dial server (rb_address b) r")
  case (Pair e r1)
  then have dial: "srv_dial (recording server) (rb_address b) (r, []) = (e, (r1, []))"
    by (simp add: recording_def)
  show ?thesis
  proof (cases e)
    case None
    obtain v r' n inbox where "exchanges (recording server) (session_commands b args) ((r1, []), []) =
        (v, ((r', [] @ map writeCommand (take n (session_commands b args))), inbox))"
      "(\<exists>x. v = Inr x) \<longrightarrow> n = length (session_commands b args)"
      using exchanges_recorded [of server "session_commands b args" r1 "[]" "[]"] by blast
    then have "redis_command (recording server) b args (r, []) =
        (v, (r', map writeCommand (take n (session_commands b args)))) \<and> ((\<exists>e. v = Inl e) \<or> n = length (session_commands b args))"
      using dial None by (cases v) (simp_all add: redis_command_def session_exchanges)
    then show ?thesis by (simp only: prod.case) blast
  next
    case (Some err)
    with dial show ?thesis by (auto simp: redis_command_def intro: exI [of _ 0])
  qed
qed

end
