(* ===== verification/Agent_Worker.thy ===== *)
theory Agent_Worker imports Agent_Client Redis_Broker Sample_Run begin

text \<open>
  The worker of backend/cmd/agent-worker/main.go: what it does with one message of the queue, its loop turn, and
  the run of one job through its retries. It is stated over the interfaces that the code uses (the executor
  of tasks and the broker), then composed with the workflow and the Redis broker. Logging is the value that
  an operation returns. A panic anywhere stops the worker.
\<close>

section \<open>One message\<close>

record 's task_worker =
  tw_execute :: "agent_job \<Rightarrow> ('s, unit) op"
  tw_retry :: "agent_job \<Rightarrow> ('s, unit) op"
  tw_publish :: "agent_job \<Rightarrow> ('s, unit) op"
  tw_ack :: "string \<Rightarrow> ('s, unit) op"
  tw_dead_letter :: "queue_message \<Rightarrow> go_error \<Rightarrow> ('s, unit) op"

text \<open>What the worker logs of a message when it is done with it.\<close>

datatype disposition =
    TaskDone
  | TaskAckFailed go_error
  | TaskRetryScheduled agent_job
  | TaskDeadLetterFailed go_error go_error
  | TaskFailedPermanently go_error
  | WorkerCrashed string

definition run_call :: "('s, 'a) op \<Rightarrow> ('a result \<Rightarrow> 's \<Rightarrow> disposition \<times> 's) \<Rightarrow> 's \<Rightarrow> disposition \<times> 's" where
  "run_call m k s =
     (case m s of (r, s') \<Rightarrow> (case r of Inl (Panic t) \<Rightarrow> (WorkerCrashed t, s') | _ \<Rightarrow> k r s'))"

fun temporary :: "go_error \<Rightarrow> bool" where
  "temporary (AgentErr status code detail) \<longleftrightarrow>
     status = 502 \<and> (code = ''agent_engine_unreachable'' \<or> code = ''agent_engine_error'') \<or>
     status = 503 \<or> status = 504"
| "temporary err \<longleftrightarrow> False"

definition jobRequestID :: "agent_job \<Rightarrow> string" where
  "jobRequestID job =
     (if pr_request_id (job_request job) \<noteq> [] then pr_request_id (job_request job)
      else cg_request_id (job_code_generation_request job))"

text \<open>The end of \<open>process\<close>: the message goes to the dead letters and is acknowledged.\<close>

definition give_up :: "'s task_worker \<Rightarrow> queue_message \<Rightarrow> go_error \<Rightarrow> 's \<Rightarrow> disposition \<times> 's" where
  "give_up w message err =
     run_call (tw_dead_letter w message err) (\<lambda>r.
       case r of
         Inl deadLetterErr \<Rightarrow> (\<lambda>s. (TaskDeadLetterFailed deadLetterErr err, s))
       | Inr _ \<Rightarrow> run_call (tw_ack w (msg_id message)) (\<lambda>_ s. (TaskFailedPermanently err, s)))"

text \<open>Another attempt: the task is reset, the job published again, and the message acknowledged.\<close>

definition schedule_retry :: "'s task_worker \<Rightarrow> queue_message \<Rightarrow> go_error \<Rightarrow> 's \<Rightarrow> disposition \<times> 's" where
  "schedule_retry w message err =
     run_call (tw_retry w (msg_job message)) (\<lambda>r.
       case r of
         Inl retryErr \<Rightarrow> give_up w message err
       | Inr _ \<Rightarrow>
           run_call (tw_publish w (msg_job message)) (\<lambda>r.
             case r of
               Inl publishErr \<Rightarrow> give_up w message err
             | Inr _ \<Rightarrow> run_call (tw_ack w (msg_id message)) (\<lambda>_ s. (TaskRetryScheduled (msg_job message), s))))"

definition next_attempt :: "agent_job \<Rightarrow> agent_job" where
  "next_attempt job = job\<lparr>job_attempt := job_attempt job + 1\<rparr>"

definition process :: "'s task_worker \<Rightarrow> int \<Rightarrow> queue_message \<Rightarrow> 's \<Rightarrow> disposition \<times> 's" where
  "process w maxRetries message =
     run_call (tw_execute w (msg_job message)) (\<lambda>r.
       case r of
         Inr _ \<Rightarrow>
           run_call (tw_ack w (msg_id message)) (\<lambda>a s.
             (case a of Inl ackErr \<Rightarrow> TaskAckFailed ackErr | Inr _ \<Rightarrow> TaskDone, s))
       | Inl err \<Rightarrow>
           if temporary err \<and> job_attempt (msg_job message) < maxRetries
           then schedule_retry w (message\<lparr>msg_job := next_attempt (msg_job message)\<rparr>) err
           else give_up w message err)"

section \<open>The loop\<close>

datatype turn = TurnIdle | TurnStopped | TurnReadFailed go_error | TurnCrashed string | TurnProcessed disposition

text \<open>A message that cannot be decoded goes to the dead letters; its acknowledgement may fail unnoticed.\<close>

definition bury :: "'s task_worker \<Rightarrow> queue_message option \<Rightarrow> go_error \<Rightarrow> 's \<Rightarrow> turn \<times> 's" where
  "bury w m err s =
     (case m of
        None \<Rightarrow> (TurnReadFailed err, s)
      | Some message \<Rightarrow>
          if msg_id message = [] then (TurnReadFailed err, s)
          else (case tw_dead_letter w message err s of
                  (Inl (Panic t), s') \<Rightarrow> (TurnCrashed t, s')
                | (Inl e, s') \<Rightarrow> (TurnReadFailed err, s')
                | (Inr _, s') \<Rightarrow>
                    (case tw_ack w (msg_id message) s' of
                       (Inl (Panic t), s'') \<Rightarrow> (TurnCrashed t, s'')
                     | (_, s'') \<Rightarrow> (TurnReadFailed err, s''))))"

text \<open>One turn of the loop in \<open>main\<close>; \<open>stopping\<close> says whether the shutdown signal arrived during the read.\<close>

definition worker_turn ::
    "'s task_worker \<Rightarrow> int \<Rightarrow> ('s \<Rightarrow> read_result \<times> 's) \<Rightarrow> bool \<Rightarrow> 's \<Rightarrow> turn \<times> 's" where
  "worker_turn w maxRetries read_next stopping s =
     (case read_next s of
        ((m, Some (Panic t)), s') \<Rightarrow> (TurnCrashed t, s')
      | ((m, Some err), s') \<Rightarrow> if stopping then (TurnStopped, s') else bury w m err s'
      | ((None, None), s') \<Rightarrow> (TurnIdle, s')
      | ((Some message, None), s') \<Rightarrow>
          (case process w maxRetries message s' of (d, s'') \<Rightarrow> (TurnProcessed d, s'')))"

section \<open>A job through its retries\<close>

text \<open>The job of a message, followed through every message that a retry publishes for it: the number of
  executions, the last disposition and the state.\<close>

lemma process_retry_job:
  assumes "process w maxRetries message s = (TaskRetryScheduled job, s')"
  shows "job = next_attempt (msg_job message) \<and> job_attempt (msg_job message) < maxRetries"
  using assms
  by (auto simp: process_def schedule_retry_def give_up_def run_call_def
      split: prod.splits sum.splits go_error.splits if_splits)

function follow ::
    "'s task_worker \<Rightarrow> int \<Rightarrow> ('s \<Rightarrow> agent_job \<Rightarrow> string) \<Rightarrow> queue_message \<Rightarrow> 's \<Rightarrow> nat \<times> disposition \<times> 's" where
  "follow w maxRetries ident message s =
     (case process w maxRetries message s of
        (TaskRetryScheduled job, s') \<Rightarrow>
          (case follow w maxRetries ident \<lparr>msg_id = ident s' job, msg_job = job\<rparr> s' of (n, d, s'') \<Rightarrow> (Suc n, d, s''))
      | (d, s') \<Rightarrow> (1, d, s'))"
  by pat_completeness auto
termination
  by (relation "measure (\<lambda>(w, maxRetries, ident, message, s). nat (maxRetries - job_attempt (msg_job message)))")
    (auto simp: next_attempt_def dest!: process_retry_job [OF sym])

declare follow.simps [simp del]

text \<open>A broker that is up: acknowledging and dead-lettering succeed.\<close>

definition broker_up :: "'s task_worker \<Rightarrow> bool" where
  "broker_up w \<longleftrightarrow>
     (\<forall>mid s. fst (tw_ack w mid s) = Inr ()) \<and> (\<forall>message cause s. fst (tw_dead_letter w message cause s) = Inr ())"

definition panics :: "'a result \<Rightarrow> bool" where
  "panics r \<longleftrightarrow> (\<exists>t. r = Inl (Panic t))"

definition no_panics :: "'s task_worker \<Rightarrow> bool" where
  "no_panics w \<longleftrightarrow>
     (\<forall>job s. \<not> panics (fst (tw_execute w job s)) \<and> \<not> panics (fst (tw_retry w job s)) \<and>
        \<not> panics (fst (tw_publish w job s)))"

definition settled :: "disposition \<Rightarrow> bool" where
  "settled d \<longleftrightarrow> d = TaskDone \<or> (\<exists>e. d = TaskFailedPermanently e)"

lemma run_call_Inr: "m s = (Inr a, s') \<Longrightarrow> run_call m k s = k (Inr a) s'"
  by (simp add: run_call_def)

lemma run_call_Inl: "m s = (Inl e, s') \<Longrightarrow> \<not> panics (fst (m s)) \<Longrightarrow> run_call m k s = k (Inl e) s'"
  by (cases e) (simp_all add: run_call_def panics_def)

lemma no_panicsD:
  assumes "no_panics w"
  shows "tw_execute w job s = (Inl e, s') \<Longrightarrow> run_call (tw_execute w job) k s = k (Inl e) s'"
    and "tw_retry w job s = (Inl e, s') \<Longrightarrow> run_call (tw_retry w job) k s = k (Inl e) s'"
    and "tw_publish w job s = (Inl e, s') \<Longrightarrow> run_call (tw_publish w job) k s = k (Inl e) s'"
  using assms run_call_Inl unfolding no_panics_def by metis+

lemma give_up_settles:
  assumes "broker_up w"
  shows "\<exists>s'. give_up w message err s = (TaskFailedPermanently err, s')"
proof -
  obtain s1 where "tw_dead_letter w message err s = (Inr (), s1)"
    using assms unfolding broker_up_def by (metis prod.collapse)
  moreover obtain s2 where "tw_ack w (msg_id message) s1 = (Inr (), s2)"
    using assms unfolding broker_up_def by (metis prod.collapse)
  ultimately show ?thesis by (simp add: give_up_def run_call_Inr)
qed

lemma schedule_retry_settles:
  assumes "broker_up w" and "no_panics w"
  shows "\<exists>s' d. schedule_retry w message err s = (d, s') \<and>
    (d = TaskFailedPermanently err \<or> d = TaskRetryScheduled (msg_job message))"
proof (cases "tw_retry w (msg_job message) s")
  case (Pair r s1)
  note give_up = give_up_settles [OF assms(1), of message err]
  show ?thesis
  proof (cases r)
    case (Inl e)
    then have "schedule_retry w message err s = give_up w message err s1"
      using assms(2) Pair by (simp add: schedule_retry_def no_panicsD [OF assms(2)])
    with give_up [of s1] show ?thesis by auto
  next
    case (Inr u)
    obtain r2 s2 where pub: "tw_publish w (msg_job message) s1 = (r2, s2)" by fastforce
    show ?thesis
    proof (cases r2)
      case (Inl e)
      then have "schedule_retry w message err s = give_up w message err s2"
        using assms(2) Pair Inr pub by (simp add: schedule_retry_def run_call_Inr no_panicsD [OF assms(2)])
      with give_up [of s2] show ?thesis by auto
    next
      case (Inr v)
      obtain s3 where "tw_ack w (msg_id message) s2 = (Inr (), s3)"
        using assms(1) unfolding broker_up_def by (metis prod.collapse)
      with Inr pub Pair \<open>r = Inr u\<close> show ?thesis by (auto simp: schedule_retry_def run_call_Inr)
    qed
  qed
qed

lemma process_settles:
  assumes "broker_up w" and "no_panics w"
  shows "\<exists>s' d. process w maxRetries message s = (d, s') \<and> (settled d \<or> (\<exists>job. d = TaskRetryScheduled job))"
proof (cases "tw_execute w (msg_job message) s")
  case (Pair r s1)
  show ?thesis
  proof (cases r)
    case (Inr u)
    obtain s2 where "tw_ack w (msg_id message) s1 = (Inr (), s2)"
      using assms(1) unfolding broker_up_def by (metis prod.collapse)
    with Pair Inr show ?thesis by (auto simp: process_def run_call_Inr settled_def)
  next
    case (Inl e)
    then have "process w maxRetries message s =
        (if temporary e \<and> job_attempt (msg_job message) < maxRetries
         then schedule_retry w (message\<lparr>msg_job := next_attempt (msg_job message)\<rparr>) e s1
         else give_up w message e s1)"
      using Pair assms(2) by (simp add: process_def no_panicsD [OF assms(2)])
    then show ?thesis
      using schedule_retry_settles [OF assms, of "message\<lparr>msg_job := next_attempt (msg_job message)\<rparr>" e s1]
        give_up_settles [OF assms(1), of message e s1]
      by (auto simp: settled_def)
  qed
qed

text \<open>What following a message does, by the disposition of its first execution.\<close>

lemma follow_retry:
  assumes "process w maxRetries message s = (TaskRetryScheduled job, s')"
  shows "follow w maxRetries ident message s =
    (case follow w maxRetries ident \<lparr>msg_id = ident s' job, msg_job = job\<rparr> s' of (n, d, s'') \<Rightarrow> (Suc n, d, s''))"
  using assms by (simp add: follow.simps [of w maxRetries ident message])

lemma follow_end:
  assumes "process w maxRetries message s = (d, s')" and "\<nexists>job. d = TaskRetryScheduled job"
  shows "follow w maxRetries ident message s = (1, d, s')"
  using assms by (cases d) (simp_all add: follow.simps [of w maxRetries ident message])

text \<open>C34: Retries are bounded, whatever the engine, the store and the broker answer, and whatever fails or panics: following a message
  through every message that a retry publishes for its job, the job is executed at most once more than the retries that it had left,
  and at least once, and the chain does not end in a retry. It is the chain of the retries that the worker publishes. The redelivery of
  a message whose acknowledgement failed (\<open>main.go\<close> ignores the error after a retry and a dead letter, and logs it after a success)
  starts a chain of its own, with the attempt that the message carries, and the number of redeliveries has no bound in the code.\<close>

theorem retries_are_bounded:
  "case follow w maxRetries ident message s of (n, d, s') \<Rightarrow>
     n \<ge> 1 \<and> int n \<le> max 1 (maxRetries - job_attempt (msg_job message) + 1) \<and> \<not> (\<exists>job. d = TaskRetryScheduled job)"
proof (induction w maxRetries ident message s rule: follow.induct)
  case (1 w maxRetries ident message s)
  obtain d s' where run: "process w maxRetries message s = (d, s')" by fastforce
  show ?case
  proof (cases "\<exists>job. d = TaskRetryScheduled job")
    case False
    with follow_end [OF run False] show ?thesis by simp
  next
    case True
    then obtain job where job: "process w maxRetries message s = (TaskRetryScheduled job, s')" using run by blast
    obtain n d' s'' where rest: "follow w maxRetries ident \<lparr>msg_id = ident s' job, msg_job = job\<rparr> s' = (n, d', s'')"
      by (cases "follow w maxRetries ident \<lparr>msg_id = ident s' job, msg_job = job\<rparr> s'") auto
    have "int n \<le> max 1 (maxRetries - job_attempt job + 1)" "\<not> (\<exists>job. d' = TaskRetryScheduled job)"
      using 1 [OF job [symmetric] refl] rest by simp_all
    then show ?thesis
      using follow_retry [OF job, of ident] rest process_retry_job [OF job] by (auto simp: next_attempt_def)
  qed
qed

text \<open>When every acknowledgement and dead letter succeeds and nothing panics, the chain ends as done and acknowledged, or as permanently
  failed and dead-lettered.\<close>

lemma follow_settles:
  assumes "broker_up w" and "no_panics w"
  shows "case follow w maxRetries ident message s of (n, d, s') \<Rightarrow> settled d"
  using assms
proof (induction w maxRetries ident message s rule: follow.induct)
  case (1 w maxRetries ident message s)
  obtain d s' where run: "process w maxRetries message s = (d, s')" "settled d \<or> (\<exists>job. d = TaskRetryScheduled job)"
    using process_settles [OF 1(2,3)] by blast
  show ?case
  proof (cases "\<exists>job. d = TaskRetryScheduled job")
    case False
    with follow_end [OF run(1) False] run(2) show ?thesis by simp
  next
    case True
    then obtain job where job: "process w maxRetries message s = (TaskRetryScheduled job, s')" using run by blast
    have "case follow w maxRetries ident \<lparr>msg_id = ident s' job, msg_job = job\<rparr> s' of (n, d, s'') \<Rightarrow> settled d"
      using 1(1) [OF job [symmetric] refl 1(2,3)] .
    with follow_retry [OF job, of ident] show ?thesis by (simp split: prod.splits)
  qed
qed

section \<open>No job is lost\<close>

text \<open>The executor leaves the queue alone, and the broker keeps its contract.\<close>

definition queue_laws ::
    "('s \<Rightarrow> (string \<times> agent_job) set) \<Rightarrow> ('s \<Rightarrow> agent_job set) \<Rightarrow> 's task_worker \<Rightarrow> bool" where
  "queue_laws waiting dead w \<longleftrightarrow>
     (\<forall>job s. waiting (snd (tw_execute w job s)) = waiting s \<and> dead (snd (tw_execute w job s)) = dead s) \<and>
     (\<forall>job s. waiting (snd (tw_retry w job s)) = waiting s \<and> dead (snd (tw_retry w job s)) = dead s) \<and>
     publish_contract waiting dead (tw_publish w) \<and> ack_contract waiting dead (tw_ack w) \<and>
     dead_letter_contract waiting dead (tw_dead_letter w)"

text \<open>Where the job of a message can be found: in the queue under its own or another identifier, possibly with one
  more attempt, or in the dead letters.\<close>

definition traced ::
    "('s \<Rightarrow> (string \<times> agent_job) set) \<Rightarrow> ('s \<Rightarrow> agent_job set) \<Rightarrow> agent_job \<Rightarrow> 's \<Rightarrow> bool" where
  "traced waiting dead job s \<longleftrightarrow>
     (\<exists>j \<in> {job, next_attempt job}. j \<in> snd ` waiting s \<or> j \<in> dead s)"

text \<open>What a call leaves of the queue: everything but, at most, one message.\<close>

definition retains ::
    "('s \<Rightarrow> (string \<times> agent_job) set) \<Rightarrow> ('s \<Rightarrow> agent_job set) \<Rightarrow> string \<Rightarrow> 's \<Rightarrow> 's \<Rightarrow> bool" where
  "retains waiting dead mid s s' \<longleftrightarrow> {x \<in> waiting s. fst x \<noteq> mid} \<subseteq> waiting s' \<and> dead s \<subseteq> dead s'"

lemma retains_refl [simp]: "retains waiting dead mid s s"
  by (auto simp: retains_def)

lemma retains_trans: "retains waiting dead mid s s' \<Longrightarrow> retains waiting dead mid s' s'' \<Longrightarrow> retains waiting dead mid s s''"
  by (auto simp: retains_def)

lemma ack_effect:
  assumes "queue_laws waiting dead w" and "tw_ack w mid s = (r, s')"
  shows "{x \<in> waiting s. fst x \<noteq> mid} \<subseteq> waiting s' \<and> dead s' = dead s"
proof -
  have "ack_contract waiting dead (tw_ack w)" using assms(1) by (simp add: queue_laws_def)
  from this [unfolded ack_contract_def, THEN spec, of mid, THEN spec, of s] assms(2) show ?thesis by auto
qed

lemma dead_letter_effect:
  assumes "queue_laws waiting dead w" and "tw_dead_letter w message cause s = (r, s')"
  shows "waiting s' = waiting s \<and> dead s \<subseteq> dead s' \<and> (\<forall>u. r = Inr u \<longrightarrow> msg_job message \<in> dead s')"
proof -
  have "dead_letter_contract waiting dead (tw_dead_letter w)" using assms(1) by (simp add: queue_laws_def)
  from this [unfolded dead_letter_contract_def, THEN spec, of message, THEN spec, of cause, THEN spec, of s] assms(2) show ?thesis by auto
qed

lemma publish_effect:
  assumes "queue_laws waiting dead w" and "tw_publish w job s = (r, s')"
  shows "waiting s \<subseteq> waiting s' \<and> dead s' = dead s \<and>
    (\<forall>u. r = Inr u \<longrightarrow> (\<exists>mid. mid \<notin> fst ` waiting s \<and> (mid, job) \<in> waiting s'))"
proof -
  have "publish_contract waiting dead (tw_publish w)" using assms(1) by (simp add: queue_laws_def)
  from this [unfolded publish_contract_def, THEN spec, of job, THEN spec, of s] assms(2) show ?thesis by auto
qed

lemma run_call_cases:
  assumes "run_call m k s = (d, s')" and "m s = (r, s1)"
  shows "(\<exists>t. r = Inl (Panic t) \<and> d = WorkerCrashed t \<and> s' = s1) \<or> \<not> panics r \<and> k r s1 = (d, s')"
  using assms by (auto simp: run_call_def panics_def split: sum.splits go_error.splits)

lemma ack_last:
  "run_call (tw_ack w mid) (\<lambda>a t. (g a, t)) s = (d, s') \<Longrightarrow> tw_ack w mid s = (r, s1) \<Longrightarrow> s' = s1"
  by (auto simp: run_call_def split: sum.splits go_error.splits)

lemma give_up_keeps:
  assumes laws: "queue_laws waiting dead w" and run: "give_up w message err s = (d, s')"
    and here: "(msg_id message, job) \<in> waiting s" and "msg_job message \<in> {job, next_attempt job}"
  shows "retains waiting dead (msg_id message) s s' \<and> traced waiting dead job s'"
proof -
  obtain r1 s1 where dl: "tw_dead_letter w message err s = (r1, s1)" by fastforce
  note dead1 = dead_letter_effect [OF laws dl]
  have same: "retains waiting dead (msg_id message) s s1 \<and> traced waiting dead job s1"
    using dead1 here by (auto simp: retains_def traced_def intro: image_eqI [where x = "(msg_id message, job)"])
  from run_call_cases [OF run [unfolded give_up_def] dl] show ?thesis
  proof (elim disjE exE conjE)
    assume "\<not> panics r1" and rest: "(case r1 of
        Inl deadLetterErr \<Rightarrow> (\<lambda>s. (TaskDeadLetterFailed deadLetterErr err, s))
      | Inr _ \<Rightarrow> run_call (tw_ack w (msg_id message)) (\<lambda>_ s. (TaskFailedPermanently err, s))) s1 = (d, s')"
    show ?thesis
    proof (cases r1)
      case (Inl e)
      with rest same show ?thesis by simp
    next
      case (Inr u)
      obtain r2 s2 where ack: "tw_ack w (msg_id message) s1 = (r2, s2)" by fastforce
      with rest Inr have "s' = s2" by (auto dest!: ack_last [OF _ ack])
      with ack_effect [OF laws ack] dead1 Inr assms(4) show ?thesis
        by (auto simp: retains_def traced_def)
    qed
  qed (use same in auto)
qed

lemma schedule_retry_keeps:
  assumes laws: "queue_laws waiting dead w" and run: "schedule_retry w message err s = (d, s')"
    and here: "(msg_id message, job) \<in> waiting s" and next_job: "msg_job message = next_attempt job"
  shows "retains waiting dead (msg_id message) s s' \<and> traced waiting dead job s'"
proof -
  have traced: "traced waiting dead job t" if "waiting s \<subseteq> waiting t" for t
    using that here by (force simp: traced_def)
  obtain r1 s1 where retry: "tw_retry w (msg_job message) s = (r1, s1)" by fastforce
  have eq1: "waiting s1 = waiting s" "dead s1 = dead s"
    using laws retry unfolding queue_laws_def by (metis snd_conv)+
  have give: "retains waiting dead (msg_id message) s t' \<and> traced waiting dead job t'"
    if "give_up w message err t = (d', t')" "waiting s \<subseteq> waiting t" "dead t = dead s" for t t' d'
    using give_up_keeps [OF laws that(1), of job] that(2,3) here next_job by (auto simp: retains_def)
  from run_call_cases [OF run [unfolded schedule_retry_def] retry] show ?thesis
  proof (elim disjE exE conjE)
    assume "s' = s1"
    with eq1 traced show ?thesis by (simp add: retains_def)
  next
    assume "\<not> panics r1" and rest: "(case r1 of
        Inl retryErr \<Rightarrow> give_up w message err
      | Inr _ \<Rightarrow> run_call (tw_publish w (msg_job message)) (\<lambda>r. case r of
             Inl publishErr \<Rightarrow> give_up w message err
           | Inr _ \<Rightarrow> run_call (tw_ack w (msg_id message)) (\<lambda>_ s. (TaskRetryScheduled (msg_job message), s))))
        s1 = (d, s')"
    show ?thesis
    proof (cases r1)
      case (Inl e)
      with rest give eq1 show ?thesis by simp
    next
      case (Inr u)
      obtain r2 s2 where pub: "tw_publish w (msg_job message) s1 = (r2, s2)" by fastforce
      note pub2 = publish_effect [OF laws pub]
      from Inr rest have "run_call (tw_publish w (msg_job message)) (\<lambda>r. case r of
             Inl publishErr \<Rightarrow> give_up w message err
           | Inr _ \<Rightarrow> run_call (tw_ack w (msg_id message)) (\<lambda>_ s. (TaskRetryScheduled (msg_job message), s))) s1 = (d, s')"
        by simp
      from run_call_cases [OF this pub] show ?thesis
      proof (elim disjE exE conjE)
        assume "s' = s2"
        with pub2 eq1 traced [of s2] show ?thesis by (auto simp: retains_def)
      next
        assume "\<not> panics r2" and rest2: "(case r2 of
             Inl publishErr \<Rightarrow> give_up w message err
           | Inr _ \<Rightarrow> run_call (tw_ack w (msg_id message)) (\<lambda>_ s. (TaskRetryScheduled (msg_job message), s))) s2 = (d, s')"
        show ?thesis
        proof (cases r2)
          case (Inl e)
          with rest2 give pub2 eq1 show ?thesis by simp
        next
          case (Inr v)
          obtain mid where mid: "mid \<notin> fst ` waiting s1" "(mid, msg_job message) \<in> waiting s2"
            using pub2 Inr by blast
          then have other: "mid \<noteq> msg_id message" using here eq1 by force
          obtain r3 s3 where ack: "tw_ack w (msg_id message) s2 = (r3, s3)" by fastforce
          with rest2 Inr have "s' = s3" by (auto dest!: ack_last [OF _ ack])
          moreover have "(mid, msg_job message) \<in> waiting s3" using ack_effect [OF laws ack] mid other by auto
          then have "traced waiting dead job s3" using next_job by (force simp: traced_def)
          moreover have "retains waiting dead (msg_id message) s s3"
            using ack_effect [OF laws ack] pub2 eq1 by (auto simp: retains_def)
          ultimately show ?thesis by simp
        qed
      qed
    qed
  qed
qed

lemma process_keeps:
  assumes laws: "queue_laws waiting dead w" and run: "process w maxRetries message s = (d, s')"
    and here: "(msg_id message, msg_job message) \<in> waiting s"
  shows "retains waiting dead (msg_id message) s s' \<and>
    (traced waiting dead (msg_job message) s' \<or> fst (tw_execute w (msg_job message) s) = Inr ())"
proof -
  obtain r1 s1 where exec: "tw_execute w (msg_job message) s = (r1, s1)" by fastforce
  have eq1: "waiting s1 = waiting s" "dead s1 = dead s"
    using laws exec unfolding queue_laws_def by (metis snd_conv)+
  then have here1: "(msg_id message, msg_job message) \<in> waiting s1" using here by simp
  have from1: "retains waiting dead mid s1 t \<Longrightarrow> retains waiting dead mid s t" for mid t
    using eq1 by (simp add: retains_def)
  from run_call_cases [OF run [unfolded process_def] exec] show ?thesis
  proof (elim disjE exE conjE)
    assume "s' = s1"
    with eq1 here show ?thesis by (force simp: retains_def traced_def)
  next
    assume "\<not> panics r1" and rest: "(case r1 of
       Inr _ \<Rightarrow>
         run_call (tw_ack w (msg_id message)) (\<lambda>a s.
           (case a of Inl ackErr \<Rightarrow> TaskAckFailed ackErr | Inr _ \<Rightarrow> TaskDone, s))
     | Inl err \<Rightarrow>
         if temporary err \<and> job_attempt (msg_job message) < maxRetries
         then schedule_retry w (message\<lparr>msg_job := next_attempt (msg_job message)\<rparr>) err
         else give_up w message err) s1 = (d, s')"
    show ?thesis
    proof (cases r1)
      case (Inr u)
      obtain r2 s2 where ack: "tw_ack w (msg_id message) s1 = (r2, s2)" by fastforce
      with rest Inr have "s' = s2" by (auto dest!: ack_last [OF _ ack])
      with ack_effect [OF laws ack] eq1 exec Inr show ?thesis by (auto simp: retains_def)
    next
      case (Inl err)
      show ?thesis
      proof (cases "temporary err \<and> job_attempt (msg_job message) < maxRetries")
        case True
        with rest Inl have "schedule_retry w (message\<lparr>msg_job := next_attempt (msg_job message)\<rparr>) err s1 = (d, s')" by simp
        from schedule_retry_keeps [OF laws this, of "msg_job message"] here1 from1 show ?thesis by simp
      next
        case False
        with rest Inl have "give_up w message err s1 = (d, s')" by simp
        from give_up_keeps [OF laws this here1] from1 show ?thesis by simp
      qed
    qed
  qed
qed

section \<open>The worker of the program\<close>

text \<open>The workflow and the Redis server side by side, and the worker that \<open>main\<close> builds on them.\<close>

definition on_workflow :: "(workflow_state, 'a) op \<Rightarrow> (workflow_state \<times> 'r, 'a) op" where
  "on_workflow m = (\<lambda>(f, r). case m f of (v, f') \<Rightarrow> (v, (f', r)))"

definition on_queue :: "('r, 'a) op \<Rightarrow> (workflow_state \<times> 'r, 'a) op" where
  "on_queue m = (\<lambda>(f, r). case m r of (v, r') \<Rightarrow> (v, (f, r')))"

definition agent_worker ::
    "ambient \<Rightarrow> ambient \<Rightarrow> generator \<Rightarrow> (agent_job \<Rightarrow> string result) \<Rightarrow> 'r executor \<Rightarrow> redis_broker \<Rightarrow>
       (workflow_state \<times> 'r) task_worker" where
  "agent_worker am1 am2 engine marshal exec b =
     \<lparr>tw_execute = (\<lambda>job. on_workflow (ExecuteTask am1 (Some engine) job)),
      tw_retry = (\<lambda>job. on_workflow (RetryTask am2 job)),
      tw_publish = (\<lambda>job. on_queue (Publish marshal exec b job)),
      tw_ack = (\<lambda>mid. on_queue (Ack exec b mid)),
      tw_dead_letter = (\<lambda>message cause. on_queue (DeadLetter marshal exec b message cause))\<rparr>"

lemma on_workflow_snd [simp]: "snd (snd (on_workflow m s)) = snd s"
  by (simp add: on_workflow_def split: prod.split)

lemma publish_contract_on_queue:
  "publish_contract waiting dead publish \<Longrightarrow>
     publish_contract (\<lambda>s. waiting (snd s)) (\<lambda>s. dead (snd s)) (\<lambda>job. on_queue (publish job))"
  by (simp add: publish_contract_def on_queue_def split_beta)

lemma ack_contract_on_queue:
  "ack_contract waiting dead ack \<Longrightarrow> ack_contract (\<lambda>s. waiting (snd s)) (\<lambda>s. dead (snd s)) (\<lambda>mid. on_queue (ack mid))"
  by (simp add: ack_contract_def on_queue_def split_beta)

lemma dead_letter_contract_on_queue:
  "dead_letter_contract waiting dead dl \<Longrightarrow>
     dead_letter_contract (\<lambda>s. waiting (snd s)) (\<lambda>s. dead (snd s)) (\<lambda>message cause. on_queue (dl message cause))"
  by (simp add: dead_letter_contract_def on_queue_def split_beta)

lemma agent_worker_laws:
  assumes "stream_commands exec view" and "json_roundtrip marshal unmarshal"
    and "NewRedisBroker parse_url rawURL stream groupName maxLength = Inr b"
  shows "queue_laws (\<lambda>s. waiting_jobs unmarshal view b (snd s)) (\<lambda>s. dead_jobs unmarshal view b (snd s))
     (agent_worker am1 am2 engine marshal exec b)"
proof -
  have names: "rb_deadLetter b \<noteq> rb_stream b" by (rule stream_names_differ [OF assms(3)])
  note contracts = publish_contract_on_queue [OF Publish_contract [OF assms(1,2) names]]
    ack_contract_on_queue [OF Ack_contract [OF assms(1) names]]
    dead_letter_contract_on_queue [OF DeadLetter_contract [OF assms(1,2) names]]
  show ?thesis by (simp add: queue_laws_def agent_worker_def contracts)
qed

text \<open>C16: The worker of the program loses no job, whatever fails or panics on the way: after it has dealt with a
  waiting message, every other message still waits, no dead letter is gone, and the job of the message was
  executed successfully or still waits, as it was or with one more attempt, or is in the dead letters.\<close>

theorem worker_loses_no_job:
  assumes "stream_commands exec view" and "json_roundtrip marshal unmarshal"
    and "NewRedisBroker parse_url rawURL stream groupName maxLength = Inr b"
    and "(msg_id message, msg_job message) \<in> waiting_jobs unmarshal view b r"
    and "process (agent_worker am1 am2 engine marshal exec b) maxRetries message (f, r) = (d, (f', r'))"
  shows "{x \<in> waiting_jobs unmarshal view b r. fst x \<noteq> msg_id message} \<subseteq> waiting_jobs unmarshal view b r' \<and>
     dead_jobs unmarshal view b r \<subseteq> dead_jobs unmarshal view b r' \<and>
     (fst (ExecuteTask am1 (Some engine) (msg_job message) f) = Inr () \<or>
      (\<exists>job \<in> {msg_job message, next_attempt (msg_job message)}.
         job \<in> snd ` waiting_jobs unmarshal view b r' \<or> job \<in> dead_jobs unmarshal view b r'))"
proof -
  have "fst (tw_execute (agent_worker am1 am2 engine marshal exec b) (msg_job message) (f, r)) =
      fst (ExecuteTask am1 (Some engine) (msg_job message) f)"
    by (simp add: agent_worker_def on_workflow_def split: prod.split)
  with process_keeps [OF agent_worker_laws [OF assms(1-3)] assms(5)] assms(4) show ?thesis
    by (auto simp: retains_def traced_def)
qed

definition sample_entries :: "string \<Rightarrow> (string \<times> string list) list" where
  "sample_entries = (\<lambda>k. [])(''jobs'' := [(''x'', [''job'', ''{}''])])"

lemma worker_loses_no_job_witness:
  "case process (agent_worker (sample_ambient ''z'') (sample_ambient ''y'') sample_generator sample_marshal sample_exec
      sample_broker) 3 \<lparr>msg_id = ''x'', msg_job = no_job\<rparr> (initial_flow, sample_entries) of (d, (f', r')) \<Rightarrow>
     fst (ExecuteTask (sample_ambient ''z'') (Some sample_generator) no_job initial_flow) = Inr () \<or>
     (\<exists>job \<in> {no_job, next_attempt no_job}.
        job \<in> snd ` waiting_jobs (\<lambda>p. Inr no_job) (\<lambda>s. s) sample_broker r' \<or>
        job \<in> dead_jobs (\<lambda>p. Inr no_job) (\<lambda>s. s) sample_broker r')"
proof -
  have here: "(''x'', no_job) \<in> waiting_jobs (\<lambda>p. Inr no_job) (\<lambda>s. s) sample_broker sample_entries"
    by (simp add: waiting_jobs_def sample_broker_def sample_entries_def entry_job_def decode_job_def)
  obtain d f' r' where run: "process (agent_worker (sample_ambient ''z'') (sample_ambient ''y'') sample_generator
      sample_marshal sample_exec sample_broker) 3 \<lparr>msg_id = ''x'', msg_job = no_job\<rparr> (initial_flow, sample_entries) = (d, (f', r'))"
    by (metis prod.collapse)
  from worker_loses_no_job [OF sample_exec_streams sample_json sample_broker_new _ run] here run show ?thesis
    by simp
qed

section \<open>A stranded task\<close>

definition busy_engine :: generator where
  "busy_engine = \<lparr>gen_plan = (\<lambda>r. Inl (AgentErr 503 ''busy'' ''try later'')),
     gen_files = (\<lambda>r. Inl (AgentErr 503 ''busy'' ''try later''))\<rparr>"

text \<open>A server whose stream is at its limit.\<close>

definition full_exec :: "unit executor" where
  "full_exec args u = (if args = [''XLEN'', ''jobs''] then (Inr (RInt 1000), ()) else (Inr (RInt 1), ()))"

definition busy_error :: go_error where
  "busy_error = AgentErr 503 ''busy'' ''try later''"

definition failed_task :: agent_task where
  "failed_task = task2\<lparr>task_status := TaskFailed, task_err := Some (toTaskError busy_error)\<rparr>"

definition failed_flow :: workflow_state where
  "failed_flow = (sample_flow (session2\<lparr>ses_status := SessionFailed\<rparr>) [''a'' \<mapsto> failed_task] [job1])
     \<lparr>ws_executed := [(TaskInitialPlan, ''failure'')]\<rparr>"

lemma busy_execute:
  "ExecuteTask (sample_ambient ''z'') (Some busy_engine) job1 (sample_flow session1 [''a'' \<mapsto> task1] [job1]) =
     (Inl busy_error, failed_flow)"
proof -
  have ty: "task_type task2 \<noteq> TaskCodeGeneration" "job_type job1 = TaskInitialPlan" "TaskInitialPlan \<noteq> []"
    by (simp_all add: task2_def task1_def job1_def plan_job_def status_defs)
  have finish: "finish_task (sample_ambient ''z'') busy_engine job1 task2 session2
      (sample_flow session2 [''a'' \<mapsto> task2] [job1]) =
      (Inl busy_error, sample_flow (session2\<lparr>ses_status := SessionFailed\<rparr>) [''a'' \<mapsto> failed_task] [job1])"
    by (simp add: finish_task_def ty executePlanTask_def busy_engine_def fail_with_def failTask_def tryS_def bindS_def
        on_store_def Task_def UpdateTask_def Session_def UpdateSession_indexed sample_flow_def sample_index
        sample_names Let_def issue_of_def session_key_of_def session1_def task1_def session2_def task2_def
        failed_task_def sample_ambient_def job1_def plan_job_def busy_error_def)
  show ?thesis
    by (simp add: ExecuteTask_def count_execution_def tryS_def bindS_def sample_begin finish ty failed_flow_def)
      (simp add: sample_flow_def)
qed

definition requeued_task :: agent_task where
  "requeued_task = failed_task\<lparr>task_status := TaskQueued, task_attempt := 2\<rparr>"

lemma busy_retry:
  "\<exists>f. RetryTask (sample_ambient ''z'') (next_attempt job1) failed_flow = (Inr (), f) \<and>
     ms_tasks (ws_store f) = [''a'' \<mapsto> requeued_task]"
  by (simp add: RetryTask_def bindS_def on_store_def Task_def UpdateTask_def Session_def UpdateSession_indexed
      failed_flow_def sample_flow_def sample_index sample_names Let_def issue_of_def session_key_of_def
      session1_def task1_def session2_def task2_def failed_task_def requeued_task_def next_attempt_def
      sample_ambient_def job1_def plan_job_def)

text \<open>After an analysis, when the engine is busy and the queue full, the worker resets the task for a retry, fails
  to publish the job and dead-letters it: nothing will execute the task again, yet it stays queued, and the
  user's request to retry it is refused because it has not failed.\<close>

theorem full_queue_strands_task:
  "case process (agent_worker (sample_ambient ''z'') (sample_ambient ''z'') busy_engine (\<lambda>j. Inr ''{}'') full_exec sample_broker) 3
      \<lparr>msg_id = ''1-0'', msg_job = job1\<rparr> (sample_flow session1 [''a'' \<mapsto> task1] [job1], ()) of (d, (f, r)) \<Rightarrow>
     d = TaskFailedPermanently (AgentErr 503 ''busy'' ''try later'') \<and>
     (\<exists>t. ms_tasks (ws_store f) ''a'' = Some t \<and> task_status t = TaskQueued) \<and>
     (\<exists>e. fst (Retry QueueDispatcher (sample_ambient ''q'') ''a'' f) = Inl e)"
proof -
  obtain f where retry: "RetryTask (sample_ambient ''z'') (next_attempt job1) failed_flow = (Inr (), f)"
    "ms_tasks (ws_store f) = [''a'' \<mapsto> requeued_task]"
    using busy_retry by blast
  have attempt: "job_attempt job1 = 1" by (simp add: job1_def plan_job_def)
  have run: "process (agent_worker (sample_ambient ''z'') (sample_ambient ''z'') busy_engine (\<lambda>j. Inr ''{}'') full_exec sample_broker) 3
      \<lparr>msg_id = ''1-0'', msg_job = job1\<rparr> (sample_flow session1 [''a'' \<mapsto> task1] [job1], ()) =
      (TaskFailedPermanently busy_error, (f, ()))"
    by (simp add: process_def schedule_retry_def give_up_def run_call_def agent_worker_def on_workflow_def on_queue_def
        busy_execute retry attempt Publish_def Ack_def DeadLetter_def bindS_def full_exec_def sample_broker_def
        stream_full_def busy_error_def)
  have "\<exists>e. fst (Retry QueueDispatcher (sample_ambient ''q'') ''a'' f) = Inl e"
    by (simp add: Retry_def bindS_def on_store_def Task_def retry(2) requeued_task_def status_defs split: prod.split)
  with run retry(2) show ?thesis by (simp add: busy_error_def requeued_task_def)
qed

end
