(* ===== verification/Go_Glob.thy ===== *)
theory Go_Glob imports Go_Path begin

text \<open>
  Three more parts of Go's standard library that the GitFlame client uses: UTF-8 decoding (unicode/utf8), the
  escaping of URL path segments and query values (net/url), and the patterns of \<open>filepath.Match\<close> on Unix. The
  code ignores the error of \<open>filepath.Match\<close>, so a malformed pattern simply does not match here.
\<close>

section \<open>UTF-8\<close>

definition byte_in :: "nat \<Rightarrow> nat \<Rightarrow> char \<Rightarrow> bool" where
  "byte_in lo hi c \<longleftrightarrow> lo \<le> byte_of c \<and> byte_of c \<le> hi"

definition tail_bits :: "char \<Rightarrow> nat" where
  "tail_bits c = byte_of c mod 64"

text \<open>\<open>utf8.DecodeRuneInString\<close>: the rune and its width in bytes; U+FFFD with width 1 for an invalid encoding.\<close>

definition decode_rune :: "string \<Rightarrow> nat \<times> nat" where
  "decode_rune s =
     (case s of
        [] \<Rightarrow> (65533, 0)
      | c # cs \<Rightarrow>
          let b = byte_of c in
          if b < 128 then (b, 1)
          else if 194 \<le> b \<and> b \<le> 223 then
            (case cs of
               c1 # _ \<Rightarrow> if byte_in 128 191 c1 then (b mod 32 * 64 + tail_bits c1, 2) else (65533, 1)
             | _ \<Rightarrow> (65533, 1))
          else if 224 \<le> b \<and> b \<le> 239 then
            (case cs of
               c1 # c2 # _ \<Rightarrow>
                 if byte_in (if b = 224 then 160 else 128) (if b = 237 then 159 else 191) c1 \<and> byte_in 128 191 c2
                 then (b mod 16 * 4096 + tail_bits c1 * 64 + tail_bits c2, 3) else (65533, 1)
             | _ \<Rightarrow> (65533, 1))
          else if 240 \<le> b \<and> b \<le> 244 then
            (case cs of
               c1 # c2 # c3 # _ \<Rightarrow>
                 if byte_in (if b = 240 then 144 else 128) (if b = 244 then 143 else 191) c1 \<and>
                    byte_in 128 191 c2 \<and> byte_in 128 191 c3
                 then (b mod 8 * 262144 + tail_bits c1 * 4096 + tail_bits c2 * 64 + tail_bits c3, 4)
                 else (65533, 1)
             | _ \<Rightarrow> (65533, 1))
          else (65533, 1))"

lemma decode_rune_width: "snd (decode_rune (c # cs)) \<ge> 1"
  by (simp add: decode_rune_def Let_def split: list.split)

lemma rune_width_positive: "(r, n) = decode_rune (c # cs) \<Longrightarrow> n \<noteq> 0"
  using decode_rune_width [of c cs] by (metis not_one_le_zero snd_conv)

function valid_utf8 :: "string \<Rightarrow> bool" where
  "valid_utf8 [] = True"
| "valid_utf8 (c # cs) =
     (case decode_rune (c # cs) of (r, n) \<Rightarrow>
        \<not> (r = 65533 \<and> n = 1) \<and> valid_utf8 (drop n (c # cs)))"
  by pat_completeness auto
termination
  by (relation "measure length") (auto dest!: rune_width_positive)

section \<open>URL escaping\<close>

definition upper_hex :: "nat \<Rightarrow> char" where
  "upper_hex d = (if d < 10 then char_of (48 + d) else char_of (55 + d))"

definition percent_byte :: "char \<Rightarrow> string" where
  "percent_byte c = [CHR 0x25, upper_hex (byte_of c div 16), upper_hex (byte_of c mod 16)]"

definition unreserved :: "char \<Rightarrow> bool" where
  "unreserved c \<longleftrightarrow> is_alnum c \<or> c \<in> set ''-_.~''"

definition PathEscape :: "string \<Rightarrow> string" where
  "PathEscape s = concat (map (\<lambda>c. if unreserved c \<or> c \<in> set ''$&+:=@'' then [c] else percent_byte c) s)"

definition QueryEscape :: "string \<Rightarrow> string" where
  "QueryEscape s =
     concat (map (\<lambda>c. if c = CHR '' '' then ''+'' else if unreserved c then [c] else percent_byte c) s)"

fun PathUnescape :: "string \<Rightarrow> string option" where
  "PathUnescape [] = Some []"
| "PathUnescape (c # cs) =
     (if c = CHR 0x25 then
        (case cs of
           h # l # rest \<Rightarrow>
             (case (hex_value h, hex_value l, PathUnescape rest) of
                (Some x, Some y, Some t) \<Rightarrow> Some (char_of (16 * x + y) # t)
              | _ \<Rightarrow> None)
         | _ \<Rightarrow> None)
      else map_option ((#) c) (PathUnescape cs))"

lemma upper_hex_value: "d < 16 \<Longrightarrow> hex_value (upper_hex d) = Some d"
  by (auto simp: hex_value_def upper_hex_def byte_of_def Let_def)

lemma PathUnescape_percent: "PathUnescape (percent_byte c @ t) = map_option ((#) c) (PathUnescape t)"
proof -
  have "byte_of c div 16 < 16" using byte_of_less [of c] by auto
  then have "hex_value (upper_hex (byte_of c div 16)) = Some (byte_of c div 16)"
    by (rule upper_hex_value)
  moreover have "hex_value (upper_hex (byte_of c mod 16)) = Some (byte_of c mod 16)"
    by (rule upper_hex_value) simp
  moreover have "char_of (16 * (byte_of c div 16) + byte_of c mod 16) = c"
    by (simp add: byte_of_def)
  ultimately show ?thesis by (simp add: percent_byte_def split: option.split)
qed

lemma PathUnescape_PathEscape: "PathUnescape (PathEscape s) = Some s"
proof (induction s)
  case Nil
  then show ?case by (simp add: PathEscape_def)
next
  case (Cons c s)
  show ?case
  proof (cases "unreserved c \<or> c \<in> set ''$&+:=@''")
    case True
    then have "c \<noteq> CHR 0x25" by (auto simp: unreserved_def is_alnum_def is_digit_def byte_of_def)
    with True Cons show ?thesis by (auto simp: PathEscape_def)
  next
    case False
    have "PathEscape (c # s) = percent_byte c @ PathEscape s" using False by (simp add: PathEscape_def)
    with Cons show ?thesis by (simp add: PathUnescape_percent)
  qed
qed

lemma upper_hex_plain: "d < 16 \<Longrightarrow> upper_hex d \<notin> {CHR ''/'', CHR ''?'', CHR ''#''}"
proof -
  assume "d < 16"
  then have "byte_of (upper_hex d) \<in> {48..57} \<union> {65..70}" by (auto simp: upper_hex_def byte_of_def)
  then show ?thesis by (auto simp: byte_of_def)
qed

lemma PathEscape_plain: "c \<in> set (PathEscape s) \<Longrightarrow> c \<notin> {CHR ''/'', CHR ''?'', CHR ''#''}"
proof -
  have "byte_of x div 16 < 16" "byte_of x mod 16 < 16" for x using byte_of_less [of x] by auto
  then have "set (percent_byte x) \<inter> {CHR ''/'', CHR ''?'', CHR ''#''} = {}" for x
    using upper_hex_plain by (auto simp: percent_byte_def)
  moreover assume "c \<in> set (PathEscape s)"
  ultimately show ?thesis
    by (auto simp: PathEscape_def unreserved_def is_alnum_def is_digit_def byte_of_def split: if_splits)
qed

section \<open>Patterns\<close>

definition get_esc :: "string \<Rightarrow> (nat \<times> string) option" where
  "get_esc chunk =
     (if chunk = [] \<or> hd chunk = CHR ''-'' \<or> hd chunk = CHR '']'' then None
      else
        let body = (if hd chunk = CHR 0x5C then tl chunk else chunk); (r, n) = decode_rune body in
        if body = [] \<or> r = 65533 \<and> n = 1 \<or> drop n body = [] then None else Some (r, drop n body))"

lemma get_esc_shorter: "get_esc chunk = Some (r, rest) \<Longrightarrow> length rest < length chunk"
proof -
  assume esc: "get_esc chunk = Some (r, rest)"
  define body where "body = (if hd chunk = CHR 0x5C then tl chunk else chunk)"
  have body: "body \<noteq> []" "rest = drop (snd (decode_rune body)) body" "chunk \<noteq> []"
    using esc by (auto simp: get_esc_def Let_def body_def split: if_splits prod.splits)
  then have "1 \<le> snd (decode_rune body)" using decode_rune_width by (cases body) auto
  moreover have "length body \<le> length chunk" by (simp add: body_def)
  ultimately show ?thesis using body by (cases body) auto
qed

text \<open>The ranges of a bracket expression: whether the rune is in one of them, and what follows the bracket.\<close>

function class_ranges :: "nat \<Rightarrow> bool \<Rightarrow> bool \<Rightarrow> string \<Rightarrow> (bool \<times> string) option" where
  "class_ranges r started matched chunk =
     (if started \<and> chunk \<noteq> [] \<and> hd chunk = CHR '']'' then Some (matched, tl chunk)
      else
        (case get_esc chunk of
           None \<Rightarrow> None
         | Some (lo, rest) \<Rightarrow>
             if rest \<noteq> [] \<and> hd rest = CHR ''-'' then
               (case get_esc (tl rest) of
                  None \<Rightarrow> None
                | Some (hi, rest') \<Rightarrow> class_ranges r True (matched \<or> lo \<le> r \<and> r \<le> hi) rest')
             else class_ranges r True (matched \<or> lo = r) rest))"
  by pat_completeness auto
termination
  by (relation "measure (\<lambda>(r, started, matched, chunk). length chunk)")
    (auto dest!: get_esc_shorter simp: less_Suc_eq)

lemma class_ranges_shorter: "class_ranges r started matched chunk = Some (m, rest) \<Longrightarrow> length rest < length chunk"
proof (induction r started matched chunk rule: class_ranges.induct)
  case (1 r started matched chunk)
  show ?case
  proof (cases "started \<and> chunk \<noteq> [] \<and> hd chunk = CHR '']''")
    case True
    with 1(3) show ?thesis by (cases chunk) (auto simp: class_ranges.simps [of r started])
  next
    case False
    then obtain lo rest1 where esc: "get_esc chunk = Some (lo, rest1)"
      using 1(3) by (auto simp: class_ranges.simps [of r started] split: option.splits)
    note shorter = get_esc_shorter [OF esc]
    show ?thesis
    proof (cases "rest1 \<noteq> [] \<and> hd rest1 = CHR ''-''")
      case True
      then obtain hi rest2 where esc2: "get_esc (tl rest1) = Some (hi, rest2)"
        using 1(3) False esc by (auto simp: class_ranges.simps [of r started] split: option.splits)
      from get_esc_shorter [OF esc2] shorter 1(1) [OF False esc refl True esc2 refl] 1(3) False esc True esc2
      show ?thesis by (auto simp: class_ranges.simps [of r started])
    next
      case False2: False
      from shorter 1(2) [OF False esc refl False2] 1(3) False esc False2 show ?thesis
        by (auto simp: class_ranges.simps [of r started])
    qed
  qed
qed

declare class_ranges.simps [simp del]

text \<open>\<open>matchChunk\<close>: what a chunk without stars leaves of the name, if it matches.\<close>

function match_chunk :: "string \<Rightarrow> string \<Rightarrow> string option" where
  "match_chunk [] s = Some s"
| "match_chunk (c # chunk) s =
     (if s = [] then None
      else if c = CHR ''['' then
        (let (r, n) = decode_rune s; negated = (chunk \<noteq> [] \<and> hd chunk = CHR 0x5E);
             ranges = (if negated then tl chunk else chunk) in
         case class_ranges r False False ranges of
           None \<Rightarrow> None
         | Some (matched, rest) \<Rightarrow> if matched = negated then None else match_chunk rest (drop n s))
      else if c = CHR ''?'' then
        (if hd s = CHR ''/'' then None else match_chunk chunk (drop (snd (decode_rune s)) s))
      else if c = CHR 0x5C then
        (case chunk of [] \<Rightarrow> None | d # rest \<Rightarrow> if d = hd s then match_chunk rest (tl s) else None)
      else if c = hd s then match_chunk chunk (tl s)
      else None)"
  by pat_completeness auto
termination
proof (relation "measure (\<lambda>(chunk, s). length chunk)")
  fix c chunk s x r n negated ranges y matched rest
  assume "ranges = (if negated then tl chunk else chunk)" "class_ranges r False False ranges = Some y" "(matched, rest) = y"
  then have "length rest < length ranges" "length ranges \<le> length chunk"
    using class_ranges_shorter by (metis, simp)
  then show "((rest, drop n s), (c # chunk, s)) \<in> measure (\<lambda>(chunk, s). length chunk)" by simp
qed auto

declare match_chunk.simps [simp del]

text \<open>\<open>scanChunk\<close>: the part of a pattern up to its next star outside brackets, and the rest.\<close>

fun scan_chunk :: "bool \<Rightarrow> string \<Rightarrow> string \<times> string" where
  "scan_chunk inrange [] = ([], [])"
| "scan_chunk inrange (c # cs) =
     (if c = CHR 0x5C then
        (case cs of
           [] \<Rightarrow> ([c], [])
         | d # ds \<Rightarrow> (case scan_chunk inrange ds of (chunk, rest) \<Rightarrow> (c # d # chunk, rest)))
      else if c = CHR ''*'' \<and> \<not> inrange then ([], c # cs)
      else (case scan_chunk (if c = CHR ''['' then True else if c = CHR '']'' then False else inrange) cs of
              (chunk, rest) \<Rightarrow> (c # chunk, rest)))"

text \<open>The positions that a star may skip to: it never passes a slash.\<close>

fun star_tails :: "string \<Rightarrow> string list" where
  "star_tails [] = []"
| "star_tails (c # cs) = (if c = CHR ''/'' then [] else cs # star_tails cs)"

definition first_match :: "string \<Rightarrow> bool \<Rightarrow> string list \<Rightarrow> string option" where
  "first_match chunk at_end tails =
     (case List.map_filter (\<lambda>t. case match_chunk chunk t of
           None \<Rightarrow> None | Some rest \<Rightarrow> if at_end \<and> rest \<noteq> [] then None else Some rest) tails of
        [] \<Rightarrow> None
      | rest # _ \<Rightarrow> Some rest)"

lemma scan_chunk_append: "scan_chunk inrange p = (chunk, rest) \<Longrightarrow> p = chunk @ rest"
  by (induction inrange p arbitrary: chunk rest rule: scan_chunk.induct)
    (auto split: if_splits list.splits prod.splits)

lemma scan_chunk_nonempty: "c \<noteq> CHR ''*'' \<Longrightarrow> fst (scan_chunk False (c # cs)) \<noteq> []"
  by (subst scan_chunk.simps(2)) (simp add: split_beta del: scan_chunk.simps split: list.split)

lemma scan_chunk_shorter: "scan_chunk False (c # cs) = (chunk, rest) \<Longrightarrow> c \<noteq> CHR ''*'' \<Longrightarrow> length rest \<le> length cs"
  using scan_chunk_append [of False "c # cs" chunk rest] scan_chunk_nonempty [of c cs]
  by (cases chunk) auto

definition scan_pattern :: "string \<Rightarrow> bool \<times> string \<times> string" where
  "scan_pattern pattern =
     (pattern \<noteq> [] \<and> hd pattern = CHR ''*'', scan_chunk False (dropWhile (\<lambda>c. c = CHR ''*'') pattern))"

lemma scan_pattern_shorter:
  assumes "scan_pattern pattern = (star, chunk, rest)" and "pattern \<noteq> []" and "\<not> (star \<and> chunk = [])"
  shows "length rest < length pattern"
proof (cases "dropWhile (\<lambda>c. c = CHR ''*'') pattern")
  case Nil
  then have "scan_chunk False [] = (chunk, rest)"
    using assms(1) by (simp add: scan_pattern_def del: dropWhile_eq_Nil_conv)
  with assms(2) show ?thesis by simp
next
  case (Cons c cs)
  then have "c \<noteq> CHR ''*''" by (metis (full_types) hd_dropWhile list.distinct(1) list.sel(1))
  moreover have "scan_chunk False (c # cs) = (chunk, rest)"
    using assms(1) Cons by (simp add: scan_pattern_def)
  ultimately have "length rest \<le> length cs" by (intro scan_chunk_shorter)
  moreover have "length (c # cs) \<le> length pattern" using Cons by (metis length_dropWhile_le)
  ultimately show ?thesis by simp
qed

text \<open>\<open>filepath.Match\<close> without its error.\<close>

function glob_match :: "string \<Rightarrow> string \<Rightarrow> bool" where
  "glob_match pattern name =
     (if pattern = [] then name = []
      else
        (case scan_pattern pattern of (star, chunk, rest) \<Rightarrow>
           if star \<and> chunk = [] then CHR ''/'' \<notin> set name
           else
             (case (case match_chunk chunk name of
                      None \<Rightarrow> None
                    | Some t \<Rightarrow> if t = [] \<or> rest \<noteq> [] then Some t else None) of
                Some t \<Rightarrow> glob_match rest t
              | None \<Rightarrow>
                  if star then
                    (case first_match chunk (rest = []) (star_tails name) of
                       None \<Rightarrow> False
                     | Some t \<Rightarrow> glob_match rest t)
                  else False)))"
  by pat_completeness auto
termination
  by (relation "measure (\<lambda>(pattern, name). length pattern)") (auto dest!: scan_pattern_shorter [OF sym])

declare glob_match.simps [simp del]

end
