(* ===== verification/Repository_Paths.thy ===== *)
theory Repository_Paths imports Go_Glob Plan_Validation begin

text \<open>
  The functions on names of backend/internal/httpapi/gitflame_client.go: repository identifiers and URLs, the
  paths that are put into request URLs, and the rules that decide which files of a repository are read.
  Parsing of absolute URLs is a parameter.
\<close>

section \<open>Repositories\<close>

text \<open>\<open>strings.SplitN(s, "/", 2)\<close>, for the endpoint of an owner/repository pair.\<close>

definition giteaRepositoryEndpoint :: "string \<Rightarrow> string option" where
  "giteaRepositoryEndpoint repositoryID =
     (let s = trim_chars ''/'' (trim_space repositoryID);
          owner = takeWhile (\<lambda>c. c \<noteq> slash) s; rest = drop (Suc (length owner)) s in
      if slash \<notin> set s \<or> owner = [] \<or> rest = [] then None
      else Some (''/api/v1/repos/'' @ PathEscape owner @ ''/'' @ PathEscape rest))"

definition escapeRepositoryPath :: "string \<Rightarrow> string" where
  "escapeRepositoryPath filePath =
     join_with ''/'' (map PathEscape (split_on slash (trim_chars ''/'' (trim_space filePath))))"

definition gitFlameRawRef :: "string \<Rightarrow> string" where
  "gitFlameRawRef ref =
     (let r = trim_space ref in if r = [] \<or> has_prefix r ''refs/'' then r else ''refs/heads/'' @ r)"

definition view_suffixes :: "string list" where
  "view_suffixes = [''code'', ''issues'', ''pulls'', ''pull-requests'', ''merge_requests'', ''branches'', ''commits'', ''settings'']"

text \<open>The loop over the parts from index \<open>i\<close>: the parts before the first view name at an index of two or more.\<close>

fun before_view :: "nat \<Rightarrow> string list \<Rightarrow> string list" where
  "before_view i [] = []"
| "before_view i (w # ws) = (if w \<in> set view_suffixes \<and> i \<ge> 2 then [] else w # before_view (Suc i) ws)"

definition stripRepositoryViewSuffix :: "string \<Rightarrow> string" where
  "stripRepositoryViewSuffix repoPath = join_with ''/'' (before_view 0 (split_on slash (trim_chars ''/'' repoPath)))"

record parsed_repository_url =
  pu_path :: string
  pu_web_url :: string

text \<open>What the code asks of an absolute URL: scheme, host and the escaped path.\<close>

record absolute_url =
  au_scheme :: string
  au_host :: string
  au_escaped_path :: string

definition git_suffix_stripped :: "string \<Rightarrow> string" where
  "git_suffix_stripped s = stripRepositoryViewSuffix (trim_suffix s ''.git'')"

definition parseGitFlameRepositoryURL ::
    "(string \<Rightarrow> absolute_url option) \<Rightarrow> string \<Rightarrow> parsed_repository_url result" where
  "parseGitFlameRepositoryURL parse_url rawURL =
     (let v = trim_space rawURL;
          absolute = (case parse_url v of
            None \<Rightarrow> None | Some u \<Rightarrow> if au_scheme u = [] \<or> au_host u = [] then None else Some u) in
      if v = [] then Inl (ErrText ''repo_url is required when repository.id is empty'')
      else
        (case absolute of
           None \<Rightarrow>
             (let trimmed = git_suffix_stripped (trim_chars ''/'' v) in
              if slash \<notin> set trimmed
              then Inl (ErrText ''repo_url must be a GitFlame repository URL or owner/repository path'')
              else Inr \<lparr>pu_path = trimmed, pu_web_url = []\<rparr>)
         | Some u \<Rightarrow>
             (case PathUnescape (trim_chars ''/'' (au_escaped_path u)) of
                None \<Rightarrow> Inl (ErrText ''repo_url contains invalid escaping'')
              | Some raw \<Rightarrow>
                  let p = git_suffix_stripped raw in
                  if slash \<notin> set p then Inl (ErrText ''repo_url does not include owner and repository'')
                  else Inr \<lparr>pu_path = p, pu_web_url = au_scheme u @ ''://'' @ au_host u @ ''/'' @ p\<rparr>)))"

section \<open>Which files are read\<close>

definition nonIndexableRepositoryExtensions :: "string list" where
  "nonIndexableRepositoryExtensions =
     [''.7z'', ''.avi'', ''.bin'', ''.bmp'', ''.bz2'', ''.class'', ''.db'', ''.dll'', ''.dmg'', ''.doc'', ''.docx'',
      ''.eot'', ''.exe'', ''.gif'', ''.gz'', ''.ico'', ''.jar'', ''.jpeg'', ''.jpg'', ''.lockb'', ''.mov'', ''.mp3'',
      ''.mp4'', ''.npy'', ''.npz'', ''.otf'', ''.parquet'', ''.pdf'', ''.pickle'', ''.pkl'', ''.png'', ''.ppt'',
      ''.pptx'', ''.pyc'', ''.so'', ''.sqlite'', ''.sqlite3'', ''.tar'', ''.tiff'', ''.ttf'', ''.wav'', ''.webm'',
      ''.webp'', ''.woff'', ''.woff2'', ''.xls'', ''.xlsx'', ''.xz'', ''.zip'']"

text \<open>\<open>filepath.Ext\<close>: from the last dot of the last element, empty without one.\<close>

definition file_Ext :: "string \<Rightarrow> string" where
  "file_Ext p =
     (let b = rev (takeWhile (\<lambda>c. c \<noteq> slash) (rev p)) in
      if CHR ''.'' \<in> set b then CHR ''.'' # rev (takeWhile (\<lambda>c. c \<noteq> CHR ''.'') (rev b)) else [])"

definition repositoryPathIsIndexableText :: "string \<Rightarrow> bool" where
  "repositoryPathIsIndexableText filePath \<longleftrightarrow> to_lower (file_Ext filePath) \<notin> set nonIndexableRepositoryExtensions"

definition filterIndexableRepositoryContents :: "repository_file list \<Rightarrow> repository_file list" where
  "filterIndexableRepositoryContents files =
     filter (\<lambda>file. valid_utf8 (rf_content file) \<and> CHR 0x00 \<notin> set (rf_content file)) files"

definition repositoryFileIsReadable :: "string \<Rightarrow> bool" where
  "repositoryFileIsReadable fileType \<longleftrightarrow> to_lower (trim_space fileType) \<in> {[], ''file'', ''blob''}"

definition normalizeRepositoryPath :: "string \<Rightarrow> string" where
  "normalizeRepositoryPath filePath =
     (let normalized = trim_prefix (path_Clean (replace_all [CHR 0x5C] ''/'' (trim_space filePath))) ''./'' in
      if normalized = ''.'' then [] else normalized)"

text \<open>\<open>strings.Split(s, "**")\<close>.\<close>

fun split_stars_from :: "string \<Rightarrow> string \<Rightarrow> string list" where
  "split_stars_from w (c # d # cs) =
     (if c = CHR ''*'' \<and> d = CHR ''*'' then rev w # split_stars_from [] cs else split_stars_from (c # w) (d # cs))"
| "split_stars_from w cs = [rev w @ cs]"

definition split_stars :: "string \<Rightarrow> string list" where
  "split_stars s = split_stars_from [] s"

definition matchRepositoryPattern :: "string \<Rightarrow> string \<Rightarrow> bool" where
  "matchRepositoryPattern rawPattern v =
     (let pattern = trim_prefix (path_Clean (replace_all [CHR 0x5C] ''/'' rawPattern)) ''./'' in
      if pattern = ''**/*'' \<or> pattern = ''**'' then True
      else if has_suffix pattern ''/**'' then has_prefix v (trim_suffix pattern ''/**'' @ ''/'')
      else if has_prefix pattern ''**/'' then has_suffix v (trim_prefix pattern ''**/'')
      else if contains_str pattern ''**'' then
        (let parts = split_stars pattern in has_prefix v (hd parts) \<and> has_suffix v (last parts))
      else if glob_match pattern v then True
      else trim_suffix pattern ''/'' = v)"

definition matchesRepositoryRules :: "string \<Rightarrow> string list \<Rightarrow> string list \<Rightarrow> bool" where
  "matchesRepositoryRules filePath includes excludes =
     (let normalized = normalizeRepositoryPath filePath in
      if normalized = ''.'' \<or> has_prefix normalized ''../'' \<or> has_prefix normalized ''/'' then False
      else if list_ex (\<lambda>pattern. matchRepositoryPattern pattern normalized) excludes then False
      else list_ex (\<lambda>pattern. matchRepositoryPattern pattern normalized) includes)"

section \<open>Names in request URLs\<close>

lemma PathEscape_no_slash: "slash \<notin> set (PathEscape s)"
  using PathEscape_plain [of slash s] by (auto simp: slash_def)

lemma split_escaped: "ws \<noteq> [] \<Longrightarrow> split_on slash (join_with ''/'' (map PathEscape ws)) = map PathEscape ws"
  using split_join [of "map PathEscape ws" slash] PathEscape_no_slash by (auto simp: slash_def)

text \<open>The path of a file survives its escaping into a request URL: the URL has exactly the elements of the
  trimmed path, each of which unescapes to the element, and no byte of the path can end the path part of
  the URL or start a query in it.\<close>

theorem escapeRepositoryPath_roundtrip:
  "map PathUnescape (split_on slash (escapeRepositoryPath p)) =
     map Some (split_on slash (trim_chars ''/'' (trim_space p))) \<and>
   CHR ''?'' \<notin> set (escapeRepositoryPath p) \<and> CHR ''#'' \<notin> set (escapeRepositoryPath p)"
proof -
  let ?ws = "split_on slash (trim_chars ''/'' (trim_space p))"
  have "map PathUnescape (split_on slash (escapeRepositoryPath p)) = map Some ?ws"
    by (simp add: escapeRepositoryPath_def split_escaped PathUnescape_PathEscape comp_def)
  moreover have "set (escapeRepositoryPath p) \<subseteq> set ''/'' \<union> \<Union> (set ` set (map PathEscape ?ws))"
    unfolding escapeRepositoryPath_def by (rule set_join_with)
  then have "c \<notin> set (escapeRepositoryPath p)" if "c \<in> {CHR ''?'', CHR ''#''}" for c
    using that PathEscape_plain [of c] by fastforce
  ultimately show ?thesis by blast
qed

lemma giteaRepositoryEndpoint_Some:
  assumes "giteaRepositoryEndpoint r = Some e"
  shows "\<exists>owner name. trim_chars ''/'' (trim_space r) = owner @ slash # name \<and> slash \<notin> set owner \<and>
    e = ''/api/v1/repos/'' @ PathEscape owner @ slash # PathEscape name"
proof -
  define s where "s = trim_chars ''/'' (trim_space r)"
  define owner where "owner = takeWhile (\<lambda>c. c \<noteq> slash) s"
  have e: "slash \<in> set s" "e = ''/api/v1/repos/'' @ PathEscape owner @ ''/'' @ PathEscape (drop (Suc (length owner)) s)"
    using assms by (auto simp: giteaRepositoryEndpoint_def Let_def s_def owner_def split: if_splits)
  have "dropWhile (\<lambda>c. c \<noteq> slash) s = slash # drop (Suc (length owner)) s"
    using e(1) unfolding owner_def
    by (induction s) auto
  then have "s = owner @ slash # drop (Suc (length owner)) s"
    by (metis owner_def takeWhile_dropWhile_id)
  moreover have "slash \<notin> set owner" unfolding owner_def using set_takeWhileD by fastforce
  ultimately show ?thesis using e(2) unfolding s_def by (auto simp: slash_def)
qed

text \<open>Two repository identifiers get the same API endpoint only when they are the same owner/repository pair:
  the bytes of an identifier never reach into another repository's URL.\<close>

theorem giteaRepositoryEndpoint_injective:
  assumes "giteaRepositoryEndpoint r = Some e" and "giteaRepositoryEndpoint r' = Some e"
  shows "trim_chars ''/'' (trim_space r) = trim_chars ''/'' (trim_space r')"
proof -
  obtain o1 n1 where r: "trim_chars ''/'' (trim_space r) = o1 @ slash # n1"
    "e = ''/api/v1/repos/'' @ PathEscape o1 @ slash # PathEscape n1"
    using giteaRepositoryEndpoint_Some [OF assms(1)] by blast
  obtain o2 n2 where r': "trim_chars ''/'' (trim_space r') = o2 @ slash # n2"
    "e = ''/api/v1/repos/'' @ PathEscape o2 @ slash # PathEscape n2"
    using giteaRepositoryEndpoint_Some [OF assms(2)] by blast
  have "PathEscape o1 @ slash # PathEscape n1 = PathEscape o2 @ slash # PathEscape n2" using r(2) r'(2) by simp
  then have "split_on slash (PathEscape o1 @ slash # PathEscape n1) = split_on slash (PathEscape o2 @ slash # PathEscape n2)"
    by simp
  then have "PathEscape o1 = PathEscape o2 \<and> PathEscape n1 = PathEscape n2"
    by (simp add: split_on_append_sep PathEscape_no_slash split_on_absent)
  then have "o1 = o2 \<and> n1 = n2" by (metis PathUnescape_PathEscape option.inject)
  with r(1) r'(1) show ?thesis by simp
qed

lemma giteaRepositoryEndpoint_injective_witness:
  "trim_chars ''/'' (trim_space ''/team/app/'') = trim_chars ''/'' (trim_space ''team/app'')"
proof -
  have "giteaRepositoryEndpoint ''/team/app/'' = Some ''/api/v1/repos/team/app''"
    "giteaRepositoryEndpoint ''team/app'' = Some ''/api/v1/repos/team/app''"
    by code_simp+
  then show ?thesis by (rule giteaRepositoryEndpoint_injective)
qed

section \<open>Selected files\<close>

definition inside_repository :: "string \<Rightarrow> bool" where
  "inside_repository p \<longleftrightarrow> (\<forall>e \<in> set (split_on slash p). proper_element e \<and> e \<noteq> dotdot)"

lemma normalizeRepositoryPath_clean:
  "normalizeRepositoryPath p =
     (let q = path_Clean (replace_all [CHR 0x5C] ''/'' (trim_space p)) in if q = dot then [] else q)"
  using path_Clean_no_dot_slash by (simp add: normalizeRepositoryPath_def trim_prefix_def dot_def slash_def Let_def)

lemma clean_path_cases:
  assumes "path_Clean p \<noteq> dot" and "\<not> has_prefix (path_Clean p) [slash]"
    and "\<not> has_prefix (path_Clean p) (dotdot @ [slash])"
  shows "path_Clean p = dotdot \<or> inside_repository (path_Clean p)"
proof -
  obtain es where sh: "path_Clean p = render_path (has_prefix p [slash]) es"
    and cl: "clean_list (has_prefix p [slash]) es"
    by (rule path_Clean_shape)
  have rel: "\<not> has_prefix p [slash]"
    using assms(2) sh by (auto simp: render_path_def)
  with cl have cl: "clean_list False es" by simp
  from rel sh have eq: "path_Clean p = render_path False es" by simp
  have ne: "es \<noteq> []" using assms(1) eq by (auto simp: render_path_def)
  with eq have join: "path_Clean p = join_with [slash] es" by (simp add: render_path_def)
  obtain n us where nus: "es = replicate n dotdot @ us" "\<forall>w \<in> set us. proper_element w \<and> w \<noteq> dotdot"
    using cl unfolding clean_list_def by blast
  show ?thesis
  proof (cases n)
    case 0
    with nus show ?thesis using split_render [OF cl] ne eq by (simp add: inside_repository_def)
  next
    case (Suc m)
    then have "es = dotdot # tl es" using nus(1) by simp
    then have "tl es = []"
      using assms(3) join by (cases "tl es") (auto simp: has_prefix_iff)
    with \<open>es = dotdot # tl es\<close> join show ?thesis by (metis join_with.simps(2))
  qed
qed

text \<open>Under the default rules of an index, exactly the paths inside the repository are selected, and two more: the
  empty path and the parent directory itself, because the guard compares with \<open>.\<close>, which normalisation has
  already turned into the empty path, and excludes \<open>../\<close> but not \<open>..\<close>.\<close>

theorem default_rules_select:
  "matchesRepositoryRules p [''**/*''] [] \<longleftrightarrow>
     normalizeRepositoryPath p \<in> {[], dotdot} \<or> inside_repository (normalizeRepositoryPath p)"
proof -
  let ?q = "path_Clean (replace_all [CHR 0x5C] ''/'' (trim_space p))"
  have star: "matchRepositoryPattern ''**/*'' v" for v
  proof -
    have "trim_prefix (path_Clean (replace_all [CHR 0x5C] ''/'' ''**/*'')) ''./'' = ''**/*''" by code_simp
    then show ?thesis by (simp add: matchRepositoryPattern_def)
  qed
  have guard: "matchesRepositoryRules p [''**/*''] [] \<longleftrightarrow>
      \<not> has_prefix (normalizeRepositoryPath p) (dotdot @ [slash]) \<and> \<not> has_prefix (normalizeRepositoryPath p) [slash]"
    using path_Clean_not_Nil
    by (auto simp: matchesRepositoryRules_def Let_def star normalizeRepositoryPath_clean dotdot_def slash_def dot_def)
  have elements: "\<not> has_prefix v (w @ [slash])" if "inside_repository v" "w = [] \<or> w = dotdot" for v w
  proof
    assume "has_prefix v (w @ [slash])"
    then obtain t where "v = w @ slash # t" by (auto simp: has_prefix_iff)
    moreover have "slash \<notin> set w" using that(2) by (auto simp: dotdot_def slash_def)
    ultimately have "w \<in> set (split_on slash v)" by (simp add: split_on_append_sep)
    with that show False by (auto simp: inside_repository_def proper_element_def)
  qed
  show ?thesis
  proof (cases "?q = dot")
    case True
    then have "normalizeRepositoryPath p = []" by (simp add: normalizeRepositoryPath_clean)
    with guard show ?thesis by (simp add: dotdot_def)
  next
    case False
    then have q: "normalizeRepositoryPath p = ?q" by (simp add: normalizeRepositoryPath_clean)
    show ?thesis
      using clean_path_cases [OF False] elements [of ?q "[]"] elements [of ?q dotdot] guard
      unfolding q by (auto simp: dotdot_def slash_def)
  qed
qed

end
