(* ===== verification/GitFlame_Http.thy ===== *)
theory GitFlame_Http imports Repository_Paths begin

text \<open>
  The requests of backend/internal/httpapi/gitflame_client.go and the reading of its JSON documents. The state
  of the operations is that of the GitFlame server; how it answers a request, the JSON codec, the validity
  of a request URL and \<open>fmt.Sprint\<close> of a value that is neither a string nor an integer are parameters. The
  client's log and its count of upstream calls are left out.
\<close>

section \<open>Errors\<close>

definition integrationCode :: "go_error \<Rightarrow> string" where
  "integrationCode err = (case err of IntegrationErr status code detail \<Rightarrow> code | _ \<Rightarrow> [])"

definition integrationStatus :: "go_error \<Rightarrow> int" where
  "integrationStatus err = (case err of IntegrationErr status code detail \<Rightarrow> status | _ \<Rightarrow> 0)"

definition normalizeIntegrationStatus :: "int \<Rightarrow> int" where
  "normalizeIntegrationStatus status =
     (if status \<in> {400, 401, 403, 404, 405, 409, 422, 502, 503, 504} then status
      else if status \<ge> 500 then 502 else 422)"

definition shortSHA :: "string \<Rightarrow> string" where
  "shortSHA v = (let t = trim_space v in if go_len t \<le> 12 then t else take 12 t)"

definition generatedFileApplyError :: "string \<Rightarrow> go_error \<Rightarrow> go_error" where
  "generatedFileApplyError filePath err =
     (case err of
        IntegrationErr status code detail \<Rightarrow>
          IntegrationErr status code
            (if detail = [] then filePath
             else if \<not> contains_str detail filePath then filePath @ '': '' @ detail else detail)
      | _ \<Rightarrow> ErrText (filePath @ '': '' @ error_text err))"

section \<open>Documents\<close>

text \<open>The members of an object; a later member with the same name replaces an earlier one.\<close>

type_synonym document = "(string \<times> json) list"

definition member :: "document \<Rightarrow> string \<Rightarrow> json option" where
  "member doc name = map_of (rev doc) name"

fun nestedValue :: "json \<Rightarrow> string list \<Rightarrow> json option" where
  "nestedValue v [] = Some v"
| "nestedValue (JObj doc) (name # names) =
     (case member doc name of None \<Rightarrow> None | Some v \<Rightarrow> nestedValue v names)"
| "nestedValue v (name # names) = None"

definition integral64 :: "rat \<Rightarrow> bool" where
  "integral64 x \<longleftrightarrow> of_int (floor x) = x \<and> - (2 ^ 63) \<le> floor x \<and> floor x < 2 ^ 63"

text \<open>The text of a value, \<open>None\<close> for \<open>nil\<close>.\<close>

fun value_text :: "(json \<Rightarrow> string) \<Rightarrow> json \<Rightarrow> string option" where
  "value_text sprint (JStr s) = Some s"
| "value_text sprint (JNum x) = Some (if integral64 x then int_text (floor x) else sprint (JNum x))"
| "value_text sprint JNull = None"
| "value_text sprint v = Some (sprint v)"

fun firstString :: "(json \<Rightarrow> string) \<Rightarrow> document \<Rightarrow> string list \<Rightarrow> string" where
  "firstString sprint doc [] = []"
| "firstString sprint doc (key # names) =
     (case nestedValue (JObj doc) (split_on CHR ''.'' key) of
        None \<Rightarrow> firstString sprint doc names
      | Some v \<Rightarrow> (case value_text sprint v of None \<Rightarrow> firstString sprint doc names | Some t \<Rightarrow> t))"

definition firstNonEmptyString :: "string list \<Rightarrow> string" where
  "firstNonEmptyString vs = (case find (\<lambda>v. trim_space v \<noteq> []) vs of None \<Rightarrow> [] | Some v \<Rightarrow> v)"

definition firstNonEmptyValue :: "(json \<Rightarrow> string) \<Rightarrow> json list \<Rightarrow> string" where
  "firstNonEmptyValue sprint vs =
     (case find (\<lambda>t. t \<noteq> [] \<and> t \<noteq> ''<nil>'')
         (map (\<lambda>v. trim_space (case v of JStr s \<Rightarrow> s | _ \<Rightarrow> sprint v)) (filter (\<lambda>v. v \<noteq> JNull) vs)) of
        None \<Rightarrow> [] | Some t \<Rightarrow> t)"

text \<open>Decoding into a struct: a member is found by its name up to case, the last one in the document wins, and
  \<open>null\<close> leaves the field at its zero value.\<close>

definition struct_field :: "document \<Rightarrow> string \<Rightarrow> json" where
  "struct_field doc name = (case find (\<lambda>(k, v). equal_fold k name) (rev doc) of None \<Rightarrow> JNull | Some (k, v) \<Rightarrow> v)"

fun text_field :: "json \<Rightarrow> string option" where
  "text_field JNull = Some []"
| "text_field (JStr s) = Some s"
| "text_field v = None"

fun int_field :: "json \<Rightarrow> int option" where
  "int_field JNull = Some 0"
| "int_field (JNum x) = (if integral64 x then Some (floor x) else None)"
| "int_field v = None"

text \<open>Decoding into \<open>map[string]any\<close>.\<close>

fun document_of :: "json \<Rightarrow> document option" where
  "document_of (JObj doc) = Some doc"
| "document_of JNull = Some []"
| "document_of v = None"

section \<open>Problems\<close>

text \<open>The text of a problem: of the nested structure, the first text found.\<close>

fun gitFlameProblemText :: "json \<Rightarrow> string"
  and problem_parts :: "json list \<Rightarrow> string list"
  and problem_members :: "document \<Rightarrow> (string \<times> string) list" where
  "gitFlameProblemText (JStr s) = trim_space s"
| "gitFlameProblemText (JArr vs) = join_with '', '' (problem_parts vs)"
| "gitFlameProblemText (JObj doc) =
     (let texts = map_of (rev (problem_members doc)) in
      case find (\<lambda>t. t \<noteq> []) (List.map_filter texts [''detail'', ''message'', ''error'', ''path'']) of
        None \<Rightarrow> [] | Some t \<Rightarrow> t)"
| "gitFlameProblemText v = []"
| "problem_parts [] = []"
| "problem_parts (v # vs) =
     (let t = gitFlameProblemText v in if t \<noteq> [] then t # problem_parts vs else problem_parts vs)"
| "problem_members [] = []"
| "problem_members ((k, v) # doc) = (k, gitFlameProblemText v) # problem_members doc"

text \<open>The error of an unsuccessful reply: a struct decoded from its body, then the body itself.\<close>

definition gitFlameHTTPError :: "(string \<Rightarrow> json option) \<Rightarrow> int \<Rightarrow> string \<Rightarrow> go_error" where
  "gitFlameHTTPError parse status reply =
     (let body = take 200000 reply;
          doc = (case parse body of Some (JObj d) \<Rightarrow> d | _ \<Rightarrow> []);
          raw = (case parse body of None \<Rightarrow> [] | Some v \<Rightarrow> gitFlameProblemText v);
          texts = map (\<lambda>k. gitFlameProblemText (struct_field doc k)) [''detail'', ''message'', ''error''] @
            [raw, trim_space body, ''GitFlame API returned status '' @ int_text status];
          detail = (case find (\<lambda>t. t \<noteq> []) texts of None \<Rightarrow> [] | Some t \<Rightarrow> t);
          code = (case struct_field doc ''code'' of JStr s \<Rightarrow> s | _ \<Rightarrow> []) in
      IntegrationErr (normalizeIntegrationStatus status) (if code = [] then ''gitflame_api_error'' else code) detail)"

section \<open>Requests\<close>

record http_request =
  rq_method :: string
  rq_url :: string
  rq_authorization :: "string option"
  rq_body :: "json option"

text \<open>A reply, or \<open>None\<close> when the server cannot be reached.\<close>

type_synonym http_reply = "(int \<times> string) option"

record 's gitflame_client =
  gf_baseURL :: string
  gf_apiKey :: string
  gf_request_error :: "string \<Rightarrow> go_error option"
  gf_send :: "http_request \<Rightarrow> 's \<Rightarrow> http_reply \<times> 's"
  gf_unmarshal :: "string \<Rightarrow> json option"
  gf_decode :: "string \<Rightarrow> json option"
  gf_sprint :: "json \<Rightarrow> string"

text \<open>\<open>NewGitFlameClient\<close>: the base URL of a client, \<open>None\<close> for no client.\<close>

definition NewGitFlameClient :: "string \<Rightarrow> string option" where
  "NewGitFlameClient baseURL = (if trim_space baseURL = [] then None else Some (trim_right_chars ''/'' baseURL))"

definition bearer :: "string \<Rightarrow> string option" where
  "bearer apiKey = (if apiKey \<noteq> [] then Some (''Bearer '' @ apiKey) else None)"

definition unreachable :: go_error where
  "unreachable = IntegrationErr 502 ''gitflame_unreachable'' ''GitFlame API is unreachable''"

definition invalid_response :: "string \<Rightarrow> go_error" where
  "invalid_response detail = IntegrationErr 502 ''invalid_gitflame_response'' detail"

definition not_json :: go_error where
  "not_json = invalid_response ''GitFlame API returned invalid JSON''"

definition success_status :: "int \<Rightarrow> bool" where
  "success_status status \<longleftrightarrow> \<not> (status < 200 \<or> status \<ge> 300)"

text \<open>One exchange with the server. The client of the code has no \<open>CheckRedirect\<close>, so net/http may follow redirects of the answer to this
  request by requests of its own; the exchange is the request that the code makes and the answer that it gets in the end.\<close>

definition perform ::
    "'s gitflame_client \<Rightarrow> string \<Rightarrow> string \<Rightarrow> json option \<Rightarrow> ('s, int \<times> string) op" where
  "perform c verb target body =
     (case gf_request_error c target of
        Some e \<Rightarrow> failS e
      | None \<Rightarrow> (\<lambda>s.
          case gf_send c \<lparr>rq_method = verb, rq_url = target, rq_authorization = bearer (gf_apiKey c), rq_body = body\<rparr> s of
            (None, s') \<Rightarrow> (Inl unreachable, s')
          | (Some reply, s') \<Rightarrow> (Inr reply, s')))"

definition with_ref :: "string \<Rightarrow> string \<Rightarrow> string" where
  "with_ref target ref =
     (if ref \<noteq> [] then target @ (if contains_str target ''?'' then ''&'' else ''?'') @ ''ref='' @ QueryEscape ref
      else target)"

text \<open>\<open>doGET\<close>: a body is cut at two million bytes without notice.\<close>

definition doGET :: "'s gitflame_client \<Rightarrow> string \<Rightarrow> string \<Rightarrow> ('s, string) op" where
  "doGET c endpoint ref =
     bindS (perform c ''GET'' (with_ref (gf_baseURL c @ endpoint) ref) None) (\<lambda>(status, body).
       if \<not> success_status status then
         failS (IntegrationErr (normalizeIntegrationStatus status) ''gitflame_api_error''
           (''GitFlame API returned status '' @ int_text status))
       else retS (take 2000000 body))"

definition getRaw :: "'s gitflame_client \<Rightarrow> string \<Rightarrow> string \<Rightarrow> ('s, string) op" where
  "getRaw c endpoint ref = doGET c endpoint ref"

text \<open>\<open>getJSON\<close> into a target that \<open>target\<close> decodes.\<close>

definition getJSON :: "'s gitflame_client \<Rightarrow> string \<Rightarrow> string \<Rightarrow> (json \<Rightarrow> 'a option) \<Rightarrow> ('s, 'a) op" where
  "getJSON c endpoint ref target =
     bindS (doGET c endpoint ref) (\<lambda>body.
       case Option.bind (gf_unmarshal c body) target of None \<Rightarrow> failS not_json | Some v \<Rightarrow> retS v)"

text \<open>\<open>requestJSON\<close> with a target, and without one: then the body of a success is not read.\<close>

definition requestJSON ::
    "'s gitflame_client \<Rightarrow> string \<Rightarrow> string \<Rightarrow> json \<Rightarrow> (json \<Rightarrow> 'a option) option \<Rightarrow> ('s, 'a option) op" where
  "requestJSON c verb endpoint payload target =
     bindS (perform c verb (gf_baseURL c @ endpoint) (Some payload)) (\<lambda>(status, body).
       if \<not> success_status status then failS (gitFlameHTTPError (gf_unmarshal c) status body)
       else
         (case target of
            None \<Rightarrow> retS None
          | Some dec \<Rightarrow> (case Option.bind (gf_decode c body) dec of None \<Rightarrow> failS not_json | Some v \<Rightarrow> retS (Some v))))"

definition postJSON ::
    "'s gitflame_client \<Rightarrow> string \<Rightarrow> json \<Rightarrow> (json \<Rightarrow> 'a option) option \<Rightarrow> ('s, 'a option) op" where
  "postJSON c endpoint payload target = requestJSON c ''POST'' endpoint payload target"

definition unavailable :: "go_error \<Rightarrow> bool" where
  "unavailable err \<longleftrightarrow> integrationStatus err = 404 \<or> integrationStatus err = 405"

text \<open>\<open>postFirstAvailable\<close>: the first endpoint that is not answered with 404 or 405 decides.\<close>

primrec postFirstAvailable ::
    "'s gitflame_client \<Rightarrow> string list \<Rightarrow> json \<Rightarrow> (json \<Rightarrow> 'a option) option \<Rightarrow> go_error option \<Rightarrow> ('s, 'a option) op" where
  "postFirstAvailable c [] payload target lastErr =
     (case lastErr of None \<Rightarrow> retS None | Some e \<Rightarrow> failS e)"
| "postFirstAvailable c (endpoint # endpoints) payload target lastErr =
     tryS (postJSON c endpoint payload target) (\<lambda>r.
       case r of
         Inr v \<Rightarrow> retS v
       | Inl err \<Rightarrow>
           if unavailable err then postFirstAvailable c endpoints payload target (Some err) else failS err)"

definition applyPOSTCandidates :: "string \<Rightarrow> string \<Rightarrow> string \<Rightarrow> string list" where
  "applyPOSTCandidates repositoryID giteaResource fallbackResource =
     (case giteaRepositoryEndpoint repositoryID of
        None \<Rightarrow> []
      | Some endpoint \<Rightarrow>
          [endpoint @ ''/'' @ giteaResource] @
          (if fallbackResource \<noteq> giteaResource then [endpoint @ ''/'' @ fallbackResource] else [])) @
     [''/api/v1/repositories/'' @ PathEscape repositoryID @ ''/'' @ fallbackResource]"

primrec getFirstAvailable ::
    "'s gitflame_client \<Rightarrow> (string \<times> string) list \<Rightarrow> go_error option \<Rightarrow> ('s, string) op" where
  "getFirstAvailable c [] lastErr = (case lastErr of None \<Rightarrow> retS [] | Some e \<Rightarrow> failS e)"
| "getFirstAvailable c (candidate # candidates) lastErr =
     tryS (doGET c (fst candidate) (snd candidate)) (\<lambda>r.
       case r of
         Inr body \<Rightarrow> retS body
       | Inl err \<Rightarrow>
           if integrationStatus err = 404 then getFirstAvailable c candidates (Some err) else failS err)"

section \<open>Collections\<close>

text \<open>\<open>decodeGitFlameCollectionValue\<close>: the decoding of the first wrapper member, in the visiting order of the
  members, that decodes itself or contains one that does, at most five objects deep.\<close>

fun decodeGitFlameCollectionValue :: "nat \<Rightarrow> string list \<Rightarrow> (json \<Rightarrow> 'a option) \<Rightarrow> json \<Rightarrow> 'a option"
  and decode_members :: "nat \<Rightarrow> string list \<Rightarrow> (json \<Rightarrow> 'a option) \<Rightarrow> document \<Rightarrow> 'a option" where
  "decodeGitFlameCollectionValue depth wrappers target v =
     (if depth > 4 then None else (case v of JObj doc \<Rightarrow> decode_members depth wrappers target doc | _ \<Rightarrow> None))"
| "decode_members depth wrappers target [] = None"
| "decode_members depth wrappers target ((key, nested) # doc) =
     (if key \<notin> set wrappers then decode_members depth wrappers target doc
      else
        (case target nested of
           Some a \<Rightarrow> Some a
         | None \<Rightarrow>
             (case decodeGitFlameCollectionValue (Suc depth) wrappers target nested of
                Some a \<Rightarrow> Some a
              | None \<Rightarrow> decode_members depth wrappers target doc)))"

definition decodeGitFlameCollection ::
    "(string \<Rightarrow> json option) \<Rightarrow> string \<Rightarrow> string list \<Rightarrow> (json \<Rightarrow> 'a option) \<Rightarrow> 'a result" where
  "decodeGitFlameCollection parse body names target =
     (case parse body of
        None \<Rightarrow> Inl not_json
      | Some document \<Rightarrow>
          (case target document of
             Some a \<Rightarrow> Inr a
           | None \<Rightarrow>
               (case decodeGitFlameCollectionValue 0 (names @ [''content'', ''results'', ''values'']) target document of
                  Some a \<Rightarrow> Inr a
                | None \<Rightarrow> Inl (invalid_response ''GitFlame API returned an unexpected collection format''))))"

section \<open>What is sent\<close>

text \<open>A client that also records its requests, and operations all of whose requests satisfy a predicate.\<close>

definition recorded :: "'s gitflame_client \<Rightarrow> ('s \<times> http_request list) gitflame_client" where
  "recorded c =
     \<lparr>gf_baseURL = gf_baseURL c, gf_apiKey = gf_apiKey c, gf_request_error = gf_request_error c,
      gf_send = (\<lambda>rq (s, sent). case gf_send c rq s of (reply, s') \<Rightarrow> (reply, (s', sent @ [rq]))),
      gf_unmarshal = gf_unmarshal c, gf_decode = gf_decode c, gf_sprint = gf_sprint c\<rparr>"

definition all_sent :: "(http_request \<Rightarrow> bool) \<Rightarrow> 's \<times> http_request list \<Rightarrow> bool" where
  "all_sent ok st \<longleftrightarrow> list_all ok (snd st)"

lemma recorded_simps [simp]:
  "gf_baseURL (recorded c) = gf_baseURL c" "gf_apiKey (recorded c) = gf_apiKey c"
  "gf_unmarshal (recorded c) = gf_unmarshal c" "gf_decode (recorded c) = gf_decode c"
  "gf_sprint (recorded c) = gf_sprint c" "gf_request_error (recorded c) = gf_request_error c"
  by (simp_all add: recorded_def)

text \<open>What every request of the client satisfies: it goes to the configured server with the configured token, and
  if it is not a read it names the branch that it writes to.\<close>

definition written_branch :: "http_request \<Rightarrow> json option" where
  "written_branch rq =
     (case rq_body rq of
        Some (JObj doc) \<Rightarrow>
          (case List.map_filter (member doc) [''branch'', ''new_branch_name'', ''from''] of [] \<Rightarrow> None | v # _ \<Rightarrow> Some v)
      | _ \<Rightarrow> None)"

definition own_request :: "'s gitflame_client \<Rightarrow> string \<Rightarrow> http_request \<Rightarrow> bool" where
  "own_request c branch rq \<longleftrightarrow>
     has_prefix (rq_url rq) (gf_baseURL c) \<and> rq_authorization rq = bearer (gf_apiKey c) \<and>
     (rq_method rq = ''GET'' \<or> written_branch rq = Some (JStr branch))"

definition writes_branch :: "string \<Rightarrow> json \<Rightarrow> bool" where
  "writes_branch branch payload \<longleftrightarrow>
     written_branch \<lparr>rq_method = ''POST'', rq_url = [], rq_authorization = None, rq_body = Some payload\<rparr> = Some (JStr branch)"

lemma keeps_perform:
  assumes "own_request c branch \<lparr>rq_method = verb, rq_url = target, rq_authorization = bearer (gf_apiKey c), rq_body = body\<rparr>"
  shows "keeps (all_sent (own_request c branch)) (perform (recorded c) verb target body)"
proof (rule keepsI)
  fix st :: "'a \<times> http_request list"
  assume st: "all_sent (own_request c branch) st"
  obtain s sent where st2: "st = (s, sent)" by fastforce
  obtain reply s' where send: "gf_send c \<lparr>rq_method = verb, rq_url = target, rq_authorization = bearer (gf_apiKey c),
      rq_body = body\<rparr> s = (reply, s')" by fastforce
  show "all_sent (own_request c branch) (snd (perform (recorded c) verb target body st))"
    using st st2 send assms
    by (cases "gf_request_error c target"; cases reply) (simp_all add: perform_def all_sent_def recorded_def)
qed

lemma keeps_doGET [keeps_intros]: "keeps (all_sent (own_request c branch)) (doGET (recorded c) endpoint ref)"
  unfolding doGET_def recorded_simps
  by (intro keeps_intros keeps_perform)
    (simp add: own_request_def with_ref_def has_prefix_iff)

lemma keeps_getJSON [keeps_intros]: "keeps (all_sent (own_request c branch)) (getJSON (recorded c) endpoint ref target)"
  unfolding getJSON_def by (intro keeps_intros)

lemma keeps_requestJSON:
  "writes_branch branch payload \<Longrightarrow>
     keeps (all_sent (own_request c branch)) (requestJSON (recorded c) verb endpoint payload target)"
  unfolding requestJSON_def recorded_simps
  by (intro keeps_intros keeps_perform)
    (auto simp: own_request_def writes_branch_def written_branch_def has_prefix_iff)

lemma keeps_postJSON:
  "writes_branch branch payload \<Longrightarrow>
     keeps (all_sent (own_request c branch)) (postJSON (recorded c) endpoint payload target)"
  unfolding postJSON_def by (rule keeps_requestJSON)

lemma keeps_postFirstAvailable:
  "writes_branch branch payload \<Longrightarrow>
     keeps (all_sent (own_request c branch)) (postFirstAvailable (recorded c) endpoints payload target lastErr)"
proof (induction endpoints arbitrary: lastErr)
  case Nil
  show ?case unfolding postFirstAvailable.simps by (intro keeps_intros)
next
  case (Cons e es)
  then show ?case by (auto intro!: keeps_intros keeps_postJSON)
qed

end
