(* ===== verification/GitFlame_Tree.thy ===== *)
theory GitFlame_Tree imports GitFlame_Http Domain begin

text \<open>
  The tree of a repository: \<open>RepositoryTree\<close> of backend/internal/httpapi/gitflame_client.go walks the
  directories that the contents API names, breadth first. The loop terminates whatever the server answers:
  each directory costs an entry of the tree, which is limited.
\<close>

section \<open>Entries\<close>

record tree_entry =
  te_path :: string
  te_type :: string

record content_entry =
  ce_path :: string
  ce_name :: string
  ce_title :: string
  ce_type :: string

definition content_entry_of :: "json \<Rightarrow> content_entry option" where
  "content_entry_of v =
     Option.bind (document_of v) (\<lambda>doc.
     Option.bind (text_field (struct_field doc ''path'')) (\<lambda>p.
     Option.bind (text_field (struct_field doc ''name'')) (\<lambda>n.
     Option.bind (text_field (struct_field doc ''title'')) (\<lambda>t.
     Option.bind (text_field (struct_field doc ''type'')) (\<lambda>k.
       Some \<lparr>ce_path = p, ce_name = n, ce_title = t, ce_type = k\<rparr>)))))"

fun content_entries :: "json \<Rightarrow> content_entry list option" where
  "content_entries JNull = Some []"
| "content_entries (JArr vs) = those (map content_entry_of vs)"
| "content_entries v = None"

definition directory_types :: "string list" where
  "directory_types = [''dir'', ''tree'', ''directory'', ''folder'']"

definition entry_path :: "string \<Rightarrow> content_entry \<Rightarrow> string" where
  "entry_path directory item =
     (let p = trim_chars ''/'' (trim_space (firstNonEmptyString [ce_path item, ce_name item, ce_title item])) in
      if p \<noteq> [] \<and> directory \<noteq> [] \<and> slash \<notin> set p then path_Join [directory, p] else p)"

definition maxTreeEntries :: int where
  "maxTreeEntries = 10000"

definition tree_too_large :: go_error where
  "tree_too_large = IntegrationErr 502 ''gitflame_tree_too_large'' ''GitFlame repository tree exceeds 10000 entries''"

section \<open>The walk\<close>

text \<open>The variables of the loop: the directories to read, those ever queued, the paths of the tree, and the tree.\<close>

record tree_walk =
  tw_directories :: "string list"
  tw_visited :: "string list"
  tw_seen :: "string list"
  tw_tree :: "tree_entry list"

text \<open>One item of a directory, and all of them.\<close>

definition walk_item :: "string \<Rightarrow> content_entry \<Rightarrow> tree_walk \<Rightarrow> tree_walk result" where
  "walk_item directory item w =
     (let p = entry_path directory item in
      if trim_chars ''/'' (trim_space (firstNonEmptyString [ce_path item, ce_name item, ce_title item])) = [] then Inr w
      else if p \<in> set (tw_seen w) then Inr w
      else
        let is_dir = (to_lower (trim_space (ce_type item)) \<in> set directory_types);
            queued = (if is_dir \<and> p \<notin> set (tw_visited w)
                      then w\<lparr>tw_visited := tw_visited w @ [p], tw_directories := tw_directories w @ [p]\<rparr> else w);
            grown = queued\<lparr>tw_seen := tw_seen w @ [p],
              tw_tree := tw_tree w @ [\<lparr>te_path = p, te_type = (if is_dir then ''dir'' else ''file'')\<rparr>]\<rparr> in
        if go_len (tw_tree grown) > maxTreeEntries then Inl tree_too_large else Inr grown)"

fun walk_items :: "string \<Rightarrow> content_entry list \<Rightarrow> tree_walk \<Rightarrow> tree_walk result" where
  "walk_items directory [] w = Inr w"
| "walk_items directory (item # items) w =
     (case walk_item directory item w of Inl e \<Rightarrow> Inl e | Inr w' \<Rightarrow> walk_items directory items w')"

definition directory_endpoint :: "string \<Rightarrow> string \<Rightarrow> string" where
  "directory_endpoint repositoryEndpoint directory =
     repositoryEndpoint @ ''/contents'' @ (if directory \<noteq> [] then ''/'' @ escapeRepositoryPath directory else [])"

definition read_directory :: "'s gitflame_client \<Rightarrow> string \<Rightarrow> string \<Rightarrow> string \<Rightarrow> ('s, content_entry list) op" where
  "read_directory c repositoryEndpoint ref directory =
     bindS (doGET c (directory_endpoint repositoryEndpoint directory) ref) (\<lambda>body.
       liftR (decodeGitFlameCollection (gf_unmarshal c) body [''contents'', ''items'', ''data''] content_entries))"

text \<open>What an item and a directory add: as many queued directories as entries at most, and only within the limit.\<close>

definition walk_measure :: "tree_walk \<Rightarrow> nat" where
  "walk_measure w = 2 * (10000 - length (tw_tree w)) + length (tw_directories w)"

lemma walk_item_measure: "walk_item directory item w = Inr w' \<Longrightarrow> walk_measure w' \<le> walk_measure w"
  by (auto simp: walk_item_def walk_measure_def maxTreeEntries_def go_len_def Let_def split: if_splits)

lemma walk_items_measure: "walk_items directory items w = Inr w' \<Longrightarrow> walk_measure w' \<le> walk_measure w"
proof (induction items arbitrary: w)
  case (Cons item items)
  then show ?case
    using walk_item_measure by (fastforce split: sum.splits dest: le_trans)
qed simp

function walk_tree :: "'s gitflame_client \<Rightarrow> string \<Rightarrow> string \<Rightarrow> tree_walk \<Rightarrow> ('s, tree_entry list) op" where
  "walk_tree c repositoryEndpoint ref w s =
     (case tw_directories w of
        [] \<Rightarrow> (Inr (tw_tree w), s)
      | directory # directories \<Rightarrow>
          (case read_directory c repositoryEndpoint ref directory s of
             (Inl e, s') \<Rightarrow> (Inl e, s')
           | (Inr items, s') \<Rightarrow>
               (case walk_items directory items (w\<lparr>tw_directories := directories\<rparr>) of
                  Inl e \<Rightarrow> (Inl e, s')
                | Inr w' \<Rightarrow> walk_tree c repositoryEndpoint ref w' s')))"
  by pat_completeness auto
termination
proof (relation "measure (\<lambda>(c, e, r, w, s). walk_measure w)")
  fix c :: "'s gitflame_client" and e r w s directory directories x items s' y w'
  assume "tw_directories w = directory # directories"
    "walk_items directory items (w\<lparr>tw_directories := directories\<rparr>) = Inr w'"
  then show "((c, e, r, w', s'), (c, e, r, w, s)) \<in> measure (\<lambda>(c, e, r, w, s). walk_measure w)"
    using walk_items_measure by (fastforce simp: walk_measure_def)
qed simp

declare walk_tree.simps [simp del]

definition first_walk :: tree_walk where
  "first_walk = \<lparr>tw_directories = [[]], tw_visited = [[]], tw_seen = [], tw_tree = []\<rparr>"

definition RepositoryTree :: "'s gitflame_client \<Rightarrow> string \<Rightarrow> string \<Rightarrow> ('s, tree_entry list) op" where
  "RepositoryTree c repositoryID ref =
     (case giteaRepositoryEndpoint repositoryID of
        None \<Rightarrow> failS (IntegrationErr 422 ''invalid_repository_id'' ''repository id must use owner/repository format'')
      | Some endpoint \<Rightarrow> walk_tree c endpoint ref first_walk)"

section \<open>Bounds of the walk\<close>

text \<open>The invariant of the loop, with the number of requests made so far: every queued or read directory but the
  root is an entry of the tree.\<close>

definition walk_ok :: "nat \<Rightarrow> tree_walk \<Rightarrow> bool" where
  "walk_ok requests w \<longleftrightarrow>
     tw_seen w = map te_path (tw_tree w) \<and> distinct (tw_seen w) \<and> go_len (tw_tree w) \<le> maxTreeEntries \<and>
     requests + length (tw_directories w) \<le> Suc (length (tw_tree w))"

lemma walk_item_ok: "walk_item directory item w = Inr w' \<Longrightarrow> walk_ok n w \<Longrightarrow> walk_ok n w'"
  by (auto simp: walk_item_def walk_ok_def Let_def split: if_splits)

lemma walk_items_ok: "walk_items directory items w = Inr w' \<Longrightarrow> walk_ok n w \<Longrightarrow> walk_ok n w'"
  by (induction items arbitrary: w) (auto split: sum.splits dest: walk_item_ok)

lemma perform_sends:
  "\<exists>s' more. snd (perform (recorded c) verb target body (s, sent)) = (s', sent @ more) \<and> length more \<le> 1"
proof (cases "gf_request_error c target")
  case None
  obtain reply s' where "gf_send c \<lparr>rq_method = verb, rq_url = target, rq_authorization = bearer (gf_apiKey c),
      rq_body = body\<rparr> s = (reply, s')" by fastforce
  with None show ?thesis by (cases reply) (simp_all add: perform_def recorded_def)
qed (simp add: perform_def)

lemma read_directory_sends:
  assumes "read_directory (recorded c) endpoint ref directory (s, sent) = (r, (s', sent'))"
  shows "length sent' \<le> Suc (length sent)"
proof -
  obtain r1 s1 sent1 where get: "perform (recorded c) ''GET''
      (with_ref (gf_baseURL c @ directory_endpoint endpoint directory) ref) None (s, sent) = (r1, (s1, sent1))"
    by (metis prod.collapse)
  then have "length sent1 \<le> Suc (length sent)"
    using perform_sends [of c "''GET''" "with_ref (gf_baseURL c @ directory_endpoint endpoint directory) ref" None s sent]
    by auto
  moreover have "sent' = sent1"
    using assms get
    by (auto simp: read_directory_def doGET_def bindS_def split: sum.splits prod.splits if_splits)
  ultimately show ?thesis by simp
qed

definition walk_outcome :: "tree_entry list result \<times> 's \<times> http_request list \<Rightarrow> bool" where
  "walk_outcome out \<longleftrightarrow>
     (case out of (r, (s', sent)) \<Rightarrow>
        go_len sent \<le> maxTreeEntries + 1 \<and>
        (case r of
           Inl e \<Rightarrow> True
         | Inr tree \<Rightarrow> distinct (map te_path tree) \<and> go_len tree \<le> maxTreeEntries \<and> go_len sent \<le> go_len tree + 1))"

lemma walk_tree_bounded:
  "walk_ok (length sent) w \<Longrightarrow> walk_outcome (walk_tree (recorded c) endpoint ref w (s, sent))"
proof (induction "recorded c" endpoint ref w "(s, sent)" arbitrary: s sent rule: walk_tree.induct)
  case (1 endpoint ref w s sent)
  show ?case
  proof (cases "tw_directories w")
    case Nil
    with 1(2) show ?thesis
      by (auto simp: walk_tree.simps [of "recorded c"] walk_outcome_def walk_ok_def go_len_def)
  next
    case (Cons directory directories)
    obtain r s' sent' where read: "read_directory (recorded c) endpoint ref directory (s, sent) = (r, (s', sent'))"
      by (metis prod.collapse)
    note sends = read_directory_sends [OF read]
    have popped: "walk_ok (length sent') (w\<lparr>tw_directories := directories\<rparr>)"
      using 1(2) Cons sends by (auto simp: walk_ok_def)
    then have bound: "go_len sent' \<le> maxTreeEntries + 1"
      by (auto simp: walk_ok_def go_len_def)
    show ?thesis
    proof (cases r)
      case (Inl e)
      with Cons read bound show ?thesis by (simp add: walk_tree.simps [of "recorded c"] walk_outcome_def)
    next
      case (Inr items)
      show ?thesis
      proof (cases "walk_items directory items (w\<lparr>tw_directories := directories\<rparr>)")
        case (Inl e)
        with Cons read Inr bound show ?thesis by (simp add: walk_tree.simps [of "recorded c"] walk_outcome_def)
      next
        case (Inr w')
        have "walk_outcome (walk_tree (recorded c) endpoint ref w' (s', sent'))"
          by (rule 1(1) [OF Cons read [symmetric] \<open>r = Inr items\<close> Inr])
            (rule walk_items_ok [OF Inr popped])
        with Cons read \<open>r = Inr items\<close> Inr show ?thesis by (simp add: walk_tree.simps [of "recorded c" endpoint ref w])
      qed
    qed
  qed
qed

text \<open>C20: Reading the tree of a repository ends after at most 10001 requests, whatever the server answers, even with
  directories that contain themselves: a tree that is returned has at most 10000 entries under different
  paths, and cost no more than one request per entry and one for the root.\<close>

theorem RepositoryTree_bounded:
  "case RepositoryTree (recorded c) repositoryID ref (s, []) of (r, (s', sent)) \<Rightarrow>
     go_len sent \<le> 10001 \<and>
     (case r of
        Inl e \<Rightarrow> True
      | Inr tree \<Rightarrow> distinct (map te_path tree) \<and> go_len tree \<le> 10000 \<and> go_len sent \<le> go_len tree + 1)"
proof (cases "giteaRepositoryEndpoint repositoryID")
  case None
  then show ?thesis by (simp add: RepositoryTree_def)
next
  case (Some endpoint)
  have "walk_ok (length ([] :: http_request list)) first_walk"
    by (simp add: walk_ok_def first_walk_def maxTreeEntries_def)
  from walk_tree_bounded [OF this, of c endpoint ref s] Some show ?thesis
    by (auto simp: RepositoryTree_def walk_outcome_def maxTreeEntries_def split: prod.splits sum.splits)
qed

end
