(* ===== verification/GitFlame_Files.thy ===== *)
theory GitFlame_Files imports "HOL-Library.Multiset" GitFlame_Tree Config begin

text \<open>
  What else backend/internal/httpapi/gitflame_client.go reads from GitFlame: the contents of the files that the
  configuration selects, the revision of a branch, the issues, the current user and the metadata of a
  repository. The concurrent requests for file contents complete in an order that is a parameter.
\<close>

section \<open>File contents\<close>

definition bad_repository_id :: go_error where
  "bad_repository_id = IntegrationErr 422 ''invalid_repository_id'' ''repository id must use owner/repository format''"

definition fetchFileContent :: "'s gitflame_client \<Rightarrow> string \<Rightarrow> string \<Rightarrow> string \<Rightarrow> ('s, string) op" where
  "fetchFileContent c repositoryID filePath ref =
     (case giteaRepositoryEndpoint repositoryID of
        None \<Rightarrow> failS bad_repository_id
      | Some endpoint \<Rightarrow> getRaw c (endpoint @ ''/raw/'' @ escapeRepositoryPath filePath) (gitFlameRawRef ref))"

text \<open>The indices without content, which the workers take from a channel; \<open>order\<close> is the order in which the
  requests complete, and the first failure cancels the rest.\<close>

definition missing_contents :: "repository_file list \<Rightarrow> nat list" where
  "missing_contents files = filter (\<lambda>i. trim_space (rf_content (files ! i)) = []) [0..<length files]"

primrec fetch_in_order ::
    "'s gitflame_client \<Rightarrow> string \<Rightarrow> string \<Rightarrow> nat list \<Rightarrow> repository_file list \<Rightarrow> ('s, repository_file list) op" where
  "fetch_in_order c repositoryID ref [] files = retS files"
| "fetch_in_order c repositoryID ref (i # is) files =
     bindS (fetchFileContent c repositoryID (rf_path (files ! i)) ref) (\<lambda>content.
       fetch_in_order c repositoryID ref is (files[i := (files ! i)\<lparr>rf_content := content\<rparr>]))"

definition fetchRepositoryFileContents ::
    "'s gitflame_client \<Rightarrow> (nat list \<Rightarrow> nat list) \<Rightarrow> string \<Rightarrow> string \<Rightarrow> repository_file list \<Rightarrow>
       ('s, repository_file list) op" where
  "fetchRepositoryFileContents c order repositoryID ref files =
     (if files = [] then retS files
      else fetch_in_order c repositoryID ref (order (missing_contents files)) files)"

section \<open>Selected files\<close>

definition newline_text :: string where
  "newline_text = [CHR 0x0A]"

definition quoted :: "string \<Rightarrow> string" where
  "quoted s = [CHR 0x22] @ s @ [CHR 0x22]"

definition defaultIndexConfiguration :: string where
  "defaultIndexConfiguration = concat (map (\<lambda>l. l @ newline_text)
     [''version: 1'', ''analysis:'', ''  enabled: true'', ''  include:'', ''    - '' @ quoted ''**/*'', ''  exclude:'',
      ''    - '' @ quoted ''.git/**'', ''    - '' @ quoted ''node_modules/**'', ''    - '' @ quoted ''dist/**'',
      ''    - '' @ quoted ''build/**''])"

definition selected_path :: "ai_config \<Rightarrow> string \<Rightarrow> bool" where
  "selected_path cfg p \<longleftrightarrow>
     repositoryPathIsIndexableText p \<and> matchesRepositoryRules p (cfg_include_patterns cfg) (cfg_exclude_patterns cfg)"

text \<open>The loop over the requested files, up to the limit.\<close>

fun select_requested :: "ai_config \<Rightarrow> int \<Rightarrow> repository_file list \<Rightarrow> repository_file list \<Rightarrow> repository_file list" where
  "select_requested cfg limit chosen [] = chosen"
| "select_requested cfg limit chosen (f # fs) =
     (if go_len chosen \<ge> limit then chosen
      else if \<not> repositoryFileIsReadable (rf_type f) then select_requested cfg limit chosen fs
      else
        let p = normalizeRepositoryPath (rf_path f) in
        if p = [] \<or> \<not> selected_path cfg p then select_requested cfg limit chosen fs
        else select_requested cfg limit (chosen @ [f\<lparr>rf_path := p, rf_type := []\<rparr>]) fs)"

text \<open>The loop over the tree, which reads each selected file as it goes.\<close>

fun read_tree_files ::
    "'s gitflame_client \<Rightarrow> string \<Rightarrow> string \<Rightarrow> ai_config \<Rightarrow> int \<Rightarrow> repository_file list \<Rightarrow> tree_entry list \<Rightarrow>
       ('s, repository_file list) op" where
  "read_tree_files c repositoryID ref cfg limit chosen [] = retS chosen"
| "read_tree_files c repositoryID ref cfg limit chosen (entry # entries) =
     (if go_len chosen \<ge> limit then retS chosen
      else if te_type entry \<notin> {[], ''file'', ''blob''}
      then read_tree_files c repositoryID ref cfg limit chosen entries
      else
        let p = normalizeRepositoryPath (te_path entry) in
        if \<not> selected_path cfg p then read_tree_files c repositoryID ref cfg limit chosen entries
        else bindS (fetchFileContent c repositoryID p ref) (\<lambda>content.
               read_tree_files c repositoryID ref cfg limit
                 (chosen @ [\<lparr>rf_path = p, rf_content = content, rf_type = []\<rparr>]) entries))"

definition configuration_text ::
    "'s gitflame_client \<Rightarrow> string \<Rightarrow> string \<Rightarrow> string \<Rightarrow> bool \<Rightarrow> ('s, string) op" where
  "configuration_text c repositoryID ref yamlConfig allowMissing =
     (if trim_space yamlConfig \<noteq> [] then retS yamlConfig
      else tryS (fetchFileContent c repositoryID ''.ai.yml'' ref) (\<lambda>r.
        case r of
          Inr content \<Rightarrow> retS content
        | Inl err \<Rightarrow>
            if \<not> allowMissing \<or> integrationStatus err \<noteq> 404 then failS err else retS defaultIndexConfiguration))"

definition repositoryFiles ::
    "'s gitflame_client \<Rightarrow> unmarshal \<Rightarrow> (nat list \<Rightarrow> nat list) \<Rightarrow> string \<Rightarrow> string \<Rightarrow> string \<Rightarrow> repository_file list \<Rightarrow>
       int \<Rightarrow> bool \<Rightarrow> ('s, string \<times> repository_file list) op" where
  "repositoryFiles c unmarshal order repositoryID ref yaml requested maxFiles allowMissing =
     bindS (configuration_text c repositoryID ref yaml allowMissing) (\<lambda>yamlConfig.
       case ParseAIConfig unmarshal yamlConfig of
         Inl err \<Rightarrow> failS (IntegrationErr 422 ''invalid_ai_config'' (error_text err))
       | Inr cfg \<Rightarrow>
           let limit = (if maxFiles > 0 then maxFiles else cfg_max_files cfg) in
           if go_len requested > 0 then
             bindS (fetchRepositoryFileContents c order repositoryID ref (select_requested cfg limit [] requested)) (\<lambda>files.
               retS (yamlConfig, filterIndexableRepositoryContents files))
           else
             bindS (RepositoryTree c repositoryID ref) (\<lambda>tree.
             bindS (read_tree_files c repositoryID ref cfg limit [] tree) (\<lambda>files. retS (yamlConfig, files))))"

definition RepositoryFiles ::
    "'s gitflame_client \<Rightarrow> unmarshal \<Rightarrow> (nat list \<Rightarrow> nat list) \<Rightarrow> string \<Rightarrow> string \<Rightarrow> string \<Rightarrow> repository_file list \<Rightarrow>
       ('s, string \<times> repository_file list) op" where
  "RepositoryFiles c unmarshal order repositoryID ref yaml requested =
     repositoryFiles c unmarshal order repositoryID ref yaml requested 0 False"

definition RepositoryFilesForIndex ::
    "'s gitflame_client \<Rightarrow> unmarshal \<Rightarrow> (nat list \<Rightarrow> nat list) \<Rightarrow> string \<Rightarrow> string \<Rightarrow> string \<Rightarrow> repository_file list \<Rightarrow>
       ('s, string \<times> repository_file list) op" where
  "RepositoryFilesForIndex c unmarshal order repositoryID ref yaml requested =
     repositoryFiles c unmarshal order repositoryID ref yaml requested 2000 True"

section \<open>Revisions and issues\<close>

definition RepositoryRevision :: "'s gitflame_client \<Rightarrow> string \<Rightarrow> string \<Rightarrow> ('s, string) op" where
  "RepositoryRevision c repositoryID rawRef =
     (case giteaRepositoryEndpoint repositoryID of
        None \<Rightarrow> failS bad_repository_id
      | Some endpoint \<Rightarrow>
          let trimmed = trim_space (trim_prefix rawRef ''refs/heads/'');
              ref = (if trimmed = [] then ''main'' else trimmed) in
          bindS (getJSON c (endpoint @ ''/branches/'' @ PathEscape ref) [] document_of) (\<lambda>response.
            let sha = trim_space (firstString (gf_sprint c) response [''commit.id'', ''commit.sha'', ''sha'', ''id'']) in
            if sha = [] then failS (invalid_response ''GitFlame branch response did not contain a commit sha'')
            else retS sha))"

text \<open>The author of an issue: a name, or an object with one.\<close>

definition gitFlameIssueAuthor :: "json option \<Rightarrow> string" where
  "gitFlameIssueAuthor raw =
     (case raw of
        None \<Rightarrow> []
      | Some (JStr s) \<Rightarrow> s
      | Some JNull \<Rightarrow> []
      | Some (JObj doc) \<Rightarrow>
          (case those (map (\<lambda>k. text_field (struct_field doc k)) [''username'', ''login'', ''name'']) of
             None \<Rightarrow> []
           | Some names \<Rightarrow> firstNonEmptyString names)
      | Some v \<Rightarrow> [])"

record raw_issue =
  ri_id :: json
  ri_iid :: json
  ri_number :: json
  ri_title :: string
  ri_body :: string
  ri_description :: string
  ri_state :: string
  ri_author :: "json option"
  ri_user :: "json option"

text \<open>A raw message is absent or any value, \<open>null\<close> included.\<close>

definition raw_field :: "document \<Rightarrow> string \<Rightarrow> json option" where
  "raw_field doc name = map_option snd (find (\<lambda>(k, v). equal_fold k name) (rev doc))"

definition raw_issue_of :: "json \<Rightarrow> raw_issue option" where
  "raw_issue_of v =
     Option.bind (document_of v) (\<lambda>doc.
     Option.bind (text_field (struct_field doc ''title'')) (\<lambda>t.
     Option.bind (text_field (struct_field doc ''body'')) (\<lambda>b.
     Option.bind (text_field (struct_field doc ''description'')) (\<lambda>d.
     Option.bind (text_field (struct_field doc ''state'')) (\<lambda>st.
       Some \<lparr>ri_id = struct_field doc ''id'', ri_iid = struct_field doc ''iid'', ri_number = struct_field doc ''number'',
         ri_title = t, ri_body = b, ri_description = d, ri_state = st, ri_author = raw_field doc ''author'',
         ri_user = raw_field doc ''user''\<rparr>)))))"

fun raw_issues :: "json \<Rightarrow> raw_issue list option" where
  "raw_issues JNull = Some []"
| "raw_issues (JArr vs) = those (map raw_issue_of vs)"
| "raw_issues v = None"

definition issue_of_raw :: "(json \<Rightarrow> string) \<Rightarrow> raw_issue \<Rightarrow> issue_payload" where
  "issue_of_raw spr item =
     \<lparr>issue_id = firstNonEmptyValue spr [ri_iid item, ri_number item, ri_id item], issue_title = ri_title item,
      issue_body = (if ri_body item = [] then ri_description item else ri_body item),
      issue_author = (if gitFlameIssueAuthor (ri_author item) = [] then gitFlameIssueAuthor (ri_user item)
                      else gitFlameIssueAuthor (ri_author item)),
      issue_state = ri_state item\<rparr>"

text \<open>The candidates in turn: one that is not found or cannot be decoded leads to the next.\<close>

primrec first_issues ::
    "'s gitflame_client \<Rightarrow> string list \<Rightarrow> go_error option \<Rightarrow> ('s, raw_issue list) op" where
  "first_issues c [] lastErr = (case lastErr of None \<Rightarrow> retS [] | Some e \<Rightarrow> failS e)"
| "first_issues c (candidate # candidates) lastErr =
     tryS (doGET c candidate []) (\<lambda>r.
       case r of
         Inl err \<Rightarrow> if integrationStatus err = 404 then first_issues c candidates (Some err) else failS err
       | Inr body \<Rightarrow>
           (case decodeGitFlameCollection (gf_unmarshal c) body [''issues'', ''items'', ''data''] raw_issues of
              Inl err \<Rightarrow> first_issues c candidates (Some err)
            | Inr raw \<Rightarrow> retS raw))"

definition issue_candidates :: "string \<Rightarrow> string list" where
  "issue_candidates repositoryID =
     (case giteaRepositoryEndpoint repositoryID of
        None \<Rightarrow> [] | Some endpoint \<Rightarrow> [endpoint @ ''/issues?state=all&type=issues&limit=100'']) @
     [''/api/v1/repositories/'' @ PathEscape repositoryID @ ''/issues?state=all'']"

definition RepositoryIssues :: "'s gitflame_client \<Rightarrow> string \<Rightarrow> ('s, issue_payload list) op" where
  "RepositoryIssues c repositoryID =
     bindS (first_issues c (issue_candidates repositoryID) None) (\<lambda>raw. retS (map (issue_of_raw (gf_sprint c)) raw))"

section \<open>Users and repositories\<close>

record gitflame_profile =
  gp_id :: string
  gp_username :: string
  gp_login :: string
  gp_name :: string
  gp_email :: string

definition profile_of :: "(json \<Rightarrow> string) \<Rightarrow> document \<Rightarrow> gitflame_profile" where
  "profile_of spr response =
     (let str = firstString spr response;
          pid = str [''id'', ''user.id'', ''data.id''];
          username = str [''username'', ''login'', ''user.username'', ''user.login'', ''data.username'', ''data.login''];
          login = str [''login'', ''username'', ''user.login'', ''user.username'', ''data.login'', ''data.username''];
          name = str [''name'', ''user.name'', ''data.name''];
          named = (if username = [] then login else username) in
      \<lparr>gp_id = (if pid = [] \<and> username \<noteq> [] then username else pid),
       gp_username = (if named = [] then name else named), gp_login = login, gp_name = name,
       gp_email = str [''email'', ''user.email'', ''data.email'']\<rparr>)"

primrec first_profile :: "'s gitflame_client \<Rightarrow> string list \<Rightarrow> go_error option \<Rightarrow> ('s, gitflame_profile) op" where
  "first_profile c [] lastErr =
     failS (case lastErr of
        None \<Rightarrow> IntegrationErr 401 ''invalid_gitflame_token'' ''GitFlame token could not be validated''
      | Some e \<Rightarrow> e)"
| "first_profile c (endpoint # endpoints) lastErr =
     tryS (getJSON c endpoint [] document_of) (\<lambda>r.
       case r of
         Inl err \<Rightarrow> first_profile c endpoints (Some err)
       | Inr response \<Rightarrow>
           let profile = profile_of (gf_sprint c) response in
           if gp_id profile \<noteq> [] \<and> gp_username profile \<noteq> [] then retS profile
           else first_profile c endpoints (Some (IntegrationErr 502 ''invalid_gitflame_user_response''
                  ''GitFlame API did not return user id and username'')))"

definition CurrentUser :: "'s gitflame_client \<Rightarrow> ('s, gitflame_profile) op" where
  "CurrentUser c = first_profile c [''/api/v1/user'', ''/api/v1/users/me'', ''/api/v1/profile''] None"

definition repositoryMetadataFromGitFlameResponse ::
    "(json \<Rightarrow> string) \<Rightarrow> document \<Rightarrow> repository_metadata \<Rightarrow> repository_metadata" where
  "repositoryMetadataFromGitFlameResponse spr response fallback =
     (let str = (\<lambda>old names. let v = firstString spr response names in if v \<noteq> [] then v else old);
          branch = str (repo_default_branch fallback)
            [''default_branch'', ''defaultBranch'', ''repository.default_branch'', ''data.default_branch''] in
      \<lparr>repo_id = str (repo_id fallback) [''full_name'', ''fullName'', ''repository.full_name'', ''data.full_name'', ''id'',
         ''repository.id'', ''data.id''],
       repo_name = str (repo_name fallback)
         [''name'', ''path'', ''repository.name'', ''repository.path'', ''data.name'', ''data.path''],
       repo_default_branch = (if branch = [] then ''main'' else branch),
       repo_commit_sha = str (repo_commit_sha fallback)
         [''commit_sha'', ''sha'', ''default_branch_sha'', ''repository.commit_sha'', ''data.commit_sha''],
       repo_web_url = str (repo_web_url fallback)
         [''web_url'', ''html_url'', ''url'', ''repository.web_url'', ''data.web_url'']\<rparr>)"

record resolved_repository =
  rr_metadata :: repository_metadata
  rr_repo_url :: string

definition resolve_candidates :: "string \<Rightarrow> string list" where
  "resolve_candidates p =
     (case giteaRepositoryEndpoint p of None \<Rightarrow> [] | Some endpoint \<Rightarrow> [endpoint]) @
     [''/api/v1/repositories/'' @ PathEscape p, ''/api/v1/projects/'' @ PathEscape p, ''/api/v1/repos/'' @ PathEscape p]"

primrec first_repository ::
    "'s gitflame_client \<Rightarrow> repository_metadata \<Rightarrow> string \<Rightarrow> string list \<Rightarrow> go_error option \<Rightarrow> ('s, resolved_repository) op"
  where
  "first_repository c fallback repoURL [] lastErr =
     failS (case lastErr of
        None \<Rightarrow> IntegrationErr 404 ''gitflame_repository_not_found'' ''GitFlame repository was not found''
      | Some e \<Rightarrow> e)"
| "first_repository c fallback repoURL (endpoint # endpoints) lastErr =
     tryS (getJSON c endpoint [] document_of) (\<lambda>r.
       case r of
         Inl err \<Rightarrow>
           if integrationStatus err \<noteq> 404 then failS err
           else first_repository c fallback repoURL endpoints (Some err)
       | Inr response \<Rightarrow>
           let metadata = repositoryMetadataFromGitFlameResponse (gf_sprint c) response fallback in
           retS \<lparr>rr_metadata = metadata, rr_repo_url = firstNonEmptyString [repo_web_url metadata, repoURL]\<rparr>)"

definition ResolveRepository ::
    "'s gitflame_client \<Rightarrow> (string \<Rightarrow> absolute_url option) \<Rightarrow> string \<Rightarrow> ('s, resolved_repository) op" where
  "ResolveRepository c parse_url rawURL =
     (case parseGitFlameRepositoryURL parse_url rawURL of
        Inl err \<Rightarrow> failS (IntegrationErr 422 ''invalid_repo_url'' (error_text err))
      | Inr parsed \<Rightarrow>
          first_repository c
            \<lparr>repo_id = pu_path parsed, repo_name = path_Base (pu_path parsed), repo_default_branch = ''main'',
             repo_commit_sha = [], repo_web_url = pu_web_url parsed\<rparr>
            (pu_web_url parsed) (resolve_candidates (pu_path parsed)) None)"

section \<open>What is returned\<close>

text \<open>Fetching contents changes nothing but contents.\<close>

lemma fetch_in_order_paths:
  "fetch_in_order c repositoryID ref is files s = (Inr fs, s') \<Longrightarrow> map rf_path fs = map rf_path files"
proof (induction "is" arbitrary: files s)
  case (Cons i "is")
  then obtain content s1 where
    "fetch_in_order c repositoryID ref is (files[i := (files ! i)\<lparr>rf_content := content\<rparr>]) s1 = (Inr fs, s')"
    unfolding fetch_in_order.simps by (blast elim: bindS_InrE)
  then have "map rf_path fs = (map rf_path files)[i := rf_path (files ! i)]"
    using Cons.IH by (simp add: map_update)
  then show ?case by (cases "i < length files") (simp_all add: list_update_same_conv list_update_beyond)
qed simp

lemma fetchRepositoryFileContents_paths:
  "fetchRepositoryFileContents c order repositoryID ref files s = (Inr fs, s') \<Longrightarrow> map rf_path fs = map rf_path files"
  by (auto simp: fetchRepositoryFileContents_def dest: fetch_in_order_paths split: if_splits)

definition chosen_ok :: "ai_config \<Rightarrow> int \<Rightarrow> repository_file list \<Rightarrow> bool" where
  "chosen_ok cfg limit files \<longleftrightarrow> go_len files \<le> max 0 limit \<and> list_all (\<lambda>f. selected_path cfg (rf_path f)) files"

lemma chosen_ok_Nil [simp]: "chosen_ok cfg limit []"
  by (simp add: chosen_ok_def go_len_def)

lemma chosen_ok_snoc:
  "chosen_ok cfg limit files \<Longrightarrow> \<not> go_len files \<ge> limit \<Longrightarrow> selected_path cfg (rf_path f) \<Longrightarrow>
     chosen_ok cfg limit (files @ [f])"
  by (simp add: chosen_ok_def go_len_def)

lemma chosen_ok_paths: "map rf_path fs = map rf_path files \<Longrightarrow> chosen_ok cfg limit files \<Longrightarrow> chosen_ok cfg limit fs"
  unfolding chosen_ok_def go_len_def list_all_length by (metis length_map nth_map)

lemma chosen_ok_filter: "chosen_ok cfg limit files \<Longrightarrow> chosen_ok cfg limit (filter P files)"
  by (auto simp: chosen_ok_def go_len_def list_all_iff intro: order_trans [OF of_nat_mono [OF length_filter_le]])

lemma select_requested_ok: "chosen_ok cfg limit chosen \<Longrightarrow> chosen_ok cfg limit (select_requested cfg limit chosen fs)"
  by (induction cfg limit chosen fs rule: select_requested.induct) (simp_all add: chosen_ok_snoc Let_def)

lemma read_tree_files_ok:
  "read_tree_files c repositoryID ref cfg limit chosen entries s = (Inr fs, s') \<Longrightarrow> chosen_ok cfg limit chosen \<Longrightarrow>
     chosen_ok cfg limit fs"
proof (induction entries arbitrary: chosen s)
  case (Cons entry entries)
  let ?p = "normalizeRepositoryPath (te_path entry)"
  show ?case
  proof (cases "\<not> go_len chosen \<ge> limit \<and> te_type entry \<in> {[], ''file'', ''blob''} \<and> selected_path cfg ?p")
    case True
    with Cons.prems(1) obtain content s1 where
      "read_tree_files c repositoryID ref cfg limit
         (chosen @ [\<lparr>rf_path = ?p, rf_content = content, rf_type = []\<rparr>]) entries s1 = (Inr fs, s')"
      by (auto simp: Let_def elim!: bindS_InrE)
    from Cons.IH [OF this] show ?thesis using True Cons.prems(2) by (simp add: chosen_ok_snoc)
  next
    case False
    with Cons show ?thesis by (auto simp: Let_def split: if_splits)
  qed
qed simp

definition readable_text :: "repository_file \<Rightarrow> bool" where
  "readable_text f \<longleftrightarrow> valid_utf8 (rf_content f) \<and> CHR 0x00 \<notin> set (rf_content f)"

text \<open>C21: Whatever the server answers and in whatever order the requests for contents complete, the files that are
  returned for an analysis or an index obey the returned configuration: their paths are selected by its
  include and exclude patterns and are not of an excluded file type, and they are no more than the limit (the
  argument if it is positive, else the configured maximum). Files that were asked for by name are
  also valid UTF-8 without a zero byte.\<close>

theorem repositoryFiles_obey_configuration:
  "case fst (repositoryFiles c unmarshal order repositoryID ref yaml requested maxFiles allowMissing s) of
     Inl e \<Rightarrow> True
   | Inr (yamlConfig, files) \<Rightarrow>
       (case ParseAIConfig unmarshal yamlConfig of
          Inl e \<Rightarrow> False
        | Inr cfg \<Rightarrow>
            go_len files \<le> max 0 (if maxFiles > 0 then maxFiles else cfg_max_files cfg) \<and>
            list_all (\<lambda>f. selected_path cfg (rf_path f)) files \<and> (requested = [] \<or> list_all readable_text files))"
proof (cases "repositoryFiles c unmarshal order repositoryID ref yaml requested maxFiles allowMissing s")
  case run: (Pair r s')
  show ?thesis
  proof (cases r)
    case (Inr out)
    with run obtain yamlConfig cfg s1 where cfg: "ParseAIConfig unmarshal yamlConfig = Inr cfg" and
      rest: "(let limit = (if maxFiles > 0 then maxFiles else cfg_max_files cfg) in
           if go_len requested > 0 then
             bindS (fetchRepositoryFileContents c order repositoryID ref (select_requested cfg limit [] requested)) (\<lambda>files.
               retS (yamlConfig, filterIndexableRepositoryContents files))
           else
             bindS (RepositoryTree c repositoryID ref) (\<lambda>tree.
             bindS (read_tree_files c repositoryID ref cfg limit [] tree) (\<lambda>files. retS (yamlConfig, files)))) s1 =
         (Inr out, s')"
      unfolding repositoryFiles_def by (auto elim!: bindS_InrE split: sum.splits)
    let ?limit = "if maxFiles > 0 then maxFiles else cfg_max_files cfg"
    show ?thesis
    proof (cases "requested = []")
      case True
      with rest obtain tree files s2 s3 where "out = (yamlConfig, files)"
        "read_tree_files c repositoryID ref cfg ?limit [] tree s2 = (Inr files, s3)"
        by (auto simp: Let_def go_len_def elim!: bindS_InrE)
      with read_tree_files_ok [OF this(2)] run Inr cfg True show ?thesis by (simp add: chosen_ok_def)
    next
      case False
      with rest obtain files s2 where out: "out = (yamlConfig, filterIndexableRepositoryContents files)" and
        fetch: "fetchRepositoryFileContents c order repositoryID ref (select_requested cfg ?limit [] requested) s1 =
          (Inr files, s2)"
        by (auto simp: Let_def go_len_def elim!: bindS_InrE)
      have "chosen_ok cfg ?limit files"
        by (rule chosen_ok_paths [OF fetchRepositoryFileContents_paths [OF fetch] select_requested_ok]) simp
      then have "chosen_ok cfg ?limit (filterIndexableRepositoryContents files)"
        unfolding filterIndexableRepositoryContents_def by (rule chosen_ok_filter)
      moreover have "list_all readable_text (filterIndexableRepositoryContents files)"
        by (auto simp: filterIndexableRepositoryContents_def readable_text_def list_all_iff)
      ultimately show ?thesis using run Inr cfg out by (simp add: chosen_ok_def)
    qed
  qed (simp add: run)
qed

section \<open>The order of concurrent requests\<close>

text \<open>A server that only reads: its reply is a function of the request.\<close>

definition read_only :: "'s gitflame_client \<Rightarrow> bool" where
  "read_only c \<longleftrightarrow> (\<exists>reply. \<forall>rq s. gf_send c rq s = (reply rq, s))"

lemma fetchFileContent_pure:
  assumes "read_only c"
  obtains answer where "\<And>p s. fetchFileContent c repositoryID p ref s = (answer p, s)"
proof -
  obtain reply where send: "gf_send c rq s = (reply rq, s)" for rq s using assms unfolding read_only_def by blast
  have perform: "\<exists>r. \<forall>s. perform c verb target body s = (r, s)" for verb target body
    using send by (cases "gf_request_error c target";
      cases "reply \<lparr>rq_method = verb, rq_url = target, rq_authorization = bearer (gf_apiKey c), rq_body = body\<rparr>")
      (auto simp: perform_def)
  have get: "\<exists>r. \<forall>s. doGET c endpoint rawRef s = (r, s)" for endpoint rawRef
  proof -
    obtain r where r: "perform c ''GET'' (with_ref (gf_baseURL c @ endpoint) rawRef) None s = (r, s)" for s
      using perform by blast
    show ?thesis
    proof (cases r)
      case (Inr reply)
      then show ?thesis using r by (cases reply; cases "success_status (fst reply)") (simp_all add: doGET_def)
    qed (use r in \<open>simp add: doGET_def\<close>)
  qed
  have "\<exists>r. \<forall>s. fetchFileContent c repositoryID p ref s = (r, s)" for p
    using get by (cases "giteaRepositoryEndpoint repositoryID") (simp_all add: fetchFileContent_def getRaw_def)
  then show ?thesis using that by metis
qed

definition filled :: "(string \<Rightarrow> string result) \<Rightarrow> nat set \<Rightarrow> repository_file list \<Rightarrow> repository_file list" where
  "filled answer is files =
     map (\<lambda>i. if i \<in> is then (files ! i)\<lparr>rf_content := projr (answer (rf_path (files ! i)))\<rparr> else files ! i)
       [0..<length files]"

lemma fetch_in_order_filled:
  assumes pure: "\<And>p s. fetchFileContent c repositoryID p ref s = (answer p, s)"
  shows "distinct is \<Longrightarrow> set is \<subseteq> {..<length files} \<Longrightarrow>
    fetch_in_order c repositoryID ref is files s = (Inr fs, s') \<longleftrightarrow>
      s' = s \<and> (\<forall>i \<in> set is. \<not> isl (answer (rf_path (files ! i)))) \<and> fs = filled answer (set is) files"
proof (induction "is" arbitrary: files)
  case Nil
  then show ?case by (auto simp: filled_def map_nth)
next
  case (Cons i "is")
  show ?case
  proof (cases "answer (rf_path (files ! i))")
    case (Inl e)
    then show ?thesis using pure by (simp add: bindS_def)
  next
    case (Inr content)
    let ?files = "files[i := (files ! i)\<lparr>rf_content := content\<rparr>]"
    have same: "rf_path (?files ! j) = rf_path (files ! j)" if "j \<in> set is" for j
      using Cons.prems that by (cases "j = i") auto
    have "filled answer (set is) ?files = filled answer (set (i # is)) files"
      unfolding filled_def using Cons.prems Inr by (auto simp: nth_list_update intro!: nth_equalityI)
    moreover have "fetch_in_order c repositoryID ref (i # is) files s =
        fetch_in_order c repositoryID ref is ?files s"
      using pure Inr by (simp add: bindS_def)
    ultimately show ?thesis using Cons.IH [of ?files] Cons.prems Inr same by auto
  qed
qed

text \<open>The concurrent requests for contents are deterministic: against a server that only reads, any order in which
  they complete gives the same files, in the order of the request, as making them one after the other; and one
  order fails exactly when another does.\<close>

theorem fetch_order_irrelevant:
  assumes "read_only c" and "mset (order (missing_contents files)) = mset (missing_contents files)"
  shows "fst (fetchRepositoryFileContents c order repositoryID ref files s) = Inr fs \<longleftrightarrow>
    fst (fetchRepositoryFileContents c id repositoryID ref files s) = Inr fs"
proof -
  let ?is = "missing_contents files"
  obtain answer where pure: "\<And>p s. fetchFileContent c repositoryID p ref s = (answer p, s)"
    using fetchFileContent_pure [OF assms(1)] by metis
  have ok: "distinct ?is" "set ?is \<subseteq> {..<length files}"
    by (auto simp: missing_contents_def)
  then have ok': "distinct (order ?is)" "set (order ?is) = set ?is"
    using mset_eq_imp_distinct_iff [OF assms(2)] mset_eq_setD [OF assms(2)] by simp_all
  have inr: "fst m = Inr fs \<longleftrightarrow> (\<exists>s'. m = (Inr fs, s'))" for m :: "repository_file list result \<times> 'a"
    by (cases m) simp
  show ?thesis
    using fetch_in_order_filled [OF pure ok] fetch_in_order_filled [OF pure, of "order ?is" files] ok ok'
    by (simp add: fetchRepositoryFileContents_def inr)
qed

definition sample_reader :: "unit gitflame_client" where
  "sample_reader =
     \<lparr>gf_baseURL = ''https://gitflame'', gf_apiKey = ''key'', gf_request_error = (\<lambda>u. None),
      gf_send = (\<lambda>rq s. (Some (200, rq_url rq), s)), gf_unmarshal = (\<lambda>b. None), gf_decode = (\<lambda>b. None),
      gf_sprint = (\<lambda>v. [])\<rparr>"

definition sample_request :: "repository_file list" where
  "sample_request =
     [\<lparr>rf_path = ''a.go'', rf_content = [], rf_type = []\<rparr>, \<lparr>rf_path = ''b.go'', rf_content = ''x'', rf_type = []\<rparr>,
      \<lparr>rf_path = ''c.go'', rf_content = [], rf_type = []\<rparr>]"

definition sample_contents :: "repository_file list" where
  "sample_contents =
     [\<lparr>rf_path = ''a.go'', rf_content = ''https://gitflame/api/v1/repos/team/app/raw/a.go?ref=refs%2Fheads%2Fmain'', rf_type = []\<rparr>,
      \<lparr>rf_path = ''b.go'', rf_content = ''x'', rf_type = []\<rparr>,
      \<lparr>rf_path = ''c.go'', rf_content = ''https://gitflame/api/v1/repos/team/app/raw/c.go?ref=refs%2Fheads%2Fmain'', rf_type = []\<rparr>]"

lemma fetch_order_irrelevant_witness:
  "fst (fetchRepositoryFileContents sample_reader rev ''team/app'' ''main'' sample_request ()) = Inr sample_contents"
proof -
  have read: "read_only sample_reader" by (auto simp: read_only_def sample_reader_def)
  have "missing_contents sample_request = [0, 2]" by code_simp
  then have order: "mset (rev (missing_contents sample_request)) = mset (missing_contents sample_request)" by simp
  have endpoint: "giteaRepositoryEndpoint ''team/app'' = Some ''/api/v1/repos/team/app''" by code_simp
  have urls: "with_ref (''https://gitflame/api/v1/repos/team/app/raw/'' @ escapeRepositoryPath ''a.go'') (gitFlameRawRef ''main'') =
      ''https://gitflame/api/v1/repos/team/app/raw/a.go?ref=refs%2Fheads%2Fmain''"
    "with_ref (''https://gitflame/api/v1/repos/team/app/raw/'' @ escapeRepositoryPath ''c.go'') (gitFlameRawRef ''main'') =
      ''https://gitflame/api/v1/repos/team/app/raw/c.go?ref=refs%2Fheads%2Fmain''"
    by code_simp+
  have "fetchFileContent sample_reader ''team/app'' ''a.go'' ''main'' () =
      (Inr ''https://gitflame/api/v1/repos/team/app/raw/a.go?ref=refs%2Fheads%2Fmain'', ())"
    "fetchFileContent sample_reader ''team/app'' ''c.go'' ''main'' () =
      (Inr ''https://gitflame/api/v1/repos/team/app/raw/c.go?ref=refs%2Fheads%2Fmain'', ())"
    using urls
    by (simp_all add: fetchFileContent_def endpoint getRaw_def doGET_def perform_def sample_reader_def bindS_def
        success_status_def)
  then have "fst (fetchRepositoryFileContents sample_reader id ''team/app'' ''main'' sample_request ()) = Inr sample_contents"
    by (simp add: fetchRepositoryFileContents_def \<open>missing_contents sample_request = [0, 2]\<close> bindS_def
        sample_request_def [symmetric])
      (simp add: sample_request_def sample_contents_def)
  then show ?thesis
    using fetch_order_irrelevant [where order = rev and files = sample_request and c = sample_reader and s = "()" and
      repositoryID = "''team/app''" and ref = "''main''" and fs = sample_contents] read order by blast
qed

end
