(* ===== verification/Index_Jobs.thy ===== *)
theory Index_Jobs imports GitFlame_Http Memory_Store begin

text \<open>
  The registry of background indexing jobs, backend/internal/httpapi/repository_index_jobs.go. A channel is a
  number, and closing one puts it on the list of closed channels; the operations are atomic by the
  registry's lock. The system of requests, running goroutines and waiters is a step relation, whose
  invariant gives the properties of every reachable registry.
\<close>

section \<open>Jobs\<close>

definition indexStatusRunning :: string where "indexStatusRunning = ''running''"
definition indexStatusCompleted :: string where "indexStatusCompleted = ''completed''"
definition indexStatusFailed :: string where "indexStatusFailed = ''failed''"
definition indexStatusIdle :: string where "indexStatusIdle = ''idle''"
definition indexStatusDisabled :: string where "indexStatusDisabled = ''disabled''"

named_theorems index_status_defs "the status constants of an indexing job"

declare indexStatusRunning_def [index_status_defs] indexStatusCompleted_def [index_status_defs]
  indexStatusFailed_def [index_status_defs] indexStatusIdle_def [index_status_defs]
  indexStatusDisabled_def [index_status_defs]

definition indexJobResultTTL :: int where
  "indexJobResultTTL = 60 * 1000000000"

definition indexJobErrorLimit :: int where
  "indexJobErrorLimit = 300"

definition defaultIndexWaitTimeout :: int where
  "defaultIndexWaitTimeout = 10 * 60 * 1000000000"

definition errIndexWaitTimeout :: go_error where
  "errIndexWaitTimeout = ErrText ''timed out waiting for repository indexing''"

text \<open>The result that the index service reports, from rag_client.go.\<close>

record rag_index_result =
  rr_repository_id :: string
  rr_commit_sha :: string
  rr_status :: string
  rr_file_count :: int
  rr_chunk_count :: int
  rr_embedding_count :: int

record index_job_status =
  ij_repository_id :: string
  ij_connection_id :: string
  ij_ref :: string
  ij_commit_sha :: string
  ij_status :: string
  ij_error_code :: string
  ij_error :: string
  ij_file_count :: int
  ij_chunk_count :: int
  ij_embedding_count :: int
  ij_started_at :: "gotime option"
  ij_finished_at :: "gotime option"
  ij_duration_ms :: int

definition no_job_status :: index_job_status where
  "no_job_status =
     \<lparr>ij_repository_id = [], ij_connection_id = [], ij_ref = [], ij_commit_sha = [], ij_status = [],
      ij_error_code = [], ij_error = [], ij_file_count = 0, ij_chunk_count = 0, ij_embedding_count = 0,
      ij_started_at = None, ij_finished_at = None, ij_duration_ms = 0\<rparr>"

record index_job =
  xj_status :: index_job_status
  xj_done :: nat

record index_registry =
  rg_jobs :: "string \<rightharpoonup> index_job"
  rg_closed :: "nat list"
  rg_channels :: nat

definition newIndexJobRegistry :: index_registry where
  "newIndexJobRegistry = \<lparr>rg_jobs = Map.empty, rg_closed = [], rg_channels = 0\<rparr>"

section \<open>Operations\<close>

text \<open>\<open>begin\<close>: a job that is running or, unless forced, completed within the last minute is reused.\<close>

definition reusable :: "gotime \<Rightarrow> bool \<Rightarrow> index_job_status \<Rightarrow> bool" where
  "reusable now force st \<longleftrightarrow>
     ij_status st = indexStatusRunning \<or>
     (\<not> force \<and> ij_status st = indexStatusCompleted \<and>
      (case ij_finished_at st of None \<Rightarrow> False | Some t \<Rightarrow> time_Sub now t < indexJobResultTTL))"

definition begin_job ::
    "gotime \<Rightarrow> gotime \<Rightarrow> string \<Rightarrow> string \<Rightarrow> string \<Rightarrow> bool \<Rightarrow> index_registry \<Rightarrow>
       (index_job_status \<times> bool) \<times> index_registry" where
  "begin_job now started repositoryID connectionID ref force rg =
     (case Option.bind (rg_jobs rg repositoryID)
             (\<lambda>existing. if reusable now force (xj_status existing) then Some existing else None) of
        Some existing \<Rightarrow> ((xj_status existing, False), rg)
      | None \<Rightarrow>
          let job = \<lparr>xj_status = no_job_status\<lparr>ij_repository_id := repositoryID, ij_connection_id := connectionID,
                  ij_ref := ref, ij_status := indexStatusRunning, ij_started_at := Some started\<rparr>,
                xj_done = rg_channels rg\<rparr> in
          ((xj_status job, True),
           rg\<lparr>rg_jobs := (rg_jobs rg)(repositoryID \<mapsto> job), rg_channels := Suc (rg_channels rg)\<rparr>))"

text \<open>The cut text ends with the three bytes of an ellipsis.\<close>

definition truncateDetail :: "string \<Rightarrow> int \<Rightarrow> string" where
  "truncateDetail v limit =
     (if go_len v \<le> limit then v else take (nat limit) v @ [CHR 0xE2, CHR 0x80, CHR 0xA6])"

text \<open>The status of a job that ends at a time with a result or an error.\<close>

definition finished_status ::
    "gotime \<Rightarrow> rag_index_result \<Rightarrow> go_error option \<Rightarrow> index_job_status \<Rightarrow> index_job_status" where
  "finished_status finished outcome failure st0 =
     (let st1 = st0\<lparr>ij_finished_at := Some finished\<rparr>;
          st = (case ij_started_at st1 of
                  None \<Rightarrow> st1 | Some t \<Rightarrow> st1\<lparr>ij_duration_ms := milliseconds_of (time_Sub finished t)\<rparr>) in
      case failure of
        Some err \<Rightarrow> st\<lparr>ij_status := indexStatusFailed, ij_error_code := integrationCode err,
          ij_error := truncateDetail (error_text err) indexJobErrorLimit\<rparr>
      | None \<Rightarrow> st\<lparr>ij_status := indexStatusCompleted,
          ij_commit_sha := (if rr_commit_sha outcome \<noteq> [] then rr_commit_sha outcome else ij_commit_sha st),
          ij_file_count := rr_file_count outcome, ij_chunk_count := rr_chunk_count outcome,
          ij_embedding_count := rr_embedding_count outcome\<rparr>)"

text \<open>\<open>finish\<close>: closing the channel after the update panics if it is closed already.\<close>

definition finish_job ::
    "gotime \<Rightarrow> string \<Rightarrow> rag_index_result \<Rightarrow> go_error option \<Rightarrow> (index_registry, index_job_status) op" where
  "finish_job finished repositoryID outcome failure rg =
     (case rg_jobs rg repositoryID of
        None \<Rightarrow> (Inr no_job_status, rg)
      | Some job \<Rightarrow>
          if ij_status (xj_status job) \<noteq> indexStatusRunning then (Inr no_job_status, rg)
          else
            let st = finished_status finished outcome failure (xj_status job);
                updated = rg\<lparr>rg_jobs := (rg_jobs rg)(repositoryID \<mapsto> job\<lparr>xj_status := st\<rparr>)\<rparr> in
            if xj_done job \<in> set (rg_closed rg) then (Inl (Panic ''close of closed channel''), updated)
            else (Inr st, updated\<lparr>rg_closed := rg_closed rg @ [xj_done job]\<rparr>))"

definition job_status :: "string \<Rightarrow> index_registry \<Rightarrow> index_job_status \<times> bool" where
  "job_status repositoryID rg =
     (case rg_jobs rg repositoryID of None \<Rightarrow> (no_job_status, False) | Some job \<Rightarrow> (xj_status job, True))"

text \<open>\<open>wait\<close> in its two parts: the answer without waiting or the channel to wait on, and what the end of the
  waiting gives: the channel was closed, the request was cancelled, or the time ran out.\<close>

definition wait_begin :: "string \<Rightarrow> index_registry \<Rightarrow> (index_job_status \<times> bool) + nat" where
  "wait_begin repositoryID rg =
     (case rg_jobs rg repositoryID of
        None \<Rightarrow> Inl (no_job_status, False)
      | Some job \<Rightarrow>
          if ij_status (xj_status job) \<noteq> indexStatusRunning then Inl (xj_status job, True) else Inr (xj_done job))"

definition wait_budget :: "int \<Rightarrow> int" where
  "wait_budget timeout = (if timeout \<le> 0 then defaultIndexWaitTimeout else timeout)"

datatype wait_event = Job_done | Request_cancelled go_error | Time_out

definition wait_end ::
    "wait_event \<Rightarrow> string \<Rightarrow> index_registry \<Rightarrow> index_job_status \<times> bool \<times> go_error option" where
  "wait_end event repositoryID rg =
     (case event of
        Job_done \<Rightarrow> (fst (job_status repositoryID rg), True, None)
      | Request_cancelled err \<Rightarrow> (no_job_status, True, Some err)
      | Time_out \<Rightarrow> (no_job_status, True, Some errIndexWaitTimeout))"

text \<open>\<open>runningCount\<close> visits the repositories in some order.\<close>

definition is_running :: "index_registry \<Rightarrow> string \<Rightarrow> bool" where
  "is_running rg repositoryID \<longleftrightarrow>
     (case rg_jobs rg repositoryID of None \<Rightarrow> False | Some job \<Rightarrow> ij_status (xj_status job) = indexStatusRunning)"

definition runningCount :: "string list \<Rightarrow> index_registry \<Rightarrow> int" where
  "runningCount order rg = go_len (filter (is_running rg) order)"

text \<open>\<open>WaitForBackgroundWork\<close> over what it observes at each tick: the number of running jobs, and whether the
  context has expired. \<open>None\<close>: it still waits after these observations.\<close>

fun WaitForBackgroundWork :: "(int \<times> bool) list \<Rightarrow> int option" where
  "WaitForBackgroundWork [] = None"
| "WaitForBackgroundWork ((running, expired) # observations) =
     (if running = 0 then Some 0 else if expired then Some running else WaitForBackgroundWork observations)"

section \<open>The system of jobs\<close>

text \<open>The live goroutines, each with its repository and the channel of its job, and the requests that wait.\<close>

record index_system =
  ix_registry :: index_registry
  ix_running :: "(string \<times> nat) list"
  ix_waiting :: "(string \<times> nat) list"

definition initial_index_system :: index_system where
  "initial_index_system = \<lparr>ix_registry = newIndexJobRegistry, ix_running = [], ix_waiting = []\<rparr>"

inductive index_step :: "index_system \<Rightarrow> index_system \<Rightarrow> bool" where
  granted: "begin_job now started r conn ref force (ix_registry y) = ((st, True), rg) \<Longrightarrow>
    index_step y (y\<lparr>ix_registry := rg, ix_running := ix_running y @ [(r, rg_channels (ix_registry y))]\<rparr>)"
| refused: "begin_job now started r conn ref force (ix_registry y) = ((st, False), rg) \<Longrightarrow>
    index_step y (y\<lparr>ix_registry := rg\<rparr>)"
| finished: "(r, ch) \<in> set (ix_running y) \<Longrightarrow> finish_job now r outcome failure (ix_registry y) = (res, rg) \<Longrightarrow>
    index_step y (y\<lparr>ix_registry := rg, ix_running := remove1 (r, ch) (ix_running y)\<rparr>)"
| waits: "wait_begin r (ix_registry y) = Inr ch \<Longrightarrow> index_step y (y\<lparr>ix_waiting := ix_waiting y @ [(r, ch)]\<rparr>)"
| released: "(r, ch) \<in> set (ix_waiting y) \<Longrightarrow> ch \<in> set (rg_closed (ix_registry y)) \<Longrightarrow>
    index_step y (y\<lparr>ix_waiting := remove1 (r, ch) (ix_waiting y)\<rparr>)"
| gave_up: "(r, ch) \<in> set (ix_waiting y) \<Longrightarrow> index_step y (y\<lparr>ix_waiting := remove1 (r, ch) (ix_waiting y)\<rparr>)"

inductive_cases index_stepE: "index_step y y'"

definition index_reachable :: "index_system \<Rightarrow> bool" where
  "index_reachable y \<longleftrightarrow> index_step\<^sup>*\<^sup>* initial_index_system y"

section \<open>The invariant\<close>

text \<open>A job is running exactly while its goroutine is live and its channel open, channels belong to one repository, and
  whoever waits on an open channel waits for a live goroutine.\<close>

definition index_job_ok :: "index_system \<Rightarrow> string \<Rightarrow> index_job \<Rightarrow> bool" where
  "index_job_ok y r job \<longleftrightarrow>
     xj_done job < rg_channels (ix_registry y) \<and> ij_repository_id (xj_status job) = r \<and>
     (ij_status (xj_status job) = indexStatusRunning \<longleftrightarrow> (r, xj_done job) \<in> set (ix_running y)) \<and>
     (ij_status (xj_status job) = indexStatusRunning \<longleftrightarrow> xj_done job \<notin> set (rg_closed (ix_registry y))) \<and>
     (ij_status (xj_status job) = indexStatusRunning \<longleftrightarrow> ij_finished_at (xj_status job) = None) \<and>
     ij_status (xj_status job) \<in> {indexStatusRunning, indexStatusCompleted, indexStatusFailed}"

definition live_ok :: "index_system \<Rightarrow> bool" where
  "live_ok y \<longleftrightarrow>
     (\<forall>r ch. (r, ch) \<in> set (ix_running y) \<longrightarrow> (\<exists>job. rg_jobs (ix_registry y) r = Some job \<and> xj_done job = ch)) \<and>
     distinct (map fst (ix_running y))"

definition channels_ok :: "index_registry \<Rightarrow> bool" where
  "channels_ok rg \<longleftrightarrow>
     (\<forall>r r' job job'. rg_jobs rg r = Some job \<longrightarrow> rg_jobs rg r' = Some job' \<longrightarrow> xj_done job = xj_done job' \<longrightarrow> r = r') \<and>
     (\<forall>ch \<in> set (rg_closed rg). ch < rg_channels rg)"

definition waiting_ok :: "index_system \<Rightarrow> bool" where
  "waiting_ok y \<longleftrightarrow>
     (\<forall>r ch. (r, ch) \<in> set (ix_waiting y) \<longrightarrow> ch \<in> set (rg_closed (ix_registry y)) \<or> (r, ch) \<in> set (ix_running y))"

definition index_ok :: "index_system \<Rightarrow> bool" where
  "index_ok y \<longleftrightarrow>
     (\<forall>r job. rg_jobs (ix_registry y) r = Some job \<longrightarrow> index_job_ok y r job) \<and> live_ok y \<and>
     channels_ok (ix_registry y) \<and> waiting_ok y"

lemmas index_ok_parts = live_ok_def channels_ok_def waiting_ok_def

lemma index_ok_initial: "index_ok initial_index_system"
  by (simp add: index_ok_def index_ok_parts initial_index_system_def newIndexJobRegistry_def)

lemma index_ok_job: "index_ok y \<Longrightarrow> rg_jobs (ix_registry y) r = Some job \<Longrightarrow> index_job_ok y r job"
  by (simp add: index_ok_def)

lemma index_ok_running:
  assumes "index_ok y" and "(r, ch) \<in> set (ix_running y)"
  obtains job where "rg_jobs (ix_registry y) r = Some job" and "xj_done job = ch"
    and "ij_status (xj_status job) = indexStatusRunning" and "ch \<notin> set (rg_closed (ix_registry y))"
proof -
  from assms obtain job where job: "rg_jobs (ix_registry y) r = Some job" "xj_done job = ch"
    unfolding index_ok_def live_ok_def by blast
  moreover have "ij_status (xj_status job) = indexStatusRunning" "ch \<notin> set (rg_closed (ix_registry y))"
    using index_ok_job [OF assms(1) job(1)] assms(2) job(2) by (auto simp: index_job_ok_def)
  ultimately show ?thesis using that by blast
qed

lemma statuses_distinct [simp]:
  "indexStatusCompleted \<noteq> indexStatusRunning" "indexStatusFailed \<noteq> indexStatusRunning"
  "indexStatusRunning \<noteq> indexStatusCompleted" "indexStatusRunning \<noteq> indexStatusFailed"
  by (simp_all add: index_status_defs)

lemma finished_status_fields [simp]:
  "ij_repository_id (finished_status t outcome failure st) = ij_repository_id st"
  "ij_finished_at (finished_status t outcome failure st) = Some t"
  "ij_status (finished_status t outcome failure st) =
     (if failure = None then indexStatusCompleted else indexStatusFailed)"
  by (simp_all add: finished_status_def Let_def split: option.split)

text \<open>A live goroutine closes its own, open channel.\<close>

lemma finish_live:
  assumes "index_ok y" and "(r, ch) \<in> set (ix_running y)"
  obtains job where "rg_jobs (ix_registry y) r = Some job" and "xj_done job = ch"
    and "finish_job now r outcome failure (ix_registry y) =
      (Inr (finished_status now outcome failure (xj_status job)),
       (ix_registry y)\<lparr>rg_jobs := (rg_jobs (ix_registry y))
           (r \<mapsto> job\<lparr>xj_status := finished_status now outcome failure (xj_status job)\<rparr>),
         rg_closed := rg_closed (ix_registry y) @ [ch]\<rparr>)"
proof -
  obtain job where "rg_jobs (ix_registry y) r = Some job" "xj_done job = ch"
    "ij_status (xj_status job) = indexStatusRunning" "ch \<notin> set (rg_closed (ix_registry y))"
    using index_ok_running [OF assms] .
  with that show ?thesis by (simp add: finish_job_def Let_def)
qed

lemma begin_granted:
  assumes "begin_job now started r conn ref force rg = ((st, True), rg')"
  shows "\<not> is_running rg r \<and>
    rg' = rg\<lparr>rg_jobs := (rg_jobs rg)(r \<mapsto> \<lparr>xj_status = st, xj_done = rg_channels rg\<rparr>), rg_channels := Suc (rg_channels rg)\<rparr> \<and>
    ij_status st = indexStatusRunning \<and> ij_repository_id st = r \<and> ij_finished_at st = None"
  using assms
  by (auto simp: begin_job_def Let_def reusable_def no_job_status_def is_running_def split: option.splits if_splits)

lemma begin_refused: "begin_job now started r conn ref force rg = ((st, False), rg') \<Longrightarrow> rg' = rg"
  by (auto simp: begin_job_def Let_def split: option.splits)

lemma not_running_not_live: "index_ok y \<Longrightarrow> \<not> is_running (ix_registry y) r \<Longrightarrow> r \<notin> fst ` set (ix_running y)"
  by (auto simp: is_running_def elim: index_ok_running)

lemma fresh_channel: "index_ok y \<Longrightarrow> rg_channels (ix_registry y) \<notin> set (rg_closed (ix_registry y))"
  by (auto simp: index_ok_def channels_ok_def)

lemma old_channel:
  "index_ok y \<Longrightarrow> rg_jobs (ix_registry y) r = Some job \<Longrightarrow> xj_done job \<noteq> rg_channels (ix_registry y)"
  using index_ok_job by (fastforce simp: index_job_ok_def)

lemma index_ok_granted:
  assumes ok: "index_ok y" and b: "begin_job now started r conn ref force (ix_registry y) = ((st, True), rg)"
  shows "index_ok (y\<lparr>ix_registry := rg, ix_running := ix_running y @ [(r, rg_channels (ix_registry y))]\<rparr>)"
    (is "index_ok ?y")
proof -
  note new = begin_granted [OF b]
  then have idle: "r \<notin> fst ` set (ix_running y)" using not_running_not_live [OF ok] by blast
  have "index_job_ok ?y q job" if "rg_jobs rg q = Some job" for q job
    using that new fresh_channel [OF ok] index_ok_job [OF ok, of q job] by (cases "q = r") (auto simp: index_job_ok_def)
  moreover have "live_ok ?y"
    using ok new idle by (auto simp: index_ok_def live_ok_def image_iff)
  moreover have "channels_ok rg"
    using ok new old_channel [OF ok] by (fastforce simp: index_ok_def channels_ok_def split: if_splits)
  moreover have "waiting_ok ?y"
    using ok new by (auto simp: index_ok_def waiting_ok_def)
  ultimately show ?thesis by (simp add: index_ok_def)
qed

lemma channels_ok_closed:
  assumes ok: "channels_ok rg" and job: "rg_jobs rg r = Some job" and old: "xj_done job < rg_channels rg"
  shows "channels_ok (rg\<lparr>rg_jobs := (rg_jobs rg)(r \<mapsto> job\<lparr>xj_status := st\<rparr>), rg_closed := rg_closed rg @ [xj_done job]\<rparr>)"
    (is "channels_ok ?rg")
  unfolding channels_ok_def
proof (intro conjI allI impI ballI)
  fix q q' j j' assume "rg_jobs ?rg q = Some j" "rg_jobs ?rg q' = Some j'" "xj_done j = xj_done j'"
  moreover have "\<exists>i. rg_jobs rg p = Some i \<and> xj_done i = xj_done k" if "rg_jobs ?rg p = Some k" for p k
    using that job by (cases "p = r") auto
  ultimately obtain i i' where "rg_jobs rg q = Some i" "rg_jobs rg q' = Some i'" "xj_done i = xj_done i'" by metis
  with ok show "q = q'" unfolding channels_ok_def by blast
next
  fix c assume "c \<in> set (rg_closed ?rg)"
  then show "c < rg_channels ?rg" using ok old by (auto simp: channels_ok_def)
qed

lemma index_ok_finished:
  assumes ok: "index_ok y" and live: "(r, ch) \<in> set (ix_running y)"
    and f: "finish_job now r outcome failure (ix_registry y) = (res, rg)"
  shows "index_ok (y\<lparr>ix_registry := rg, ix_running := remove1 (r, ch) (ix_running y)\<rparr>)" (is "index_ok ?y")
proof -
  obtain job where job: "rg_jobs (ix_registry y) r = Some job" "xj_done job = ch" and
    rg: "rg = (ix_registry y)\<lparr>rg_jobs := (rg_jobs (ix_registry y))
         (r \<mapsto> job\<lparr>xj_status := finished_status now outcome failure (xj_status job)\<rparr>),
       rg_closed := rg_closed (ix_registry y) @ [ch]\<rparr>"
    using finish_live [OF ok live, of now outcome failure] f by auto
  have distinct: "distinct (map fst (ix_running y))" using ok by (simp add: index_ok_def live_ok_def)
  then have rest: "set (remove1 (r, ch) (ix_running y)) = set (ix_running y) - {(r, ch)}"
    by (simp add: distinct_map)
  have only: "(r, c) \<in> set (ix_running y) \<Longrightarrow> c = ch" for c
    using distinct live by (metis eq_key_imp_eq_value)
  have own: "rg_jobs (ix_registry y) q = Some job' \<Longrightarrow> xj_done job' = ch \<Longrightarrow> q = r" for q job'
    using ok job unfolding index_ok_def channels_ok_def by blast
  have "index_job_ok ?y q job'" if "rg_jobs rg q = Some job'" for q job'
  proof (cases "q = r")
    case True
    with that rg have "job' = job\<lparr>xj_status := finished_status now outcome failure (xj_status job)\<rparr>" by simp
    with True rg job rest index_ok_job [OF ok job(1)] show ?thesis by (simp add: index_job_ok_def)
  next
    case False
    with that rg own have "rg_jobs (ix_registry y) q = Some job'" "xj_done job' \<noteq> ch" by auto
    moreover from calculation False rg rest have "index_job_ok ?y q job' \<longleftrightarrow> index_job_ok y q job'"
      by (simp add: index_job_ok_def)
    ultimately show ?thesis using index_ok_job [OF ok] by blast
  qed
  moreover have "live_ok ?y"
    unfolding live_ok_def
  proof (intro conjI allI impI)
    fix q c assume "(q, c) \<in> set (ix_running ?y)"
    with rest have mem: "(q, c) \<in> set (ix_running y)" and "(q, c) \<noteq> (r, ch)" by auto
    with only have "q \<noteq> r" by blast
    with mem rg index_ok_running [OF ok mem] show "\<exists>job. rg_jobs (ix_registry ?y) q = Some job \<and> xj_done job = c"
      by auto
  next
    have "distinct (ix_running y)" using distinct by (simp add: distinct_map)
    then show "distinct (map fst (ix_running ?y))"
      using distinct rest by (simp add: distinct_map inj_on_diff)
  qed
  moreover have "channels_ok rg"
    using channels_ok_closed [OF _ job(1)] index_ok_job [OF ok job(1)] ok
    by (simp add: rg job(2) [symmetric] index_ok_def index_job_ok_def)
  moreover have "waiting_ok ?y"
    using ok rg rest by (auto simp: index_ok_def waiting_ok_def)
  ultimately show ?thesis by (simp add: index_ok_def)
qed

lemma index_ok_waiting:
  assumes "index_ok y" and "\<And>r ch. (r, ch) \<in> set ws \<Longrightarrow>
      ch \<in> set (rg_closed (ix_registry y)) \<or> (r, ch) \<in> set (ix_running y)"
  shows "index_ok (y\<lparr>ix_waiting := ws\<rparr>)"
  using assms by (auto simp: index_ok_def live_ok_def waiting_ok_def index_job_ok_def)

lemma index_ok_waiter:
  "index_ok y \<Longrightarrow> (r, ch) \<in> set (ix_waiting y) \<Longrightarrow>
     ch \<in> set (rg_closed (ix_registry y)) \<or> (r, ch) \<in> set (ix_running y)"
  by (simp add: index_ok_def waiting_ok_def)

lemma index_ok_fewer:
  assumes "index_ok y"
  shows "index_ok (y\<lparr>ix_waiting := remove1 w (ix_waiting y)\<rparr>)"
  by (rule index_ok_waiting [OF assms]) (meson assms index_ok_waiter notin_set_remove1)

lemma index_step_ok:
  assumes "index_step y y'" and ok: "index_ok y"
  shows "index_ok y'"
  using assms(1)
proof cases
  case (granted now started r conn ref force st rg)
  then show ?thesis using index_ok_granted [OF ok] by simp
next
  case (refused now started r conn ref force st rg)
  then have "y' = y" by (auto dest: begin_refused)
  with ok show ?thesis by simp
next
  case (finished r ch now outcome failure res rg)
  then show ?thesis using index_ok_finished [OF ok] by simp
next
  case (waits r ch)
  then obtain job where "rg_jobs (ix_registry y) r = Some job" "ij_status (xj_status job) = indexStatusRunning" "xj_done job = ch"
    by (auto simp: wait_begin_def split: option.splits if_splits)
  then have "(r, ch) \<in> set (ix_running y)" using index_ok_job [OF ok] by (auto simp: index_job_ok_def)
  then have "index_ok (y\<lparr>ix_waiting := ix_waiting y @ [(r, ch)]\<rparr>)"
    using index_ok_waiter [OF ok] by (intro index_ok_waiting [OF ok]) auto
  with waits show ?thesis by simp
next
  case (released r ch)
  then show ?thesis using index_ok_fewer [OF ok] by simp
next
  case (gave_up r ch)
  then show ?thesis using index_ok_fewer [OF ok] by simp
qed

lemma index_reachable_ok: "index_reachable y \<Longrightarrow> index_ok y"
  unfolding index_reachable_def
  by (induction rule: rtranclp_induct) (auto intro: index_ok_initial index_step_ok)

section \<open>Properties\<close>

lemma live_fst:
  assumes ok: "index_ok y"
  shows "r \<in> fst ` set (ix_running y) \<longleftrightarrow> is_running (ix_registry y) r"
proof
  assume "r \<in> fst ` set (ix_running y)"
  then obtain ch where "(r, ch) \<in> set (ix_running y)" by auto
  then show "is_running (ix_registry y) r" by (rule index_ok_running [OF ok]) (simp add: is_running_def)
next
  assume "is_running (ix_registry y) r"
  then obtain job where "rg_jobs (ix_registry y) r = Some job" "ij_status (xj_status job) = indexStatusRunning"
    by (auto simp: is_running_def split: option.splits)
  with index_ok_job [OF ok this(1)] have "(r, xj_done job) \<in> set (ix_running y)" by (simp add: index_job_ok_def)
  then show "r \<in> fst ` set (ix_running y)" by force
qed

text \<open>In every reachable state a repository has at most one live indexing goroutine, and has one exactly while its
  job is running. When such a goroutine ends, recording the outcome never panics on a closed channel and never
  writes into the job of another one: the status it records is its own job's, completed or failed.\<close>

theorem one_index_job_per_repository:
  assumes "index_reachable y"
  shows "distinct (map fst (ix_running y)) \<and>
    (\<forall>r. r \<in> fst ` set (ix_running y) \<longleftrightarrow> is_running (ix_registry y) r) \<and>
    (\<forall>r ch. (r, ch) \<in> set (ix_running y) \<longrightarrow>
       (case finish_job now r outcome failure (ix_registry y) of
          (Inl e, rg) \<Rightarrow> False
        | (Inr st, rg) \<Rightarrow>
            job_status r rg = (st, True) \<and> ij_repository_id st = r \<and> ch \<in> set (rg_closed rg) \<and>
            ij_status st = (if failure = None then indexStatusCompleted else indexStatusFailed) \<and>
            (\<forall>q. q \<noteq> r \<longrightarrow> job_status q rg = job_status q (ix_registry y))))"
proof -
  note ok = index_reachable_ok [OF assms]
  have "case finish_job now r outcome failure (ix_registry y) of
          (Inl e, rg) \<Rightarrow> False
        | (Inr st, rg) \<Rightarrow>
            job_status r rg = (st, True) \<and> ij_repository_id st = r \<and> ch \<in> set (rg_closed rg) \<and>
            ij_status st = (if failure = None then indexStatusCompleted else indexStatusFailed) \<and>
            (\<forall>q. q \<noteq> r \<longrightarrow> job_status q rg = job_status q (ix_registry y))"
    if live: "(r, ch) \<in> set (ix_running y)" for r ch
  proof -
    obtain job where "rg_jobs (ix_registry y) r = Some job" and
      "finish_job now r outcome failure (ix_registry y) =
      (Inr (finished_status now outcome failure (xj_status job)),
       (ix_registry y)\<lparr>rg_jobs := (rg_jobs (ix_registry y))
           (r \<mapsto> job\<lparr>xj_status := finished_status now outcome failure (xj_status job)\<rparr>),
         rg_closed := rg_closed (ix_registry y) @ [ch]\<rparr>)"
      using finish_live [OF ok live] .
    moreover have "ij_repository_id (xj_status job) = r"
      using index_ok_job [OF ok calculation(1)] by (simp add: index_job_ok_def)
    ultimately show ?thesis by (simp add: job_status_def)
  qed
  with ok live_fst [OF ok] show ?thesis by (simp add: index_ok_def live_ok_def)
qed

text \<open>C33: Nobody waits for a job that will not end: in every reachable state, the channel of a waiting request is closed
  already, or belongs to a live goroutine, whose end, with a result or an error, closes it.\<close>

theorem waiters_are_released:
  assumes "index_reachable y" and "(r, ch) \<in> set (ix_waiting y)"
  shows "ch \<in> set (rg_closed (ix_registry y)) \<or>
    (r, ch) \<in> set (ix_running y) \<and> is_running (ix_registry y) r \<and>
    ch \<in> set (rg_closed (snd (finish_job now r outcome failure (ix_registry y))))"
proof (cases "ch \<in> set (rg_closed (ix_registry y))")
  case False
  note ok = index_reachable_ok [OF assms(1)]
  have live: "(r, ch) \<in> set (ix_running y)" using index_ok_waiter [OF ok assms(2)] False by blast
  then have "is_running (ix_registry y) r" using live_fst [OF ok, of r] by force
  moreover have "ch \<in> set (rg_closed (snd (finish_job now r outcome failure (ix_registry y))))"
    by (rule finish_live [OF ok live, of now outcome failure]) simp
  ultimately show ?thesis using live by blast
qed simp

section \<open>A sample run\<close>

definition sample_index :: "string \<Rightarrow> gotime \<Rightarrow> index_system \<Rightarrow> index_system" where
  "sample_index r now y =
     (case begin_job now now r ''c1'' ''main'' True (ix_registry y) of
        ((st, granted), rg) \<Rightarrow>
          y\<lparr>ix_registry := rg,
            ix_running := (if granted then ix_running y @ [(r, rg_channels (ix_registry y))] else ix_running y)\<rparr>)"

lemma sample_index_step: "index_step y (sample_index r now y)"
proof -
  obtain st granted rg where "begin_job now now r ''c1'' ''main'' True (ix_registry y) = ((st, granted), rg)"
    by (metis prod.collapse)
  then show ?thesis
    using index_step.granted index_step.refused by (cases granted) (fastforce simp: sample_index_def)+
qed

definition sample_indexing :: index_system where
  "sample_indexing = (let y = sample_index ''team/app'' 5 initial_index_system in y\<lparr>ix_waiting := [(''team/app'', 0)]\<rparr>)"

lemma sample_indexing_reachable: "index_reachable sample_indexing"
proof -
  let ?y = "sample_index ''team/app'' 5 initial_index_system"
  have "wait_begin ''team/app'' (ix_registry ?y) = Inr 0" and none: "ix_waiting ?y = []" by code_simp+
  from index_step.waits [OF this(1)] have "index_step ?y sample_indexing"
    by (simp add: sample_indexing_def none)
  then show ?thesis
    unfolding index_reachable_def using sample_index_step [of initial_index_system "''team/app''" 5]
    by (meson converse_rtranclp_into_rtranclp rtranclp.rtrancl_refl)
qed

definition sample_outcome :: rag_index_result where
  "sample_outcome = \<lparr>rr_repository_id = ''team/app'', rr_commit_sha = ''abc'', rr_status = ''indexed'', rr_file_count = 3,
     rr_chunk_count = 9, rr_embedding_count = 9\<rparr>"

lemma one_index_job_per_repository_witness:
  "is_running (ix_registry sample_indexing) ''team/app'' \<and>
   \<not> isl (fst (finish_job 9 ''team/app'' sample_outcome None (ix_registry sample_indexing)))"
proof -
  note all = one_index_job_per_repository [OF sample_indexing_reachable, where now = 9 and outcome = sample_outcome and
      failure = None]
  have live: "(''team/app'', 0) \<in> set (ix_running sample_indexing)" by code_simp
  from all [THEN conjunct2, THEN conjunct2, rule_format, OF live]
  have "\<not> isl (fst (finish_job 9 ''team/app'' sample_outcome None (ix_registry sample_indexing)))"
    by (cases "fst (finish_job 9 ''team/app'' sample_outcome None (ix_registry sample_indexing))")
      (simp_all add: case_prod_beta)
  moreover from live have "''team/app'' \<in> fst ` set (ix_running sample_indexing)" by (rule image_eqI [rotated]) simp
  with all [THEN conjunct2, THEN conjunct1, rule_format, of "''team/app''"]
  have "is_running (ix_registry sample_indexing) ''team/app''" by (rule iffD1)
  ultimately show ?thesis by blast
qed

lemma waiters_are_released_witness:
  "0 \<notin> set (rg_closed (ix_registry sample_indexing)) \<and> (''team/app'', 0) \<in> set (ix_running sample_indexing) \<and>
   0 \<in> set (rg_closed (snd (finish_job 9 ''team/app'' sample_outcome None (ix_registry sample_indexing))))"
proof -
  have "(''team/app'', 0) \<in> set (ix_waiting sample_indexing)" "0 \<notin> set (rg_closed (ix_registry sample_indexing))"
    by code_simp+
  with waiters_are_released [OF sample_indexing_reachable this(1), where now = 9 and outcome = sample_outcome and failure = None] show ?thesis by blast
qed

text \<open>A waiter that is released reads the registry again: by then a newer job may be running, whose status it gets
  although its own job has ended.\<close>

definition sample_rerun :: index_system where
  "sample_rerun =
     (let y = sample_indexing\<lparr>ix_registry := snd (finish_job 9 ''team/app'' sample_outcome None (ix_registry sample_indexing)),
        ix_running := []\<rparr> in sample_index ''team/app'' 10 y)"

theorem released_waiter_may_see_running_job:
  "index_reachable sample_rerun \<and> (''team/app'', 0) \<in> set (ix_waiting sample_rerun) \<and>
   0 \<in> set (rg_closed (ix_registry sample_rerun)) \<and>
   (case wait_end Job_done ''team/app'' (ix_registry sample_rerun) of
      (st, known, failure) \<Rightarrow> ij_status st = indexStatusRunning \<and> known \<and> failure = None)"
proof -
  let ?done = "finish_job 9 ''team/app'' sample_outcome None (ix_registry sample_indexing)"
  have "(''team/app'', 0) \<in> set (ix_running sample_indexing)" "remove1 (''team/app'', 0) (ix_running sample_indexing) = []"
    by code_simp+
  then have "index_step sample_indexing (sample_indexing\<lparr>ix_registry := snd ?done, ix_running := []\<rparr>)"
    using index_step.finished [of "''team/app''" 0 sample_indexing 9 sample_outcome None "fst ?done" "snd ?done"] by simp
  then have "index_reachable sample_rerun"
    using sample_indexing_reachable sample_index_step unfolding index_reachable_def sample_rerun_def Let_def
    by (meson rtranclp.rtrancl_into_rtrancl)
  moreover have "(''team/app'', 0) \<in> set (ix_waiting sample_rerun)" "0 \<in> set (rg_closed (ix_registry sample_rerun))"
    "case wait_end Job_done ''team/app'' (ix_registry sample_rerun) of
      (st, known, failure) \<Rightarrow> ij_status st = indexStatusRunning \<and> known \<and> failure = None"
    by code_simp+
  ultimately show ?thesis by blast
qed

end
