(* ===== verification/Service_Clients.thy ===== *)
theory Service_Clients imports Index_Jobs Recommendations begin

text \<open>
  The clients of the other two services: CodeRAG, which indexes repositories
  (backend/internal/httpapi/rag_client.go), and the recommendation service
  (backend/internal/httpapi/recommendation_client.go). A service and its state are parameters, as are the JSON
  decoder, \<open>fmt.Sprint\<close> of a value and \<open>sha256\<close>; the count of upstream calls is left out.
\<close>

section \<open>Services\<close>

text \<open>What an exchange ends in: a reply, the deadline of the request, or another failure of the transport.\<close>

datatype transport = Replied int string | Deadline_exceeded string | No_reply string

record 's service_client =
  sv_baseURL :: string
  sv_apiKey :: string
  sv_request_error :: "string \<Rightarrow> go_error option"
  sv_send :: "http_request \<Rightarrow> 's \<Rightarrow> transport \<times> 's"
  sv_decode :: "string \<Rightarrow> json option"
  sv_unmarshal :: "string \<Rightarrow> json option"
  sv_sprint :: "json \<Rightarrow> string"

text \<open>\<open>NewRAGClient\<close> and \<open>NewRecommendationClient\<close>: the base URL of a client, \<open>None\<close> for no client.\<close>

definition NewRAGClient :: "string \<Rightarrow> string option" where
  "NewRAGClient baseURL = (if trim_space baseURL = [] then None else Some (trim_right_chars ''/'' baseURL))"

definition NewRecommendationClient :: "string \<Rightarrow> string option" where
  "NewRecommendationClient baseURL = (if trim_space baseURL = [] then None else Some (trim_right_chars ''/'' baseURL))"

definition service_exchange ::
    "'s service_client \<Rightarrow> string \<Rightarrow> string \<Rightarrow> string option \<Rightarrow> json option \<Rightarrow> ('s, transport) op" where
  "service_exchange c verb endpoint authorization body =
     (case sv_request_error c (sv_baseURL c @ endpoint) of
        Some e \<Rightarrow> failS e
      | None \<Rightarrow> (\<lambda>s.
          case sv_send c \<lparr>rq_method = verb, rq_url = sv_baseURL c @ endpoint, rq_authorization = authorization,
              rq_body = body\<rparr> s of (reply, s') \<Rightarrow> (Inr reply, s')))"

section \<open>CodeRAG\<close>

record rag_index_request =
  rx_repository_id :: string
  rx_repository_name :: string
  rx_commit_sha :: string
  rx_source :: string
  rx_configuration_yaml :: string
  rx_files :: "repository_file list"
  rx_force :: bool

text \<open>The JSON of a request, empty optional members left out.\<close>

definition optional_text :: "string \<Rightarrow> string \<Rightarrow> document" where
  "optional_text name v = (if v = [] then [] else [(name, JStr v)])"

definition file_json :: "repository_file \<Rightarrow> json" where
  "file_json f =
     JObj ([(''path'', JStr (rf_path f)), (''content'', JStr (rf_content f))] @ optional_text ''type'' (rf_type f))"

definition index_request_json :: "rag_index_request \<Rightarrow> json" where
  "index_request_json rx =
     JObj ([(''repository_id'', JStr (rx_repository_id rx))] @ optional_text ''repository_name'' (rx_repository_name rx) @
       [(''commit_sha'', JStr (rx_commit_sha rx))] @ optional_text ''source'' (rx_source rx) @
       optional_text ''configuration_yaml'' (rx_configuration_yaml rx) @
       [(''files'', JArr (map file_json (rx_files rx)))] @ (if rx_force rx then [(''force'', JBool True)] else []))"

definition index_result_of :: "json \<Rightarrow> rag_index_result option" where
  "index_result_of v =
     Option.bind (document_of v) (\<lambda>doc.
     Option.bind (text_field (struct_field doc ''repository_id'')) (\<lambda>r.
     Option.bind (text_field (struct_field doc ''commit_sha'')) (\<lambda>sha.
     Option.bind (text_field (struct_field doc ''status'')) (\<lambda>st.
     Option.bind (int_field (struct_field doc ''file_count'')) (\<lambda>fc.
     Option.bind (int_field (struct_field doc ''chunk_count'')) (\<lambda>cc.
     Option.bind (int_field (struct_field doc ''embedding_count'')) (\<lambda>ec.
       Some \<lparr>rr_repository_id = r, rr_commit_sha = sha, rr_status = st, rr_file_count = fc, rr_chunk_count = cc,
         rr_embedding_count = ec\<rparr>)))))))"

definition rag_Ready :: "'s service_client \<Rightarrow> ('s, unit) op" where
  "rag_Ready c =
     bindS (service_exchange c ''GET'' ''/health'' None None) (\<lambda>reply.
       case reply of
         Replied status body \<Rightarrow>
           if \<not> success_status status then failS (ErrText (''CodeRAG health returned HTTP '' @ int_text status))
           else retS ()
       | Deadline_exceeded t \<Rightarrow> failS (ErrText (''CodeRAG is unreachable: '' @ t))
       | No_reply t \<Rightarrow> failS (ErrText (''CodeRAG is unreachable: '' @ t)))"

definition rag_problem :: "'s service_client \<Rightarrow> int \<Rightarrow> string \<Rightarrow> go_error" where
  "rag_problem c status body =
     (let value = (case sv_decode c body of Some (JObj doc) \<Rightarrow> struct_field doc ''detail'' | _ \<Rightarrow> JNull);
          text = trim_space (case value of JNull \<Rightarrow> ''<nil>'' | JStr s \<Rightarrow> s | v \<Rightarrow> sv_sprint c v);
          detail = (if text = [] \<or> text = ''<nil>'' then ''CodeRAG returned HTTP '' @ int_text status else text) in
      IntegrationErr status ''rag_indexing_failed'' detail)"

definition rag_request ::
    "'s service_client \<Rightarrow> string \<Rightarrow> string \<Rightarrow> json option \<Rightarrow> ('s, rag_index_result) op" where
  "rag_request c verb endpoint payload =
     bindS (service_exchange c verb endpoint (bearer (sv_apiKey c)) payload) (\<lambda>reply.
       case reply of
         Deadline_exceeded t \<Rightarrow>
           failS (IntegrationErr 504 ''rag_index_timeout'' ''CodeRAG indexing exceeded the configured timeout'')
       | No_reply t \<Rightarrow> failS (IntegrationErr 503 ''rag_unreachable'' ''CodeRAG service is unreachable'')
       | Replied status body \<Rightarrow>
           if \<not> success_status status then failS (rag_problem c status body)
           else
             (case Option.bind (sv_decode c body) index_result_of of
                None \<Rightarrow> failS (IntegrationErr 502 ''invalid_rag_response'' ''CodeRAG returned invalid JSON'')
              | Some result \<Rightarrow> retS result))"

text \<open>The query of \<open>Status\<close>, its keys sorted by \<open>url.Values.Encode\<close>.\<close>

definition rag_Status :: "'s service_client \<Rightarrow> string \<Rightarrow> string \<Rightarrow> ('s, rag_index_result) op" where
  "rag_Status c repositoryID commitSHA =
     rag_request c ''GET''
       (''/indexes/status?commit_sha='' @ QueryEscape commitSHA @ ''&repository_id='' @ QueryEscape repositoryID) None"

definition rag_Index :: "'s service_client \<Rightarrow> rag_index_request \<Rightarrow> ('s, rag_index_result) op" where
  "rag_Index c rx = rag_request c ''POST'' ''/indexes'' (Some (index_request_json rx))"

section \<open>The recommendation service\<close>

text \<open>A pointer member: absent for \<open>null\<close>.\<close>

fun int_pointer :: "json \<Rightarrow> int option option" where
  "int_pointer JNull = Some None"
| "int_pointer v = map_option Some (int_field v)"

fun number_pointer :: "json \<Rightarrow> rat option option" where
  "number_pointer JNull = Some None"
| "number_pointer (JNum x) = Some (Some x)"
| "number_pointer v = None"

definition card_of_json :: "json \<Rightarrow> recommendation_card option" where
  "card_of_json v =
     Option.bind (document_of v) (\<lambda>doc.
     case (map (\<lambda>name. text_field (struct_field doc name))
             [''id'', ''finding_fingerprint'', ''severity'', ''category'', ''file'', ''problem'', ''suggestion'', ''state''],
           int_pointer (struct_field doc ''line''), number_pointer (struct_field doc ''confidence'')) of
       ([Some i, Some fp, Some sev, Some cat, Some f, Some pr, Some sug, Some st], Some lineno, Some conf) \<Rightarrow>
         Some \<lparr>card_id = i, card_finding_fingerprint = fp, card_severity = sev, card_category = cat, card_file = f,
           card_line = lineno, card_problem = pr, card_suggestion = sug, card_confidence = conf, card_state = st\<rparr>
     | _ \<Rightarrow> None)"

fun cards_of_json :: "json \<Rightarrow> recommendation_card list option" where
  "cards_of_json JNull = Some []"
| "cards_of_json (JArr vs) = those (map card_of_json vs)"
| "cards_of_json v = None"

definition analysis_of_json :: "json \<Rightarrow> (string \<times> recommendation_card list) option" where
  "analysis_of_json v =
     Option.bind (document_of v) (\<lambda>doc.
     Option.bind (text_field (struct_field doc ''summary'')) (\<lambda>t.
     Option.bind (cards_of_json (struct_field doc ''recommendations'')) (\<lambda>cards. Some (t, cards))))"

text \<open>One element of the list of validation errors, \<open>None\<close> if it does not decode.\<close>

definition validation_message :: "(json \<Rightarrow> string) \<Rightarrow> json \<Rightarrow> string option" where
  "validation_message spr v =
     Option.bind (document_of v) (\<lambda>doc.
     Option.bind (case struct_field doc ''loc'' of JNull \<Rightarrow> Some [] | JArr vs \<Rightarrow> Some vs | _ \<Rightarrow> None) (\<lambda>segments.
     Option.bind (text_field (struct_field doc ''msg'')) (\<lambda>msg.
       let location = filter (\<lambda>t. t \<noteq> ''body'') (map (\<lambda>x. case x of JStr s \<Rightarrow> s | JNull \<Rightarrow> ''<nil>'' | _ \<Rightarrow> spr x) segments) in
       Some (if location \<noteq> [] then join_with ''.'' location @ '': '' @ trim_space msg else trim_space msg))))"

definition recommendationProblem :: "(string \<Rightarrow> json option) \<Rightarrow> (json \<Rightarrow> string) \<Rightarrow> string \<Rightarrow> string \<times> string" where
  "recommendationProblem unmarshal spr body =
     (case Option.bind (unmarshal body) document_of of
        None \<Rightarrow> ([], [])
      | Some doc \<Rightarrow>
          (case (text_field (struct_field doc ''code''), map_option snd (find (\<lambda>(k, v). equal_fold k ''detail'') (rev doc))) of
             (Some code, Some detail) \<Rightarrow>
               (case detail of
                  JStr s \<Rightarrow> (code, s)
                | JNull \<Rightarrow> (code, [])
                | JArr vs \<Rightarrow>
                    (case those (map (validation_message spr) vs) of
                       None \<Rightarrow> (code, [])
                     | Some messages \<Rightarrow> (code, join_with ''; '' (filter (\<lambda>t. t \<noteq> []) messages)))
                | _ \<Rightarrow> (code, []))
           | _ \<Rightarrow> ([], [])))"

definition analyze_payload :: "repository_metadata \<Rightarrow> string \<Rightarrow> repository_file list \<Rightarrow> json" where
  "analyze_payload metadata configYAML files =
     JObj [(''repository'', JObj [(''id'', JStr (repo_id metadata)), (''commit_sha'', JStr (repo_commit_sha metadata))]),
       (''config_yaml'', JStr configYAML),
       (''repo_context'', JArr (map (\<lambda>f. JObj [(''path'', JStr (rf_path f)), (''content'', JStr (rf_content f))]) files))]"

text \<open>The loop that completes the cards; \<open>new_id\<close> gives the identifier drawn for an index.\<close>

fun complete_cards :: "(nat \<Rightarrow> string) \<Rightarrow> nat \<Rightarrow> recommendation_card list \<Rightarrow> recommendation_card list" where
  "complete_cards new_id i [] = []"
| "complete_cards new_id i (item # cards) =
     item\<lparr>card_id := (if card_id item = [] then new_id i else card_id item),
       card_state := (if card_state item = [] then ''open'' else card_state item)\<rparr> # complete_cards new_id (Suc i) cards"

definition invalid_recommendations :: "string \<Rightarrow> go_error" where
  "invalid_recommendations detail = IntegrationErr 502 ''invalid_recommendation_response'' detail"

definition AnalyzeRecommendations ::
    "(string \<Rightarrow> string) \<Rightarrow> (nat \<Rightarrow> string) \<Rightarrow> 's service_client \<Rightarrow> repository_metadata \<Rightarrow> string \<Rightarrow> repository_file list \<Rightarrow>
       ('s, string \<times> recommendation_card list) op" where
  "AnalyzeRecommendations sha256 new_id c metadata configYAML files =
     bindS (service_exchange c ''POST'' ''/v1/recommendations/analyze'' None
         (Some (analyze_payload metadata configYAML files))) (\<lambda>reply.
       case reply of
         Replied status body \<Rightarrow>
           if \<not> success_status status then
             (let problem = recommendationProblem (sv_unmarshal c) (sv_sprint c) (take 65536 body);
                  code = (if fst problem = [] then ''recommendation_service_error'' else fst problem);
                  detail = (if snd problem = [] then ''recommendation service returned status '' @ int_text status
                            else snd problem) in
              failS (IntegrationErr (normalizeIntegrationStatus status) code detail))
           else
             (case Option.bind (sv_decode c body) analysis_of_json of
                None \<Rightarrow> failS (invalid_recommendations ''recommendation service returned invalid JSON'')
              | Some (text, cards) \<Rightarrow>
                  if trim_space text = []
                  then failS (invalid_recommendations ''recommendation service returned an empty summary'')
                  else retS (text, complete_cards new_id 0 (NormalizeRecommendations sha256 cards)))
       | _ \<Rightarrow> failS (IntegrationErr 502 ''recommendation_service_unreachable'' ''recommendation service is unreachable''))"

end
