(* ===== verification/Index_Sync.thy ===== *)
theory Index_Sync imports "HOL-Library.Multiset" "HOL-Library.List_Lexorder" "HOL-Library.Char_ord"
  GitFlame_Files Service_Clients Generated_Files begin

text \<open>
  Keeping the index of a repository up to date, backend/internal/httpapi/repository_indexing.go: the files of a
  revision are read from GitFlame, checked, handed to the index service and recorded as a snapshot. The
  reader and the indexer are the interfaces that the code names; the GitFlame client and the CodeRAG
  client implement them. The state is the store, the outside world, and the caller's connection, which the
  synchronisation updates through its pointer.
\<close>

section \<open>Interfaces\<close>

text \<open>\<open>GitFlameRepositoryReader\<close>, with the two optional interfaces that the code tests for.\<close>

record 's repository_reader =
  rd_tree :: "string \<Rightarrow> string \<Rightarrow> ('s, tree_entry list) op"
  rd_files :: "string \<Rightarrow> string \<Rightarrow> string \<Rightarrow> repository_file list \<Rightarrow> ('s, string \<times> repository_file list) op"
  rd_issues :: "string \<Rightarrow> ('s, issue_payload list) op"
  rd_revision :: "(string \<Rightarrow> string \<Rightarrow> ('s, string) op) option"
  rd_index_files ::
    "(string \<Rightarrow> string \<Rightarrow> string \<Rightarrow> repository_file list \<Rightarrow> ('s, string \<times> repository_file list) op) option"

definition gitflame_reader :: "'s gitflame_client \<Rightarrow> unmarshal \<Rightarrow> (nat list \<Rightarrow> nat list) \<Rightarrow> 's repository_reader" where
  "gitflame_reader c unmarshal order =
     \<lparr>rd_tree = RepositoryTree c, rd_files = RepositoryFiles c unmarshal order, rd_issues = RepositoryIssues c,
      rd_revision = Some (RepositoryRevision c), rd_index_files = Some (RepositoryFilesForIndex c unmarshal order)\<rparr>"

text \<open>\<open>RepositoryIndexer\<close>.\<close>

record 's repository_indexer =
  ix_ready :: "('s, unit) op"
  ix_status :: "string \<Rightarrow> string \<Rightarrow> ('s, rag_index_result) op"
  ix_index :: "rag_index_request \<Rightarrow> ('s, rag_index_result) op"

definition rag_indexer :: "'s service_client \<Rightarrow> 's repository_indexer" where
  "rag_indexer c = \<lparr>ix_ready = rag_Ready c, ix_status = rag_Status c, ix_index = rag_Index c\<rparr>"

section \<open>State\<close>

record 's sync_state =
  sy_store :: memory_store
  sy_world :: 's
  sy_connection :: "gitflame_connection option"

definition on_table :: "'a store_op \<Rightarrow> ('s sync_state, 'a) op" where
  "on_table m = (\<lambda>s. case m (sy_store s) of (r, st) \<Rightarrow> (r, s\<lparr>sy_store := st\<rparr>))"

definition on_world :: "('s, 'a) op \<Rightarrow> ('s sync_state, 'a) op" where
  "on_world m = (\<lambda>s. case m (sy_world s) of (r, w) \<Rightarrow> (r, s\<lparr>sy_world := w\<rparr>))"

definition set_commit :: "string \<Rightarrow> ('s sync_state, unit) op" where
  "set_commit sha = (\<lambda>s. (Inr (), s\<lparr>sy_connection := map_option (\<lambda>c.
     c\<lparr>con_repository := (con_repository c)\<lparr>repo_commit_sha := sha\<rparr>\<rparr>) (sy_connection s)\<rparr>))"

record index_sync =
  is_result :: rag_index_result
  is_yaml :: string
  is_files :: "repository_file list option"

section \<open>The revision of a snapshot\<close>

text \<open>What is hashed when no commit is known; \<open>sorter\<close> is \<open>sort.Slice\<close> by path, which need not be stable.\<close>

definition snapshot_framing :: "repository_file list \<Rightarrow> string" where
  "snapshot_framing files = concat (map (\<lambda>f. rf_path f @ [CHR 0x00] @ rf_content f @ [CHR 0x00]) files)"

definition snapshotRevision ::
    "(string \<Rightarrow> string) \<Rightarrow> (repository_file list \<Rightarrow> repository_file list) \<Rightarrow> repository_file list \<Rightarrow> string" where
  "snapshotRevision sha256 sorter files = ''snapshot-'' @ hex_encode (sha256 (snapshot_framing (sorter files)))"

section \<open>Synchronisation\<close>

text \<open>What the environment provides: the hash, the sort, the clock and the identifier of a new record.\<close>

record sync_env =
  se_sha256 :: "string \<Rightarrow> string"
  se_sorter :: "repository_file list \<Rightarrow> repository_file list"
  se_now :: gotime
  se_id :: string

definition no_result :: rag_index_result where
  "no_result = \<lparr>rr_repository_id = [], rr_commit_sha = [], rr_status = [], rr_file_count = 0, rr_chunk_count = 0,
     rr_embedding_count = 0\<rparr>"

definition index_branch :: "gitflame_connection \<Rightarrow> string \<Rightarrow> string" where
  "index_branch connection ref = (if trim_space ref = [] then con_default_branch connection else ref)"

definition known_commit ::
    "'s repository_reader \<Rightarrow> gitflame_connection \<Rightarrow> string \<Rightarrow> string \<Rightarrow> ('s sync_state, string) op" where
  "known_commit reader connection ref explicitCommitSHA =
     bindS (if trim_space explicitCommitSHA \<noteq> [] then retS (trim_space explicitCommitSHA)
            else
              (case rd_revision reader of
                 None \<Rightarrow> retS []
               | Some revision \<Rightarrow>
                   tryS (on_world (revision (repo_id (con_repository connection)) ref)) (\<lambda>r.
                     case r of Inl err \<Rightarrow> retS [] | Inr resolved \<Rightarrow> retS resolved))) (\<lambda>sha.
     retS (if sha = [] then trim_space (repo_commit_sha (con_repository connection)) else sha))"

definition requested_files :: "tree_entry list \<Rightarrow> repository_file list" where
  "requested_files tree =
     map (\<lambda>e. \<lparr>rf_path = te_path e, rf_content = [], rf_type = te_type e\<rparr>)
       (filter (\<lambda>e. te_type e \<in> {''file'', ''blob'', []}) tree)"

definition stored_config :: "string \<Rightarrow> ('s sync_state, string) op" where
  "stored_config repositoryID =
     tryS (on_table (LatestAIConfig repositoryID)) (\<lambda>r.
       case r of
         Inr cfg \<Rightarrow> retS (cfg_raw cfg)
       | Inl err \<Rightarrow> if err = ErrNotFound then retS [] else failS err)"

definition snapshot_files :: "(string \<Rightarrow> string) \<Rightarrow> repository_file list \<Rightarrow> repository_snapshot_file list" where
  "snapshot_files sha256 files =
     map (\<lambda>f. \<lparr>sf_path = rf_path f, sf_content_hash = hex_encode (sha256 (rf_content f)), sf_commit_sha = []\<rparr>) files"

definition new_snapshot :: "gitflame_connection \<Rightarrow> string \<Rightarrow> string \<Rightarrow> repository_file list \<Rightarrow> repository_snapshot" where
  "new_snapshot connection ref commitSHA files =
     \<lparr>sn_id = [], sn_repository_id = repo_id (con_repository connection), sn_connection_id = con_id connection,
      sn_ref = ref, sn_commit_sha = commitSHA, sn_ai_config_id = [], sn_file_count = go_len files,
      sn_status = ''indexed'', sn_error = None, sn_fetched_at = 0\<rparr>"

definition index_request :: "gitflame_connection \<Rightarrow> string \<Rightarrow> string \<Rightarrow> repository_file list \<Rightarrow> bool \<Rightarrow> rag_index_request" where
  "index_request connection commitSHA yamlConfig files force =
     \<lparr>rx_repository_id = repo_id (con_repository connection), rx_repository_name = repo_name (con_repository connection),
      rx_commit_sha = commitSHA, rx_source = con_repo_url connection, rx_configuration_yaml = yamlConfig,
      rx_files = files, rx_force = force\<rparr>"

text \<open>The last part: the files that were indexed are recorded, and before that they are indexed.\<close>

definition record_snapshot ::
    "sync_env \<Rightarrow> gitflame_connection \<Rightarrow> string \<Rightarrow> string \<Rightarrow> repository_file list \<Rightarrow> ('s sync_state, unit) op" where
  "record_snapshot env connection ref commitSHA files =
     bindS (set_commit commitSHA) (\<lambda>_.
     tryS (on_table (SaveRepositorySnapshot (se_now env) (se_id env) (new_snapshot connection ref commitSHA files)
         (snapshot_files (se_sha256 env) files))) (\<lambda>r.
       case r of
         Inl err \<Rightarrow> failS (ErrText (''save indexed repository snapshot: '' @ error_text err))
       | Inr _ \<Rightarrow> retS ()))"

definition index_files ::
    "sync_env \<Rightarrow> 's repository_indexer \<Rightarrow> gitflame_connection \<Rightarrow> string \<Rightarrow> bool \<Rightarrow> string \<Rightarrow> string \<Rightarrow>
       repository_file list \<Rightarrow> ('s sync_state, index_sync) op" where
  "index_files env indexer connection ref force knownSHA yamlConfig files =
     (case ValidateRepositoryFilesForIntegration files of
        Some err \<Rightarrow> failS err
      | None \<Rightarrow>
          let commitSHA = (if knownSHA = [] then snapshotRevision (se_sha256 env) (se_sorter env) files else knownSHA) in
          bindS (on_world (ix_index indexer (index_request connection commitSHA yamlConfig files force))) (\<lambda>outcome.
          bindS (record_snapshot env connection ref commitSHA files) (\<lambda>_.
            retS \<lparr>is_result = outcome, is_yaml = yamlConfig, is_files = Some files\<rparr>)))"

definition read_index_files ::
    "'s repository_reader \<Rightarrow> gitflame_connection \<Rightarrow> string \<Rightarrow> ('s sync_state, string \<times> repository_file list) op" where
  "read_index_files reader connection ref =
     (let repositoryID = repo_id (con_repository connection) in
      bindS (on_world (rd_tree reader repositoryID ref)) (\<lambda>tree.
      bindS (stored_config repositoryID) (\<lambda>yamlConfig.
        on_world ((case rd_index_files reader of None \<Rightarrow> rd_files reader | Some f \<Rightarrow> f)
          repositoryID ref yamlConfig (requested_files tree)))))"

definition indexed_commit ::
    "'s repository_indexer \<Rightarrow> gitflame_connection \<Rightarrow> string \<Rightarrow> bool \<Rightarrow> ('s sync_state, rag_index_result option) op" where
  "indexed_commit indexer connection commitSHA force =
     (if commitSHA \<noteq> [] \<and> \<not> force
      then bindS (on_world (ix_status indexer (repo_id (con_repository connection)) commitSHA)) (\<lambda>st.
             retS (if rr_status st = ''indexed'' then Some st else None))
      else retS None)"

definition synchronizeRepositoryIndex ::
    "sync_env \<Rightarrow> 's repository_indexer option \<Rightarrow> 's repository_reader \<Rightarrow> string \<Rightarrow> string \<Rightarrow> bool \<Rightarrow>
       ('s sync_state, index_sync) op" where
  "synchronizeRepositoryIndex env indexerOption reader ref0 explicitCommitSHA force s =
     (case indexerOption of
        None \<Rightarrow> (Inr \<lparr>is_result = no_result\<lparr>rr_status := ''disabled''\<rparr>, is_yaml = [], is_files = None\<rparr>, s)
      | Some indexer \<Rightarrow>
          (case sy_connection s of
             None \<Rightarrow> (Inl (ErrText ''repository connection is required for indexing''), s)
           | Some connection \<Rightarrow>
               if trim_space (repo_id (con_repository connection)) = []
               then (Inl (ErrText ''repository connection is required for indexing''), s)
               else
                 let ref = index_branch connection ref0 in
                 bindS (known_commit reader connection ref explicitCommitSHA) (\<lambda>commitSHA.
                 bindS (indexed_commit indexer connection commitSHA force) (\<lambda>indexed.
                   case indexed of
                     Some st \<Rightarrow> retS \<lparr>is_result = st, is_yaml = [], is_files = None\<rparr>
                   | None \<Rightarrow>
                       bindS (read_index_files reader connection ref) (\<lambda>(yamlConfig, files).
                         index_files env indexer connection ref force commitSHA yamlConfig files))) s))"

section \<open>What is indexed and recorded\<close>

text \<open>A reader and an indexer over a world that also holds the index requests made so far.\<close>

definition on_first :: "('s, 'a) op \<Rightarrow> ('s \<times> 'l, 'a) op" where
  "on_first m = (\<lambda>(s, l). case m s of (r, s') \<Rightarrow> (r, (s', l)))"

definition watched_reader :: "'s repository_reader \<Rightarrow> ('s \<times> rag_index_request list) repository_reader" where
  "watched_reader rd =
     \<lparr>rd_tree = (\<lambda>r ref. on_first (rd_tree rd r ref)), rd_files = (\<lambda>r ref y fs. on_first (rd_files rd r ref y fs)),
      rd_issues = (\<lambda>r. on_first (rd_issues rd r)),
      rd_revision = map_option (\<lambda>f r ref. on_first (f r ref)) (rd_revision rd),
      rd_index_files = map_option (\<lambda>f r ref y fs. on_first (f r ref y fs)) (rd_index_files rd)\<rparr>"

definition watched_indexer :: "'s repository_indexer \<Rightarrow> ('s \<times> rag_index_request list) repository_indexer" where
  "watched_indexer ix =
     \<lparr>ix_ready = on_first (ix_ready ix), ix_status = (\<lambda>r sha. on_first (ix_status ix r sha)),
      ix_index = (\<lambda>rx (s, l). case ix_index ix rx s of (r, s') \<Rightarrow> (r, (s', l @ [rx])))\<rparr>"

text \<open>Reading changes neither the store nor the connection, and indexes nothing.\<close>

definition untouched ::
    "memory_store \<Rightarrow> 'l \<Rightarrow> gitflame_connection option \<Rightarrow> ('s \<times> 'l) sync_state \<Rightarrow> bool" where
  "untouched st l cn s \<longleftrightarrow> sy_store s = st \<and> snd (sy_world s) = l \<and> sy_connection s = cn"

lemma keeps_on_first [keeps_intros]: "keeps (untouched st l cn) (on_world (on_first m))"
  by (rule keepsI) (auto simp: untouched_def on_world_def on_first_def split: prod.split)

lemma keeps_stored_config [keeps_intros]: "keeps (untouched st l cn) (stored_config r)"
proof -
  have "keeps (untouched st l cn) (on_table (LatestAIConfig r))"
    by (rule keepsI) (simp add: untouched_def on_table_def LatestAIConfig_def split: option.split)
  then show ?thesis unfolding stored_config_def by (intro keeps_intros)
qed

lemma keeps_known_commit: "keeps (untouched st l cn) (known_commit (watched_reader rd) connection ref sha)"
  unfolding known_commit_def watched_reader_def repository_reader.simps
  by (cases "rd_revision rd") (simp_all only: option.map option.case, (intro keeps_intros)+)

lemma keeps_indexed_commit: "keeps (untouched st l cn) (indexed_commit (watched_indexer ix) connection sha force)"
  unfolding indexed_commit_def watched_indexer_def repository_indexer.simps by (intro keeps_intros)

lemma indexed_commit_status:
  "indexed_commit indexer connection sha force s = (Inr (Some st), s') \<Longrightarrow> rr_status st = ''indexed''"
  by (auto simp: indexed_commit_def bindS_Inr_iff split: if_splits)

lemma keeps_read_index_files: "keeps (untouched st l cn) (read_index_files (watched_reader rd) connection ref)"
  unfolding read_index_files_def Let_def watched_reader_def repository_reader.simps
  by (cases "rd_index_files rd") (simp_all only: option.map option.case, (intro keeps_intros)+)

definition snapshot_matches :: "sync_env \<Rightarrow> memory_store \<Rightarrow> rag_index_request \<Rightarrow> bool" where
  "snapshot_matches env st rx \<longleftrightarrow>
     (case fst (RepositorySnapshot (se_id env) st) of
        Inl e \<Rightarrow> False
      | Inr (v, files) \<Rightarrow>
          sn_repository_id v = rx_repository_id rx \<and> sn_commit_sha v = rx_commit_sha rx \<and>
          sn_file_count v = go_len (rx_files rx) \<and> files = snapshot_files (se_sha256 env) (rx_files rx))"

definition sync_outcome ::
    "sync_env \<Rightarrow> memory_store \<Rightarrow> gitflame_connection \<Rightarrow>
       index_sync result \<times> ('s \<times> rag_index_request list) sync_state \<Rightarrow> bool" where
  "sync_outcome env st connection out \<longleftrightarrow>
     (case out of (r, s') \<Rightarrow>
        list_all (\<lambda>rx. ValidateRepositoryFilesForIntegration (rx_files rx) = None \<and> rx_commit_sha rx \<noteq> [] \<and>
          rx_repository_id rx = repo_id (con_repository connection)) (snd (sy_world s')) \<and>
        (case r of
           Inl e \<Rightarrow> sy_store s' = st \<and> length (snd (sy_world s')) \<le> 1
         | Inr sync \<Rightarrow>
             (case snd (sy_world s') of
                [] \<Rightarrow> sy_store s' = st \<and> rr_status (is_result sync) = ''indexed''
              | rx # others \<Rightarrow>
                  others = [] \<and> snapshot_matches env (sy_store s') rx \<and> is_files sync = Some (rx_files rx) \<and>
                  map_option (\<lambda>c. repo_commit_sha (con_repository c)) (sy_connection s') = Some (rx_commit_sha rx))))"

lemma untouched_fails: "untouched st [] cn s \<Longrightarrow> sync_outcome env st connection (Inl e, s)"
  by (simp add: untouched_def sync_outcome_def)

lemma record_snapshot_stores:
  assumes "trim_space (repo_id (con_repository connection)) \<noteq> []" and "sy_connection s = Some connection"
  shows "\<exists>s'. record_snapshot env connection ref sha files s = (Inr (), s') \<and> sy_world s' = sy_world s \<and>
    snapshot_matches env (sy_store s') (index_request connection sha yamlConfig files force) \<and>
    map_option (\<lambda>c. repo_commit_sha (con_repository c)) (sy_connection s') = Some sha"
  using assms
  by (simp add: record_snapshot_def set_commit_def bindS_def tryS_def on_table_def SaveRepositorySnapshot_def Let_def
      new_snapshot_def time_IsZero_def snapshot_matches_def RepositorySnapshot_def index_request_def snapshot_files_def)

lemma index_files_outcome:
  assumes s: "untouched st [] (Some connection) s" and target: "trim_space (repo_id (con_repository connection)) \<noteq> []"
  shows "sync_outcome env st connection
    (index_files env (watched_indexer ix) connection ref force knownSHA yamlConfig files s)"
proof (cases "ValidateRepositoryFilesForIntegration files")
  case (Some e)
  then show ?thesis using untouched_fails [OF s] by (simp add: index_files_def)
next
  case None
  define sha where "sha = (if knownSHA = [] then snapshotRevision (se_sha256 env) (se_sorter env) files else knownSHA)"
  have sha: "sha \<noteq> []" by (simp add: sha_def snapshotRevision_def)
  let ?rx = "index_request connection sha yamlConfig files force"
  obtain r w' where index: "ix_index ix ?rx (fst (sy_world s)) = (r, w')" by fastforce
  let ?s = "s\<lparr>sy_world := (w', [?rx])\<rparr>"
  have world: "sy_world s = (fst (sy_world s), [])" "sy_store s = st" "sy_connection s = Some connection"
    using s by (auto simp: untouched_def prod_eq_iff)
  have indexed: "on_world (ix_index (watched_indexer ix) ?rx) s = (r, ?s)"
    by (subst on_world_def, subst world(1)) (simp add: watched_indexer_def index)
  have run: "index_files env (watched_indexer ix) connection ref force knownSHA yamlConfig files s =
      bindS (on_world (ix_index (watched_indexer ix) ?rx)) (\<lambda>outcome.
        bindS (record_snapshot env connection ref sha files) (\<lambda>_.
          retS \<lparr>is_result = outcome, is_yaml = yamlConfig, is_files = Some files\<rparr>)) s"
    using None by (simp only: index_files_def option.case Let_def sha_def [symmetric])
  show ?thesis
  proof (cases r)
    case (Inl e)
    with indexed None sha world show ?thesis by (simp add: run sync_outcome_def index_request_def)
  next
    case (Inr outcome)
    obtain s' where "record_snapshot env connection ref sha files ?s = (Inr (), s')" "sy_world s' = (w', [?rx])"
      "snapshot_matches env (sy_store s') ?rx"
      "map_option (\<lambda>c. repo_commit_sha (con_repository c)) (sy_connection s') = Some sha"
      using record_snapshot_stores [OF target, of ?s env ref sha files yamlConfig force] world by auto
    with indexed Inr None sha show ?thesis by (simp add: run sync_outcome_def index_request_def)
  qed
qed

lemma read_and_index_outcome:
  assumes s: "untouched st [] (Some connection) s" and target: "trim_space (repo_id (con_repository connection)) \<noteq> []"
  shows "sync_outcome env st connection
    (bindS (read_index_files (watched_reader rd) connection ref) (\<lambda>(yamlConfig, files).
       index_files env (watched_indexer ix) connection ref force knownSHA yamlConfig files) s)"
proof -
  obtain r s' where read: "read_index_files (watched_reader rd) connection ref s = (r, s')" by fastforce
  have s': "untouched st [] (Some connection) s'" by (rule keepsD_eq [OF keeps_read_index_files read s])
  show ?thesis
  proof (cases r)
    case (Inl e)
    with read untouched_fails [OF s'] show ?thesis by simp
  next
    case (Inr out)
    with read index_files_outcome [OF s' target] show ?thesis by (simp add: case_prod_beta)
  qed
qed

lemma check_and_index_outcome:
  assumes s: "untouched st [] (Some connection) s" and target: "trim_space (repo_id (con_repository connection)) \<noteq> []"
  shows "sync_outcome env st connection
    (bindS (indexed_commit (watched_indexer ix) connection knownSHA force) (\<lambda>indexed.
       case indexed of
         Some st \<Rightarrow> retS \<lparr>is_result = st, is_yaml = [], is_files = None\<rparr>
       | None \<Rightarrow>
           bindS (read_index_files (watched_reader rd) connection ref) (\<lambda>(yamlConfig, files).
             index_files env (watched_indexer ix) connection ref force knownSHA yamlConfig files)) s)"
proof -
  obtain r s' where status: "indexed_commit (watched_indexer ix) connection knownSHA force s = (r, s')" by fastforce
  have s': "untouched st [] (Some connection) s'" by (rule keepsD_eq [OF keeps_indexed_commit status s])
  consider (failed) e where "r = Inl e" | (known) k where "r = Inr (Some k)" | (unknown) "r = Inr None"
    by (metis option.exhaust sum.exhaust)
  then show ?thesis
  proof cases
    case failed
    with status untouched_fails [OF s'] show ?thesis by simp
  next
    case known
    with status s' indexed_commit_status [of "watched_indexer ix" connection knownSHA force s k s'] show ?thesis
      by (simp add: sync_outcome_def untouched_def)
  next
    case unknown
    with status read_and_index_outcome [OF s' target] show ?thesis by simp
  qed
qed

text \<open>C22: Whatever GitFlame and the index service answer, a synchronisation indexes at most once, only files that pass
  the validation and under a commit. When it succeeds without indexing, the service has reported the commit
  as indexed and nothing is stored; when it succeeds after indexing, the stored snapshot has the commit, the
  number and the content hashes of the files that were indexed, and the connection has the commit. When it
  fails, the store is as it was.\<close>

theorem index_and_snapshot_agree:
  "sync_outcome env st connection
     (synchronizeRepositoryIndex env (Some (watched_indexer ix)) (watched_reader rd) ref sha force
        \<lparr>sy_store = st, sy_world = (w, []), sy_connection = Some connection\<rparr>)"
proof (cases "trim_space (repo_id (con_repository connection)) = []")
  case True
  then show ?thesis by (simp add: synchronizeRepositoryIndex_def sync_outcome_def)
next
  case target: False
  let ?s = "\<lparr>sy_store = st, sy_world = (w, []), sy_connection = Some connection\<rparr>"
  let ?ok = "untouched st [] (Some connection)"
  let ?ref = "index_branch connection ref"
  have start: "?ok ?s" by (simp add: untouched_def)
  obtain r1 s1 where commit: "known_commit (watched_reader rd) connection ?ref sha ?s = (r1, s1)" by fastforce
  have s1: "?ok s1" by (rule keepsD_eq [OF keeps_known_commit commit start])
  show ?thesis
  proof (cases r1)
    case (Inl e)
    with commit target untouched_fails [OF s1] show ?thesis by (simp add: synchronizeRepositoryIndex_def Let_def)
  next
    case (Inr commitSHA)
    with commit target check_and_index_outcome [OF s1 target, where ref = ?ref and force = force and knownSHA = commitSHA]
    show ?thesis by (simp add: synchronizeRepositoryIndex_def Let_def)
  qed
qed

section \<open>The revision identifies the files\<close>

text \<open>\<open>sort.Slice\<close> by path: the result is some permutation that is sorted by path, byte by byte.\<close>

definition sorts_by_path :: "(repository_file list \<Rightarrow> repository_file list) \<Rightarrow> bool" where
  "sorts_by_path sorter \<longleftrightarrow> (\<forall>fs. mset (sorter fs) = mset fs \<and> sorted (map rf_path (sorter fs)))"

lemma sorted_by_path_unique:
  assumes "sorts_by_path sorter" and "sorts_by_path sorter'" and "mset fs = mset gs" and "distinct (map rf_path fs)"
  shows "sorter fs = sorter' gs"
proof -
  have perm: "mset (sorter fs) = mset (sorter' gs)" and sorted: "sorted (map rf_path (sorter fs))" "sorted (map rf_path (sorter' gs))"
    and own: "mset (sorter fs) = mset fs"
    using assms by (simp_all add: sorts_by_path_def)
  have "mset (map rf_path (sorter fs)) = mset (map rf_path fs)" using own by simp
  then have "inj_on rf_path (set (sorter fs))"
    using assms(4) mset_eq_imp_distinct_iff by (metis distinct_map)
  moreover have "set (sorter' gs) = set (sorter fs)" using perm by (metis mset_eq_setD)
  ultimately have inj: "inj_on rf_path (set (sorter fs) \<union> set (sorter' gs))" by simp
  have "mset (map rf_path (sorter fs)) = mset (map rf_path (sorter' gs))" using perm by simp
  then have "map rf_path (sorter fs) = map rf_path (sorter' gs)" using sorted by (metis properties_for_sort)
  then show ?thesis using inj by (rule map_inj_on)
qed

text \<open>Files as the readers return them, without zero bytes, can be read back from what is hashed.\<close>

definition plain_file :: "repository_file \<Rightarrow> bool" where
  "plain_file f \<longleftrightarrow> CHR 0x00 \<notin> set (rf_path f) \<and> CHR 0x00 \<notin> set (rf_content f) \<and> rf_type f = []"

lemma split_at_zero:
  assumes "p @ CHR 0x00 # r = q @ CHR 0x00 # t" and "CHR 0x00 \<notin> set p" and "CHR 0x00 \<notin> set q"
  shows "p = q \<and> r = t"
  using assms
proof (induction p arbitrary: q)
  case Nil
  then show ?case by (cases q) auto
next
  case (Cons c p)
  then show ?case by (cases q) auto
qed

lemma snapshot_framing_inj:
  "snapshot_framing fs = snapshot_framing gs \<Longrightarrow> list_all plain_file fs \<Longrightarrow> list_all plain_file gs \<Longrightarrow>
     map (\<lambda>f. (rf_path f, rf_content f)) fs = map (\<lambda>f. (rf_path f, rf_content f)) gs"
proof (induction fs arbitrary: gs)
  case Nil
  then show ?case by (cases gs) (simp_all add: snapshot_framing_def)
next
  case (Cons f fs)
  then obtain g gs' where gs: "gs = g # gs'" by (cases gs) (simp_all add: snapshot_framing_def)
  have plain: "list_all plain_file fs" "list_all plain_file gs'" and "plain_file f" "plain_file g"
    using Cons.prems(2,3) by (simp_all add: gs)
  then have zero: "CHR 0x00 \<notin> set (rf_path f)" "CHR 0x00 \<notin> set (rf_path g)" "CHR 0x00 \<notin> set (rf_content f)"
    "CHR 0x00 \<notin> set (rf_content g)"
    by (simp_all add: plain_file_def)
  have "rf_path f @ CHR 0x00 # (rf_content f @ CHR 0x00 # snapshot_framing fs) =
      rf_path g @ CHR 0x00 # (rf_content g @ CHR 0x00 # snapshot_framing gs')"
    using Cons.prems(1) by (simp add: gs snapshot_framing_def)
  note first = split_at_zero [OF this zero(1,2)]
  note second = split_at_zero [OF first [THEN conjunct2] zero(3,4)]
  have "map (\<lambda>f. (rf_path f, rf_content f)) fs = map (\<lambda>f. (rf_path f, rf_content f)) gs'"
    by (rule Cons.IH [OF second [THEN conjunct2] plain])
  with first second show ?case by (simp add: gs)
qed

text \<open>The revision that stands in for an unknown commit names the files: it does not depend on the order in which
  they are listed or on how the sort treats equal elements, and two sets of files without zero bytes get
  the same revision only if they have the same paths and contents, as long as the hash does not collide
  on them.\<close>

theorem snapshotRevision_names_files:
  assumes "sorts_by_path sorter" and "sorts_by_path sorter'" and "distinct (map rf_path fs)"
    and "list_all plain_file fs" and "list_all plain_file gs"
    and "inj_on sha256 {snapshot_framing (sorter fs), snapshot_framing (sorter' gs)}"
  shows "snapshotRevision sha256 sorter fs = snapshotRevision sha256 sorter' gs \<longleftrightarrow> mset fs = mset gs"
proof
  assume "mset fs = mset gs"
  then show "snapshotRevision sha256 sorter fs = snapshotRevision sha256 sorter' gs"
    using sorted_by_path_unique [OF assms(1,2) _ assms(3)] by (simp add: snapshotRevision_def)
next
  assume "snapshotRevision sha256 sorter fs = snapshotRevision sha256 sorter' gs"
  then have "sha256 (snapshot_framing (sorter fs)) = sha256 (snapshot_framing (sorter' gs))"
    by (simp only: snapshotRevision_def hex_encode_inj same_append_eq)
  then have framing: "snapshot_framing (sorter fs) = snapshot_framing (sorter' gs)"
    by (rule inj_onD [OF assms(6)]) simp_all
  have perm: "mset (sorter fs) = mset fs" "mset (sorter' gs) = mset gs"
    using assms(1,2) by (simp_all add: sorts_by_path_def)
  have "set (sorter fs) = set fs" "set (sorter' gs) = set gs" using perm by (metis mset_eq_setD)+
  then have "map (\<lambda>f. (rf_path f, rf_content f)) (sorter fs) = map (\<lambda>f. (rf_path f, rf_content f)) (sorter' gs)"
    using snapshot_framing_inj [OF framing] assms(4,5) by (simp add: list_all_iff)
  moreover have "rf_type f = []" if "f \<in> set fs \<union> set gs" for f
    using that assms(4,5) by (auto simp: list_all_iff plain_file_def)
  then have "inj_on (\<lambda>f. (rf_path f, rf_content f)) (set (sorter fs) \<union> set (sorter' gs))"
    unfolding \<open>set (sorter fs) = set fs\<close> \<open>set (sorter' gs) = set gs\<close>
    by (auto intro!: inj_onI repository_file.equality)
  ultimately have "sorter fs = sorter' gs" by (rule map_inj_on)
  then show "mset fs = mset gs" using perm by metis
qed

definition sample_files :: "string list \<Rightarrow> repository_file list" where
  "sample_files paths = map (\<lambda>p. \<lparr>rf_path = p, rf_content = ''text of '' @ p, rf_type = []\<rparr>) paths"

lemma sort_key_sorts_by_path: "sorts_by_path (sort_key rf_path)"
  by (simp add: sorts_by_path_def)

lemma snapshotRevision_names_files_witness:
  "snapshotRevision (\<lambda>s. s) (sort_key rf_path) (sample_files [''b.go'', ''a.go'']) =
     snapshotRevision (\<lambda>s. s) (sort_key rf_path) (sample_files [''a.go'', ''b.go'']) \<and>
   snapshotRevision (\<lambda>s. s) (sort_key rf_path) (sample_files [''b.go'', ''a.go'']) \<noteq>
     snapshotRevision (\<lambda>s. s) (sort_key rf_path) (sample_files [''a.go'', ''c.go''])"
proof -
  have plain: "list_all plain_file (sample_files [''b.go'', ''a.go''])" "list_all plain_file (sample_files [''a.go'', ''b.go''])"
    "list_all plain_file (sample_files [''a.go'', ''c.go''])" and distinct: "distinct (map rf_path (sample_files [''b.go'', ''a.go'']))"
    by (simp_all add: sample_files_def plain_file_def)
  note names = snapshotRevision_names_files [OF sort_key_sorts_by_path sort_key_sorts_by_path distinct plain(1)]
  have "mset (sample_files [''b.go'', ''a.go'']) = mset (sample_files [''a.go'', ''b.go''])"
    "mset (sample_files [''b.go'', ''a.go'']) \<noteq> mset (sample_files [''a.go'', ''c.go''])"
    by (simp_all add: sample_files_def add_mset_commute add_eq_conv_ex)
  then show ?thesis
    using names [OF plain(2) inj_on_id2] names [OF plain(3) inj_on_id2] by blast
qed

end
