(* ===== verification/GitFlame_Apply.thy ===== *)
theory GitFlame_Apply imports GitFlame_Http Domain begin

text \<open>
  How generated files reach GitFlame: \<open>ApplyGeneratedFiles\<close> of backend/internal/httpapi/gitflame_client.go with
  the creation of the branch, the commit (in one request, or file by file over the contents API), and the
  search and creation of the pull request. The search pages through the open pull requests with fuel. The
  members of a map payload are listed in the order in which Go encodes them.
\<close>

section \<open>Branches\<close>

definition createBranch :: "'s gitflame_client \<Rightarrow> string \<Rightarrow> string \<Rightarrow> string \<Rightarrow> ('s, bool) op" where
  "createBranch c repositoryID branchName ref =
     tryS (postFirstAvailable c (applyPOSTCandidates repositoryID ''branches'' ''branches'')
         (JObj [(''new_branch_name'', JStr branchName), (''old_ref_name'', JStr ref)])
         (None :: (json \<Rightarrow> document option) option) None) (\<lambda>r.
       case r of
         Inr _ \<Rightarrow> retS False
       | Inl err \<Rightarrow>
           if integrationStatus err \<noteq> 409 then failS err
           else
             (case giteaRepositoryEndpoint repositoryID of
                None \<Rightarrow> failS err
              | Some endpoint \<Rightarrow>
                  bindS (getJSON c (endpoint @ ''/branches/'' @ PathEscape branchName) [] document_of) (\<lambda>branch.
                    if trim_space (firstString (gf_sprint c) branch [''name'']) \<noteq> branchName
                    then failS (invalid_response ''GitFlame branch lookup returned an unexpected branch'')
                    else retS True)))"

section \<open>Commits\<close>

text \<open>\<open>base64.StdEncoding\<close>.\<close>

definition base64_char :: "nat \<Rightarrow> char" where
  "base64_char d =
     (if d < 26 then char_of (65 + d) else if d < 52 then char_of (71 + d)
      else if d < 62 then char_of (d - 4) else if d = 62 then CHR ''+'' else CHR ''/'')"

fun encodeFileContent :: "string \<Rightarrow> string" where
  "encodeFileContent [] = []"
| "encodeFileContent [a] =
     [base64_char (byte_of a div 4), base64_char (byte_of a mod 4 * 16), CHR ''='', CHR ''='']"
| "encodeFileContent [a, b] =
     [base64_char (byte_of a div 4), base64_char (byte_of a mod 4 * 16 + byte_of b div 16),
      base64_char (byte_of b mod 16 * 4), CHR ''='']"
| "encodeFileContent (a # b # c # rest) =
     [base64_char (byte_of a div 4), base64_char (byte_of a mod 4 * 16 + byte_of b div 16),
      base64_char (byte_of b mod 16 * 4 + byte_of c div 64), base64_char (byte_of c mod 64)] @
     encodeFileContent rest"

definition commit_action :: "generated_file_operation \<Rightarrow> json" where
  "commit_action f =
     JObj ([(''action'', JStr (gf_action f)), (''file_path'', JStr (gf_path f))] @
       (if gf_content f \<noteq> [] then [(''content'', JStr (gf_content f))] else []))"

definition commit_payload :: "generated_files_contract \<Rightarrow> json" where
  "commit_payload contract =
     (let actions = JArr (map commit_action (gc_files contract)) in
      JObj [(''actions'', actions), (''branch'', JStr (gc_branch_name contract)),
        (''branch_name'', JStr (gc_branch_name contract)), (''commit_message'', JStr (gc_commit_message contract)),
        (''files'', actions), (''message'', JStr (gc_commit_message contract))])"

definition fetchFileSHA :: "'s gitflame_client \<Rightarrow> string \<Rightarrow> string \<Rightarrow> ('s, string) op" where
  "fetchFileSHA c endpoint ref =
     bindS (getJSON c endpoint ref (\<lambda>v. Option.bind (document_of v) (\<lambda>doc. text_field (struct_field doc ''sha'')))) (\<lambda>raw.
       if trim_space raw = [] then failS (invalid_response ''GitFlame API did not return file sha'')
       else retS (trim_space raw))"

definition commit_sha_keys :: "string list" where
  "commit_sha_keys = [''commit.sha'', ''commit.id'', ''sha'', ''commit_sha'', ''id'']"

text \<open>The two attempts of an update or a deletion: each reads the current revision of the file, and only a
  conflict of the first leads to the second. \<open>payload\<close> is the body for a revision.\<close>

primrec contents_attempts ::
    "'s gitflame_client \<Rightarrow> string \<Rightarrow> string \<Rightarrow> string \<Rightarrow> (string \<Rightarrow> json) \<Rightarrow> nat \<Rightarrow> ('s, string) op" where
  "contents_attempts c verb endpoint branch payload 0 = retS []"
| "contents_attempts c verb endpoint branch payload (Suc n) =
     bindS (fetchFileSHA c endpoint branch) (\<lambda>sha.
     tryS (requestJSON c verb endpoint (payload sha) (Some document_of)) (\<lambda>r.
       case r of
         Inr doc \<Rightarrow> retS (firstString (gf_sprint c) (case doc of None \<Rightarrow> [] | Some d \<Rightarrow> d) commit_sha_keys)
       | Inl err \<Rightarrow>
           if integrationStatus err \<noteq> 409 \<or> n = 0 then failS err
           else contents_attempts c verb endpoint branch payload n))"

definition updateGeneratedFileViaContents ::
    "'s gitflame_client \<Rightarrow> string \<Rightarrow> string \<Rightarrow> string \<Rightarrow> string \<Rightarrow> string \<Rightarrow> ('s, string) op" where
  "updateGeneratedFileViaContents c endpoint branch message filePath content =
     contents_attempts c ''PUT'' endpoint branch
       (\<lambda>sha. JObj [(''branch'', JStr branch), (''content'', JStr (encodeFileContent content)),
          (''from_path'', JStr filePath), (''message'', JStr message), (''sha'', JStr sha)]) 2"

definition deleteGeneratedFileViaContents ::
    "'s gitflame_client \<Rightarrow> string \<Rightarrow> string \<Rightarrow> string \<Rightarrow> ('s, string) op" where
  "deleteGeneratedFileViaContents c endpoint branch message =
     contents_attempts c ''DELETE'' endpoint branch
       (\<lambda>sha. JObj [(''branch'', JStr branch), (''message'', JStr message), (''sha'', JStr sha)]) 2"

definition createGeneratedFileViaContents ::
    "'s gitflame_client \<Rightarrow> string \<Rightarrow> string \<Rightarrow> string \<Rightarrow> string \<Rightarrow> ('s, string) op" where
  "createGeneratedFileViaContents c endpoint branch message content =
     bindS (postJSON c endpoint (JObj [(''branch'', JStr branch), (''content'', JStr (encodeFileContent content)),
         (''message'', JStr message)]) (Some document_of)) (\<lambda>doc.
       retS (firstString (gf_sprint c) (case doc of None \<Rightarrow> [] | Some d \<Rightarrow> d) commit_sha_keys))"

definition on_file :: "string \<Rightarrow> ('s, 'a) op \<Rightarrow> ('s, 'a) op" where
  "on_file filePath m =
     tryS m (\<lambda>r. case r of Inl err \<Rightarrow> failS (generatedFileApplyError filePath err) | Inr v \<Rightarrow> retS v)"

definition applyGeneratedFileViaContents ::
    "'s gitflame_client \<Rightarrow> string \<Rightarrow> string \<Rightarrow> string \<Rightarrow> generated_file_operation \<Rightarrow> ('s, string) op" where
  "applyGeneratedFileViaContents c repositoryEndpoint branch message f =
     (let endpoint = repositoryEndpoint @ ''/contents/'' @ escapeRepositoryPath (gf_path f) in
      if gf_action f = ''create'' then
        on_file (gf_path f) (createGeneratedFileViaContents c endpoint branch message (gf_content f))
      else if gf_action f = ''modify'' then
        on_file (gf_path f) (updateGeneratedFileViaContents c endpoint branch message (gf_path f) (gf_content f))
      else if gf_action f = ''delete'' then
        on_file (gf_path f) (deleteGeneratedFileViaContents c endpoint branch message)
      else failS (IntegrationErr 422 ''invalid_generated_file_action''
             ''generated file action is not supported by GitFlame apply''))"

definition file_message :: "generated_files_contract \<Rightarrow> int \<Rightarrow> generated_file_operation \<Rightarrow> string" where
  "file_message contract number f =
     (if go_len (gc_files contract) > 1
      then gc_commit_message contract @ '' ('' @ int_text number @ ''/'' @ int_text (go_len (gc_files contract)) @
        '': '' @ gf_path f @ '')''
      else gc_commit_message contract)"

text \<open>One commit per file; the last revision that the server names is the result.\<close>

primrec apply_files ::
    "'s gitflame_client \<Rightarrow> string \<Rightarrow> generated_files_contract \<Rightarrow> int \<Rightarrow> string \<Rightarrow>
       generated_file_operation list \<Rightarrow> ('s, string) op" where
  "apply_files c endpoint contract number commitSHA [] = retS commitSHA"
| "apply_files c endpoint contract number commitSHA (f # fs) =
     bindS (applyGeneratedFileViaContents c endpoint (gc_branch_name contract) (file_message contract number f) f) (\<lambda>sha.
       apply_files c endpoint contract (number + 1) (if sha \<noteq> [] then sha else commitSHA) fs)"

definition commitGeneratedFilesViaContents ::
    "'s gitflame_client \<Rightarrow> string \<Rightarrow> generated_files_contract \<Rightarrow> ('s, string) op" where
  "commitGeneratedFilesViaContents c repositoryID contract =
     (case giteaRepositoryEndpoint repositoryID of
        None \<Rightarrow> failS (IntegrationErr 422 ''invalid_repository_id'' ''repository id must use owner/repository format'')
      | Some endpoint \<Rightarrow> apply_files c endpoint contract 1 [] (gc_files contract))"

definition commitGeneratedFiles ::
    "'s gitflame_client \<Rightarrow> string \<Rightarrow> generated_files_contract \<Rightarrow> ('s, string) op" where
  "commitGeneratedFiles c repositoryID contract =
     tryS (postFirstAvailable c (applyPOSTCandidates repositoryID ''commits'' ''commits'') (commit_payload contract)
         (Some document_of) None) (\<lambda>r.
       case r of
         Inl err \<Rightarrow>
           if \<not> unavailable err then failS err else commitGeneratedFilesViaContents c repositoryID contract
       | Inr doc \<Rightarrow>
           retS (firstString (gf_sprint c) (case doc of None \<Rightarrow> [] | Some d \<Rightarrow> d)
             [''sha'', ''commit_sha'', ''id'', ''commit.id'', ''commit.sha'']))"

section \<open>Pull requests\<close>

fun object_list :: "json \<Rightarrow> document list option" where
  "object_list JNull = Some []"
| "object_list (JArr vs) = those (map document_of vs)"
| "object_list v = None"

text \<open>The decoding of \<open>[]gitFlamePullRequestList\<close>: the pull requests of a page and the count of all open ones.\<close>

definition pull_request_page :: "json \<Rightarrow> (document list \<times> int) option" where
  "pull_request_page v =
     Option.bind (document_of v) (\<lambda>doc.
     Option.bind (object_list (struct_field doc ''list'')) (\<lambda>prs.
     Option.bind (int_field (struct_field doc ''open_pr_count'')) (\<lambda>n. Some (prs, n))))"

fun pull_request_pages :: "json \<Rightarrow> (document list \<times> int) list option" where
  "pull_request_pages JNull = Some []"
| "pull_request_pages (JArr vs) = those (map pull_request_page vs)"
| "pull_request_pages v = None"

definition pulls_query :: "string \<Rightarrow> int \<Rightarrow> string" where
  "pulls_query baseBranch pageNumber =
     ''branch_by='' @ QueryEscape baseBranch @ ''&form=short&limit=100&page='' @ int_text pageNumber @ ''&state=open''"

definition out_of_fuel :: go_error where
  "out_of_fuel = ErrText ''out of fuel''"

primrec find_pages ::
    "'s gitflame_client \<Rightarrow> string \<Rightarrow> string \<Rightarrow> string \<Rightarrow> nat \<Rightarrow> int \<Rightarrow> ('s, (string \<times> string) option) op" where
  "find_pages c endpoint sourceBranch baseBranch 0 pageNumber = failS out_of_fuel"
| "find_pages c endpoint sourceBranch baseBranch (Suc fuel) pageNumber =
     bindS (getJSON c (endpoint @ ''/pulls?'' @ pulls_query baseBranch pageNumber) [] pull_request_pages) (\<lambda>response.
       case response of
         [] \<Rightarrow> retS None
       | (prs, openCount) # _ \<Rightarrow>
           (case find (\<lambda>pr. firstString (gf_sprint c) pr [''head.ref''] = sourceBranch \<and>
                   firstString (gf_sprint c) pr [''base.ref''] = baseBranch) prs of
              Some pr \<Rightarrow> retS (Some (firstString (gf_sprint c) pr [''id'', ''number''],
                firstString (gf_sprint c) pr [''html_url'', ''url'']))
            | None \<Rightarrow>
                if go_len prs < 100 \<or> pageNumber * 100 \<ge> openCount then retS None
                else find_pages c endpoint sourceBranch baseBranch fuel (pageNumber + 1)))"

definition findOpenPullRequest ::
    "'s gitflame_client \<Rightarrow> nat \<Rightarrow> string \<Rightarrow> string \<Rightarrow> string \<Rightarrow> ('s, (string \<times> string) option) op" where
  "findOpenPullRequest c fuel repositoryID sourceBranch baseBranch =
     (case giteaRepositoryEndpoint repositoryID of
        None \<Rightarrow> retS None
      | Some endpoint \<Rightarrow> find_pages c endpoint sourceBranch baseBranch fuel 1)"

definition pull_request_payload :: "generated_files_contract \<Rightarrow> string \<Rightarrow> json" where
  "pull_request_payload contract baseBranch =
     JObj ([(''from'', JStr (gc_branch_name contract))] @
       (let reviewer = trim_space (gc_reviewer contract) in
        if reviewer \<noteq> [] then [(''reviewers'', JArr [JStr reviewer])] else []) @
       [(''title'', JStr (gc_pr_title contract)), (''to'', JStr baseBranch)])"

definition createPullRequest ::
    "'s gitflame_client \<Rightarrow> nat \<Rightarrow> string \<Rightarrow> generated_files_contract \<Rightarrow> string \<Rightarrow> ('s, string \<times> string) op" where
  "createPullRequest c fuel repositoryID contract baseBranch =
     tryS (postFirstAvailable c (applyPOSTCandidates repositoryID ''pulls'' ''pull-requests'')
         (pull_request_payload contract baseBranch) (Some document_of) None) (\<lambda>r.
       case r of
         Inl err \<Rightarrow>
           if integrationStatus err = 409 then
             bindS (findOpenPullRequest c fuel repositoryID (gc_branch_name contract) baseBranch) (\<lambda>found.
               case found of None \<Rightarrow> failS err | Some pr \<Rightarrow> retS pr)
           else failS err
       | Inr doc \<Rightarrow>
           (let d = (case doc of None \<Rightarrow> [] | Some d \<Rightarrow> d) in
            retS (firstString (gf_sprint c) d [''id'', ''number'', ''iid'', ''pull_request.id''],
              firstString (gf_sprint c) d [''pull_request_url'', ''html_url'', ''web_url'', ''url'',
                ''pull_request.url'', ''pull_request.html_url''])))"

section \<open>Applying a change\<close>

definition apply_result :: "generated_files_contract \<Rightarrow> string \<Rightarrow> string \<times> string \<Rightarrow> gitflame_apply_result" where
  "apply_result contract commitSHA pr =
     \<lparr>apr_branch_name = gc_branch_name contract, apr_commit_sha = commitSHA, apr_pull_request_id = fst pr,
      apr_pull_request_url = snd pr\<rparr>"

definition apply_base_branch :: "repository_metadata \<Rightarrow> generated_files_contract \<Rightarrow> string" where
  "apply_base_branch repository contract =
     (let own = gc_base_branch contract;
          base = (if trim_space own = [] then repo_default_branch repository else own) in
      if trim_space base = [] then ''main'' else base)"

definition ApplyGeneratedFiles ::
    "'s gitflame_client \<Rightarrow> nat \<Rightarrow> repository_metadata \<Rightarrow> generated_files_contract \<Rightarrow> ('s, gitflame_apply_result) op"
  where
  "ApplyGeneratedFiles c fuel repository contract =
     (if trim_space (repo_id repository) = [] then
        failS (IntegrationErr 422 ''missing_repository_id'' ''repository.id is required to apply generated files'')
      else
        let baseBranch = apply_base_branch repository contract in
        bindS (createBranch c (repo_id repository) (gc_branch_name contract) baseBranch) (\<lambda>branchExisted.
        bindS (commitGeneratedFiles c (repo_id repository) contract) (\<lambda>commitSHA.
        bindS (if branchExisted then findOpenPullRequest c fuel (repo_id repository) (gc_branch_name contract) baseBranch
               else retS None) (\<lambda>found.
          case found of
            Some pr \<Rightarrow> retS (apply_result contract commitSHA pr)
          | None \<Rightarrow>
              bindS (createPullRequest c fuel (repo_id repository) contract baseBranch) (\<lambda>pr.
                retS (apply_result contract commitSHA pr))))))"

section \<open>What an application writes\<close>

lemma writes_payloads [simp]:
  "writes_branch branch (JObj [(''new_branch_name'', JStr branch), (''old_ref_name'', JStr ref)])"
  "writes_branch (gc_branch_name contract) (commit_payload contract)"
  "writes_branch branch (JObj [(''branch'', JStr branch), (''content'', x), (''message'', y)])"
  "writes_branch branch (JObj [(''branch'', JStr branch), (''content'', x), (''from_path'', z), (''message'', y), (''sha'', w)])"
  "writes_branch branch (JObj [(''branch'', JStr branch), (''message'', y), (''sha'', w)])"
  "writes_branch (gc_branch_name contract) (pull_request_payload contract base)"
  by (simp_all add: writes_branch_def written_branch_def member_def commit_payload_def pull_request_payload_def Let_def
      List.map_filter_simps)

lemma keeps_createBranch:
  "keeps (all_sent (own_request c branch)) (createBranch (recorded c) repositoryID branch ref)"
  unfolding createBranch_def by (intro keeps_intros keeps_postFirstAvailable writes_payloads)

lemma keeps_fetchFileSHA [keeps_intros]:
  "keeps (all_sent (own_request c branch)) (fetchFileSHA (recorded c) endpoint ref)"
  unfolding fetchFileSHA_def by (intro keeps_intros)

lemma keeps_contents_attempts:
  assumes "\<And>sha. writes_branch branch (payload sha)"
  shows "keeps (all_sent (own_request c branch)) (contents_attempts (recorded c) verb endpoint branch payload n)"
proof (induction n)
  case 0
  show ?case unfolding contents_attempts.simps by (intro keeps_intros)
next
  case (Suc n)
  then show ?case unfolding contents_attempts.simps by (intro keeps_intros keeps_requestJSON assms)
qed

lemma keeps_on_file [keeps_intros]: "keeps P m \<Longrightarrow> keeps P (on_file filePath m)"
  unfolding on_file_def by (intro keeps_intros)

lemma keeps_applyGeneratedFile:
  "keeps (all_sent (own_request c branch)) (applyGeneratedFileViaContents (recorded c) endpoint branch message f)"
  unfolding applyGeneratedFileViaContents_def createGeneratedFileViaContents_def updateGeneratedFileViaContents_def
    deleteGeneratedFileViaContents_def Let_def
  by (intro keeps_intros keeps_postJSON keeps_contents_attempts writes_payloads)

lemma keeps_apply_files:
  "keeps (all_sent (own_request c (gc_branch_name contract))) (apply_files (recorded c) endpoint contract number sha fs)"
  by (induction fs arbitrary: number sha) (auto intro!: keeps_intros keeps_applyGeneratedFile)

lemma keeps_commit:
  "keeps (all_sent (own_request c (gc_branch_name contract))) (commitGeneratedFiles (recorded c) repositoryID contract)"
  unfolding commitGeneratedFiles_def commitGeneratedFilesViaContents_def
  by (intro keeps_intros keeps_postFirstAvailable keeps_apply_files writes_payloads)

lemma keeps_find_pages:
  "keeps (all_sent (own_request c branch)) (find_pages (recorded c) endpoint source base fuel page)"
  by (induction fuel arbitrary: page) (auto intro!: keeps_intros)

lemma keeps_findOpenPullRequest [keeps_intros]:
  "keeps (all_sent (own_request c branch)) (findOpenPullRequest (recorded c) fuel repositoryID source base)"
  unfolding findOpenPullRequest_def by (intro keeps_intros keeps_find_pages)

lemma keeps_createPullRequest:
  "keeps (all_sent (own_request c (gc_branch_name contract)))
     (createPullRequest (recorded c) fuel repositoryID contract base)"
  unfolding createPullRequest_def Let_def
  by (intro keeps_intros keeps_postFirstAvailable writes_payloads)

text \<open>C19: Whatever GitFlame answers, applying a change sends every request to the configured server with the
  configured token, and each request that is not a read names the change's own branch as the one it
  writes: no other branch is ever written.\<close>

theorem apply_writes_own_branch:
  "list_all (own_request c (gc_branch_name contract))
     (snd (snd (ApplyGeneratedFiles (recorded c) fuel repository contract (s, []))))"
proof -
  have "keeps (all_sent (own_request c (gc_branch_name contract))) (ApplyGeneratedFiles (recorded c) fuel repository contract)"
    unfolding ApplyGeneratedFiles_def Let_def
    by (intro keeps_intros keeps_createBranch keeps_commit keeps_createPullRequest)
  from keepsD [OF this, of "(s, [])"] show ?thesis by (simp add: all_sent_def)
qed

section \<open>The search ends\<close>

text \<open>Every page that the server can send counts at most \<open>n\<close> open pull requests.\<close>

definition open_count_bounded :: "'s gitflame_client \<Rightarrow> int \<Rightarrow> bool" where
  "open_count_bounded c n \<longleftrightarrow>
     (\<forall>body. case Option.bind (gf_unmarshal c body) pull_request_pages of
        Some ((prs, openCount) # pages) \<Rightarrow> openCount \<le> n | _ \<Rightarrow> True)"

lemma getJSON_pages_bounded:
  assumes "open_count_bounded c n"
    and "getJSON c endpoint ref pull_request_pages s = (Inr ((prs, openCount) # pages), s')"
  shows "openCount \<le> n"
proof -
  obtain body where "Option.bind (gf_unmarshal c body) pull_request_pages = Some ((prs, openCount) # pages)"
    using assms(2) by (auto simp: getJSON_def bindS_Inr_iff split: option.splits)
  with assms(1) [unfolded open_count_bounded_def, THEN spec, of body] show ?thesis by simp
qed

lemma find_pages_enough:
  assumes bounded: "open_count_bounded c n"
  shows "1 \<le> fuel \<Longrightarrow> n \<le> (pageNumber - 1 + int fuel) * 100 \<Longrightarrow>
    find_pages c endpoint source base (fuel + k) pageNumber s = find_pages c endpoint source base fuel pageNumber s"
proof (induction fuel arbitrary: pageNumber s)
  case (Suc fuel)
  let ?get = "getJSON c (endpoint @ ''/pulls?'' @ pulls_query base pageNumber) [] pull_request_pages"
  have rest: "find_pages c endpoint source base (fuel + k) (pageNumber + 1) s' =
      find_pages c endpoint source base fuel (pageNumber + 1) s'"
    if "?get s = (Inr ((prs, openCount) # pages), s')" "\<not> pageNumber * 100 \<ge> openCount" for prs openCount pages s'
  proof -
    have "openCount \<le> n" by (rule getJSON_pages_bounded [OF bounded that(1)])
    then have "n > pageNumber * 100" using that(2) by simp
    with Suc.prems(2) have "1 \<le> fuel" by (cases fuel) simp_all
    then show ?thesis using Suc.IH [of "pageNumber + 1" s'] Suc.prems(2) by (simp add: algebra_simps)
  qed
  obtain r s' where get: "?get s = (r, s')" by fastforce
  show ?case
  proof (cases r)
    case (Inl e)
    with get show ?thesis by (simp add: bindS_def)
  next
    case (Inr response)
    show ?thesis
    proof (cases response)
      case Nil
      with get Inr show ?thesis by (simp add: bindS_def)
    next
      case (Cons page pages)
      obtain prs openCount where page: "page = (prs, openCount)" by fastforce
      with get Inr Cons rest show ?thesis by (simp add: bindS_def split: option.split)
    qed
  qed
qed simp

text \<open>The search for an open pull request ends: while the server counts at most \<open>n\<close> open pull requests, it reads
  at most one page per hundred of them (and always one), so that any more fuel changes nothing.\<close>

theorem pull_request_search_ends:
  assumes "open_count_bounded c n"
  shows "findOpenPullRequest c (nat (max 1 ((n + 99) div 100)) + k) repositoryID source base s =
     findOpenPullRequest c (nat (max 1 ((n + 99) div 100))) repositoryID source base s"
proof -
  let ?fuel = "nat (max 1 ((n + 99) div 100))"
  have "1 \<le> ?fuel" by simp
  moreover have "n \<le> ((n + 99) div 100) * 100" by presburger
  moreover have "(n + 99) div 100 * 100 \<le> int ?fuel * 100" by (rule mult_right_mono) simp_all
  ultimately have "n \<le> (1 - 1 + int ?fuel) * 100" by (simp del: int_nat_eq)
  then show ?thesis
    using \<open>1 \<le> ?fuel\<close> find_pages_enough [OF assms, of ?fuel 1] by (simp add: findOpenPullRequest_def split: option.split)
qed

definition sample_client :: "http_reply \<Rightarrow> json option \<Rightarrow> nat gitflame_client" where
  "sample_client reply doc =
     \<lparr>gf_baseURL = ''https://gitflame'', gf_apiKey = ''key'', gf_request_error = (\<lambda>u. None),
      gf_send = (\<lambda>rq n. (reply, Suc n)), gf_unmarshal = (\<lambda>b. doc), gf_decode = (\<lambda>b. doc), gf_sprint = (\<lambda>v. ''?'')\<rparr>"

definition sample_pages :: json where
  "sample_pages = JArr [JObj [(''list'', JArr (replicate 100 (JObj []))), (''open_pr_count'', JNum 150)]]"

lemma pull_request_search_ends_witness:
  "findOpenPullRequest (sample_client (Some (200, [])) (Some sample_pages)) (2 + 5) ''team/app'' ''work'' ''main'' 0 =
   findOpenPullRequest (sample_client (Some (200, [])) (Some sample_pages)) 2 ''team/app'' ''work'' ''main'' 0"
proof -
  have "case pull_request_pages sample_pages of Some ((prs, openCount) # pages) \<Rightarrow> openCount \<le> 150 | _ \<Rightarrow> True"
    by code_simp
  then have "open_count_bounded (sample_client (Some (200, [])) (Some sample_pages)) 150"
    by (simp add: open_count_bounded_def sample_client_def)
  from pull_request_search_ends [OF this, of 5] show ?thesis by simp
qed

end
