(* ===== verification/Credentials.thy ===== *)
theory Credentials imports Go_Strings begin

text \<open>
  Credentials at rest and session tokens, backend/internal/security/credentials.go. AES-GCM, \<open>sha256\<close> and the
  random source are parameters; base64, of which the code uses four variants, is written out.
\<close>

section \<open>Base64\<close>

text \<open>The digits of an encoding: three bytes are four digits of six bits.\<close>

fun to_digits :: "string \<Rightarrow> nat list" where
  "to_digits [] = []"
| "to_digits [a] = [byte_of a div 4, byte_of a mod 4 * 16]"
| "to_digits [a, b] = [byte_of a div 4, byte_of a mod 4 * 16 + byte_of b div 16, byte_of b mod 16 * 4]"
| "to_digits (a # b # c # rest) =
     [byte_of a div 4, byte_of a mod 4 * 16 + byte_of b div 16, byte_of b mod 16 * 4 + byte_of c div 64,
      byte_of c mod 64] @ to_digits rest"

text \<open>Decoding: unused low bits of the last digit are ignored, a single last digit is an error.\<close>

fun of_digits :: "nat list \<Rightarrow> string option" where
  "of_digits [] = Some []"
| "of_digits [x] = None"
| "of_digits [x, y] = Some [char_of (x * 4 + y div 16)]"
| "of_digits [x, y, z] = Some [char_of (x * 4 + y div 16), char_of (y mod 16 * 16 + z div 4)]"
| "of_digits (x # y # z # w # rest) =
     map_option (\<lambda>s. [char_of (x * 4 + y div 16), char_of (y mod 16 * 16 + z div 4), char_of (z mod 4 * 64 + w)] @ s)
       (of_digits rest)"

text \<open>The alphabets, \<open>url\<close> with \<open>-\<close> and \<open>_\<close> in place of \<open>+\<close> and \<open>/\<close>.\<close>

definition digit_text :: "bool \<Rightarrow> nat \<Rightarrow> char" where
  "digit_text url d =
     (if d < 26 then char_of (65 + d) else if d < 52 then char_of (71 + d) else if d < 62 then char_of (d - 4)
      else if d = 62 then (if url then CHR ''-'' else CHR ''+'') else (if url then CHR ''_'' else CHR ''/''))"

definition digit_value :: "bool \<Rightarrow> char \<Rightarrow> nat option" where
  "digit_value url c =
     (let n = byte_of c in
      if 65 \<le> n \<and> n \<le> 90 then Some (n - 65)
      else if 97 \<le> n \<and> n \<le> 122 then Some (n - 71)
      else if 48 \<le> n \<and> n \<le> 57 then Some (n + 4)
      else if c = (if url then CHR ''-'' else CHR ''+'') then Some 62
      else if c = (if url then CHR ''_'' else CHR ''/'') then Some 63
      else None)"

definition RawURL_encode :: "string \<Rightarrow> string" where
  "RawURL_encode s = map (digit_text True) (to_digits s)"

text \<open>Line breaks are skipped.\<close>

definition without_breaks :: "string \<Rightarrow> string" where
  "without_breaks s = filter (\<lambda>c. c \<noteq> CHR 0x0A \<and> c \<noteq> CHR 0x0D) s"

definition raw_decode :: "bool \<Rightarrow> string \<Rightarrow> string option" where
  "raw_decode url s = Option.bind (those (map (digit_value url) (without_breaks s))) of_digits"

text \<open>With padding, the length is a multiple of four and the last group may end in one or two \<open>=\<close>.\<close>

definition unpadded :: "string \<Rightarrow> string" where
  "unpadded s = (if has_suffix s ''=='' then take (length s - 2) s else if has_suffix s ''='' then butlast s else s)"

definition std_decode :: "string \<Rightarrow> string option" where
  "std_decode s = (let t = without_breaks s in if length t mod 4 \<noteq> 0 then None else raw_decode False (unpadded t))"

lemma digit_value_text: "d < 64 \<Longrightarrow> digit_value url (digit_text url d) = Some d"
  by (auto simp: digit_value_def digit_text_def byte_of_def Let_def)

lemma digit_text_no_break: "d < 64 \<Longrightarrow> digit_text url d \<noteq> CHR 0x0A \<and> digit_text url d \<noteq> CHR 0x0D"
  by (auto simp: digit_text_def byte_of_def dest!: arg_cong [where f = byte_of])

lemma to_digits_less: "d \<in> set (to_digits s) \<Longrightarrow> d < 64"
proof (induction s rule: to_digits.induct)
  case (2 a)
  then show ?case using byte_of_less [of a] by auto
next
  case (3 a b)
  then show ?case using byte_of_less [of a] byte_of_less [of b] by auto
next
  case (4 a b c rest)
  then show ?case using byte_of_less [of a] byte_of_less [of b] byte_of_less [of c] by auto
qed simp

lemma char_of_byte [simp]: "char_of (byte_of c) = c"
  by (simp add: byte_of_def)

lemma bytes_from_digits:
  "byte_of a div 4 * 4 + (byte_of a mod 4 * 16 + k) div 16 = byte_of a" if "k < 16" for a k
  using that by simp

lemma of_digits_to_digits: "of_digits (to_digits s) = Some s"
proof (induction s rule: to_digits.induct)
  case (2 a)
  have "byte_of a div 4 * 4 + byte_of a mod 4 * 16 div 16 = byte_of a" by simp
  then show ?case by simp
next
  case (3 a b)
  have "byte_of b div 16 < 16" using byte_of_less [of b] by simp
  then have "byte_of a div 4 * 4 + (byte_of a mod 4 * 16 + byte_of b div 16) div 16 = byte_of a"
    "(byte_of a mod 4 * 16 + byte_of b div 16) mod 16 * 16 + byte_of b mod 16 * 4 div 4 = byte_of b"
    by simp_all
  then show ?case by simp
next
  case (4 a b c rest)
  have b: "byte_of b div 16 < 16" and c: "byte_of c div 64 < 4" using byte_of_less [of b] byte_of_less [of c] by simp_all
  then have "byte_of a div 4 * 4 + (byte_of a mod 4 * 16 + byte_of b div 16) div 16 = byte_of a"
    "(byte_of a mod 4 * 16 + byte_of b div 16) mod 16 * 16 + (byte_of b mod 16 * 4 + byte_of c div 64) div 4 = byte_of b"
    "(byte_of b mod 16 * 4 + byte_of c div 64) mod 4 * 64 + byte_of c mod 64 = byte_of c"
    by simp_all
  with 4 show ?case by simp
qed simp

lemma those_map_Some: "(\<And>x. x \<in> set xs \<Longrightarrow> f x = Some (g x)) \<Longrightarrow> those (map f xs) = Some (map g xs)"
  by (induction xs) auto

lemma RawURL_roundtrip: "raw_decode True (RawURL_encode s) = Some s"
proof -
  have "without_breaks (RawURL_encode s) = RawURL_encode s"
    unfolding without_breaks_def RawURL_encode_def
    by (auto simp: filter_id_conv dest!: to_digits_less digit_text_no_break [where url = True])
  moreover have "those (map (digit_value True) (RawURL_encode s)) = Some (to_digits s)"
    unfolding RawURL_encode_def list.map_comp
    by (subst those_map_Some [where g = "\<lambda>d. d"]) (auto simp: digit_value_text dest: to_digits_less)
  ultimately show ?thesis by (simp add: raw_decode_def of_digits_to_digits)
qed

section \<open>Keys\<close>

definition validAESKeySize :: "int \<Rightarrow> bool" where
  "validAESKeySize n \<longleftrightarrow> n = 16 \<or> n = 24 \<or> n = 32"

text \<open>The first of the encodings that gives a key of a valid size, at last the text itself.\<close>

definition decodeKey :: "string \<Rightarrow> string result" where
  "decodeKey secret0 =
     (let secret = trim_space secret0 in
      if secret = [] then Inl (ErrText ''credential key is empty'')
      else
        case find (\<lambda>d. validAESKeySize (go_len d))
            (List.map_filter (\<lambda>x. x) [std_decode secret, raw_decode False secret, raw_decode True secret, hex_decode secret]
              @ [secret]) of
          Some k \<Rightarrow> Inr k
        | None \<Rightarrow> Inl (ErrText ''credential key must decode to 16, 24, or 32 bytes''))"

section \<open>Encryption\<close>

text \<open>An authenticated cipher: \<open>aead_seal\<close> of key, nonce, plaintext and associated data, and \<open>aead_open\<close>.\<close>

record aead =
  aead_nonce_size :: nat
  aead_seal :: "string \<Rightarrow> string \<Rightarrow> string \<Rightarrow> string \<Rightarrow> string"
  aead_open :: "string \<Rightarrow> string \<Rightarrow> string \<Rightarrow> string \<Rightarrow> string option"

record credential_cipher =
  cc_key :: string
  cc_key_version :: int

definition NewCredentialCipher :: "string \<Rightarrow> int \<Rightarrow> credential_cipher result" where
  "NewCredentialCipher secret keyVersion =
     (case decodeKey secret of
        Inl err \<Rightarrow> Inl err
      | Inr key \<Rightarrow>
          if keyVersion < 1 then Inl (ErrText ''credential key version must be positive'')
          else Inr \<lparr>cc_key = key, cc_key_version = keyVersion\<rparr>)"

definition unconfigured_cipher :: go_error where
  "unconfigured_cipher = ErrText ''credential cipher is not configured''"

text \<open>\<open>random\<close> gives the bytes that the random source would yield for a length, or its error.\<close>

definition Encrypt ::
    "aead \<Rightarrow> (nat \<Rightarrow> string result) \<Rightarrow> credential_cipher option \<Rightarrow> string \<Rightarrow> string \<Rightarrow> (string \<times> string \<times> int) result" where
  "Encrypt gcm random cipher plaintext aad =
     (case cipher of
        None \<Rightarrow> Inl unconfigured_cipher
      | Some c \<Rightarrow>
          (case random (aead_nonce_size gcm) of
             Inl err \<Rightarrow> Inl err
           | Inr nonce \<Rightarrow> Inr (aead_seal gcm (cc_key c) nonce plaintext aad, nonce, cc_key_version c)))"

definition Decrypt :: "aead \<Rightarrow> credential_cipher option \<Rightarrow> string \<Rightarrow> string \<Rightarrow> int \<Rightarrow> string \<Rightarrow> string result" where
  "Decrypt gcm cipher ciphertext nonce keyVersion aad =
     (case cipher of
        None \<Rightarrow> Inl unconfigured_cipher
      | Some c \<Rightarrow>
          if keyVersion \<noteq> cc_key_version c
          then Inl (ErrText (''unsupported credential key version '' @ int_text keyVersion))
          else
            (case aead_open gcm (cc_key c) nonce ciphertext aad of
               None \<Rightarrow> Inl (ErrText ''cipher: message authentication failed'')
             | Some plaintext \<Rightarrow> Inr plaintext))"

section \<open>Session tokens\<close>

definition sessionTokenBytes :: nat where
  "sessionTokenBytes = 32"

definition SessionTokenHash :: "(string \<Rightarrow> string) \<Rightarrow> string \<Rightarrow> string" where
  "SessionTokenHash sha256 raw = sha256 raw"

definition GenerateSessionToken :: "(string \<Rightarrow> string) \<Rightarrow> (nat \<Rightarrow> string result) \<Rightarrow> (string \<times> string) result" where
  "GenerateSessionToken sha256 random =
     (case random sessionTokenBytes of
        Inl err \<Rightarrow> Inl err
      | Inr raw \<Rightarrow> Inr (RawURL_encode raw, SessionTokenHash sha256 raw))"

definition SessionTokenHashFromCookie :: "(string \<Rightarrow> string) \<Rightarrow> string \<Rightarrow> string result" where
  "SessionTokenHashFromCookie sha256 v =
     (case raw_decode True v of
        None \<Rightarrow> Inl (ErrText ''illegal base64 data'')
      | Some raw \<Rightarrow>
          if length raw \<noteq> sessionTokenBytes then Inl (ErrText ''invalid session token length'')
          else Inr (SessionTokenHash sha256 raw))"

definition TokenLast4 :: "string \<Rightarrow> string" where
  "TokenLast4 token = (let t = trim_space token in if length t \<le> 4 then t else drop (length t - 4) t)"

section \<open>Properties\<close>

text \<open>What is relied on of AES-GCM and of the random source.\<close>

definition opens_what_it_seals :: "aead \<Rightarrow> bool" where
  "opens_what_it_seals gcm \<longleftrightarrow>
     (\<forall>key nonce plaintext aad. aead_open gcm key nonce (aead_seal gcm key nonce plaintext aad) aad = Some plaintext)"

definition fills_exactly :: "(nat \<Rightarrow> string result) \<Rightarrow> bool" where
  "fills_exactly random \<longleftrightarrow> (\<forall>n bytes. random n = Inr bytes \<longrightarrow> length bytes = n)"

lemma Decrypt_Encrypt:
  assumes "opens_what_it_seals gcm" and "Encrypt gcm random cipher plaintext aad = Inr (ciphertext, nonce, keyVersion)"
  shows "Decrypt gcm cipher ciphertext nonce keyVersion aad = Inr plaintext"
  using assms by (auto simp: Encrypt_def Decrypt_def opens_what_it_seals_def split: option.splits sum.splits)

text \<open>A session token survives its way through the cookie: the value that is generated for the cookie hashes to
  the hash that is stored for the session.\<close>

theorem session_token_roundtrip:
  assumes "fills_exactly random" and "GenerateSessionToken sha256 random = Inr (cookie, tokenHash)"
  shows "SessionTokenHashFromCookie sha256 cookie = Inr tokenHash"
  using assms
  by (auto simp: GenerateSessionToken_def SessionTokenHashFromCookie_def RawURL_roundtrip fills_exactly_def
      split: sum.splits)

definition zero_bytes :: "nat \<Rightarrow> string result" where
  "zero_bytes n = Inr (replicate n CHR 0x00)"

lemma session_token_roundtrip_witness:
  "SessionTokenHashFromCookie (\<lambda>s. s) (RawURL_encode (replicate 32 CHR 0x00)) = Inr (replicate 32 CHR 0x00)"
  by (rule session_token_roundtrip [where random = zero_bytes])
    (simp_all add: fills_exactly_def zero_bytes_def GenerateSessionToken_def SessionTokenHash_def sessionTokenBytes_def)

text \<open>A key that is accepted has a size that AES takes.\<close>

lemma decodeKey_valid: "decodeKey secret = Inr key \<Longrightarrow> validAESKeySize (go_len key)"
  by (auto simp: decodeKey_def Let_def find_Some_iff split: if_splits option.splits)

end
