(* ===== verification/Access.thy ===== *)
theory Access imports Index_Sync GitFlame_Apply Credentials begin

text \<open>
  Who may do what with which token, backend/internal/httpapi/auth.go: the session behind a cookie, sessions made
  from a GitFlame token, and the GitFlame client made from the stored, encrypted token of a connection. The
  clock, the random source, the hash, the cipher and the outside world are parameters. Responses and cookies
  are written by handlers, which are not part of this theory.
\<close>

section \<open>The backend\<close>

text \<open>\<open>GitFlameSource\<close>, with the interfaces that the code tests for.\<close>

record 's gitflame_source =
  gs_apply :: "repository_metadata \<Rightarrow> generated_files_contract \<Rightarrow> ('s, gitflame_apply_result) op"
  gs_reader :: "'s repository_reader option"
  gs_current_user :: "('s, gitflame_profile) op option"

text \<open>The fields of \<open>Server\<close> that access depends on. \<open>bk_transport\<close> is a client but for its base URL and token;
  the last fields are what the client's operations take besides.\<close>

record 's backend =
  bk_cipher :: "credential_cipher option"
  bk_base_url :: string
  bk_static :: "'s gitflame_source option"
  bk_session_ttl :: int
  bk_gcm :: aead
  bk_sha256 :: "string \<Rightarrow> string"
  bk_transport :: "'s gitflame_client"
  bk_unmarshal :: unmarshal
  bk_order :: "nat list \<Rightarrow> nat list"
  bk_fuel :: nat
  bk_parse_url :: "string \<Rightarrow> absolute_url option"

text \<open>What a request finds: its cookie, the clock readings and identifiers it draws, the random bytes, and the order
  in which a map is visited.\<close>

record request_env =
  re_cookie :: "string option"
  re_now :: "nat \<Rightarrow> gotime"
  re_id :: "nat \<Rightarrow> string"
  re_random :: "nat \<Rightarrow> nat \<Rightarrow> string result"
  re_order :: "string list"

text \<open>The client for a token; \<open>None\<close> when no base URL is configured.\<close>

definition user_client :: "'s backend \<Rightarrow> string \<Rightarrow> 's gitflame_client option" where
  "user_client bk token =
     map_option (\<lambda>base. (bk_transport bk)\<lparr>gf_baseURL := base, gf_apiKey := token\<rparr>) (NewGitFlameClient (bk_base_url bk))"

definition client_source :: "'s backend \<Rightarrow> 's gitflame_client \<Rightarrow> 's gitflame_source" where
  "client_source bk c =
     \<lparr>gs_apply = ApplyGeneratedFiles c (bk_fuel bk), gs_reader = Some (gitflame_reader c (bk_unmarshal bk) (bk_order bk)),
      gs_current_user = Some (CurrentUser c)\<rparr>"

definition unprocessable :: "string \<Rightarrow> string \<Rightarrow> go_error" where
  "unprocessable code detail = IntegrationErr 422 code detail"

definition unauthorized :: "string \<Rightarrow> string \<Rightarrow> go_error" where
  "unauthorized code detail = IntegrationErr 401 code detail"

definition session_required :: go_error where
  "session_required = unauthorized ''unauthorized'' ''valid application session cookie is required''"

definition reauth_required :: "string \<Rightarrow> go_error" where
  "reauth_required detail = unauthorized ''gitflame_reauth_required'' detail"

definition client_unavailable :: "string \<Rightarrow> go_error" where
  "client_unavailable detail = IntegrationErr 503 ''gitflame_client_unavailable'' detail"

definition credentialAAD :: "string \<Rightarrow> string \<Rightarrow> string" where
  "credentialAAD userID repositoryID = userID @ '':'' @ repositoryID"

section \<open>Sessions\<close>

definition authenticate :: "'s backend \<Rightarrow> request_env \<Rightarrow> ('s sync_state, app_session) op" where
  "authenticate bk env =
     (case re_cookie env of
        None \<Rightarrow> failS ErrNotFound
      | Some v \<Rightarrow>
          (case SessionTokenHashFromCookie (bk_sha256 bk) v of
             Inl err \<Rightarrow> failS ErrNotFound
           | Inr tokenHash \<Rightarrow> on_table (AppSessionByTokenHash (re_now env 0) (re_now env 1) tokenHash)))"

definition validateGitFlameToken :: "'s backend \<Rightarrow> string \<Rightarrow> ('s sync_state, gitflame_profile) op" where
  "validateGitFlameToken bk accessToken =
     (case user_client bk accessToken of
        Some c \<Rightarrow> on_world (CurrentUser c)
      | None \<Rightarrow>
          (case Option.bind (bk_static bk) gs_current_user of
             Some current \<Rightarrow> on_world current
           | None \<Rightarrow> failS (client_unavailable ''GITFLAME_BASE_URL is required to validate GitFlame tokens'')))"

definition token_required :: "string \<Rightarrow> ('s, unit) op" where
  "token_required accessToken =
     (if trim_space accessToken = [] then failS (unprocessable ''missing_access_token'' ''access_token is required'')
      else retS ())"

definition new_app_user :: "gitflame_profile \<Rightarrow> app_user" where
  "new_app_user profile =
     \<lparr>user_id = [], user_gitflame_user_id = gp_id profile, user_username = gp_username profile, user_created_at = 0,
      user_updated_at = 0\<rparr>"

definition createSessionFromGitFlameToken ::
    "'s backend \<Rightarrow> request_env \<Rightarrow> string \<Rightarrow> ('s sync_state, app_session \<times> string \<times> bool) op" where
  "createSessionFromGitFlameToken bk env accessToken =
     bindS (token_required accessToken) (\<lambda>_.
     bindS (validateGitFlameToken bk accessToken) (\<lambda>profile.
     bindS (on_table (UpsertAppUser (re_now env 2) (re_id env 0) (new_app_user profile))) (\<lambda>user.
     bindS (liftR (GenerateSessionToken (bk_sha256 bk) (re_random env 0))) (\<lambda>(cookieValue, tokenHash).
     bindS (on_table (CreateAppSession (re_now env 4) (re_id env 1) (user_id user) tokenHash
         (re_now env 3 + bk_session_ttl bk))) (\<lambda>session.
       retS (session, cookieValue, True))))))"

section \<open>Connections\<close>

record connection_request =
  cq_access_token :: string
  cq_repository :: repository_metadata
  cq_repo_url :: string
  cq_default_branch :: string
  cq_scopes :: "string list"
  cq_token_expires_at :: "gotime option"

definition resolveConnectionRepository ::
    "'s backend \<Rightarrow> string \<Rightarrow> string \<Rightarrow> ('s sync_state, resolved_repository) op" where
  "resolveConnectionRepository bk accessToken repoURL =
     (case user_client bk accessToken of
        Some c \<Rightarrow> on_world (ResolveRepository c (bk_parse_url bk) repoURL)
      | None \<Rightarrow>
          (case parseGitFlameRepositoryURL (bk_parse_url bk) repoURL of
             Inl err \<Rightarrow> failS (unprocessable ''invalid_repo_url'' (error_text err))
           | Inr parsed \<Rightarrow> retS
               \<lparr>rr_metadata = \<lparr>repo_id = pu_path parsed, repo_name = path_Base (pu_path parsed),
                  repo_default_branch = ''main'', repo_commit_sha = [], repo_web_url = pu_web_url parsed\<rparr>,
                rr_repo_url = pu_web_url parsed\<rparr>))"

text \<open>The repository of a request, resolved when it has no identifier.\<close>

definition requested_repository ::
    "'s backend \<Rightarrow> connection_request \<Rightarrow> ('s sync_state, repository_metadata \<times> string) op" where
  "requested_repository bk req =
     (if trim_space (repo_id (cq_repository req)) = []
      then bindS (resolveConnectionRepository bk (cq_access_token req) (cq_repo_url req)) (\<lambda>resolved.
             retS (rr_metadata resolved, rr_repo_url resolved))
      else retS (cq_repository req, cq_repo_url req))"

definition connection_branch :: "connection_request \<Rightarrow> repository_metadata \<Rightarrow> string" where
  "connection_branch req metadata =
     (let b = (if cq_default_branch req = [] then repo_default_branch metadata else cq_default_branch req) in
      if b = [] then ''main'' else b)"

definition sealed_connection ::
    "request_env \<Rightarrow> app_user \<Rightarrow> connection_request \<Rightarrow> string \<Rightarrow> repository_metadata \<Rightarrow> string \<Rightarrow> string \<times> string \<times> int \<Rightarrow>
       gitflame_connection" where
  "sealed_connection env user req existingID metadata repoURL material =
     (let branch = connection_branch req metadata in
      \<lparr>con_id = existingID, con_user_id = user_id user, con_repository = metadata\<lparr>repo_default_branch := branch\<rparr>,
       con_repo_url = (if trim_space repoURL = [] then repo_web_url metadata else repoURL), con_default_branch = branch,
       con_access_token_encrypted = [],
       con_token_material = \<lparr>tok_ciphertext = fst material, tok_nonce = fst (snd material), tok_key_version = snd (snd material)\<rparr>,
       con_token_last4 = TokenLast4 (cq_access_token req), con_token_status = ''active'', con_scopes = cq_scopes req,
       con_token_expires_at = cq_token_expires_at req, con_last_validated_at = Some (re_now env 5),
       con_last_used_at = None, con_revoked_at = None, con_created_at = 0, con_updated_at = 0\<rparr>)"

definition connectionFromRequest ::
    "'s backend \<Rightarrow> request_env \<Rightarrow> app_user \<Rightarrow> connection_request \<Rightarrow> string \<Rightarrow> ('s sync_state, gitflame_connection) op"
  where
  "connectionFromRequest bk env user req existingID =
     (if bk_cipher bk = None then
        failS (IntegrationErr 503 ''credential_cipher_unconfigured''
          ''GITFLAME_CREDENTIAL_KEY is required to store GitFlame tokens'')
      else
        bindS (token_required (cq_access_token req)) (\<lambda>_.
        bindS (validateGitFlameToken bk (cq_access_token req)) (\<lambda>profile.
          if gp_id profile \<noteq> [] \<and> user_gitflame_user_id user \<noteq> [] \<and> gp_id profile \<noteq> user_gitflame_user_id user then
            failS (IntegrationErr 403 ''gitflame_user_mismatch'' ''GitFlame token belongs to another user'')
          else
            bindS (requested_repository bk req) (\<lambda>(metadata, repoURL).
              if trim_space (repo_id metadata) = [] then
                failS (unprocessable ''missing_repository_id'' ''repository.id or repo_url is required'')
              else
                bindS (liftR (Encrypt (bk_gcm bk) (re_random env 1) (bk_cipher bk) (cq_access_token req)
                    (credentialAAD (user_id user) (repo_id metadata)))) (\<lambda>material.
                  retS (sealed_connection env user req existingID metadata repoURL material))))))"

section \<open>Clients of connections\<close>

definition active_connection :: "gotime \<Rightarrow> gitflame_connection \<Rightarrow> go_error option" where
  "active_connection now connection =
     (if con_token_status connection \<noteq> [] \<and> con_token_status connection \<noteq> ''active''
      then Some (unauthorized ''gitflame_token_inactive'' ''GitFlame connection token is not active'')
      else if (case con_token_expires_at connection of None \<Rightarrow> False | Some t \<Rightarrow> \<not> t > now)
      then Some (unauthorized ''gitflame_token_expired'' ''GitFlame connection token is expired'')
      else None)"

definition connection_token :: "'s backend \<Rightarrow> string \<Rightarrow> gitflame_connection \<Rightarrow> string result" where
  "connection_token bk userID connection =
     (let material = con_token_material connection in
      if tok_ciphertext material = [] \<or> tok_nonce material = [] \<or> tok_key_version material = 0
      then Inl (reauth_required ''GitFlame connection must be reconnected before use'')
      else
        (case Decrypt (bk_gcm bk) (bk_cipher bk) (tok_ciphertext material) (tok_nonce material) (tok_key_version material)
            (credentialAAD userID (repo_id (con_repository connection))) of
           Inl err \<Rightarrow> Inl (reauth_required ''GitFlame connection token could not be decrypted'')
         | Inr token \<Rightarrow> Inr token))"

definition unconfigured :: "'s backend \<Rightarrow> bool" where
  "unconfigured bk \<longleftrightarrow> bk_cipher bk = None \<or> trim_space (bk_base_url bk) = []"

definition gitFlameSourceForRepository ::
    "'s backend \<Rightarrow> request_env \<Rightarrow> string \<Rightarrow>
       ('s sync_state, 's gitflame_source option \<times> gitflame_connection option) op" where
  "gitFlameSourceForRepository bk env repositoryID =
     (if unconfigured bk then retS (bk_static bk, None)
      else
        tryS (authenticate bk env) (\<lambda>r.
          case r of
            Inl err \<Rightarrow> failS session_required
          | Inr session \<Rightarrow>
              tryS (on_table (UserGitFlameConnectionByRepository (re_order env) (user_id (aps_user session)) repositoryID)) (\<lambda>r.
                case r of
                  Inl err \<Rightarrow>
                    failS (if err = ErrNotFound
                           then unauthorized ''gitflame_connection_required'' ''GitFlame connection for this repository is required''
                           else err)
                | Inr connection \<Rightarrow>
                    (case active_connection (re_now env 2) connection of
                       Some err \<Rightarrow> failS err
                     | None \<Rightarrow>
                         bindS (liftR (connection_token bk (user_id (aps_user session)) connection)) (\<lambda>token.
                           retS (map_option (client_source bk) (user_client bk token), Some connection))))))"

definition gitFlameReaderForRepository ::
    "'s backend \<Rightarrow> request_env \<Rightarrow> string \<Rightarrow>
       ('s sync_state, 's repository_reader \<times> gitflame_connection option) op" where
  "gitFlameReaderForRepository bk env repositoryID =
     bindS (gitFlameSourceForRepository bk env repositoryID) (\<lambda>(source, connection).
       case Option.bind source gs_reader of
         None \<Rightarrow> failS (client_unavailable ''GitFlame repository client is not configured'')
       | Some reader \<Rightarrow> retS (reader, connection))"

definition gitFlameReaderFromStoredConnection ::
    "'s backend \<Rightarrow> gotime \<Rightarrow> gitflame_connection option \<Rightarrow> 's repository_reader result" where
  "gitFlameReaderFromStoredConnection bk now connectionOption =
     (case connectionOption of
        None \<Rightarrow> Inl ErrNotFound
      | Some connection \<Rightarrow>
          if con_revoked_at connection \<noteq> None
          then Inl (unauthorized ''gitflame_token_inactive'' ''GitFlame connection token is not active'')
          else
            (case active_connection now connection of
               Some err \<Rightarrow> Inl err
             | None \<Rightarrow>
                 if unconfigured bk then
                   (case Option.bind (bk_static bk) gs_reader of
                      None \<Rightarrow> Inl (client_unavailable ''GitFlame repository client is not configured'')
                    | Some reader \<Rightarrow> Inr reader)
                 else
                   (case connection_token bk (con_user_id connection) connection of
                      Inl err \<Rightarrow> Inl err
                    | Inr token \<Rightarrow>
                        (case Option.bind (map_option (client_source bk) (user_client bk token)) gs_reader of
                           None \<Rightarrow> Inl (client_unavailable ''GitFlame repository client is not configured'')
                         | Some reader \<Rightarrow> Inr reader))))"

definition gitFlameReaderForConnection ::
    "'s backend \<Rightarrow> request_env \<Rightarrow> string \<Rightarrow> ('s sync_state, 's repository_reader \<times> gitflame_connection) op" where
  "gitFlameReaderForConnection bk env connectionID =
     tryS (authenticate bk env) (\<lambda>r.
       case r of
         Inl err \<Rightarrow> failS session_required
       | Inr session \<Rightarrow>
           tryS (on_table (UserGitFlameConnection (user_id (aps_user session)) connectionID)) (\<lambda>r.
             case r of
               Inl err \<Rightarrow>
                 failS (if err = ErrNotFound
                        then IntegrationErr 404 ''connection_not_found'' ''GitFlame connection was not found'' else err)
             | Inr connection \<Rightarrow>
                 bindS (liftR (gitFlameReaderFromStoredConnection bk (re_now env 2) (Some connection))) (\<lambda>reader.
                   retS (reader, connection))))"

section \<open>Properties\<close>

lemma try_fail_Inr:
  "tryS m (case_sum (\<lambda>e. failS (g e)) f) s = (Inr b, s'') \<longleftrightarrow> (\<exists>a s'. m s = (Inr a, s') \<and> f a s' = (Inr b, s''))"
  by (cases "m s"; cases "fst (m s)") (simp_all add: tryS_def)

lemma on_table_Inr: "on_table m s = (Inr a, s') \<longleftrightarrow> (\<exists>st. m (sy_store s) = (Inr a, st) \<and> s' = s\<lparr>sy_store := st\<rparr>)"
  by (auto simp: on_table_def split: prod.split)

text \<open>The source for a repository, when the backend works with the tokens of its users.\<close>

lemma repository_source:
  assumes "gitFlameSourceForRepository bk env repositoryID s = (Inr out, s')" and "\<not> unconfigured bk"
  shows "\<exists>session s1 connection token. authenticate bk env s = (Inr session, s1) \<and>
    con_user_id connection = user_id (aps_user session) \<and> repo_id (con_repository connection) = repositoryID \<and>
    con_revoked_at connection = None \<and> active_connection (re_now env 2) connection = None \<and>
    connection_token bk (con_user_id connection) connection = Inr token \<and>
    out = (map_option (client_source bk) (user_client bk token), Some connection)"
proof -
  from assms obtain session s1 connection s2 token where
    auth: "authenticate bk env s = (Inr session, s1)" and
    found: "UserGitFlameConnectionByRepository (re_order env) (user_id (aps_user session)) repositoryID (sy_store s1) =
      (Inr connection, s2)" and
    "active_connection (re_now env 2) connection = None"
    "connection_token bk (user_id (aps_user session)) connection = Inr token"
    "out = (map_option (client_source bk) (user_client bk token), Some connection)"
    by (auto simp: gitFlameSourceForRepository_def try_fail_Inr bindS_Inr_iff on_table_Inr split: option.splits)
  moreover have "con_user_id connection = user_id (aps_user session)" "repo_id (con_repository connection) = repositoryID"
    "con_revoked_at connection = None"
    using found by (auto simp: UserGitFlameConnectionByRepository_def find_Some_iff split: option.splits)
  ultimately show ?thesis by metis
qed

text \<open>The client of a stored connection, made without a request.\<close>

lemma stored_connection_reader:
  assumes "gitFlameReaderFromStoredConnection bk now (Some connection) = Inr reader"
  shows "con_revoked_at connection = None \<and> active_connection now connection = None \<and>
    (if unconfigured bk then Option.bind (bk_static bk) gs_reader = Some reader
     else (case connection_token bk (con_user_id connection) connection of
             Inl err \<Rightarrow> False
           | Inr token \<Rightarrow> Option.bind (map_option (client_source bk) (user_client bk token)) gs_reader = Some reader))"
  using assms by (auto simp: gitFlameReaderFromStoredConnection_def split: if_splits option.splits sum.splits)

lemma connection_reader:
  assumes "gitFlameReaderForConnection bk env connectionID s = (Inr (reader, connection), s')"
  shows "\<exists>session s1. authenticate bk env s = (Inr session, s1) \<and> con_user_id connection = user_id (aps_user session) \<and>
    ms_connections (sy_store s1) connectionID = Some connection \<and>
    gitFlameReaderFromStoredConnection bk (re_now env 2) (Some connection) = Inr reader"
proof -
  from assms obtain session s1 s2 where auth: "authenticate bk env s = (Inr session, s1)"
    and found: "UserGitFlameConnection (user_id (aps_user session)) connectionID (sy_store s1) = (Inr connection, s2)"
    and reader: "gitFlameReaderFromStoredConnection bk (re_now env 2) (Some connection) = Inr reader"
    by (auto simp: gitFlameReaderForConnection_def try_fail_Inr bindS_Inr_iff on_table_Inr)
  from found have "con_user_id connection = user_id (aps_user session)" "ms_connections (sy_store s1) connectionID = Some connection"
    by (auto simp: UserGitFlameConnection_def GitFlameConnection_def bindS_Inr_iff split: option.splits if_splits)
  with auth reader show ?thesis by blast
qed


text \<open>What storing keeps of a connection.\<close>

lemma connection_token_defaults [simp]:
  "con_token_material (connection_defaults v) = con_token_material v"
  "con_token_expires_at (connection_defaults v) = con_token_expires_at v"
  "con_token_status v = ''active'' \<Longrightarrow> con_token_status (connection_defaults v) = ''active''"
  by (simp_all add: connection_defaults_def Let_def)

lemma connection_token_identity [simp]:
  "con_token_material (connection_identity now nid order v st) = con_token_material v"
  "con_token_expires_at (connection_identity now nid order v st) = con_token_expires_at v"
  "con_token_status (connection_identity now nid order v st) = con_token_status v"
  "con_revoked_at (connection_identity now nid order v st) = con_revoked_at v"
  by (simp_all add: connection_identity_def Let_def split: option.split)

lemma saved_connection:
  assumes "SaveGitFlameConnection now nid order v st = (Inr saved, st')" and "con_token_status v = ''active''"
  shows "con_user_id saved = con_user_id v \<and> repo_id (con_repository saved) = repo_id (con_repository v) \<and>
    con_token_material saved = con_token_material v \<and> con_token_status saved = ''active'' \<and>
    con_token_expires_at saved = con_token_expires_at v \<and> con_revoked_at saved = con_revoked_at v"
  using assms
  by (auto simp: SaveGitFlameConnection_def Let_def)

lemma connectionFromRequest_sealed:
  assumes "connectionFromRequest bk env user req existingID s = (Inr connection, s')"
  obtains metadata repoURL ciphertext nonce version where
    "Encrypt (bk_gcm bk) (re_random env 1) (bk_cipher bk) (cq_access_token req)
       (credentialAAD (user_id user) (repo_id metadata)) = Inr (ciphertext, nonce, version)"
    and "connection = sealed_connection env user req existingID metadata repoURL (ciphertext, nonce, version)"
  using assms
  by (auto simp: connectionFromRequest_def bindS_Inr_iff split: if_splits prod.splits)

text \<open>What is relied on of the cipher and the random source: what is sealed opens again, and neither a sealed text nor
  a nonce is empty.\<close>

definition proper_cipher :: "aead \<Rightarrow> bool" where
  "proper_cipher gcm \<longleftrightarrow>
     opens_what_it_seals gcm \<and> (\<forall>key nonce plaintext aad. aead_seal gcm key nonce plaintext aad \<noteq> []) \<and> aead_nonce_size gcm > 0"

text \<open>A token that a user hands in reaches GitFlame unchanged: the client made later from the stored connection, as
  long as the token has not expired, is the one with exactly that token, although only its encryption for this
  user and repository is stored.\<close>

theorem stored_token_roundtrip:
  assumes "proper_cipher (bk_gcm bk)" and "fills_exactly (re_random env 1)"
    and "NewCredentialCipher secret version = Inr c" and "bk_cipher bk = Some c"
    and "user_client bk (cq_access_token req) = Some client"
    and "connectionFromRequest bk env user req existingID s = (Inr connection, s')"
    and "SaveGitFlameConnection now nid order connection st = (Inr saved, st')"
    and "case cq_token_expires_at req of None \<Rightarrow> True | Some t \<Rightarrow> t > later"
  shows "gitFlameReaderFromStoredConnection bk later (Some saved) =
    Inr (gitflame_reader client (bk_unmarshal bk) (bk_order bk))"
proof -
  obtain metadata repoURL ciphertext nonce keyVersion where
    sealed: "Encrypt (bk_gcm bk) (re_random env 1) (bk_cipher bk) (cq_access_token req)
       (credentialAAD (user_id user) (repo_id metadata)) = Inr (ciphertext, nonce, keyVersion)" and
    connection: "connection = sealed_connection env user req existingID metadata repoURL (ciphertext, nonce, keyVersion)"
    using connectionFromRequest_sealed [OF assms(6)] .
  have "con_token_status connection = ''active''" by (simp add: connection sealed_connection_def Let_def)
  note saved = saved_connection [OF assms(7) this]
  have stored: "con_user_id saved = user_id user" "repo_id (con_repository saved) = repo_id metadata"
    "con_token_material saved = \<lparr>tok_ciphertext = ciphertext, tok_nonce = nonce, tok_key_version = keyVersion\<rparr>"
    "con_token_status saved = ''active''" "con_token_expires_at saved = cq_token_expires_at req"
    "con_revoked_at saved = None"
    using saved by (simp_all add: connection sealed_connection_def Let_def)
  have "ciphertext \<noteq> []" "length nonce = aead_nonce_size (bk_gcm bk)" "keyVersion = version"
    using sealed assms(1-4) by (auto simp: Encrypt_def proper_cipher_def fills_exactly_def NewCredentialCipher_def
        split: sum.splits if_splits)
  moreover have "aead_nonce_size (bk_gcm bk) > 0" "version \<ge> 1"
    using assms(1,3) by (auto simp: proper_cipher_def NewCredentialCipher_def split: sum.splits if_splits)
  ultimately have "ciphertext \<noteq> []" "nonce \<noteq> []" "keyVersion \<noteq> 0" by auto
  moreover have "Decrypt (bk_gcm bk) (bk_cipher bk) ciphertext nonce keyVersion (credentialAAD (user_id user) (repo_id metadata)) =
      Inr (cq_access_token req)"
    using Decrypt_Encrypt [OF _ sealed] assms(1) by (simp add: proper_cipher_def)
  ultimately have "connection_token bk (con_user_id saved) saved = Inr (cq_access_token req)"
    by (simp add: connection_token_def stored)
  moreover have "active_connection later saved = None"
    using assms(8) by (simp add: active_connection_def stored split: option.splits)
  moreover have "\<not> unconfigured bk"
    using assms(4,5) by (auto simp: unconfigured_def user_client_def NewGitFlameClient_def split: if_splits)
  ultimately show ?thesis
    using assms(5) by (simp add: gitFlameReaderFromStoredConnection_def stored client_source_def)
qed

text \<open>A session that was made from a GitFlame token authenticates: until it expires, a request with its cookie is
  taken for the user of the token.\<close>

theorem created_session_authenticates:
  assumes "createSessionFromGitFlameToken bk env accessToken s = (Inr (session, cookie, created), s')"
    and "fills_exactly (re_random env 0)" and "re_cookie env' = Some cookie" and "re_now env' 0 < aps_expires_at session"
  shows "case fst (authenticate bk env' s') of
      Inl e \<Rightarrow> False
    | Inr seen \<Rightarrow> aps_id seen = aps_id session \<and> aps_user seen = aps_user session"
proof -
  obtain tokenHash userID s1 st where
    token: "GenerateSessionToken (bk_sha256 bk) (re_random env 0) = Inr (cookie, tokenHash)" and
    create: "CreateAppSession (re_now env 4) (re_id env 1) userID tokenHash (re_now env 3 + bk_session_ttl bk) (sy_store s1) =
      (Inr session, st)" and s': "s' = s1\<lparr>sy_store := st\<rparr>"
    using assms(1)
    by (auto simp: createSessionFromGitFlameToken_def bindS_Inr_iff on_table_Inr split: prod.splits)
  have "SessionTokenHashFromCookie (bk_sha256 bk) cookie = Inr tokenHash"
    using assms(2) token
    by (auto simp: GenerateSessionToken_def SessionTokenHashFromCookie_def RawURL_roundtrip fills_exactly_def split: sum.splits)
  with assms(3,4) create show ?thesis
    by (auto simp: s' authenticate_def on_table_def AppSessionByTokenHash_def CreateAppSession_def Let_def split: option.splits)
qed

section \<open>A sample backend\<close>

text \<open>A cipher that prefixes the associated data, and a GitFlame server that knows one user.\<close>

definition sample_gcm :: aead where
  "sample_gcm =
     \<lparr>aead_nonce_size = 12, aead_seal = (\<lambda>key nonce plaintext aad. CHR ''#'' # aad @ plaintext),
      aead_open = (\<lambda>key nonce ciphertext aad.
        if has_prefix ciphertext (CHR ''#'' # aad) then Some (drop (Suc (length aad)) ciphertext) else None)\<rparr>"

lemma proper_sample_gcm: "proper_cipher sample_gcm"
  by (simp add: proper_cipher_def opens_what_it_seals_def sample_gcm_def has_prefix_iff)

definition sample_cipher :: credential_cipher where
  "sample_cipher = \<lparr>cc_key = ''0123456789abcdef'', cc_key_version = 1\<rparr>"

definition sample_profile_document :: document where
  "sample_profile_document = [(''id'', JStr ''7''), (''username'', JStr ''ann'')]"

definition sample_backend :: "nat backend" where
  "sample_backend =
     \<lparr>bk_cipher = Some sample_cipher, bk_base_url = ''https://gitflame'', bk_static = None, bk_session_ttl = 3600,
      bk_gcm = sample_gcm, bk_sha256 = (\<lambda>s. s),
      bk_transport = sample_client (Some (200, [])) (Some (JObj sample_profile_document)),
      bk_unmarshal = (\<lambda>s. Inl []), bk_order = id, bk_fuel = 1, bk_parse_url = (\<lambda>u. None)\<rparr>"

definition sample_request_env :: "string option \<Rightarrow> request_env" where
  "sample_request_env cookie =
     \<lparr>re_cookie = cookie, re_now = (\<lambda>i. 10), re_id = (\<lambda>i. if i = 0 then ''u1'' else ''s1''), re_random = (\<lambda>i. zero_bytes),
      re_order = []\<rparr>"

definition sample_sync_state :: "nat sync_state" where
  "sample_sync_state = \<lparr>sy_store = NewMemoryStore, sy_world = 0, sy_connection = None\<rparr>"

definition sample_connection_request :: connection_request where
  "sample_connection_request =
     \<lparr>cq_access_token = ''secret'',
      cq_repository = \<lparr>repo_id = ''team/app'', repo_name = ''app'', repo_default_branch = [], repo_commit_sha = [],
        repo_web_url = []\<rparr>,
      cq_repo_url = [], cq_default_branch = [], cq_scopes = [], cq_token_expires_at = Some 99\<rparr>"

definition sample_user :: app_user where
  "sample_user = \<lparr>user_id = ''u1'', user_gitflame_user_id = ''7'', user_username = ''ann'', user_created_at = 1, user_updated_at = 1\<rparr>"

definition sample_sealed :: gitflame_connection where
  "sample_sealed =
     sealed_connection (sample_request_env None) sample_user sample_connection_request [] (cq_repository sample_connection_request)
       [] (''#u1:team/appsecret'', replicate 12 CHR 0x00, 1)"

definition sample_stored :: gitflame_connection where
  "sample_stored = sample_sealed\<lparr>con_id := ''c1'', con_created_at := 10, con_updated_at := 10\<rparr>"

lemma fills_exactly_zero: "fills_exactly zero_bytes"
  by (simp add: fills_exactly_def zero_bytes_def)

lemma sample_CurrentUser:
  "CurrentUser ((sample_client (Some (200, [])) (Some (JObj sample_profile_document)))\<lparr>gf_baseURL := b, gf_apiKey := t\<rparr>) n =
     (Inr \<lparr>gp_id = ''7'', gp_username = ''ann'', gp_login = ''ann'', gp_name = [], gp_email = []\<rparr>, Suc n)"
proof -
  have "profile_of (\<lambda>v. ''?'') sample_profile_document =
      \<lparr>gp_id = ''7'', gp_username = ''ann'', gp_login = ''ann'', gp_name = [], gp_email = []\<rparr>"
    by code_simp
  then show ?thesis
    by (simp add: CurrentUser_def getJSON_def doGET_def perform_def with_ref_def sample_client_def success_status_def bindS_def
        tryS_def)
qed

lemma sample_user_client:
  "user_client sample_backend t =
     Some ((sample_client (Some (200, [])) (Some (JObj sample_profile_document)))\<lparr>gf_baseURL := ''https://gitflame'', gf_apiKey := t\<rparr>)"
proof -
  have "NewGitFlameClient ''https://gitflame'' = Some ''https://gitflame''" by code_simp
  then show ?thesis by (simp add: user_client_def sample_backend_def)
qed

lemma sample_validates:
  "validateGitFlameToken sample_backend ''secret'' sample_sync_state =
     (Inr \<lparr>gp_id = ''7'', gp_username = ''ann'', gp_login = ''ann'', gp_name = [], gp_email = []\<rparr>,
      sample_sync_state\<lparr>sy_world := 1\<rparr>)"
  by (simp add: validateGitFlameToken_def sample_user_client on_world_def sample_CurrentUser sample_sync_state_def)

lemma sample_connectionFromRequest:
  "connectionFromRequest sample_backend (sample_request_env None) sample_user sample_connection_request [] sample_sync_state =
     (Inr sample_sealed, sample_sync_state\<lparr>sy_world := 1\<rparr>)"
proof -
  have trims: "trim_space ''secret'' = ''secret''" "trim_space ''team/app'' = ''team/app''" by code_simp+
  have sealed: "Encrypt sample_gcm zero_bytes (Some sample_cipher) ''secret'' (credentialAAD ''u1'' ''team/app'') =
      Inr (''#u1:team/appsecret'', replicate 12 CHR 0x00, 1)"
    by code_simp
  have parts: "bk_cipher sample_backend = Some sample_cipher" "bk_gcm sample_backend = sample_gcm"
    "re_random (sample_request_env None) i = zero_bytes" "cq_access_token sample_connection_request = ''secret''"
    "repo_id (cq_repository sample_connection_request) = ''team/app''" "cq_repo_url sample_connection_request = []"
    "user_id sample_user = ''u1''" "user_gitflame_user_id sample_user = ''7''" for i
    by (simp_all add: sample_backend_def sample_request_env_def sample_connection_request_def sample_user_def)
  show ?thesis
    by (simp add: connectionFromRequest_def sample_validates token_required_def parts trims requested_repository_def sealed sample_sealed_def)
qed

lemma stored_token_roundtrip_witness:
  "gitFlameReaderFromStoredConnection sample_backend 20 (Some sample_stored) =
     Inr (gitflame_reader ((sample_client (Some (200, [])) (Some (JObj sample_profile_document)))
         \<lparr>gf_baseURL := ''https://gitflame'', gf_apiKey := ''secret''\<rparr>)
       (bk_unmarshal sample_backend) (bk_order sample_backend))"
proof -
  have "fst (SaveGitFlameConnection 10 ''c1'' [] sample_sealed NewMemoryStore) = Inr sample_stored" by code_simp
  then obtain st' where save: "SaveGitFlameConnection 10 ''c1'' [] sample_sealed NewMemoryStore = (Inr sample_stored, st')"
    by (metis prod.collapse)
  have key: "NewCredentialCipher ''0123456789abcdef'' 1 = Inr sample_cipher" by code_simp
  show ?thesis
    by (rule stored_token_roundtrip [OF _ _ key _ _ sample_connectionFromRequest save])
      (simp_all add: sample_user_client, simp_all add: sample_backend_def proper_sample_gcm sample_request_env_def fills_exactly_zero
        sample_connection_request_def)
qed

lemma sample_createSession:
  "\<exists>session s'. createSessionFromGitFlameToken sample_backend (sample_request_env None) ''secret'' sample_sync_state =
     (Inr (session, RawURL_encode (replicate 32 CHR 0x00), True), s') \<and> aps_expires_at session = 3610"
proof -
  have trims: "trim_space ''secret'' = ''secret''" "trim_space ''ann'' = ''ann''" by code_simp+
  have parts: "bk_sha256 sample_backend = (\<lambda>s. s)" "bk_session_ttl sample_backend = 3600"
    by (simp_all add: sample_backend_def)
  show ?thesis
    by (simp add: createSessionFromGitFlameToken_def token_required_def sample_validates trims parts bindS_def)
      (simp add: on_table_def UpsertAppUser_def new_app_user_def sample_sync_state_def NewMemoryStore_def Let_def
        GenerateSessionToken_def sample_request_env_def zero_bytes_def sessionTokenBytes_def CreateAppSession_def trims)
qed

lemma created_session_authenticates_witness:
  "case createSessionFromGitFlameToken sample_backend (sample_request_env None) ''secret'' sample_sync_state of
     (Inr (session, cookie, created), s') \<Rightarrow>
       (case fst (authenticate sample_backend (sample_request_env (Some cookie)) s') of
          Inl e \<Rightarrow> False
        | Inr seen \<Rightarrow> aps_id seen = aps_id session \<and> aps_user seen = aps_user session)
   | _ \<Rightarrow> False"
proof -
  obtain session s' where run: "createSessionFromGitFlameToken sample_backend (sample_request_env None) ''secret'' sample_sync_state =
     (Inr (session, RawURL_encode (replicate 32 CHR 0x00), True), s')" "aps_expires_at session = 3610"
    using sample_createSession by blast
  let ?env = "sample_request_env (Some (RawURL_encode (replicate 32 CHR 0x00)))"
  have "fills_exactly (re_random (sample_request_env None) 0)" "re_cookie ?env = Some (RawURL_encode (replicate 32 CHR 0x00))"
    "re_now ?env 0 < aps_expires_at session"
    by (simp_all add: sample_request_env_def fills_exactly_zero run(2))
  from created_session_authenticates [OF run(1) this] show ?thesis by (simp only: run(1) prod.case sum.case)
qed

end
