(* ===== verification/Server_State.thy ===== *)
theory Server_State imports Workflow Access begin

text \<open>
  The type \<open>Server\<close> of backend/internal/httpapi/server.go: what it is configured with, the state that its requests
  and its goroutines share, the replies, and how errors become replies (server.go, integrations.go, auth.go, logging.go).
  A handler is a function from the state to a reply and the state after it.
\<close>

section \<open>State\<close>

text \<open>What a background goroutine has been started with: an indexing job, or a delivery to process.\<close>

record 's index_run =
  xr_reader :: "'s repository_reader"
  xr_connection :: gitflame_connection
  xr_ref :: string
  xr_force :: bool

datatype 's background_work =
    Index_run "'s index_run"
  | Delivery_run gitflame_connection gitflame_webhook_event

text \<open>The store with the jobs that the workflow has handed out, the outside world, the registry of indexing jobs, and the
  goroutines that were started.\<close>

record 's server_state =
  hs_flow :: workflow_state
  hs_world :: 's
  hs_jobs :: index_registry
  hs_background :: "'s background_work list"

abbreviation hs_store :: "'s server_state \<Rightarrow> memory_store" where
  "hs_store s \<equiv> ws_store (hs_flow s)"

definition in_flow :: "'a workflow_op \<Rightarrow> ('s server_state, 'a) op" where
  "in_flow m = (\<lambda>s. case m (hs_flow s) of (r, f) \<Rightarrow> (r, s\<lparr>hs_flow := f\<rparr>))"

definition in_store :: "'a store_op \<Rightarrow> ('s server_state, 'a) op" where
  "in_store m = in_flow (on_store m)"

definition in_world :: "('s, 'a) op \<Rightarrow> ('s server_state, 'a) op" where
  "in_world m = (\<lambda>s. case m (hs_world s) of (r, w) \<Rightarrow> (r, s\<lparr>hs_world := w\<rparr>))"

definition in_jobs :: "(index_registry, 'a) op \<Rightarrow> ('s server_state, 'a) op" where
  "in_jobs m = (\<lambda>s. case m (hs_jobs s) of (r, rg) \<Rightarrow> (r, s\<lparr>hs_jobs := rg\<rparr>))"

text \<open>An operation that works on a connection through a pointer; what it leaves there is not used by any caller.\<close>

definition in_sync :: "gitflame_connection option \<Rightarrow> ('s sync_state, 'a) op \<Rightarrow> ('s server_state, 'a) op" where
  "in_sync connection m =
     (\<lambda>s. case m \<lparr>sy_store = hs_store s, sy_world = hs_world s, sy_connection = connection\<rparr> of
            (r, y) \<Rightarrow> (r, s\<lparr>hs_flow := (hs_flow s)\<lparr>ws_store := sy_store y\<rparr>, hs_world := sy_world y\<rparr>))"

definition start_background :: "'s background_work \<Rightarrow> ('s server_state, unit) op" where
  "start_background work = (\<lambda>s. (Inr (), s\<lparr>hs_background := hs_background s @ [work]\<rparr>))"

definition ignoring :: "('s, 'a) op \<Rightarrow> ('s, unit) op" where
  "ignoring m = tryS m (\<lambda>r. case r of Inl (Panic t) \<Rightarrow> failS (Panic t) | _ \<Rightarrow> retS ())"

section \<open>Configuration\<close>

type_synonym 's recommender =
  "repository_metadata \<Rightarrow> string \<Rightarrow> repository_file list \<Rightarrow> ('s, string \<times> recommendation_card list) op"

record 's server =
  sr_backend :: "'s backend"
  sr_indexer :: "'s repository_indexer option"
  sr_recommender :: "'s recommender option"
  sr_dispatcher :: dispatcher
  sr_public_base_url :: string
  sr_signing_key :: string
  sr_hmac :: "string \<Rightarrow> string \<Rightarrow> string"
  sr_sorter :: "repository_file list \<Rightarrow> repository_file list"
  sr_json :: "string \<Rightarrow> string + json"
  sr_float_text :: "rat \<Rightarrow> string"
  sr_checks :: "(string \<times> ('s, unit) op) list"

text \<open>A request: the identifier in its path, headers and query as \<open>Header.Get\<close> and \<open>Query().Get\<close> give them, its body, and
  what it draws from its surroundings, \<open>aq_again\<close> when it authenticates a second time. While it waits for an indexing job, the
  rest of the system moves on (\<open>aq_meanwhile\<close>) until one of the events ends the waiting.\<close>

record 's api_request =
  aq_id :: string
  aq_header :: "string \<Rightarrow> string"
  aq_query :: "string \<Rightarrow> string"
  aq_body :: string
  aq_env :: request_env
  aq_again :: request_env
  aq_ambient :: ambient
  aq_orders :: "nat \<Rightarrow> string list"
  aq_meanwhile :: "'s server_state \<Rightarrow> 's server_state"
  aq_wait_event :: wait_event

abbreviation aq_now :: "'s api_request \<Rightarrow> nat \<Rightarrow> gotime" where
  "aq_now rq \<equiv> re_now (aq_env rq)"

definition env_again :: "'s api_request \<Rightarrow> request_env" where
  "env_again rq = (aq_again rq)\<lparr>re_cookie := re_cookie (aq_env rq)\<rparr>"

definition sync_environment :: "'s server \<Rightarrow> request_env \<Rightarrow> sync_env" where
  "sync_environment sr env =
     \<lparr>se_sha256 = bk_sha256 (sr_backend sr), se_sorter = sr_sorter sr, se_now = re_now env 8, se_id = re_id env 2\<rparr>"

text \<open>\<open>TouchGitFlameConnection\<close> after a request that used a connection; its error is ignored.\<close>

definition touch :: "gotime \<Rightarrow> gitflame_connection \<Rightarrow> ('s server_state, unit) op" where
  "touch now connection = ignoring (in_store (TouchGitFlameConnection now (con_user_id connection) (con_id connection)))"

definition touch_optional :: "gotime \<Rightarrow> gitflame_connection option \<Rightarrow> ('s server_state, unit) op" where
  "touch_optional now connection = (case connection of None \<Rightarrow> retS () | Some c \<Rightarrow> touch now c)"

section \<open>Replies\<close>

record webhook_response =
  wr_id :: string
  wr_connection_id :: string
  wr_webhook_url :: string
  wr_secret :: string
  wr_events :: "string list"
  wr_status :: string
  wr_updated_at :: gotime

record analyze_response =
  ra_session_id :: string
  ra_task_id :: string
  ra_issue_id :: string
  ra_repository_id :: string
  ra_status :: string
  ra_status_url :: string

record task_response =
  rt_task_id :: string
  rt_session_id :: string
  rt_issue_id :: string
  rt_type :: string
  rt_status :: string
  rt_attempt :: int
  rt_plan_markdown :: string
  rt_tool_execution_summary :: string
  rt_relevant_files :: "relevant_file list"
  rt_model :: string
  rt_usage :: agent_usage
  rt_error :: "task_error option"
  rt_generated_files :: "generated_files_contract option"

record plan_response =
  rp_session_id :: string
  rp_issue_id :: string
  rp_repository_id :: string
  rp_status :: string
  rp_plan_markdown :: string
  rp_revision :: int

record action_response =
  rc_session_id :: string
  rc_issue_id :: string
  rc_status :: string
  rc_message :: string
  rc_task_id :: string
  rc_status_url :: string
  rc_generated_files :: "generated_files_contract option"

datatype api_body =
    No_body
  | Session_body app_user gotime
  | Connection_body gitflame_connection
  | Index_body index_job_status
  | Config_body string string index_job_status
  | Tree_body string string "tree_entry list" index_job_status
  | Files_body string string string "repository_file list" index_job_status
  | Issues_body string "issue_payload list"
  | Webhook_body webhook_response
  | Events_body "string option" "gitflame_webhook_event list"
  | Delivery_body string string
  | Analyze_body analyze_response
  | Task_body task_response
  | Plan_body plan_response
  | Action_body action_response
  | Report_body recommendation_report
  | Report_status_body string string int int int
  | Summary_body string string
  | Cards_body string "recommendation_card list"
  | Card_body recommendation_card
  | Ready_body string "(string \<times> string) list"
  | Tasks_body "agent_task_summary list" int

text \<open>A reply with a status and a body, a problem document, and a reply with a \<open>Set-Cookie\<close> header: the value of the
  session cookie and when it expires, \<open>None\<close> to delete it.\<close>

datatype api_reply =
    Reply int api_body
  | Problem int string string
  | With_cookie "(string \<times> gotime) option" api_reply

type_synonym 's handler = "'s server_state \<Rightarrow> api_reply \<times> 's server_state"

definition answer :: "api_reply \<Rightarrow> 's handler" where
  "answer r s = (r, s)"

definition reply :: "int \<Rightarrow> api_body \<Rightarrow> 's handler" where
  "reply status body s = (Reply status body, s)"

definition refuse :: "int \<Rightarrow> string \<Rightarrow> string \<Rightarrow> 's handler" where
  "refuse status code detail s = (Problem status code detail, s)"

definition with_cookie :: "(string \<times> gotime) option \<Rightarrow> 's handler \<Rightarrow> 's handler" where
  "with_cookie cookie h s = (case h s of (r, s') \<Rightarrow> (With_cookie cookie r, s'))"

text \<open>What \<open>recoverMiddleware\<close> answers when a handler panics.\<close>

definition recovered :: api_reply where
  "recovered = Problem 500 ''internal_error'' ''the request could not be completed''"

text \<open>One call of a handler: what it does when the call fails, and how it goes on. A panic ends the handler.\<close>

definition attempt_or :: "('s server_state, 'a) op \<Rightarrow> (go_error \<Rightarrow> 's handler) \<Rightarrow> ('a \<Rightarrow> 's handler) \<Rightarrow> 's handler" where
  "attempt_or m failed f s =
     (case m s of
        (Inl (Panic t), s') \<Rightarrow> (recovered, s')
      | (Inl err, s') \<Rightarrow> failed err s'
      | (Inr a, s') \<Rightarrow> f a s')"

definition attempt :: "('s server_state, 'a) op \<Rightarrow> (go_error \<Rightarrow> api_reply) \<Rightarrow> ('a \<Rightarrow> 's handler) \<Rightarrow> 's handler" where
  "attempt m failed f = attempt_or m (\<lambda>err. answer (failed err)) f"

fun reply_status :: "api_reply \<Rightarrow> int" where
  "reply_status (Reply status body) = status"
| "reply_status (Problem status code detail) = status"
| "reply_status (With_cookie cookie r) = reply_status r"

section \<open>Errors as replies\<close>

fun integrationError :: "string \<Rightarrow> go_error \<Rightarrow> api_reply" where
  "integrationError fallbackCode (IntegrationErr status code detail) =
     Problem (if status = 0 then 502 else status) (if code = [] then fallbackCode else code) detail"
| "integrationError fallbackCode err = Problem 502 fallbackCode (error_text err)"

fun workflowError :: "go_error \<Rightarrow> api_reply" where
  "workflowError (ErrDispatch cause) = Problem 503 ''queue_unavailable'' (error_text (ErrDispatch cause))"
| "workflowError ErrNotFound = Problem 404 ''session_not_found'' (error_text ErrNotFound)"
| "workflowError err = Problem 422 ''invalid_workflow_state'' (error_text err)"

definition storage_error :: "go_error \<Rightarrow> api_reply" where
  "storage_error err = Problem 500 ''storage_error'' (error_text err)"

definition resourceError :: "string \<Rightarrow> string \<Rightarrow> go_error \<Rightarrow> api_reply" where
  "resourceError notFoundCode notFoundDetail err =
     (if err = ErrNotFound then Problem 404 notFoundCode notFoundDetail else storage_error err)"

definition authError :: "go_error \<Rightarrow> api_reply" where
  "authError err =
     (if err = ErrNotFound then Problem 401 ''unauthorized'' ''valid application session cookie is required''
      else Problem 500 ''auth_error'' (error_text err))"

definition invalid_body :: "go_error \<Rightarrow> api_reply" where
  "invalid_body err = Problem 400 ''invalid_json'' (error_text err)"

definition repositoryIDFromRequest :: "'s api_request \<Rightarrow> string" where
  "repositoryIDFromRequest rq =
     (if trim_space (aq_id rq) \<noteq> [] then trim_space (aq_id rq) else trim_space (aq_query rq ''repository_id''))"

definition authenticated_request :: "'s server \<Rightarrow> 's api_request \<Rightarrow> ('s server_state, app_session) op" where
  "authenticated_request sr rq = in_sync None (authenticate (sr_backend sr) (aq_env rq))"

section \<open>Lifted operations\<close>

lemma in_flow_Inr: "in_flow m s = (Inr a, s') \<longleftrightarrow> (\<exists>f. m (hs_flow s) = (Inr a, f) \<and> s' = s\<lparr>hs_flow := f\<rparr>)"
  by (auto simp: in_flow_def split: prod.split)

lemma in_store_apply:
  "in_store m s = (case m (hs_store s) of (r, st) \<Rightarrow> (r, s\<lparr>hs_flow := (hs_flow s)\<lparr>ws_store := st\<rparr>\<rparr>))"
  by (simp add: in_store_def in_flow_def on_store_def split: prod.split)

lemma keeps_in_store:
  "(\<And>s. P s \<Longrightarrow> P (s\<lparr>hs_flow := (hs_flow s)\<lparr>ws_store := snd (m (hs_store s))\<rparr>\<rparr>)) \<Longrightarrow> keeps P (in_store m)"
  by (simp add: keeps_def in_store_apply case_prod_beta)

lemma attempt_or_Inr [simp]: "m s = (Inr a, s') \<Longrightarrow> attempt_or m failed f s = f a s'"
  by (simp add: attempt_or_def)

lemma attempt_Inr [simp]: "m s = (Inr a, s') \<Longrightarrow> attempt m failed f s = f a s'"
  by (simp add: attempt_def)

lemma attempt_Inl:
  "m s = (Inl e, s') \<Longrightarrow> attempt m failed f s = (case e of Panic t \<Rightarrow> (recovered, s') | _ \<Rightarrow> (failed e, s'))"
  by (simp add: attempt_def attempt_or_def answer_def split: go_error.split)

text \<open>A reply that is not a problem comes from the last part of a handler.\<close>

lemma problem_replies [simp]:
  "storage_error e \<noteq> Reply st body" "resourceError c d e \<noteq> Reply st body" "integrationError c e \<noteq> Reply st body"
  "workflowError e \<noteq> Reply st body" "authError e \<noteq> Reply st body" "invalid_body e \<noteq> Reply st body" "recovered \<noteq> Reply st body"
  by (cases e; simp add: storage_error_def resourceError_def authError_def invalid_body_def recovered_def)+

lemma attempt_or_reply:
  assumes "attempt_or m g f s = (Reply st body, s')" and "\<And>e t. fst (g e t) \<noteq> Reply st body"
  obtains a s1 where "m s = (Inr a, s1)" and "f a s1 = (Reply st body, s')"
  using assms by (auto simp: attempt_or_def split: prod.splits sum.splits go_error.splits) (metis fst_conv)+

lemma attempt_reply:
  assumes "attempt m failed f s = (Reply st body, s')" and "\<And>e. failed e \<noteq> Reply st body"
  obtains a s1 where "m s = (Inr a, s1)" and "f a s1 = (Reply st body, s')"
  using assms unfolding attempt_def by (elim attempt_or_reply) (simp_all add: answer_def)

text \<open>A predicate that every part of a handler keeps is kept by the handler.\<close>

definition handler_keeps :: "('s server_state \<Rightarrow> bool) \<Rightarrow> 's handler \<Rightarrow> bool" where
  "handler_keeps P h \<longleftrightarrow> (\<forall>s. P s \<longrightarrow> P (snd (h s)))"

named_theorems handler_intros "handlers that keep an invariant"

lemma handler_keepsD: "handler_keeps P h \<Longrightarrow> P s \<Longrightarrow> P (snd (h s))"
  by (simp add: handler_keeps_def)

lemma handler_keeps_reply [handler_intros]: "handler_keeps P (reply status body)"
  by (simp add: handler_keeps_def reply_def)

lemma handler_keeps_refuse [handler_intros]: "handler_keeps P (refuse status code detail)"
  by (simp add: handler_keeps_def refuse_def)

lemma handler_keeps_cookie [handler_intros]: "handler_keeps P h \<Longrightarrow> handler_keeps P (with_cookie cookie h)"
  by (simp add: handler_keeps_def with_cookie_def case_prod_beta)

lemma handler_keeps_attempt_or [handler_intros]:
  "keeps P m \<Longrightarrow> (\<And>e. handler_keeps P (g e)) \<Longrightarrow> (\<And>a. handler_keeps P (f a)) \<Longrightarrow> handler_keeps P (attempt_or m g f)"
  by (fastforce simp: handler_keeps_def keeps_def attempt_or_def split: prod.splits sum.splits go_error.splits dest: spec)

lemma handler_keeps_attempt [handler_intros]:
  "keeps P m \<Longrightarrow> (\<And>a. handler_keeps P (f a)) \<Longrightarrow> handler_keeps P (attempt m failed f)"
  unfolding attempt_def by (rule handler_keeps_attempt_or) (simp_all add: handler_keeps_def answer_def)

lemma handler_keeps_answer [handler_intros]: "handler_keeps P (answer r)"
  by (simp add: handler_keeps_def answer_def)

lemma handler_keeps_if [handler_intros]:
  "handler_keeps P h \<Longrightarrow> handler_keeps P k \<Longrightarrow> handler_keeps P (if c then h else k)"
  by simp

lemma handler_keeps_option [handler_intros]:
  "handler_keeps P h \<Longrightarrow> (\<And>a. handler_keeps P (f a)) \<Longrightarrow> handler_keeps P (case x of None \<Rightarrow> h | Some a \<Rightarrow> f a)"
  by (cases x) auto

lemma keeps_ignoring [keeps_intros]: "keeps P m \<Longrightarrow> keeps P (ignoring m)"
  by (auto simp: keeps_def ignoring_def tryS_def split: prod.split sum.split go_error.split)

end
