(* ===== verification/Index_Background.thy ===== *)
theory Index_Background imports Server_State begin

text \<open>
  Indexing around requests: jobs that are started in the background, the goroutine that runs one, requests that wait
  for a running job, and the files that an analysis works with (repository_indexing.go and repository_data.go of
  backend/internal/httpapi).
\<close>

section \<open>Background jobs\<close>

definition disabled_job :: index_job_status where
  "disabled_job = no_job_status\<lparr>ij_status := indexStatusDisabled\<rparr>"

definition startRepositoryIndexInBackground ::
    "'s server \<Rightarrow> gotime \<Rightarrow> gotime \<Rightarrow> 's repository_reader \<Rightarrow> gitflame_connection \<Rightarrow> string \<Rightarrow> bool \<Rightarrow>
       ('s server_state, index_job_status) op" where
  "startRepositoryIndexInBackground sr now started reader connection ref0 force =
     (if sr_indexer sr = None \<or> trim_space (repo_id (con_repository connection)) = [] then retS disabled_job
      else
        let ref = index_branch connection ref0 in
        bindS (in_jobs (\<lambda>rg. case begin_job now started (repo_id (con_repository connection)) (con_id connection) ref force rg of
            (out, rg') \<Rightarrow> (Inr out, rg'))) (\<lambda>(st, owned).
          if \<not> owned then retS st
          else
            bindS (start_background (Index_run \<lparr>xr_reader = reader, xr_connection = connection, xr_ref = ref,
                xr_force = force\<rparr>)) (\<lambda>_. retS st)))"

text \<open>The goroutine: what the synchronisation gives is the outcome of the job. A panic is not recovered.\<close>

definition run_index_job ::
    "'s server \<Rightarrow> request_env \<Rightarrow> gotime \<Rightarrow> 's index_run \<Rightarrow> ('s server_state, index_job_status) op" where
  "run_index_job sr env finished job =
     (let repositoryID = repo_id (con_repository (xr_connection job)) in
      tryS (in_sync (Some (xr_connection job)) (synchronizeRepositoryIndex (sync_environment sr env) (sr_indexer sr)
          (xr_reader job) (xr_ref job) [] (xr_force job))) (\<lambda>r.
        case r of
          Inr sync \<Rightarrow> in_jobs (finish_job finished repositoryID (is_result sync) None)
        | Inl err \<Rightarrow>
            (case err of
               Panic t \<Rightarrow> failS (Panic t)
             | _ \<Rightarrow> in_jobs (finish_job finished repositoryID no_result (Some err)))))"

section \<open>Waiting for a job\<close>

definition indexing_in_progress :: go_error where
  "indexing_in_progress = IntegrationErr 503 ''rag_indexing_in_progress''
     ''repository indexing is still running, retry in a few moments''"

definition awaitRepositoryIndexJob :: "'s api_request \<Rightarrow> string \<Rightarrow> ('s server_state, unit) op" where
  "awaitRepositoryIndexJob rq repositoryID s =
     (case wait_begin repositoryID (hs_jobs s) of
        Inl _ \<Rightarrow> (Inr (), s)
      | Inr _ \<Rightarrow>
          (let s' = aq_meanwhile rq s in
           case wait_end (aq_wait_event rq) repositoryID (hs_jobs s') of
             (_, _, None) \<Rightarrow> (Inr (), s')
           | (_, _, Some err) \<Rightarrow> (Inl (if err = errIndexWaitTimeout then indexing_in_progress else err), s')))"

text \<open>The repository of the request, with the commit that is known to be indexed.\<close>

definition ensureRequestRepositoryIndex ::
    "'s server \<Rightarrow> 's api_request \<Rightarrow> repository_metadata \<Rightarrow> ('s server_state, repository_metadata) op" where
  "ensureRequestRepositoryIndex sr rq metadata =
     (if sr_indexer sr = None \<or> trim_space (repo_id metadata) = [] then retS metadata
      else
        bindS (in_sync None (gitFlameReaderForRepository (sr_backend sr) (env_again rq) (repo_id metadata))) (\<lambda>(reader, connection).
        bindS (awaitRepositoryIndexJob rq (repo_id metadata)) (\<lambda>_.
        bindS (in_sync connection (synchronizeRepositoryIndex (sync_environment sr (env_again rq)) (sr_indexer sr) reader
            (repo_default_branch metadata) (repo_commit_sha metadata) False)) (\<lambda>sync.
          let sha = rr_commit_sha (is_result sync) in
          retS (if sha \<noteq> [] then metadata\<lparr>repo_commit_sha := sha\<rparr> else metadata)))))"

section \<open>Files for an analysis\<close>

definition repositoryFilesForAnalysis ::
    "'s repository_reader \<Rightarrow> string \<Rightarrow> string \<Rightarrow> string \<Rightarrow> repository_file list \<Rightarrow>
       ('s server_state, string \<times> repository_file list) op" where
  "repositoryFilesForAnalysis reader repositoryID ref yamlConfig requested =
     (case rd_index_files reader of
        Some indexFiles \<Rightarrow> in_world (indexFiles repositoryID ref yamlConfig [])
      | None \<Rightarrow> in_world (rd_files reader repositoryID ref yamlConfig requested))"

definition repositoryFilesNeedContent :: "repository_file list \<Rightarrow> string list \<Rightarrow> bool" where
  "repositoryFilesNeedContent files legacyPaths \<longleftrightarrow> files = [] \<or> (\<exists>f \<in> set files. trim_space (rf_content f) = [])"

definition files_of_request :: "repository_file list \<Rightarrow> string list \<Rightarrow> repository_file list" where
  "files_of_request files paths = (if files = [] then map (\<lambda>p. \<lparr>rf_path = p, rf_content = [], rf_type = []\<rparr>) paths else files)"

definition hydrateAnalyzeRequest ::
    "'s server \<Rightarrow> 's api_request \<Rightarrow> issue_analyze_request \<Rightarrow> ('s server_state, issue_analyze_request) op" where
  "hydrateAnalyzeRequest sr rq req =
     (let repositoryID = repo_id (req_repository req) in
      if trim_space repositoryID = [] then retS req
      else
        bindS (in_sync None (gitFlameReaderForRepository (sr_backend sr) (aq_env rq) repositoryID)) (\<lambda>(reader, connection).
        bindS (repositoryFilesForAnalysis reader repositoryID (repo_default_branch (req_repository req)) (req_yaml_config req)
            (files_of_request (req_repository_files req) (req_repository_context req))) (\<lambda>(yamlConfig, hydrated).
        bindS (touch_optional (aq_now rq 9) connection) (\<lambda>_.
          retS (req\<lparr>req_yaml_config := yamlConfig, req_repository_files := hydrated, req_repository_context := []\<rparr>)))))"

definition authenticatedConnection :: "'s server \<Rightarrow> 's api_request \<Rightarrow> string \<Rightarrow> ('s server_state, gitflame_connection) op" where
  "authenticatedConnection sr rq connectionID =
     tryS (authenticated_request sr rq) (\<lambda>r.
       case r of
         Inl err \<Rightarrow> failS session_required
       | Inr session \<Rightarrow>
           tryS (in_store (UserGitFlameConnection (user_id (aps_user session)) connectionID)) (\<lambda>r.
             case r of
               Inl err \<Rightarrow>
                 failS (if err = ErrNotFound
                        then IntegrationErr 404 ''connection_not_found'' ''GitFlame connection was not found'' else err)
             | Inr connection \<Rightarrow> retS connection))"

end
