(* ===== verification/Webhooks.thy ===== *)
theory Webhooks imports Index_Background begin

text \<open>
  Webhooks, backend/internal/httpapi/webhooks.go: the secret of a registration and how a delivery proves that it knows
  the secret, what a delivery is taken for, the handlers, and the goroutine that processes a delivery. HMAC-SHA256, sha256, the
  random source and the JSON decoder are parameters.
\<close>

section \<open>Secrets\<close>

definition maxWebhookBodyBytes :: nat where
  "maxWebhookBodyBytes = 2 * 2 ^ 20"

definition deriveWebhookSecret :: "'s server \<Rightarrow> string \<Rightarrow> string \<Rightarrow> string" where
  "deriveWebhookSecret sr webhookID salt = RawURL_encode (sr_hmac sr (sr_signing_key sr) (webhookID @ '':'' @ salt))"

definition sha256_of :: "'s server \<Rightarrow> string \<Rightarrow> string" where
  "sha256_of sr = bk_sha256 (sr_backend sr)"

text \<open>The secret, and the text that is stored in its place: version, salt and hash.\<close>

definition newWebhookSecret :: "'s server \<Rightarrow> (nat \<Rightarrow> string result) \<Rightarrow> string \<Rightarrow> (string \<times> string) result" where
  "newWebhookSecret sr random webhookID =
     (case random 16 of
        Inl err \<Rightarrow> Inl err
      | Inr saltBytes \<Rightarrow>
          let salt = RawURL_encode saltBytes;
              secret = deriveWebhookSecret sr webhookID salt in
          Inr (secret, ''v1:'' @ salt @ '':'' @ hex_encode (sha256_of sr secret)))"

text \<open>The salt and the hash of a stored text of version 1.\<close>

definition stored_parts :: "string \<Rightarrow> (string \<times> string) option" where
  "stored_parts stored =
     (case split_on CHR '':'' stored of
        [version, salt, hash] \<Rightarrow> if version = ''v1'' then Some (salt, hash) else None
      | _ \<Rightarrow> None)"

definition validWebhookSecret :: "'s server \<Rightarrow> string \<Rightarrow> string \<Rightarrow> bool" where
  "validWebhookSecret sr expectedHash secret =
     (case hex_decode (case stored_parts expectedHash of None \<Rightarrow> expectedHash | Some (salt, hash) \<Rightarrow> hash) of
        None \<Rightarrow> False
      | Some decoded \<Rightarrow> length decoded = 32 \<and> secret \<noteq> [] \<and> decoded = sha256_of sr secret)"

definition firstNonEmptyHeader :: "(string \<Rightarrow> string) \<Rightarrow> string list \<Rightarrow> string" where
  "firstNonEmptyHeader header names =
     (case find (\<lambda>v. v \<noteq> []) (map (\<lambda>name. trim_space (header name)) names) of None \<Rightarrow> [] | Some v \<Rightarrow> v)"

definition webhookSecretFromRequest :: "(string \<Rightarrow> string) \<Rightarrow> string" where
  "webhookSecretFromRequest header =
     (let secret = firstNonEmptyHeader header [''X-GitFlame-Webhook-Secret'', ''X-GitFlame-Token'', ''X-Gitlab-Token''];
          authorization = trim_space (header ''Authorization'') in
      if secret \<noteq> [] then secret
      else if has_prefix (to_lower authorization) ''bearer '' then trim_space (drop 7 authorization)
      else [])"

definition signature_matches :: "'s server \<Rightarrow> string \<Rightarrow> string \<Rightarrow> string \<Rightarrow> bool" where
  "signature_matches sr secret body header_text =
     (case hex_decode (trim_prefix (trim_space header_text) ''sha256='') of
        None \<Rightarrow> False
      | Some provided \<Rightarrow> length provided = 32 \<and> provided = sr_hmac sr secret body)"

definition validWebhookRequest :: "'s server \<Rightarrow> gitflame_webhook_registration \<Rightarrow> (string \<Rightarrow> string) \<Rightarrow> string \<Rightarrow> bool" where
  "validWebhookRequest sr webhook header body \<longleftrightarrow>
     validWebhookSecret sr (wh_webhook_secret_hash webhook) (webhookSecretFromRequest header) \<or>
     (case stored_parts (wh_webhook_secret_hash webhook) of
        None \<Rightarrow> False
      | Some (salt, hash) \<Rightarrow>
          list_ex (\<lambda>name. signature_matches sr (deriveWebhookSecret sr (wh_id webhook) salt) body (header name))
            [''X-Gitea-Signature'', ''X-Hub-Signature-256''])"

section \<open>Payloads\<close>

text \<open>A payload is a map, or \<open>nil\<close> when the body is \<open>null\<close>; reading a \<open>nil\<close> map finds nothing.\<close>

type_synonym webhook_payload = "document option"

definition json_kind :: "json \<Rightarrow> string" where
  "json_kind v = (case v of JBool _ \<Rightarrow> ''bool'' | JNum _ \<Rightarrow> ''number'' | JStr _ \<Rightarrow> ''string'' | JArr _ \<Rightarrow> ''array'' | _ \<Rightarrow> ''object'')"

definition payload_of :: "string + json \<Rightarrow> webhook_payload result" where
  "payload_of parsed =
     (case parsed of
        Inl e \<Rightarrow> Inl (ErrText e)
      | Inr (JObj doc) \<Rightarrow> Inr (Some doc)
      | Inr JNull \<Rightarrow> Inr None
      | Inr v \<Rightarrow> Inl (ErrText (''json: cannot unmarshal '' @ json_kind v @ '' into Go value of type map[string]interface {}'')))"

text \<open>The value at a path, \<open>JNull\<close> for \<open>nil\<close>.\<close>

definition firstWebhookValue :: "webhook_payload \<Rightarrow> string \<Rightarrow> json" where
  "firstWebhookValue payload p =
     (case nestedValue (JObj (case payload of None \<Rightarrow> [] | Some doc \<Rightarrow> doc)) (split_on CHR ''.'' p) of
        None \<Rightarrow> JNull | Some v \<Rightarrow> v)"

fun webhook_text :: "'s server \<Rightarrow> json \<Rightarrow> string option" where
  "webhook_text sr (JStr s) = (if trim_space s \<noteq> [] then Some (trim_space s) else None)"
| "webhook_text sr (JNum x) = Some (sr_float_text sr x)"
| "webhook_text sr v = None"

definition firstWebhookString :: "'s server \<Rightarrow> webhook_payload \<Rightarrow> string list \<Rightarrow> string" where
  "firstWebhookString sr payload paths =
     (case List.map_filter (\<lambda>p. webhook_text sr (firstWebhookValue payload p)) paths of [] \<Rightarrow> [] | t # _ \<Rightarrow> t)"

definition normalizedWebhookEvent :: "'s server \<Rightarrow> (string \<Rightarrow> string) \<Rightarrow> webhook_payload \<Rightarrow> string" where
  "normalizedWebhookEvent sr header payload =
     (let named = to_lower (firstNonEmptyHeader header [''X-GitFlame-Event'', ''X-Gitea-Event'', ''X-GitHub-Event'']);
          raw = (if named = [] then to_lower (firstWebhookString sr payload [''event'', ''event_type'', ''object_kind'', ''type''])
                 else named) in
      if contains_str raw ''issue'' \<or> firstWebhookValue payload ''issue'' \<noteq> JNull then ''issue''
      else if contains_str raw ''push'' \<or> contains_str raw ''commit'' \<or> contains_str raw ''repository'' then ''push''
      else ''unknown'')"

section \<open>Registrations\<close>

definition webhookResponse :: "gitflame_webhook_registration \<Rightarrow> string \<Rightarrow> webhook_response" where
  "webhookResponse webhook secret =
     \<lparr>wr_id = wh_id webhook, wr_connection_id = wh_connection_id webhook, wr_webhook_url = wh_webhook_url webhook,
      wr_secret = secret, wr_events = wh_events webhook, wr_status = wh_status webhook, wr_updated_at = wh_updated_at webhook\<rparr>"

definition webhook_of_connection :: "'s api_request \<Rightarrow> string \<Rightarrow> ('s server_state, gitflame_webhook_registration) op" where
  "webhook_of_connection rq connectionID = in_store (GitFlameWebhookByConnection (aq_orders rq 0) connectionID)"

text \<open>A connection keeps the identifier of its registration, and so the address of its webhook.\<close>

definition registration_id :: "'s api_request \<Rightarrow> string \<Rightarrow> ('s server_state, string) op" where
  "registration_id rq connectionID =
     tryS (webhook_of_connection rq connectionID) (\<lambda>r.
       case r of
         Inr existing \<Rightarrow> retS (wh_id existing)
       | Inl err \<Rightarrow> if err = ErrNotFound then retS (re_id (aq_env rq) 3) else failS err)"

definition new_registration :: "'s server \<Rightarrow> string \<Rightarrow> string \<Rightarrow> string \<Rightarrow> gitflame_webhook_registration" where
  "new_registration sr registrationID connectionID secretHash =
     \<lparr>wh_id = registrationID, wh_connection_id = connectionID,
      wh_webhook_url = sr_public_base_url sr @ ''/integrations/gitflame/webhooks/'' @ registrationID,
      wh_webhook_secret_hash = secretHash, wh_events = [''push'', ''issues''], wh_status = ''active'',
      wh_external_webhook_id = [], wh_created_at = 0, wh_updated_at = 0\<rparr>"

definition secret_generation_error :: "go_error \<Rightarrow> api_reply" where
  "secret_generation_error err = Problem 500 ''secret_generation_error'' (error_text err)"

definition createGitFlameWebhook :: "'s server \<Rightarrow> 's api_request \<Rightarrow> 's handler" where
  "createGitFlameWebhook sr rq =
     attempt (authenticatedConnection sr rq (aq_id rq)) (integrationError ''webhook_connection_error'') (\<lambda>connection.
       if sr_public_base_url sr = [] then
         refuse 422 ''public_base_url_required''
           ''PUBLIC_BASE_URL must be the externally reachable CodePilot API base URL before enabling a webhook''
       else
         attempt (registration_id rq (con_id connection)) storage_error (\<lambda>registrationID.
         attempt (liftR (newWebhookSecret sr (re_random (aq_env rq) 2) registrationID)) secret_generation_error (\<lambda>(secret, secretHash).
         attempt (in_store (SaveGitFlameWebhook (aq_now rq 9) (re_id (aq_env rq) 4)
             (new_registration sr registrationID (con_id connection) secretHash))) storage_error (\<lambda>saved.
           reply 201 (Webhook_body (webhookResponse saved secret))))))"

definition webhook_missing :: "go_error \<Rightarrow> api_reply" where
  "webhook_missing = resourceError ''webhook_not_found'' ''webhook is not enabled for this connection''"

definition getGitFlameWebhook :: "'s server \<Rightarrow> 's api_request \<Rightarrow> 's handler" where
  "getGitFlameWebhook sr rq =
     attempt (authenticatedConnection sr rq (aq_id rq)) (integrationError ''webhook_connection_error'') (\<lambda>connection.
     attempt (webhook_of_connection rq (con_id connection)) webhook_missing (\<lambda>webhook.
       reply 200 (Webhook_body (webhookResponse webhook []))))"

definition disableGitFlameWebhook :: "'s server \<Rightarrow> 's api_request \<Rightarrow> 's handler" where
  "disableGitFlameWebhook sr rq =
     attempt (authenticatedConnection sr rq (aq_id rq)) (integrationError ''webhook_connection_error'') (\<lambda>connection.
     attempt (webhook_of_connection rq (con_id connection)) webhook_missing (\<lambda>webhook.
     attempt (in_store (SaveGitFlameWebhook (aq_now rq 9) (re_id (aq_env rq) 4) (webhook\<lparr>wh_status := ''disabled''\<rparr>))) storage_error (\<lambda>saved.
       reply 200 (Webhook_body (webhookResponse saved [])))))"

text \<open>The error of \<open>Atoi\<close> is dropped; a limit out of range is replaced by the store.\<close>

definition listGitFlameWebhookEvents :: "'s server \<Rightarrow> 's api_request \<Rightarrow> 's handler" where
  "listGitFlameWebhookEvents sr rq =
     attempt (authenticatedConnection sr rq (aq_id rq)) (integrationError ''webhook_connection_error'') (\<lambda>connection.
     attempt_or (webhook_of_connection rq (con_id connection))
       (\<lambda>err. if err = ErrNotFound then reply 200 (Events_body None []) else answer (storage_error err)) (\<lambda>webhook.
     attempt (in_store (GitFlameWebhookEvents (aq_orders rq 1) (wh_id webhook)
         (case parse_int (aq_query rq ''limit'') of None \<Rightarrow> 0 | Some n \<Rightarrow> n))) storage_error (\<lambda>events.
       reply 200 (Events_body (Some (wh_id webhook)) events))))"

section \<open>Deliveries\<close>

definition delivery_id :: "'s api_request \<Rightarrow> string" where
  "delivery_id rq = firstNonEmptyHeader (aq_header rq) [''X-GitFlame-Delivery'', ''X-Gitea-Delivery'', ''X-GitHub-Delivery'']"

text \<open>The event of an earlier delivery with the same identifier, among the latest hundred.\<close>

definition earlier_delivery :: "'s api_request \<Rightarrow> string \<Rightarrow> memory_store \<Rightarrow> gitflame_webhook_event option" where
  "earlier_delivery rq webhookID st =
     (if delivery_id rq = [] then None
      else
        (case fst (GitFlameWebhookEvents (aq_orders rq 1) webhookID 100 st) of
           Inl err \<Rightarrow> None
         | Inr existing \<Rightarrow> find (\<lambda>e. ev_delivery_id e = delivery_id rq) existing))"

definition new_event :: "'s server \<Rightarrow> 's api_request \<Rightarrow> string \<Rightarrow> webhook_payload \<Rightarrow> gitflame_webhook_event" where
  "new_event sr rq webhookID payload =
     \<lparr>ev_id = [], ev_webhook_id = webhookID, ev_event_type = normalizedWebhookEvent sr (aq_header rq) payload,
      ev_action = firstWebhookString sr payload [''action'', ''issue.action'', ''issue.state'', ''state''],
      ev_delivery_id = delivery_id rq,
      ev_repository_id =
        firstWebhookString sr payload [''repository.full_name'', ''repository.path_with_namespace'', ''repository.id''],
      ev_issue_session_id = [], ev_payload = payload, ev_status = ''received'', ev_error = None, ev_received_at = 0,
      ev_processed_at = None\<rparr>"

definition accept_delivery :: "'s server \<Rightarrow> 's api_request \<Rightarrow> gitflame_webhook_registration \<Rightarrow> webhook_payload \<Rightarrow> 's handler" where
  "accept_delivery sr rq webhook payload =
     attempt (in_store (GitFlameConnection (wh_connection_id webhook)))
       (\<lambda>err. Problem 410 ''connection_not_found'' ''webhook connection no longer exists'') (\<lambda>connection.
     attempt (in_store (SaveGitFlameWebhookEvent (aq_now rq 9) (re_id (aq_env rq) 5) (new_event sr rq (wh_id webhook) payload)))
       storage_error (\<lambda>saved.
     attempt (start_background (Delivery_run connection saved)) storage_error (\<lambda>_.
       reply 202 (Delivery_body ''received'' (ev_id saved)))))"

definition receiveGitFlameWebhook :: "'s server \<Rightarrow> 's api_request \<Rightarrow> 's handler" where
  "receiveGitFlameWebhook sr rq s =
     (case fst (GitFlameWebhook (aq_id rq) (hs_store s)) of
        Inl err \<Rightarrow> refuse 404 ''webhook_not_found'' ''active webhook was not found'' s
      | Inr webhook \<Rightarrow>
          if wh_status webhook \<noteq> ''active'' then refuse 404 ''webhook_not_found'' ''active webhook was not found'' s
          else if length (aq_body rq) > maxWebhookBodyBytes then
            refuse 413 ''webhook_payload_too_large'' ''webhook payload exceeds 2 MiB'' s
          else if \<not> validWebhookRequest sr webhook (aq_header rq) (aq_body rq) then
            refuse 401 ''invalid_webhook_secret'' ''webhook secret or signature is missing or invalid'' s
          else
            (case payload_of (sr_json sr (aq_body rq)) of
               Inl err \<Rightarrow> (invalid_body err, s)
             | Inr payload \<Rightarrow>
                 (case earlier_delivery rq (wh_id webhook) (hs_store s) of
                    Some earlier \<Rightarrow> reply 202 (Delivery_body ''duplicate'' (ev_id earlier)) s
                  | None \<Rightarrow> accept_delivery sr rq webhook payload s)))"

section \<open>Processing a delivery\<close>

text \<open>The goroutine works on its own copy of the payload; writing to a \<open>nil\<close> map panics.\<close>

type_synonym 's delivery_state = "'s server_state \<times> webhook_payload"

definition put_payload :: "string \<Rightarrow> json \<Rightarrow> ('s delivery_state, unit) op" where
  "put_payload key v =
     (\<lambda>(s, payload).
        case payload of
          None \<Rightarrow> (Inl (Panic ''assignment to entry in nil map''), (s, None))
        | Some doc \<Rightarrow> (Inr (), (s, Some (filter (\<lambda>m. fst m \<noteq> key) doc @ [(key, v)]))))"

definition pushed_branch :: "'s server \<Rightarrow> gitflame_connection \<Rightarrow> webhook_payload \<Rightarrow> string" where
  "pushed_branch sr connection payload =
     (let ref = trim_prefix (firstWebhookString sr payload [''ref'', ''repository.default_branch'']) ''refs/heads/'' in
      if ref = [] then con_default_branch connection else ref)"

definition pushed_commit :: "'s server \<Rightarrow> webhook_payload \<Rightarrow> string" where
  "pushed_commit sr payload = firstWebhookString sr payload [''after'', ''commit_sha'', ''head_commit.id'']"

text \<open>The loop that completes the cards of an analysis.\<close>

fun fill_cards :: "(nat \<Rightarrow> string) \<Rightarrow> nat \<Rightarrow> recommendation_card list \<Rightarrow> recommendation_card list" where
  "fill_cards new_id i [] = []"
| "fill_cards new_id i (item # cards) =
     item\<lparr>card_id := (if card_id item = [] then new_id i else card_id item),
       card_state := (if card_state item = [] then ''open'' else card_state item),
       card_severity := (if card_severity item = [] then ''medium'' else card_severity item)\<rparr> # fill_cards new_id (Suc i) cards"

definition recommendations_disabled :: string where
  "recommendations_disabled = ''Recommendation analysis is disabled by .ai.yml categories.''"

text \<open>The identifiers of new cards come after those that the request or the delivery draws for itself.\<close>

definition card_ids :: "request_env \<Rightarrow> nat \<Rightarrow> string" where
  "card_ids env i = re_id env (10 + i)"

definition save_report ::
    "'s server \<Rightarrow> repository_metadata \<Rightarrow> ai_config \<Rightarrow> string \<Rightarrow> recommendation_card list \<Rightarrow>
       ('s server_state, recommendation_report) op" where
  "save_report sr metadata cfg text cards = in_store (SaveRecommendations (sha256_of sr) metadata cfg text cards)"

definition analysis_after_push ::
    "'s server \<Rightarrow> request_env \<Rightarrow> gitflame_connection \<Rightarrow> string \<Rightarrow> string \<Rightarrow> repository_file list \<Rightarrow> ('s delivery_state, unit) op"
  where
  "analysis_after_push sr env connection sha yamlConfig files =
     (case ParseAIConfig (bk_unmarshal (sr_backend sr)) yamlConfig of
        Inl err \<Rightarrow> failS (ErrText (''cannot analyze recommendations after push: '' @ error_text err))
      | Inr cfg \<Rightarrow>
          if \<not> cfg_recommendations_enabled cfg then
            bindS (on_first (save_report sr (con_repository connection) cfg recommendations_disabled [])) (\<lambda>_. retS ())
          else
            (case ValidateRepositoryFilesForIntegration files of
               Some err \<Rightarrow> failS err
             | None \<Rightarrow>
                 (case sr_recommender sr of
                    None \<Rightarrow> failS (ErrText ''recommendation service is not configured'')
                  | Some recommender \<Rightarrow>
                      let metadata = (con_repository connection)\<lparr>repo_commit_sha := sha\<rparr> in
                      bindS (on_first (in_world (recommender metadata yamlConfig files))) (\<lambda>(text, cards).
                      bindS (on_first (save_report sr metadata cfg text (fill_cards (card_ids env) 0 cards))) (\<lambda>_.
                      bindS (put_payload ''recommendations_status'' (JStr ''updated'')) (\<lambda>_.
                        on_first (touch (re_now env 9) connection)))))))"

definition processRepositoryChange :: "'s server \<Rightarrow> request_env \<Rightarrow> gitflame_connection \<Rightarrow> ('s delivery_state, unit) op" where
  "processRepositoryChange sr env connection sp =
     bindS (liftR (gitFlameReaderFromStoredConnection (sr_backend sr) (re_now env 2) (Some connection))) (\<lambda>reader.
       let ref = pushed_branch sr connection (snd sp) in
       bindS (on_first (in_sync (Some connection) (synchronizeRepositoryIndex (sync_environment sr env) (sr_indexer sr) reader ref
           (pushed_commit sr (snd sp)) False))) (\<lambda>sync.
       bindS (case is_files sync of
                Some files \<Rightarrow> retS (is_yaml sync, files)
              | None \<Rightarrow> on_first (repositoryFilesForAnalysis reader (repo_id (con_repository connection)) ref (is_yaml sync) []))
         (\<lambda>(yamlConfig, files).
       bindS (put_payload ''tree_refresh_required'' (JBool True)) (\<lambda>_.
       bindS (put_payload ''rag_index_status'' (JStr (rr_status (is_result sync)))) (\<lambda>_.
       bindS (put_payload ''rag_commit_sha'' (JStr (rr_commit_sha (is_result sync)))) (\<lambda>_.
       bindS (put_payload ''recommendations_status'' (JStr ''skipped'')) (\<lambda>_.
         analysis_after_push sr env connection (rr_commit_sha (is_result sync)) yamlConfig files))))))) sp"

text \<open>What the processing makes of the event, by its type.\<close>

definition process_payload :: "'s server \<Rightarrow> request_env \<Rightarrow> gitflame_connection \<Rightarrow> string \<Rightarrow> ('s delivery_state, unit) op" where
  "process_payload sr env connection eventType =
     (if eventType = ''push'' then processRepositoryChange sr env connection
      else if eventType = ''issue'' then put_payload ''issues_refresh_required'' (JBool True)
      else retS ())"

definition settled_event ::
    "gotime \<Rightarrow> unit result \<Rightarrow> webhook_payload \<Rightarrow> gitflame_webhook_event \<Rightarrow> gitflame_webhook_event" where
  "settled_event finished outcome payload event0 =
     (let event = event0\<lparr>ev_payload := payload, ev_processed_at := Some finished,
            ev_status := (if ev_event_type event0 \<in> {''push'', ''issue''} then ev_status event0 else ''ignored'')\<rparr> in
      case outcome of
        Inl err \<Rightarrow> event\<lparr>ev_status := ''failed'',
          ev_error := Some \<lparr>te_http_status = 502, te_code = ''webhook_processing_failed'', te_detail = error_text err\<rparr>\<rparr>
      | Inr _ \<Rightarrow> if ev_status event = ''received'' then event\<lparr>ev_status := ''processed''\<rparr> else event)"

definition processGitFlameWebhookEvent ::
    "'s server \<Rightarrow> request_env \<Rightarrow> gitflame_connection \<Rightarrow> gitflame_webhook_event \<Rightarrow> ('s server_state, unit) op" where
  "processGitFlameWebhookEvent sr env connection event s =
     (case process_payload sr env connection (ev_event_type event) (s, ev_payload event) of
        (Inl (Panic t), (s', _)) \<Rightarrow> (Inl (Panic t), s')
      | (outcome, (s', payload)) \<Rightarrow>
          ignoring (in_store (SaveGitFlameWebhookEvent (re_now env 7) (re_id env 6)
            (settled_event (re_now env 6) outcome payload event))) s')"

end
