(* ===== verification/Handlers.thy ===== *)
theory Handlers imports Webhooks begin

text \<open>
  The remaining handlers of the API (auth.go, repository_data.go and server.go of backend/internal/httpapi). The strict
  decoding of a request body into a struct is a parameter: a handler takes the decoded request or the error. The
  handlers of issues and tasks call the workflow, the others the store, GitFlame and the services.
\<close>

section \<open>Sessions and connections\<close>

definition setSessionCookie :: "string \<Rightarrow> gotime \<Rightarrow> 's handler \<Rightarrow> 's handler" where
  "setSessionCookie cookie expiresAt h = with_cookie (Some (cookie, expiresAt)) h"

definition new_session :: "'s server \<Rightarrow> 's api_request \<Rightarrow> string \<Rightarrow> ('s server_state, app_session \<times> string \<times> bool) op" where
  "new_session sr rq accessToken = in_sync None (createSessionFromGitFlameToken (sr_backend sr) (aq_env rq) accessToken)"

definition createGitFlameSession :: "'s server \<Rightarrow> 's api_request \<Rightarrow> string result \<Rightarrow> 's handler" where
  "createGitFlameSession sr rq decoded =
     attempt (liftR decoded) invalid_body (\<lambda>accessToken.
     attempt (new_session sr rq accessToken) (integrationError ''gitflame_auth_error'') (\<lambda>(session, cookie, created).
       setSessionCookie cookie (aps_expires_at session) (reply 201 (Session_body (aps_user session) (aps_expires_at session)))))"

definition revokeSession :: "'s server \<Rightarrow> 's api_request \<Rightarrow> 's handler" where
  "revokeSession sr rq =
     attempt (authenticated_request sr rq) authError (\<lambda>session.
     attempt (in_store (RevokeAppSession (aq_now rq 9) (aps_id session)))
       (resourceError ''session_not_found'' ''application session was not found'') (\<lambda>_.
       with_cookie None (reply 204 No_body)))"

text \<open>The common end of connecting and reconnecting: the connection is stored, and its index is brought up in the
  background.\<close>

definition store_connection ::
    "'s server \<Rightarrow> 's api_request \<Rightarrow> app_user \<Rightarrow> connection_request \<Rightarrow> string \<Rightarrow> bool \<Rightarrow> int \<Rightarrow> 's handler" where
  "store_connection sr rq user req existingID force status =
     attempt (in_sync None (connectionFromRequest (sr_backend sr) (aq_env rq) user req existingID))
       (integrationError ''gitflame_connection_error'') (\<lambda>connection.
     attempt (in_store (SaveGitFlameConnection (aq_now rq 9) (re_id (aq_env rq) 3) (aq_orders rq 2) connection)) storage_error (\<lambda>saved.
     attempt (liftR (gitFlameReaderFromStoredConnection (sr_backend sr) (aq_now rq 10) (Some saved)))
       (integrationError ''gitflame_repository_error'') (\<lambda>reader.
     attempt (startRepositoryIndexInBackground sr (aq_now rq 6) (aq_now rq 7) reader saved (con_default_branch saved) force)
       storage_error (\<lambda>_.
       reply status (Connection_body saved)))))"

text \<open>Without a session, connecting makes one; its cookie is sent whatever comes after.\<close>

definition saveGitFlameConnection :: "'s server \<Rightarrow> 's api_request \<Rightarrow> connection_request result \<Rightarrow> 's handler" where
  "saveGitFlameConnection sr rq decoded =
     attempt (liftR decoded) invalid_body (\<lambda>req.
     attempt_or (authenticated_request sr rq)
       (\<lambda>err.
          if err \<noteq> ErrNotFound then answer (authError err)
          else
            attempt (new_session sr rq (cq_access_token req)) (integrationError ''gitflame_auth_error'') (\<lambda>(session, cookie, created).
              if created
              then setSessionCookie cookie (aps_expires_at session) (store_connection sr rq (aps_user session) req [] False 201)
              else store_connection sr rq (aps_user session) req [] False 201))
       (\<lambda>session. store_connection sr rq (aps_user session) req [] False 201))"

definition with_existing :: "connection_request \<Rightarrow> gitflame_connection \<Rightarrow> connection_request" where
  "with_existing req existing =
     req\<lparr>cq_repository := (if repo_id (cq_repository req) = [] then con_repository existing else cq_repository req),
       cq_repo_url := (if cq_repo_url req = [] then con_repo_url existing else cq_repo_url req),
       cq_default_branch := (if cq_default_branch req = [] then con_default_branch existing else cq_default_branch req)\<rparr>"

definition connection_missing :: "go_error \<Rightarrow> api_reply" where
  "connection_missing = resourceError ''connection_not_found'' ''GitFlame connection was not found''"

definition reconnectGitFlameConnection :: "'s server \<Rightarrow> 's api_request \<Rightarrow> connection_request result \<Rightarrow> 's handler" where
  "reconnectGitFlameConnection sr rq decoded =
     attempt (authenticated_request sr rq) authError (\<lambda>session.
     attempt (in_store (UserGitFlameConnection (user_id (aps_user session)) (aq_id rq))) connection_missing (\<lambda>existing.
     attempt (liftR decoded) invalid_body (\<lambda>req.
       store_connection sr rq (aps_user session) (with_existing req existing) (con_id existing) True 200)))"

definition revokeGitFlameConnection :: "'s server \<Rightarrow> 's api_request \<Rightarrow> 's handler" where
  "revokeGitFlameConnection sr rq =
     attempt (authenticated_request sr rq) authError (\<lambda>session.
     attempt (in_store (RevokeGitFlameConnection (aq_now rq 9) (user_id (aps_user session)) (aq_id rq))) connection_missing (\<lambda>connection.
       reply 200 (Connection_body connection)))"

section \<open>Repositories\<close>

definition repositoryIndexStatus :: "'s server \<Rightarrow> 's api_request \<Rightarrow> 's handler" where
  "repositoryIndexStatus sr rq =
     attempt (authenticatedConnection sr rq (aq_id rq)) (integrationError ''gitflame_repository_error'') (\<lambda>connection s.
       let described = no_job_status\<lparr>ij_repository_id := repo_id (con_repository connection), ij_connection_id := con_id connection\<rparr> in
       if sr_indexer sr = None then reply 200 (Index_body (described\<lparr>ij_status := indexStatusDisabled\<rparr>)) s
       else
         (case job_status (repo_id (con_repository connection)) (hs_jobs s) of
            (st, known) \<Rightarrow>
              reply 200 (Index_body (if known then st
                else described\<lparr>ij_ref := con_default_branch connection, ij_status := indexStatusIdle\<rparr>)) s))"

definition saveRepositoryConfig :: "'s server \<Rightarrow> 's api_request \<Rightarrow> string result \<Rightarrow> 's handler" where
  "saveRepositoryConfig sr rq decoded =
     attempt (authenticatedConnection sr rq (aq_id rq)) (integrationError ''gitflame_repository_error'') (\<lambda>connection.
     attempt (liftR decoded) invalid_body (\<lambda>yamlConfig.
     attempt (liftR (ParseAIConfig (bk_unmarshal (sr_backend sr)) yamlConfig)) (\<lambda>err. Problem 422 ''validation_error'' (error_text err)) (\<lambda>cfg.
     attempt (in_store (SaveAIConfig (con_repository connection) cfg)) storage_error (\<lambda>_.
     attempt (liftR (gitFlameReaderFromStoredConnection (sr_backend sr) (aq_now rq 2) (Some connection)))
       (integrationError ''gitflame_repository_error'') (\<lambda>reader.
     attempt (startRepositoryIndexInBackground sr (aq_now rq 6) (aq_now rq 7) reader connection (con_default_branch connection) True)
       storage_error (\<lambda>indexJob.
       reply 200 (Config_body (repo_id (con_repository connection)) (cfg_raw cfg) indexJob)))))))"

definition requested_ref :: "'s api_request \<Rightarrow> gitflame_connection \<Rightarrow> string" where
  "requested_ref rq connection =
     (let ref = trim_space (aq_query rq ''ref'') in if ref = [] then con_default_branch connection else ref)"

definition reader_for_connection :: "'s server \<Rightarrow> 's api_request \<Rightarrow> ('s server_state, 's repository_reader \<times> gitflame_connection) op" where
  "reader_for_connection sr rq = in_sync None (gitFlameReaderForConnection (sr_backend sr) (aq_env rq) (aq_id rq))"

definition repositoryTree :: "'s server \<Rightarrow> 's api_request \<Rightarrow> 's handler" where
  "repositoryTree sr rq =
     attempt (reader_for_connection sr rq) (integrationError ''gitflame_repository_error'') (\<lambda>(reader, connection).
       let ref = requested_ref rq connection; repositoryID = repo_id (con_repository connection) in
       attempt (startRepositoryIndexInBackground sr (aq_now rq 6) (aq_now rq 7) reader connection ref False) storage_error (\<lambda>indexJob.
       attempt (in_world (rd_tree reader repositoryID ref)) (integrationError ''gitflame_tree_error'') (\<lambda>tree.
       attempt (touch (aq_now rq 9) connection) storage_error (\<lambda>_.
         reply 200 (Tree_body repositoryID ref tree indexJob)))))"

text \<open>The stored configuration of a repository, empty when there is none.\<close>

definition latest_config_text :: "string \<Rightarrow> ('s server_state, string) op" where
  "latest_config_text repositoryID =
     tryS (in_store (LatestAIConfig repositoryID)) (\<lambda>r.
       case r of
         Inr stored \<Rightarrow> retS (cfg_raw stored)
       | Inl err \<Rightarrow> if err = ErrNotFound then retS [] else failS err)"

definition repositoryFiles_handler :: "'s server \<Rightarrow> 's api_request \<Rightarrow> 's handler" where
  "repositoryFiles_handler sr rq =
     attempt (reader_for_connection sr rq) (integrationError ''gitflame_repository_error'') (\<lambda>(reader, connection).
       let ref = requested_ref rq connection; repositoryID = repo_id (con_repository connection) in
       attempt (latest_config_text repositoryID) storage_error (\<lambda>storedConfig.
       attempt (startRepositoryIndexInBackground sr (aq_now rq 6) (aq_now rq 7) reader connection ref False) storage_error (\<lambda>indexJob.
       attempt (repositoryFilesForAnalysis reader repositoryID ref storedConfig []) (integrationError ''gitflame_files_error'')
         (\<lambda>(yamlConfig, files).
       attempt (touch (aq_now rq 9) connection) storage_error (\<lambda>_.
         reply 200 (Files_body repositoryID ref yamlConfig files indexJob))))))"

definition repositoryIssues_handler :: "'s server \<Rightarrow> 's api_request \<Rightarrow> 's handler" where
  "repositoryIssues_handler sr rq =
     attempt (reader_for_connection sr rq) (integrationError ''gitflame_repository_error'') (\<lambda>(reader, connection).
       let repositoryID = repo_id (con_repository connection) in
       attempt (in_world (rd_issues reader repositoryID)) (integrationError ''gitflame_issues_error'') (\<lambda>issues.
       attempt (touch (aq_now rq 9) connection) storage_error (\<lambda>_.
         reply 200 (Issues_body repositoryID issues))))"

section \<open>Issues, plans and tasks\<close>

definition analyze :: "'s server \<Rightarrow> 's api_request \<Rightarrow> issue_analyze_request result \<Rightarrow> 's handler" where
  "analyze sr rq decoded =
     attempt (liftR decoded) invalid_body (\<lambda>req0.
     attempt (hydrateAnalyzeRequest sr rq req0) (integrationError ''gitflame_repository_error'') (\<lambda>req1.
     attempt (ensureRequestRepositoryIndex sr rq (req_repository req1)) (integrationError ''rag_indexing_failed'') (\<lambda>metadata.
       let req = req1\<lparr>req_repository := metadata\<rparr> in
       attempt (in_flow (Analyze (bk_unmarshal (sr_backend sr)) (sr_dispatcher sr) (aq_ambient rq) req)) workflowError (\<lambda>(session, task).
         reply 202 (Analyze_body \<lparr>ra_session_id = ses_id session, ra_task_id = task_id task, ra_issue_id = issue_id (req_issue req),
           ra_repository_id = repo_id (req_repository req), ra_status = task_status task,
           ra_status_url = ''/ai/tasks/'' @ task_id task\<rparr>)))))"

definition task_view :: "agent_task \<Rightarrow> generated_files_contract option \<Rightarrow> task_response" where
  "task_view v files =
     \<lparr>rt_task_id = task_id v, rt_session_id = task_session_id v, rt_issue_id = task_issue_id v, rt_type = task_type v,
      rt_status = task_status v, rt_attempt = task_attempt v, rt_plan_markdown = task_plan_markdown v,
      rt_tool_execution_summary = task_tool_execution_summary v, rt_relevant_files = task_relevant_files v,
      rt_model = task_model v, rt_usage = task_usage v, rt_error = task_err v, rt_generated_files = files\<rparr>"

definition task_handler :: "'s api_request \<Rightarrow> 's handler" where
  "task_handler rq =
     attempt (in_store (Task (aq_id rq))) (resourceError ''task_not_found'' ''agent task was not found'') (\<lambda>v s.
       let files = (if task_type v = TaskCodeGeneration then
             (case fst (Session (task_session_id v) (hs_store s)) of Inl _ \<Rightarrow> None | Inr session \<Rightarrow> ses_generated_files session)
           else None) in
       reply 200 (Task_body (task_view v files)) s)"

definition action_of_task :: "agent_task \<Rightarrow> string \<Rightarrow> action_response" where
  "action_of_task task message =
     \<lparr>rc_session_id = task_session_id task, rc_issue_id = task_issue_id task, rc_status = task_status task, rc_message = message,
      rc_task_id = task_id task, rc_status_url = ''/ai/tasks/'' @ task_id task, rc_generated_files = None\<rparr>"

definition action_of_session :: "issue_session \<Rightarrow> string \<Rightarrow> action_response" where
  "action_of_session session message =
     \<lparr>rc_session_id = ses_id session, rc_issue_id = issue_of session, rc_status = ses_status session, rc_message = message,
      rc_task_id = [], rc_status_url = [], rc_generated_files = None\<rparr>"

definition retryTask :: "'s server \<Rightarrow> 's api_request \<Rightarrow> 's handler" where
  "retryTask sr rq =
     attempt (in_flow (Retry (sr_dispatcher sr) (aq_ambient rq) (aq_id rq))) workflowError (\<lambda>task.
       reply 202 (Action_body (action_of_task task ''Retry task queued.'')))"

definition session_missing :: "go_error \<Rightarrow> api_reply" where
  "session_missing = resourceError ''session_not_found'' ''issue session was not found''"

definition plan_handler :: "'s api_request \<Rightarrow> 's handler" where
  "plan_handler rq =
     attempt (in_store (Session (aq_id rq))) session_missing (\<lambda>v.
       if trim_space (ses_plan_markdown v) = [] then refuse 409 ''plan_not_ready'' ''plan generation has not completed''
       else reply 200 (Plan_body \<lparr>rp_session_id = ses_id v, rp_issue_id = issue_of v,
         rp_repository_id = repo_id (req_repository (ses_request v)), rp_status = ses_status v,
         rp_plan_markdown = ses_plan_markdown v, rp_revision = ses_revision v\<rparr>))"

definition approve_handler :: "'s server \<Rightarrow> 's api_request \<Rightarrow> string option result \<Rightarrow> 's handler" where
  "approve_handler sr rq decoded =
     attempt (liftR decoded) invalid_body (\<lambda>edited.
     attempt (in_flow (Approve (sr_dispatcher sr) (aq_ambient rq) (aq_id rq) edited)) workflowError (\<lambda>(v, task).
       reply 202 (Action_body ((action_of_session v ''Plan approved. Code generation task queued.'')
         \<lparr>rc_task_id := task_id task, rc_status_url := ''/ai/issues/'' @ issue_of v @ ''/code-generation'',
          rc_generated_files := ses_generated_files v\<rparr>))))"

definition codeGenerationStatus :: "'s api_request \<Rightarrow> 's handler" where
  "codeGenerationStatus rq =
     attempt (in_store (Session (aq_id rq))) session_missing (\<lambda>session.
     attempt (in_store (LatestTask (am_order (aq_ambient rq)) (ses_id session)))
       (resourceError ''task_not_found'' ''code generation task was not found'') (\<lambda>task.
       if task_type task \<noteq> TaskCodeGeneration then
         refuse 409 ''code_generation_not_started'' ''code generation has not been queued for this issue''
       else reply 200 (Task_body ((task_view task (ses_generated_files session))\<lparr>rt_plan_markdown := [], rt_relevant_files := []\<rparr>))))"

definition correct_handler :: "'s server \<Rightarrow> 's api_request \<Rightarrow> string result \<Rightarrow> 's handler" where
  "correct_handler sr rq decoded =
     attempt (liftR decoded) invalid_body (\<lambda>feedback.
     attempt (in_flow (Correct (sr_dispatcher sr) (aq_ambient rq) (aq_id rq) feedback)) workflowError (\<lambda>task.
       reply 202 (Action_body (action_of_task task ''Correction task queued.''))))"

definition reject_handler :: "'s api_request \<Rightarrow> 's handler" where
  "reject_handler rq =
     attempt (in_flow (Reject (aq_ambient rq) (aq_id rq))) workflowError (\<lambda>v.
       reply 200 (Action_body (action_of_session v ''Plan rejected.'')))"

end
