(* ===== verification/Handlers_Apply.thy ===== *)
theory Handlers_Apply imports Handlers begin

text \<open>
  The handlers that reach beyond the store and the workflow: writing generated files to GitFlame and recommendation
  analysis (server.go of backend/internal/httpapi).
\<close>

section \<open>Applying generated files\<close>

text \<open>The generated files of a session, each operation with a status and the contract with the outcome.\<close>

definition marked_files :: "string \<Rightarrow> generated_files_contract \<Rightarrow> generated_files_contract" where
  "marked_files status contract = contract\<lparr>gc_files := map (\<lambda>f. f\<lparr>gf_status := status\<rparr>) (gc_files contract)\<rparr>"

definition failed_contract :: "gotime \<Rightarrow> string \<Rightarrow> generated_files_contract \<Rightarrow> generated_files_contract" where
  "failed_contract now detail contract =
     contract\<lparr>gc_apply_status := ''failed'', gc_apply_error := detail, gc_applied_at := Some now\<rparr>"

definition applied_contract :: "gotime \<Rightarrow> gitflame_apply_result \<Rightarrow> generated_files_contract \<Rightarrow> generated_files_contract" where
  "applied_contract now outcome contract =
     marked_files ''applied'' (contract\<lparr>gc_apply_status := ''applied'', gc_apply_error := [], gc_commit_sha := apr_commit_sha outcome,
       gc_pull_request_id := apr_pull_request_id outcome, gc_pull_request_url := apr_pull_request_url outcome,
       gc_applied_at := Some now\<rparr>)"

definition apply_contract :: "issue_session \<Rightarrow> generated_files_contract \<Rightarrow> generated_files_contract" where
  "apply_contract session contract =
     contract\<lparr>gc_files := DropNoopGeneratedFilesForApply (gc_files contract) (req_repository_files (ses_request session))\<rparr>"

definition with_contract :: "issue_session \<Rightarrow> generated_files_contract \<Rightarrow> issue_session" where
  "with_contract session contract = session\<lparr>ses_generated_files := Some contract\<rparr>"

definition no_effective_changes :: string where
  "no_effective_changes = ''generated files contain no effective changes to apply''"

definition applied_reply :: "issue_session \<Rightarrow> string \<Rightarrow> 's handler" where
  "applied_reply session message =
     reply 200 (Action_body ((action_of_session session message)\<lparr>rc_generated_files := ses_generated_files session\<rparr>))"

definition save_session :: "gotime \<Rightarrow> issue_session \<Rightarrow> ('s server_state, issue_session) op" where
  "save_session now session = in_store (UpdateSession now session)"

text \<open>The part that reaches GitFlame; a failure is recorded, and the error of recording it is dropped.\<close>

definition apply_to_gitflame ::
    "'s server \<Rightarrow> 's api_request \<Rightarrow> gotime \<Rightarrow> issue_session \<Rightarrow> generated_files_contract \<Rightarrow> 's handler" where
  "apply_to_gitflame sr rq now session contract =
     attempt (in_sync None (gitFlameSourceForRepository (sr_backend sr) (aq_env rq) (repo_id (req_repository (ses_request session)))))
       (integrationError ''gitflame_client_unavailable'') (\<lambda>(source, connection).
       case source of
         None \<Rightarrow> refuse 503 ''gitflame_client_unavailable'' ''GitFlame API client is not configured''
       | Some gitflame \<Rightarrow>
           attempt_or (in_world (gs_apply gitflame (req_repository (ses_request session)) (apply_contract session contract)))
             (\<lambda>err.
               attempt (ignoring (save_session (aq_now rq 7) (with_contract session (failed_contract now (error_text err) contract))))
                 storage_error (\<lambda>_. answer (integrationError ''gitflame_apply_error'' err)))
             (\<lambda>outcome.
               attempt (save_session (aq_now rq 7) (with_contract session (applied_contract now outcome contract))) storage_error (\<lambda>saved.
               attempt (touch_optional (aq_now rq 8) connection) storage_error (\<lambda>_.
                 applied_reply saved ''Generated files applied to GitFlame.''))))"

definition applyGeneratedFiles_handler :: "'s server \<Rightarrow> 's api_request \<Rightarrow> 's handler" where
  "applyGeneratedFiles_handler sr rq =
     attempt (in_store (Session (aq_id rq))) session_missing (\<lambda>session.
       case ses_generated_files session of
         None \<Rightarrow> refuse 409 ''generated_files_not_ready'' ''code generation has not produced files to apply''
       | Some contract \<Rightarrow>
           if gc_files contract = [] then
             refuse 409 ''generated_files_not_ready'' ''code generation has not produced files to apply''
           else if gc_apply_status contract = ''applied'' then
             applied_reply session ''Generated files already applied to GitFlame.''
           else if gc_files (apply_contract session contract) = [] then
             attempt (save_session (aq_now rq 7) (with_contract session
                 (marked_files ''skipped'' (failed_contract (aq_now rq 6) no_effective_changes contract)))) storage_error (\<lambda>_.
               refuse 409 ''no_effective_generated_changes'' no_effective_changes)
           else apply_to_gitflame sr rq (aq_now rq 6) session contract)"

section \<open>Recommendations\<close>

record recommendation_request =
  rr_repository :: repository_metadata
  rr_yaml_config :: string
  rr_categories :: "string list"
  rr_repository_files :: "repository_file list"
  rr_repository_context :: "string list"

definition validation_error :: "go_error \<Rightarrow> api_reply" where
  "validation_error err = Problem 422 ''validation_error'' (error_text err)"

text \<open>The files are read, checked and indexed before the service is asked.\<close>

definition recommend ::
    "'s server \<Rightarrow> 's api_request \<Rightarrow> ai_config \<Rightarrow> repository_metadata \<Rightarrow> string \<Rightarrow> repository_file list \<Rightarrow> 's handler" where
  "recommend sr rq cfg metadata0 yamlConfig files =
     attempt (ensureRequestRepositoryIndex sr rq metadata0) (integrationError ''rag_indexing_failed'') (\<lambda>metadata.
       case sr_recommender sr of
         None \<Rightarrow> refuse 503 ''recommendation_service_unavailable'' ''recommendation service client is not configured''
       | Some recommender \<Rightarrow>
           attempt (in_world (recommender metadata yamlConfig files)) (integrationError ''recommendation_service_error'') (\<lambda>(text, cards).
           attempt (save_report sr metadata cfg text (fill_cards (card_ids (aq_env rq)) 0 cards)) storage_error (\<lambda>report.
             reply 200 (Report_body report))))"

definition analyzeRecommendations :: "'s server \<Rightarrow> 's api_request \<Rightarrow> recommendation_request result \<Rightarrow> 's handler" where
  "analyzeRecommendations sr rq decoded =
     attempt (liftR decoded) invalid_body (\<lambda>req.
       let repositoryID = repositoryIDFromRequest rq; metadata = rr_repository req in
       if repositoryID \<noteq> [] \<and> repo_id metadata \<noteq> repositoryID then
         refuse 422 ''validation_error'' ''path repository id must match payload repository id''
       else
         attempt (liftR (ParseAIConfig (bk_unmarshal (sr_backend sr)) (rr_yaml_config req))) validation_error (\<lambda>cfg.
           if \<not> cfg_recommendations_enabled cfg then
             attempt (save_report sr metadata cfg recommendations_disabled []) storage_error (\<lambda>report. reply 200 (Report_body report))
           else
             attempt (in_sync None (gitFlameReaderForRepository (sr_backend sr) (aq_env rq) (repo_id metadata)))
               (integrationError ''gitflame_repository_error'') (\<lambda>(reader, connection).
             attempt (repositoryFilesForAnalysis reader (repo_id metadata) (repo_default_branch metadata) (rr_yaml_config req)
                 (files_of_request (rr_repository_files req) (rr_repository_context req)))
               (integrationError ''gitflame_files_error'') (\<lambda>(yamlConfig, files).
             attempt (touch_optional (aq_now rq 9) connection) storage_error (\<lambda>_.
               case ValidateRepositoryFilesForIntegration files of
                 Some err \<Rightarrow> answer (validation_error err)
               | None \<Rightarrow> recommend sr rq cfg metadata yamlConfig files)))))"

definition report_missing :: "go_error \<Rightarrow> api_reply" where
  "report_missing = resourceError ''recommendations_not_found'' ''recommendation report was not found''"

definition recommendationStatus :: "'s api_request \<Rightarrow> 's handler" where
  "recommendationStatus rq =
     attempt (in_store (Recommendations (repositoryIDFromRequest rq))) report_missing (\<lambda>v.
       let shut = go_len (filter (\<lambda>c. card_state c = ''closed'') (rep_recommendations v)) in
       reply 200 (Report_status_body (rep_repository_id v) (rep_status v) (go_len (rep_recommendations v))
         (go_len (rep_recommendations v) - shut) shut))"

definition recommendationSummary :: "'s api_request \<Rightarrow> 's handler" where
  "recommendationSummary rq =
     attempt (in_store (Recommendations (repositoryIDFromRequest rq))) report_missing (\<lambda>v.
       reply 200 (Summary_body (rep_repository_id v) (rep_summary v)))"

definition recommendations_handler :: "'s api_request \<Rightarrow> 's handler" where
  "recommendations_handler rq =
     attempt (in_store (Recommendations (repositoryIDFromRequest rq))) report_missing (\<lambda>v.
       reply 200 (Cards_body (rep_repository_id v) (rep_recommendations v)))"

definition card_missing :: "go_error \<Rightarrow> api_reply" where
  "card_missing = resourceError ''recommendation_not_found'' ''recommendation was not found''"

definition closeRecommendation_handler :: "'s api_request \<Rightarrow> 's handler" where
  "closeRecommendation_handler rq =
     attempt (in_store (CloseRecommendation (aq_orders rq 3) (aq_id rq))) card_missing (\<lambda>v. reply 200 (Card_body v))"

definition deleteRecommendation_handler :: "'s api_request \<Rightarrow> 's handler" where
  "deleteRecommendation_handler rq =
     attempt (in_store (DeleteRecommendation (aq_orders rq 3) (aq_id rq))) card_missing (\<lambda>_. reply 204 No_body)"

end
