(* ===== verification/Ops.thy ===== *)
theory Ops imports Handlers_Apply Redis_Broker begin

text \<open>
  The handlers that describe the deployment: readiness (server.go) and the operational views (ops.go of
  backend/internal/httpapi). The checks of the dependencies and the broker are operations on the outside world.
\<close>

section \<open>Dependencies\<close>

text \<open>The loop over the dependencies, in the order in which they are visited, with what each check gives.\<close>

fun run_checks :: "(string \<times> ('s, unit) op) list \<Rightarrow> 's \<Rightarrow> (string \<times> go_error option) list \<times> 's" where
  "run_checks [] w = ([], w)"
| "run_checks ((component, check) # checks) w =
     (case check w of
        (r, w1) \<Rightarrow>
          (case run_checks checks w1 of
             (outcomes, w2) \<Rightarrow> ((component, case r of Inl err \<Rightarrow> Some err | Inr _ \<Rightarrow> None) # outcomes, w2)))"

definition ready :: "'s server \<Rightarrow> 's handler" where
  "ready sr s =
     (case run_checks (sr_checks sr) (hs_world s) of
        (outcomes, w) \<Rightarrow>
          let up = list_all (\<lambda>o1. snd o1 = None) outcomes in
          (Reply (if up then 200 else 503) (Ready_body (if up then ''ready'' else ''not_ready'')
             (map (\<lambda>(component, failure). (component, if failure = None then ''ready'' else ''unavailable'')) outcomes)),
           s\<lparr>hs_world := w\<rparr>))"

record ops_dependency =
  od_component :: string
  od_status :: string
  od_error :: string

definition dependency_of :: "string \<times> go_error option \<Rightarrow> ops_dependency" where
  "dependency_of outcome =
     (case snd outcome of
        None \<Rightarrow> \<lparr>od_component = fst outcome, od_status = ''ok'', od_error = []\<rparr>
      | Some err \<Rightarrow> \<lparr>od_component = fst outcome, od_status = ''down'', od_error = truncateDetail (error_text err) indexJobErrorLimit\<rparr>)"

text \<open>The insertion sort of \<open>sortDependencies\<close>: the inner loop moves an element to the left as long as it is smaller. The
  part of the slice before it is held in reverse.\<close>

fun sink :: "ops_dependency \<Rightarrow> ops_dependency list \<Rightarrow> ops_dependency list" where
  "sink x [] = [x]"
| "sink x (y # ys) = (if od_component x < od_component y then y # sink x ys else x # y # ys)"

definition sortDependencies :: "ops_dependency list \<Rightarrow> ops_dependency list" where
  "sortDependencies dependencies = rev (foldl (\<lambda>before x. sink x before) [] dependencies)"

lemma mset_sink [simp]: "mset (sink x ys) = add_mset x (mset ys)"
  by (induction ys) auto

lemma sink_descending:
  "sorted_wrt (\<lambda>a b. od_component b \<le> od_component a) ys \<Longrightarrow> sorted_wrt (\<lambda>a b. od_component b \<le> od_component a) (sink x ys)"
proof (induction ys)
  case (Cons y ys)
  have "set (sink x ys) = insert x (set ys)" by (metis mset_sink set_mset_mset set_mset_add_mset_insert)
  with Cons show ?case by (auto intro: order_trans)
qed simp

text \<open>An element stops behind the earlier ones of its own name.\<close>

lemma filter_sink [simp]:
  "filter (\<lambda>y. k = od_component y) (sink x ys) =
     (if k = od_component x then x # filter (\<lambda>y. k = od_component y) ys else filter (\<lambda>y. k = od_component y) ys)"
  by (induction ys) auto

definition sunk :: "ops_dependency list \<Rightarrow> ops_dependency list" where
  "sunk dependencies = foldl (\<lambda>before x. sink x before) [] dependencies"

lemma sunk_snoc: "sunk (xs @ [x]) = sink x (sunk xs)"
  by (simp add: sunk_def)

lemma sunk_facts:
  "mset (sunk xs) = mset xs \<and> sorted_wrt (\<lambda>a b. od_component b \<le> od_component a) (sunk xs) \<and>
   filter (\<lambda>y. k = od_component y) (sunk xs) = rev (filter (\<lambda>y. k = od_component y) xs)"
  by (induction xs rule: rev_induct) (auto simp: sunk_snoc sink_descending, simp_all add: sunk_def)

text \<open>The written-out insertion sort is the stable sort by name: the order of the checks decides only between dependencies
  of the same name.\<close>

theorem sortDependencies_is_stable_sort: "sortDependencies dependencies = sort_key od_component dependencies"
proof (rule properties_for_sort_key [symmetric])
  note facts = sunk_facts [of dependencies]
  have swap: "sortDependencies dependencies = rev (sunk dependencies)" by (simp add: sortDependencies_def sunk_def)
  show "mset (sortDependencies dependencies) = mset dependencies" using facts by (simp add: swap)
  show "filter (\<lambda>y. od_component k = od_component y) (sortDependencies dependencies) =
      filter (\<lambda>y. od_component k = od_component y) dependencies" for k
    using facts [of "od_component k"] by (simp add: swap rev_filter [symmetric])
  show "sorted (map od_component (sortDependencies dependencies))"
    using facts by (simp add: swap sorted_wrt_map sorted_wrt_rev)
qed

section \<open>The operational views\<close>

text \<open>What the views use of a Redis broker.\<close>

record 's ops_broker =
  ob_depths :: "('s, queue_depths) op"
  ob_dead_letters :: "int \<Rightarrow> ('s, dead_letter_entry list) op"

definition redis_ops :: "(string \<Rightarrow> agent_job result) \<Rightarrow> 'r executor \<Rightarrow> redis_broker \<Rightarrow> 'r ops_broker" where
  "redis_ops unmarshal exec b = \<lparr>ob_depths = Depths exec b, ob_dead_letters = DeadLetterEntries unmarshal exec b\<rparr>"

record ops_status =
  os_status :: string
  os_dependencies :: "ops_dependency list"
  os_queue :: "queue_depths option"
  os_tasks24h :: "string \<rightharpoonup> int"
  os_connections :: "string \<rightharpoonup> int"
  os_running :: int
  os_generated_at :: gotime
  os_warnings :: "string list"

text \<open>The views have replies of their own: a body with status 200, or a problem.\<close>

type_synonym ('s, 'a) view = "'s server_state \<Rightarrow> (api_reply + 'a) \<times> 's server_state"

definition queue_view :: "'s ops_broker option \<Rightarrow> 's \<Rightarrow> (queue_depths option \<times> string list) \<times> 's" where
  "queue_view broker w =
     (case broker of
        None \<Rightarrow> ((None, []), w)
      | Some b \<Rightarrow>
          (case ob_depths b w of
             (Inl err, w1) \<Rightarrow> ((None, [''queue depth is unavailable'']), w1)
           | (Inr depths, w1) \<Rightarrow> ((Some depths, []), w1)))"

definition store_view ::
    "gotime \<Rightarrow> string list \<Rightarrow> string list \<Rightarrow> memory_store \<Rightarrow> (string \<rightharpoonup> int) \<times> (string \<rightharpoonup> int) \<times> string list" where
  "store_view now corder torder st =
     (case fst (ObservabilityCounts now corder torder st) of
        Inl err \<Rightarrow> (Map.empty, Map.empty, [''task and connection counts are unavailable''])
      | Inr observed \<Rightarrow> (oc_tasks_by_status_last24h observed, oc_connections_by_token_status observed, []))"

definition opsStatus :: "'s server \<Rightarrow> 's ops_broker option \<Rightarrow> 's api_request \<Rightarrow> ('s, ops_status) view" where
  "opsStatus sr broker rq s =
     (case authenticated_request sr rq s of
        (Inl err, s1) \<Rightarrow> (Inl (authError err), s1)
      | (Inr session, s1) \<Rightarrow>
          let running = runningCount (aq_orders rq 5) (hs_jobs s1); generated = aq_now rq 2;
              (outcomes, w1) = run_checks (sr_checks sr) (hs_world s1);
              ((depths, warnings), w2) = queue_view broker w1;
              (tasks, connections, more_warnings) = store_view (aq_now rq 3) (aq_orders rq 2) (aq_orders rq 4) (hs_store s1) in
          (Inr \<lparr>os_status = (if list_all (\<lambda>o1. snd o1 = None) outcomes then ''ok'' else ''degraded''),
             os_dependencies = sortDependencies (map dependency_of outcomes), os_queue = depths, os_tasks24h = tasks,
             os_connections = connections, os_running = running, os_generated_at = generated,
             os_warnings = warnings @ more_warnings\<rparr>, s1\<lparr>hs_world := w2\<rparr>))"

definition opsDefaultTaskList :: int where
  "opsDefaultTaskList = 50"

definition opsMaxTaskList :: int where
  "opsMaxTaskList = 200"

definition ops_limit :: "string \<Rightarrow> int option" where
  "ops_limit raw =
     (if raw = [] then Some opsDefaultTaskList
      else (case parse_int raw of
              None \<Rightarrow> None
            | Some n \<Rightarrow> if n \<le> 0 \<or> n > opsMaxTaskList then None else Some n))"

definition opsTasks :: "'s server \<Rightarrow> 's api_request \<Rightarrow> 's handler" where
  "opsTasks sr rq =
     attempt (authenticated_request sr rq) authError (\<lambda>session.
       case ops_limit (aq_query rq ''limit'') of
         None \<Rightarrow> refuse 400 ''invalid_limit'' (''limit must be a positive integer not greater than '' @ int_text opsMaxTaskList)
       | Some limit \<Rightarrow>
           attempt (in_store (RecentAgentTasks (aq_orders rq 4) \<lparr>rq_limit = limit, rq_status = aq_query rq ''status''\<rparr>)) storage_error
             (\<lambda>tasks. reply 200 (Tasks_body tasks (go_len tasks))))"

definition opsDeadLetterLimit :: int where
  "opsDeadLetterLimit = 20"

text \<open>The entries with their number, and the note that there is no broker.\<close>

definition opsDeadLetter ::
    "'s server \<Rightarrow> 's ops_broker option \<Rightarrow> 's api_request \<Rightarrow> ('s, dead_letter_entry list \<times> int \<times> string option) view" where
  "opsDeadLetter sr broker rq s =
     (case authenticated_request sr rq s of
        (Inl err, s1) \<Rightarrow> (Inl (authError err), s1)
      | (Inr session, s1) \<Rightarrow>
          (case broker of
             None \<Rightarrow> (Inr ([], 0, Some ''the dead-letter stream exists only when TASK_DISPATCH_MODE=redis''), s1)
           | Some b \<Rightarrow>
               (case in_world (ob_dead_letters b opsDeadLetterLimit) s1 of
                  (Inl err, s2) \<Rightarrow> (Inl (Problem 503 ''queue_unavailable'' (error_text err)), s2)
                | (Inr entries, s2) \<Rightarrow> (Inr (entries, go_len entries, None), s2))))"

end
