(* ===== verification/Server_Steps.thy ===== *)
theory Server_Steps imports Ops Store_Properties begin

text \<open>
  The server as a system of small steps: one operation of the store under its lock, an answer of the outside world,
  jobs handed out by the workflow, and goroutines that start and end. Requests and goroutines of the server interleave by such
  steps. Every handler is a sequence of them, so what holds of all reachable states holds under every interleaving. The steps are
  more than the handlers do: they take any operation of the store with any arguments, and know nothing of the guards of the handlers,
  which are the subject of theorems about the handlers themselves.
\<close>

section \<open>Steps\<close>

inductive server_step :: "'s server_state \<Rightarrow> 's server_state \<Rightarrow> bool" where
  store_operation: "store_step (hs_store s) st \<Longrightarrow> server_step s (s\<lparr>hs_flow := (hs_flow s)\<lparr>ws_store := st\<rparr>\<rparr>)"
| outside_world: "server_step s (s\<lparr>hs_world := w\<rparr>)"
| handed_out: "ws_store f = hs_store s \<Longrightarrow> server_step s (s\<lparr>hs_flow := f\<rparr>)"
| index_started:
    "begin_job now started (repo_id (con_repository (xr_connection job))) conn ref force (hs_jobs s) = ((st, True), rg) \<Longrightarrow>
     server_step s (s\<lparr>hs_jobs := rg, hs_background := hs_background s @ [Index_run job]\<rparr>)"
| index_finished:
    "Index_run job \<in> set (hs_background s) \<Longrightarrow>
     finish_job now (repo_id (con_repository (xr_connection job))) outcome failure (hs_jobs s) = (res, rg) \<Longrightarrow>
     server_step s (s\<lparr>hs_jobs := rg, hs_background := remove1 (Index_run job) (hs_background s)\<rparr>)"
| delivery_started: "server_step s (s\<lparr>hs_background := hs_background s @ [Delivery_run connection event]\<rparr>)"
| delivery_finished:
    "Delivery_run connection event \<in> set (hs_background s) \<Longrightarrow>
     server_step s (s\<lparr>hs_background := remove1 (Delivery_run connection event) (hs_background s)\<rparr>)"

definition initial_server_state :: "'s \<Rightarrow> 's server_state" where
  "initial_server_state w =
     \<lparr>hs_flow = \<lparr>ws_store = NewMemoryStore, ws_published = [], ws_spawned = [], ws_executed = []\<rparr>, hs_world = w,
      hs_jobs = newIndexJobRegistry, hs_background = []\<rparr>"

definition server_reachable :: "'s server_state \<Rightarrow> bool" where
  "server_reachable s \<longleftrightarrow> (\<exists>w. server_step\<^sup>*\<^sup>* (initial_server_state w) s)"

text \<open>The store moves by its own steps.\<close>

lemma server_step_store: "server_step s s' \<Longrightarrow> store_step\<^sup>*\<^sup>* (hs_store s) (hs_store s')"
  by (induction rule: server_step.induct) auto

lemma server_run_store: "server_step\<^sup>*\<^sup>* s s' \<Longrightarrow> store_step\<^sup>*\<^sup>* (hs_store s) (hs_store s')"
proof (induction rule: rtranclp_induct)
  case (step s' s'')
  then show ?case using server_step_store rtranclp_trans by metis
qed simp

lemma server_reachable_store: "server_reachable s \<Longrightarrow> reachable_store (hs_store s)"
  unfolding server_reachable_def reachable_store_def
  by (auto dest: server_run_store simp: initial_server_state_def)

lemma server_reachable_run: "server_reachable s \<Longrightarrow> server_step\<^sup>*\<^sup>* s s' \<Longrightarrow> server_reachable s'"
  unfolding server_reachable_def by (meson rtranclp_trans)

lemma store_run_is_run:
  "store_step\<^sup>*\<^sup>* (hs_store s) st \<Longrightarrow> server_step\<^sup>*\<^sup>* s (s\<lparr>hs_flow := (hs_flow s)\<lparr>ws_store := st\<rparr>\<rparr>)"
proof (induction rule: rtranclp_induct)
  case (step st st')
  have "server_step (s\<lparr>hs_flow := (hs_flow s)\<lparr>ws_store := st\<rparr>\<rparr>) (s\<lparr>hs_flow := (hs_flow s)\<lparr>ws_store := st'\<rparr>\<rparr>)"
    using store_operation [of "s\<lparr>hs_flow := (hs_flow s)\<lparr>ws_store := st\<rparr>\<rparr>" st'] step(2) by simp
  with step.IH show ?case by (rule rtranclp.rtrancl_into_rtrancl)
qed simp

section \<open>Operations are runs\<close>

text \<open>\<open>reaches s0\<close>: the states that the system can reach from \<open>s0\<close>. An operation that keeps it is a sequence of steps.\<close>

definition reaches :: "'s server_state \<Rightarrow> 's server_state \<Rightarrow> bool" where
  "reaches s0 s \<longleftrightarrow> server_step\<^sup>*\<^sup>* s0 s"

lemma reaches_self: "reaches s s"
  by (simp add: reaches_def)

lemma reaches_step: "reaches s0 s \<Longrightarrow> server_step s s' \<Longrightarrow> reaches s0 s'"
  unfolding reaches_def by (rule rtranclp.rtrancl_into_rtrancl)

lemma reaches_run: "reaches s0 s \<Longrightarrow> server_step\<^sup>*\<^sup>* s s' \<Longrightarrow> reaches s0 s'"
  unfolding reaches_def by (rule rtranclp_trans)

lemma reaches_store:
  "reaches s0 s \<Longrightarrow> store_step\<^sup>*\<^sup>* (hs_store s) st \<Longrightarrow> reaches s0 (s\<lparr>hs_flow := (hs_flow s)\<lparr>ws_store := st\<rparr>\<rparr>)"
  by (rule reaches_run [OF _ store_run_is_run])

lemma keeps_reaches_store [keeps_intros]:
  "(\<And>st. store_step\<^sup>*\<^sup>* st (snd (m st))) \<Longrightarrow> keeps (reaches s0) (in_store m)"
  by (rule keeps_in_store) (rule reaches_store)

lemma keeps_reaches_world [keeps_intros]: "keeps (reaches s0) (in_world m)"
proof (rule keepsI)
  fix s assume s: "reaches s0 s"
  obtain r w where "m (hs_world s) = (r, w)" by fastforce
  then show "reaches s0 (snd (in_world m s))" using reaches_step [OF s outside_world [of s w]] by (simp add: in_world_def)
qed

lemma keeps_reaches_flow:
  assumes "\<And>f. store_step\<^sup>*\<^sup>* (ws_store f) (ws_store (snd (m f)))"
  shows "keeps (reaches s0) (in_flow m)"
proof (rule keepsI)
  fix s assume s: "reaches s0 s"
  obtain r f where m: "m (hs_flow s) = (r, f)" by fastforce
  have "store_step\<^sup>*\<^sup>* (hs_store s) (ws_store f)" using assms [of "hs_flow s"] m by simp
  then have "reaches s0 (s\<lparr>hs_flow := (hs_flow s)\<lparr>ws_store := ws_store f\<rparr>\<rparr>)" by (rule reaches_store [OF s])
  then have "reaches s0 (s\<lparr>hs_flow := (hs_flow s)\<lparr>ws_store := ws_store f\<rparr>, hs_flow := f\<rparr>)"
    using reaches_step handed_out [of f "s\<lparr>hs_flow := (hs_flow s)\<lparr>ws_store := ws_store f\<rparr>\<rparr>"] by fastforce
  then show "reaches s0 (snd (in_flow m s))" by (simp add: in_flow_def m)
qed

text \<open>Operations on a connection's pointer, from their parts.\<close>

definition sync_to :: "'s server_state \<Rightarrow> 's sync_state \<Rightarrow> 's server_state" where
  "sync_to s y = s\<lparr>hs_flow := (hs_flow s)\<lparr>ws_store := sy_store y\<rparr>, hs_world := sy_world y\<rparr>"

lemma in_sync_eq:
  "in_sync c m s =
     (fst (m \<lparr>sy_store = hs_store s, sy_world = hs_world s, sy_connection = c\<rparr>),
      sync_to s (snd (m \<lparr>sy_store = hs_store s, sy_world = hs_world s, sy_connection = c\<rparr>)))"
  by (simp add: in_sync_def sync_to_def case_prod_beta)

lemma sync_to_start: "sync_to s \<lparr>sy_store = hs_store s, sy_world = hs_world s, sy_connection = c\<rparr> = s"
  by (simp add: sync_to_def)

lemma keeps_in_sync:
  assumes "\<And>s. keeps (\<lambda>y. P (sync_to s y)) m"
  shows "keeps P (in_sync c m)"
proof (rule keepsI)
  fix s assume "P s"
  then have "P (sync_to s \<lparr>sy_store = hs_store s, sy_world = hs_world s, sy_connection = c\<rparr>)" by (simp only: sync_to_start)
  from keepsD [OF assms this] show "P (snd (in_sync c m s))" by (simp add: in_sync_eq)
qed

lemma keeps_on_table: "keeps P (in_store m) \<Longrightarrow> keeps (\<lambda>y. P (sync_to s y)) (on_table m)"
proof (rule keepsI)
  fix y assume m: "keeps P (in_store m)" and y: "P (sync_to s y)"
  have "sync_to s (snd (on_table m y)) = snd (in_store m (sync_to s y))"
    by (simp add: on_table_def in_store_apply sync_to_def case_prod_beta)
  then show "P (sync_to s (snd (on_table m y)))" using keepsD [OF m y] by simp
qed

lemma keeps_on_world: "keeps P (in_world m) \<Longrightarrow> keeps (\<lambda>y. P (sync_to s y)) (on_world m)"
proof (rule keepsI)
  fix y assume m: "keeps P (in_world m)" and y: "P (sync_to s y)"
  have "sync_to s (snd (on_world m y)) = snd (in_world m (sync_to s y))"
    by (simp add: on_world_def in_world_def sync_to_def case_prod_beta)
  then show "P (sync_to s (snd (on_world m y)))" using keepsD [OF m y] by simp
qed

lemma keeps_set_commit: "keeps (\<lambda>y. P (sync_to s y)) (set_commit sha)"
  by (rule keepsI) (simp add: set_commit_def sync_to_def)

lemmas keeps_sync = keeps_on_table keeps_on_world keeps_set_commit

section \<open>Operations of the store\<close>

named_theorems store_runs "operations of the store that are runs of it"

lemma store_step_run: "store_step st st' \<Longrightarrow> store_step\<^sup>*\<^sup>* st st'"
  by (rule r_into_rtranclp)

lemma store_reads [store_runs]:
  "store_step\<^sup>*\<^sup>* st (snd (Session k st))" "store_step\<^sup>*\<^sup>* st (snd (Task k st))"
  "store_step\<^sup>*\<^sup>* st (snd (LatestTask order k st))" "store_step\<^sup>*\<^sup>* st (snd (LatestAIConfig k st))"
  "store_step\<^sup>*\<^sup>* st (snd (Recommendations k st))" "store_step\<^sup>*\<^sup>* st (snd (GitFlameConnection k st))"
  "store_step\<^sup>*\<^sup>* st (snd (UserGitFlameConnection u k st))"
  "store_step\<^sup>*\<^sup>* st (snd (UserGitFlameConnectionByRepository order u k st))"
  "store_step\<^sup>*\<^sup>* st (snd (GitFlameWebhook k st))" "store_step\<^sup>*\<^sup>* st (snd (GitFlameWebhookByConnection order k st))"
  "store_step\<^sup>*\<^sup>* st (snd (GitFlameWebhookEvents order k n st))"
  "store_step\<^sup>*\<^sup>* st (snd (RecentAgentTasks order q st))"
  by simp_all

lemma store_writes [store_runs]:
  "store_step\<^sup>*\<^sup>* st (snd (AppSessionByTokenHash now now2 tokenHash st))"
  "store_step\<^sup>*\<^sup>* st (snd (RevokeAppSession now sessionID st))"
  "store_step\<^sup>*\<^sup>* st (snd (CreateSession now nid req cfg st))" "store_step\<^sup>*\<^sup>* st (snd (UpdateSession now v st))"
  "store_step\<^sup>*\<^sup>* st (snd (CreateTask now nid sessionID issueID taskType st))" "store_step\<^sup>*\<^sup>* st (snd (UpdateTask now t st))"
  "store_step\<^sup>*\<^sup>* st (snd (SaveRecommendations sha256 repository cfg summary cards st))"
  "store_step\<^sup>*\<^sup>* st (snd (SaveAIConfig repository cfg st))"
  "store_step\<^sup>*\<^sup>* st (snd (RevokeGitFlameConnection now userID k st))"
  "store_step\<^sup>*\<^sup>* st (snd (TouchGitFlameConnection now userID k st))"
  "store_step\<^sup>*\<^sup>* st (snd (SaveGitFlameWebhook now nid w st))"
  "store_step\<^sup>*\<^sup>* st (snd (SaveGitFlameWebhookEvent now nid e st))"
  "store_step\<^sup>*\<^sup>* st (snd (SaveRepositorySnapshot now nid sn files st))"
  by (rule store_step_run, rule store_step.intros)+

lemmas reaches_in_store = keeps_reaches_store [OF store_runs(1)]

section \<open>Operations with a connection\<close>

named_theorems reaches_intros "operations of the server that are runs"

lemma keeps_case_error [keeps_intros]:
  "(\<And>t. keeps P (g t)) \<Longrightarrow> keeps P h \<Longrightarrow> keeps P (case err of Panic t \<Rightarrow> g t | _ \<Rightarrow> h)"
  by (cases err) auto

lemma reaches_authenticate [reaches_intros]: "keeps (\<lambda>y. reaches s0 (sync_to s y)) (authenticate bk env)"
  unfolding authenticate_def by (intro keeps_intros keeps_sync store_runs)

lemma reaches_source [reaches_intros]: "keeps (\<lambda>y. reaches s0 (sync_to s y)) (gitFlameSourceForRepository bk env repositoryID)"
  unfolding gitFlameSourceForRepository_def by (intro keeps_intros keeps_sync store_runs reaches_intros)

lemma reaches_reader [reaches_intros]: "keeps (\<lambda>y. reaches s0 (sync_to s y)) (gitFlameReaderForRepository bk env repositoryID)"
  unfolding gitFlameReaderForRepository_def by (intro keeps_intros reaches_intros)

lemma reaches_reader_for_connection [reaches_intros]:
  "keeps (\<lambda>y. reaches s0 (sync_to s y)) (gitFlameReaderForConnection bk env connectionID)"
  unfolding gitFlameReaderForConnection_def by (intro keeps_intros keeps_sync store_runs reaches_intros)

lemma keeps_validate: "keeps P (validateGitFlameToken bk accessToken)"
  if "\<And>m :: ('s, gitflame_profile) op. keeps P (on_world m)" for P :: "'s sync_state \<Rightarrow> bool"
  unfolding validateGitFlameToken_def by (intro keeps_intros that)

lemma keeps_resolve: "keeps P (resolveConnectionRepository bk accessToken url)"
  if "\<And>m :: ('s, resolved_repository) op. keeps P (on_world m)" for P :: "'s sync_state \<Rightarrow> bool"
  unfolding resolveConnectionRepository_def by (intro keeps_intros that)

lemma keeps_connectionFromRequest: "keeps P (connectionFromRequest bk env user req existingID)"
  if "\<And>m :: ('s, gitflame_profile) op. keeps P (on_world m)" and "\<And>m :: ('s, resolved_repository) op. keeps P (on_world m)"
  for P :: "'s sync_state \<Rightarrow> bool"
  unfolding connectionFromRequest_def requested_repository_def token_required_def
  by (intro keeps_intros keeps_validate keeps_resolve that)

lemma reaches_synchronize [reaches_intros]:
  "keeps (\<lambda>y. reaches s0 (sync_to s y)) (synchronizeRepositoryIndex env indexer reader ref sha force)"
proof -
  let ?P = "\<lambda>y. reaches s0 (sync_to s y)"
  have "keeps ?P (known_commit reader connection ref sha)" "keeps ?P (indexed_commit ix connection sha force)"
    "keeps ?P (read_index_files reader connection ref)" "keeps ?P (record_snapshot env connection ref sha files)"
    for connection ref sha ix files
    unfolding known_commit_def indexed_commit_def read_index_files_def record_snapshot_def stored_config_def Let_def
    by (intro keeps_intros keeps_sync store_runs)+
  moreover have "keeps ?P (index_files env ix connection ref force sha yaml files)" for ix connection ref sha yaml files
    unfolding index_files_def Let_def by (intro keeps_intros keeps_sync calculation)
  ultimately have run: "keeps ?P (bindS (known_commit reader connection r sha) (\<lambda>c.
      bindS (indexed_commit ix connection c force) (\<lambda>indexed.
        case indexed of
          Some st \<Rightarrow> retS \<lparr>is_result = st, is_yaml = [], is_files = None\<rparr>
        | None \<Rightarrow> bindS (read_index_files reader connection r) (\<lambda>(yamlConfig, files).
            index_files env ix connection r force c yamlConfig files))))" for connection r ix
    by (intro keeps_intros)
  show ?thesis
  proof (rule keepsI)
    fix y assume y: "?P y"
    show "?P (snd (synchronizeRepositoryIndex env indexer reader ref sha force y))"
    proof (cases "\<exists>ix connection. indexer = Some ix \<and> sy_connection y = Some connection \<and>
        trim_space (repo_id (con_repository connection)) \<noteq> []")
      case True
      then obtain ix connection where "indexer = Some ix" "sy_connection y = Some connection"
        "trim_space (repo_id (con_repository connection)) \<noteq> []" by blast
      then show ?thesis
        using keepsD [OF run y, of connection "index_branch connection ref" ix]
        by (simp add: synchronizeRepositoryIndex_def Let_def)
    next
      case False
      then have "snd (synchronizeRepositoryIndex env indexer reader ref sha force y) = y"
        by (cases indexer; cases "sy_connection y") (simp_all add: synchronizeRepositoryIndex_def)
      with y show ?thesis by simp
    qed
  qed
qed

section \<open>Operations of the server\<close>

lemma reaches_touch [reaches_intros]: "keeps (reaches s0) (touch now connection)"
  unfolding touch_def by (intro keeps_intros store_runs)

lemma reaches_touch_optional [reaches_intros]: "keeps (reaches s0) (touch_optional now connection)"
  unfolding touch_optional_def by (intro keeps_intros reaches_intros)

lemma reaches_authenticated [reaches_intros]: "keeps (reaches s0) (authenticated_request sr rq)"
  unfolding authenticated_request_def by (intro keeps_in_sync reaches_intros)

lemma reaches_in_sync [reaches_intros]:
  "(\<And>s. keeps (\<lambda>y. reaches s0 (sync_to s y)) m) \<Longrightarrow> keeps (reaches s0) (in_sync c m)"
  by (rule keeps_in_sync)

lemma reaches_authenticatedConnection [reaches_intros]: "keeps (reaches s0) (authenticatedConnection sr rq connectionID)"
  unfolding authenticatedConnection_def by (intro keeps_intros reaches_intros store_runs)

text \<open>A job is granted together with its goroutine.\<close>

lemma reaches_start_index [reaches_intros]:
  "keeps (reaches s0) (startRepositoryIndexInBackground sr now started reader connection ref0 force)"
proof (rule keepsI)
  fix s assume s: "reaches s0 s"
  let ?ref = "index_branch connection ref0"
  let ?job = "\<lparr>xr_reader = reader, xr_connection = connection, xr_ref = ?ref, xr_force = force\<rparr>"
  obtain st owned rg where
    run: "begin_job now started (repo_id (con_repository connection)) (con_id connection) ?ref force (hs_jobs s) = ((st, owned), rg)"
    by (metis prod.collapse)
  show "reaches s0 (snd (startRepositoryIndexInBackground sr now started reader connection ref0 force s))"
  proof (cases "sr_indexer sr = None \<or> trim_space (repo_id (con_repository connection)) = []")
    case True
    with s show ?thesis by (auto simp: startRepositoryIndexInBackground_def)
  next
    case False
    then obtain ix where configured: "sr_indexer sr = Some ix" "trim_space (repo_id (con_repository connection)) \<noteq> []" by auto
    show ?thesis
    proof (cases owned)
      case True
      have "server_step s (s\<lparr>hs_jobs := rg, hs_background := hs_background s @ [Index_run ?job]\<rparr>)"
        by (rule index_started [of _ _ ?job]) (use run True in auto)
      from reaches_step [OF s this] show ?thesis
        using configured run True by (simp add: startRepositoryIndexInBackground_def Let_def in_jobs_def start_background_def bindS_def)
    next
      case unowned: False
      then have "rg = hs_jobs s" using run by (auto simp: begin_job_def Let_def split: option.splits)
      then show ?thesis
        using s configured run unowned by (simp add: startRepositoryIndexInBackground_def Let_def in_jobs_def bindS_def)
    qed
  qed
qed

text \<open>While a request waits, the rest of the system takes steps.\<close>

definition meanwhile_steps :: "'s api_request \<Rightarrow> bool" where
  "meanwhile_steps rq \<longleftrightarrow> (\<forall>t. server_step\<^sup>*\<^sup>* t (aq_meanwhile rq t))"

lemma reaches_await [reaches_intros]:
  assumes "meanwhile_steps rq"
  shows "keeps (reaches s0) (awaitRepositoryIndexJob rq repositoryID)"
proof (rule keepsI)
  fix s assume s: "reaches s0 s"
  have "snd (awaitRepositoryIndexJob rq repositoryID s) \<in> {s, aq_meanwhile rq s}"
    by (simp add: awaitRepositoryIndexJob_def Let_def split: sum.split prod.split option.split)
  moreover have "reaches s0 (aq_meanwhile rq s)" using assms reaches_run [OF s] by (simp add: meanwhile_steps_def)
  ultimately show "reaches s0 (snd (awaitRepositoryIndexJob rq repositoryID s))" using s by auto
qed

lemma reaches_ensure [reaches_intros]:
  "meanwhile_steps rq \<Longrightarrow> keeps (reaches s0) (ensureRequestRepositoryIndex sr rq metadata)"
  unfolding ensureRequestRepositoryIndex_def Let_def by (intro keeps_intros reaches_intros)

lemma reaches_files_for_analysis [reaches_intros]: "keeps (reaches s0) (repositoryFilesForAnalysis reader r ref yaml requested)"
  unfolding repositoryFilesForAnalysis_def by (intro keeps_intros)

lemma reaches_hydrate [reaches_intros]: "keeps (reaches s0) (hydrateAnalyzeRequest sr rq req)"
  unfolding hydrateAnalyzeRequest_def Let_def by (intro keeps_intros reaches_intros)

lemma reaches_save_report [reaches_intros]: "keeps (reaches s0) (save_report sr metadata cfg text cards)"
  unfolding save_report_def by (intro keeps_intros store_runs)

lemma reaches_save_session [reaches_intros]: "keeps (reaches s0) (save_session now session)"
  unfolding save_session_def by (intro keeps_intros store_runs)

section \<open>Operations of the workflow\<close>

definition flow_from :: "memory_store \<Rightarrow> workflow_state \<Rightarrow> bool" where
  "flow_from st0 f \<longleftrightarrow> store_step\<^sup>*\<^sup>* st0 (ws_store f)"

lemma flow_on_store [keeps_intros]:
  assumes "\<And>st. store_step\<^sup>*\<^sup>* st (snd (m st))"
  shows "keeps (flow_from st0) (on_store m)"
proof (rule keepsI)
  fix f assume "flow_from st0 f"
  then show "flow_from st0 (snd (on_store m f))"
    using assms [of "ws_store f"] by (auto simp: flow_from_def on_store_def split: prod.split)
qed

lemma flow_hand_out [keeps_intros]: "keeps (flow_from st0) (accept_job job)" "keeps (flow_from st0) (spawn_job job)"
  by (simp_all add: keeps_def flow_from_def accept_job_def spawn_job_def)

lemma flow_dispatch [keeps_intros]: "keeps (flow_from st0) (dispatch disp am job)"
proof -
  have "keeps (flow_from st0) (failTask t1 t2 taskID cause)" for t1 t2 taskID cause
    unfolding failTask_def by (intro keeps_intros store_runs)
  then show ?thesis
    unfolding dispatch_def
    by (cases disp) (auto intro!: keeps_intros)
qed

lemma flow_start_plan [keeps_intros]: "keeps (flow_from st0) (start_initial_plan disp am req session)"
  unfolding start_initial_plan_def by (intro keeps_intros store_runs)

lemma flow_Analyze: "keeps (flow_from st0) (Analyze unmarshal disp am req)"
  unfolding Analyze_def by (intro keeps_intros store_runs)

lemma flow_Correct: "keeps (flow_from st0) (Correct disp am issueID feedback)"
  unfolding Correct_def by (intro keeps_intros store_runs)

lemma flow_Retry: "keeps (flow_from st0) (Retry disp am taskID)"
  unfolding Retry_def by (intro keeps_intros store_runs)

lemma flow_Approve: "keeps (flow_from st0) (Approve disp am issueID edited)"
  unfolding Approve_def approve_edit_def Let_def by (intro keeps_intros store_runs)

lemma flow_Reject: "keeps (flow_from st0) (Reject am issueID)"
  unfolding Reject_def by (intro keeps_intros store_runs)

lemma reaches_in_flow: "(\<And>st0. keeps (flow_from st0) m) \<Longrightarrow> keeps (reaches s0) (in_flow m)"
  by (rule keeps_reaches_flow) (simp add: keeps_def flow_from_def)

lemmas reaches_flow [reaches_intros] =
  reaches_in_flow [OF flow_Analyze] reaches_in_flow [OF flow_Correct] reaches_in_flow [OF flow_Retry]
  reaches_in_flow [OF flow_Approve] reaches_in_flow [OF flow_Reject]

section \<open>Handlers are runs\<close>

text \<open>Identifiers that \<open>NewID\<close> draws are not in use, and loops over the tables visit every key once.\<close>

definition fresh_request :: "'s api_request \<Rightarrow> 's server_state \<Rightarrow> bool" where
  "fresh_request rq s \<longleftrightarrow>
     ms_users (hs_store s) (re_id (aq_env rq) 0) = None \<and> ms_appSessions (hs_store s) (re_id (aq_env rq) 1) = None \<and>
     re_id (aq_env rq) 3 \<noteq> [] \<and> visits (ms_connections (hs_store s)) (aq_orders rq 2) \<and>
     visits (ms_reports (hs_store s)) (aq_orders rq 3)"

lemma handler_keeps_prod [handler_intros]:
  "(\<And>a b. handler_keeps P (f a b)) \<Longrightarrow> handler_keeps P (case x of (a, b) \<Rightarrow> f a b)"
  by (cases x) simp

lemma reaches_revokeSession: "handler_keeps (reaches s0) (revokeSession sr rq)"
  unfolding revokeSession_def by (intro handler_intros keeps_intros reaches_intros store_runs)

lemma reaches_revokeConnection: "handler_keeps (reaches s0) (revokeGitFlameConnection sr rq)"
  unfolding revokeGitFlameConnection_def by (intro handler_intros keeps_intros reaches_intros store_runs)

lemma handler_keeps_state: "(\<And>s. P s \<Longrightarrow> handler_keeps P (h s)) \<Longrightarrow> handler_keeps P (\<lambda>s. h s s)"
  by (simp add: handler_keeps_def)

lemma reaches_repository_handlers:
  "handler_keeps (reaches s0) (saveRepositoryConfig sr rq decoded)" "handler_keeps (reaches s0) (repositoryTree sr rq)"
  "handler_keeps (reaches s0) (repositoryFiles_handler sr rq)" "handler_keeps (reaches s0) (repositoryIssues_handler sr rq)"
  unfolding saveRepositoryConfig_def repositoryTree_def repositoryFiles_handler_def repositoryIssues_handler_def
    reader_for_connection_def latest_config_text_def Let_def
  by (intro handler_intros keeps_intros reaches_intros store_runs)+

lemma reaches_workflow_handlers:
  "handler_keeps (reaches s0) (retryTask sr rq)" "handler_keeps (reaches s0) (plan_handler rq)"
  "handler_keeps (reaches s0) (approve_handler sr rq edited)" "handler_keeps (reaches s0) (codeGenerationStatus rq)"
  "handler_keeps (reaches s0) (correct_handler sr rq feedback)" "handler_keeps (reaches s0) (reject_handler rq)"
  unfolding retryTask_def plan_handler_def approve_handler_def codeGenerationStatus_def correct_handler_def reject_handler_def
  by (intro handler_intros keeps_intros reaches_intros store_runs)+

lemma reaches_analyze: "meanwhile_steps rq \<Longrightarrow> handler_keeps (reaches s0) (analyze sr rq decoded)"
  unfolding analyze_def Let_def by (intro handler_intros keeps_intros reaches_intros store_runs)

lemma handler_keeps_read:
  "(\<And>s. P s \<Longrightarrow> P (snd (h s))) \<Longrightarrow> handler_keeps P h"
  by (simp add: handler_keeps_def)

lemma reaches_reading_handlers:
  "handler_keeps (reaches s0) (task_handler rq)" "handler_keeps (reaches s0) (repositoryIndexStatus sr rq)"
  unfolding task_handler_def repositoryIndexStatus_def
  by (intro handler_intros keeps_intros reaches_intros store_runs,
      rule handler_keeps_read, simp add: reply_def Let_def split: prod.split)+

lemma reaches_webhook_of_connection [reaches_intros]: "keeps (reaches s0) (webhook_of_connection rq connectionID)"
  unfolding webhook_of_connection_def by (intro keeps_intros store_runs)

lemma reaches_registration_id [reaches_intros]: "keeps (reaches s0) (registration_id rq connectionID)"
  unfolding registration_id_def by (intro keeps_intros reaches_intros)

lemma reaches_webhook_handlers:
  "handler_keeps (reaches s0) (createGitFlameWebhook sr rq)" "handler_keeps (reaches s0) (getGitFlameWebhook sr rq)"
  "handler_keeps (reaches s0) (disableGitFlameWebhook sr rq)"
  unfolding createGitFlameWebhook_def getGitFlameWebhook_def disableGitFlameWebhook_def
  by (intro handler_intros keeps_intros reaches_intros store_runs)+

lemma reaches_list_events: "handler_keeps (reaches s0) (listGitFlameWebhookEvents sr rq)"
  unfolding listGitFlameWebhookEvents_def by (intro handler_intros keeps_intros reaches_intros store_runs)

lemma reaches_start_delivery [reaches_intros]: "keeps (reaches s0) (start_background (Delivery_run connection event))"
  by (rule keepsI) (auto simp: start_background_def intro: reaches_step delivery_started)

lemma reaches_receive: "handler_keeps (reaches s0) (receiveGitFlameWebhook sr rq)"
proof -
  have "handler_keeps (reaches s0) (accept_delivery sr rq webhook payload)" for webhook payload
    unfolding accept_delivery_def by (intro handler_intros keeps_intros reaches_intros store_runs)
  then show ?thesis
    by (auto simp: handler_keeps_def receiveGitFlameWebhook_def refuse_def reply_def split: sum.split option.split)
qed

lemma reaches_apply: "handler_keeps (reaches s0) (applyGeneratedFiles_handler sr rq)"
  unfolding applyGeneratedFiles_handler_def apply_to_gitflame_def applied_reply_def
  by (intro handler_intros keeps_intros reaches_intros store_runs)

lemma reaches_recommendation_handlers:
  "handler_keeps (reaches s0) (recommendationStatus rq)" "handler_keeps (reaches s0) (recommendationSummary rq)"
  "handler_keeps (reaches s0) (recommendations_handler rq)"
  unfolding recommendationStatus_def recommendationSummary_def recommendations_handler_def Let_def
  by (intro handler_intros keeps_intros reaches_intros store_runs)+

lemma reaches_analyzeRecommendations:
  assumes "meanwhile_steps rq"
  shows "handler_keeps (reaches s0) (analyzeRecommendations sr rq decoded)"
  using assms unfolding analyzeRecommendations_def recommend_def Let_def
  by (intro handler_intros keeps_intros reaches_intros store_runs)

lemma reaches_card_handlers:
  assumes "visits (ms_reports (hs_store s)) (aq_orders rq 3)"
  shows "reaches s (snd (closeRecommendation_handler rq s))" "reaches s (snd (deleteRecommendation_handler rq s))"
proof -
  have run: "reaches s (snd (attempt (in_store m) failed f s))"
    if "store_step (hs_store s) (snd (m (hs_store s)))" and "\<And>a t. snd (f a t) = t" for m :: "'b store_op" and failed f
  proof -
    have "snd (attempt (in_store m) failed f s) = s\<lparr>hs_flow := (hs_flow s)\<lparr>ws_store := snd (m (hs_store s))\<rparr>\<rparr>"
      using that(2) by (simp add: attempt_def attempt_or_def answer_def in_store_apply split: prod.split sum.split go_error.split)
    with reaches_step [OF reaches_self store_operation [OF that(1)]] show ?thesis by simp
  qed
  show "reaches s (snd (closeRecommendation_handler rq s))" "reaches s (snd (deleteRecommendation_handler rq s))"
    unfolding closeRecommendation_handler_def deleteRecommendation_handler_def
    by (rule run; simp add: reply_def close_recommendation delete_recommendation assms)+
qed

text \<open>Making a session and storing a connection draw identifiers: the tables concerned are followed through the handler.\<close>

definition fresh_users :: "'s api_request \<Rightarrow> memory_store \<Rightarrow> bool" where
  "fresh_users rq st \<longleftrightarrow> ms_users st (re_id (aq_env rq) 0) = None"

definition fresh_sessions :: "'s api_request \<Rightarrow> memory_store \<Rightarrow> bool" where
  "fresh_sessions rq st \<longleftrightarrow> ms_appSessions st (re_id (aq_env rq) 1) = None"

definition visited_connections :: "'s api_request \<Rightarrow> memory_store \<Rightarrow> bool" where
  "visited_connections rq st \<longleftrightarrow> re_id (aq_env rq) 3 \<noteq> [] \<and> visits (ms_connections st) (aq_orders rq 2)"

lemma fresh_request_parts:
  "fresh_request rq s \<Longrightarrow>
     fresh_users rq (hs_store s) \<and> fresh_sessions rq (hs_store s) \<and> visited_connections rq (hs_store s)"
  by (simp add: fresh_request_def fresh_users_def fresh_sessions_def visited_connections_def)

text \<open>An operation that leads from a predicate to another one.\<close>

definition leads :: "('s \<Rightarrow> bool) \<Rightarrow> ('s, 'a) op \<Rightarrow> ('s \<Rightarrow> bool) \<Rightarrow> bool" where
  "leads P m Q \<longleftrightarrow> (\<forall>s. P s \<longrightarrow> Q (snd (m s)))"

lemma leads_bind: "leads P m Q \<Longrightarrow> (\<And>s. Q s \<Longrightarrow> R s) \<Longrightarrow> (\<And>a. leads Q (f a) R) \<Longrightarrow> leads P (bindS m f) R"
  by (fastforce simp: leads_def bindS_def split: prod.splits sum.splits dest: spec)

lemma leads_keeps: "keeps P m \<Longrightarrow> (\<And>s. P s \<Longrightarrow> Q s) \<Longrightarrow> leads P m Q"
  by (simp add: leads_def keeps_def)

lemma leads_in_sync: "(\<And>s. leads (\<lambda>y. P (sync_to s y)) m (\<lambda>y. Q (sync_to s y))) \<Longrightarrow> leads P (in_sync c m) Q"
  by (simp add: leads_def in_sync_eq) (metis sync_to_start)

lemma leads_on_table: "leads P (in_store m) Q \<Longrightarrow> leads (\<lambda>y. P (sync_to s y)) (on_table m) (\<lambda>y. Q (sync_to s y))"
proof -
  assume m: "leads P (in_store m) Q"
  have "sync_to s (snd (on_table m y)) = snd (in_store m (sync_to s y))" for y
    by (simp add: on_table_def in_store_apply sync_to_def case_prod_beta)
  with m show ?thesis by (simp add: leads_def)
qed

lemma leads_in_store:
  assumes "\<And>st. C st \<Longrightarrow> store_step st (snd (m st)) \<and> D (snd (m st))"
  shows "leads (\<lambda>s. reaches s0 s \<and> C (hs_store s)) (in_store m) (\<lambda>s. reaches s0 s \<and> D (hs_store s))"
  using assms by (auto simp: leads_def in_store_apply case_prod_beta intro: reaches_step store_operation)

lemma keeps_reaching_world [keeps_intros]: "keeps (\<lambda>s. reaches s0 s \<and> C (hs_store s)) (in_world m)"
  using keepsD [OF keeps_reaches_world]
  by (auto simp: keeps_def in_world_def case_prod_beta)

definition handler_leads :: "('s server_state \<Rightarrow> bool) \<Rightarrow> 's handler \<Rightarrow> ('s server_state \<Rightarrow> bool) \<Rightarrow> bool" where
  "handler_leads P h Q \<longleftrightarrow> (\<forall>s. P s \<longrightarrow> Q (snd (h s)))"

lemma handler_leads_attempt_or:
  assumes "leads P m P'" and "\<And>e. handler_leads P' (g e) Q" and "\<And>a. handler_leads P' (f a) Q" and "\<And>s. P' s \<Longrightarrow> Q s"
  shows "handler_leads P (attempt_or m g f) Q"
  unfolding handler_leads_def
proof (intro allI impI)
  fix s assume "P s"
  moreover obtain r s' where m: "m s = (r, s')" by fastforce
  ultimately have "P' s'" using assms(1) by (auto simp: leads_def dest: spec)
  then show "Q (snd (attempt_or m g f s))"
    using m assms(2-4) by (auto simp: handler_leads_def attempt_or_def split: sum.split go_error.split)
qed

lemma handler_leads_attempt:
  assumes "leads P m P'" and "\<And>a. handler_leads P' (f a) Q" and "\<And>s. P' s \<Longrightarrow> Q s"
  shows "handler_leads P (attempt m failed f) Q"
  unfolding attempt_def by (rule handler_leads_attempt_or [OF assms(1)]) (simp_all add: handler_leads_def answer_def assms(2,3) [unfolded handler_leads_def])

lemma handler_leads_keeps: "handler_keeps Q h \<Longrightarrow> (\<And>s. P s \<Longrightarrow> Q s) \<Longrightarrow> handler_leads P h Q"
  by (simp add: handler_leads_def handler_keeps_def)

lemma handler_leads_cookie: "handler_leads P h Q \<Longrightarrow> handler_leads P (with_cookie cookie h) Q"
  by (simp add: handler_leads_def with_cookie_def case_prod_beta)

definition following :: "'s server_state \<Rightarrow> (memory_store \<Rightarrow> bool) \<Rightarrow> 's server_state \<Rightarrow> bool" where
  "following s0 C s \<longleftrightarrow> reaches s0 s \<and> C (hs_store s)"

lemma following_reaches: "following s0 C s \<Longrightarrow> reaches s0 s"
  by (simp add: following_def)

lemma following_weaken: "following s0 C s \<Longrightarrow> (\<And>st. C st \<Longrightarrow> D st) \<Longrightarrow> following s0 D s"
  by (simp add: following_def)

lemma leads_following_store:
  "(\<And>st. C st \<Longrightarrow> store_step st (snd (m st)) \<and> D (snd (m st))) \<Longrightarrow> leads (following s0 C) (in_store m) (following s0 D)"
  using leads_in_store [of C m D s0] by (simp add: leads_def following_def)

lemma keeps_following_world [keeps_intros]: "keeps (following s0 C) (in_world m)"
  using keeps_reaching_world [of s0 C m] by (simp add: keeps_def following_def)

lemma keeps_following_sync: "keeps (\<lambda>y. following s0 C (sync_to s y)) (on_world m)"
  by (rule keeps_on_world) (rule keeps_following_world)

lemma following_authenticate:
  assumes "\<And>now now2 tokenHash st. C st \<Longrightarrow> C (snd (AppSessionByTokenHash now now2 tokenHash st))"
  shows "keeps (following s0 C) (authenticated_request sr rq)"
proof -
  have "leads (following s0 C) (in_store (AppSessionByTokenHash now now2 tokenHash)) (following s0 C)" for now now2 tokenHash
    by (rule leads_following_store) (simp add: assms visit_app_session)
  then have "keeps (following s0 C) (in_store (AppSessionByTokenHash now now2 tokenHash))" for now now2 tokenHash
    by (simp add: leads_def keeps_def)
  then show ?thesis
    unfolding authenticated_request_def authenticate_def by (intro keeps_in_sync keeps_intros keeps_on_table)
qed

abbreviation all_fresh :: "'s api_request \<Rightarrow> memory_store \<Rightarrow> bool" where
  "all_fresh rq st \<equiv> fresh_users rq st \<and> fresh_sessions rq st \<and> visited_connections rq st"

lemma visit_keeps_fresh:
  "all_fresh rq st \<Longrightarrow> all_fresh rq (snd (AppSessionByTokenHash now now2 tokenHash st))"
  "visited_connections rq st \<Longrightarrow> visited_connections rq (snd (AppSessionByTokenHash now now2 tokenHash st))"
  by (auto simp: AppSessionByTokenHash_def Let_def fresh_users_def fresh_sessions_def visited_connections_def split: option.splits)

lemma new_session_frames:
  "ms_appSessions (snd (UpsertAppUser now nid v st)) = ms_appSessions st"
  "ms_connections (snd (UpsertAppUser now nid v st)) = ms_connections st"
  "ms_connections (snd (CreateAppSession now nid userID tokenHash t st)) = ms_connections st"
  by (simp_all add: UpsertAppUser_def CreateAppSession_def Let_def split: option.split)

lemma new_session_leads:
  "leads (following s0 (all_fresh rq)) (new_session sr rq accessToken) (following s0 (visited_connections rq))"
proof -
  let ?C = "\<lambda>st. fresh_sessions rq st \<and> visited_connections rq st"
  let ?env = "aq_env rq"
  have validate: "keeps (\<lambda>y. following s0 (all_fresh rq) (sync_to s y)) (validateGitFlameToken bk accessToken)" for s bk
    by (rule keeps_validate) (rule keeps_following_sync)
  have upsert: "leads (following s0 (all_fresh rq)) (in_store (UpsertAppUser (re_now ?env 2) (re_id ?env 0) (new_app_user profile)))
      (following s0 ?C)" for profile
    by (rule leads_following_store)
      (simp add: upsert_user new_app_user_def fresh_users_def fresh_sessions_def visited_connections_def new_session_frames)
  have create: "leads (following s0 ?C) (in_store (CreateAppSession (re_now ?env 4) (re_id ?env 1) userID tokenHash t))
      (following s0 (visited_connections rq))" for userID tokenHash t
    by (rule leads_following_store)
      (simp add: create_app_session fresh_sessions_def visited_connections_def new_session_frames)
  have token: "keeps P (token_required accessToken)" for P :: "'c sync_state \<Rightarrow> bool"
    unfolding token_required_def by (intro keeps_intros)
  show ?thesis
    unfolding new_session_def createSessionFromGitFlameToken_def
    apply (rule leads_in_sync)
    apply (rule leads_bind [OF leads_keeps [OF token]], assumption, simp add: following_def)
    apply (rule leads_bind [OF leads_keeps [OF validate]], assumption, simp add: following_def)
    apply (rule leads_bind [OF leads_on_table [OF upsert]], simp add: following_def)
    apply (rule leads_bind [OF leads_keeps], rule keeps_lift, assumption, simp add: following_def)
    apply (simp only: split_paired_all prod.case)
    apply (rule leads_bind [OF leads_on_table [OF create]], assumption)
    apply (rule leads_keeps, rule keeps_ret, assumption)
    done
qed

lemma store_connection_leads:
  "handler_leads (following s0 (visited_connections rq)) (store_connection sr rq user req existingID force status) (reaches s0)"
proof -
  let ?P = "following s0 (visited_connections rq)"
  have request: "keeps ?P (in_sync None (connectionFromRequest bk env user req existingID))" for bk env
    by (intro keeps_in_sync keeps_connectionFromRequest keeps_following_sync)
  have "leads ?P (in_store (SaveGitFlameConnection now (re_id (aq_env rq) 3) (aq_orders rq 2) connection)) (following s0 (\<lambda>st. True))"
    for now connection
    by (rule leads_following_store) (simp add: save_connection visited_connections_def)
  then have save: "leads ?P (in_store (SaveGitFlameConnection now (re_id (aq_env rq) 3) (aq_orders rq 2) connection)) (reaches s0)"
    for now connection
    by (simp add: leads_def following_def)
  show ?thesis
    unfolding store_connection_def
    by (rule handler_leads_attempt [OF leads_keeps [OF request]], assumption, rule handler_leads_attempt [OF save],
        rule handler_leads_keeps, (intro handler_intros keeps_intros reaches_intros; assumption?)+)
      (simp_all add: following_reaches)
qed

lemma handler_leads_weaken: "handler_leads P h Q \<Longrightarrow> (\<And>s. R s \<Longrightarrow> P s) \<Longrightarrow> handler_leads R h Q"
  by (simp add: handler_leads_def)

lemma handler_leads_lift:
  "(\<And>a. handler_leads P (f a) Q) \<Longrightarrow> (\<And>s. P s \<Longrightarrow> Q s) \<Longrightarrow> handler_leads P (attempt (liftR r) failed f) Q"
  by (rule handler_leads_attempt [OF leads_keeps [OF keeps_lift]])

lemma session_then_connection:
  "handler_leads (following s0 (all_fresh rq))
     (attempt (new_session sr rq token) failed (\<lambda>(session, cookie, created).
        if created then setSessionCookie cookie (aps_expires_at session) (store_connection sr rq (aps_user session) req i force status)
        else store_connection sr rq (aps_user session) req i force status)) (reaches s0)"
  apply (rule handler_leads_attempt [OF new_session_leads])
   apply (simp only: split_paired_all prod.case setSessionCookie_def split: if_split)
   apply (intro conjI impI handler_leads_cookie store_connection_leads)
  apply (rule following_reaches)
  apply assumption
  done

lemma reaches_connection_handlers:
  assumes "fresh_request rq s"
  shows "reaches s (snd (createGitFlameSession sr rq token s))" "reaches s (snd (saveGitFlameConnection sr rq decoded s))"
    "reaches s (snd (reconnectGitFlameConnection sr rq decoded s))"
proof -
  have start: "following s (all_fresh rq) s"
    using fresh_request_parts [OF assms] by (simp add: following_def reaches_self)
  have authenticate: "leads (following s (all_fresh rq)) (authenticated_request sr rq) (following s (all_fresh rq))"
    by (rule leads_keeps) (rule following_authenticate, erule visit_keeps_fresh)
  have lookup: "leads (following s (all_fresh rq)) (in_store (UserGitFlameConnection u k)) (following s (all_fresh rq))" for u k
    by (simp add: leads_def following_def in_store_apply case_prod_beta)
  have connect: "handler_leads (following s (all_fresh rq)) (store_connection sr rq user req i force status) (reaches s)"
    for user req i force status
    by (rule handler_leads_weaken [OF store_connection_leads]) (auto elim: following_weaken)
  have "handler_leads (following s (all_fresh rq)) (createGitFlameSession sr rq token) (reaches s)"
    unfolding createGitFlameSession_def
    by (rule handler_leads_lift, rule handler_leads_attempt [OF new_session_leads], rule handler_leads_keeps)
      (auto simp: setSessionCookie_def following_reaches intro: handler_intros)
  with start show "reaches s (snd (createGitFlameSession sr rq token s))" by (simp add: handler_leads_def)
  have "handler_leads (following s (all_fresh rq)) (saveGitFlameConnection sr rq decoded) (reaches s)"
    unfolding saveGitFlameConnection_def
    by (rule handler_leads_lift, rule handler_leads_attempt_or [OF authenticate])
      (auto simp: following_reaches intro: connect session_then_connection handler_leads_keeps handler_intros)
  with start show "reaches s (snd (saveGitFlameConnection sr rq decoded s))" by (simp add: handler_leads_def)
  have "handler_leads (following s (all_fresh rq)) (reconnectGitFlameConnection sr rq decoded) (reaches s)"
    unfolding reconnectGitFlameConnection_def
    by (rule handler_leads_attempt [OF authenticate], rule handler_leads_attempt [OF lookup], rule handler_leads_lift)
      (auto simp: following_reaches intro: connect)
  with start show "reaches s (snd (reconnectGitFlameConnection sr rq decoded s))" by (simp add: handler_leads_def)
qed

section \<open>The API and the goroutines\<close>

text \<open>The calls of the API.\<close>

inductive api_call :: "'s server \<Rightarrow> 's api_request \<Rightarrow> 's handler \<Rightarrow> bool" for sr rq where
  "api_call sr rq (createGitFlameSession sr rq token)"
| "api_call sr rq (revokeSession sr rq)"
| "api_call sr rq (saveGitFlameConnection sr rq connect)"
| "api_call sr rq (reconnectGitFlameConnection sr rq connect)"
| "api_call sr rq (revokeGitFlameConnection sr rq)"
| "api_call sr rq (repositoryTree sr rq)"
| "api_call sr rq (repositoryFiles_handler sr rq)"
| "api_call sr rq (repositoryIssues_handler sr rq)"
| "api_call sr rq (repositoryIndexStatus sr rq)"
| "api_call sr rq (saveRepositoryConfig sr rq config)"
| "api_call sr rq (createGitFlameWebhook sr rq)"
| "api_call sr rq (getGitFlameWebhook sr rq)"
| "api_call sr rq (disableGitFlameWebhook sr rq)"
| "api_call sr rq (listGitFlameWebhookEvents sr rq)"
| "api_call sr rq (receiveGitFlameWebhook sr rq)"
| "api_call sr rq (analyze sr rq request)"
| "api_call sr rq (task_handler rq)"
| "api_call sr rq (retryTask sr rq)"
| "api_call sr rq (plan_handler rq)"
| "api_call sr rq (approve_handler sr rq edited)"
| "api_call sr rq (codeGenerationStatus rq)"
| "api_call sr rq (applyGeneratedFiles_handler sr rq)"
| "api_call sr rq (correct_handler sr rq feedback)"
| "api_call sr rq (reject_handler rq)"
| "api_call sr rq (analyzeRecommendations sr rq recommendation)"
| "api_call sr rq (recommendationStatus rq)"
| "api_call sr rq (recommendationSummary rq)"
| "api_call sr rq (recommendations_handler rq)"
| "api_call sr rq (closeRecommendation_handler rq)"
| "api_call sr rq (deleteRecommendation_handler rq)"
| "api_call sr rq (ready sr)"
| "api_call sr rq (opsTasks sr rq)"

lemma reaches_ready: "handler_keeps (reaches s0) (ready sr)"
proof (rule handler_keeps_read)
  fix s assume s: "reaches s0 s"
  obtain outcomes w where "run_checks (sr_checks sr) (hs_world s) = (outcomes, w)" by fastforce
  then show "reaches s0 (snd (ready sr s))"
    using reaches_step [OF s outside_world [of s w]] by (simp add: ready_def Let_def)
qed

lemma reaches_opsTasks: "handler_keeps (reaches s0) (opsTasks sr rq)"
  unfolding opsTasks_def by (intro handler_intros keeps_intros reaches_intros store_runs)

lemmas reaching_handlers =
  reaches_revokeSession reaches_revokeConnection reaches_repository_handlers reaches_workflow_handlers reaches_reading_handlers
  reaches_webhook_handlers reaches_list_events reaches_receive reaches_apply reaches_recommendation_handlers reaches_ready reaches_opsTasks

text \<open>Every request is a run of the server's steps: one operation of the store or the outside world at a time, in which
  other requests and goroutines may come between.\<close>

theorem handlers_are_steps:
  assumes "api_call sr rq h" and "fresh_request rq s" and "meanwhile_steps rq"
  shows "server_step\<^sup>*\<^sup>* s (snd (h s))"
proof -
  note kept = handler_keepsD [OF _ reaches_self]
  have cards: "visits (ms_reports (hs_store s)) (aq_orders rq 3)" using assms(2) by (simp add: fresh_request_def)
  from assms(1) have "reaches s (snd (h s))"
    by cases (simp_all add: reaches_connection_handlers [OF assms(2)] reaches_card_handlers [OF cards]
        kept [OF reaches_analyze [OF assms(3)]] kept [OF reaches_analyzeRecommendations [OF assms(3)]]
        reaching_handlers [THEN kept])
  then show ?thesis by (simp add: reaches_def)
qed

text \<open>A goroutine, with its end.\<close>

definition run_background ::
    "'s server \<Rightarrow> request_env \<Rightarrow> gotime \<Rightarrow> 's background_work \<Rightarrow> 's server_state \<Rightarrow> unit result \<times> 's server_state" where
  "run_background sr env finished work s =
     (case (case work of
              Index_run job \<Rightarrow> bindS (run_index_job sr env finished job) (\<lambda>_. retS ()) s
            | Delivery_run connection event \<Rightarrow> processGitFlameWebhookEvent sr env connection event s) of
        (r, s') \<Rightarrow> (r, s'\<lparr>hs_background := remove1 work (hs_background s')\<rparr>))"

text \<open>The parts of a goroutine before its end keep the goroutine among the running ones.\<close>

definition alive :: "'s server_state \<Rightarrow> 's background_work \<Rightarrow> 's server_state \<Rightarrow> bool" where
  "alive s0 work s \<longleftrightarrow> reaches s0 s \<and> work \<in> set (hs_background s)"

lemma keeps_alive_store [keeps_intros]:
  "(\<And>st. store_step\<^sup>*\<^sup>* st (snd (m st))) \<Longrightarrow> keeps (alive s0 work) (in_store m)"
  by (rule keeps_in_store) (simp add: alive_def reaches_store)

lemma keeps_alive_world [keeps_intros]: "keeps (alive s0 work) (in_world m)"
  using keepsD [OF keeps_reaches_world] by (auto simp: keeps_def alive_def in_world_def case_prod_beta)

lemma in_sync_frame [simp]: "hs_jobs (snd (in_sync c m s)) = hs_jobs s" "hs_background (snd (in_sync c m s)) = hs_background s"
  by (simp_all add: in_sync_eq sync_to_def)

lemma keeps_alive_sync [keeps_intros]:
  assumes "\<And>s. keeps (\<lambda>y. reaches s0 (sync_to s y)) m"
  shows "keeps (alive s0 work) (in_sync c m)"
proof -
  have "keeps (reaches s0) (in_sync c m)" by (rule keeps_in_sync) (rule assms)
  then show ?thesis by (simp add: keeps_def alive_def)
qed

lemma keeps_first:
  "keeps P m \<Longrightarrow> keeps (\<lambda>sp. P (fst sp)) (on_first m)"
  unfolding keeps_def on_first_def by (simp add: case_prod_beta)

lemma keeps_put_payload: "keeps (\<lambda>sp. P (fst sp)) (put_payload key v)"
  by (auto simp: keeps_def put_payload_def split: option.split)

lemma alive_process: "keeps (\<lambda>sp. alive s0 work (fst sp)) (process_payload sr env connection eventType)"
  for s0 :: "'a server_state"
proof -
  let ?P = "\<lambda>sp :: 'a delivery_state. alive s0 work (fst sp)"
  have save: "keeps (alive s0 work) (save_report sr metadata cfg summary cards)" for metadata cfg summary cards
    unfolding save_report_def by (intro keeps_intros store_runs)
  have touch: "keeps (alive s0 work) (touch now c)" for now c
    unfolding touch_def by (intro keeps_intros store_runs)
  have files: "keeps (alive s0 work) (repositoryFilesForAnalysis reader r ref yaml requested)" for reader r ref yaml requested
    unfolding repositoryFilesForAnalysis_def by (intro keeps_intros)
  have analysis: "keeps ?P (analysis_after_push sr env connection sha yaml files)" for sha yaml files
    unfolding analysis_after_push_def Let_def
    by (intro keeps_intros keeps_first keeps_put_payload save touch)
  have "keeps ?P (processRepositoryChange sr env connection)"
  proof (rule keepsI)
    fix sp assume "?P sp"
    then show "?P (snd (processRepositoryChange sr env connection sp))"
      unfolding processRepositoryChange_def Let_def
      by (rule keepsD [where P = ?P, rotated])
        (intro keeps_intros keeps_first keeps_put_payload analysis files reaches_intros)
  qed
  then show ?thesis
    unfolding process_payload_def by (intro keeps_intros keeps_put_payload)
qed

lemma background_steps:
  assumes "work \<in> set (hs_background s)" and "run_background sr env finished work s = (Inr (), s')"
  shows "server_step\<^sup>*\<^sup>* s s'"
proof (cases work)
  case (Index_run job)
  let ?sync = "in_sync (Some (xr_connection job)) (synchronizeRepositoryIndex (sync_environment sr env) (sr_indexer sr)
      (xr_reader job) (xr_ref job) [] (xr_force job))"
  obtain r s1 where sync: "?sync s = (r, s1)" by fastforce
  have "keeps (reaches s) ?sync" by (intro reaches_intros)
  from keepsD_eq [OF this sync reaches_self] have s1: "reaches s s1" .
  have member: "Index_run job \<in> set (hs_background s1)"
    using assms(1) Index_run in_sync_frame(2) sync by (metis snd_conv)
  from assms(2) Index_run sync obtain outcome failure res rg where
    "finish_job finished (repo_id (con_repository (xr_connection job))) outcome failure (hs_jobs s1) = (res, rg)" and
    "s' = s1\<lparr>hs_jobs := rg, hs_background := remove1 (Index_run job) (hs_background s1)\<rparr>"
    by (auto simp: run_background_def run_index_job_def Let_def tryS_def bindS_def in_jobs_def
        split: prod.splits sum.splits go_error.splits)
  with reaches_step [OF s1 index_finished [OF member]] show ?thesis by (simp add: reaches_def)
next
  case (Delivery_run connection event)
  obtain r sp where run: "process_payload sr env connection (ev_event_type event) (s, ev_payload event) = (r, sp)"
    by (metis prod.exhaust)
  have "alive s work (fst (s, ev_payload event))" using assms(1) by (simp add: alive_def reaches_self)
  from keepsD_eq [OF alive_process run this] have "alive s work (fst sp)" .
  moreover have "keeps (alive s work) (ignoring (in_store (SaveGitFlameWebhookEvent now nid e)))" for now nid e
    by (intro keeps_intros store_runs)
  ultimately have "alive s work (snd (processGitFlameWebhookEvent sr env connection event s))"
    using run by (auto simp: processGitFlameWebhookEvent_def keepsD split: prod.split sum.split go_error.split)
  then obtain s1 where "alive s work s1" and "s' = s1\<lparr>hs_background := remove1 work (hs_background s1)\<rparr>"
    using assms(2) Delivery_run by (auto simp: run_background_def split: prod.splits)
  with reaches_step [of s s1] delivery_finished [of connection event s1] Delivery_run show ?thesis
    by (simp add: alive_def reaches_def)
qed

end
