(* ===== verification/Webhook_Properties.thy ===== *)
theory Webhook_Properties imports Webhooks Store_Properties begin

text \<open>
  What webhooks promise: the secret that an enabled webhook shows opens it, a delivery without the secret changes nothing, a
  repeated delivery is recognised, and what becomes of a delivery.
\<close>

section \<open>Characters of encoded texts\<close>

text \<open>Characters that no encoding of white space contains.\<close>

definition plain_char :: "char \<Rightarrow> bool" where
  "plain_char c \<longleftrightarrow> c \<notin> set (concat unicode_spaces)"

lemma strip_one_plain: "strip_one ps s = None" if "\<forall>c \<in> set s. c \<notin> set (concat ps)"
  unfolding strip_one_None
proof (intro ballI impI notI)
  fix p assume p: "p \<in> set ps" "p \<noteq> []" and "has_prefix s p"
  then have "hd p \<in> set s" by (auto simp: has_prefix_iff)
  moreover have "hd p \<in> set (concat ps)" using p by (auto intro!: bexI [of _ p])
  ultimately show False using that by blast
qed

lemma trim_space_plain:
  assumes "\<forall>c \<in> set s. plain_char c"
  shows "trim_space s = s"
proof -
  have "trim_left_of unicode_spaces s = s"
    using assms by (intro trim_left_of_fixed strip_one_plain) (simp add: plain_char_def)
  moreover have "trim_left_of (map rev unicode_spaces) (rev s) = rev s"
    using assms by (intro trim_left_of_fixed strip_one_plain) (auto simp: plain_char_def)
  ultimately show ?thesis by (simp add: trim_space_def)
qed

lemma digit_text_plain: "d < 64 \<Longrightarrow> plain_char (digit_text True d) \<and> digit_text True d \<noteq> CHR '':''"
proof -
  have "list_all (\<lambda>d. plain_char (digit_text True d) \<and> digit_text True d \<noteq> CHR '':'') [0..<64]" by code_simp
  then show "d < 64 \<Longrightarrow> ?thesis" by (simp add: list_all_iff)
qed

lemma hex_char_plain: "d < 16 \<Longrightarrow> plain_char (hex_char d) \<and> hex_char d \<noteq> CHR '':''"
proof -
  have "list_all (\<lambda>d. plain_char (hex_char d) \<and> hex_char d \<noteq> CHR '':'') [0..<16]" by code_simp
  then show "d < 16 \<Longrightarrow> ?thesis" by (simp add: list_all_iff)
qed

lemma RawURL_chars: "c \<in> set (RawURL_encode s) \<Longrightarrow> plain_char c \<and> c \<noteq> CHR '':''"
  using to_digits_less digit_text_plain by (force simp: RawURL_encode_def)

lemma hex_chars: "c \<in> set (hex_encode s) \<Longrightarrow> plain_char c \<and> c \<noteq> CHR '':''"
proof -
  assume "c \<in> set (hex_encode s)"
  then obtain b where "c = hex_char (byte_of b div 16) \<or> c = hex_char (byte_of b mod 16)"
    by (auto simp: hex_encode_def hex_byte_def)
  moreover have "byte_of b div 16 < 16" "byte_of b mod 16 < 16" using byte_of_less [of b] by auto
  ultimately show ?thesis using hex_char_plain by metis
qed

lemma RawURL_nonempty: "RawURL_encode s = [] \<longleftrightarrow> s = []"
proof -
  have "to_digits s = [] \<longleftrightarrow> s = []" by (cases s rule: to_digits.cases) simp_all
  then show ?thesis by (simp add: RawURL_encode_def)
qed

section \<open>Secrets\<close>

lemma newWebhookSecret_shape:
  assumes "newWebhookSecret sr random webhookID = Inr (secret, stored)"
  obtains salt where "stored_parts stored = Some (salt, hex_encode (sha256_of sr secret))"
    and "secret = deriveWebhookSecret sr webhookID salt"
proof -
  obtain bytes where secret: "secret = deriveWebhookSecret sr webhookID (RawURL_encode bytes)" and
    stored: "stored = join_with '':'' [''v1'', RawURL_encode bytes, hex_encode (sha256_of sr secret)]"
    using assms by (auto simp: newWebhookSecret_def Let_def split: sum.splits)
  have "split_on CHR '':'' stored = [''v1'', RawURL_encode bytes, hex_encode (sha256_of sr secret)]"
    unfolding stored by (rule split_join) (auto dest: RawURL_chars hex_chars)
  then have "stored_parts stored = Some (RawURL_encode bytes, hex_encode (sha256_of sr secret))"
    by (simp add: stored_parts_def)
  with secret that show ?thesis by blast
qed

text \<open>What is relied on of HMAC-SHA256 and sha256: their results have 32 bytes.\<close>

definition digests_32 :: "'s server \<Rightarrow> bool" where
  "digests_32 sr \<longleftrightarrow> (\<forall>t. length (sha256_of sr t) = 32) \<and> (\<forall>k t. length (sr_hmac sr k t) = 32)"

lemma derived_secret_plain:
  assumes "digests_32 sr"
  shows "trim_space (deriveWebhookSecret sr webhookID salt) = deriveWebhookSecret sr webhookID salt"
    and "deriveWebhookSecret sr webhookID salt \<noteq> []"
proof -
  have "sr_hmac sr k t \<noteq> []" for k t
    using assms by (metis digests_32_def list.size(3) zero_neq_numeral)
  then show "trim_space (deriveWebhookSecret sr webhookID salt) = deriveWebhookSecret sr webhookID salt"
    and "deriveWebhookSecret sr webhookID salt \<noteq> []"
    by (auto simp: deriveWebhookSecret_def RawURL_nonempty intro!: trim_space_plain dest: RawURL_chars)
qed

lemma secret_header_accepted:
  assumes "digests_32 sr" and "stored_parts stored = Some (salt, hex_encode (sha256_of sr secret))"
    and "secret = deriveWebhookSecret sr webhookID salt" and "header ''X-GitFlame-Webhook-Secret'' = secret"
  shows "validWebhookSecret sr stored (webhookSecretFromRequest header)"
proof -
  have "webhookSecretFromRequest header = secret"
    using derived_secret_plain [OF assms(1)] assms(3,4) by (simp add: webhookSecretFromRequest_def firstNonEmptyHeader_def)
  with derived_secret_plain(2) [OF assms(1)] assms show ?thesis
    by (simp add: validWebhookSecret_def hex_decode_encode digests_32_def)
qed

lemma signature_accepted:
  assumes "digests_32 sr"
  shows "signature_matches sr secret body (''sha256='' @ hex_encode (sr_hmac sr secret body))"
proof -
  have plain: "\<forall>c \<in> set ''sha256=''. plain_char c" by code_simp
  have "trim_space (''sha256='' @ hex_encode (sr_hmac sr secret body)) = ''sha256='' @ hex_encode (sr_hmac sr secret body)"
    by (rule trim_space_plain) (use plain hex_chars in \<open>auto simp only: set_append\<close>)
  then show ?thesis
    using assms by (simp add: signature_matches_def trim_prefix_def hex_decode_encode digests_32_def has_prefix_iff)
qed

lemma secret_error_is_problem [simp]: "secret_generation_error e \<noteq> Reply st body"
  by (simp add: secret_generation_error_def)

text \<open>Reading with a session leaves the registrations alone.\<close>

lemma authenticatedConnection_webhooks:
  assumes "authenticatedConnection sr rq k s = (r, s')"
  shows "ms_webhooks (hs_store s') = ms_webhooks (hs_store s)"
proof -
  have "ms_webhooks (snd (AppSessionByTokenHash now now2 tokenHash st)) = ms_webhooks st" for now now2 tokenHash st
    by (simp add: AppSessionByTokenHash_def Let_def split: option.split)
  then have visit: "ms_webhooks (hs_store (snd (authenticated_request sr rq s))) = ms_webhooks (hs_store s)"
    by (simp add: authenticated_request_def in_sync_def authenticate_def on_table_def case_prod_beta split: option.split sum.split)
  obtain q t where run: "authenticated_request sr rq s = (q, t)" by fastforce
  have "hs_store s' = hs_store t"
    using assms run by (auto simp: authenticatedConnection_def tryS_def in_store_apply case_prod_beta split: sum.splits)
  with visit run show ?thesis by simp
qed

definition named_webhooks :: "(string \<rightharpoonup> gitflame_webhook_registration) \<Rightarrow> bool" where
  "named_webhooks m \<longleftrightarrow> keyed wh_id m \<and> m [] = None"

lemma registration_id_named:
  assumes "registration_id rq connectionID s = (Inr k, s')" and "named_webhooks (ms_webhooks (hs_store s))" and "re_id (aq_env rq) 3 \<noteq> []"
  shows "k \<noteq> [] \<and> s' = s"
proof -
  have "wh_id v \<noteq> []" if "v \<in> ran (ms_webhooks (hs_store s))" for v
    using that assms(2) by (auto simp: named_webhooks_def keyed_def ran_def)
  then show ?thesis
    using assms(1,3)
    by (auto simp: registration_id_def webhook_of_connection_def tryS_def in_store_apply GitFlameWebhookByConnection_def find_Some_iff
        dest: ranging_member [OF nth_mem] split: option.splits if_splits)
qed

lemma created_webhook:
  assumes "createGitFlameWebhook sr rq s = (Reply 201 (Webhook_body w), s')" and "named_webhooks (ms_webhooks (hs_store s))"
    and "re_id (aq_env rq) 3 \<noteq> []"
  obtains stored webhook where
    "newWebhookSecret sr (re_random (aq_env rq) 2) (wr_id w) = Inr (wr_secret w, stored)"
    and "ms_webhooks (hs_store s') (wr_id w) = Some webhook" and "wh_id webhook = wr_id w" and "wh_status webhook = ''active''"
    and "wh_webhook_secret_hash webhook = stored"
proof -
  obtain connection s1 where connection: "authenticatedConnection sr rq (aq_id rq) s = (Inr connection, s1)" and
    first: "(if sr_public_base_url sr = [] then
         refuse 422 ''public_base_url_required''
           ''PUBLIC_BASE_URL must be the externally reachable CodePilot API base URL before enabling a webhook''
       else
         attempt (registration_id rq (con_id connection)) storage_error (\<lambda>registrationID.
         attempt (liftR (newWebhookSecret sr (re_random (aq_env rq) 2) registrationID)) secret_generation_error (\<lambda>(secret, secretHash).
         attempt (in_store (SaveGitFlameWebhook (aq_now rq 9) (re_id (aq_env rq) 4)
             (new_registration sr registrationID (con_id connection) secretHash))) storage_error (\<lambda>saved.
           reply 201 (Webhook_body (webhookResponse saved secret)))))) s1 = (Reply 201 (Webhook_body w), s')"
    using assms(1) unfolding createGitFlameWebhook_def by (elim attempt_reply) auto
  from first obtain k s2 where k: "registration_id rq (con_id connection) s1 = (Inr k, s2)" and
    second: "attempt (liftR (newWebhookSecret sr (re_random (aq_env rq) 2) k)) secret_generation_error (\<lambda>(secret, secretHash).
         attempt (in_store (SaveGitFlameWebhook (aq_now rq 9) (re_id (aq_env rq) 4)
             (new_registration sr k (con_id connection) secretHash))) storage_error (\<lambda>saved.
           reply 201 (Webhook_body (webhookResponse saved secret)))) s2 = (Reply 201 (Webhook_body w), s')"
    by (auto simp: refuse_def split: if_splits elim!: attempt_reply)
  from second obtain secret stored where new: "newWebhookSecret sr (re_random (aq_env rq) 2) k = Inr (secret, stored)" and
    third: "attempt (in_store (SaveGitFlameWebhook (aq_now rq 9) (re_id (aq_env rq) 4)
             (new_registration sr k (con_id connection) stored))) storage_error (\<lambda>saved.
           reply 201 (Webhook_body (webhookResponse saved secret))) s2 = (Reply 201 (Webhook_body w), s')"
    by (elim attempt_reply) auto
  from third obtain saved where
    save: "in_store (SaveGitFlameWebhook (aq_now rq 9) (re_id (aq_env rq) 4)
      (new_registration sr k (con_id connection) stored)) s2 = (Inr saved, s')" and w: "w = webhookResponse saved secret"
    by (elim attempt_reply) (auto simp: reply_def)
  have "k \<noteq> []"
    using registration_id_named [OF k _ assms(3)] authenticatedConnection_webhooks [OF connection] assms(2) by simp
  then have saved: "wh_id saved = k" "wh_status saved = ''active''" "wh_webhook_secret_hash saved = stored"
    "ms_webhooks (hs_store s') k = Some saved"
    using save by (auto simp: in_store_apply SaveGitFlameWebhook_def new_registration_def Let_def split: prod.splits option.splits)
  show ?thesis
    by (rule that) (use new saved w in \<open>simp_all add: webhookResponse_def\<close>)
qed

text \<open>C29: The secret that enabling a webhook shows is the key to it: a delivery that carries the secret, or the HMAC of its body
  under the secret, is taken as authentic, although the secret itself is not stored.\<close>

theorem webhook_secret_opens:
  assumes "createGitFlameWebhook sr rq s = (Reply 201 (Webhook_body w), s')"
    and "named_webhooks (ms_webhooks (hs_store s))" and "re_id (aq_env rq) 3 \<noteq> []" and "digests_32 sr"
    and "header ''X-GitFlame-Webhook-Secret'' = wr_secret w \<or>
      header ''X-Hub-Signature-256'' = ''sha256='' @ hex_encode (sr_hmac sr (wr_secret w) body)"
  shows "case ms_webhooks (hs_store s') (wr_id w) of
      None \<Rightarrow> False
    | Some webhook \<Rightarrow> wh_status webhook = ''active'' \<and> validWebhookRequest sr webhook header body"
proof -
  obtain stored webhook where
    new: "newWebhookSecret sr (re_random (aq_env rq) 2) (wr_id w) = Inr (wr_secret w, stored)" and
    webhook: "ms_webhooks (hs_store s') (wr_id w) = Some webhook" "wh_id webhook = wr_id w" "wh_status webhook = ''active''"
      "wh_webhook_secret_hash webhook = stored"
    using created_webhook [OF assms(1-3)] .
  obtain salt where salt: "stored_parts stored = Some (salt, hex_encode (sha256_of sr (wr_secret w)))"
    "wr_secret w = deriveWebhookSecret sr (wr_id w) salt"
    using newWebhookSecret_shape [OF new] .
  have "validWebhookRequest sr webhook header body"
    using assms(5)
  proof
    assume "header ''X-GitFlame-Webhook-Secret'' = wr_secret w"
    from secret_header_accepted [where header = header, OF assms(4) salt this] show ?thesis by (simp add: validWebhookRequest_def webhook)
  next
    assume "header ''X-Hub-Signature-256'' = ''sha256='' @ hex_encode (sr_hmac sr (wr_secret w) body)"
    with signature_accepted [OF assms(4)] have "signature_matches sr (wr_secret w) body (header ''X-Hub-Signature-256'')" by metis
    then show ?thesis by (simp add: validWebhookRequest_def webhook salt(1) salt(2) [symmetric])
  qed
  with webhook show ?thesis by simp
qed

section \<open>Forged and repeated deliveries\<close>

lemma accept_delivery_effect:
  "accept_delivery sr rq webhook payload s =
     (case ms_connections (hs_store s) (wh_connection_id webhook) of
        None \<Rightarrow> (Problem 410 ''connection_not_found'' ''webhook connection no longer exists'', s)
      | Some connection \<Rightarrow>
          (case SaveGitFlameWebhookEvent (aq_now rq 9) (re_id (aq_env rq) 5) (new_event sr rq (wh_id webhook) payload) (hs_store s) of
             (Inl err, st) \<Rightarrow> (storage_error err, s)
           | (Inr saved, st) \<Rightarrow>
               (Reply 202 (Delivery_body ''received'' (ev_id saved)),
                s\<lparr>hs_flow := (hs_flow s)\<lparr>ws_store := st\<rparr>, hs_background := hs_background s @ [Delivery_run connection saved]\<rparr>)))"
  by (simp add: accept_delivery_def attempt_def attempt_or_def answer_def in_store_apply GitFlameConnection_def start_background_def
      reply_def SaveGitFlameWebhookEvent_def Let_def split: option.split)

text \<open>C9: Only the owner of the secret makes the server work: a delivery to a webhook that is not registered and active, one that
  is too large, or one that carries neither the secret nor a signature of its body, is refused and changes nothing. Every
  other delivery stores at most one event and starts at most one goroutine, for the connection of that webhook.\<close>

theorem forged_delivery_changes_nothing:
  "case receiveGitFlameWebhook sr rq s of
     (r, s') \<Rightarrow>
       (case ms_webhooks (hs_store s) (aq_id rq) of
          None \<Rightarrow> s' = s \<and> reply_status r = 404
        | Some webhook \<Rightarrow>
            if wh_status webhook \<noteq> ''active'' then s' = s \<and> reply_status r = 404
            else if length (aq_body rq) > maxWebhookBodyBytes then s' = s \<and> reply_status r = 413
            else if \<not> validWebhookRequest sr webhook (aq_header rq) (aq_body rq) then s' = s \<and> reply_status r = 401
            else s' = s \<or>
              (\<exists>connection payload saved st.
                 ms_connections (hs_store s) (wh_connection_id webhook) = Some connection \<and>
                 payload_of (sr_json sr (aq_body rq)) = Inr payload \<and>
                 SaveGitFlameWebhookEvent (aq_now rq 9) (re_id (aq_env rq) 5) (new_event sr rq (wh_id webhook) payload) (hs_store s) =
                   (Inr saved, st) \<and>
                 s' = s\<lparr>hs_flow := (hs_flow s)\<lparr>ws_store := st\<rparr>,
                        hs_background := hs_background s @ [Delivery_run connection saved]\<rparr>))"
proof (cases "ms_webhooks (hs_store s) (aq_id rq)")
  case None
  then show ?thesis by (simp add: receiveGitFlameWebhook_def GitFlameWebhook_def refuse_def)
next
  case (Some webhook)
  show ?thesis
  proof (cases "wh_status webhook \<noteq> ''active'' \<or> length (aq_body rq) > maxWebhookBodyBytes \<or>
      \<not> validWebhookRequest sr webhook (aq_header rq) (aq_body rq)")
    case True
    with Some show ?thesis by (auto simp: receiveGitFlameWebhook_def GitFlameWebhook_def refuse_def)
  next
    case authentic: False
    then have receive: "receiveGitFlameWebhook sr rq s =
        (case payload_of (sr_json sr (aq_body rq)) of
           Inl err \<Rightarrow> (invalid_body err, s)
         | Inr payload \<Rightarrow>
             (case earlier_delivery rq (wh_id webhook) (hs_store s) of
                Some earlier \<Rightarrow> reply 202 (Delivery_body ''duplicate'' (ev_id earlier)) s
              | None \<Rightarrow> accept_delivery sr rq webhook payload s))"
      by (simp add: receiveGitFlameWebhook_def GitFlameWebhook_def Some)
    consider (unchanged) "snd (receiveGitFlameWebhook sr rq s) = s"
      | (accepted) payload connection where "payload_of (sr_json sr (aq_body rq)) = Inr payload"
          "ms_connections (hs_store s) (wh_connection_id webhook) = Some connection"
          "receiveGitFlameWebhook sr rq s = accept_delivery sr rq webhook payload s"
    proof (cases "payload_of (sr_json sr (aq_body rq))")
      case (Inr payload)
      then show ?thesis
        using receive that
        by (cases "earlier_delivery rq (wh_id webhook) (hs_store s)"; cases "ms_connections (hs_store s) (wh_connection_id webhook)")
          (simp_all add: reply_def accept_delivery_effect)
    qed (use receive that in simp)
    then show ?thesis
    proof cases
      case unchanged
      with authentic Some show ?thesis by (simp add: case_prod_beta)
    next
      case (accepted payload connection)
      obtain saved st where save: "SaveGitFlameWebhookEvent (aq_now rq 9) (re_id (aq_env rq) 5) (new_event sr rq (wh_id webhook) payload)
          (hs_store s) = (Inr saved, st)"
        by (simp add: SaveGitFlameWebhookEvent_def Let_def)
      then have "snd (receiveGitFlameWebhook sr rq s) = s\<lparr>hs_flow := (hs_flow s)\<lparr>ws_store := st\<rparr>,
          hs_background := hs_background s @ [Delivery_run connection saved]\<rparr>"
        by (simp add: accepted accept_delivery_effect)
      then show ?thesis
        using authentic Some save accepted(1,2) by (simp add: case_prod_beta)
    qed
  qed
qed

text \<open>An event that fewer than a hundred others follow is on the first page.\<close>

lemma on_first_page:
  assumes "event \<in> set (ranging (ms_events st) order)" and "ev_webhook_id event = webhookID"
    and "length (filter (\<lambda>e. ev_webhook_id e = webhookID \<and> ev_received_at event \<le> ev_received_at e)
        (ranging (ms_events st) order)) \<le> 100"
  obtains page where "GitFlameWebhookEvents order webhookID 100 st = (Inr page, st)" and "event \<in> set page"
proof -
  let ?mine = "filter (\<lambda>e. ev_webhook_id e = webhookID) (ranging (ms_events st) order)"
  let ?sorted = "sort_key (\<lambda>e. - ev_received_at e) ?mine"
  have page: "GitFlameWebhookEvents order webhookID 100 st = (Inr (take 100 ?sorted), st)"
    by (simp add: GitFlameWebhookEvents_def Let_def go_len_def)
  have "event \<in> set (take 100 ?sorted)"
  proof (rule ccontr)
    assume out: "event \<notin> set (take 100 ?sorted)"
    have "event \<in> set ?sorted" using assms(1,2) by simp
    then have late: "event \<in> set (drop 100 ?sorted)" using out by (metis Un_iff append_take_drop_id set_append)
    then have "length (take 100 ?sorted) = 100" by (cases "length ?sorted \<le> 100") simp_all
    let ?Q = "\<lambda>e. ev_received_at event \<le> ev_received_at e"
    have "filter ?Q (take 100 ?sorted) = take 100 ?sorted"
      by (intro filter_True ballI) (rule sort_key_take_newest [where f = ev_received_at, OF _ late])
    then have "length (filter ?Q (take 100 ?sorted)) = 100"
      using \<open>length (take 100 ?sorted) = 100\<close> by (simp only:)
    moreover have "length (filter ?Q (drop 100 ?sorted)) > 0"
      using late by (auto simp only: length_greater_0_conv filter_empty_conv order_refl)
    moreover have "length (filter ?Q ?sorted) = length (filter ?Q (take 100 ?sorted)) + length (filter ?Q (drop 100 ?sorted))"
      by (metis append_take_drop_id filter_append length_append)
    moreover have "length (filter ?Q ?sorted) = length (filter ?Q ?mine)"
      by (simp only: size_mset [symmetric] mset_filter mset_sort)
    ultimately have "100 < length (filter ?Q ?mine)" by linarith
    with assms(3) show False by (simp add: filter_filter conj_commute)
  qed
  with page that show ?thesis by blast
qed

text \<open>A delivery that is sent again is recognised: as long as its event is among the latest hundred of the webhook, it is
  answered as a duplicate, nothing is stored and nothing is processed.\<close>

theorem known_delivery_is_duplicate:
  assumes "ms_webhooks (hs_store s) (aq_id rq) = Some webhook" and "wh_status webhook = ''active''"
    and "length (aq_body rq) \<le> maxWebhookBodyBytes" and "validWebhookRequest sr webhook (aq_header rq) (aq_body rq)"
    and "payload_of (sr_json sr (aq_body rq)) = Inr payload" and "delivery_id rq \<noteq> []"
    and "event \<in> set (ranging (ms_events (hs_store s)) (aq_orders rq 1))" and "ev_webhook_id event = wh_id webhook"
    and "ev_delivery_id event = delivery_id rq"
    and "length (filter (\<lambda>e. ev_webhook_id e = wh_id webhook \<and> ev_received_at event \<le> ev_received_at e)
        (ranging (ms_events (hs_store s)) (aq_orders rq 1))) \<le> 100"
  shows "\<exists>k. receiveGitFlameWebhook sr rq s = (Reply 202 (Delivery_body ''duplicate'' k), s)"
proof -
  obtain page where page: "GitFlameWebhookEvents (aq_orders rq 1) (wh_id webhook) 100 (hs_store s) = (Inr page, hs_store s)"
    "event \<in> set page"
    using on_first_page [OF assms(7,8,10)] .
  then obtain earlier where "find (\<lambda>e. ev_delivery_id e = delivery_id rq) page = Some earlier"
    using assms(9) by (metis (mono_tags, lifting) find_None_iff not_Some_eq)
  with page have "earlier_delivery rq (wh_id webhook) (hs_store s) = Some earlier"
    by (simp add: earlier_delivery_def assms(6))
  with assms show ?thesis by (simp add: receiveGitFlameWebhook_def GitFlameWebhook_def reply_def)
qed

section \<open>What becomes of a delivery\<close>

text \<open>C30: The goroutine leaves its event processed, failed or ignored, with the time of its end; an error is recorded exactly
  for a failed one. Only a panic, which ends the process, leaves the event as it was received.\<close>

theorem delivery_settles:
  assumes "ev_id event \<noteq> []" and "ev_status event = ''received''" and "ev_error event = None"
  shows "case processGitFlameWebhookEvent sr env connection event s of
      (Inl e, s') \<Rightarrow> (case e of Panic t \<Rightarrow> True | _ \<Rightarrow> False)
    | (Inr _, s') \<Rightarrow>
        (case ms_events (hs_store s') (ev_id event) of
           None \<Rightarrow> False
         | Some v \<Rightarrow>
             ev_status v \<in> {''processed'', ''failed'', ''ignored''} \<and> ev_processed_at v \<noteq> None \<and>
             (ev_error v \<noteq> None \<longleftrightarrow> ev_status v = ''failed'') \<and>
             (ev_status v = ''ignored'' \<longleftrightarrow> ev_event_type event \<notin> {''push'', ''issue''}))"
proof -
  obtain r s1 payload where run: "process_payload sr env connection (ev_event_type event) (s, ev_payload event) = (r, s1, payload)"
    by (metis prod_cases3)
  have quiet: "r = Inr ()" if "ev_event_type event \<notin> {''push'', ''issue''}"
    using run that by (auto simp: process_payload_def)
  show ?thesis
  proof (cases "\<exists>t. r = Inl (Panic t)")
    case True
    with run show ?thesis by (auto simp: processGitFlameWebhookEvent_def)
  next
    case False
    let ?v = "settled_event (re_now env 6) r payload event"
    have "processGitFlameWebhookEvent sr env connection event s =
        ignoring (in_store (SaveGitFlameWebhookEvent (re_now env 7) (re_id env 6) ?v)) s1"
      using run False by (auto simp: processGitFlameWebhookEvent_def split: sum.split go_error.split)
    moreover have "ev_id ?v = ev_id event" by (simp add: settled_event_def Let_def split: sum.split)
    moreover have "ev_status ?v \<in> {''processed'', ''failed'', ''ignored''} \<and> ev_processed_at ?v \<noteq> None \<and>
        (ev_error ?v \<noteq> None \<longleftrightarrow> ev_status ?v = ''failed'') \<and>
        (ev_status ?v = ''ignored'' \<longleftrightarrow> ev_event_type event \<notin> {''push'', ''issue''})"
      using assms quiet by (auto simp: settled_event_def Let_def split: sum.split)
    ultimately show ?thesis
      using assms(1)
      by (auto simp: ignoring_def tryS_def in_store_apply SaveGitFlameWebhookEvent_def Let_def)
  qed
qed

text \<open>A body that is \<open>null\<close> makes a \<open>nil\<close> payload, and an issue event writes to it.\<close>

lemma nil_payload_panics:
  "payload_of (Inr JNull) = Inr None \<and>
   (ev_event_type event = ''issue'' \<and> ev_payload event = None \<longrightarrow>
     fst (processGitFlameWebhookEvent sr env connection event s) = Inl (Panic ''assignment to entry in nil map''))"
  by (simp add: payload_of_def processGitFlameWebhookEvent_def process_payload_def put_payload_def)

end
