(* ===== verification/Server_Properties.thy ===== *)
theory Server_Properties imports Server_Steps Webhook_Properties begin

text \<open>
  What holds of the server in every state that it can reach, under every interleaving of requests and goroutines, and
  what its handlers promise.
\<close>

section \<open>Sessions\<close>

lemma authenticated_visit:
  assumes "authenticated_request sr rq s = (Inr session, s')"
  obtains now now2 tokenHash where "AppSessionByTokenHash now now2 tokenHash (hs_store s) = (Inr session, hs_store s')"
  using assms
  by (auto simp: authenticated_request_def in_sync_eq authenticate_def on_table_def sync_to_def prod_eq_iff
      split: option.splits sum.splits prod.splits)

lemma reachable_visit:
  "reachable_store st \<Longrightarrow> AppSessionByTokenHash now now2 tokenHash st = (r, st') \<Longrightarrow> reachable_store st'"
  using reachable_step [OF _ visit_app_session] by (metis snd_conv)

text \<open>C6: Whoever logs out is logged out: after the request that revokes a session has been answered with success, no request
  authenticates as that session any more, whatever requests and goroutines do in between.\<close>

theorem logged_out_stays_out:
  assumes "server_reachable s" and "authenticated_request sr rq s = (Inr session, s0)"
    and "revokeSession sr rq s = (With_cookie None (Reply 204 No_body), s1)" and "server_step\<^sup>*\<^sup>* s1 s2"
    and "authenticated_request sr' rq' s2 = (Inr later, s3)"
  shows "aps_id later \<noteq> aps_id session"
proof -
  have s0: "reachable_store (hs_store s0)"
    using authenticated_visit [OF assms(2)] reachable_visit server_reachable_store [OF assms(1)] by metis
  obtain st where revoked: "RevokeAppSession (aq_now rq 9) (aps_id session) (hs_store s0) = (Inr (), st)" and
    s1: "s1 = s0\<lparr>hs_flow := (hs_flow s0)\<lparr>ws_store := st\<rparr>\<rparr>"
    using assms(2,3)
    by (auto simp: revokeSession_def attempt_def attempt_or_def answer_def in_store_apply with_cookie_def reply_def resourceError_def
        storage_error_def recovered_def split: prod.splits sum.splits go_error.splits if_splits)
  have "store_step\<^sup>*\<^sup>* st (hs_store s2)" using server_run_store [OF assms(4)] by (simp add: s1)
  with revoked_session_never_authenticates [OF s0 revoked] authenticated_visit [OF assms(5)] show ?thesis by metis
qed

section \<open>Background indexing\<close>

definition index_repository :: "'s background_work \<Rightarrow> string option" where
  "index_repository work =
     (case work of Index_run job \<Rightarrow> Some (repo_id (con_repository (xr_connection job))) | Delivery_run _ _ \<Rightarrow> None)"

definition index_repositories :: "'s server_state \<Rightarrow> string list" where
  "index_repositories s = List.map_filter index_repository (hs_background s)"

text \<open>A state of the server stands for a state of the system of indexing jobs.\<close>

definition index_view :: "'s server_state \<Rightarrow> index_system \<Rightarrow> bool" where
  "index_view s y \<longleftrightarrow> index_reachable y \<and> ix_registry y = hs_jobs s \<and> map fst (ix_running y) = index_repositories s"

lemma index_repositories_append [simp]:
  "List.map_filter index_repository (ws @ [w]) =
     List.map_filter index_repository ws @ (case index_repository w of None \<Rightarrow> [] | Some r \<Rightarrow> [r])"
  by (simp add: map_filter_def split: option.split)

lemma index_repositories_remove1:
  "index_repository w = Some r \<Longrightarrow> w \<in> set ws \<Longrightarrow> distinct (List.map_filter index_repository ws) \<Longrightarrow>
     List.map_filter index_repository (remove1 w ws) = remove1 r (List.map_filter index_repository ws)"
proof (induction ws)
  case (Cons v ws)
  show ?case
  proof (cases "v = w")
    case False
    have "r \<in> set (List.map_filter index_repository ws)"
      using Cons.prems False by (force simp: map_filter_def)
    with Cons False show ?thesis by (auto simp: map_filter_simps split: option.splits)
  qed (use Cons.prems in \<open>simp add: map_filter_simps\<close>)
qed simp

lemma index_repositories_remove1_other:
  "index_repository w = None \<Longrightarrow> List.map_filter index_repository (remove1 w ws) = List.map_filter index_repository ws"
  by (induction ws) (auto simp: map_filter_simps split: option.split)

lemma map_fst_remove1: "distinct (map fst xs) \<Longrightarrow> (r, c) \<in> set xs \<Longrightarrow> map fst (remove1 (r, c) xs) = remove1 r (map fst xs)"
  by (induction xs) (auto simp: rev_image_eqI)

lemma index_view_start: "\<exists>y. index_view (initial_server_state w) y"
  by (rule exI [of _ initial_index_system])
    (simp add: index_view_def index_reachable_def initial_index_system_def initial_server_state_def index_repositories_def)

lemma index_view_same:
  "index_view s y \<Longrightarrow> hs_jobs s' = hs_jobs s \<Longrightarrow> index_repositories s' = index_repositories s \<Longrightarrow> \<exists>y'. index_view s' y'"
  by (auto simp: index_view_def)

lemma index_view_step:
  assumes "server_step s s'" and y: "index_view s y"
  shows "\<exists>y'. index_view s' y'"
  using assms(1)
proof (cases rule: server_step.cases)
  case (index_started now started job conn ref force st rg)
  let ?r = "repo_id (con_repository (xr_connection job))"
  let ?y = "y\<lparr>ix_registry := rg, ix_running := ix_running y @ [(?r, rg_channels (ix_registry y))]\<rparr>"
  have "index_step y ?y" by (rule granted) (use y index_started(2) in \<open>simp add: index_view_def\<close>)
  with y have "index_reachable ?y"
    unfolding index_view_def index_reachable_def by (meson rtranclp.rtrancl_into_rtrancl)
  with y have "index_view s' ?y"
    by (simp add: index_view_def index_started(1) index_repositories_def index_repository_def)
  then show ?thesis by blast
next
  case (index_finished job now outcome failure res rg)
  let ?r = "repo_id (con_repository (xr_connection job))"
  have reach: "index_reachable y" and jobs: "ix_registry y = hs_jobs s" and runs: "map fst (ix_running y) = index_repositories s"
    using y by (simp_all add: index_view_def)
  have distinct: "distinct (map fst (ix_running y))" using index_reachable_ok [OF reach] by (simp add: index_ok_def live_ok_def)
  have repository: "index_repository (Index_run job) = Some ?r" by (simp add: index_repository_def)
  then have "?r \<in> set (index_repositories s)"
    using index_finished(2) unfolding index_repositories_def map_filter_def by force
  then obtain ch where live: "(?r, ch) \<in> set (ix_running y)" unfolding runs [symmetric] by auto
  let ?y = "y\<lparr>ix_registry := rg, ix_running := remove1 (?r, ch) (ix_running y)\<rparr>"
  have "index_step y ?y" by (rule finished [OF live]) (use jobs index_finished(3) in simp)
  with reach have "index_reachable ?y"
    unfolding index_reachable_def by (meson rtranclp.rtrancl_into_rtrancl)
  moreover have "map fst (remove1 (?r, ch) (ix_running y)) = index_repositories s'"
    using map_fst_remove1 [OF distinct live] index_repositories_remove1 [OF repository index_finished(2)] distinct
    by (simp add: index_finished(1) index_repositories_def runs)
  ultimately have "index_view s' ?y" by (simp add: index_view_def index_finished(1))
  then show ?thesis by blast
qed (auto intro!: index_view_same [OF y]
    simp: index_repositories_def index_repositories_remove1_other index_repository_def)

lemma server_reachable_index_view: "server_reachable s \<Longrightarrow> \<exists>y. index_view s y"
proof -
  assume "server_reachable s"
  then obtain w where "server_step\<^sup>*\<^sup>* (initial_server_state w) s" by (auto simp: server_reachable_def)
  then show ?thesis
    by (induction rule: rtranclp_induct) (auto simp: index_view_start dest: index_view_step)
qed

text \<open>C24: In the whole server, too, a repository has at most one background indexing job (a goroutine that
  \<open>startRepositoryIndexInBackground\<close> has started) at a time, and the registry shows a job as running exactly while its goroutine is
  there. This is about registered jobs: what a push webhook indexes, and what a request indexes itself after waiting for a running job
  (\<open>ensureRequestRepositoryIndex\<close>), is not registered and may overlap.\<close>

theorem server_indexes_once:
  assumes "server_reachable s"
  shows "distinct (index_repositories s) \<and> (is_running (hs_jobs s) r \<longleftrightarrow> r \<in> set (index_repositories s))"
proof -
  obtain y where y: "index_reachable y" "ix_registry y = hs_jobs s" "map fst (ix_running y) = index_repositories s"
    using server_reachable_index_view [OF assms] by (auto simp: index_view_def)
  have "distinct (map fst (ix_running y))" "is_running (ix_registry y) r \<longleftrightarrow> r \<in> fst ` set (ix_running y)"
    using index_reachable_ok [OF y(1)] by (simp_all add: index_ok_def live_ok_def live_fst)
  then show ?thesis using y by (metis list.set_map)
qed

section \<open>Applying generated files\<close>

definition same_issues :: "memory_store \<Rightarrow> memory_store \<Rightarrow> bool" where
  "same_issues st0 st \<longleftrightarrow> ms_sessions st = ms_sessions st0 \<and> ms_issueIndex st = ms_issueIndex st0"

abbreviation issues_at :: "memory_store \<Rightarrow> 's server_state \<Rightarrow> bool" where
  "issues_at st0 s \<equiv> same_issues st0 (hs_store s)"

lemma issues_in_store: "(\<And>st. same_issues st0 st \<Longrightarrow> same_issues st0 (snd (m st))) \<Longrightarrow> keeps (issues_at st0) (in_store m)"
  by (rule keeps_in_store) simp

lemma issues_in_world [keeps_intros]: "keeps (issues_at st0) (in_world m)"
  by (simp add: keeps_def in_world_def case_prod_beta)

lemma issues_source: "keeps (issues_at st0) (in_sync c (gitFlameSourceForRepository bk env repositoryID))"
proof -
  have "keeps (issues_at st0) (in_store (AppSessionByTokenHash now now2 tokenHash))" for now now2 tokenHash
    by (rule issues_in_store) (simp add: same_issues_def AppSessionByTokenHash_def Let_def split: option.split)
  moreover have "keeps (issues_at st0) (in_store (UserGitFlameConnectionByRepository order u r))" for order u r
    by (rule issues_in_store) simp
  ultimately show ?thesis
    unfolding gitFlameSourceForRepository_def authenticate_def
    by (intro keeps_in_sync keeps_intros keeps_on_table)
qed

lemma issues_touch: "keeps (issues_at st0) (touch_optional now connection)"
proof -
  have "keeps (issues_at st0) (in_store (TouchGitFlameConnection now u k))" for u k
    by (rule issues_in_store) (simp add: same_issues_def TouchGitFlameConnection_def split: option.split)
  then show ?thesis unfolding touch_optional_def touch_def by (intro keeps_intros)
qed

text \<open>The session behind an identifier is the one that was saved.\<close>

lemma Session_saved:
  assumes "keyed ses_id (ms_sessions st)" and "fst (Session k st) = Inr v" and "ses_id w = ses_id v"
    and "same_issues (snd (UpdateSession now w st)) st'"
  shows "Session k st' = (Inr (w\<lparr>ses_updated_at := now\<rparr>), st')"
proof -
  let ?sid = "case ms_issueIndex st k of Some mapped \<Rightarrow> mapped | None \<Rightarrow> k"
  have "ms_sessions st ?sid = Some v" using assms(2) by (auto simp: Session_def Let_def split: option.splits)
  then have "ses_id v = ?sid" using assms(1) by (auto simp: keyed_def)
  with assms(3,4) show ?thesis
    by (auto simp: Session_def same_issues_def UpdateSession_def Let_def split: option.splits)
qed

lemma same_issues_trans: "same_issues a b \<Longrightarrow> same_issues b c \<Longrightarrow> same_issues a c"
  by (simp add: same_issues_def)

lemma same_issues_update: "same_issues a b \<Longrightarrow> same_issues (snd (UpdateSession now w a)) (snd (UpdateSession now w b))"
  by (simp add: same_issues_def UpdateSession_def Let_def)

lemma session_missing_is_problem [simp]: "session_missing e \<noteq> Reply st body"
  by (simp add: session_missing_def)

lemma save_session_issues:
  assumes "save_session now w s = (Inr saved, s')" and "issues_at st0 s"
  shows "issues_at (snd (UpdateSession now w st0)) s'"
proof -
  have "hs_store s' = snd (UpdateSession now w (hs_store s))"
    using assms(1) by (auto simp: save_session_def in_store_apply split: prod.splits)
  then show ?thesis using same_issues_update [OF assms(2)] by simp
qed

lemma apply_to_gitflame_ok:
  assumes "apply_to_gitflame sr rq now session contract s = (Reply 200 body, s')" and s: "issues_at st0 s"
  obtains outcome where
    "issues_at (snd (UpdateSession (aq_now rq 7) (with_contract session (applied_contract now outcome contract)) st0)) s'"
proof -
  obtain source connection s1 where source: "in_sync None (gitFlameSourceForRepository (sr_backend sr) (aq_env rq)
      (repo_id (req_repository (ses_request session)))) s = (Inr (source, connection), s1)" and
    rest: "(case source of
         None \<Rightarrow> refuse 503 ''gitflame_client_unavailable'' ''GitFlame API client is not configured''
       | Some gitflame \<Rightarrow>
           attempt_or (in_world (gs_apply gitflame (req_repository (ses_request session)) (apply_contract session contract)))
             (\<lambda>err.
               attempt (ignoring (save_session (aq_now rq 7) (with_contract session (failed_contract now (error_text err) contract))))
                 storage_error (\<lambda>_. answer (integrationError ''gitflame_apply_error'' err)))
             (\<lambda>outcome.
               attempt (save_session (aq_now rq 7) (with_contract session (applied_contract now outcome contract))) storage_error (\<lambda>saved.
               attempt (touch_optional (aq_now rq 8) connection) storage_error (\<lambda>_.
                 applied_reply saved ''Generated files applied to GitFlame.'')))) s1 = (Reply 200 body, s')"
    using assms(1) unfolding apply_to_gitflame_def by (elim attempt_reply) auto
  have s1: "issues_at st0 s1" by (rule keepsD_eq [OF issues_source source s])
  obtain gitflame where gitflame: "source = Some gitflame" using rest by (cases source) (auto simp: refuse_def)
  have failure: "fst (attempt (ignoring m) storage_error (\<lambda>_. answer (integrationError code err)) t) \<noteq> Reply 200 body"
    for m :: "('a server_state, issue_session) op" and code err t
    by (auto simp: attempt_def attempt_or_def answer_def split: prod.split sum.split go_error.split)
  obtain outcome s2 where sent: "in_world (gs_apply gitflame (req_repository (ses_request session)) (apply_contract session contract)) s1 =
      (Inr outcome, s2)" and
    rest2: "attempt (save_session (aq_now rq 7) (with_contract session (applied_contract now outcome contract))) storage_error (\<lambda>saved.
               attempt (touch_optional (aq_now rq 8) connection) storage_error (\<lambda>_.
                 applied_reply saved ''Generated files applied to GitFlame.'')) s2 = (Reply 200 body, s')"
    using rest unfolding gitflame option.case by (elim attempt_or_reply) (auto simp: failure)
  have s2: "issues_at st0 s2" by (rule keepsD_eq [OF issues_in_world sent s1])
  obtain saved s3 where save: "save_session (aq_now rq 7) (with_contract session (applied_contract now outcome contract)) s2 =
      (Inr saved, s3)" and
    rest3: "attempt (touch_optional (aq_now rq 8) connection) storage_error (\<lambda>_.
                 applied_reply saved ''Generated files applied to GitFlame.'') s3 = (Reply 200 body, s')"
    using rest2 by (elim attempt_reply) auto
  obtain s4 where touched: "touch_optional (aq_now rq 8) connection s3 = (Inr (), s4)" and "s' = s4"
    using rest3 by (elim attempt_reply) (auto simp: applied_reply_def reply_def)
  with keepsD_eq [OF issues_touch touched save_session_issues [OF save s2]] that show ?thesis by simp
qed

definition stored_as_applied :: "string \<Rightarrow> 's server_state \<Rightarrow> bool" where
  "stored_as_applied k s \<longleftrightarrow>
     (case fst (Session k (hs_store s)) of
        Inl _ \<Rightarrow> False
      | Inr v \<Rightarrow>
          (case ses_generated_files v of None \<Rightarrow> False | Some c \<Rightarrow> gc_files c \<noteq> [] \<and> gc_apply_status c = ''applied''))"

lemma already_applied_reply:
  assumes "stored_as_applied (aq_id rq) s"
  shows "\<exists>body. applyGeneratedFiles_handler sr rq s = (Reply 200 body, s)"
proof -
  from assms obtain v c where "Session (aq_id rq) (hs_store s) = (Inr v, hs_store s)" "ses_generated_files v = Some c"
    "gc_files c \<noteq> []" "gc_apply_status c = ''applied''"
    by (auto simp: stored_as_applied_def Session_def Let_def split: sum.splits option.splits)
  then show ?thesis
    by (simp add: applyGeneratedFiles_handler_def attempt_def attempt_or_def in_store_apply applied_reply_def reply_def)
qed

lemma Session_reads: "Session k st = (r, st') \<Longrightarrow> st' = st"
  by (metis reads_only(1) snd_conv)

text \<open>C10: A change is applied once: when the request to apply the generated files of an issue has succeeded, the session is
  stored as applied, and repeating the request succeeds without reaching GitFlame or changing anything.\<close>

theorem applied_change_is_not_repeated:
  assumes "server_reachable s" and "applyGeneratedFiles_handler sr rq s = (Reply 200 body, s')" and "aq_id rq' = aq_id rq"
  shows "stored_as_applied (aq_id rq) s' \<and> (\<exists>body'. applyGeneratedFiles_handler sr' rq' s' = (Reply 200 body', s'))"
proof -
  have keyed: "keyed ses_id (ms_sessions (hs_store s))"
    using reachable_ok [OF server_reachable_store [OF assms(1)]] by (simp add: store_ok_def sessions_ok_def)
  obtain v where found: "Session (aq_id rq) (hs_store s) = (Inr v, hs_store s)"
    using assms(2) by (auto simp: applyGeneratedFiles_handler_def attempt_def attempt_or_def in_store_apply answer_def recovered_def
        session_missing_def resourceError_def storage_error_def dest: Session_reads split: prod.splits sum.splits go_error.splits if_splits)
  then obtain contract where contract: "ses_generated_files v = Some contract" "gc_files contract \<noteq> []"
    using assms(2) by (auto simp: applyGeneratedFiles_handler_def attempt_def attempt_or_def in_store_apply refuse_def
        split: option.splits if_splits)
  have "stored_as_applied (aq_id rq) s'"
  proof (cases "gc_apply_status contract = ''applied''")
    case True
    then have "s' = s"
      using assms(2) found contract
      by (auto simp: applyGeneratedFiles_handler_def attempt_def attempt_or_def in_store_apply applied_reply_def reply_def)
    with True found contract show ?thesis by (simp add: stored_as_applied_def)
  next
    case False
    then have "apply_to_gitflame sr rq (aq_now rq 6) v contract s = (Reply 200 body, s')"
      using assms(2) found contract
      by (auto simp: applyGeneratedFiles_handler_def attempt_def attempt_or_def in_store_apply refuse_def answer_def recovered_def
          storage_error_def split: if_splits prod.splits sum.splits go_error.splits)
    then obtain outcome where
      "issues_at (snd (UpdateSession (aq_now rq 7) (with_contract v (applied_contract (aq_now rq 6) outcome contract)) (hs_store s))) s'"
      by (rule apply_to_gitflame_ok) (simp add: same_issues_def)
    from Session_saved [OF keyed _ _ this] found contract show ?thesis
      by (simp add: stored_as_applied_def with_contract_def applied_contract_def marked_files_def)
  qed
  moreover have "stored_as_applied (aq_id rq') s'" using calculation assms(3) by simp
  ultimately show ?thesis using already_applied_reply by blast
qed

section \<open>Requests without a session\<close>

text \<open>The calls that work for the user of a session, and what they answer without one.\<close>

inductive session_call :: "'s server \<Rightarrow> 's api_request \<Rightarrow> 's handler \<Rightarrow> bool" for sr rq where
  "session_call sr rq (revokeSession sr rq)"
| "session_call sr rq (reconnectGitFlameConnection sr rq connect)"
| "session_call sr rq (revokeGitFlameConnection sr rq)"
| "session_call sr rq (repositoryTree sr rq)"
| "session_call sr rq (repositoryFiles_handler sr rq)"
| "session_call sr rq (repositoryIssues_handler sr rq)"
| "session_call sr rq (repositoryIndexStatus sr rq)"
| "session_call sr rq (saveRepositoryConfig sr rq config)"
| "session_call sr rq (createGitFlameWebhook sr rq)"
| "session_call sr rq (getGitFlameWebhook sr rq)"
| "session_call sr rq (disableGitFlameWebhook sr rq)"
| "session_call sr rq (listGitFlameWebhookEvents sr rq)"
| "session_call sr rq (opsTasks sr rq)"

definition session_problem :: api_reply where
  "session_problem = Problem 401 ''unauthorized'' ''valid application session cookie is required''"

lemma authenticate_fails:
  assumes "authenticate bk env y = (Inl e, y')"
  shows "e = ErrNotFound \<and> y' = y"
  using assms
  by (cases y) (auto simp: authenticate_def on_table_def AppSessionByTokenHash_def Let_def split: option.splits sum.splits if_splits)

lemma authenticated_request_fails:
  assumes "authenticated_request sr rq s = (Inl e, s')"
  shows "e = ErrNotFound \<and> s' = s"
proof -
  let ?y = "\<lparr>sy_store = hs_store s, sy_world = hs_world s, sy_connection = None\<rparr>"
  obtain y' where run: "authenticate (sr_backend sr) (aq_env rq) ?y = (Inl e, y')" and "s' = sync_to s y'"
    using assms by (auto simp: authenticated_request_def in_sync_eq prod_eq_iff)
  with authenticate_fails [OF run] show ?thesis by (simp add: sync_to_start)
qed

lemma attempt_session_required:
  "m s = (Inl session_required, s) \<Longrightarrow> attempt m (integrationError code) f s = (session_problem, s)"
  by (simp add: attempt_def attempt_or_def answer_def session_required_def unauthorized_def session_problem_def)

text \<open>C28: No session, no service: a request of these calls whose cookie does not authenticate is answered with 401 and changes
  nothing at all.\<close>

theorem session_calls_need_session:
  assumes "session_call sr rq h" and "authenticated_request sr rq s = (Inl e, s')"
  shows "h s = (session_problem, s)"
proof -
  have e: "e = ErrNotFound" "s' = s" using authenticated_request_fails [OF assms(2)] by auto
  have direct: "attempt (authenticated_request sr rq) authError f s = (session_problem, s)" for f
    using assms(2) by (simp add: e attempt_def attempt_or_def answer_def authError_def session_problem_def)
  have "authenticatedConnection sr rq k s = (Inl session_required, s)" for k
    using assms(2) by (simp add: e authenticatedConnection_def tryS_def)
  note connection = attempt_session_required [where m = "authenticatedConnection sr rq (aq_id rq)" and s = s, OF this]
  let ?y = "\<lparr>sy_store = hs_store s, sy_world = hs_world s, sy_connection = None\<rparr>"
  obtain y' where "authenticate (sr_backend sr) (aq_env rq) ?y = (Inl e, y')"
    using assms(2) by (auto simp: authenticated_request_def in_sync_eq prod_eq_iff)
  then have "authenticate (sr_backend sr) (aq_env rq) ?y = (Inl ErrNotFound, ?y)" using authenticate_fails by metis
  then have "reader_for_connection sr rq s = (Inl session_required, s)"
    by (simp add: reader_for_connection_def in_sync_eq gitFlameReaderForConnection_def tryS_def sync_to_start)
  note reader = attempt_session_required [where m = "reader_for_connection sr rq" and s = s, OF this]
  from assms(1) show ?thesis
    by cases (simp_all only: revokeSession_def reconnectGitFlameConnection_def revokeGitFlameConnection_def repositoryTree_def
        repositoryFiles_handler_def repositoryIssues_handler_def repositoryIndexStatus_def saveRepositoryConfig_def
        createGitFlameWebhook_def getGitFlameWebhook_def disableGitFlameWebhook_def listGitFlameWebhookEvents_def opsTasks_def
        direct connection reader)
qed

section \<open>The operational views\<close>

definition unseen :: "app_session option \<Rightarrow> app_session option" where
  "unseen entry = map_option (\<lambda>a. a\<lparr>aps_last_seen_at := None\<rparr>) entry"

text \<open>Nothing changes but the outside world and when sessions were last seen.\<close>

definition observes :: "'s server_state \<Rightarrow> 's server_state \<Rightarrow> bool" where
  "observes s s' \<longleftrightarrow>
     (\<exists>w sessions.
        s' = s\<lparr>hs_world := w, hs_flow := (hs_flow s)\<lparr>ws_store := (hs_store s)\<lparr>ms_appSessions := sessions\<rparr>\<rparr>\<rparr> \<and>
        unseen \<circ> sessions = unseen \<circ> ms_appSessions (hs_store s))"

lemma observes_world:
  assumes "observes s s'"
  shows "observes s (s'\<lparr>hs_world := w\<rparr>)"
proof -
  from assms obtain w0 sessions where
    "s' = s\<lparr>hs_world := w0, hs_flow := (hs_flow s)\<lparr>ws_store := (hs_store s)\<lparr>ms_appSessions := sessions\<rparr>\<rparr>\<rparr>" and
    same: "unseen \<circ> sessions = unseen \<circ> ms_appSessions (hs_store s)"
    unfolding observes_def by blast
  then have "s'\<lparr>hs_world := w\<rparr> = s\<lparr>hs_world := w, hs_flow := (hs_flow s)\<lparr>ws_store := (hs_store s)\<lparr>ms_appSessions := sessions\<rparr>\<rparr>\<rparr>"
    by simp
  with same show ?thesis unfolding observes_def by blast
qed

lemma RecentAgentTasks_reads: "\<exists>tasks. RecentAgentTasks order query st = (Inr tasks, st)"
  by (simp add: RecentAgentTasks_def Let_def)

lemma observes_self: "observes s s"
  unfolding observes_def by (rule exI [of _ "hs_world s"], rule exI [of _ "ms_appSessions (hs_store s)"]) simp

lemma observes_visit:
  "observes s (s\<lparr>hs_flow := (hs_flow s)\<lparr>ws_store := snd (AppSessionByTokenHash now now2 tokenHash (hs_store s))\<rparr>\<rparr>)"
  unfolding observes_def
  by (rule exI [of _ "hs_world s"], rule exI [of _ "ms_appSessions (snd (AppSessionByTokenHash now now2 tokenHash (hs_store s)))"])
    (auto simp: AppSessionByTokenHash_def Let_def unseen_def split: option.split)

lemma observes_authenticate: "observes s (snd (authenticated_request sr rq s))"
  using observes_self [of s] observes_visit [of s]
  by (auto simp: authenticated_request_def in_sync_def authenticate_def on_table_def case_prod_beta failS_def
      split: option.split sum.split)

text \<open>Looking at the operational state is harmless: whatever the views are asked, with or without a session, they leave the
  store, the indexing jobs and the goroutines as they are, but for the time of the visit; and without a session they do not even
  reach the broker.\<close>

theorem ops_views_only_observe:
  "observes s (snd (opsStatus sr broker rq s)) \<and> observes s (snd (opsTasks sr rq s)) \<and> observes s (snd (opsDeadLetter sr broker rq s)) \<and>
   (case authenticated_request sr rq s of
      (Inr session, s1) \<Rightarrow> True
    | (Inl e, s1) \<Rightarrow>
        opsStatus sr broker rq s = (Inl session_problem, s) \<and> opsTasks sr rq s = (session_problem, s) \<and>
        opsDeadLetter sr broker rq s = (Inl session_problem, s))"
proof -
  obtain r s1 where run: "authenticated_request sr rq s = (r, s1)" by fastforce
  then have seen: "observes s s1" using observes_authenticate [of s sr rq] by simp
  show ?thesis
  proof (cases r)
    case (Inl e)
    with run authenticated_request_fails have "e = ErrNotFound" "s1 = s" by blast+
    with Inl run seen show ?thesis
      by (simp add: opsStatus_def opsTasks_def opsDeadLetter_def attempt_def attempt_or_def answer_def authError_def session_problem_def)
  next
    case (Inr session)
    have "observes s (snd (opsStatus sr broker rq s))"
      using observes_world [OF seen] by (simp add: opsStatus_def run Inr Let_def case_prod_beta)
    moreover have "observes s (snd (opsTasks sr rq s))"
    proof (cases "ops_limit (aq_query rq ''limit'')")
      case None
      with seen show ?thesis by (simp add: opsTasks_def attempt_def attempt_or_def run Inr refuse_def)
    next
      case (Some limit)
      obtain tasks where
        "RecentAgentTasks (aq_orders rq 4) \<lparr>rq_limit = limit, rq_status = aq_query rq ''status''\<rparr> (hs_store s1) = (Inr tasks, hs_store s1)"
        using RecentAgentTasks_reads by blast
      with Some seen show ?thesis by (simp add: opsTasks_def attempt_def attempt_or_def run Inr in_store_apply reply_def)
    qed
    moreover have "observes s (snd (opsDeadLetter sr broker rq s))"
      using seen observes_world [OF seen]
      by (simp add: opsDeadLetter_def run Inr in_world_def case_prod_beta split: option.split sum.split)
    ultimately show ?thesis by (simp add: run Inr)
  qed
qed

section \<open>Reports\<close>

definition well_formed_card :: "recommendation_card \<Rightarrow> bool" where
  "well_formed_card c \<longleftrightarrow>
     card_id c \<noteq> [] \<and> card_state c \<noteq> [] \<and> card_severity c \<noteq> [] \<and> validRecommendationFingerprint (card_finding_fingerprint c)"

definition well_formed_report :: "recommendation_report \<Rightarrow> bool" where
  "well_formed_report r \<longleftrightarrow>
     rep_status r = ''ready'' \<and> list_all well_formed_card (rep_recommendations r) \<and>
     distinct (map card_finding_fingerprint (rep_recommendations r))"

lemma fill_cards_filled:
  assumes "\<And>i. new_id i \<noteq> []"
  shows "c \<in> set (fill_cards new_id i cards) \<Longrightarrow> card_id c \<noteq> [] \<and> card_state c \<noteq> [] \<and> card_severity c \<noteq> []"
  by (induction cards arbitrary: i) (auto simp: assms split: if_splits)

lemma save_report_well_formed:
  assumes "save_report sr metadata cfg summary cards s = (Inr r, s')" and "digest_length (sha256_of sr)"
    and "\<And>c. c \<in> set cards \<Longrightarrow> card_id c \<noteq> [] \<and> card_state c \<noteq> [] \<and> card_severity c \<noteq> []"
  shows "well_formed_report r"
proof -
  have r: "rep_status r = ''ready''" "rep_recommendations r = normalize_cards (sha256_of sr) [] cards"
    using assms(1) by (auto simp: save_report_def in_store_apply SaveRecommendations_def NormalizeRecommendations_def Let_def)
  have "well_formed_card c" if normal: "c \<in> set (normalize_cards (sha256_of sr) [] cards)" for c
  proof -
    obtain d where d: "d \<in> set cards" "c = d\<lparr>card_finding_fingerprint := card_fingerprint (sha256_of sr) d\<rparr>"
      using normalize_cards_fresh [OF normal] by blast
    with assms(3) [OF d(1)] card_fingerprint_valid [OF assms(2)] show ?thesis by (simp add: well_formed_card_def)
  qed
  with r show ?thesis by (simp add: well_formed_report_def list_all_iff normalize_cards_distinct)
qed

text \<open>The handlers whose reports are well formed.\<close>

definition reports_well :: "'s handler \<Rightarrow> bool" where
  "reports_well h \<longleftrightarrow> (\<forall>s r s'. h s = (Reply 200 (Report_body r), s') \<longrightarrow> well_formed_report r)"

lemma reports_wellD: "reports_well h \<Longrightarrow> h s = (Reply 200 (Report_body r), s') \<Longrightarrow> well_formed_report r"
  unfolding reports_well_def by blast

lemma reports_attempt:
  assumes "\<And>a. reports_well (f a)" and "\<And>e r. failed e \<noteq> Reply 200 (Report_body r)"
  shows "reports_well (attempt m failed f)"
  unfolding reports_well_def using assms(1) [THEN reports_wellD] assms(2) by (blast elim: attempt_reply)

lemma reports_problem: "reports_well (refuse st code message)" "reports_well (answer (Problem st code message))"
  by (simp_all add: reports_well_def refuse_def answer_def)

lemma reports_saved:
  assumes "digest_length (sha256_of sr)"
    and "\<And>c. c \<in> set cards \<Longrightarrow> card_id c \<noteq> [] \<and> card_state c \<noteq> [] \<and> card_severity c \<noteq> []"
  shows "reports_well (attempt (save_report sr metadata cfg summary cards) storage_error (\<lambda>report. reply 200 (Report_body report)))"
  unfolding reports_well_def using save_report_well_formed [OF _ assms]
  by (auto simp: reply_def elim!: attempt_reply)

lemma recommend_well_formed:
  assumes "digest_length (sha256_of sr)" and "\<And>i. re_id (aq_env rq) i \<noteq> []"
  shows "reports_well (recommend sr rq cfg metadata yaml files)"
proof -
  have cards: "card_id c \<noteq> [] \<and> card_state c \<noteq> [] \<and> card_severity c \<noteq> []"
    if "c \<in> set (fill_cards (card_ids (aq_env rq)) 0 cards)" for c cards
    by (rule fill_cards_filled [OF _ that]) (simp add: card_ids_def assms(2))
  show ?thesis
    unfolding recommend_def
    by (auto intro!: reports_attempt reports_problem reports_saved [OF assms(1) cards] split: option.split)
qed

text \<open>C32: Whatever the recommendation service answers, the report that an analysis returns is well formed: every card has an
  identifier, a state, a severity and a fingerprint of 64 hexadecimal digits, and no two cards have the same fingerprint.\<close>

theorem reported_cards_well_formed:
  assumes "analyzeRecommendations sr rq decoded s = (Reply 200 (Report_body r), s')" and "digest_length (sha256_of sr)"
    and "\<And>i. re_id (aq_env rq) i \<noteq> []"
  shows "well_formed_report r"
proof -
  have "reports_well (answer (validation_error err))" for err
    by (simp add: validation_error_def reports_problem)
  with recommend_well_formed [OF assms(2,3)] have "reports_well (analyzeRecommendations sr rq decoded)"
    unfolding analyzeRecommendations_def Let_def
    by (auto intro!: reports_attempt reports_problem reports_saved [OF assms(2)] simp: validation_error_def split: option.split)
  then show ?thesis using assms(1) by (rule reports_wellD)
qed

end
