(* ===== verification/Router.thy ===== *)
theory Router imports Server_Steps begin

text \<open>
  How a request finds its handler: the routes that \<open>newServer\<close> registers (server.go of backend/internal/httpapi), the way in
  which \<open>net/http.ServeMux\<close> matches them, and the whole server as one function from requests to answers. A path is the list
  of its unescaped segments after the mux has cleaned it.
\<close>

section \<open>Patterns\<close>

datatype segment = Exact string | Wildcard string

datatype endpoint =
    Ep_health | Ep_version | Ep_ready | Ep_docs
  | Ep_openAPI | Ep_metrics | Ep_opsStatus | Ep_opsTasks
  | Ep_opsDeadLetter | Ep_createGitFlameSession | Ep_revokeSession | Ep_saveGitFlameConnection
  | Ep_reconnectGitFlameConnection | Ep_revokeGitFlameConnection | Ep_repositoryTree | Ep_repositoryFiles
  | Ep_repositoryIssues | Ep_repositoryIndexStatus | Ep_saveRepositoryConfig | Ep_createGitFlameWebhook
  | Ep_getGitFlameWebhook | Ep_disableGitFlameWebhook | Ep_listGitFlameWebhookEvents | Ep_receiveGitFlameWebhook
  | Ep_analyze | Ep_task | Ep_retryTask | Ep_plan
  | Ep_approve | Ep_codeGenerationStatus | Ep_applyGeneratedFiles | Ep_correct
  | Ep_reject | Ep_analyzeRecommendations | Ep_recommendationStatus | Ep_recommendationSummary
  | Ep_recommendations | Ep_closeRecommendation | Ep_deleteRecommendation

record route =
  rt_method :: string
  rt_segments :: "segment list"
  rt_endpoint :: endpoint

definition segment_of :: "string \<Rightarrow> segment" where
  "segment_of t = (if has_prefix t ''{'' \<and> has_suffix t ''}'' then Wildcard (butlast (tl t)) else Exact t)"

definition route_of :: "string \<Rightarrow> string \<Rightarrow> endpoint \<Rightarrow> route" where
  "route_of method_name pattern ep =
     \<lparr>rt_method = method_name, rt_segments = map segment_of (tl (split_on CHR ''/'' pattern)), rt_endpoint = ep\<rparr>"

definition route_table :: "route list" where
  "route_table =
     [route_of ''GET'' ''/health'' Ep_health,
      route_of ''GET'' ''/version'' Ep_version,
      route_of ''GET'' ''/ready'' Ep_ready,
      route_of ''GET'' ''/docs'' Ep_docs,
      route_of ''GET'' ''/swagger/'' Ep_docs,
      route_of ''GET'' ''/swagger/index.html'' Ep_docs,
      route_of ''GET'' ''/openapi.json'' Ep_openAPI,
      route_of ''GET'' ''/metrics'' Ep_metrics,
      route_of ''GET'' ''/ops/status'' Ep_opsStatus,
      route_of ''GET'' ''/ops/tasks'' Ep_opsTasks,
      route_of ''GET'' ''/ops/dead-letter'' Ep_opsDeadLetter,
      route_of ''POST'' ''/auth/gitflame/session'' Ep_createGitFlameSession,
      route_of ''DELETE'' ''/auth/session'' Ep_revokeSession,
      route_of ''POST'' ''/integrations/gitflame/connections'' Ep_saveGitFlameConnection,
      route_of ''PUT'' ''/integrations/gitflame/connections/{id}'' Ep_reconnectGitFlameConnection,
      route_of ''DELETE'' ''/integrations/gitflame/connections/{id}'' Ep_revokeGitFlameConnection,
      route_of ''GET'' ''/integrations/gitflame/connections/{id}/tree'' Ep_repositoryTree,
      route_of ''GET'' ''/integrations/gitflame/connections/{id}/files'' Ep_repositoryFiles,
      route_of ''GET'' ''/integrations/gitflame/connections/{id}/issues'' Ep_repositoryIssues,
      route_of ''GET'' ''/integrations/gitflame/connections/{id}/index'' Ep_repositoryIndexStatus,
      route_of ''PUT'' ''/integrations/gitflame/connections/{id}/config'' Ep_saveRepositoryConfig,
      route_of ''POST'' ''/integrations/gitflame/connections/{id}/webhook'' Ep_createGitFlameWebhook,
      route_of ''GET'' ''/integrations/gitflame/connections/{id}/webhook'' Ep_getGitFlameWebhook,
      route_of ''DELETE'' ''/integrations/gitflame/connections/{id}/webhook'' Ep_disableGitFlameWebhook,
      route_of ''GET'' ''/integrations/gitflame/connections/{id}/webhook/events'' Ep_listGitFlameWebhookEvents,
      route_of ''POST'' ''/integrations/gitflame/webhooks/{id}'' Ep_receiveGitFlameWebhook,
      route_of ''POST'' ''/integrations/gitflame/issues/analyze'' Ep_analyze,
      route_of ''GET'' ''/ai/tasks/{taskId}'' Ep_task,
      route_of ''POST'' ''/ai/tasks/{taskId}/retry'' Ep_retryTask,
      route_of ''GET'' ''/ai/issues/{id}/plan'' Ep_plan,
      route_of ''POST'' ''/ai/issues/{id}/approve'' Ep_approve,
      route_of ''GET'' ''/ai/issues/{id}/code-generation'' Ep_codeGenerationStatus,
      route_of ''POST'' ''/ai/issues/{id}/gitflame/apply'' Ep_applyGeneratedFiles,
      route_of ''POST'' ''/ai/issues/{id}/correct'' Ep_correct,
      route_of ''POST'' ''/ai/issues/{id}/reject'' Ep_reject,
      route_of ''POST'' ''/integrations/gitflame/recommendations/analyze'' Ep_analyzeRecommendations,
      route_of ''POST'' ''/integrations/gitflame/repositories/{id}/recommendations/analyze'' Ep_analyzeRecommendations,
      route_of ''GET'' ''/repositories/recommendations/status'' Ep_recommendationStatus,
      route_of ''GET'' ''/repositories/recommendations/summary'' Ep_recommendationSummary,
      route_of ''GET'' ''/repositories/recommendations'' Ep_recommendations,
      route_of ''GET'' ''/repositories/{id}/recommendations/status'' Ep_recommendationStatus,
      route_of ''GET'' ''/repositories/{id}/recommendations/summary'' Ep_recommendationSummary,
      route_of ''GET'' ''/repositories/{id}/recommendations'' Ep_recommendations,
      route_of ''PATCH'' ''/recommendations/{id}/close'' Ep_closeRecommendation,
      route_of ''DELETE'' ''/recommendations/{id}'' Ep_deleteRecommendation]"

text \<open>A pattern that ends in a slash matches everything below it; a wildcard matches one segment that is not empty. The result
  are the values of the wildcards.\<close>

fun match_segments :: "segment list \<Rightarrow> string list \<Rightarrow> (string \<times> string) list option" where
  "match_segments [] [] = Some []"
| "match_segments [Exact []] (x # xs) = Some []"
| "match_segments (Exact e # ps) (x # xs) = (if e = x then match_segments ps xs else None)"
| "match_segments (Wildcard n # ps) (x # xs) = (if x = [] then None else map_option (Cons (n, x)) (match_segments ps xs))"
| "match_segments ps xs = None"

definition is_subtree :: "route \<Rightarrow> bool" where
  "is_subtree r \<longleftrightarrow> rt_segments r \<noteq> [] \<and> last (rt_segments r) = Exact []"

text \<open>A pattern for GET is one for HEAD, too.\<close>

definition method_matches :: "string \<Rightarrow> string \<Rightarrow> bool" where
  "method_matches method_name registered \<longleftrightarrow> method_name = registered \<or> method_name = ''HEAD'' \<and> registered = ''GET''"

definition matches :: "string \<Rightarrow> string list \<Rightarrow> route \<Rightarrow> bool" where
  "matches method_name segments r \<longleftrightarrow>
     method_matches method_name (rt_method r) \<and> match_segments (rt_segments r) segments \<noteq> None"

text \<open>The most specific pattern wins: the one of the full path before one of a subtree.\<close>

definition find_route :: "route list \<Rightarrow> string \<Rightarrow> string list \<Rightarrow> route option" where
  "find_route table method_name segments =
     (case find (\<lambda>r. \<not> is_subtree r \<and> matches method_name segments r) table of
        Some r \<Rightarrow> Some r
      | None \<Rightarrow> find (\<lambda>r. is_subtree r \<and> matches method_name segments r) table)"

text \<open>\<open>PathValue\<close> of the wildcard of a route; every route has at most one.\<close>

definition path_value :: "route \<Rightarrow> string list \<Rightarrow> string" where
  "path_value r segments = (case match_segments (rt_segments r) segments of Some ((n, v) # _) \<Rightarrow> v | _ \<Rightarrow> [])"

section \<open>Serving a request\<close>

text \<open>What the bodies of a request decode to, for the handlers that read one.\<close>

record bodies =
  bd_token :: "string result"
  bd_connection :: "connection_request result"
  bd_config :: "string result"
  bd_issue :: "issue_analyze_request result"
  bd_plan :: "string option result"
  bd_feedback :: "string result"
  bd_recommendation :: "recommendation_request result"

text \<open>The answers: those of the API, the operational views, pages that do not depend on the state, and the answer of the mux to a
  request without a route.\<close>

datatype served =
    Api api_reply
  | Status_view ops_status
  | Dead_letter_view "dead_letter_entry list" int "string option"
  | Fixed_page endpoint
  | Unrouted

definition served_api :: "'s handler \<Rightarrow> 's server_state \<Rightarrow> served \<times> 's server_state" where
  "served_api h s = (case h s of (r, s') \<Rightarrow> (Api r, s'))"

definition served_view :: "('a \<Rightarrow> served) \<Rightarrow> ('s, 'a) view \<Rightarrow> 's server_state \<Rightarrow> served \<times> 's server_state" where
  "served_view f v s = (case v s of (r, s') \<Rightarrow> (case r of Inl problem \<Rightarrow> Api problem | Inr a \<Rightarrow> f a, s'))"

fun run_endpoint ::
    "'s server \<Rightarrow> 's ops_broker option \<Rightarrow> bodies \<Rightarrow> 's api_request \<Rightarrow> endpoint \<Rightarrow> 's server_state \<Rightarrow> served \<times> 's server_state" where
  "run_endpoint sr broker bd rq Ep_ready = served_api (ready sr)"
| "run_endpoint sr broker bd rq Ep_opsStatus = served_view Status_view (opsStatus sr broker rq)"
| "run_endpoint sr broker bd rq Ep_opsTasks = served_api (opsTasks sr rq)"
| "run_endpoint sr broker bd rq Ep_opsDeadLetter =
     served_view (\<lambda>(entries, n, detail). Dead_letter_view entries n detail) (opsDeadLetter sr broker rq)"
| "run_endpoint sr broker bd rq Ep_createGitFlameSession = served_api (createGitFlameSession sr rq (bd_token bd))"
| "run_endpoint sr broker bd rq Ep_revokeSession = served_api (revokeSession sr rq)"
| "run_endpoint sr broker bd rq Ep_saveGitFlameConnection = served_api (saveGitFlameConnection sr rq (bd_connection bd))"
| "run_endpoint sr broker bd rq Ep_reconnectGitFlameConnection = served_api (reconnectGitFlameConnection sr rq (bd_connection bd))"
| "run_endpoint sr broker bd rq Ep_revokeGitFlameConnection = served_api (revokeGitFlameConnection sr rq)"
| "run_endpoint sr broker bd rq Ep_repositoryTree = served_api (repositoryTree sr rq)"
| "run_endpoint sr broker bd rq Ep_repositoryFiles = served_api (repositoryFiles_handler sr rq)"
| "run_endpoint sr broker bd rq Ep_repositoryIssues = served_api (repositoryIssues_handler sr rq)"
| "run_endpoint sr broker bd rq Ep_repositoryIndexStatus = served_api (repositoryIndexStatus sr rq)"
| "run_endpoint sr broker bd rq Ep_saveRepositoryConfig = served_api (saveRepositoryConfig sr rq (bd_config bd))"
| "run_endpoint sr broker bd rq Ep_createGitFlameWebhook = served_api (createGitFlameWebhook sr rq)"
| "run_endpoint sr broker bd rq Ep_getGitFlameWebhook = served_api (getGitFlameWebhook sr rq)"
| "run_endpoint sr broker bd rq Ep_disableGitFlameWebhook = served_api (disableGitFlameWebhook sr rq)"
| "run_endpoint sr broker bd rq Ep_listGitFlameWebhookEvents = served_api (listGitFlameWebhookEvents sr rq)"
| "run_endpoint sr broker bd rq Ep_receiveGitFlameWebhook = served_api (receiveGitFlameWebhook sr rq)"
| "run_endpoint sr broker bd rq Ep_analyze = served_api (analyze sr rq (bd_issue bd))"
| "run_endpoint sr broker bd rq Ep_task = served_api (task_handler rq)"
| "run_endpoint sr broker bd rq Ep_retryTask = served_api (retryTask sr rq)"
| "run_endpoint sr broker bd rq Ep_plan = served_api (plan_handler rq)"
| "run_endpoint sr broker bd rq Ep_approve = served_api (approve_handler sr rq (bd_plan bd))"
| "run_endpoint sr broker bd rq Ep_codeGenerationStatus = served_api (codeGenerationStatus rq)"
| "run_endpoint sr broker bd rq Ep_applyGeneratedFiles = served_api (applyGeneratedFiles_handler sr rq)"
| "run_endpoint sr broker bd rq Ep_correct = served_api (correct_handler sr rq (bd_feedback bd))"
| "run_endpoint sr broker bd rq Ep_reject = served_api (reject_handler rq)"
| "run_endpoint sr broker bd rq Ep_analyzeRecommendations = served_api (analyzeRecommendations sr rq (bd_recommendation bd))"
| "run_endpoint sr broker bd rq Ep_recommendationStatus = served_api (recommendationStatus rq)"
| "run_endpoint sr broker bd rq Ep_recommendationSummary = served_api (recommendationSummary rq)"
| "run_endpoint sr broker bd rq Ep_recommendations = served_api (recommendations_handler rq)"
| "run_endpoint sr broker bd rq Ep_closeRecommendation = served_api (closeRecommendation_handler rq)"
| "run_endpoint sr broker bd rq Ep_deleteRecommendation = served_api (deleteRecommendation_handler rq)"
| "run_endpoint sr broker bd rq ep = (\<lambda>s. (Fixed_page ep, s))"

definition serve ::
    "'s server \<Rightarrow> 's ops_broker option \<Rightarrow> bodies \<Rightarrow> string \<Rightarrow> string list \<Rightarrow> 's api_request \<Rightarrow> 's server_state \<Rightarrow> served \<times> 's server_state"
  where
  "serve sr broker bd method_name segments rq s =
     (case find_route route_table method_name segments of
        None \<Rightarrow> (Unrouted, s)
      | Some r \<Rightarrow> run_endpoint sr broker bd (rq\<lparr>aq_id := path_value r segments\<rparr>) (rt_endpoint r) s)"

section \<open>The routes do not conflict\<close>

text \<open>Two patterns that can match the same path.\<close>

fun meet :: "segment \<Rightarrow> segment \<Rightarrow> bool" where
  "meet (Exact a) (Exact b) = (a = b)"
| "meet p q = True"

definition compatible :: "segment list \<Rightarrow> segment list \<Rightarrow> bool" where
  "compatible ps qs \<longleftrightarrow> list_all2 meet ps qs"

fun fits :: "segment \<Rightarrow> string \<Rightarrow> bool" where
  "fits (Exact e) x = (e = x)"
| "fits (Wildcard n) x = (x \<noteq> [])"

lemma match_exactly:
  "ps = [] \<or> last ps \<noteq> Exact [] \<Longrightarrow> match_segments ps xs \<noteq> None \<Longrightarrow> list_all2 fits ps xs"
  by (induction ps xs rule: match_segments.induct) (auto split: if_splits)

lemma both_fit: "fits p x \<Longrightarrow> fits q x \<Longrightarrow> meet p q"
  by (cases "(p, q)" rule: meet.cases) auto

lemma both_match_compatible: "list_all2 fits ps xs \<Longrightarrow> list_all2 fits qs xs \<Longrightarrow> compatible ps qs"
  unfolding compatible_def list_all2_conv_all_nth by (metis both_fit)

lemma meet_sym: "meet p q = meet q p"
  by (cases "(p, q)" rule: meet.cases) auto

lemma compatible_sym: "compatible ps qs = compatible qs ps"
  by (auto simp: compatible_def list_all2_conv_all_nth meet_sym)

text \<open>The check that \<open>ServeMux\<close> makes when the routes are registered.\<close>

definition routes_apart :: "route list \<Rightarrow> bool" where
  "routes_apart table \<longleftrightarrow>
     sorted_wrt (\<lambda>r r'. rt_method r = rt_method r' \<and> compatible (rt_segments r) (rt_segments r') \<longrightarrow> is_subtree r \<or> is_subtree r') table \<and>
     length (filter is_subtree table) \<le> 1 \<and> list_all (\<lambda>r. rt_method r \<noteq> ''HEAD'') table"

lemma route_table_apart: "routes_apart route_table"
  by code_simp

lemma sorted_wrt_either: "sorted_wrt R xs \<Longrightarrow> a \<in> set xs \<Longrightarrow> b \<in> set xs \<Longrightarrow> a \<noteq> b \<Longrightarrow> R a b \<or> R b a"
  by (induction xs) auto

lemma exact_route_unique:
  assumes "routes_apart table" and "r \<in> set table" and "r' \<in> set table"
    and "\<not> is_subtree r \<and> matches m segments r" and "\<not> is_subtree r' \<and> matches m segments r'"
  shows "r = r'"
proof (rule ccontr)
  assume "r \<noteq> r'"
  have heads: "rt_method r \<noteq> ''HEAD''" "rt_method r' \<noteq> ''HEAD''"
    using assms(1-3) by (auto simp: routes_apart_def list_all_iff)
  then have same: "rt_method r = rt_method r'" using assms(4,5) by (auto simp: matches_def method_matches_def)
  have "compatible (rt_segments r) (rt_segments r')"
    using assms(4,5) by (auto simp: matches_def is_subtree_def intro!: both_match_compatible match_exactly)
  then have "compatible (rt_segments r') (rt_segments r)" by (simp add: compatible_sym)
  moreover note \<open>compatible (rt_segments r) (rt_segments r')\<close>
  moreover have "sorted_wrt (\<lambda>r r'. rt_method r = rt_method r' \<and> compatible (rt_segments r) (rt_segments r') \<longrightarrow>
      is_subtree r \<or> is_subtree r') table"
    using assms(1) by (simp add: routes_apart_def)
  note sorted_wrt_either [OF this assms(2,3) \<open>r \<noteq> r'\<close>]
  ultimately show False using same assms(4,5) by auto
qed

lemma subtree_route_unique:
  assumes "routes_apart table" and "r \<in> set table" and "r' \<in> set table" and "is_subtree r" and "is_subtree r'"
  shows "r = r'"
proof -
  have "r \<in> set (filter is_subtree table)" "r' \<in> set (filter is_subtree table)" using assms(2-5) by auto
  moreover have "length (filter is_subtree table) \<le> 1" using assms(1) by (simp add: routes_apart_def)
  ultimately show ?thesis by (cases "filter is_subtree table") auto
qed

lemma find_same_set:
  assumes "set xs = set ys" and "\<And>x y. x \<in> set ys \<Longrightarrow> y \<in> set ys \<Longrightarrow> P x \<Longrightarrow> P y \<Longrightarrow> x = y"
  shows "find P xs = find P ys"
proof (cases "find P xs")
  case None
  with assms(1) show ?thesis by (metis find_None_iff)
next
  case (Some x)
  then have "x \<in> set ys \<and> P x" using assms(1) by (metis find_Some_member find_Some_iff)
  then obtain y where "find P ys = Some y" by (cases "find P ys") (auto simp: find_None_iff)
  moreover from this have "y \<in> set ys \<and> P y" by (metis find_Some_member find_Some_iff)
  ultimately show ?thesis using Some assms(2) \<open>x \<in> set ys \<and> P x\<close> by metis
qed

text \<open>The routes are unambiguous: which handler serves a request does not depend on the order in which the routes were
  registered.\<close>

theorem route_order_irrelevant:
  assumes "set table = set route_table"
  shows "find_route table method_name segments = find_route route_table method_name segments"
proof -
  have "find (\<lambda>r. \<not> is_subtree r \<and> matches method_name segments r) table =
      find (\<lambda>r. \<not> is_subtree r \<and> matches method_name segments r) route_table"
    using assms by (rule find_same_set) (rule exact_route_unique [OF route_table_apart])
  moreover have "find (\<lambda>r. is_subtree r \<and> matches method_name segments r) table =
      find (\<lambda>r. is_subtree r \<and> matches method_name segments r) route_table"
    using assms by (rule find_same_set) (auto intro: subtree_route_unique [OF route_table_apart])
  ultimately show ?thesis unfolding find_route_def by (simp only:)
qed

lemma route_order_irrelevant_witness:
  "find_route (rev route_table) ''HEAD'' [''ai'', ''tasks'', ''7''] = Some (route_of ''GET'' ''/ai/tasks/{taskId}'' Ep_task)"
proof -
  have "find_route (rev route_table) ''HEAD'' [''ai'', ''tasks'', ''7''] = find_route route_table ''HEAD'' [''ai'', ''tasks'', ''7'']"
    by (rule route_order_irrelevant) simp
  also have "\<dots> = Some (route_of ''GET'' ''/ai/tasks/{taskId}'' Ep_task)" by code_simp
  finally show ?thesis .
qed

section \<open>Requests are runs of the server\<close>

lemma fresh_request_id [simp]: "fresh_request (rq\<lparr>aq_id := k\<rparr>) s = fresh_request rq s"
  by (simp add: fresh_request_def)

lemma meanwhile_steps_id [simp]: "meanwhile_steps (rq\<lparr>aq_id := k\<rparr>) = meanwhile_steps rq"
  by (simp add: meanwhile_steps_def)

lemma served_api_run:
  "api_call sr rq h \<Longrightarrow> fresh_request rq s \<Longrightarrow> meanwhile_steps rq \<Longrightarrow> server_step\<^sup>*\<^sup>* s (snd (served_api h s))"
  using handlers_are_steps [of sr rq h s] by (simp add: served_api_def case_prod_beta)

lemma reaches_ops_views:
  "reaches s0 s \<Longrightarrow> reaches s0 (snd (opsStatus sr broker rq s))"
  "reaches s0 s \<Longrightarrow> reaches s0 (snd (opsDeadLetter sr broker rq s))"
proof -
  assume s: "reaches s0 s"
  obtain r s1 where run: "authenticated_request sr rq s = (r, s1)" by fastforce
  have s1: "reaches s0 s1" using keepsD_eq [OF reaches_authenticated run s] .
  have world: "reaches s0 (s1\<lparr>hs_world := w\<rparr>)" for w by (rule reaches_step [OF s1 outside_world])
  show "reaches s0 (snd (opsStatus sr broker rq s))"
  proof (cases r)
    case (Inr session)
    with world show ?thesis by (simp add: opsStatus_def run Let_def case_prod_beta)
  qed (simp add: opsStatus_def run s1)
  show "reaches s0 (snd (opsDeadLetter sr broker rq s))"
  proof (cases r)
    case (Inr session)
    with world s1 show ?thesis by (simp add: opsDeadLetter_def run in_world_def case_prod_beta split: sum.split option.split)
  qed (simp add: opsDeadLetter_def run s1)
qed

lemma endpoint_run:
  assumes "fresh_request rq s" and "meanwhile_steps rq"
  shows "server_step\<^sup>*\<^sup>* s (snd (run_endpoint sr broker bd rq ep s))"
proof (cases ep)
  case Ep_opsStatus
  then show ?thesis
    using reaches_ops_views(1) [OF reaches_self] by (simp add: served_view_def reaches_def case_prod_beta)
next
  case Ep_opsDeadLetter
  then show ?thesis
    using reaches_ops_views(2) [OF reaches_self] by (simp add: served_view_def reaches_def case_prod_beta)
qed (simp_all only: run_endpoint.simps snd_conv rtranclp.rtrancl_refl, (rule served_api_run [OF _ assms], rule api_call.intros)+)

text \<open>Every request that the server can be sent, for whatever method and path and with whatever body, is a run of its small steps: one
  operation of the store, the registry of jobs or the outside world at a time. The steps do not know the guards of the handlers; what
  this gives is that the invariants of the steps hold after every request. What the handlers guard is proved of them directly.\<close>

lemma served_request_runs:
  assumes "fresh_request rq s" and "meanwhile_steps rq"
  shows "server_step\<^sup>*\<^sup>* s (snd (serve sr broker bd method_name segments rq s))"
proof (cases "find_route route_table method_name segments")
  case None
  then show ?thesis by (simp add: serve_def)
next
  case (Some r)
  have "server_step\<^sup>*\<^sup>* s (snd (run_endpoint sr broker bd (rq\<lparr>aq_id := path_value r segments\<rparr>) (rt_endpoint r) s))"
    by (rule endpoint_run) (simp_all add: assms)
  with Some show ?thesis by (simp add: serve_def)
qed

lemma served_reachable:
  assumes "server_reachable s" and "fresh_request rq s" and "meanwhile_steps rq"
  shows "server_reachable (snd (serve sr broker bd method_name segments rq s))"
  using assms(1) served_request_runs [OF assms(2,3)] unfolding server_reachable_def by (meson rtranclp_trans)

end
