(* ===== verification/Metrics.thy ===== *)
theory Metrics imports Complex_Main Go_Strings "HOL-Library.Word" "HOL-Library.AList" "HOL-Library.List_Lexorder" "HOL-Library.Char_ord" "HOL-Library.Multiset" begin

text \<open>
  The metrics registry of backend/internal/observability/metrics.go: counters, gauges and histograms, and their text
  exposition. A map of series is an association list with one entry per key; the code visits its keys in sorted order. A
  \<open>float64\<close> is NaN, an infinity or a rational; how a sum is rounded and how a number is printed are parameters.
\<close>

section \<open>Floating point numbers\<close>

datatype float64 = NaN | Plus_inf | Minus_inf | Finite rat

fun float_add :: "(rat \<Rightarrow> float64) \<Rightarrow> float64 \<Rightarrow> float64 \<Rightarrow> float64" where
  "float_add rnd NaN y = NaN"
| "float_add rnd x NaN = NaN"
| "float_add rnd Plus_inf y = (if y = Minus_inf then NaN else Plus_inf)"
| "float_add rnd Minus_inf y = (if y = Plus_inf then NaN else Minus_inf)"
| "float_add rnd (Finite a) Plus_inf = Plus_inf"
| "float_add rnd (Finite a) Minus_inf = Minus_inf"
| "float_add rnd (Finite a) (Finite b) = rnd (a + b)"

fun float_le :: "float64 \<Rightarrow> float64 \<Rightarrow> bool" where
  "float_le NaN y = False"
| "float_le x NaN = False"
| "float_le Minus_inf y = True"
| "float_le x Plus_inf = True"
| "float_le (Finite a) (Finite b) = (a \<le> b)"
| "float_le x y = False"

fun float_negative :: "float64 \<Rightarrow> bool" where
  "float_negative Minus_inf = True"
| "float_negative (Finite a) = (a < 0)"
| "float_negative x = False"

text \<open>\<open>sort.Float64s\<close> puts NaN first.\<close>

definition float_before :: "float64 \<Rightarrow> float64 \<Rightarrow> bool" where
  "float_before x y \<longleftrightarrow> x = NaN \<or> float_le x y"

fun insert_float :: "float64 \<Rightarrow> float64 list \<Rightarrow> float64 list" where
  "insert_float x [] = [x]"
| "insert_float x (y # ys) = (if float_before x y then x # y # ys else y # insert_float x ys)"

definition sort_floats :: "float64 list \<Rightarrow> float64 list" where
  "sort_floats xs = foldr insert_float xs []"

section \<open>Series\<close>

definition seriesSeparator :: char where
  "seriesSeparator = CHR 0x00"

definition series_key :: "string list \<Rightarrow> string" where
  "series_key labelValues = join_with [seriesSeparator] labelValues"

definition splitSeries :: "string \<Rightarrow> string list" where
  "splitSeries key = (if key = [] then [] else split_on seriesSeparator key)"

type_synonym series_values = "(string \<times> float64) list"

definition value_of :: "series_values \<Rightarrow> string \<Rightarrow> float64" where
  "value_of vs key = (case map_of vs key of None \<Rightarrow> Finite 0 | Some x \<Rightarrow> x)"

definition add_value :: "(rat \<Rightarrow> float64) \<Rightarrow> float64 \<Rightarrow> string list \<Rightarrow> series_values \<Rightarrow> series_values" where
  "add_value rnd delta labelValues vs =
     AList.update (series_key labelValues) (float_add rnd (value_of vs (series_key labelValues)) delta) vs"

definition counter_Add :: "(rat \<Rightarrow> float64) \<Rightarrow> float64 \<Rightarrow> string list \<Rightarrow> series_values \<Rightarrow> series_values" where
  "counter_Add rnd delta labelValues vs =
     (if float_negative delta \<or> delta = NaN then vs else add_value rnd delta labelValues vs)"

definition counter_Inc :: "(rat \<Rightarrow> float64) \<Rightarrow> string list \<Rightarrow> series_values \<Rightarrow> series_values" where
  "counter_Inc rnd labelValues vs = counter_Add rnd (Finite 1) labelValues vs"

definition gauge_Set :: "float64 \<Rightarrow> string list \<Rightarrow> series_values \<Rightarrow> series_values" where
  "gauge_Set x labelValues vs = AList.update (series_key labelValues) x vs"

definition gauge_Add :: "(rat \<Rightarrow> float64) \<Rightarrow> float64 \<Rightarrow> string list \<Rightarrow> series_values \<Rightarrow> series_values" where
  "gauge_Add rnd delta labelValues vs = add_value rnd delta labelValues vs"

definition gauge_Reset :: "series_values \<Rightarrow> series_values" where
  "gauge_Reset vs = []"

record histogram_series =
  hg_counts :: "64 word list"
  hg_sum :: float64
  hg_count :: "64 word"

type_synonym histogram = "(string \<times> histogram_series) list"

definition empty_series :: "float64 list \<Rightarrow> histogram_series" where
  "empty_series buckets = \<lparr>hg_counts = replicate (length buckets) 0, hg_sum = Finite 0, hg_count = 0\<rparr>"

text \<open>The loop over the buckets of one observation.\<close>

fun observe_counts :: "float64 \<Rightarrow> float64 list \<Rightarrow> 64 word list \<Rightarrow> 64 word list" where
  "observe_counts x (upperBound # bounds) (n # ns) =
     (if float_le x upperBound then n + 1 else n) # observe_counts x bounds ns"
| "observe_counts x bounds ns = ns"

definition histogram_Observe ::
    "(rat \<Rightarrow> float64) \<Rightarrow> float64 list \<Rightarrow> float64 \<Rightarrow> string list \<Rightarrow> histogram \<Rightarrow> histogram" where
  "histogram_Observe rnd buckets x labelValues hs =
     (if x = NaN then hs
      else
        let key = series_key labelValues;
            series = (case map_of hs key of None \<Rightarrow> empty_series buckets | Some series \<Rightarrow> series) in
        AList.update key (series\<lparr>hg_sum := float_add rnd (hg_sum series) x, hg_count := hg_count series + 1,
          hg_counts := observe_counts x buckets (hg_counts series)\<rparr>) hs)"

section \<open>Collectors\<close>

record metadata =
  md_name :: string
  md_help :: string
  md_label_names :: "string list"

datatype collector =
    Counter_vec metadata "series_values"
  | Gauge_vec metadata "series_values"
  | Histogram_vec metadata "float64 list" histogram

fun collector_metadata :: "collector \<Rightarrow> metadata" where
  "collector_metadata (Counter_vec m vs) = m"
| "collector_metadata (Gauge_vec m vs) = m"
| "collector_metadata (Histogram_vec m buckets hs) = m"

definition collector_name :: "collector \<Rightarrow> string" where
  "collector_name c = md_name (collector_metadata c)"

type_synonym registry = "collector list"

definition register :: "collector \<Rightarrow> registry \<Rightarrow> registry result" where
  "register c reg =
     (if list_ex (\<lambda>existing. collector_name existing = collector_name c) reg
      then Inl (Panic (''observability: metric already registered: '' @ collector_name c))
      else Inr (reg @ [c]))"

definition NewCounterVec :: "string \<Rightarrow> string \<Rightarrow> string list \<Rightarrow> registry \<Rightarrow> registry result" where
  "NewCounterVec name help labelNames reg =
     register (Counter_vec \<lparr>md_name = name, md_help = help, md_label_names = labelNames\<rparr> []) reg"

definition NewGaugeVec :: "string \<Rightarrow> string \<Rightarrow> string list \<Rightarrow> registry \<Rightarrow> registry result" where
  "NewGaugeVec name help labelNames reg =
     register (Gauge_vec \<lparr>md_name = name, md_help = help, md_label_names = labelNames\<rparr> []) reg"

definition NewHistogramVec :: "string \<Rightarrow> string \<Rightarrow> float64 list \<Rightarrow> string list \<Rightarrow> registry \<Rightarrow> registry result" where
  "NewHistogramVec name help buckets labelNames reg =
     register (Histogram_vec \<lparr>md_name = name, md_help = help, md_label_names = labelNames\<rparr> (sort_floats buckets) []) reg"

text \<open>An update of the collector of a name; collectors are shared by reference, and a name belongs to one.\<close>

datatype metric_update =
    Counter_add float64 "string list"
  | Gauge_set float64 "string list"
  | Gauge_add float64 "string list"
  | Gauge_reset
  | Observe_value float64 "string list"

fun update_collector :: "(rat \<Rightarrow> float64) \<Rightarrow> metric_update \<Rightarrow> collector \<Rightarrow> collector" where
  "update_collector rnd (Counter_add delta ls) (Counter_vec m vs) = Counter_vec m (counter_Add rnd delta ls vs)"
| "update_collector rnd (Gauge_set x ls) (Gauge_vec m vs) = Gauge_vec m (gauge_Set x ls vs)"
| "update_collector rnd (Gauge_add delta ls) (Gauge_vec m vs) = Gauge_vec m (gauge_Add rnd delta ls vs)"
| "update_collector rnd Gauge_reset (Gauge_vec m vs) = Gauge_vec m (gauge_Reset vs)"
| "update_collector rnd (Observe_value x ls) (Histogram_vec m buckets hs) =
     Histogram_vec m buckets (histogram_Observe rnd buckets x ls hs)"
| "update_collector rnd upd c = c"

definition update_metric :: "(rat \<Rightarrow> float64) \<Rightarrow> string \<times> metric_update \<Rightarrow> registry \<Rightarrow> registry" where
  "update_metric rnd u reg = map (\<lambda>c. if collector_name c = fst u then update_collector rnd (snd u) c else c) reg"

section \<open>Text exposition\<close>

definition escapeHelp :: "string \<Rightarrow> string" where
  "escapeHelp help =
     concat (map (\<lambda>c. if c = CHR 0x5C then [CHR 0x5C, CHR 0x5C] else if c = CHR 0x0A then [CHR 0x5C, CHR ''n''] else [c]) help)"

definition escape_label_char :: "char \<Rightarrow> string" where
  "escape_label_char c =
     (if c = CHR 0x5C then [CHR 0x5C, CHR 0x5C] else if c = CHR 0x0A then [CHR 0x5C, CHR ''n'']
      else if c = CHR 0x22 then [CHR 0x5C, CHR 0x22] else [c])"

definition escapeLabelValue :: "string \<Rightarrow> string" where
  "escapeLabelValue v = concat (map escape_label_char v)"

definition label_pair :: "string \<Rightarrow> string \<Rightarrow> string" where
  "label_pair name v = name @ [CHR ''='', CHR 0x22] @ escapeLabelValue v @ [CHR 0x22]"

definition formatLabels :: "metadata \<Rightarrow> string list \<Rightarrow> string \<Rightarrow> string \<Rightarrow> string" where
  "formatLabels m labelValues extraName extraValue =
     (if labelValues = [] \<and> extraName = [] then []
      else ''{'' @ join_with '','' (map (\<lambda>(name, v). label_pair name v) (zip (md_label_names m) labelValues) @
        (if extraName = [] then [] else [label_pair extraName extraValue])) @ ''}'')"

text \<open>\<open>text\<close> prints a rational as \<open>strconv.FormatFloat\<close> does with the format \<open>'g'\<close> and the shortest precision.\<close>

fun formatValue :: "(rat \<Rightarrow> string) \<Rightarrow> float64 \<Rightarrow> string" where
  "formatValue print Plus_inf = ''+Inf''"
| "formatValue print Minus_inf = ''-Inf''"
| "formatValue print NaN = ''NaN''"
| "formatValue print (Finite a) = print a"

definition line_end :: string where
  "line_end = [CHR 0x0A]"

definition writeHeader :: "metadata \<Rightarrow> string \<Rightarrow> string" where
  "writeHeader m metricType =
     ''# HELP '' @ md_name m @ '' '' @ escapeHelp (md_help m) @ line_end @ ''# TYPE '' @ md_name m @ '' '' @ metricType @ line_end"

definition sortedKeys :: "(string \<times> 'v) list \<Rightarrow> string list" where
  "sortedKeys vs = sort (map fst vs)"

definition write_value :: "(rat \<Rightarrow> string) \<Rightarrow> metadata \<Rightarrow> series_values \<Rightarrow> string \<Rightarrow> string" where
  "write_value print m vs key =
     md_name m @ formatLabels m (splitSeries key) [] [] @ '' '' @ formatValue print (value_of vs key) @ line_end"

definition write_values :: "(rat \<Rightarrow> string) \<Rightarrow> string \<Rightarrow> metadata \<Rightarrow> series_values \<Rightarrow> string" where
  "write_values print metricType m vs = writeHeader m metricType @ concat (map (write_value print m vs) (sortedKeys vs))"

definition bucket_line :: "metadata \<Rightarrow> string list \<Rightarrow> string \<Rightarrow> 64 word \<Rightarrow> string" where
  "bucket_line m labelValues bound n =
     md_name m @ ''_bucket'' @ formatLabels m labelValues ''le'' bound @ '' '' @ nat_text (unat n) @ line_end"

definition write_series :: "(rat \<Rightarrow> string) \<Rightarrow> metadata \<Rightarrow> float64 list \<Rightarrow> string \<Rightarrow> histogram_series \<Rightarrow> string" where
  "write_series print m buckets key series =
     (let labelValues = splitSeries key in
      concat (map (\<lambda>(upperBound, n). bucket_line m labelValues (formatValue print upperBound) n) (zip buckets (hg_counts series))) @
      bucket_line m labelValues ''+Inf'' (hg_count series) @
      md_name m @ ''_sum'' @ formatLabels m labelValues [] [] @ '' '' @ formatValue print (hg_sum series) @ line_end @
      md_name m @ ''_count'' @ formatLabels m labelValues [] [] @ '' '' @ nat_text (unat (hg_count series)) @ line_end)"

fun write_collector :: "(rat \<Rightarrow> string) \<Rightarrow> collector \<Rightarrow> string" where
  "write_collector print (Counter_vec m vs) = write_values print ''counter'' m vs"
| "write_collector print (Gauge_vec m vs) = write_values print ''gauge'' m vs"
| "write_collector print (Histogram_vec m buckets hs) =
     writeHeader m ''histogram'' @
     concat (map (\<lambda>key. case map_of hs key of None \<Rightarrow> [] | Some series \<Rightarrow> write_series print m buckets key series) (sortedKeys hs))"

definition Render :: "(rat \<Rightarrow> string) \<Rightarrow> registry \<Rightarrow> string" where
  "Render print reg = concat (map (write_collector print) (sort_key collector_name reg))"

section \<open>Keys of series\<close>

text \<open>Label values give distinct keys as long as none contains the separator; the labels are read back from the key, except
  that a single empty value leaves no label at all.\<close>

lemma series_labels_roundtrip:
  assumes "\<forall>v \<in> set labelValues. seriesSeparator \<notin> set v"
  shows "splitSeries (series_key labelValues) = (if labelValues = [[]] then [] else labelValues)"
proof (cases "labelValues = []")
  case False
  then have split: "split_on seriesSeparator (series_key labelValues) = labelValues"
    unfolding series_key_def using assms by (intro split_join) auto
  show ?thesis
  proof (cases "series_key labelValues = []")
    case True
    with split have "labelValues = [[]]" by (metis split_on.simps(1))
    with True show ?thesis by (simp add: splitSeries_def)
  next
    case False
    then have "labelValues \<noteq> [[]]" by (auto simp: series_key_def)
    with split False show ?thesis by (simp add: splitSeries_def)
  qed
qed (simp add: series_key_def splitSeries_def)

text \<open>The keys are made of the values as they come, so a value that contains the separator can be taken for two.\<close>

lemma series_keys_collide: "series_key [''a'', [seriesSeparator], ''b''] = series_key [''a'' @ [seriesSeparator], [], ''b'']"
  by (simp add: series_key_def)

section \<open>Histograms\<close>

definition observe_all :: "(rat \<Rightarrow> float64) \<Rightarrow> float64 list \<Rightarrow> (float64 \<times> string list) list \<Rightarrow> histogram" where
  "observe_all rnd buckets observed = foldl (\<lambda>hs (x, labels). histogram_Observe rnd buckets x labels hs) [] observed"

definition observed_in :: "string \<Rightarrow> (float64 \<times> string list) list \<Rightarrow> float64 list" where
  "observed_in key observed = map fst (filter (\<lambda>(x, labels). series_key labels = key \<and> x \<noteq> NaN) observed)"

definition bucket_counts :: "float64 list \<Rightarrow> float64 list \<Rightarrow> 64 word list" where
  "bucket_counts buckets xs = map (\<lambda>upperBound. of_nat (length (filter (\<lambda>x. float_le x upperBound) xs))) buckets"

lemma observe_all_snoc:
  "observe_all rnd buckets (observed @ [(x, labels)]) = histogram_Observe rnd buckets x labels (observe_all rnd buckets observed)"
  by (simp add: observe_all_def)

lemma observe_counts_snoc:
  "observe_counts x buckets (bucket_counts buckets xs) = bucket_counts buckets (xs @ [x])"
  by (induction buckets) (simp_all add: bucket_counts_def)

lemma bucket_counts_Nil: "bucket_counts buckets [] = replicate (length buckets) 0"
  by (simp add: bucket_counts_def map_replicate_const)

text \<open>C40: The counters of a histogram are what they stand for: whatever is observed, the series of a key exists once a number has been
  observed for it, each bucket counts the values up to its bound, and \<open>count\<close> counts them all (as 64-bit numbers).\<close>

theorem histogram_counts_observations:
  "case map_of (observe_all rnd buckets observed) key of
     None \<Rightarrow> observed_in key observed = []
   | Some series \<Rightarrow>
       hg_counts series = bucket_counts buckets (observed_in key observed) \<and>
       hg_count series = of_nat (length (observed_in key observed))"
proof (induction observed rule: rev_induct)
  case Nil
  then show ?case by (simp add: observe_all_def observed_in_def)
next
  case (snoc latest observed)
  obtain x labels where latest: "latest = (x, labels)" by (cases latest)
  let ?counted = "\<lambda>observed. case map_of (observe_all rnd buckets observed) key of
     None \<Rightarrow> observed_in key observed = []
   | Some series \<Rightarrow>
       hg_counts series = bucket_counts buckets (observed_in key observed) \<and>
       hg_count series = of_nat (length (observed_in key observed))"
  have "?counted (observed @ [(x, labels)])"
  proof (cases "series_key labels = key \<and> x \<noteq> NaN")
    case True
    then have "observed_in key (observed @ [(x, labels)]) = observed_in key observed @ [x]" by (simp add: observed_in_def)
    with True snoc show ?thesis
      by (cases "map_of (observe_all rnd buckets observed) key")
        (simp_all add: observe_all_snoc histogram_Observe_def Let_def update_conv' empty_series_def bucket_counts_Nil [symmetric]
          observe_counts_snoc)
  next
    case False
    then have same: "observed_in key (observed @ [(x, labels)]) = observed_in key observed" by (auto simp: observed_in_def)
    have unchanged: "map_of (observe_all rnd buckets (observed @ [(x, labels)])) key = map_of (observe_all rnd buckets observed) key"
      using False by (auto simp: observe_all_snoc histogram_Observe_def Let_def update_conv')
    show ?thesis unfolding same unchanged by (rule snoc)
  qed
  then show ?case by (simp only: latest)
qed

lemma float_le_trans: "float_le x y \<Longrightarrow> float_le y z \<Longrightarrow> float_le x z"
  by (cases x; cases y; cases z) auto

lemma float_le_total: "x \<noteq> NaN \<Longrightarrow> y \<noteq> NaN \<Longrightarrow> float_le x y \<or> float_le y x"
  by (cases x; cases y) auto

lemma float_le_NaN [simp]: "float_le x NaN = False"
  by (cases x) auto

lemma set_insert_float: "set (insert_float x ys) = insert x (set ys)"
  by (induction ys) auto

lemma insert_float_sorted: "sorted_wrt float_before ys \<Longrightarrow> sorted_wrt float_before (insert_float x ys)"
proof (induction ys)
  case (Cons y ys)
  show ?case
  proof (cases "float_before x y")
    case True
    with Cons.prems show ?thesis by (auto simp: float_before_def dest: float_le_trans)
  next
    case False
    then have "float_before y x" using float_le_total by (auto simp: float_before_def)
    with False Cons show ?thesis by (auto simp: set_insert_float)
  qed
qed simp

lemma sort_floats_sorted: "sorted_wrt float_before (sort_floats xs)"
  by (induction xs) (simp_all add: sort_floats_def insert_float_sorted)

lemma wider_bucket: "float_before b c \<Longrightarrow> length (filter (\<lambda>x. float_le x b) xs) \<le> length (filter (\<lambda>x. float_le x c) xs)"
  by (induction xs) (auto simp: float_before_def dest: float_le_trans)

lemma sorted_mono_map: "sorted_wrt R xs \<Longrightarrow> (\<And>x y. R x y \<Longrightarrow> f x \<le> f y) \<Longrightarrow> sorted (map f xs)"
  for f :: "'a \<Rightarrow> nat"
  by (simp add: sorted_wrt_map) (erule sorted_wrt_mono_rel [rotated], blast)

text \<open>What Prometheus asks of a histogram: the counts of the buckets grow with their bounds, and none exceeds the count of all
  values. The number of observations has to stay below the range of the counters.\<close>

theorem histogram_is_cumulative:
  assumes "map_of (observe_all rnd (sort_floats bounds) observed) key = Some series" and "length observed < 2 ^ 64"
  shows "sorted (map unat (hg_counts series)) \<and> (\<forall>n \<in> set (hg_counts series). unat n \<le> unat (hg_count series))"
proof -
  let ?xs = "observed_in key observed"
  have counted: "hg_counts series = bucket_counts (sort_floats bounds) ?xs" "hg_count series = of_nat (length ?xs)"
    using histogram_counts_observations [where rnd = rnd and buckets = "sort_floats bounds" and observed = observed and key = key] assms(1) by simp_all
  have few: "length ?xs < 2 ^ 64"
    unfolding observed_in_def length_map using assms(2) by (rule le_less_trans [OF length_filter_le])
  have exact: "unat (of_nat n :: 64 word) = n" if "n \<le> length ?xs" for n
    using that few by (simp add: unat_of_nat take_bit_nat_eq_self)
  have counts: "map unat (hg_counts series) = map (\<lambda>b. length (filter (\<lambda>x. float_le x b) ?xs)) (sort_floats bounds)"
    by (simp add: counted bucket_counts_def exact)
  have "sorted (map unat (hg_counts series))"
    unfolding counts using sort_floats_sorted by (rule sorted_mono_map) (rule wider_bucket)
  moreover have "unat n \<le> unat (hg_count series)" if "n \<in> set (hg_counts series)" for n
    using that by (auto simp: counted bucket_counts_def exact)
  ultimately show ?thesis by blast
qed

definition sample_observed :: "(float64 \<times> string list) list" where
  "sample_observed = [(Finite 2, [''GET'']), (NaN, [''GET'']), (Finite 1, [''PUT'']), (Plus_inf, [''GET''])]"

lemma histogram_is_cumulative_witness:
  "case map_of (observe_all Finite (sort_floats [Finite 5, Finite 1]) sample_observed) ''GET'' of
     None \<Rightarrow> False
   | Some series \<Rightarrow> map unat (hg_counts series) = [0, 1] \<and> unat (hg_count series) = 2 \<and> sorted (map unat (hg_counts series))"
proof -
  have "case map_of (observe_all Finite (sort_floats [Finite 5, Finite 1]) sample_observed) ''GET'' of
     None \<Rightarrow> False | Some series \<Rightarrow> hg_counts series = [0, 1] \<and> hg_count series = 2"
    by code_simp
  then obtain series where series: "map_of (observe_all Finite (sort_floats [Finite 5, Finite 1]) sample_observed) ''GET'' = Some series"
    "hg_counts series = [0, 1]" "hg_count series = 2"
    by (auto split: option.splits)
  have "length sample_observed < 2 ^ 64" by (simp add: sample_observed_def)
  from histogram_is_cumulative [OF series(1) this] series show ?thesis by simp
qed

section \<open>The exposition can be read back\<close>

lemma escaped_value_ends:
  "escapeLabelValue v @ CHR 0x22 # r = escapeLabelValue v' @ CHR 0x22 # r' \<Longrightarrow> v = v' \<and> r = r'"
proof (induction v arbitrary: v')
  case Nil
  then show ?case by (cases v') (auto simp: escapeLabelValue_def escape_label_char_def split: if_splits)
next
  case (Cons c v)
  from Cons.prems obtain c' w where v': "v' = c' # w"
    by (cases v') (auto simp: escapeLabelValue_def escape_label_char_def split: if_splits)
  have "c = c' \<and> escapeLabelValue v @ CHR 0x22 # r = escapeLabelValue w @ CHR 0x22 # r'"
    using Cons.prems by (auto simp: v' escapeLabelValue_def escape_label_char_def split: if_splits)
  with Cons.IH v' show ?case by blast
qed

lemma label_pair_ends: "label_pair name v @ r = label_pair name v' @ r' \<Longrightarrow> v = v' \<and> r = r'"
  by (auto simp: label_pair_def dest: escaped_value_ends)

lemma label_pairs_end:
  "length vs = length names \<Longrightarrow> length vs' = length names \<Longrightarrow>
     join_with '','' (map (\<lambda>(name, v). label_pair name v) (zip names vs)) @ r =
     join_with '','' (map (\<lambda>(name, v). label_pair name v) (zip names vs')) @ r' \<Longrightarrow> vs = vs' \<and> r = r'"
proof (induction names arbitrary: vs vs' rule: induct_list012)
  case (2 name)
  then show ?case by (auto simp: length_Suc_conv dest: label_pair_ends)
next
  case (3 name name2 names)
  from 3(3,4) obtain v w u v' w' u' where vs: "vs = v # w # u" "vs' = v' # w' # u'" "length u = length names" "length u' = length names"
    by (auto simp: length_Suc_conv)
  from 3(5) have "v = v'" and "join_with '','' (map (\<lambda>(name, v). label_pair name v) (zip (name2 # names) (w # u))) @ r =
      join_with '','' (map (\<lambda>(name, v). label_pair name v) (zip (name2 # names) (w' # u'))) @ r'"
    by (auto simp: vs dest!: label_pair_ends)
  with 3(2) [of "w # u" "w' # u'"] vs show ?case by simp
qed simp

lemma splitSeries_injective: "splitSeries k = splitSeries k' \<Longrightarrow> k = k'"
  by (metis join_split splitSeries_def split_on_not_Nil)

text \<open>The labels name the series: two series of a metric whose keys have a value for each of its labels are printed with
  different labels, whatever characters the values contain.\<close>

theorem printed_labels_identify_series:
  assumes "length (splitSeries k) = length (md_label_names m)" and "length (splitSeries k') = length (md_label_names m)"
    and "formatLabels m (splitSeries k) [] [] = formatLabels m (splitSeries k') [] []"
  shows "k = k'"
proof -
  have "splitSeries k = splitSeries k'"
  proof (cases "md_label_names m = []")
    case False
    then have "splitSeries k \<noteq> []" "splitSeries k' \<noteq> []" using assms(1,2) by auto
    with assms(3) have "join_with '','' (map (\<lambda>(name, v). label_pair name v) (zip (md_label_names m) (splitSeries k))) @ ''}'' =
        join_with '','' (map (\<lambda>(name, v). label_pair name v) (zip (md_label_names m) (splitSeries k'))) @ ''}''"
      by (simp add: formatLabels_def)
    then show ?thesis using label_pairs_end [OF assms(1,2)] by blast
  qed (use assms in auto)
  then show ?thesis by (rule splitSeries_injective)
qed

lemma printed_labels_identify_series_witness:
  "formatLabels \<lparr>md_name = ''m'', md_help = [], md_label_names = [''a'']\<rparr> (splitSeries [CHR 0x22]) [] [] =
     ''{a='' @ [CHR 0x22, CHR 0x5C, CHR 0x22, CHR 0x22] @ ''}'' \<and>
   formatLabels \<lparr>md_name = ''m'', md_help = [], md_label_names = [''a'']\<rparr> (splitSeries [CHR 0x22]) [] [] \<noteq>
     formatLabels \<lparr>md_name = ''m'', md_help = [], md_label_names = [''a'']\<rparr> (splitSeries [CHR 0x5C]) [] []"
proof -
  let ?m = "\<lparr>md_name = ''m'', md_help = [], md_label_names = [''a'']\<rparr>"
  have "length (splitSeries [CHR 0x22]) = length (md_label_names ?m)" "length (splitSeries [CHR 0x5C]) = length (md_label_names ?m)"
    by (simp_all add: splitSeries_def seriesSeparator_def)
  from printed_labels_identify_series [OF this] have
    "formatLabels ?m (splitSeries [CHR 0x22]) [] [] \<noteq> formatLabels ?m (splitSeries [CHR 0x5C]) [] []" by auto
  moreover have "formatLabels ?m (splitSeries [CHR 0x22]) [] [] = ''{a='' @ [CHR 0x22, CHR 0x5C, CHR 0x22, CHR 0x22] @ ''}''"
    by (simp add: splitSeries_def seriesSeparator_def formatLabels_def label_pair_def escapeLabelValue_def escape_label_char_def)
  ultimately show ?thesis by blast
qed

section \<open>Names\<close>

definition distinct_names :: "registry \<Rightarrow> bool" where
  "distinct_names reg \<longleftrightarrow> distinct (map collector_name reg)"

lemma update_collector_name [simp]: "collector_name (update_collector rnd u c) = collector_name c"
  by (cases "(rnd, u, c)" rule: update_collector.cases) (simp_all add: collector_name_def)

lemma distinct_names_register: "register c reg = Inr reg' \<Longrightarrow> distinct_names reg \<Longrightarrow> distinct_names reg'"
  by (force simp: register_def distinct_names_def list_ex_iff split: if_splits)

lemma distinct_names_update [simp]: "distinct_names (update_metric rnd u reg) = distinct_names reg"
proof -
  have "map collector_name (update_metric rnd u reg) = map collector_name reg" by (simp add: update_metric_def)
  then show ?thesis by (simp add: distinct_names_def)
qed

text \<open>The exposition does not depend on the order in which the metrics were registered, which for Go's package variables is the
  order of their initialisation.\<close>

theorem Render_order_irrelevant:
  assumes "distinct_names reg" and "mset reg' = mset reg"
  shows "Render print reg' = Render print reg"
proof -
  have "inj_on collector_name (set reg')"
    using assms by (metis distinct_map distinct_names_def set_mset_mset)
  then have "sort_key collector_name reg' = sort_key collector_name reg"
    by (intro sort_key_inj_key_eq) (simp_all add: assms(2))
  then show ?thesis by (simp add: Render_def)
qed

end
