(* ===== verification/Metric_Definitions.thy ===== *)
theory Metric_Definitions imports Metrics Ops Agent_Client begin

text \<open>
  The metrics of the service (backend/internal/observability/metrics_definitions.go), and the collector that refreshes
  the gauges (httpapi/metrics_collector.go; the worker publishes the queue gauges in the same way). \<open>rnd\<close> rounds a rational
  to a \<open>float64\<close>.
\<close>

section \<open>The registry of the process\<close>

text \<open>The package variables, in the order of their declaration; registering a name twice ends the process.\<close>

definition metric_definitions :: "(rat \<Rightarrow> float64) \<Rightarrow> (registry \<Rightarrow> registry result) list" where
  "metric_definitions rnd =
     [NewCounterVec ''codepilot_http_requests_total'' ''HTTP requests handled by the service.'' [''method'',
        ''route'', ''status''],
      NewHistogramVec ''codepilot_http_request_duration_seconds'' ''HTTP request duration.'' [rnd (5 / 100), rnd (1 /
        10), rnd (5 / 10), Finite 1, Finite 5, Finite 15, Finite 60, Finite 180, Finite 600] [''method'', ''route''],
      NewCounterVec ''codepilot_upstream_requests_total'' ''Requests to upstream services, by outcome.''
        [''upstream'', ''outcome''],
      NewHistogramVec ''codepilot_upstream_request_duration_seconds'' ''Upstream request duration.'' [rnd (5 / 100),
        rnd (5 / 10), Finite 1, Finite 5, Finite 15, Finite 60, Finite 300, Finite 900] [''upstream''],
      NewCounterVec ''codepilot_agent_tasks_executed_total'' ''Agent tasks executed by this process, by outcome.''
        [''task_type'', ''outcome''],
      NewHistogramVec ''codepilot_agent_task_duration_seconds'' ''Agent task execution duration.'' [Finite 5, Finite
        15, Finite 30, Finite 60, Finite 120, Finite 300, Finite 600, Finite 1200] [''task_type''],
      NewCounterVec ''codepilot_agent_task_tokens_total'' ''Model tokens attributed to agent tasks.'' [''task_type'',
        ''kind''],
      NewCounterVec ''codepilot_agent_task_retries_total'' ''Agent tasks re-queued after a failure.'' [''task_type''],
      NewCounterVec ''codepilot_agent_tasks_dead_lettered_total'' ''Agent tasks that exhausted their retries and were
        moved to the dead-letter stream.'' [''task_type''],
      NewCounterVec ''codepilot_repository_index_jobs_total'' ''Background repository indexing jobs, by outcome.''
        [''outcome''],
      NewHistogramVec ''codepilot_repository_index_duration_seconds'' ''Background repository indexing duration.''
        [Finite 5, Finite 15, Finite 30, Finite 60, Finite 120, Finite 300, Finite 600, Finite 1200] [],
      NewGaugeVec ''codepilot_repository_index_jobs_running'' ''Repository indexing jobs currently running in this
        process.'' [],
      NewGaugeVec ''codepilot_queue_depth'' ''Entries in a Redis stream.'' [''stream''],
      NewGaugeVec ''codepilot_queue_pending'' ''Entries delivered to a consumer but not yet acknowledged.'' [''stream''],
      NewGaugeVec ''codepilot_dependency_up'' ''1 when a dependency answered its readiness check, 0 otherwise.''
        [''component''],
      NewGaugeVec ''codepilot_gitflame_connections'' ''Stored GitFlame connections by token status.'' [''token_status''],
      NewGaugeVec ''codepilot_agent_tasks'' ''Agent tasks created in the last 24 hours, by status.'' [''status''],
      NewCounterVec ''codepilot_collector_errors_total'' ''Failures of the background metrics collector.'' [''source''],
      NewGaugeVec ''codepilot_build_info'' ''Always 1; the labels carry the build identity of the running process.''
        [''service'', ''version'', ''commit'', ''go_version'']]"

definition register_all :: "(registry \<Rightarrow> registry result) list \<Rightarrow> registry \<Rightarrow> registry result" where
  "register_all defs reg = foldl (\<lambda>r define. case r of Inl err \<Rightarrow> Inl err | Inr reg \<Rightarrow> define reg) (Inr reg) defs"

definition DefaultRegistry :: "(rat \<Rightarrow> float64) \<Rightarrow> registry result" where
  "DefaultRegistry rnd = register_all (metric_definitions rnd) []"

text \<open>The identity of a build: service, version, commit and Go version.\<close>

definition PublishBuildInfo :: "(rat \<Rightarrow> float64) \<Rightarrow> string \<Rightarrow> string \<Rightarrow> string \<Rightarrow> string \<Rightarrow> registry \<Rightarrow> registry" where
  "PublishBuildInfo rnd service version commit goVersion reg =
     update_metric rnd (''codepilot_build_info'', Gauge_set (Finite 1) [service, version, commit, goVersion]) reg"

text \<open>The updates of \<open>ObserveUpstream\<close> for a call that took some seconds.\<close>

definition observe_upstream_metrics :: "(rat \<Rightarrow> float64) \<Rightarrow> string \<Rightarrow> string \<Rightarrow> float64 \<Rightarrow> registry \<Rightarrow> registry" where
  "observe_upstream_metrics rnd upstream out secs reg =
     update_metric rnd (''codepilot_upstream_request_duration_seconds'', Observe_value secs [upstream])
       (update_metric rnd (''codepilot_upstream_requests_total'', Counter_add (Finite 1) [upstream, out]) reg)"

section \<open>Refreshing the gauges\<close>

definition publish_health :: "(rat \<Rightarrow> float64) \<Rightarrow> (string \<times> go_error option) list \<Rightarrow> registry \<Rightarrow> registry" where
  "publish_health rnd outcomes reg =
     foldl (\<lambda>reg (component, failure).
       update_metric rnd (''codepilot_dependency_up'', Gauge_set (Finite (if failure = None then 1 else 0)) [component]) reg) reg outcomes"

definition collectDependencyHealth ::
    "(rat \<Rightarrow> float64) \<Rightarrow> 's server \<Rightarrow> 's server_state \<times> registry \<Rightarrow> 's server_state \<times> registry" where
  "collectDependencyHealth rnd sr = (\<lambda>(s, reg).
     case run_checks (sr_checks sr) (hs_world s) of
       (outcomes, w) \<Rightarrow> (s\<lparr>hs_world := w\<rparr>, publish_health rnd outcomes reg))"

definition publish_depths :: "(rat \<Rightarrow> float64) \<Rightarrow> queue_depths result \<Rightarrow> registry \<Rightarrow> registry" where
  "publish_depths rnd outcome reg =
     (case outcome of
        Inl err \<Rightarrow> update_metric rnd (''codepilot_collector_errors_total'', Counter_add (Finite 1) [''queue'']) reg
      | Inr depths \<Rightarrow>
          update_metric rnd (''codepilot_queue_pending'', Gauge_set (rnd (of_int (dp_pending depths))) [''tasks''])
         (update_metric rnd (''codepilot_queue_depth'', Gauge_set (rnd (of_int (dp_dead_letter depths))) [''dead_letter''])
         (update_metric rnd (''codepilot_queue_depth'', Gauge_set (rnd (of_int (dp_stream depths))) [''tasks'']) reg)))"

definition collectQueueDepth ::
    "(rat \<Rightarrow> float64) \<Rightarrow> 's ops_broker option \<Rightarrow> 's server_state \<times> registry \<Rightarrow> 's server_state \<times> registry" where
  "collectQueueDepth rnd broker = (\<lambda>(s, reg).
     case broker of
       None \<Rightarrow> (s, reg)
     | Some b \<Rightarrow> (case ob_depths b (hs_world s) of (outcome, w) \<Rightarrow> (s\<lparr>hs_world := w\<rparr>, publish_depths rnd outcome reg)))"

text \<open>Old series are dropped first; the counts are visited in some order.\<close>

definition publish_counts ::
    "(rat \<Rightarrow> float64) \<Rightarrow> string \<Rightarrow> string list \<Rightarrow> (string \<rightharpoonup> int) \<Rightarrow> registry \<Rightarrow> registry" where
  "publish_counts rnd gauge order totals reg =
     foldl (\<lambda>reg st.
         case totals st of None \<Rightarrow> reg | Some n \<Rightarrow> update_metric rnd (gauge, Gauge_set (rnd (of_int n)) [st]) reg)
       (update_metric rnd (gauge, Gauge_reset) reg) order"

definition collectStoreCounts ::
    "(rat \<Rightarrow> float64) \<Rightarrow> 's api_request \<Rightarrow> 's server_state \<times> registry \<Rightarrow> 's server_state \<times> registry" where
  "collectStoreCounts rnd rq = (\<lambda>(s, reg).
     case fst (ObservabilityCounts (aq_now rq 3) (aq_orders rq 2) (aq_orders rq 4) (hs_store s)) of
       Inl err \<Rightarrow> (s, update_metric rnd (''codepilot_collector_errors_total'', Counter_add (Finite 1) [''store'']) reg)
     | Inr observed \<Rightarrow>
         (s, publish_counts rnd ''codepilot_agent_tasks'' (aq_orders rq 7) (oc_tasks_by_status_last24h observed)
               (publish_counts rnd ''codepilot_gitflame_connections'' (aq_orders rq 6) (oc_connections_by_token_status observed) reg)))"

definition collectIndexJobs ::
    "(rat \<Rightarrow> float64) \<Rightarrow> 's api_request \<Rightarrow> 's server_state \<times> registry \<Rightarrow> 's server_state \<times> registry" where
  "collectIndexJobs rnd rq = (\<lambda>(s, reg).
     (s, update_metric rnd (''codepilot_repository_index_jobs_running'',
           Gauge_set (rnd (of_int (runningCount (aq_orders rq 5) (hs_jobs s)))) []) reg))"

text \<open>\<open>rq\<close> stands for what one refresh draws from its surroundings.\<close>

definition collectMetrics ::
    "(rat \<Rightarrow> float64) \<Rightarrow> 's server \<Rightarrow> 's ops_broker option \<Rightarrow> 's api_request \<Rightarrow>
       's server_state \<times> registry \<Rightarrow> 's server_state \<times> registry" where
  "collectMetrics rnd sr broker rq =
     collectIndexJobs rnd rq \<circ> collectStoreCounts rnd rq \<circ> collectQueueDepth rnd broker \<circ> collectDependencyHealth rnd sr"

section \<open>Properties\<close>

text \<open>The process starts: no metric is defined twice.\<close>

theorem default_registry_builds:
  "case DefaultRegistry rnd of Inl err \<Rightarrow> False | Inr reg \<Rightarrow> length reg = 19 \<and> distinct_names reg"
  by (simp add: DefaultRegistry_def register_all_def metric_definitions_def NewCounterVec_def NewGaugeVec_def NewHistogramVec_def
      register_def collector_name_def distinct_names_def)

definition gauge_values :: "string \<Rightarrow> registry \<Rightarrow> series_values option" where
  "gauge_values name reg = (case find (\<lambda>c. collector_name c = name) reg of Some (Gauge_vec m vs) \<Rightarrow> Some vs | _ \<Rightarrow> None)"

lemma find_updated:
  "find (\<lambda>c. collector_name c = name) (update_metric rnd u reg) =
     map_option (\<lambda>c. if name = fst u then update_collector rnd (snd u) c else c) (find (\<lambda>c. collector_name c = name) reg)"
  by (induction reg) (auto simp: update_metric_def)

lemma gauge_values_other [simp]: "name \<noteq> fst u \<Longrightarrow> gauge_values name (update_metric rnd u reg) = gauge_values name reg"
  by (simp add: gauge_values_def find_updated option.map_ident)

lemma gauge_values_set [simp]:
  "gauge_values name (update_metric rnd (name, Gauge_set x ls) reg) = map_option (gauge_Set x ls) (gauge_values name reg)"
  "gauge_values name (update_metric rnd (name, Gauge_reset) reg) = map_option gauge_Reset (gauge_values name reg)"
  by (auto simp: gauge_values_def find_updated split: option.split collector.split)

lemma single_key [simp]: "series_key [v] = v"
  by (simp add: series_key_def)

lemma published_values:
  assumes "gauge_values gauge reg = Some vs"
  shows "\<exists>vs'. gauge_values gauge (publish_counts rnd gauge order totals reg) = Some vs' \<and>
    map_of vs' = (\<lambda>st. if st \<in> set order then map_option (rnd \<circ> of_int) (totals st) else None)"
proof (induction order rule: rev_induct)
  case Nil
  with assms show ?case by (simp add: publish_counts_def gauge_Reset_def)
next
  case (snoc st order)
  then obtain vs' where "gauge_values gauge (publish_counts rnd gauge order totals reg) = Some vs'"
    "map_of vs' = (\<lambda>st. if st \<in> set order then map_option (rnd \<circ> of_int) (totals st) else None)"
    by blast
  then show ?case
    by (cases "totals st") (auto simp: publish_counts_def gauge_Set_def update_conv' fun_eq_iff)
qed

lemma published_other [simp]:
  "name \<noteq> gauge \<Longrightarrow> gauge_values name (publish_counts rnd gauge order totals reg) = gauge_values name reg"
  by (induction order rule: rev_induct) (auto simp: publish_counts_def split: option.split)

text \<open>A dashboard shows what the store holds: after a refresh the two gauges have a series for exactly the statuses that the store
  counts, with their counts, whatever they showed before.\<close>

theorem published_counts_are_current:
  assumes "gauge_values ''codepilot_gitflame_connections'' reg = Some vs" and "gauge_values ''codepilot_agent_tasks'' reg = Some vs2"
    and "fst (ObservabilityCounts (aq_now rq 3) (aq_orders rq 2) (aq_orders rq 4) (hs_store s)) = Inr observed"
    and "dom (oc_connections_by_token_status observed) \<subseteq> set (aq_orders rq 6)"
    and "dom (oc_tasks_by_status_last24h observed) \<subseteq> set (aq_orders rq 7)"
  shows "case collectStoreCounts rnd rq (s, reg) of (s', reg') \<Rightarrow>
    s' = s \<and>
    map_option map_of (gauge_values ''codepilot_gitflame_connections'' reg') =
      Some (map_option (rnd \<circ> of_int) \<circ> oc_connections_by_token_status observed) \<and>
    map_option map_of (gauge_values ''codepilot_agent_tasks'' reg') =
      Some (map_option (rnd \<circ> of_int) \<circ> oc_tasks_by_status_last24h observed)"
proof -
  let ?reg = "publish_counts rnd ''codepilot_gitflame_connections'' (aq_orders rq 6) (oc_connections_by_token_status observed) reg"
  have covered: "(\<lambda>st. if st \<in> set order then map_option f (m st) else None) = map_option f \<circ> m" if "dom m \<subseteq> set order"
    for f :: "int \<Rightarrow> float64" and m :: "string \<rightharpoonup> int" and order
    using that by (auto simp: fun_eq_iff)
  obtain vs' where connections: "gauge_values ''codepilot_gitflame_connections'' ?reg = Some vs'"
    "map_of vs' = map_option (rnd \<circ> of_int) \<circ> oc_connections_by_token_status observed"
    using published_values [OF assms(1)] covered [OF assms(4)] by metis
  have "gauge_values ''codepilot_agent_tasks'' ?reg = Some vs2" using assms(2) by simp
  from published_values [OF this] covered [OF assms(5)] obtain vs2' where
    "gauge_values ''codepilot_agent_tasks'' (publish_counts rnd ''codepilot_agent_tasks'' (aq_orders rq 7)
       (oc_tasks_by_status_last24h observed) ?reg) = Some vs2'"
    "map_of vs2' = map_option (rnd \<circ> of_int) \<circ> oc_tasks_by_status_last24h observed"
    by metis
  with connections assms(3) show ?thesis by (simp add: collectStoreCounts_def)
qed

end
