(* ===== verification/Server_Samples.thy ===== *)
theory Server_Samples imports Server_Properties Router Metric_Definitions begin

text \<open>
  Concrete servers, requests and states of the server, on which the properties of the handlers hold with all their
  hypotheses.
\<close>

section \<open>A sample server\<close>

definition calm :: ambient where
  "calm = \<lparr>am_now = (\<lambda>i. 10), am_id = (\<lambda>i. ''a''), am_order = [], am_publish = (\<lambda>j. None)\<rparr>"

definition sample_call :: "request_env \<Rightarrow> string \<Rightarrow> 's api_request" where
  "sample_call env path_id =
     \<lparr>aq_id = path_id, aq_header = (\<lambda>n. []), aq_query = (\<lambda>n. []), aq_body = [], aq_env = env, aq_again = env, aq_ambient = calm,
      aq_orders = (\<lambda>i. []), aq_meanwhile = id, aq_wait_event = Job_done\<rparr>"

text \<open>Two findings with the same description, and so with the same fingerprint.\<close>

definition found_cards :: "recommendation_card list" where
  "found_cards =
     [sample_card\<lparr>card_id := [], card_state := []\<rparr>, sample_card\<lparr>card_id := [], card_severity := []\<rparr>]"

definition sample_server :: "nat server" where
  "sample_server =
     \<lparr>sr_backend = sample_backend, sr_indexer = None, sr_recommender = Some (\<lambda>metadata yaml files w. (Inr (''fine'', found_cards), w)),
      sr_dispatcher = InlineDispatcher, sr_public_base_url = ''https://pilot'', sr_signing_key = ''k'',
      sr_hmac = (\<lambda>key message. replicate 32 CHR ''h''), sr_sorter = id, sr_json = (\<lambda>s. Inr (JObj [])), sr_float_text = (\<lambda>x. ''0''),
      sr_checks = []\<rparr>"

definition cookie_of :: "char \<Rightarrow> string" where
  "cookie_of c = RawURL_encode (replicate 32 c)"

definition as_user :: "char \<Rightarrow> request_env" where
  "as_user c = sample_request_env (Some (cookie_of c))"

lemma sample_call_sel [simp]:
  "aq_id (sample_call env k) = k" "aq_header (sample_call env k) n = []" "aq_query (sample_call env k) n = []"
  "aq_body (sample_call env k) = []" "aq_env (sample_call env k) = env" "aq_again (sample_call env k) = env"
  "aq_orders (sample_call env k) i = []" "aq_meanwhile (sample_call env k) = id"
  by (simp_all add: sample_call_def)

lemma sample_env_sel [simp]:
  "re_now (sample_request_env c) i = 10" "re_now (as_user u) i = 10" "re_cookie (as_user u) = Some (cookie_of u)"
  "re_order (as_user u) = []" "re_random (as_user u) i = zero_bytes" "re_id (as_user u) i = (if i = 0 then ''u1'' else ''s1'')"
  "re_id (sample_request_env c) i = (if i = 0 then ''u1'' else ''s1'')" "re_cookie (sample_request_env c) = c"
  by (simp_all add: as_user_def sample_request_env_def)

definition with_store :: "memory_store \<Rightarrow> 's \<Rightarrow> 's server_state" where
  "with_store st w = (initial_server_state w)\<lparr>hs_flow := (hs_flow (initial_server_state w))\<lparr>ws_store := st\<rparr>\<rparr>"

lemma with_store_sel [simp]: "hs_store (with_store st w) = st" "hs_world (with_store st w) = w"
  "hs_jobs (with_store st w) = newIndexJobRegistry" "hs_background (with_store st w) = []"
  by (simp_all add: with_store_def initial_server_state_def)

lemma with_store_update [simp]: "(with_store st w)\<lparr>hs_flow := (hs_flow (with_store st w))\<lparr>ws_store := st'\<rparr>\<rparr> = with_store st' w"
  by (simp add: with_store_def)

lemma with_store_reachable: "reachable_store st \<Longrightarrow> server_reachable (with_store st w)"
  using store_run_is_run [of "initial_server_state w" st]
  by (auto simp: server_reachable_def reachable_store_def with_store_def initial_server_state_def)

section \<open>Sessions\<close>

text \<open>One user with two sessions.\<close>

definition one_login :: memory_store where
  "one_login = snd (CreateAppSession 2 ''s1'' ''u'' (replicate 32 CHR ''a'') 100 one_user)"

definition two_logins :: memory_store where
  "two_logins = snd (CreateAppSession 2 ''s2'' ''u'' (replicate 32 CHR ''b'') 100 one_login)"

lemma two_logins_reachable: "reachable_store two_logins"
  unfolding two_logins_def
proof (rule reachable_step)
  show "reachable_store one_login"
    unfolding one_login_def by (rule reachable_step [OF one_user_reachable]) (rule create_app_session, code_simp)
  show "store_step one_login (snd (CreateAppSession 2 ''s2'' ''u'' (replicate 32 CHR ''b'') 100 one_login))"
    by (rule create_app_session) code_simp
qed

lemma sample_authenticates:
  "authenticated_request sample_server (sample_call (as_user c) k) s =
     (case AppSessionByTokenHash 10 10 (replicate 32 c) (hs_store s) of (r, st) \<Rightarrow> (r, s\<lparr>hs_flow := (hs_flow s)\<lparr>ws_store := st\<rparr>\<rparr>))"
  by (simp add: authenticated_request_def in_sync_def authenticate_def on_table_def sample_server_def
      cookie_of_def sample_backend_def SessionTokenHashFromCookie_def RawURL_roundtrip SessionTokenHash_def
      sessionTokenBytes_def split: prod.split)

definition logged_in :: "nat server_state" where
  "logged_in = with_store two_logins 0"

lemma logged_out_stays_out_witness:
  "case revokeSession sample_server (sample_call (as_user CHR ''a'') []) logged_in of
     (reply1, s1) \<Rightarrow>
       (case authenticated_request sample_server (sample_call (as_user CHR ''b'') []) s1 of
          (Inl e, s2) \<Rightarrow> False
        | (Inr later, s2) \<Rightarrow> aps_id later = ''s2'' \<and> aps_id later \<noteq> ''s1'')"
proof -
  obtain session st st1 later st2 where
    first: "AppSessionByTokenHash 10 10 (replicate 32 CHR ''a'') two_logins = (Inr session, st)" "aps_id session = ''s1''" and
    revoked: "RevokeAppSession 10 ''s1'' st = (Inr (), st1)" and
    second: "AppSessionByTokenHash 10 10 (replicate 32 CHR ''b'') st1 = (Inr later, st2)" "aps_id later = ''s2''"
    by (simp add: two_logins_def one_login_def one_user_def CreateAppSession_def UpsertAppUser_def NewMemoryStore_def
        Store_Properties.sample_user_def Let_def AppSessionByTokenHash_def RevokeAppSession_def)
  have in1: "authenticated_request sample_server (sample_call (as_user CHR ''a'') []) logged_in = (Inr session, with_store st 0)"
    by (simp add: sample_authenticates logged_in_def first)
  have out: "revokeSession sample_server (sample_call (as_user CHR ''a'') []) logged_in =
      (With_cookie None (Reply 204 No_body), with_store st1 0)"
    by (simp add: revokeSession_def attempt_def attempt_or_def in1 first in_store_apply with_cookie_def reply_def revoked)
  have in2: "authenticated_request sample_server (sample_call (as_user CHR ''b'') []) (with_store st1 0) = (Inr later, with_store st2 0)"
    by (simp add: sample_authenticates second)
  have "server_reachable logged_in" unfolding logged_in_def by (rule with_store_reachable [OF two_logins_reachable])
  from logged_out_stays_out [OF this in1 out rtranclp.rtrancl_refl in2] show ?thesis
    by (simp add: out in2 first second)
qed

text \<open>The same users without a cookie.\<close>

lemma session_calls_need_session_witness:
  "repositoryTree sample_server (sample_call (sample_request_env None) ''c'') logged_in = (session_problem, logged_in)"
proof (rule session_calls_need_session)
  show "session_call sample_server (sample_call (sample_request_env None) ''c'')
      (repositoryTree sample_server (sample_call (sample_request_env None) ''c''))"
    by (rule session_call.intros)
  show "authenticated_request sample_server (sample_call (sample_request_env None) ''c'') logged_in = (Inl ErrNotFound, logged_in)"
    by (simp add: authenticated_request_def in_sync_def authenticate_def failS_def
        logged_in_def with_store_def initial_server_state_def)
qed

section \<open>Steps\<close>

lemma handlers_are_steps_witness:
  "server_step\<^sup>*\<^sup>* (initial_server_state 0)
     (snd (createGitFlameSession sample_server (sample_call (sample_request_env None) []) (Inr ''secret'') (initial_server_state 0)))"
proof (rule handlers_are_steps)
  show "api_call sample_server (sample_call (sample_request_env None) [])
      (createGitFlameSession sample_server (sample_call (sample_request_env None) []) (Inr ''secret''))"
    by (rule api_call.intros)
  show "fresh_request (sample_call (sample_request_env None) []) (initial_server_state 0)"
    by (simp add: fresh_request_def initial_server_state_def NewMemoryStore_def visits_def)
  show "meanwhile_steps (sample_call (sample_request_env None) [])" by (simp add: meanwhile_steps_def)
qed

definition quiet_reader :: "nat repository_reader" where
  "quiet_reader =
     \<lparr>rd_tree = (\<lambda>r ref w. (Inr [], w)), rd_files = (\<lambda>r ref yaml requested w. (Inr (''version: 1'', [sample_original]), w)),
      rd_issues = (\<lambda>r w. (Inr [], w)), rd_revision = None, rd_index_files = None\<rparr>"

definition sample_job :: "nat index_run" where
  "sample_job =
     \<lparr>xr_reader = quiet_reader, xr_connection = Store_Properties.sample_connection, xr_ref = ''main'', xr_force = False\<rparr>"

definition one_job :: index_registry where
  "one_job = snd (begin_job 5 5 ''r'' ''c'' ''main'' False newIndexJobRegistry)"

definition indexing_server :: "nat server_state" where
  "indexing_server = (initial_server_state 0)\<lparr>hs_jobs := one_job, hs_background := [Index_run sample_job]\<rparr>"

lemma indexing_server_reachable: "server_reachable indexing_server"
proof -
  obtain st where "begin_job 5 5 ''r'' ''c'' ''main'' False newIndexJobRegistry = ((st, True), one_job)"
    by (simp add: one_job_def begin_job_def newIndexJobRegistry_def Let_def)
  then have "server_step (initial_server_state 0) indexing_server"
    using index_started [of 5 5 sample_job "''c''" "''main''" False "initial_server_state 0" st one_job]
    by (simp add: indexing_server_def initial_server_state_def sample_job_def Store_Properties.sample_connection_def)
  then show ?thesis unfolding server_reachable_def by blast
qed

lemma server_indexes_once_witness:
  "index_repositories indexing_server = [''r''] \<and> distinct (index_repositories indexing_server) \<and> is_running (hs_jobs indexing_server) ''r''"
proof -
  have "index_repositories indexing_server = [''r'']"
    by (simp add: index_repositories_def indexing_server_def map_filter_simps index_repository_def sample_job_def
        Store_Properties.sample_connection_def)
  with server_indexes_once [OF indexing_server_reachable, of "''r''"] show ?thesis by simp
qed

section \<open>Applying generated files\<close>

text \<open>A server that is configured with one GitFlame client for everyone.\<close>

definition static_source :: "nat gitflame_source" where
  "static_source =
     \<lparr>gs_apply = (\<lambda>metadata contract w.
        (Inr \<lparr>apr_branch_name = ''ai/x'', apr_commit_sha = ''abc'', apr_pull_request_id = ''1'', apr_pull_request_url = []\<rparr>, Suc w)),
      gs_reader = Some quiet_reader, gs_current_user = None\<rparr>"

definition static_backend :: "nat backend" where
  "static_backend =
     sample_backend\<lparr>bk_cipher := None, bk_static := Some static_source, bk_sha256 := zero_digest, bk_unmarshal := sample_unmarshal\<rparr>"

definition static_server :: "nat server" where
  "static_server = sample_server\<lparr>sr_backend := static_backend\<rparr>"

lemma static_source_handed_out:
  "gitFlameSourceForRepository static_backend env r y = (Inr (Some static_source, None), y)"
  by (simp add: gitFlameSourceForRepository_def unconfigured_def static_backend_def retS_def)

definition fresh_contract :: generated_files_contract where
  "fresh_contract =
     \<lparr>gc_request_id = ''q'', gc_task_id = ''t'', gc_summary = [], gc_branch_name = ''ai/x'', gc_base_branch = ''main'',
      gc_files = [sample_op\<lparr>gf_action := ''create''\<rparr>], gc_commit_message = ''m'', gc_pr_title = ''p'', gc_reviewer = [],
      gc_apply_status = ''pending'', gc_commit_sha = [], gc_pull_request_id = [], gc_pull_request_url = [], gc_apply_error = [],
      gc_applied_at = None\<rparr>"

definition issue_created :: memory_store where
  "issue_created = snd (CreateSession 1 ''s'' sample_request sample_config NewMemoryStore)"

definition generated_session :: issue_session where
  "generated_session = with_contract (the (ms_sessions issue_created ''s'')) fresh_contract"

definition files_generated :: memory_store where
  "files_generated = snd (UpdateSession 2 generated_session issue_created)"

lemma files_generated_reachable: "reachable_store files_generated"
  unfolding files_generated_def issue_created_def
  by (rule reachable_step [OF reachable_step [OF reachable_new create_session] update_session])

lemma applied_change_is_not_repeated_witness:
  "case applyGeneratedFiles_handler static_server (sample_call (sample_request_env None) ''s'') (with_store files_generated 0) of
     (r, s') \<Rightarrow>
       reply_status r = 200 \<and> stored_as_applied ''s'' s' \<and>
       (\<exists>body. applyGeneratedFiles_handler static_server (sample_call (sample_request_env None) ''s'') s' = (Reply 200 body, s'))"
proof -
  have session: "Session ''s'' files_generated = (Inr (generated_session\<lparr>ses_updated_at := 2\<rparr>), files_generated)"
    by (simp add: files_generated_def issue_created_def generated_session_def with_contract_def Session_def UpdateSession_def
        CreateSession_def NewMemoryStore_def sample_request_def Let_def issue_of_def session_key_of_def sessionKey_def)
  have contract: "ses_generated_files generated_session = Some fresh_contract"
    by (simp add: generated_session_def with_contract_def)
  have files: "gc_files fresh_contract \<noteq> []" "gc_apply_status fresh_contract \<noteq> ''applied''"
    "gc_files (apply_contract (generated_session\<lparr>ses_updated_at := 2\<rparr>) fresh_contract) \<noteq> []"
    by (simp_all add: fresh_contract_def apply_contract_def DropNoopGeneratedFilesForApply_def Let_def)
  have backend: "sr_backend static_server = static_backend" by (simp add: static_server_def)
  obtain body s' where run: "applyGeneratedFiles_handler static_server (sample_call (sample_request_env None) ''s'')
      (with_store files_generated 0) = (Reply 200 body, s')"
    by (simp add: applyGeneratedFiles_handler_def attempt_def attempt_or_def in_store_apply session contract files
        apply_to_gitflame_def in_sync_def backend static_source_handed_out)
      (simp add: in_world_def static_source_def save_session_def in_store_apply UpdateSession_def Let_def touch_optional_def retS_def
        applied_reply_def reply_def)
  have "server_reachable (with_store files_generated 0)" by (rule with_store_reachable [OF files_generated_reachable])
  from applied_change_is_not_repeated [OF this run, of "sample_call (sample_request_env None) ''s''"] show ?thesis by (simp add: run)
qed

section \<open>Reports\<close>

definition report_request :: recommendation_request where
  "report_request =
     \<lparr>rr_repository = req_repository sample_request, rr_yaml_config = ''version: 1'', rr_categories = [], rr_repository_files = [],
      rr_repository_context = []\<rparr>"

definition report_call :: "nat api_request" where
  "report_call = sample_call (sample_request_env None) ''r''"

lemma reported_cards_well_formed_witness:
  "case analyzeRecommendations static_server report_call (Inr report_request) (initial_server_state 0) of
     (Reply st (Report_body r), s') \<Rightarrow> length (rep_recommendations r) = 1 \<and> well_formed_report r
   | _ \<Rightarrow> False"
proof -
  have "case analyzeRecommendations static_server report_call (Inr report_request) (initial_server_state 0) of
     (Reply st (Report_body r), s') \<Rightarrow> st = 200 \<and> length (rep_recommendations r) = 1
   | _ \<Rightarrow> False"
    by code_simp
  then obtain r s' where run: "analyzeRecommendations static_server report_call (Inr report_request) (initial_server_state 0) =
      (Reply 200 (Report_body r), s')" "length (rep_recommendations r) = 1"
    by (auto split: prod.splits api_reply.splits api_body.splits)
  have "digest_length (sha256_of static_server)"
    by (simp add: sha256_of_def static_server_def static_backend_def zero_digest_length)
  from reported_cards_well_formed [OF run(1) this] run show ?thesis by (simp add: report_call_def)
qed

section \<open>Webhooks\<close>

definition connected :: memory_store where
  "connected =
     snd (SaveGitFlameConnection 1 ''c'' [] Store_Properties.sample_connection
       (snd (CreateAppSession 2 ''s1'' ''u'' (zero_digest []) 100 one_user)))"

definition owner_call :: "nat api_request" where
  "owner_call = sample_call (as_user CHR ''a'') ''c''"

lemma webhook_secret_opens_witness:
  "case createGitFlameWebhook static_server owner_call (with_store connected 0) of
     (Reply st (Webhook_body w), s') \<Rightarrow>
       (case ms_webhooks (hs_store s') (wr_id w) of
          None \<Rightarrow> False
        | Some webhook \<Rightarrow>
            wh_status webhook = ''active'' \<and>
            validWebhookRequest static_server webhook
              (\<lambda>name. if name = ''X-GitFlame-Webhook-Secret'' then wr_secret w else []) ''{}'')
   | _ \<Rightarrow> False"
proof -
  have "case createGitFlameWebhook static_server owner_call (with_store connected 0) of
     (Reply st (Webhook_body w), s') \<Rightarrow> st = 201 | _ \<Rightarrow> False"
    by code_simp
  then obtain w s' where run: "createGitFlameWebhook static_server owner_call (with_store connected 0) =
      (Reply 201 (Webhook_body w), s')"
    by (auto split: prod.splits api_reply.splits api_body.splits)
  have named: "named_webhooks (ms_webhooks (hs_store (with_store connected (0::nat))))"
    by (simp add: named_webhooks_def keyed_def connected_def SaveGitFlameConnection_def CreateAppSession_def one_user_def
        UpsertAppUser_def NewMemoryStore_def Let_def split: option.split)
  have "digests_32 static_server"
    by (simp add: digests_32_def sha256_of_def static_server_def static_backend_def zero_digest_def sample_server_def)
  have "re_id (aq_env owner_call) 3 \<noteq> []" by (simp add: owner_call_def)
  note opens = webhook_secret_opens [OF run named this \<open>digests_32 static_server\<close>,
      of "\<lambda>name. if name = ''X-GitFlame-Webhook-Secret'' then wr_secret w else []" "''{}''"]
  show ?thesis unfolding run using opens by simp
qed

definition sample_hook :: gitflame_webhook_registration where
  "sample_hook = (new_registration static_server ''w'' ''c'' (''v1:c2FsdA:'' @ hex_encode (zero_digest [])))\<lparr>wh_updated_at := 3\<rparr>"

definition sample_event :: gitflame_webhook_event where
  "sample_event =
     \<lparr>ev_id = ''e'', ev_webhook_id = ''w'', ev_event_type = ''issue'', ev_action = ''opened'', ev_delivery_id = ''d1'',
      ev_repository_id = ''r'', ev_issue_session_id = [], ev_payload = Some [], ev_status = ''received'', ev_error = None,
      ev_received_at = 4, ev_processed_at = None\<rparr>"

definition hooked :: memory_store where
  "hooked = NewMemoryStore\<lparr>ms_webhooks := [''w'' \<mapsto> sample_hook], ms_events := [''e'' \<mapsto> sample_event]\<rparr>"

definition redelivery :: "nat api_request" where
  "redelivery =
     (sample_call (sample_request_env None) ''w'')
       \<lparr>aq_header := (\<lambda>name.
          if name = ''X-GitFlame-Webhook-Secret'' then ''x'' else if name = ''X-GitFlame-Delivery'' then ''d1'' else []),
        aq_orders := (\<lambda>i. [''e''])\<rparr>"

lemma known_delivery_is_duplicate_witness:
  "\<exists>k. receiveGitFlameWebhook static_server redelivery (with_store hooked 0) =
     (Reply 202 (Delivery_body ''duplicate'' k), with_store hooked 0)"
proof (rule known_delivery_is_duplicate)
  show "ms_webhooks (hs_store (with_store hooked 0)) (aq_id redelivery) = Some sample_hook"
    by (simp add: hooked_def redelivery_def sample_call_def)
  show "wh_status sample_hook = ''active''" by (simp add: sample_hook_def new_registration_def)
  show "length (aq_body redelivery) \<le> maxWebhookBodyBytes" by (simp add: redelivery_def)
  show "validWebhookRequest static_server sample_hook (aq_header redelivery) (aq_body redelivery)" by code_simp
  show "payload_of (sr_json static_server (aq_body redelivery)) = Inr (Some [])"
    by (simp add: payload_of_def static_server_def sample_server_def)
  show "delivery_id redelivery \<noteq> []" by code_simp
  show "ev_delivery_id sample_event = delivery_id redelivery" by code_simp
  have events: "ranging (ms_events (hs_store (with_store hooked 0))) (aq_orders redelivery 1) = [sample_event]"
    by (simp add: ranging_def map_filter_def hooked_def redelivery_def)
  show "sample_event \<in> set (ranging (ms_events (hs_store (with_store hooked 0))) (aq_orders redelivery 1))"
    by (simp only: events) simp
  show "ev_webhook_id sample_event = wh_id sample_hook" by (simp add: sample_event_def sample_hook_def new_registration_def)
  show "length (filter (\<lambda>e. ev_webhook_id e = wh_id sample_hook \<and> ev_received_at sample_event \<le> ev_received_at e)
      (ranging (ms_events (hs_store (with_store hooked 0))) (aq_orders redelivery 1))) \<le> 100"
    by (simp only: events) simp
qed

lemma delivery_settles_witness:
  "case processGitFlameWebhookEvent static_server (sample_request_env None) Store_Properties.sample_connection sample_event
       (with_store hooked 0) of
     (Inl e, s') \<Rightarrow> False
   | (Inr _, s') \<Rightarrow>
       (case ms_events (hs_store s') ''e'' of
          None \<Rightarrow> False
        | Some v \<Rightarrow> ev_status v = ''processed'' \<and> ev_processed_at v \<noteq> None \<and> ev_error v = None)"
proof -
  obtain s' v where run: "processGitFlameWebhookEvent static_server (sample_request_env None) Store_Properties.sample_connection sample_event
       (with_store hooked 0) = (Inr (), s')" "ms_events (hs_store s') ''e'' = Some v" "ev_status v = ''processed''"
    by (simp add: processGitFlameWebhookEvent_def process_payload_def sample_event_def put_payload_def ignoring_def tryS_def
        in_store_apply SaveGitFlameWebhookEvent_def settled_event_def Let_def retS_def time_IsZero_def)
  have "ev_id sample_event \<noteq> []" "ev_status sample_event = ''received''" "ev_error sample_event = None" "ev_id sample_event = ''e''"
    by (simp_all add: sample_event_def)
  from delivery_settles [OF this(1-3), of static_server "sample_request_env None" Store_Properties.sample_connection "with_store hooked 0"]
    this(4) run
  show ?thesis by simp
qed

section \<open>Gauges\<close>

definition refresh_call :: "nat api_request" where
  "refresh_call =
     (sample_call (sample_request_env None) [])\<lparr>aq_orders := (\<lambda>i. if i = 2 then [''c''] else if i = 6 then [''active''] else [])\<rparr>"

lemma published_counts_are_current_witness:
  "case DefaultRegistry Finite of
     Inl err \<Rightarrow> False
   | Inr reg \<Rightarrow>
       map_option map_of (gauge_values ''codepilot_gitflame_connections''
         (snd (collectStoreCounts Finite refresh_call (with_store one_connection 0, reg)))) = Some [''active'' \<mapsto> Finite 1]"
proof -
  have "case DefaultRegistry Finite of
     Inl err \<Rightarrow> False
   | Inr reg \<Rightarrow>
       gauge_values ''codepilot_gitflame_connections'' reg = Some [] \<and> gauge_values ''codepilot_agent_tasks'' reg = Some []"
    by code_simp
  then obtain reg where reg: "DefaultRegistry Finite = Inr reg" "gauge_values ''codepilot_gitflame_connections'' reg = Some []"
    "gauge_values ''codepilot_agent_tasks'' reg = Some []"
    by (auto split: sum.splits)
  let ?observed = "\<lparr>oc_connections_by_token_status = [''active'' \<mapsto> 1], oc_tasks_by_status_last24h = Map.empty\<rparr>"
  have "fst (ObservabilityCounts (aq_now refresh_call 3) (aq_orders refresh_call 2) (aq_orders refresh_call 4)
      (hs_store (with_store one_connection (0::nat)))) = Inr ?observed"
    by (simp add: ObservabilityCounts_def refresh_call_def ranging_def map_filter_def one_connection_at tally_def increment_def Let_def)
  from published_counts_are_current [OF reg(2,3) this] show ?thesis
    by (simp add: reg(1) refresh_call_def case_prod_beta fun_eq_iff)
qed

end
