(* ===== verification/Middleware.thy ===== *)
theory Middleware imports Metric_Definitions begin

text \<open>
  What surrounds every handler: the response writer that remembers the status, panic recovery, the metrics of a route and the
  access log (logging.go of backend/internal/httpapi), and request identifiers (observability/requestid.go). A handler appears
  here as the calls it makes on the response writer, and whether it then panics.
\<close>

section \<open>The response writer\<close>

datatype writer_call = Write_header int | Write_body string

text \<open>\<open>statusResponseWriter\<close>, with what reached the writer below it.\<close>

record response_writer =
  sw_status :: int
  sw_written :: bool
  sw_sent_status :: "int option"
  sw_sent_body :: string

definition new_writer :: response_writer where
  "new_writer = \<lparr>sw_status = 0, sw_written = False, sw_sent_status = None, sw_sent_body = []\<rparr>"

definition WriteHeader :: "int \<Rightarrow> response_writer \<Rightarrow> response_writer" where
  "WriteHeader status w =
     (if sw_written w then w else w\<lparr>sw_status := status, sw_written := True, sw_sent_status := Some status\<rparr>)"

definition Write :: "string \<Rightarrow> response_writer \<Rightarrow> response_writer" where
  "Write body w =
     (let w1 = (if \<not> sw_written w then WriteHeader 200 w else w) in w1\<lparr>sw_sent_body := sw_sent_body w1 @ body\<rparr>)"

fun writer_step :: "writer_call \<Rightarrow> response_writer \<Rightarrow> response_writer" where
  "writer_step (Write_header status) = WriteHeader status"
| "writer_step (Write_body body) = Write body"

definition run_calls :: "writer_call list \<Rightarrow> response_writer \<Rightarrow> response_writer" where
  "run_calls calls w = fold writer_step calls w"

text \<open>What the client sees: net/http sends 200 for a handler that has written nothing.\<close>

definition client_status :: "response_writer \<Rightarrow> int" where
  "client_status w = (case sw_sent_status w of None \<Rightarrow> 200 | Some status \<Rightarrow> status)"

section \<open>Recovery, metrics and the access log\<close>

record handled =
  hd_calls :: "writer_call list"
  hd_panics :: bool

text \<open>The body of a problem document as the JSON encoder writes it is a parameter.\<close>

definition recoverMiddleware :: "(int \<Rightarrow> string \<Rightarrow> string \<Rightarrow> string) \<Rightarrow> handled \<Rightarrow> response_writer \<Rightarrow> response_writer" where
  "recoverMiddleware problem_text h w =
     (let w1 = run_calls (hd_calls h) w in
      if \<not> hd_panics h \<or> sw_written w1 then w1
      else Write (problem_text 500 ''internal_error'' ''the request could not be completed'') (WriteHeader 500 w1))"

definition logged_status :: "response_writer \<Rightarrow> int" where
  "logged_status w = (if sw_status w = 0 then 200 else sw_status w)"

text \<open>The metrics of a route are updated after the handler has returned; a panic passes them by, because the recovery
  lies outside.\<close>

definition instrumentRoute ::
    "(rat \<Rightarrow> float64) \<Rightarrow> string \<Rightarrow> string \<Rightarrow> float64 \<Rightarrow> handled \<Rightarrow> response_writer \<Rightarrow> registry \<Rightarrow> registry" where
  "instrumentRoute rnd template method_name secs h w reg =
     (if hd_panics h then reg
      else
        update_metric rnd (''codepilot_http_request_duration_seconds'', Observe_value secs [method_name, template])
          (update_metric rnd (''codepilot_http_requests_total'',
            Counter_add (Finite 1) [method_name, template, int_text (logged_status (run_calls (hd_calls h) w))]) reg))"

datatype log_level = LevelDebug | LevelInfo | LevelWarn | LevelError

definition access_level :: "int \<Rightarrow> log_level" where
  "access_level status = (if status \<ge> 500 then LevelError else if status \<ge> 400 then LevelWarn else LevelInfo)"

record access_line =
  al_level :: log_level
  al_status :: int

definition requestLogger :: "(int \<Rightarrow> string \<Rightarrow> string \<Rightarrow> string) \<Rightarrow> handled \<Rightarrow> access_line \<times> response_writer" where
  "requestLogger problem_text h =
     (let w = recoverMiddleware problem_text h new_writer in
      (\<lparr>al_level = access_level (logged_status w), al_status = logged_status w\<rparr>, w))"

text \<open>\<open>parseLevel\<close> of logging.go of the package observability.\<close>

definition parseLevel :: "string \<Rightarrow> log_level" where
  "parseLevel v =
     (let level = to_lower (trim_space v) in
      if level = ''debug'' then LevelDebug
      else if level = ''warn'' \<or> level = ''warning'' then LevelWarn
      else if level = ''error'' then LevelError
      else LevelInfo)"

text \<open>The label of a route is its pattern without the method.\<close>

definition route_template :: "string \<Rightarrow> string" where
  "route_template pattern =
     (if CHR '' '' \<in> set pattern then tl (dropWhile (\<lambda>c. c \<noteq> CHR '' '') pattern) else pattern)"

section \<open>Request identifiers\<close>

definition requestIDMaxLength :: nat where
  "requestIDMaxLength = 64"

definition request_id_char :: "char \<Rightarrow> bool" where
  "request_id_char c \<longleftrightarrow> is_alnum c \<or> c = CHR ''-'' \<or> c = CHR ''_''"

text \<open>The loop goes over runes, but only ASCII is kept: bytes of longer or broken encodings are dropped.\<close>

definition sanitizeRequestID :: "string \<Rightarrow> string" where
  "sanitizeRequestID v0 = filter request_id_char (take requestIDMaxLength (trim_space v0))"

definition NewRequestID :: "(nat \<Rightarrow> string result) \<Rightarrow> string" where
  "NewRequestID random = (case random 16 of Inl err \<Rightarrow> ''no-request-id'' | Inr bytes \<Rightarrow> hex_encode bytes)"

text \<open>The identifier in the context and in the header of the response.\<close>

definition request_id :: "(nat \<Rightarrow> string result) \<Rightarrow> string \<Rightarrow> string" where
  "request_id random header =
     (let given = sanitizeRequestID header in if given = [] then NewRequestID random else given)"

text \<open>A context holds an identifier or none.\<close>

definition WithRequestID :: "string \<Rightarrow> string option \<Rightarrow> string option" where
  "WithRequestID requestID ctx = (if trim_space requestID = [] then ctx else Some requestID)"

definition RequestIDFromContext :: "string option \<Rightarrow> string" where
  "RequestIDFromContext ctx = (case ctx of None \<Rightarrow> [] | Some requestID \<Rightarrow> requestID)"

text \<open>The headers of an outgoing request, as \<open>Header.Set\<close> changes them.\<close>

definition PropagateRequestID :: "string option \<Rightarrow> (string \<rightharpoonup> string) \<Rightarrow> (string \<rightharpoonup> string)" where
  "PropagateRequestID ctx headers =
     (let requestID = RequestIDFromContext ctx in
      if requestID \<noteq> [] then headers(''X-Request-ID'' \<mapsto> requestID) else headers)"

section \<open>Properties\<close>

lemma WriteHeader_written: "sw_written w \<Longrightarrow> WriteHeader status w = w"
  by (simp add: WriteHeader_def)

definition writer_ok :: "response_writer \<Rightarrow> bool" where
  "writer_ok w \<longleftrightarrow>
     (if sw_written w then sw_sent_status w = Some (sw_status w) else sw_sent_status w = None \<and> sw_status w = 0 \<and> sw_sent_body w = [])"

lemma writer_ok_new: "writer_ok new_writer"
  by (simp add: writer_ok_def new_writer_def)

lemma writer_ok_step: "writer_ok w \<Longrightarrow> writer_ok (writer_step call w)"
  by (cases call) (auto simp: writer_ok_def WriteHeader_def Write_def Let_def)

lemma writer_ok_run: "writer_ok w \<Longrightarrow> writer_ok (run_calls calls w)"
  by (induction calls arbitrary: w) (simp_all add: run_calls_def writer_ok_step)

lemma writer_keeps_status:
  "sw_written w \<Longrightarrow> sw_written (run_calls calls w) \<and> sw_sent_status (run_calls calls w) = sw_sent_status w"
proof (induction calls arbitrary: w)
  case (Cons call calls)
  have "sw_written (writer_step call w) \<and> sw_sent_status (writer_step call w) = sw_sent_status w"
    using Cons.prems by (cases call) (simp_all add: WriteHeader_def Write_def)
  with Cons.IH [of "writer_step call w"] show ?case by (simp add: run_calls_def)
qed (simp add: run_calls_def)

text \<open>The access log tells the truth: the status that is logged is the one that the client was sent, whatever the handler did with
  its writer and whether or not it panicked; and a handler that panics before it has written anything is answered with 500.\<close>

theorem access_log_is_truthful:
  assumes "Write_header 0 \<notin> set (hd_calls h)"
  shows "case requestLogger problem_text h of
      (line, w) \<Rightarrow> al_status line = client_status w \<and> (hd_panics h \<and> hd_calls h = [] \<longrightarrow> client_status w = 500)"
proof -
  let ?w1 = "run_calls (hd_calls h) new_writer"
  let ?w = "recoverMiddleware problem_text h new_writer"
  have ok: "writer_ok ?w1" by (rule writer_ok_run [OF writer_ok_new])
  have nonzero: "sw_written (run_calls calls w) \<longrightarrow> sw_status (run_calls calls w) \<noteq> 0"
    if "Write_header 0 \<notin> set calls" "sw_written w \<longrightarrow> sw_status w \<noteq> 0" for calls w
    using that
  proof (induction calls arbitrary: w)
    case (Cons call calls)
    then have "sw_written (writer_step call w) \<longrightarrow> sw_status (writer_step call w) \<noteq> 0"
      by (cases call) (auto simp: WriteHeader_def Write_def Let_def)
    with Cons show ?case by (simp add: run_calls_def)
  qed (simp add: run_calls_def)
  have "sw_written ?w1 \<longrightarrow> sw_status ?w1 \<noteq> 0" using nonzero [OF assms] by (simp add: new_writer_def)
  with ok have "logged_status ?w = client_status ?w"
    by (auto simp: recoverMiddleware_def logged_status_def client_status_def writer_ok_def WriteHeader_def Write_def Let_def
        split: if_splits option.split)
  moreover have "client_status ?w = 500" if "hd_panics h" "hd_calls h = []"
    using that by (simp add: recoverMiddleware_def run_calls_def new_writer_def WriteHeader_def Write_def Let_def client_status_def)
  ultimately show ?thesis by (simp add: requestLogger_def Let_def)
qed

lemma access_log_is_truthful_witness:
  "case requestLogger (\<lambda>st code detail. code) \<lparr>hd_calls = [Write_header 404, Write_header 200], hd_panics = True\<rparr> of
     (line, w) \<Rightarrow> al_status line = 404 \<and> al_status line = client_status w"
proof -
  let ?h = "\<lparr>hd_calls = [Write_header 404, Write_header 200], hd_panics = True\<rparr>"
  have "al_status (fst (requestLogger (\<lambda>st code detail. code) ?h)) = 404"
    by (simp add: requestLogger_def recoverMiddleware_def run_calls_def new_writer_def WriteHeader_def logged_status_def Let_def)
  with access_log_is_truthful [of ?h "\<lambda>st code detail. code"] show ?thesis by (simp add: case_prod_beta)
qed

text \<open>The comment of \<open>Router\<close> says that a recovered panic is still counted. It is logged, but not counted.\<close>

lemma panics_are_not_counted:
  "hd_panics h \<Longrightarrow> instrumentRoute rnd template method_name secs h w reg = reg"
  by (simp add: instrumentRoute_def)

lemma hex_char_plain_id: "d < 16 \<Longrightarrow> request_id_char (hex_char d)"
  by (auto simp: hex_char_def request_id_char_def is_alnum_def is_digit_def byte_of_def)

lemma hex_encode_request_chars: "\<forall>c \<in> set (hex_encode bytes). request_id_char c"
proof -
  have "byte_of c div 16 < 16" for c using byte_of_less [of c] by simp
  then show ?thesis by (auto simp: hex_encode_def hex_byte_def hex_char_plain_id)
qed

text \<open>Whatever a caller sends, the identifier under which a request is logged and passed on is short and plain: at most 64 letters,
  digits, hyphens and underscores, and never empty.\<close>

theorem request_id_is_plain:
  assumes "\<And>bytes. random 16 = Inr bytes \<Longrightarrow> length bytes = 16"
  shows "request_id random header \<noteq> [] \<and> length (request_id random header) \<le> 64 \<and>
    (\<forall>c \<in> set (request_id random header). request_id_char c)"
proof (cases "sanitizeRequestID header = []")
  case True
  show ?thesis
  proof (cases "random 16")
    case (Inl err)
    have "\<forall>c \<in> set ''no-request-id''. request_id_char c" by code_simp
    with True Inl show ?thesis by (simp add: request_id_def NewRequestID_def)
  next
    case (Inr bytes)
    with assms have "length (hex_encode bytes) = 32" by (simp add: hex_encode_length)
    moreover from this have "hex_encode bytes \<noteq> []" by auto
    ultimately show ?thesis using True Inr hex_encode_request_chars by (simp add: request_id_def NewRequestID_def)
  qed
next
  case False
  have "length (sanitizeRequestID header) \<le> 64"
    unfolding sanitizeRequestID_def requestIDMaxLength_def
    by (rule order_trans [OF length_filter_le]) simp
  with False show ?thesis by (auto simp: request_id_def sanitizeRequestID_def)
qed

lemma request_id_is_plain_witness:
  "request_id (\<lambda>n. Inr (replicate n CHR ''a'')) '' a/b'' = ''ab'' \<and> length (request_id (\<lambda>n. Inr (replicate n CHR ''a'')) '' a/b'') \<le> 64"
proof -
  have "request_id (\<lambda>n. Inr (replicate n CHR ''a'')) '' a/b'' = ''ab''" by code_simp
  with request_id_is_plain [of "\<lambda>n. Inr (replicate n CHR ''a'')" "'' a/b''"] show ?thesis by auto
qed

end
