(* ===== verification/Server_Config.thy ===== *)
theory Server_Config imports Redis_Broker Credentials Service_Clients Agent_Client Index_Jobs Workflow begin

text \<open>
  How the service is configured (backend/internal/config/config.go) and put together (\<open>New\<close> and \<open>newServer\<close> in
  httpapi/server.go, the checks of cmd/agent-worker/main.go). The environment is a function in which an unset variable is empty; a
  duration is a number of nanoseconds that wraps at 64 bits; the connection to PostgreSQL and \<open>url.Parse\<close> are parameters.
\<close>

section \<open>The environment\<close>

definition env :: "(string \<Rightarrow> string) \<Rightarrow> string \<Rightarrow> string \<Rightarrow> string" where
  "env getenv key fallback = (if getenv key \<noteq> [] then getenv key else fallback)"

definition positiveInt :: "(string \<Rightarrow> string) \<Rightarrow> string \<Rightarrow> int \<Rightarrow> int" where
  "positiveInt getenv key fallback =
     (case parse_int (env getenv key (int_text fallback)) of
        None \<Rightarrow> fallback
      | Some v \<Rightarrow> if v < 1 then fallback else v)"

definition boolEnv :: "(string \<Rightarrow> string) \<Rightarrow> string \<Rightarrow> bool \<Rightarrow> bool" where
  "boolEnv getenv key fallback =
     (let v = to_lower (trim_space (getenv key)) in
      if v = [] then fallback else v = ''1'' \<or> v = ''true'' \<or> v = ''yes'' \<or> v = ''on'')"

text \<open>\<open>time.Duration(n) * unit\<close> in 64 bits.\<close>

definition wrap64 :: "int \<Rightarrow> int" where
  "wrap64 n = (n + 2 ^ 63) mod 2 ^ 64 - 2 ^ 63"

definition duration :: "int \<Rightarrow> int \<Rightarrow> int" where
  "duration n unit = wrap64 (n * unit)"

definition time_Second :: int where
  "time_Second = nanos_per_second"

definition time_Hour :: int where
  "time_Hour = 3600 * nanos_per_second"

section \<open>Configuration\<close>

record config =
  cf_addr :: string
  cf_agent_engine_url :: string
  cf_redis_url :: string
  cf_database_url :: string
  cf_gitflame_base_url :: string
  cf_gitflame_credential_key :: string
  cf_public_base_url :: string
  cf_rag_base_url :: string
  cf_rag_api_key :: string
  cf_session_cookie_name :: string
  cf_log_level :: string
  cf_log_format :: string
  cf_worker_metrics_addr :: string
  cf_recommendation_service_url :: string
  cf_agent_queue_name :: string
  cf_agent_consumer_group :: string
  cf_dispatch_mode :: string
  cf_agent_timeout :: int
  cf_gitflame_timeout :: int
  cf_recommendation_timeout :: int
  cf_rag_index_timeout :: int
  cf_rag_index_wait_timeout :: int
  cf_queue_max_length :: int
  cf_worker_max_retries :: int
  cf_credential_key_version :: int
  cf_session_ttl :: int
  cf_session_cookie_secure :: bool

text \<open>The timeout of the agent engine is read without \<open>positiveInt\<close>, but in the same way.\<close>

definition agent_seconds :: "(string \<Rightarrow> string) \<Rightarrow> int" where
  "agent_seconds getenv =
     (case parse_int (env getenv ''AGENT_ENGINE_TIMEOUT_SECONDS'' ''120'') of
        None \<Rightarrow> 120
      | Some secs \<Rightarrow> if secs < 1 then 120 else secs)"

definition Load :: "(string \<Rightarrow> string) \<Rightarrow> config" where
  "Load getenv =
     (let ragIndexSeconds = positiveInt getenv ''RAG_INDEX_TIMEOUT_SECONDS'' 1800 in
      \<lparr>cf_addr = '':'' @ env getenv ''BACKEND_PORT'' ''8000'',
       cf_agent_engine_url = env getenv ''AGENT_ENGINE_URL'' ''http://localhost:8001'',
       cf_redis_url = env getenv ''REDIS_URL'' [],
       cf_database_url = env getenv ''DATABASE_URL'' [],
       cf_gitflame_base_url = env getenv ''GITFLAME_BASE_URL'' [],
       cf_gitflame_credential_key = env getenv ''GITFLAME_CREDENTIAL_KEY'' [],
       cf_public_base_url = trim_right_chars ''/'' (env getenv ''PUBLIC_BASE_URL'' []),
       cf_rag_base_url = env getenv ''RAG_BASE_URL'' [],
       cf_rag_api_key = env getenv ''RAG_API_KEY'' [],
       cf_session_cookie_name = env getenv ''SESSION_COOKIE_NAME'' ''codepilot_session'',
       cf_log_level = env getenv ''LOG_LEVEL'' ''info'',
       cf_log_format = env getenv ''LOG_FORMAT'' ''json'',
       cf_worker_metrics_addr = '':'' @ env getenv ''WORKER_METRICS_PORT'' ''9100'',
       cf_recommendation_service_url = env getenv ''RECOMMENDATION_SERVICE_URL'' [],
       cf_agent_queue_name = env getenv ''AGENT_QUEUE_NAME'' ''gitflame:agent:tasks'',
       cf_agent_consumer_group = env getenv ''AGENT_CONSUMER_GROUP'' ''gitflame-agent-workers'',
       cf_dispatch_mode = env getenv ''TASK_DISPATCH_MODE'' ''local'',
       cf_agent_timeout = duration (agent_seconds getenv) time_Second,
       cf_gitflame_timeout = duration (positiveInt getenv ''GITFLAME_TIMEOUT_SECONDS'' 30) time_Second,
       cf_recommendation_timeout = duration (positiveInt getenv ''RECOMMENDATION_SERVICE_TIMEOUT_SECONDS'' 120) time_Second,
       cf_rag_index_timeout = duration ragIndexSeconds time_Second,
       cf_rag_index_wait_timeout = duration (positiveInt getenv ''RAG_INDEX_WAIT_TIMEOUT_SECONDS'' ragIndexSeconds) time_Second,
       cf_queue_max_length = positiveInt getenv ''AGENT_QUEUE_MAX_LENGTH'' 1000,
       cf_worker_max_retries = positiveInt getenv ''WORKER_MAX_RETRIES'' 3,
       cf_credential_key_version = positiveInt getenv ''GITFLAME_CREDENTIAL_KEY_VERSION'' 1,
       cf_session_ttl = duration (positiveInt getenv ''SESSION_TTL_HOURS'' 168) time_Hour,
       cf_session_cookie_secure = boolEnv getenv ''SESSION_COOKIE_SECURE'' False\<rparr>)"

section \<open>Putting the server together\<close>

text \<open>The fields of \<open>Server\<close> that \<open>newServer\<close> computes from the configuration.\<close>

record server_settings =
  st_session_cookie :: string
  st_session_ttl :: int
  st_session_secure :: bool
  st_public_base_url :: string
  st_signing_key :: string
  st_index_background_timeout :: int
  st_index_wait_timeout :: int

definition newServer :: "(string \<Rightarrow> string) \<Rightarrow> config \<Rightarrow> server_settings" where
  "newServer sha256 cfg =
     \<lparr>st_session_cookie = (if cf_session_cookie_name cfg = [] then ''codepilot_session'' else cf_session_cookie_name cfg),
      st_session_ttl = (if cf_session_ttl cfg \<le> 0 then 168 * time_Hour else cf_session_ttl cfg),
      st_session_secure = cf_session_cookie_secure cfg,
      st_public_base_url = trim_right_chars ''/'' (cf_public_base_url cfg),
      st_signing_key = sha256 (cf_gitflame_credential_key cfg),
      st_index_background_timeout = (if cf_rag_index_timeout cfg \<le> 0 then defaultIndexWaitTimeout else cf_rag_index_timeout cfg),
      st_index_wait_timeout =
        (if cf_rag_index_wait_timeout cfg \<le> 0 then defaultIndexWaitTimeout else cf_rag_index_wait_timeout cfg)\<rparr>"

record startup =
  su_persistent :: bool
  su_cipher :: "credential_cipher option"
  su_engine_url :: string
  su_recommender_url :: "string option"
  su_indexer_url :: "string option"
  su_checks :: "string list"
  su_broker :: "redis_broker option"
  su_dispatcher :: dispatcher
  su_settings :: server_settings

definition cipher_of :: "config \<Rightarrow> credential_cipher option result" where
  "cipher_of cfg =
     (if trim_space (cf_gitflame_credential_key cfg) = [] then Inr None
      else
        (case NewCredentialCipher (cf_gitflame_credential_key cfg) (cf_credential_key_version cfg) of
           Inl err \<Rightarrow> Inl err
         | Inr cipher \<Rightarrow> Inr (Some cipher)))"

text \<open>\<open>connect\<close> is the connection to PostgreSQL.\<close>

definition New ::
    "(string \<Rightarrow> string) \<Rightarrow> (string \<Rightarrow> go_error option) \<Rightarrow> (string \<Rightarrow> parsed_url result) \<Rightarrow> config \<Rightarrow> startup result" where
  "New sha256 connect parse_url cfg =
     (case (if cf_database_url cfg \<noteq> [] then connect (cf_database_url cfg) else None) of
        Some err \<Rightarrow> Inl err
      | None \<Rightarrow>
          (case cipher_of cfg of
             Inl err \<Rightarrow> Inl err
           | Inr cipher \<Rightarrow>
               let indexer = NewRAGClient (cf_rag_base_url cfg);
                   base = \<lparr>su_persistent = cf_database_url cfg \<noteq> [], su_cipher = cipher, su_engine_url = NewClient (cf_agent_engine_url cfg),
                     su_recommender_url = NewRecommendationClient (cf_recommendation_service_url cfg), su_indexer_url = indexer,
                     su_checks = [''storage'', ''agent_engine''] @ (if indexer \<noteq> None then [''rag''] else []), su_broker = None,
                     su_dispatcher = NewWorkflow True, su_settings = newServer sha256 cfg\<rparr> in
               if cf_dispatch_mode cfg \<noteq> ''redis'' then Inr base
               else if cf_database_url cfg = [] then Inl (ErrText ''TASK_DISPATCH_MODE=redis requires DATABASE_URL'')
               else
                 (case NewRedisBroker parse_url (cf_redis_url cfg) (cf_agent_queue_name cfg) (cf_agent_consumer_group cfg)
                     (cf_queue_max_length cfg) of
                    Inl err \<Rightarrow> Inl err
                  | Inr broker \<Rightarrow>
                      Inr (base\<lparr>su_checks := su_checks base @ [''redis''], su_broker := Some broker, su_dispatcher := NewQueuedWorkflow\<rparr>))))"

text \<open>What the worker asks of its configuration.\<close>

definition worker_configured :: "config \<Rightarrow> go_error option" where
  "worker_configured cfg =
     (if cf_database_url cfg = [] \<or> cf_redis_url cfg = []
      then Some (ErrText ''agent-worker requires DATABASE_URL and REDIS_URL'') else None)"

section \<open>Properties\<close>

lemma positiveInt_positive: "fallback \<ge> 1 \<Longrightarrow> positiveInt getenv key fallback \<ge> 1"
  by (auto simp: positiveInt_def split: option.split)

lemma agent_seconds_positive: "agent_seconds getenv \<ge> 1"
  by (auto simp: agent_seconds_def split: option.split)

lemma wrap64_exact: "- (2 ^ 63) \<le> n \<Longrightarrow> n < 2 ^ 63 \<Longrightarrow> wrap64 n = n"
  by (simp add: wrap64_def)

lemma wrap64_range: "- (2 ^ 63) \<le> wrap64 n \<and> wrap64 n < 2 ^ 63"
  using pos_mod_bound [of "2 ^ 64" "n + 2 ^ 63"] pos_mod_sign [of "2 ^ 64" "n + 2 ^ 63"] by (simp add: wrap64_def)

text \<open>Whatever the environment says, the numbers of the configuration are sensible: lengths, retries and the version of the key are at
  least 1, and the timeouts and the lifetime of a session are as long as configured, as long as they fit into 64 bits of
  nanoseconds. Whoever sets less than 292 years gets what was set.\<close>

theorem Load_sane:
  assumes "positiveInt getenv ''SESSION_TTL_HOURS'' 168 \<le> 2562047" and "agent_seconds getenv \<le> 9223372036"
  shows "cf_queue_max_length (Load getenv) \<ge> 1 \<and> cf_worker_max_retries (Load getenv) \<ge> 1 \<and> cf_credential_key_version (Load getenv) \<ge> 1 \<and>
    cf_session_ttl (Load getenv) = positiveInt getenv ''SESSION_TTL_HOURS'' 168 * time_Hour \<and> cf_session_ttl (Load getenv) \<ge> time_Hour \<and>
    cf_agent_timeout (Load getenv) = agent_seconds getenv * time_Second \<and> cf_agent_timeout (Load getenv) \<ge> time_Second"
proof -
  have hours: "duration n time_Hour = n * time_Hour \<and> time_Hour \<le> n * time_Hour" if "1 \<le> n" "n \<le> 2562047" for n
    using that by (simp add: duration_def wrap64_exact time_Hour_def nanos_per_second_def)
  have secs: "duration n time_Second = n * time_Second \<and> time_Second \<le> n * time_Second" if "1 \<le> n" "n \<le> 9223372036" for n
    using that by (simp add: duration_def wrap64_exact time_Second_def nanos_per_second_def)
  show ?thesis
    using hours [OF positiveInt_positive assms(1)] secs [OF agent_seconds_positive assms(2)]
    by (simp add: Load_def Let_def positiveInt_positive)
qed

lemma Load_sane_witness:
  "cf_session_ttl (Load (\<lambda>k. [])) = 168 * time_Hour \<and> cf_agent_timeout (Load (\<lambda>k. [])) = 120 * time_Second \<and>
   cf_queue_max_length (Load (\<lambda>k. [])) \<ge> 1"
proof -
  have "positiveInt (\<lambda>k. []) ''SESSION_TTL_HOURS'' 168 = 168" "agent_seconds (\<lambda>k. []) = 120" by code_simp+
  with Load_sane [of "\<lambda>k. []"] show ?thesis by simp
qed

text \<open>Beyond that the durations wrap: a session that should live for 400 years is given a negative lifetime (which \<open>newServer\<close> replaces),
  and one of 600 years lives for 15 years.\<close>

lemma long_session_wraps: "duration (400 * 8766) time_Hour < 0" "duration (600 * 8766) time_Hour < 16 * 8766 * time_Hour"
  by (simp_all add: duration_def wrap64_def time_Hour_def nanos_per_second_def)

text \<open>A server that starts is put together consistently: tasks go to a queue exactly when there is a broker, and then the store is
  persistent; sessions have a name and live for some time; stored tokens are encrypted with a key that AES takes; and the address that
  webhooks are given does not end in a slash.\<close>

theorem started_server_is_consistent:
  assumes "New sha256 connect parse_url cfg = Inr su"
  shows "(su_dispatcher su = QueueDispatcher \<longleftrightarrow> su_broker su \<noteq> None) \<and> (su_broker su \<noteq> None \<longrightarrow> su_persistent su) \<and>
    (''redis'' \<in> set (su_checks su) \<longleftrightarrow> su_broker su \<noteq> None) \<and> distinct (su_checks su) \<and>
    st_session_cookie (su_settings su) \<noteq> [] \<and> st_session_ttl (su_settings su) > 0 \<and>
    (case su_cipher su of None \<Rightarrow> True | Some c \<Rightarrow> validAESKeySize (go_len (cc_key c)) \<and> cc_key_version c \<ge> 1) \<and>
    (case su_broker su of None \<Rightarrow> True | Some b \<Rightarrow> rb_maxLength b \<ge> 1 \<and> rb_stream b \<noteq> [])"
proof -
  have cipher: "validAESKeySize (go_len (cc_key c)) \<and> cc_key_version c \<ge> 1" if "cipher_of cfg = Inr (Some c)" for c
    using that decodeKey_valid by (auto simp: cipher_of_def NewCredentialCipher_def split: if_splits sum.splits)
  have broker: "rb_maxLength b \<ge> 1 \<and> rb_stream b \<noteq> []" if "NewRedisBroker parse_url u n g l = Inr b" for u n g l b
    using that by (auto simp: NewRedisBroker_def Let_def split: sum.splits if_splits)
  have settings: "st_session_cookie (newServer sha256 cfg) \<noteq> []" "st_session_ttl (newServer sha256 cfg) > 0"
    by (simp_all add: newServer_def time_Hour_def nanos_per_second_def)
  show ?thesis
    using assms cipher broker settings
    by (auto simp: New_def Let_def NewWorkflow_def NewQueuedWorkflow_def split: option.splits sum.splits if_splits)
qed

lemma started_server_is_consistent_witness:
  "case New (\<lambda>s. s) (\<lambda>u. None) (\<lambda>u. Inl ErrNotFound) (Load (\<lambda>k. [])) of
     Inl err \<Rightarrow> False
   | Inr su \<Rightarrow> su_dispatcher su = InlineDispatcher \<and> su_broker su = None \<and> st_session_cookie (su_settings su) \<noteq> []"
proof -
  have "case New (\<lambda>s. s) (\<lambda>u. None) (\<lambda>u. Inl ErrNotFound) (Load (\<lambda>k. [])) of
     Inl err \<Rightarrow> False | Inr su \<Rightarrow> su_dispatcher su = InlineDispatcher"
    by code_simp
  then obtain su where su: "New (\<lambda>s. s) (\<lambda>u. None) (\<lambda>u. Inl ErrNotFound) (Load (\<lambda>k. [])) = Inr su" "su_dispatcher su = InlineDispatcher"
    by (auto split: sum.splits)
  from started_server_is_consistent [OF su(1)] su show ?thesis by auto
qed

end
