(* ===== verification/Postgres_Tables.thy ===== *)
theory Postgres_Tables imports Memory_Store "HOL-Library.List_Lexorder" "HOL-Library.Char_ord" "HOL-Library.Multiset" begin

text \<open>
  The database of the persistent store: the tables of backend/db/migrations/initial_schema.sql with their constraints, and the
  statements that backend/internal/repository/postgres.go is made of. A table is the list of its rows. What the server, its driver and
  the clock decide is a parameter, the record \<open>pg_env\<close>: \<open>now()\<close>, new identifiers, whether a round trip fails, which
  text is a UUID, the order in which rows are visited, and what becomes of a value that is stored as JSON and read back. The
  round trips of an operation are numbered. A statement that fails changes nothing, and neither does a transaction that is not committed;
  operations run one after the other.
\<close>

section \<open>Rows\<close>

text \<open>The rows of \<open>app_users\<close>, \<open>gitflame_webhooks\<close>, \<open>gitflame_webhook_events\<close>, \<open>repository_snapshots\<close> and
  \<open>repository_snapshot_files\<close> have the fields of the domain records. A reference that may be NULL is an option, or the empty
  string where the code reads NULL as one.\<close>

record app_session_row =
  sess_id :: string
  sess_user_id :: string
  sess_token_hash :: string
  sess_expires_at :: gotime
  sess_last_seen_at :: "gotime option"
  sess_revoked_at :: "gotime option"
  sess_created_at :: gotime

record repository_row =
  rpo_id :: string
  rpo_external_id :: string
  rpo_name :: string
  rpo_default_branch :: string
  rpo_web_url :: string

record connection_row =
  cnx_id :: string
  cnx_user_id :: string
  cnx_repository_id :: string
  cnx_repo_url :: string
  cnx_default_branch :: string
  cnx_access_token_encrypted :: "string option"
  cnx_ciphertext :: "string option"
  cnx_nonce :: "string option"
  cnx_key_version :: int
  cnx_token_last4 :: string
  cnx_token_status :: string
  cnx_scopes :: "string list"
  cnx_token_expires_at :: "gotime option"
  cnx_last_validated_at :: "gotime option"
  cnx_last_used_at :: "gotime option"
  cnx_revoked_at :: "gotime option"
  cnx_created_at :: gotime
  cnx_updated_at :: gotime

record repository_file_row =
  rpf_repository_id :: string
  rpf_file_path :: string
  rpf_file_name :: string
  rpf_content_hash :: string
  rpf_commit_sha :: string

record config_row =
  acf_id :: string
  acf_repository_id :: string
  acf_raw_yml :: string
  acf_parsed :: ai_config
  acf_retention_days :: int
  acf_created_at :: gotime

record issue_session_row =
  iss_id :: string
  iss_repository_id :: string
  iss_ai_config_id :: string
  iss_external_issue_id :: string
  iss_issue_title :: string
  iss_issue_body :: string
  iss_issue_author :: string
  iss_status :: string
  iss_current_revision :: int
  iss_git_workflow :: "generated_files_contract option"
  iss_request :: issue_analyze_request
  iss_created_at :: gotime
  iss_updated_at :: gotime

record plan_row =
  gpl_id :: string
  gpl_issue_session_id :: string
  gpl_plan_markdown :: string
  gpl_current_revision :: int

record agent_task_row =
  atk_id :: string
  atk_issue_session_id :: string
  atk_generated_plan_id :: "string option"
  atk_task_type :: string
  atk_status :: string
  atk_attempt :: int
  atk_error_message :: string
  atk_error :: "task_error option"
  atk_relevant_files :: "relevant_file list"
  atk_model :: string
  atk_usage :: agent_usage
  atk_tool_execution_summary :: string
  atk_created_at :: gotime
  atk_started_at :: "gotime option"
  atk_completed_at :: "gotime option"
  atk_updated_at :: gotime

record plan_revision_row =
  prv_generated_plan_id :: string
  prv_issue_session_id :: string
  prv_agent_task_id :: "string option"
  prv_revision_number :: int
  prv_plan_markdown :: string
  prv_correction_feedback :: string
  prv_source :: string

record workflow_payload_row =
  gwp_issue_session_id :: string
  gwp_agent_task_id :: "string option"
  gwp_branch_name :: string
  gwp_base_branch :: string
  gwp_commit_message :: string
  gwp_pr_title :: string
  gwp_reviewer :: string
  gwp_status :: string
  gwp_commit_sha :: string
  gwp_pull_request_id :: string
  gwp_pull_request_url :: string
  gwp_apply_error :: string
  gwp_applied_at :: "gotime option"

record generated_file_row =
  gnf_id :: string
  gnf_issue_session_id :: string
  gnf_agent_task_id :: "string option"
  gnf_file :: generated_file_operation
  gnf_created_at :: gotime

record user_response_row =
  usr_issue_session_id :: string
  usr_response_type :: string
  usr_message :: string
  usr_author :: string

record recommendation_run_row =
  rrn_id :: string
  rrn_repository_id :: string
  rrn_ai_config_id :: string
  rrn_summary :: string
  rrn_status :: string
  rrn_retention_days :: int
  rrn_expires_at :: gotime
  rrn_created_at :: gotime

record recommendation_row =
  rcm_recommendation_run_id :: string
  rcm_card :: recommendation_card
  rcm_created_at :: gotime

record recommendation_status_row =
  rst_recommendation_id :: string
  rst_status :: string
  rst_changed_by :: string

record database =
  db_app_users :: "app_user list"
  db_app_sessions :: "app_session_row list"
  db_repositories :: "repository_row list"
  db_gitflame_connections :: "connection_row list"
  db_gitflame_webhooks :: "gitflame_webhook_registration list"
  db_gitflame_webhook_events :: "gitflame_webhook_event list"
  db_repository_files :: "repository_file_row list"
  db_ai_configs :: "config_row list"
  db_repository_snapshots :: "repository_snapshot list"
  db_repository_snapshot_files :: "(string \<times> repository_snapshot_file) list"
  db_issue_sessions :: "issue_session_row list"
  db_generated_plans :: "plan_row list"
  db_agent_tasks :: "agent_task_row list"
  db_plan_revisions :: "plan_revision_row list"
  db_git_workflow_payloads :: "workflow_payload_row list"
  db_generated_files :: "generated_file_row list"
  db_user_responses :: "user_response_row list"
  db_recommendation_runs :: "recommendation_run_row list"
  db_recommendations :: "recommendation_row list"
  db_recommendation_statuses :: "recommendation_status_row list"

definition empty_database :: database where
  "empty_database =
     \<lparr>db_app_users = [], db_app_sessions = [], db_repositories = [], db_gitflame_connections = [], db_gitflame_webhooks = [],
      db_gitflame_webhook_events = [], db_repository_files = [], db_ai_configs = [], db_repository_snapshots = [],
      db_repository_snapshot_files = [], db_issue_sessions = [], db_generated_plans = [], db_agent_tasks = [], db_plan_revisions = [],
      db_git_workflow_payloads = [], db_generated_files = [], db_user_responses = [], db_recommendation_runs = [],
      db_recommendations = [], db_recommendation_statuses = []\<rparr>"

section \<open>The surroundings of an operation\<close>

record pg_env =
  pe_now :: "nat \<Rightarrow> gotime"
  pe_clock :: gotime
  pe_fresh :: "nat \<Rightarrow> string"
  pe_newid :: "nat \<Rightarrow> string"
  pe_fault :: "nat \<Rightarrow> string option"
  pe_migrated :: bool
  pe_uuid :: "string \<Rightarrow> string option"
  pe_text :: "string \<Rightarrow> bool"
  pe_refuse :: "string \<Rightarrow> string"
  pe_scan :: "nat \<Rightarrow> nat \<Rightarrow> nat"
  pe_sha256 :: "string \<Rightarrow> string"
  pe_json_request :: "issue_analyze_request \<Rightarrow> issue_analyze_request option"
  pe_json_config :: "ai_config \<Rightarrow> ai_config option"
  pe_json_contract :: "generated_files_contract \<Rightarrow> generated_files_contract option"
  pe_json_error :: "task_error \<Rightarrow> task_error option"
  pe_json_relevant :: "relevant_file list \<Rightarrow> relevant_file list option"
  pe_json_usage :: "agent_usage \<Rightarrow> agent_usage option"
  pe_json_strings :: "string list \<Rightarrow> string list option"
  pe_json_payload :: "(string \<times> json) list option \<Rightarrow> (string \<times> json) list option option"

text \<open>The text of an error of the driver or the server is a parameter, too; it is never the store's \<open>ErrNotFound\<close>.\<close>

definition refused :: "pg_env \<Rightarrow> string \<Rightarrow> go_error" where
  "refused pe reason = ErrText (pe_refuse pe reason)"

type_synonym 'a pg_op = "(database, 'a) op"

text \<open>One statement with its text arguments. Text that is not valid UTF-8 or has a zero byte is refused.\<close>

definition statement :: "pg_env \<Rightarrow> nat \<Rightarrow> string list \<Rightarrow> 'a pg_op \<Rightarrow> 'a pg_op" where
  "statement pe n texts body = (\<lambda>db.
     case pe_fault pe n of
       Some e \<Rightarrow> (Inl (ErrText e), db)
     | None \<Rightarrow>
         if \<not> list_all (pe_text pe) texts then (Inl (refused pe ''text''), db)
         else (case body db of (Inl e, _) \<Rightarrow> (Inl e, db) | (Inr a, db') \<Rightarrow> (Inr a, db')))"

text \<open>A transaction, and whether the code commits it after its body has succeeded with a result. Begin and commit are round trips of
  their own.\<close>

definition transaction :: "pg_env \<Rightarrow> nat \<Rightarrow> nat \<Rightarrow> ('a \<Rightarrow> bool) \<Rightarrow> 'a pg_op \<Rightarrow> 'a pg_op" where
  "transaction pe first_trip last_trip commits body = (\<lambda>db.
     case pe_fault pe first_trip of
       Some e \<Rightarrow> (Inl (ErrText e), db)
     | None \<Rightarrow>
         (case body db of
            (Inl e, _) \<Rightarrow> (Inl e, db)
          | (Inr a, db') \<Rightarrow>
              if \<not> commits a then (Inr a, db)
              else (case pe_fault pe last_trip of Some e \<Rightarrow> (Inl (ErrText e), db) | None \<Rightarrow> (Inr a, db'))))"

text \<open>Arguments: a text that is cast to a UUID, a number for an INTEGER column, a time with the microseconds that a column keeps.\<close>

definition uuid_arg :: "pg_env \<Rightarrow> string \<Rightarrow> string result" where
  "uuid_arg pe t = (case pe_uuid pe t of None \<Rightarrow> Inl (refused pe ''uuid'') | Some u \<Rightarrow> Inr u)"

definition optional_uuid :: "pg_env \<Rightarrow> string \<Rightarrow> string option result" where
  "optional_uuid pe t = (if t = [] then Inr None else (case uuid_arg pe t of Inl e \<Rightarrow> Inl e | Inr u \<Rightarrow> Inr (Some u)))"

definition int4_arg :: "pg_env \<Rightarrow> int \<Rightarrow> int result" where
  "int4_arg pe n = (if - (2 ^ 31) \<le> n \<and> n < 2 ^ 31 then Inr n else Inl (refused pe ''integer''))"

definition json_arg :: "pg_env \<Rightarrow> 'a option \<Rightarrow> 'a result" where
  "json_arg pe stored = (case stored of None \<Rightarrow> Inl (refused pe ''jsonb'') | Some v \<Rightarrow> Inr v)"

definition timestamptz :: "gotime \<Rightarrow> gotime" where
  "timestamptz t = t - t mod 1000"

text \<open>Rows in the order of a scan, and in the order of ORDER BY: rows with equal keys keep the order of the scan, which is any.\<close>

definition scan :: "pg_env \<Rightarrow> nat \<Rightarrow> 'r list \<Rightarrow> 'r list" where
  "scan pe n rows = map snd (sort_key (\<lambda>(i, r). pe_scan pe n i) (enumerate 0 rows))"

lemma mset_scan [simp]: "mset (scan pe n rows) = mset rows"
proof -
  have "mset (scan pe n rows) = image_mset snd (mset (enumerate 0 rows))" by (simp add: scan_def)
  also have "\<dots> = mset (map snd (enumerate 0 rows))" by (simp only: mset_map)
  finally show ?thesis by simp
qed

lemma set_scan [simp]: "set (scan pe n rows) = set rows"
  by (metis mset_scan set_mset_mset)

lemma scan_single [simp]: "scan pe n [r] = [r]"
  by (simp add: scan_def)

lemma scan_Nil_iff [simp]: "scan pe n rows = [] \<longleftrightarrow> rows = []"
  by (metis set_empty set_scan)

section \<open>Tables and their constraints\<close>

text \<open>A table: its rows, the CHECK constraint that a row violates, the rows it refers to (the table and the identifier), and whether a
  unique constraint forbids two rows to be there together.\<close>

record 'r table =
  tb_rows :: "database \<Rightarrow> 'r list"
  tb_put :: "'r list \<Rightarrow> database \<Rightarrow> database"
  tb_check :: "'r \<Rightarrow> string option"
  tb_refs :: "'r \<Rightarrow> (string \<times> string) list"
  tb_clash :: "'r \<Rightarrow> 'r \<Rightarrow> bool"

text \<open>The rows that a foreign key can refer to.\<close>

definition known :: "database \<Rightarrow> (string \<times> string) set" where
  "known db =
     Pair ''app_users'' ` user_id ` set (db_app_users db) \<union> Pair ''repositories'' ` rpo_id ` set (db_repositories db) \<union>
     Pair ''gitflame_connections'' ` cnx_id ` set (db_gitflame_connections db) \<union>
     Pair ''gitflame_webhooks'' ` wh_id ` set (db_gitflame_webhooks db) \<union> Pair ''ai_configs'' ` acf_id ` set (db_ai_configs db) \<union>
     Pair ''repository_snapshots'' ` sn_id ` set (db_repository_snapshots db) \<union>
     Pair ''issue_sessions'' ` iss_id ` set (db_issue_sessions db) \<union> Pair ''generated_plans'' ` gpl_id ` set (db_generated_plans db) \<union>
     Pair ''agent_tasks'' ` atk_id ` set (db_agent_tasks db) \<union>
     Pair ''recommendation_runs'' ` rrn_id ` set (db_recommendation_runs db) \<union>
     Pair ''recommendations'' ` card_id ` rcm_card ` set (db_recommendations db)"

definition first_violated :: "(bool \<times> string) list \<Rightarrow> string option" where
  "first_violated checks = map_option snd (find (\<lambda>(holds, name). \<not> holds) checks)"

definition nullable_ref :: "string \<Rightarrow> string option \<Rightarrow> (string \<times> string) list" where
  "nullable_ref tb r = (case r of None \<Rightarrow> [] | Some k \<Rightarrow> [(tb, k)])"

definition app_users :: "app_user table" where
  "app_users =
     \<lparr>tb_rows = db_app_users, tb_put = (\<lambda>rows db. db\<lparr>db_app_users := rows\<rparr>), tb_check = (\<lambda>r. None), tb_refs = (\<lambda>r. []),
      tb_clash = (\<lambda>r r'. user_id r = user_id r' \<or> user_gitflame_user_id r = user_gitflame_user_id r')\<rparr>"

definition app_sessions :: "app_session_row table" where
  "app_sessions =
     \<lparr>tb_rows = db_app_sessions, tb_put = (\<lambda>rows db. db\<lparr>db_app_sessions := rows\<rparr>),
      tb_check = (\<lambda>r. first_violated
        [(length (sess_token_hash r) = 32, ''app_sessions_token_hash_length_check''),
         (sess_expires_at r > sess_created_at r, ''app_sessions_expiration_check'')]),
      tb_refs = (\<lambda>r. [(''app_users'', sess_user_id r)]),
      tb_clash = (\<lambda>r r'. sess_id r = sess_id r' \<or> sess_token_hash r = sess_token_hash r')\<rparr>"

definition repositories :: "repository_row table" where
  "repositories =
     \<lparr>tb_rows = db_repositories, tb_put = (\<lambda>rows db. db\<lparr>db_repositories := rows\<rparr>), tb_check = (\<lambda>r. None), tb_refs = (\<lambda>r. []),
      tb_clash = (\<lambda>r r'. rpo_id r = rpo_id r' \<or> rpo_external_id r = rpo_external_id r')\<rparr>"

definition gitflame_connections :: "connection_row table" where
  "gitflame_connections =
     \<lparr>tb_rows = db_gitflame_connections, tb_put = (\<lambda>rows db. db\<lparr>db_gitflame_connections := rows\<rparr>),
      tb_check = (\<lambda>r. first_violated
        [(cnx_token_status r \<in> {''active'', ''invalid'', ''expired'', ''revoked'', ''reauth_required''},
          ''gitflame_connections_token_status_check''),
         (cnx_access_token_encrypted r \<noteq> None \<or> cnx_ciphertext r \<noteq> None \<and> cnx_nonce r \<noteq> None,
          ''gitflame_connections_token_material_check''),
         (cnx_key_version r > 0, ''gitflame_connections_key_version_check'')]),
      tb_refs = (\<lambda>r. [(''app_users'', cnx_user_id r), (''repositories'', cnx_repository_id r)]),
      tb_clash = (\<lambda>r r'. cnx_id r = cnx_id r' \<or>
        cnx_user_id r = cnx_user_id r' \<and> cnx_repository_id r = cnx_repository_id r')\<rparr>"

definition gitflame_webhooks :: "gitflame_webhook_registration table" where
  "gitflame_webhooks =
     \<lparr>tb_rows = db_gitflame_webhooks, tb_put = (\<lambda>rows db. db\<lparr>db_gitflame_webhooks := rows\<rparr>),
      tb_check = (\<lambda>r. first_violated
        [(wh_status r \<in> {''pending'', ''active'', ''disabled'', ''failed''}, ''gitflame_webhooks_status_check'')]),
      tb_refs = (\<lambda>r. [(''gitflame_connections'', wh_connection_id r)]),
      tb_clash = (\<lambda>r r'. wh_id r = wh_id r' \<or>
        wh_connection_id r = wh_connection_id r' \<and> wh_webhook_url r = wh_webhook_url r')\<rparr>"

definition gitflame_webhook_events :: "gitflame_webhook_event table" where
  "gitflame_webhook_events =
     \<lparr>tb_rows = db_gitflame_webhook_events, tb_put = (\<lambda>rows db. db\<lparr>db_gitflame_webhook_events := rows\<rparr>),
      tb_check = (\<lambda>r. first_violated
        [(ev_status r \<in> {''received'', ''processed'', ''ignored'', ''failed''}, ''gitflame_webhook_events_status_check'')]),
      tb_refs = (\<lambda>r. (''gitflame_webhooks'', ev_webhook_id r) #
        (if ev_issue_session_id r = [] then [] else [(''issue_sessions'', ev_issue_session_id r)])),
      tb_clash = (\<lambda>r r'. ev_id r = ev_id r' \<or>
        ev_webhook_id r = ev_webhook_id r' \<and> ev_delivery_id r = ev_delivery_id r' \<and> ev_delivery_id r \<noteq> [])\<rparr>"

definition repository_files :: "repository_file_row table" where
  "repository_files =
     \<lparr>tb_rows = db_repository_files, tb_put = (\<lambda>rows db. db\<lparr>db_repository_files := rows\<rparr>), tb_check = (\<lambda>r. None),
      tb_refs = (\<lambda>r. [(''repositories'', rpf_repository_id r)]),
      tb_clash = (\<lambda>r r'. rpf_repository_id r = rpf_repository_id r' \<and> rpf_file_path r = rpf_file_path r')\<rparr>"

definition ai_configs :: "config_row table" where
  "ai_configs =
     \<lparr>tb_rows = db_ai_configs, tb_put = (\<lambda>rows db. db\<lparr>db_ai_configs := rows\<rparr>),
      tb_check = (\<lambda>r. first_violated
        [(1 \<le> acf_retention_days r \<and> acf_retention_days r \<le> 365, ''ai_configs_retention_days_check'')]),
      tb_refs = (\<lambda>r. [(''repositories'', acf_repository_id r)]), tb_clash = (\<lambda>r r'. acf_id r = acf_id r')\<rparr>"

definition repository_snapshots :: "repository_snapshot table" where
  "repository_snapshots =
     \<lparr>tb_rows = db_repository_snapshots, tb_put = (\<lambda>rows db. db\<lparr>db_repository_snapshots := rows\<rparr>),
      tb_check = (\<lambda>r. first_violated
        [(sn_file_count r \<ge> 0, ''repository_snapshots_file_count_check''),
         (sn_status r \<in> {''fetched'', ''indexed'', ''failed''}, ''repository_snapshots_status_check'')]),
      tb_refs = (\<lambda>r. (''repositories'', sn_repository_id r) #
        (if sn_connection_id r = [] then [] else [(''gitflame_connections'', sn_connection_id r)]) @
        (if sn_ai_config_id r = [] then [] else [(''ai_configs'', sn_ai_config_id r)])),
      tb_clash = (\<lambda>r r'. sn_id r = sn_id r')\<rparr>"

definition repository_snapshot_files :: "(string \<times> repository_snapshot_file) table" where
  "repository_snapshot_files =
     \<lparr>tb_rows = db_repository_snapshot_files, tb_put = (\<lambda>rows db. db\<lparr>db_repository_snapshot_files := rows\<rparr>),
      tb_check = (\<lambda>r. None), tb_refs = (\<lambda>r. [(''repository_snapshots'', fst r)]),
      tb_clash = (\<lambda>r r'. fst r = fst r' \<and> sf_path (snd r) = sf_path (snd r'))\<rparr>"

definition issue_sessions :: "issue_session_row table" where
  "issue_sessions =
     \<lparr>tb_rows = db_issue_sessions, tb_put = (\<lambda>rows db. db\<lparr>db_issue_sessions := rows\<rparr>),
      tb_check = (\<lambda>r. first_violated
        [(iss_status r \<in> {''created'', ''queued'', ''processing'', ''plan_generated'', ''approved'', ''code_generation_queued'',
            ''code_generation_processing'', ''code_generated'', ''correction_requested'', ''rejected'', ''failed''},
          ''issue_sessions_status_check''),
         (iss_current_revision r \<ge> 0, ''issue_sessions_current_revision_check'')]),
      tb_refs = (\<lambda>r. [(''repositories'', iss_repository_id r), (''ai_configs'', iss_ai_config_id r)]),
      tb_clash = (\<lambda>r r'. iss_id r = iss_id r' \<or>
        iss_repository_id r = iss_repository_id r' \<and> iss_external_issue_id r = iss_external_issue_id r')\<rparr>"

definition generated_plans :: "plan_row table" where
  "generated_plans =
     \<lparr>tb_rows = db_generated_plans, tb_put = (\<lambda>rows db. db\<lparr>db_generated_plans := rows\<rparr>),
      tb_check = (\<lambda>r. first_violated [(gpl_current_revision r \<ge> 1, ''generated_plans_current_revision_check'')]),
      tb_refs = (\<lambda>r. [(''issue_sessions'', gpl_issue_session_id r)]),
      tb_clash = (\<lambda>r r'. gpl_id r = gpl_id r' \<or> gpl_issue_session_id r = gpl_issue_session_id r')\<rparr>"

definition agent_tasks :: "agent_task_row table" where
  "agent_tasks =
     \<lparr>tb_rows = db_agent_tasks, tb_put = (\<lambda>rows db. db\<lparr>db_agent_tasks := rows\<rparr>),
      tb_check = (\<lambda>r. first_violated
        [(atk_task_type r \<in> {''initial_plan'', ''plan_revision'', ''code_generation'', ''recommendation_analysis''},
          ''agent_tasks_type_check''),
         (atk_status r \<in> {''queued'', ''processing'', ''completed'', ''failed''}, ''agent_tasks_status_check''),
         (atk_attempt r > 0, ''agent_tasks_attempt_positive'')]),
      tb_refs = (\<lambda>r. (''issue_sessions'', atk_issue_session_id r) # nullable_ref ''generated_plans'' (atk_generated_plan_id r)),
      tb_clash = (\<lambda>r r'. atk_id r = atk_id r')\<rparr>"

definition plan_revisions :: "plan_revision_row table" where
  "plan_revisions =
     \<lparr>tb_rows = db_plan_revisions, tb_put = (\<lambda>rows db. db\<lparr>db_plan_revisions := rows\<rparr>),
      tb_check = (\<lambda>r. first_violated
        [(prv_revision_number r \<ge> 1, ''plan_revisions_number_check''),
         (prv_source r \<in> {''initial'', ''correction'', ''retry'', ''user_edit''}, ''plan_revisions_source_check'')]),
      tb_refs = (\<lambda>r. [(''generated_plans'', prv_generated_plan_id r), (''issue_sessions'', prv_issue_session_id r)] @
        nullable_ref ''agent_tasks'' (prv_agent_task_id r)),
      tb_clash = (\<lambda>r r'. prv_generated_plan_id r = prv_generated_plan_id r' \<and> prv_revision_number r = prv_revision_number r')\<rparr>"

definition git_workflow_payloads :: "workflow_payload_row table" where
  "git_workflow_payloads =
     \<lparr>tb_rows = db_git_workflow_payloads, tb_put = (\<lambda>rows db. db\<lparr>db_git_workflow_payloads := rows\<rparr>),
      tb_check = (\<lambda>r. first_violated
        [(gwp_status r \<in> {''pending'', ''generated'', ''applied'', ''failed''}, ''git_workflow_payloads_status_check'')]),
      tb_refs = (\<lambda>r. (''issue_sessions'', gwp_issue_session_id r) # nullable_ref ''agent_tasks'' (gwp_agent_task_id r)),
      tb_clash = (\<lambda>r r'. gwp_issue_session_id r = gwp_issue_session_id r')\<rparr>"

definition generated_files :: "generated_file_row table" where
  "generated_files =
     \<lparr>tb_rows = db_generated_files, tb_put = (\<lambda>rows db. db\<lparr>db_generated_files := rows\<rparr>),
      tb_check = (\<lambda>r. first_violated
        [(gf_action (gnf_file r) \<in> {''create'', ''modify'', ''delete''}, ''generated_files_action_check''),
         (gf_status (gnf_file r) \<in> {''pending'', ''valid'', ''invalid'', ''applied''}, ''generated_files_status_check'')]),
      tb_refs = (\<lambda>r. (''issue_sessions'', gnf_issue_session_id r) # nullable_ref ''agent_tasks'' (gnf_agent_task_id r)),
      tb_clash = (\<lambda>r r'. gnf_id r = gnf_id r')\<rparr>"

definition user_responses :: "user_response_row table" where
  "user_responses =
     \<lparr>tb_rows = db_user_responses, tb_put = (\<lambda>rows db. db\<lparr>db_user_responses := rows\<rparr>),
      tb_check = (\<lambda>r. first_violated
        [(usr_response_type r \<in> {''approve'', ''correct'', ''reject''}, ''user_responses_type_check'')]),
      tb_refs = (\<lambda>r. [(''issue_sessions'', usr_issue_session_id r)]), tb_clash = (\<lambda>r r'. False)\<rparr>"

definition recommendation_runs :: "recommendation_run_row table" where
  "recommendation_runs =
     \<lparr>tb_rows = db_recommendation_runs, tb_put = (\<lambda>rows db. db\<lparr>db_recommendation_runs := rows\<rparr>),
      tb_check = (\<lambda>r. first_violated
        [(rrn_status r \<in> {''pending'', ''completed'', ''failed''}, ''recommendation_runs_status_check''),
         (1 \<le> rrn_retention_days r \<and> rrn_retention_days r \<le> 365, ''recommendation_runs_retention_days_check'')]),
      tb_refs = (\<lambda>r. [(''repositories'', rrn_repository_id r), (''ai_configs'', rrn_ai_config_id r)]),
      tb_clash = (\<lambda>r r'. rrn_id r = rrn_id r')\<rparr>"

text \<open>The pattern \<open>^[0-9a-f]{64}$\<close>.\<close>

definition hex_fingerprint :: "string \<Rightarrow> bool" where
  "hex_fingerprint v \<longleftrightarrow> length v = 64 \<and> list_all lower_hex v"

definition recommendations :: "recommendation_row table" where
  "recommendations =
     \<lparr>tb_rows = db_recommendations, tb_put = (\<lambda>rows db. db\<lparr>db_recommendations := rows\<rparr>),
      tb_check = (\<lambda>r. first_violated
        [(case card_line (rcm_card r) of None \<Rightarrow> True | Some n \<Rightarrow> n > 0, ''recommendations_line_number_check''),
         (case card_confidence (rcm_card r) of None \<Rightarrow> True | Some c \<Rightarrow> 0 \<le> c \<and> c \<le> 1, ''recommendations_confidence_check''),
         (hex_fingerprint (card_finding_fingerprint (rcm_card r)), ''recommendations_finding_fingerprint_check''),
         (card_state (rcm_card r) \<in> {''open'', ''closed'', ''deleted''}, ''recommendations_current_status_check'')]),
      tb_refs = (\<lambda>r. [(''recommendation_runs'', rcm_recommendation_run_id r)]),
      tb_clash = (\<lambda>r r'. card_id (rcm_card r) = card_id (rcm_card r') \<or>
        rcm_recommendation_run_id r = rcm_recommendation_run_id r' \<and>
        card_finding_fingerprint (rcm_card r) = card_finding_fingerprint (rcm_card r'))\<rparr>"

definition recommendation_statuses :: "recommendation_status_row table" where
  "recommendation_statuses =
     \<lparr>tb_rows = db_recommendation_statuses, tb_put = (\<lambda>rows db. db\<lparr>db_recommendation_statuses := rows\<rparr>),
      tb_check = (\<lambda>r. first_violated
        [(rst_status r \<in> {''open'', ''closed'', ''deleted''}, ''recommendation_statuses_status_check'')]),
      tb_refs = (\<lambda>r. [(''recommendations'', rst_recommendation_id r)]), tb_clash = (\<lambda>r r'. False)\<rparr>"

section \<open>INSERT, UPDATE and DELETE\<close>

text \<open>CHECK constraints come before unique ones, foreign keys last. Every statement enforces the constraints of its table, as the server
  does, so that they hold in every state says something of the schema and not of the operations.\<close>

definition insert_row :: "pg_env \<Rightarrow> 'r table \<Rightarrow> 'r \<Rightarrow> 'r pg_op" where
  "insert_row pe tb r db =
     (case tb_check tb r of
        Some name \<Rightarrow> (Inl (refused pe name), db)
      | None \<Rightarrow>
          if list_ex (tb_clash tb r) (tb_rows tb db) then (Inl (refused pe ''unique''), db)
          else if \<not> set (tb_refs tb r) \<subseteq> known db then (Inl (refused pe ''foreign key''), db)
          else (Inr r, tb_put tb (tb_rows tb db @ [r]) db))"

text \<open>\<open>UPDATE ... SET ... WHERE ... RETURNING\<close>: the rows as changed. A changed row must not clash with one that stays; no statement of
  the store changes more than one row of a key.\<close>

definition update_rows :: "pg_env \<Rightarrow> 'r table \<Rightarrow> ('r \<Rightarrow> bool) \<Rightarrow> ('r \<Rightarrow> 'r) \<Rightarrow> 'r list pg_op" where
  "update_rows pe tb P f db =
     (let changed = map f (filter P (tb_rows tb db)) in
      case find (\<lambda>r. tb_check tb r \<noteq> None) changed of
        Some r \<Rightarrow> (Inl (refused pe (the (tb_check tb r))), db)
      | None \<Rightarrow>
          if list_ex (\<lambda>r. list_ex (tb_clash tb r) (filter (\<lambda>r. \<not> P r) (tb_rows tb db))) changed
          then (Inl (refused pe ''unique''), db)
          else if \<not> list_all (\<lambda>r. set (tb_refs tb r) \<subseteq> known db) changed then (Inl (refused pe ''foreign key''), db)
          else (Inr changed, tb_put tb (map (\<lambda>r. if P r then f r else r) (tb_rows tb db)) db))"

text \<open>\<open>INSERT ... ON CONFLICT (...) DO UPDATE\<close>: \<open>same\<close> is equality on the conflict columns, \<open>merge\<close> what the SET clause makes of the row that
  is there. The CHECK constraints hold for the row that is proposed as well.\<close>

definition upsert_row :: "pg_env \<Rightarrow> 'r table \<Rightarrow> ('r \<Rightarrow> bool) \<Rightarrow> ('r \<Rightarrow> 'r) \<Rightarrow> 'r \<Rightarrow> 'r pg_op" where
  "upsert_row pe tb same merge r db =
     (case tb_check tb r of
        Some name \<Rightarrow> (Inl (refused pe name), db)
      | None \<Rightarrow>
          if \<not> list_ex same (tb_rows tb db) then insert_row pe tb r db
          else
            (case update_rows pe tb same merge db of
               (Inr (updated # _), db') \<Rightarrow> (Inr updated, db')
             | (Inr [], db') \<Rightarrow> (Inr r, db')
             | (Inl e, _) \<Rightarrow> (Inl e, db)))"

text \<open>\<open>ON CONFLICT DO NOTHING\<close>: whether the row was inserted.\<close>

definition insert_unless :: "pg_env \<Rightarrow> 'r table \<Rightarrow> ('r \<Rightarrow> bool) \<Rightarrow> 'r \<Rightarrow> bool pg_op" where
  "insert_unless pe tb same r db =
     (case tb_check tb r of
        Some name \<Rightarrow> (Inl (refused pe name), db)
      | None \<Rightarrow>
          if list_ex same (tb_rows tb db) then (Inr False, db)
          else (case insert_row pe tb r db of (Inl e, _) \<Rightarrow> (Inl e, db) | (Inr r', db') \<Rightarrow> (Inr True, db')))"

definition delete_rows :: "'r table \<Rightarrow> ('r \<Rightarrow> bool) \<Rightarrow> unit pg_op" where
  "delete_rows tb P db = (Inr (), tb_put tb (filter (\<lambda>r. \<not> P r) (tb_rows tb db)) db)"

end
