(* ===== verification/Postgres_Store.thy ===== *)
theory Postgres_Store imports Postgres_Tables Go_Path begin

text \<open>
  backend/internal/repository/postgres.go: the operations of \<open>PostgresStore\<close>, one definition per method, with its statements in
  their order. A column that is scanned into a field is that field of the row.
\<close>

section \<open>Opening the store\<close>

definition pg_Ping :: "pg_env \<Rightarrow> nat \<Rightarrow> unit pg_op" where
  "pg_Ping pe n =
     bindS (statement pe n [] (retS ())) (\<lambda>_.
     bindS (statement pe (n + 1) [] (retS (pe_migrated pe))) (\<lambda>ready.
       if \<not> ready then failS (ErrText ''database migrations are not applied'') else retS ()))"

text \<open>The pool is outside; a store that does not answer is not opened.\<close>

definition NewPostgresStore :: "pg_env \<Rightarrow> go_error option \<Rightarrow> unit pg_op" where
  "NewPostgresStore pe pool = (case pool of Some err \<Rightarrow> failS err | None \<Rightarrow> pg_Ping pe 0)"

section \<open>Users and application sessions\<close>

definition pg_UpsertAppUser :: "pg_env \<Rightarrow> app_user \<Rightarrow> app_user pg_op" where
  "pg_UpsertAppUser pe user0 =
     (if trim_space (user_gitflame_user_id user0) = [] then failS (ErrText ''gitflame user id is required'')
      else
        let gid = user_gitflame_user_id user0;
            username = (if trim_space (user_username user0) = [] then gid else user_username user0) in
        statement pe 0 [gid, username]
          (upsert_row pe app_users (\<lambda>u. user_gitflame_user_id u = gid)
            (\<lambda>u. u\<lparr>user_username := username, user_updated_at := pe_now pe 0\<rparr>)
            \<lparr>user_id = pe_fresh pe 0, user_gitflame_user_id = gid, user_username = username, user_created_at = pe_now pe 0,
             user_updated_at = pe_now pe 0\<rparr>))"

definition user_of_session :: "database \<Rightarrow> app_session_row \<Rightarrow> app_user option" where
  "user_of_session db r = find (\<lambda>u. user_id u = sess_user_id r) (db_app_users db)"

definition session_of_row :: "app_session_row \<Rightarrow> app_user \<Rightarrow> app_session" where
  "session_of_row r u =
     \<lparr>aps_id = sess_id r, aps_user = u, aps_expires_at = sess_expires_at r, aps_last_seen_at = sess_last_seen_at r,
      aps_revoked_at = sess_revoked_at r, aps_created_at = sess_created_at r\<rparr>"

definition pg_AppSessionByTokenHash :: "pg_env \<Rightarrow> nat \<Rightarrow> string \<Rightarrow> app_session pg_op" where
  "pg_AppSessionByTokenHash pe n tokenHash =
     bindS
       (statement pe n [] (\<lambda>db.
          bindS
            (update_rows pe app_sessions
              (\<lambda>r. user_of_session db r \<noteq> None \<and> sess_token_hash r = tokenHash \<and> sess_revoked_at r = None \<and>
                 sess_expires_at r > pe_now pe n)
              (\<lambda>r. r\<lparr>sess_last_seen_at := Some (pe_now pe n)\<rparr>))
            (\<lambda>rows. retS (List.map_filter (\<lambda>r. map_option (session_of_row r) (user_of_session db r)) rows)) db))
       (\<lambda>found. case found of [] \<Rightarrow> failS ErrNotFound | session # _ \<Rightarrow> retS session)"

definition pg_CreateAppSession :: "pg_env \<Rightarrow> string \<Rightarrow> string \<Rightarrow> gotime \<Rightarrow> app_session pg_op" where
  "pg_CreateAppSession pe userID tokenHash expiresAt =
     bindS (liftR (uuid_arg pe userID)) (\<lambda>uid.
     bindS
       (statement pe 0 []
         (insert_row pe app_sessions
           \<lparr>sess_id = pe_fresh pe 0, sess_user_id = uid, sess_token_hash = tokenHash, sess_expires_at = timestamptz expiresAt,
            sess_last_seen_at = None, sess_revoked_at = None, sess_created_at = pe_now pe 0\<rparr>)) (\<lambda>row.
     bindS (pg_AppSessionByTokenHash pe 1 tokenHash) (\<lambda>loaded.
       retS (loaded\<lparr>aps_id := sess_id row, aps_expires_at := sess_expires_at row, aps_created_at := sess_created_at row\<rparr>))))"

definition pg_RevokeAppSession :: "pg_env \<Rightarrow> string \<Rightarrow> unit pg_op" where
  "pg_RevokeAppSession pe sessionID =
     bindS (liftR (uuid_arg pe sessionID)) (\<lambda>sid.
     bindS
       (statement pe 0 []
         (update_rows pe app_sessions (\<lambda>r. sess_id r = sid \<and> sess_revoked_at r = None)
           (\<lambda>r. r\<lparr>sess_revoked_at := Some (pe_now pe 0)\<rparr>))) (\<lambda>affected.
       if affected = [] then failS ErrNotFound else retS ()))"

section \<open>Repositories, configurations and files\<close>

text \<open>\<open>n\<close> is the number of the statement, \<open>t\<close> that of the transaction, whose \<open>now()\<close> all its statements see.\<close>

definition upsertRepository :: "pg_env \<Rightarrow> nat \<Rightarrow> repository_metadata \<Rightarrow> string pg_op" where
  "upsertRepository pe n repository =
     (let name = (if trim_space (repo_name repository) = [] then repo_id repository else repo_name repository) in
      bindS
        (statement pe n [repo_id repository, name, repo_default_branch repository, repo_web_url repository]
          (upsert_row pe repositories (\<lambda>r. rpo_external_id r = repo_id repository)
            (\<lambda>r. r\<lparr>rpo_name := name, rpo_default_branch := repo_default_branch repository, rpo_web_url := repo_web_url repository\<rparr>)
            \<lparr>rpo_id = pe_fresh pe n, rpo_external_id = repo_id repository, rpo_name = name,
             rpo_default_branch = repo_default_branch repository, rpo_web_url = repo_web_url repository\<rparr>))
        (\<lambda>row. retS (rpo_id row)))"

definition ensureRepositoryForSnapshot :: "pg_env \<Rightarrow> nat \<Rightarrow> string \<Rightarrow> string pg_op" where
  "ensureRepositoryForSnapshot pe n externalID =
     bindS
       (statement pe n [externalID] (\<lambda>db. (Inr (filter (\<lambda>r. rpo_external_id r = externalID) (db_repositories db)), db)))
       (\<lambda>found.
         case found of
           r # _ \<Rightarrow> retS (rpo_id r)
         | [] \<Rightarrow>
             bindS
               (statement pe (n + 1) [externalID]
                 (insert_row pe repositories
                   \<lparr>rpo_id = pe_fresh pe (n + 1), rpo_external_id = externalID, rpo_name = externalID, rpo_default_branch = ''main'',
                    rpo_web_url = []\<rparr>))
               (\<lambda>row. retS (rpo_id row)))"

definition insertAIConfig :: "pg_env \<Rightarrow> nat \<Rightarrow> nat \<Rightarrow> string \<Rightarrow> ai_config \<Rightarrow> string pg_op" where
  "insertAIConfig pe t n repositoryID cfg =
     bindS (liftR (json_arg pe (pe_json_config pe cfg))) (\<lambda>parsed.
     bindS (liftR (int4_arg pe (cfg_retention_days cfg))) (\<lambda>days.
     bindS
       (statement pe n [cfg_raw cfg]
         (insert_row pe ai_configs
           \<lparr>acf_id = pe_fresh pe n, acf_repository_id = repositoryID, acf_raw_yml = cfg_raw cfg, acf_parsed = parsed,
            acf_retention_days = days, acf_created_at = pe_now pe t\<rparr>))
       (\<lambda>row. retS (acf_id row))))"

text \<open>The files of a request, or else the paths of its context; the loop numbers its statements.\<close>

definition request_file_list :: "issue_analyze_request \<Rightarrow> repository_file list" where
  "request_file_list req =
     (if req_repository_files req \<noteq> [] then req_repository_files req
      else map (\<lambda>p. \<lparr>rf_path = p, rf_content = [], rf_type = []\<rparr>) (req_repository_context req))"

fun upsert_files :: "pg_env \<Rightarrow> nat \<Rightarrow> string \<Rightarrow> string \<Rightarrow> repository_file list \<Rightarrow> unit pg_op" where
  "upsert_files pe n repositoryID commitSHA [] = retS ()"
| "upsert_files pe n repositoryID commitSHA (file # files) =
     (let filePath = trim_space (rf_path file);
          hash = (if rf_content file \<noteq> [] then hex_encode (pe_sha256 pe (rf_content file)) else []) in
      if filePath = [] then upsert_files pe n repositoryID commitSHA files
      else
        bindS
          (statement pe n [filePath, path_Base filePath, hash, commitSHA]
            (upsert_row pe repository_files (\<lambda>r. rpf_repository_id r = repositoryID \<and> rpf_file_path r = filePath)
              (\<lambda>r. r\<lparr>rpf_file_name := path_Base filePath, rpf_content_hash := hash, rpf_commit_sha := commitSHA\<rparr>)
              \<lparr>rpf_repository_id = repositoryID, rpf_file_path = filePath, rpf_file_name = path_Base filePath,
               rpf_content_hash = hash, rpf_commit_sha = commitSHA\<rparr>))
          (\<lambda>_. upsert_files pe (n + 1) repositoryID commitSHA files))"

definition upsertRepositoryFiles :: "pg_env \<Rightarrow> nat \<Rightarrow> string \<Rightarrow> issue_analyze_request \<Rightarrow> unit pg_op" where
  "upsertRepositoryFiles pe n repositoryID req =
     upsert_files pe n repositoryID (repo_commit_sha (req_repository req)) (request_file_list req)"

definition pg_SaveAIConfig :: "pg_env \<Rightarrow> repository_metadata \<Rightarrow> ai_config \<Rightarrow> unit pg_op" where
  "pg_SaveAIConfig pe repository cfg =
     transaction pe 0 3 (\<lambda>_. True)
       (bindS (upsertRepository pe 1 repository) (\<lambda>repositoryID.
        bindS (insertAIConfig pe 0 2 repositoryID cfg) (\<lambda>_. retS ())))"

definition pg_LatestAIConfig :: "pg_env \<Rightarrow> string \<Rightarrow> ai_config pg_op" where
  "pg_LatestAIConfig pe externalID =
     bindS
       (statement pe 0 [externalID] (\<lambda>db.
          (Inr (sort_key (\<lambda>c. - acf_created_at c)
            (filter (\<lambda>c. \<exists>r \<in> set (db_repositories db). rpo_id r = acf_repository_id c \<and> rpo_external_id r = externalID)
              (scan pe 0 (db_ai_configs db)))), db)))
       (\<lambda>found. case found of [] \<Rightarrow> failS ErrNotFound | c # _ \<Rightarrow> retS ((acf_parsed c)\<lparr>cfg_raw := acf_raw_yml c\<rparr>))"

section \<open>Issue sessions\<close>

text \<open>\<open>sessionSelect\<close>: a session with its repository, its configuration and its plan.\<close>

definition session_join ::
    "database \<Rightarrow> issue_session_row \<Rightarrow> (issue_session_row \<times> repository_row \<times> config_row \<times> plan_row option) option" where
  "session_join db s =
     (case (find (\<lambda>r. rpo_id r = iss_repository_id s) (db_repositories db),
            find (\<lambda>c. acf_id c = iss_ai_config_id s) (db_ai_configs db)) of
        (Some r, Some c) \<Rightarrow> Some (s, r, c, find (\<lambda>p. gpl_issue_session_id p = iss_id s) (db_generated_plans db))
      | _ \<Rightarrow> None)"

definition select_sessions ::
    "pg_env \<Rightarrow> nat \<Rightarrow> (issue_session_row \<Rightarrow> repository_row \<Rightarrow> bool) \<Rightarrow> database \<Rightarrow>
       (issue_session_row \<times> repository_row \<times> config_row \<times> plan_row option) list" where
  "select_sessions pe n P db =
     filter (\<lambda>(s, r, c, p). P s r) (List.map_filter (session_join db) (scan pe n (db_issue_sessions db)))"

definition stored_request :: "issue_session_row \<Rightarrow> repository_row \<Rightarrow> issue_analyze_request" where
  "stored_request s r =
     (if issue_id (req_issue (iss_request s)) = []
      then (iss_request s)
        \<lparr>req_repository := \<lparr>repo_id = rpo_external_id r, repo_name = rpo_name r, repo_default_branch = rpo_default_branch r,
           repo_commit_sha = [], repo_web_url = rpo_web_url r\<rparr>,
         req_issue := \<lparr>issue_id = iss_external_issue_id s, issue_title = iss_issue_title s, issue_body = iss_issue_body s,
           issue_author = iss_issue_author s, issue_state = []\<rparr>\<rparr>
      else iss_request s)"

definition no_contract :: generated_files_contract where
  "no_contract = \<lparr>gc_request_id = [], gc_task_id = [], gc_summary = [], gc_branch_name = [], gc_base_branch = [], gc_files = [],
     gc_commit_message = [], gc_pr_title = [], gc_reviewer = [], gc_apply_status = [], gc_commit_sha = [], gc_pull_request_id = [],
     gc_pull_request_url = [], gc_apply_error = [], gc_applied_at = None\<rparr>"

text \<open>The contract that \<open>loadGeneratedFiles\<close> puts together from the payload, the files and the JSON column.\<close>

definition contract_of_rows ::
    "workflow_payload_row \<Rightarrow> generated_file_row list \<Rightarrow> generated_files_contract option \<Rightarrow> generated_files_contract" where
  "contract_of_rows w files stored =
     (let taskID = (case gwp_agent_task_id w of None \<Rightarrow> [] | Some t \<Rightarrow> t);
          base = no_contract\<lparr>gc_task_id := taskID, gc_branch_name := gwp_branch_name w, gc_base_branch := gwp_base_branch w,
            gc_commit_message := gwp_commit_message w, gc_pr_title := gwp_pr_title w, gc_reviewer := gwp_reviewer w,
            gc_apply_status := (if gwp_status w = ''applied'' \<or> gwp_status w = ''failed'' then gwp_status w else []),
            gc_commit_sha := gwp_commit_sha w, gc_pull_request_id := gwp_pull_request_id w,
            gc_pull_request_url := gwp_pull_request_url w, gc_apply_error := gwp_apply_error w, gc_applied_at := gwp_applied_at w,
            gc_files := map gnf_file files\<rparr> in
      case stored of
        None \<Rightarrow> base
      | Some c \<Rightarrow> base\<lparr>gc_request_id := gc_request_id c, gc_summary := gc_summary c,
          gc_task_id := (if taskID = [] then gc_task_id c else taskID)\<rparr>)"

text \<open>ORDER BY created_at, id.\<close>

definition files_of_session :: "pg_env \<Rightarrow> nat \<Rightarrow> string \<Rightarrow> database \<Rightarrow> generated_file_row list" where
  "files_of_session pe n sid db =
     sort_key gnf_created_at (sort_key gnf_id (filter (\<lambda>f. gnf_issue_session_id f = sid) (scan pe n (db_generated_files db))))"

definition loadGeneratedFiles ::
    "pg_env \<Rightarrow> nat \<Rightarrow> string \<Rightarrow> generated_files_contract option \<Rightarrow> generated_files_contract option pg_op" where
  "loadGeneratedFiles pe n sid stored =
     bindS (statement pe n [] (\<lambda>db. (Inr (filter (\<lambda>w. gwp_issue_session_id w = sid) (db_git_workflow_payloads db)), db)))
       (\<lambda>payloads.
         case payloads of
           [] \<Rightarrow> retS stored
         | w # _ \<Rightarrow>
             bindS (statement pe (n + 1) [] (\<lambda>db. (Inr (files_of_session pe (n + 1) sid db), db))) (\<lambda>files.
               retS (Some (contract_of_rows w files stored))))"

definition feedback_of_session :: "pg_env \<Rightarrow> nat \<Rightarrow> string \<Rightarrow> database \<Rightarrow> string list" where
  "feedback_of_session pe n sid db =
     map prv_correction_feedback
       (sort_key prv_revision_number
         (filter (\<lambda>v. prv_issue_session_id v = sid \<and> prv_correction_feedback v \<noteq> []) (scan pe n (db_plan_revisions db))))"

definition scanSession ::
    "pg_env \<Rightarrow> nat \<Rightarrow> (issue_session_row \<times> repository_row \<times> config_row \<times> plan_row option) list \<Rightarrow> issue_session pg_op" where
  "scanSession pe n found =
     (case found of
        [] \<Rightarrow> failS ErrNotFound
      | (s, r, c, p) # _ \<Rightarrow>
          bindS (loadGeneratedFiles pe n (iss_id s) (iss_git_workflow s)) (\<lambda>generated.
          bindS (statement pe (n + 2) [] (\<lambda>db. (Inr (feedback_of_session pe (n + 2) (iss_id s) db), db))) (\<lambda>feedback.
            retS \<lparr>ses_id = iss_id s, ses_status = iss_status s,
              ses_plan_markdown = (case p of None \<Rightarrow> [] | Some plan \<Rightarrow> gpl_plan_markdown plan),
              ses_request = stored_request s r, ses_config = (acf_parsed c)\<lparr>cfg_raw := acf_raw_yml c\<rparr>,
              ses_revision = iss_current_revision s, ses_feedback_history = feedback, ses_generated_files = generated,
              ses_created_at = iss_created_at s, ses_updated_at = iss_updated_at s\<rparr>)))"

definition pg_Session :: "pg_env \<Rightarrow> nat \<Rightarrow> string \<Rightarrow> issue_session pg_op" where
  "pg_Session pe n k =
     bindS
       (statement pe n [k] (\<lambda>db.
          (Inr (sort_key (\<lambda>(s, _). - iss_updated_at s)
            (select_sessions pe n (\<lambda>s r. iss_id s = k \<or> iss_external_issue_id s = k) db)), db)))
       (scanSession pe (n + 1))"

definition sessionByRepositoryIssue :: "pg_env \<Rightarrow> nat \<Rightarrow> string \<Rightarrow> string \<Rightarrow> issue_session pg_op" where
  "sessionByRepositoryIssue pe n repositoryID issueID =
     bindS
       (statement pe n [repositoryID, issueID] (\<lambda>db.
          (Inr (select_sessions pe n (\<lambda>s r. rpo_external_id r = repositoryID \<and> iss_external_issue_id s = issueID) db), db)))
       (scanSession pe (n + 1))"

text \<open>The transaction of \<open>CreateSession\<close>: whether a row was inserted; if not it is rolled back.\<close>

definition create_session_rows ::
    "pg_env \<Rightarrow> nat \<Rightarrow> string \<Rightarrow> issue_analyze_request \<Rightarrow> ai_config \<Rightarrow> bool pg_op" where
  "create_session_rows pe t sessionID req cfg =
     bindS (upsertRepository pe (t + 1) (req_repository req)) (\<lambda>repositoryID.
     bindS (insertAIConfig pe t (t + 2) repositoryID cfg) (\<lambda>configID.
     bindS (upsertRepositoryFiles pe (t + 5) repositoryID req) (\<lambda>_.
     bindS (liftR (json_arg pe (pe_json_request pe req))) (\<lambda>requestJSON.
     bindS (liftR (uuid_arg pe sessionID)) (\<lambda>sid.
       statement pe (t + 3)
         [issue_id (req_issue req), issue_title (req_issue req), issue_body (req_issue req), issue_author (req_issue req)]
         (\<lambda>db. insert_unless pe issue_sessions
           (\<lambda>s. iss_repository_id s = repositoryID \<and> iss_external_issue_id s = issue_id (req_issue req))
           \<lparr>iss_id = sid, iss_repository_id = repositoryID, iss_ai_config_id = configID,
            iss_external_issue_id = issue_id (req_issue req), iss_issue_title = issue_title (req_issue req),
            iss_issue_body = issue_body (req_issue req), iss_issue_author = issue_author (req_issue req),
            iss_status = SessionGenerating, iss_current_revision = 0, iss_git_workflow = None, iss_request = requestJSON,
            iss_created_at = pe_now pe t, iss_updated_at = pe_now pe t\<rparr> db))))))"

definition pg_CreateSession :: "pg_env \<Rightarrow> issue_analyze_request \<Rightarrow> ai_config \<Rightarrow> (issue_session \<times> bool) pg_op" where
  "pg_CreateSession pe req cfg =
     (let existing = (\<lambda>n. sessionByRepositoryIssue pe n (repo_id (req_repository req)) (issue_id (req_issue req))) in
      tryS (existing 0) (\<lambda>r.
        case r of
          Inr found \<Rightarrow> retS (found, False)
        | Inl err \<Rightarrow>
            if err \<noteq> ErrNotFound then failS err
            else
              bindS (transaction pe 12 16 (\<lambda>created. created) (create_session_rows pe 12 (pe_newid pe 0) req cfg)) (\<lambda>created.
                if created then bindS (pg_Session pe 4 (pe_newid pe 0)) (\<lambda>session. retS (session, True))
                else bindS (existing 8) (\<lambda>found. retS (found, False)))))"

section \<open>Updating a session\<close>

definition latestFeedback :: "string list \<Rightarrow> string" where
  "latestFeedback history = (if history = [] then [] else last history)"

definition insertUserResponse :: "pg_env \<Rightarrow> nat \<Rightarrow> string \<Rightarrow> string \<Rightarrow> string \<Rightarrow> string \<Rightarrow> unit pg_op" where
  "insertUserResponse pe n sid responseType message author =
     bindS
       (statement pe n [message, author]
         (insert_row pe user_responses
           \<lparr>usr_issue_session_id = sid, usr_response_type = responseType, usr_message = message, usr_author = author\<rparr>))
       (\<lambda>_. retS ())"

definition payload_status :: "generated_files_contract \<Rightarrow> string" where
  "payload_status contract =
     (if gc_apply_status contract = ''applied'' \<or> gc_apply_status contract = ''failed'' then gc_apply_status contract
      else if gc_files contract \<noteq> [] then ''generated'' else ''pending'')"

definition payload_of_contract :: "string \<Rightarrow> string option \<Rightarrow> generated_files_contract \<Rightarrow> workflow_payload_row" where
  "payload_of_contract sid taskID contract =
     \<lparr>gwp_issue_session_id = sid, gwp_agent_task_id = taskID, gwp_branch_name = gc_branch_name contract,
      gwp_base_branch = (if trim_space (gc_base_branch contract) = [] then ''main'' else gc_base_branch contract),
      gwp_commit_message = gc_commit_message contract, gwp_pr_title = gc_pr_title contract, gwp_reviewer = gc_reviewer contract,
      gwp_status = payload_status contract, gwp_commit_sha = gc_commit_sha contract,
      gwp_pull_request_id = gc_pull_request_id contract, gwp_pull_request_url = gc_pull_request_url contract,
      gwp_apply_error = gc_apply_error contract, gwp_applied_at = map_option timestamptz (gc_applied_at contract)\<rparr>"

definition stored_file :: "generated_file_operation \<Rightarrow> generated_file_operation" where
  "stored_file file = (if trim_space (gf_status file) = [] then file\<lparr>gf_status := ''pending''\<rparr> else file)"

fun insert_files ::
    "pg_env \<Rightarrow> nat \<Rightarrow> nat \<Rightarrow> string \<Rightarrow> string option \<Rightarrow> generated_file_operation list \<Rightarrow> unit pg_op" where
  "insert_files pe t n sid taskID [] = retS ()"
| "insert_files pe t n sid taskID (file # files) =
     bindS
       (statement pe n
         [gf_path file, gf_action file, gf_content file, gf_diff file, gf_explanation file, gf_status file, gf_validation_error file]
         (insert_row pe generated_files
           \<lparr>gnf_id = pe_fresh pe n, gnf_issue_session_id = sid, gnf_agent_task_id = taskID, gnf_file = stored_file file,
            gnf_created_at = pe_now pe t\<rparr>))
       (\<lambda>_. insert_files pe t (n + 1) sid taskID files)"

definition saveGeneratedFiles :: "pg_env \<Rightarrow> nat \<Rightarrow> nat \<Rightarrow> string \<Rightarrow> generated_files_contract \<Rightarrow> unit pg_op" where
  "saveGeneratedFiles pe t n sid contract =
     bindS (liftR (optional_uuid pe (gc_task_id contract))) (\<lambda>taskID.
     bindS
       (statement pe n
         [gc_branch_name contract, gc_base_branch contract, gc_commit_message contract, gc_pr_title contract, gc_reviewer contract,
          gc_commit_sha contract, gc_pull_request_id contract, gc_pull_request_url contract, gc_apply_error contract]
         (upsert_row pe git_workflow_payloads (\<lambda>w. gwp_issue_session_id w = sid) (\<lambda>w. payload_of_contract sid taskID contract)
           (payload_of_contract sid taskID contract))) (\<lambda>_.
     bindS (statement pe (n + 1) [] (delete_rows generated_files (\<lambda>f. gnf_issue_session_id f = sid))) (\<lambda>_.
       insert_files pe t (n + 10) sid taskID (gc_files contract))))"

text \<open>The response of the user that a status stands for.\<close>

definition record_response :: "pg_env \<Rightarrow> nat \<Rightarrow> string \<Rightarrow> issue_session \<Rightarrow> unit pg_op" where
  "record_response pe n sid session =
     (let author = issue_author (req_issue (ses_request session)) in
      if ses_status session = SessionCorrectionRequested
      then insertUserResponse pe n sid ''correct'' (latestFeedback (ses_feedback_history session)) author
      else if ses_status session = SessionApproved then insertUserResponse pe n sid ''approve'' [] author
      else if ses_status session = SessionRejected then insertUserResponse pe n sid ''reject'' [] author
      else retS ())"

definition revision_source :: "agent_task_row option \<Rightarrow> string" where
  "revision_source task =
     (case task of
        None \<Rightarrow> ''initial''
      | Some t \<Rightarrow> if atk_attempt t > 1 then ''retry'' else if atk_task_type t = ''plan_revision'' then ''correction'' else ''initial'')"

definition latest_task_row :: "pg_env \<Rightarrow> nat \<Rightarrow> string \<Rightarrow> database \<Rightarrow> agent_task_row option" where
  "latest_task_row pe n sid db =
     (case sort_key (\<lambda>t. - atk_created_at t) (filter (\<lambda>t. atk_issue_session_id t = sid) (scan pe n (db_agent_tasks db))) of
        [] \<Rightarrow> None
      | t # _ \<Rightarrow> Some t)"

definition record_plan :: "pg_env \<Rightarrow> nat \<Rightarrow> nat \<Rightarrow> string \<Rightarrow> issue_session \<Rightarrow> unit pg_op" where
  "record_plan pe t n sid session =
     (if \<not> (ses_status session = SessionPlanGenerated \<and> ses_revision session > 0 \<and> trim_space (ses_plan_markdown session) \<noteq> [])
      then retS ()
      else
        bindS
          (statement pe n [ses_plan_markdown session]
            (upsert_row pe generated_plans (\<lambda>p. gpl_issue_session_id p = sid)
              (\<lambda>p. p\<lparr>gpl_plan_markdown := ses_plan_markdown session, gpl_current_revision := ses_revision session\<rparr>)
              \<lparr>gpl_id = pe_fresh pe n, gpl_issue_session_id = sid, gpl_plan_markdown = ses_plan_markdown session,
               gpl_current_revision = ses_revision session\<rparr>)) (\<lambda>plan.
        bindS (statement pe (n + 1) [] (\<lambda>db. (Inr (latest_task_row pe (n + 1) sid db), db))) (\<lambda>task.
        bindS
          (statement pe (n + 2) [ses_plan_markdown session, latestFeedback (ses_feedback_history session)]
            (upsert_row pe plan_revisions
              (\<lambda>v. prv_generated_plan_id v = gpl_id plan \<and> prv_revision_number v = ses_revision session)
              (\<lambda>v. v\<lparr>prv_plan_markdown := ses_plan_markdown session,
                 prv_correction_feedback := latestFeedback (ses_feedback_history session),
                 prv_agent_task_id := map_option atk_id task, prv_source := revision_source task\<rparr>)
              \<lparr>prv_generated_plan_id = gpl_id plan, prv_issue_session_id = sid, prv_agent_task_id = map_option atk_id task,
               prv_revision_number = ses_revision session, prv_plan_markdown = ses_plan_markdown session,
               prv_correction_feedback = latestFeedback (ses_feedback_history session), prv_source = revision_source task\<rparr>)) (\<lambda>_.
          case task of
            None \<Rightarrow> retS ()
          | Some tk \<Rightarrow>
              bindS
                (statement pe (n + 3) []
                  (update_rows pe agent_tasks (\<lambda>r. atk_id r = atk_id tk)
                    (\<lambda>r. r\<lparr>atk_generated_plan_id := Some (gpl_id plan), atk_updated_at := pe_now pe t\<rparr>)))
                (\<lambda>_. retS ())))))"

definition workflow_json :: "pg_env \<Rightarrow> issue_session \<Rightarrow> generated_files_contract option result" where
  "workflow_json pe session =
     (case ses_generated_files session of
        None \<Rightarrow> Inr None
      | Some contract \<Rightarrow> (case json_arg pe (pe_json_contract pe contract) of Inl e \<Rightarrow> Inl e | Inr c \<Rightarrow> Inr (Some c)))"

definition pg_UpdateSession :: "pg_env \<Rightarrow> issue_session \<Rightarrow> unit pg_op" where
  "pg_UpdateSession pe session =
     transaction pe 0 9 (\<lambda>_. True)
       (bindS (liftR (uuid_arg pe (ses_id session))) (\<lambda>sid.
        bindS (liftR (int4_arg pe (ses_revision session))) (\<lambda>revision.
        bindS (liftR (workflow_json pe session)) (\<lambda>workflow.
        bindS
          (statement pe 1 [ses_status session]
            (update_rows pe issue_sessions (\<lambda>s. iss_id s = sid)
              (\<lambda>s. s\<lparr>iss_status := ses_status session, iss_current_revision := revision, iss_git_workflow := workflow,
                 iss_updated_at := pe_now pe 0\<rparr>))) (\<lambda>affected.
          if affected = [] then failS ErrNotFound
          else
            bindS (case ses_generated_files session of None \<Rightarrow> retS () | Some contract \<Rightarrow> saveGeneratedFiles pe 0 10 sid contract) (\<lambda>_.
            bindS (record_response pe 2 sid session) (\<lambda>_.
              record_plan pe 0 3 sid session)))))))"

section \<open>Tasks\<close>

definition pg_CreateTask :: "pg_env \<Rightarrow> string \<Rightarrow> string \<Rightarrow> string \<Rightarrow> agent_task pg_op" where
  "pg_CreateTask pe sessionID issueID taskType =
     bindS (liftR (uuid_arg pe (pe_newid pe 0))) (\<lambda>tid.
     bindS (liftR (uuid_arg pe sessionID)) (\<lambda>sid.
     bindS
       (statement pe 0 [taskType]
         (insert_row pe agent_tasks
           \<lparr>atk_id = tid, atk_issue_session_id = sid, atk_generated_plan_id = None, atk_task_type = taskType, atk_status = TaskQueued,
            atk_attempt = 1, atk_error_message = [], atk_error = None, atk_relevant_files = [], atk_model = [], atk_usage = no_usage,
            atk_tool_execution_summary = [], atk_created_at = pe_now pe 0, atk_started_at = None, atk_completed_at = None,
            atk_updated_at = pe_now pe 0\<rparr>))
       (\<lambda>row. retS
         \<lparr>task_id = pe_newid pe 0, task_session_id = sessionID, task_issue_id = issueID, task_type = taskType, task_status = TaskQueued,
          task_generated_plan_id = [], task_attempt = 1, task_plan_markdown = [], task_err = None, task_tool_execution_summary = [],
          task_relevant_files = [], task_model = [], task_usage = no_usage, task_created_at = atk_created_at row,
          task_updated_at = atk_updated_at row\<rparr>)))"

text \<open>\<open>taskSelect\<close> and \<open>scanTask\<close>.\<close>

definition task_of_row :: "database \<Rightarrow> agent_task_row \<Rightarrow> agent_task" where
  "task_of_row db t =
     \<lparr>task_id = atk_id t, task_session_id = atk_issue_session_id t,
      task_issue_id = (case find (\<lambda>s. iss_id s = atk_issue_session_id t) (db_issue_sessions db) of
          None \<Rightarrow> [] | Some s \<Rightarrow> iss_external_issue_id s),
      task_type = atk_task_type t, task_status = atk_status t,
      task_generated_plan_id = (case atk_generated_plan_id t of None \<Rightarrow> [] | Some p \<Rightarrow> p), task_attempt = atk_attempt t,
      task_plan_markdown = (case find (\<lambda>p. atk_generated_plan_id t = Some (gpl_id p)) (db_generated_plans db) of
          None \<Rightarrow> [] | Some p \<Rightarrow> gpl_plan_markdown p),
      task_err = (case atk_error t of
          Some e \<Rightarrow> Some e
        | None \<Rightarrow>
            if atk_error_message t \<noteq> []
            then Some \<lparr>te_http_status = 502, te_code = ''agent_engine_error'', te_detail = atk_error_message t\<rparr> else None),
      task_tool_execution_summary = atk_tool_execution_summary t, task_relevant_files = atk_relevant_files t,
      task_model = atk_model t, task_usage = atk_usage t, task_created_at = atk_created_at t, task_updated_at = atk_updated_at t\<rparr>"

definition first_task :: "agent_task list \<Rightarrow> agent_task pg_op" where
  "first_task found = (case found of [] \<Rightarrow> failS ErrNotFound | t # _ \<Rightarrow> retS t)"

definition pg_Task :: "pg_env \<Rightarrow> string \<Rightarrow> agent_task pg_op" where
  "pg_Task pe k =
     bindS
       (statement pe 0 [k] (\<lambda>db. (Inr (map (task_of_row db) (filter (\<lambda>t. atk_id t = k) (scan pe 0 (db_agent_tasks db)))), db)))
       first_task"

definition pg_LatestTask :: "pg_env \<Rightarrow> string \<Rightarrow> agent_task pg_op" where
  "pg_LatestTask pe sessionID =
     bindS (liftR (uuid_arg pe sessionID)) (\<lambda>sid.
     bindS
       (statement pe 0 [] (\<lambda>db.
          (Inr (case latest_task_row pe 0 sid db of None \<Rightarrow> [] | Some t \<Rightarrow> [task_of_row db t]), db)))
       first_task)"

definition pg_UpdateTask :: "pg_env \<Rightarrow> agent_task \<Rightarrow> unit pg_op" where
  "pg_UpdateTask pe task =
     bindS (liftR (uuid_arg pe (task_id task))) (\<lambda>tid.
     bindS (liftR (int4_arg pe (task_attempt task))) (\<lambda>attempt.
     bindS (liftR (case task_err task of None \<Rightarrow> Inr None
         | Some e \<Rightarrow> (case json_arg pe (pe_json_error pe e) of Inl err \<Rightarrow> Inl err | Inr e' \<Rightarrow> Inr (Some e')))) (\<lambda>errorJSON.
     bindS (liftR (json_arg pe (pe_json_relevant pe (task_relevant_files task)))) (\<lambda>relevantJSON.
     bindS (liftR (json_arg pe (pe_json_usage pe (task_usage task)))) (\<lambda>usageJSON.
     bindS
       (statement pe 0
         [task_status task, case task_err task of None \<Rightarrow> [] | Some e \<Rightarrow> te_detail e, task_model task, task_tool_execution_summary task]
         (update_rows pe agent_tasks (\<lambda>t. atk_id t = tid)
           (\<lambda>t. t\<lparr>atk_status := task_status task, atk_attempt := attempt,
              atk_error_message := (case task_err task of None \<Rightarrow> [] | Some e \<Rightarrow> te_detail e), atk_error := errorJSON,
              atk_relevant_files := relevantJSON, atk_model := task_model task, atk_usage := usageJSON,
              atk_tool_execution_summary := task_tool_execution_summary task,
              atk_started_at :=
                (if task_status task = ''processing'' \<and> atk_started_at t = None then Some (pe_now pe 0) else atk_started_at t),
              atk_completed_at :=
                (if task_status task \<in> {''completed'', ''failed''} then Some (pe_now pe 0) else atk_completed_at t),
              atk_updated_at := pe_now pe 0\<rparr>))) (\<lambda>affected.
       if affected = [] then failS ErrNotFound else retS ()))))))"

section \<open>Recommendations\<close>

definition recommendationCategory :: "string \<Rightarrow> string" where
  "recommendationCategory value = (if trim_space value = [] then ''general'' else value)"

definition complete_card :: "pg_env \<Rightarrow> nat \<Rightarrow> recommendation_card \<Rightarrow> recommendation_card" where
  "complete_card pe i item =
     item\<lparr>card_id := (if card_id item = [] then pe_newid pe i else card_id item),
       card_state := (if card_state item = [] then ''open'' else card_state item),
       card_severity := (if card_severity item = [] then ''medium'' else card_severity item)\<rparr>"

fun insert_cards :: "pg_env \<Rightarrow> nat \<Rightarrow> nat \<Rightarrow> string \<Rightarrow> recommendation_card list \<Rightarrow> recommendation_card list pg_op" where
  "insert_cards pe t i runID [] = retS []"
| "insert_cards pe t i runID (item0 # cards) =
     (let item = complete_card pe i item0 in
      bindS (liftR (uuid_arg pe (card_id item))) (\<lambda>cid.
      bindS (liftR (case card_line item of None \<Rightarrow> Inr None | Some n \<Rightarrow> map_sum id Some (int4_arg pe n))) (\<lambda>line.
      bindS
        (statement pe (t + 10 + i)
          [card_file item, card_category item, card_severity item, card_problem item, card_suggestion item,
           card_finding_fingerprint item, card_state item]
          (insert_unless pe recommendations
            (\<lambda>r. rcm_recommendation_run_id r = runID \<and>
               card_finding_fingerprint (rcm_card r) = card_finding_fingerprint item)
            \<lparr>rcm_recommendation_run_id = runID,
             rcm_card = item\<lparr>card_id := cid, card_line := line, card_category := recommendationCategory (card_category item)\<rparr>,
             rcm_created_at = pe_now pe t\<rparr>)) (\<lambda>_.
      bindS (insert_cards pe t (i + 1) runID cards) (\<lambda>rest. retS (item # rest))))))"

definition pg_SaveRecommendations ::
    "pg_env \<Rightarrow> repository_metadata \<Rightarrow> ai_config \<Rightarrow> string \<Rightarrow> recommendation_card list \<Rightarrow> recommendation_report pg_op" where
  "pg_SaveRecommendations pe repository cfg summary cards =
     transaction pe 0 4 (\<lambda>_. True)
       (bindS (upsertRepository pe 1 repository) (\<lambda>repositoryID.
        bindS (insertAIConfig pe 0 2 repositoryID cfg) (\<lambda>configID.
        bindS (liftR (int4_arg pe (cfg_retention_days cfg))) (\<lambda>days.
        bindS
          (statement pe 3 [summary]
            (insert_row pe recommendation_runs
              \<lparr>rrn_id = pe_fresh pe 3, rrn_repository_id = repositoryID, rrn_ai_config_id = configID, rrn_summary = summary,
               rrn_status = ''completed'', rrn_retention_days = days,
               rrn_expires_at = pe_now pe 0 + seconds (24 * 3600 * days), rrn_created_at = pe_now pe 0\<rparr>)) (\<lambda>run.
        bindS (insert_cards pe 0 0 (rrn_id run) (NormalizeRecommendations (pe_sha256 pe) cards)) (\<lambda>saved.
          retS \<lparr>rep_repository_id = repo_id repository, rep_summary = summary, rep_status = ''ready'',
            rep_recommendations = saved\<rparr>))))))"

definition runs_of_repository :: "pg_env \<Rightarrow> nat \<Rightarrow> string \<Rightarrow> database \<Rightarrow> recommendation_run_row list" where
  "runs_of_repository pe n repositoryID db =
     sort_key (\<lambda>rr. - rrn_created_at rr)
       (filter (\<lambda>rr. rrn_expires_at rr > pe_now pe n \<and>
           (\<exists>r \<in> set (db_repositories db). rpo_id r = rrn_repository_id rr \<and> rpo_external_id r = repositoryID))
         (scan pe n (db_recommendation_runs db)))"

definition cards_of_run :: "pg_env \<Rightarrow> nat \<Rightarrow> string \<Rightarrow> database \<Rightarrow> recommendation_card list" where
  "cards_of_run pe n runID db =
     map rcm_card
       (sort_key rcm_created_at
         (filter (\<lambda>r. rcm_recommendation_run_id r = runID \<and> card_state (rcm_card r) \<noteq> ''deleted'')
           (scan pe n (db_recommendations db))))"

definition pg_Recommendations :: "pg_env \<Rightarrow> string \<Rightarrow> recommendation_report pg_op" where
  "pg_Recommendations pe repositoryID =
     bindS (statement pe 0 [repositoryID] (\<lambda>db. (Inr (runs_of_repository pe 0 repositoryID db), db))) (\<lambda>found.
       case found of
         [] \<Rightarrow> failS ErrNotFound
       | rr # _ \<Rightarrow>
           bindS (statement pe 1 [] (\<lambda>db. (Inr (cards_of_run pe 1 (rrn_id rr) db), db))) (\<lambda>cards.
             retS \<lparr>rep_repository_id = repositoryID, rep_summary = rrn_summary rr,
               rep_status = (if rrn_status rr = ''completed'' then ''ready'' else rrn_status rr), rep_recommendations = cards\<rparr>))"

definition updateRecommendation :: "pg_env \<Rightarrow> string \<Rightarrow> string \<Rightarrow> recommendation_card pg_op" where
  "updateRecommendation pe k status =
     transaction pe 0 3 (\<lambda>_. True)
       (bindS
         (statement pe 1 [k]
           (update_rows pe recommendations (\<lambda>r. card_id (rcm_card r) = k)
             (\<lambda>r. r\<lparr>rcm_card := (rcm_card r)\<lparr>card_state := status\<rparr>\<rparr>))) (\<lambda>rows.
         case rows of
           [] \<Rightarrow> failS ErrNotFound
         | r # _ \<Rightarrow>
             bindS
               (statement pe 2 []
                 (insert_row pe recommendation_statuses
                   \<lparr>rst_recommendation_id = card_id (rcm_card r), rst_status = status, rst_changed_by = ''api''\<rparr>))
               (\<lambda>_. retS (rcm_card r))))"

definition pg_CloseRecommendation :: "pg_env \<Rightarrow> string \<Rightarrow> recommendation_card pg_op" where
  "pg_CloseRecommendation pe k = updateRecommendation pe k ''closed''"

definition pg_DeleteRecommendation :: "pg_env \<Rightarrow> string \<Rightarrow> unit pg_op" where
  "pg_DeleteRecommendation pe k = bindS (updateRecommendation pe k ''deleted'') (\<lambda>_. retS ())"

end
