(* ===== verification/Postgres_Integration.thy ===== *)
theory Postgres_Integration imports Postgres_Store begin

text \<open>
  backend/internal/repository/postgres.go, continued: connections, webhooks and their events, snapshots and the operational views.
\<close>

section \<open>Connections\<close>

definition stored_bytes :: "string \<Rightarrow> string option" where
  "stored_bytes b = (if b = [] then None else Some b)"

text \<open>\<open>$6\<close> is NULL when it is empty, and so are nil slices of bytes; the version of the key is always a number.\<close>

definition connection_row_of ::
    "string \<Rightarrow> string \<Rightarrow> string \<Rightarrow> string list \<Rightarrow> int \<Rightarrow> gotime \<Rightarrow> gitflame_connection \<Rightarrow> connection_row" where
  "connection_row_of cid uid repositoryID scopes version now c =
     \<lparr>cnx_id = cid, cnx_user_id = uid, cnx_repository_id = repositoryID, cnx_repo_url = con_repo_url c,
      cnx_default_branch = con_default_branch c, cnx_access_token_encrypted = stored_bytes (con_access_token_encrypted c),
      cnx_ciphertext = stored_bytes (tok_ciphertext (con_token_material c)),
      cnx_nonce = stored_bytes (tok_nonce (con_token_material c)), cnx_key_version = version,
      cnx_token_last4 = con_token_last4 c, cnx_token_status = con_token_status c, cnx_scopes = scopes,
      cnx_token_expires_at = map_option timestamptz (con_token_expires_at c),
      cnx_last_validated_at = map_option timestamptz (con_last_validated_at c), cnx_last_used_at = None,
      cnx_revoked_at = map_option timestamptz (con_revoked_at c), cnx_created_at = now, cnx_updated_at = now\<rparr>"

text \<open>The SET clause: everything but the identity, the time of creation and of the last use.\<close>

definition merge_connection :: "connection_row \<Rightarrow> connection_row \<Rightarrow> connection_row" where
  "merge_connection new old =
     new\<lparr>cnx_id := cnx_id old, cnx_user_id := cnx_user_id old, cnx_repository_id := cnx_repository_id old,
       cnx_created_at := cnx_created_at old, cnx_last_used_at := cnx_last_used_at old\<rparr>"

definition connection_of_row :: "connection_row \<Rightarrow> repository_row \<Rightarrow> gitflame_connection" where
  "connection_of_row c r =
     \<lparr>con_id = cnx_id c, con_user_id = cnx_user_id c,
      con_repository = \<lparr>repo_id = rpo_external_id r, repo_name = rpo_name r, repo_default_branch = rpo_default_branch r,
        repo_commit_sha = [], repo_web_url = rpo_web_url r\<rparr>,
      con_repo_url = cnx_repo_url c, con_default_branch = cnx_default_branch c,
      con_access_token_encrypted = (case cnx_access_token_encrypted c of None \<Rightarrow> [] | Some t \<Rightarrow> t),
      con_token_material = \<lparr>tok_ciphertext = (case cnx_ciphertext c of None \<Rightarrow> [] | Some b \<Rightarrow> b),
        tok_nonce = (case cnx_nonce c of None \<Rightarrow> [] | Some b \<Rightarrow> b), tok_key_version = cnx_key_version c\<rparr>,
      con_token_last4 = cnx_token_last4 c, con_token_status = cnx_token_status c, con_scopes = cnx_scopes c,
      con_token_expires_at = cnx_token_expires_at c, con_last_validated_at = cnx_last_validated_at c,
      con_last_used_at = cnx_last_used_at c, con_revoked_at = cnx_revoked_at c, con_created_at = cnx_created_at c,
      con_updated_at = cnx_updated_at c\<rparr>"

text \<open>\<open>gitFlameConnectionByPredicate\<close> gives the statement one argument when the first is empty, and two otherwise; a statement whose
  placeholders do not match is refused. \<open>LIMIT 1\<close> takes the first row of the scan.\<close>

definition connection_join :: "database \<Rightarrow> connection_row \<Rightarrow> (connection_row \<times> repository_row) option" where
  "connection_join db c =
     map_option (Pair c) (find (\<lambda>r. rpo_id r = cnx_repository_id c) (db_repositories db))"

definition gitFlameConnectionByPredicate ::
    "pg_env \<Rightarrow> nat \<Rightarrow> nat \<Rightarrow> (string list \<Rightarrow> connection_row \<Rightarrow> repository_row \<Rightarrow> bool) \<Rightarrow> string \<Rightarrow> string \<Rightarrow>
       gitflame_connection pg_op" where
  "gitFlameConnectionByPredicate pe n placeholders predicate fst_arg snd_arg =
     (let args = (if fst_arg \<noteq> [] then [fst_arg, snd_arg] else [snd_arg]) in
      bindS
        (statement pe n args (\<lambda>db.
           if length args \<noteq> placeholders then (Inl (refused pe ''arguments''), db)
           else
             (Inr (filter (\<lambda>(c, r). predicate args c r)
               (List.map_filter (connection_join db) (scan pe n (db_gitflame_connections db)))), db)))
        (\<lambda>found. case found of [] \<Rightarrow> failS ErrNotFound | (c, r) # _ \<Rightarrow> retS (connection_of_row c r)))"

definition pg_GitFlameConnection :: "pg_env \<Rightarrow> nat \<Rightarrow> string \<Rightarrow> gitflame_connection pg_op" where
  "pg_GitFlameConnection pe n k =
     gitFlameConnectionByPredicate pe n 1 (\<lambda>args c r. cnx_id c = args ! 0 \<or> rpo_external_id r = args ! 0) [] k"

definition pg_UserGitFlameConnection :: "pg_env \<Rightarrow> nat \<Rightarrow> string \<Rightarrow> string \<Rightarrow> gitflame_connection pg_op" where
  "pg_UserGitFlameConnection pe n userID k =
     gitFlameConnectionByPredicate pe n 2 (\<lambda>args c r. cnx_user_id c = args ! 0 \<and> cnx_id c = args ! 1) userID k"

definition pg_UserGitFlameConnectionByRepository :: "pg_env \<Rightarrow> string \<Rightarrow> string \<Rightarrow> gitflame_connection pg_op" where
  "pg_UserGitFlameConnectionByRepository pe userID repositoryID =
     gitFlameConnectionByPredicate pe 0 2
       (\<lambda>args c r. cnx_user_id c = args ! 0 \<and> rpo_external_id r = args ! 1 \<and> cnx_revoked_at c = None) userID repositoryID"

text \<open>The defaults that \<open>SaveGitFlameConnection\<close> fills in, in its order.\<close>

definition pg_connection_defaults :: "pg_env \<Rightarrow> gitflame_connection \<Rightarrow> gitflame_connection" where
  "pg_connection_defaults pe c0 =
     (let repository = con_repository c0;
          branch1 = (if repo_default_branch repository = [] then con_default_branch c0 else repo_default_branch repository);
          branch = (if branch1 = [] then ''main'' else branch1) in
      c0\<lparr>con_repository := repository\<lparr>repo_default_branch := branch\<rparr>,
        con_id := (if con_id c0 = [] then pe_newid pe 0 else con_id c0),
        con_default_branch := (if con_default_branch c0 = [] then branch else con_default_branch c0),
        con_token_status := (if con_token_status c0 = [] then ''active'' else con_token_status c0)\<rparr>)"

definition save_connection_row :: "pg_env \<Rightarrow> gitflame_connection \<Rightarrow> connection_row pg_op" where
  "save_connection_row pe c =
     bindS (upsertRepository pe 1 (con_repository c)) (\<lambda>repositoryID.
     bindS (liftR (json_arg pe (pe_json_strings pe (con_scopes c)))) (\<lambda>scopes.
     bindS (liftR (uuid_arg pe (con_id c))) (\<lambda>cid.
     bindS (liftR (uuid_arg pe (con_user_id c))) (\<lambda>uid.
     bindS (liftR (int4_arg pe (tok_key_version (con_token_material c)))) (\<lambda>version.
       let row = connection_row_of cid uid repositoryID scopes version (pe_now pe 0) c in
       statement pe 2
         [con_repo_url c, con_default_branch c, con_access_token_encrypted c, con_token_last4 c, con_token_status c]
         (upsert_row pe gitflame_connections (\<lambda>r. cnx_user_id r = uid \<and> cnx_repository_id r = repositoryID)
           (merge_connection row) row))))))"

definition pg_SaveGitFlameConnection :: "pg_env \<Rightarrow> gitflame_connection \<Rightarrow> gitflame_connection pg_op" where
  "pg_SaveGitFlameConnection pe c0 =
     (if trim_space (con_user_id c0) = [] then failS (ErrText ''gitflame connection requires user id'')
      else
        bindS (transaction pe 0 3 (\<lambda>_. True) (save_connection_row pe (pg_connection_defaults pe c0))) (\<lambda>row.
          pg_GitFlameConnection pe 4 (cnx_id row)))"

definition pg_RevokeGitFlameConnection :: "pg_env \<Rightarrow> string \<Rightarrow> string \<Rightarrow> gitflame_connection pg_op" where
  "pg_RevokeGitFlameConnection pe userID k =
     bindS (liftR (uuid_arg pe userID)) (\<lambda>uid.
     bindS (liftR (uuid_arg pe k)) (\<lambda>cid.
     bindS
       (statement pe 0 []
         (update_rows pe gitflame_connections (\<lambda>c. cnx_user_id c = uid \<and> cnx_id c = cid)
           (\<lambda>c. c\<lparr>cnx_token_status := ''revoked'', cnx_revoked_at := Some (pe_now pe 0), cnx_updated_at := pe_now pe 0\<rparr>))) (\<lambda>rows.
       case rows of [] \<Rightarrow> failS ErrNotFound | c # _ \<Rightarrow> pg_UserGitFlameConnection pe 1 userID (cnx_id c))))"

definition pg_TouchGitFlameConnection :: "pg_env \<Rightarrow> string \<Rightarrow> string \<Rightarrow> unit pg_op" where
  "pg_TouchGitFlameConnection pe userID k =
     bindS (liftR (uuid_arg pe userID)) (\<lambda>uid.
     bindS (liftR (uuid_arg pe k)) (\<lambda>cid.
     bindS
       (statement pe 0 []
         (update_rows pe gitflame_connections (\<lambda>c. cnx_user_id c = uid \<and> cnx_id c = cid)
           (\<lambda>c. c\<lparr>cnx_last_used_at := Some (pe_now pe 0), cnx_updated_at := pe_now pe 0\<rparr>))) (\<lambda>affected.
       if affected = [] then failS ErrNotFound else retS ())))"

section \<open>Webhooks and their events\<close>

definition pg_SaveGitFlameWebhook :: "pg_env \<Rightarrow> gitflame_webhook_registration \<Rightarrow> gitflame_webhook_registration pg_op" where
  "pg_SaveGitFlameWebhook pe w0 =
     (let w = w0\<lparr>wh_id := (if wh_id w0 = [] then pe_newid pe 0 else wh_id w0),
            wh_status := (if wh_status w0 = [] then ''pending'' else wh_status w0)\<rparr> in
      bindS (liftR (uuid_arg pe (wh_id w))) (\<lambda>wid.
      bindS (liftR (uuid_arg pe (wh_connection_id w))) (\<lambda>cid.
      bindS (liftR (json_arg pe (pe_json_strings pe (wh_events w)))) (\<lambda>events.
      bindS
        (statement pe 0 [wh_webhook_url w, wh_webhook_secret_hash w, wh_status w, wh_external_webhook_id w]
          (upsert_row pe gitflame_webhooks (\<lambda>r. wh_connection_id r = cid \<and> wh_webhook_url r = wh_webhook_url w)
            (\<lambda>r. r\<lparr>wh_webhook_secret_hash := wh_webhook_secret_hash w, wh_events := events, wh_status := wh_status w,
               wh_external_webhook_id := wh_external_webhook_id w, wh_updated_at := pe_now pe 0\<rparr>)
            (w\<lparr>wh_id := wid, wh_connection_id := cid, wh_events := events, wh_created_at := pe_now pe 0,
               wh_updated_at := pe_now pe 0\<rparr>))) (\<lambda>row.
        retS (w\<lparr>wh_id := wh_id row, wh_created_at := wh_created_at row, wh_updated_at := wh_updated_at row\<rparr>))))))"

definition first_webhook :: "gitflame_webhook_registration list \<Rightarrow> gitflame_webhook_registration pg_op" where
  "first_webhook found = (case found of [] \<Rightarrow> failS ErrNotFound | w # _ \<Rightarrow> retS w)"

definition pg_GitFlameWebhook :: "pg_env \<Rightarrow> string \<Rightarrow> gitflame_webhook_registration pg_op" where
  "pg_GitFlameWebhook pe k =
     bindS (liftR (uuid_arg pe k)) (\<lambda>wid.
     bindS (statement pe 0 [] (\<lambda>db. (Inr (filter (\<lambda>w. wh_id w = wid) (db_gitflame_webhooks db)), db))) first_webhook)"

definition pg_GitFlameWebhookByConnection :: "pg_env \<Rightarrow> string \<Rightarrow> gitflame_webhook_registration pg_op" where
  "pg_GitFlameWebhookByConnection pe connectionID =
     bindS (liftR (uuid_arg pe connectionID)) (\<lambda>cid.
     bindS
       (statement pe 0 [] (\<lambda>db.
          (Inr (sort_key (\<lambda>w. - wh_updated_at w)
            (filter (\<lambda>w. wh_connection_id w = cid) (scan pe 0 (db_gitflame_webhooks db)))), db)))
       first_webhook)"

text \<open>The SET clause leaves the webhook and the time of receipt.\<close>

definition merge_event :: "gitflame_webhook_event \<Rightarrow> gitflame_webhook_event \<Rightarrow> gitflame_webhook_event" where
  "merge_event new old = new\<lparr>ev_id := ev_id old, ev_webhook_id := ev_webhook_id old, ev_received_at := ev_received_at old\<rparr>"

text \<open>The time of receipt is that of the row, which a conflict keeps; the caller's record is returned with it.\<close>

definition pg_SaveGitFlameWebhookEvent :: "pg_env \<Rightarrow> gitflame_webhook_event \<Rightarrow> gitflame_webhook_event pg_op" where
  "pg_SaveGitFlameWebhookEvent pe e0 =
     (let e = e0\<lparr>ev_id := (if ev_id e0 = [] then pe_newid pe 0 else ev_id e0),
            ev_status := (if ev_status e0 = [] then ''received'' else ev_status e0),
            ev_received_at := (if time_IsZero (ev_received_at e0) then pe_clock pe else ev_received_at e0)\<rparr> in
      bindS (liftR (uuid_arg pe (ev_id e))) (\<lambda>eid.
      bindS (liftR (uuid_arg pe (ev_webhook_id e))) (\<lambda>wid.
      bindS (liftR (optional_uuid pe (ev_issue_session_id e))) (\<lambda>sid.
      bindS (liftR (json_arg pe (pe_json_payload pe (ev_payload e)))) (\<lambda>payload.
      bindS (liftR (case ev_error e of None \<Rightarrow> Inr None
          | Some er \<Rightarrow> (case json_arg pe (pe_json_error pe er) of Inl err \<Rightarrow> Inl err | Inr er' \<Rightarrow> Inr (Some er')))) (\<lambda>errorJSON.
      let proposed = e\<lparr>ev_id := eid, ev_webhook_id := wid, ev_issue_session_id := (case sid of None \<Rightarrow> [] | Some s \<Rightarrow> s),
            ev_payload := payload, ev_error := errorJSON, ev_received_at := timestamptz (ev_received_at e),
            ev_processed_at := map_option timestamptz (ev_processed_at e)\<rparr> in
      bindS
        (statement pe 0 [ev_event_type e, ev_action e, ev_delivery_id e, ev_repository_id e, ev_status e]
          (upsert_row pe gitflame_webhook_events (\<lambda>r. ev_id r = eid) (merge_event proposed) proposed)) (\<lambda>row.
        retS (e\<lparr>ev_received_at := ev_received_at row\<rparr>))))))))"

definition pg_GitFlameWebhookEvents :: "pg_env \<Rightarrow> string \<Rightarrow> int \<Rightarrow> gitflame_webhook_event list pg_op" where
  "pg_GitFlameWebhookEvents pe webhookID limit0 =
     (let limit = (if limit0 < 1 \<or> limit0 > 100 then 50 else limit0) in
      bindS (liftR (uuid_arg pe webhookID)) (\<lambda>wid.
        statement pe 0 [] (\<lambda>db.
          (Inr (take (nat limit)
            (sort_key (\<lambda>e. - ev_received_at e)
              (filter (\<lambda>e. ev_webhook_id e = wid) (scan pe 0 (db_gitflame_webhook_events db))))), db))))"

section \<open>Snapshots\<close>

fun insert_snapshot_files :: "pg_env \<Rightarrow> nat \<Rightarrow> string \<Rightarrow> repository_snapshot_file list \<Rightarrow> unit pg_op" where
  "insert_snapshot_files pe n sid [] = retS ()"
| "insert_snapshot_files pe n sid (file # files) =
     bindS
       (statement pe n [sf_path file, sf_content_hash file, sf_commit_sha file] (insert_row pe repository_snapshot_files (sid, file)))
       (\<lambda>_. insert_snapshot_files pe (n + 1) sid files)"

definition snapshot_error_json :: "pg_env \<Rightarrow> task_error option \<Rightarrow> task_error option result" where
  "snapshot_error_json pe err =
     (case err of
        None \<Rightarrow> Inr None
      | Some e \<Rightarrow> (case json_arg pe (pe_json_error pe e) of Inl failure \<Rightarrow> Inl failure | Inr e' \<Rightarrow> Inr (Some e')))"

definition pg_SaveRepositorySnapshot ::
    "pg_env \<Rightarrow> repository_snapshot \<Rightarrow> repository_snapshot_file list \<Rightarrow> repository_snapshot pg_op" where
  "pg_SaveRepositorySnapshot pe snapshot0 files =
     (let snapshot = snapshot0\<lparr>sn_id := (if sn_id snapshot0 = [] then pe_newid pe 0 else sn_id snapshot0),
            sn_status := (if sn_status snapshot0 = [] then ''fetched'' else sn_status snapshot0),
            sn_file_count := (if sn_file_count snapshot0 = 0 then go_len files else sn_file_count snapshot0)\<rparr> in
      transaction pe 0 5 (\<lambda>_. True)
        (if trim_space (sn_repository_id snapshot) = [] then failS (ErrText ''repository snapshot requires repository id'')
         else
           bindS (ensureRepositoryForSnapshot pe 1 (sn_repository_id snapshot)) (\<lambda>repositoryID.
           bindS (liftR (uuid_arg pe (sn_id snapshot))) (\<lambda>sid.
           bindS (liftR (optional_uuid pe (sn_connection_id snapshot))) (\<lambda>cid.
           bindS (liftR (optional_uuid pe (sn_ai_config_id snapshot))) (\<lambda>aid.
           bindS (liftR (int4_arg pe (sn_file_count snapshot))) (\<lambda>fileCount.
           bindS (liftR (snapshot_error_json pe (sn_error snapshot))) (\<lambda>errorJSON.
           let row = \<lparr>sn_id = sid, sn_repository_id = repositoryID, sn_connection_id = (case cid of None \<Rightarrow> [] | Some c \<Rightarrow> c),
                 sn_ref = sn_ref snapshot, sn_commit_sha = sn_commit_sha snapshot,
                 sn_ai_config_id = (case aid of None \<Rightarrow> [] | Some a \<Rightarrow> a), sn_file_count = fileCount,
                 sn_status = sn_status snapshot, sn_error = errorJSON, sn_fetched_at = pe_now pe 0\<rparr> in
           bindS
             (statement pe 3 [sn_ref snapshot, sn_commit_sha snapshot, sn_status snapshot]
               (upsert_row pe repository_snapshots (\<lambda>r. sn_id r = sid)
                 (\<lambda>r. row\<lparr>sn_id := sn_id r, sn_repository_id := sn_repository_id r\<rparr>) row)) (\<lambda>saved.
           bindS (statement pe 4 [] (delete_rows repository_snapshot_files (\<lambda>f. fst f = sid))) (\<lambda>_.
           bindS (insert_snapshot_files pe 10 sid files) (\<lambda>_.
             retS (snapshot\<lparr>sn_fetched_at := sn_fetched_at saved\<rparr>))))))))))))"

definition pg_RepositorySnapshot ::
    "pg_env \<Rightarrow> string \<Rightarrow> (repository_snapshot \<times> repository_snapshot_file list) pg_op" where
  "pg_RepositorySnapshot pe k =
     bindS
       (statement pe 0 [k] (\<lambda>db.
          (Inr (List.map_filter
            (\<lambda>s. map_option (\<lambda>r. s\<lparr>sn_repository_id := rpo_external_id r\<rparr>)
              (find (\<lambda>r. rpo_id r = sn_repository_id s) (db_repositories db)))
            (filter (\<lambda>s. sn_id s = k) (db_repository_snapshots db))), db)))
       (\<lambda>found.
         case found of
           [] \<Rightarrow> failS ErrNotFound
         | snapshot # _ \<Rightarrow>
             bindS
               (statement pe 1 [] (\<lambda>db.
                  (Inr (sort_key sf_path
                    (map snd (filter (\<lambda>f. fst f = sn_id snapshot) (scan pe 1 (db_repository_snapshot_files db))))), db)))
               (\<lambda>files. retS (snapshot, files)))"

section \<open>Operational views\<close>

text \<open>GROUP BY with COUNT: a map from the groups to the numbers of their rows.\<close>

definition pg_ObservabilityCounts :: "pg_env \<Rightarrow> observability_counts pg_op" where
  "pg_ObservabilityCounts pe =
     bindS
       (statement pe 0 [] (\<lambda>db.
          (Inr (tally (map (\<lambda>c. if cnx_token_status c = [] then ''unknown'' else cnx_token_status c) (db_gitflame_connections db))), db)))
       (\<lambda>connections.
     bindS
       (statement pe 1 [] (\<lambda>db.
          (Inr (tally (map atk_status
            (filter (\<lambda>t. atk_created_at t \<ge> pe_now pe 1 - seconds (24 * 3600)) (db_agent_tasks db)))), db)))
       (\<lambda>tasks. retS \<lparr>oc_connections_by_token_status = connections, oc_tasks_by_status_last24h = tasks\<rparr>))"

definition summary_of_row :: "agent_task_row \<Rightarrow> agent_task_summary" where
  "summary_of_row t =
     \<lparr>sum_id = atk_id t, sum_session_id = atk_issue_session_id t, sum_type = atk_task_type t, sum_status = atk_status t,
      sum_attempt = atk_attempt t, sum_model = atk_model t,
      sum_error_code = (case atk_error t of None \<Rightarrow> [] | Some e \<Rightarrow> te_code e),
      sum_duration_ms = milliseconds_of (time_Sub (atk_updated_at t) (atk_created_at t)), sum_created_at = atk_created_at t,
      sum_updated_at = atk_updated_at t\<rparr>"

definition pg_RecentAgentTasks :: "pg_env \<Rightarrow> recent_tasks_query \<Rightarrow> agent_task_summary list pg_op" where
  "pg_RecentAgentTasks pe query =
     (let limit = (if rq_limit query \<le> 0 \<or> rq_limit query > 200 then 50 else rq_limit query) in
      statement pe 0 [rq_status query] (\<lambda>db.
        (Inr (map summary_of_row
          (take (nat limit)
            (sort_key (\<lambda>t. - atk_created_at t)
              (filter (\<lambda>t. rq_status query = [] \<or> atk_status t = rq_status query) (scan pe 0 (db_agent_tasks db)))))), db)))"

end
