(* ===== verification/Postgres_Constraints.thy ===== *)
theory Postgres_Constraints imports Postgres_Integration begin

text \<open>
  The constraints of the database hold in every state that the operations of the store can produce: a table is an interface (its rows, the
  identifiers that other tables refer to) with the statements as its operations, proved once and interpreted for each of the twenty
  tables.
\<close>

section \<open>Constraints\<close>

definition rows_ok :: "'r table \<Rightarrow> 'r list \<Rightarrow> (string \<times> string) set \<Rightarrow> bool" where
  "rows_ok tb rows ids \<longleftrightarrow>
     sorted_wrt (\<lambda>r r'. \<not> tb_clash tb r r') rows \<and> (\<forall>r \<in> set rows. tb_check tb r = None \<and> set (tb_refs tb r) \<subseteq> ids)"

definition table_ok :: "'r table \<Rightarrow> database \<Rightarrow> bool" where
  "table_ok tb db \<longleftrightarrow> rows_ok tb (tb_rows tb db) (known db)"

definition db_ok :: "database \<Rightarrow> bool" where
  "db_ok db \<longleftrightarrow>
     table_ok app_users db \<and> table_ok app_sessions db \<and> table_ok repositories db \<and> table_ok gitflame_connections db \<and>
     table_ok gitflame_webhooks db \<and> table_ok gitflame_webhook_events db \<and> table_ok repository_files db \<and> table_ok ai_configs db \<and>
     table_ok repository_snapshots db \<and> table_ok repository_snapshot_files db \<and> table_ok issue_sessions db \<and>
     table_ok generated_plans db \<and> table_ok agent_tasks db \<and> table_ok plan_revisions db \<and> table_ok git_workflow_payloads db \<and>
     table_ok generated_files db \<and> table_ok user_responses db \<and> table_ok recommendation_runs db \<and> table_ok recommendations db \<and>
     table_ok recommendation_statuses db"

lemmas table_defs =
  app_users_def app_sessions_def repositories_def gitflame_connections_def gitflame_webhooks_def gitflame_webhook_events_def
  repository_files_def ai_configs_def repository_snapshots_def repository_snapshot_files_def issue_sessions_def generated_plans_def
  agent_tasks_def plan_revisions_def git_workflow_payloads_def generated_files_def user_responses_def recommendation_runs_def
  recommendations_def recommendation_statuses_def

lemma rows_ok_mono: "rows_ok tb rows ids \<Longrightarrow> ids \<subseteq> ids' \<Longrightarrow> rows_ok tb rows ids'"
  by (auto simp: rows_ok_def)

lemma db_ok_empty: "db_ok empty_database"
  by (simp add: db_ok_def table_ok_def rows_ok_def empty_database_def table_defs)

section \<open>The interface of a table\<close>

text \<open>\<open>ident\<close> are the references that the row itself answers.\<close>

locale constrained_table =
  fixes tb :: "'r table" and ident :: "'r \<Rightarrow> (string \<times> string) set"
  assumes rows_put: "tb_rows tb (tb_put tb rows db) = rows"
    and put_rows: "tb_put tb (tb_rows tb db) db = db"
    and put_put: "tb_put tb rows (tb_put tb rows' db) = tb_put tb rows db"
    and clash_sym: "tb_clash tb r r' \<Longrightarrow> tb_clash tb r' r"
    and known_put: "(\<Union>r \<in> set rows. ident r) \<subseteq> (\<Union>r \<in> set rows'. ident r) \<Longrightarrow>
      known (tb_put tb rows db) \<subseteq> known (tb_put tb rows' db)"
    and ok_put: "db_ok db \<Longrightarrow> known db \<subseteq> known (tb_put tb rows db) \<Longrightarrow> rows_ok tb rows (known (tb_put tb rows db)) \<Longrightarrow>
      db_ok (tb_put tb rows db)"
    and ok_get: "db_ok db \<Longrightarrow> table_ok tb db"

lemma sorted_wrt_unique:
  assumes "sorted_wrt (\<lambda>r r'. \<not> C r r') rows" and "\<And>r r'. P r \<Longrightarrow> P r' \<Longrightarrow> C r r'"
  shows "filter P rows = [] \<or> (\<exists>r. filter P rows = [r])"
proof -
  have "sorted_wrt (\<lambda>r r'. \<not> C r r') (filter P rows)" using assms(1) by (rule sorted_wrt_filter)
  then show ?thesis
  proof (cases "filter P rows")
    case (Cons r rest)
    show ?thesis
    proof (cases rest)
      case (Cons r' rest')
      with \<open>filter P rows = r # rest\<close> have "{r, r'} \<subseteq> set (filter P rows)" by simp
      then have "P r" "P r'" by auto
      with \<open>sorted_wrt _ (filter P rows)\<close> \<open>filter P rows = r # rest\<close> Cons assms(2) show ?thesis by simp
    qed (use Cons in simp)
  qed simp
qed

lemma find_None_all: "find P xs = None \<Longrightarrow> x \<in> set xs \<Longrightarrow> \<not> P x"
  by (auto simp: find_None_iff)

text \<open>Replacing the one row of a key by a row that clashes with no other keeps rows apart.\<close>

lemma sorted_wrt_replace:
  assumes "sorted_wrt (\<lambda>r r'. \<not> C r r') rows" and sym: "\<And>r r'. C r r' \<Longrightarrow> C r' r"
    and single: "\<And>r r'. P r \<Longrightarrow> P r' \<Longrightarrow> C r r'"
    and apart: "\<And>r r'. r \<in> set rows \<Longrightarrow> P r \<Longrightarrow> r' \<in> set rows \<Longrightarrow> \<not> P r' \<Longrightarrow> \<not> C (f r) r'"
  shows "sorted_wrt (\<lambda>r r'. \<not> C r r') (map (\<lambda>r. if P r then f r else r) rows)"
  using assms(1) apart
proof (induction rows)
  case (Cons r rows)
  have "\<not> C (if P r then f r else r) (if P r' then f r' else r')" if "r' \<in> set rows" for r'
  proof -
    have "\<not> C r r'" using Cons.prems(1) that by simp
    then have "\<not> (P r \<and> P r')" using single by blast
    then show ?thesis
      using Cons.prems(2) [of r r'] Cons.prems(2) [of r' r] that sym [of r "f r'"] \<open>\<not> C r r'\<close> by auto
  qed
  moreover have "sorted_wrt (\<lambda>r r'. \<not> C r r') (map (\<lambda>r. if P r then f r else r) rows)"
    using Cons.prems by (intro Cons.IH) auto
  ultimately show ?case by (simp only: list.map sorted_wrt.simps set_map ball_simps) blast
qed simp

context constrained_table begin

lemma known_grows:
  "(\<Union>r \<in> set (tb_rows tb db). ident r) \<subseteq> (\<Union>r \<in> set rows. ident r) \<Longrightarrow> known db \<subseteq> known (tb_put tb rows db)"
  using known_put [of "tb_rows tb db" rows db] by (simp add: put_rows)

lemma rows_ok_get: "db_ok db \<Longrightarrow> rows_ok tb (tb_rows tb db) (known db)"
  using ok_get by (simp add: table_ok_def)

lemma insert_keeps: "keeps db_ok (insert_row pe tb r)"
proof (rule keepsI)
  fix db assume ok: "db_ok db"
  let ?rows = "tb_rows tb db @ [r]"
  have grows: "known db \<subseteq> known (tb_put tb ?rows db)" by (rule known_grows) auto
  have "db_ok (tb_put tb ?rows db)"
    if "tb_check tb r = None" "\<not> list_ex (tb_clash tb r) (tb_rows tb db)" "set (tb_refs tb r) \<subseteq> known db"
  proof (rule ok_put [OF ok grows])
    have "sorted_wrt (\<lambda>r r'. \<not> tb_clash tb r r') ?rows"
      using rows_ok_get [OF ok] that(2) by (auto simp: rows_ok_def sorted_wrt_append list_ex_iff dest: clash_sym)
    then show "rows_ok tb ?rows (known (tb_put tb ?rows db))"
      using rows_ok_get [OF ok] that grows by (auto simp: rows_ok_def)
  qed
  with ok show "db_ok (snd (insert_row pe tb r db))" by (auto simp: insert_row_def split: option.split)
qed

lemma rows_apart:
  assumes "db_ok db" and "r \<in> set (tb_rows tb db)" and "r' \<in> set (tb_rows tb db)" and "r \<noteq> r'"
  shows "\<not> tb_clash tb r r'"
proof -
  have "\<not> tb_clash tb r r' \<or> \<not> tb_clash tb r' r"
    using rows_ok_get [OF assms(1)] assms(2-4) by (auto simp: rows_ok_def in_set_conv_nth sorted_wrt_iff_nth_less) (metis linorder_neqE_nat)
  with clash_sym show ?thesis by blast
qed

text \<open>An update that leaves keys, checks and references alone is never refused.\<close>

lemma update_succeeds:
  assumes "db_ok db"
    and "\<And>r. r \<in> set (tb_rows tb db) \<Longrightarrow> P r \<Longrightarrow>
      tb_check tb (f r) = None \<and> set (tb_refs tb (f r)) \<subseteq> known db \<and> (\<forall>r'. tb_clash tb (f r) r' \<longrightarrow> tb_clash tb r r')"
  shows "update_rows pe tb P f db =
    (Inr (map f (filter P (tb_rows tb db))), tb_put tb (map (\<lambda>r. if P r then f r else r) (tb_rows tb db)) db)"
proof -
  let ?changed = "map f (filter P (tb_rows tb db))"
  have "find (\<lambda>r. tb_check tb r \<noteq> None) ?changed = None" using assms(2) by (auto simp: find_None_iff)
  moreover have "\<not> list_ex (\<lambda>r. list_ex (tb_clash tb r) (filter (\<lambda>r. \<not> P r) (tb_rows tb db))) ?changed"
    using assms(2) rows_apart [OF assms(1)] by (fastforce simp: list_ex_iff)
  moreover have "list_all (\<lambda>r. set (tb_refs tb r) \<subseteq> known db) ?changed" using assms(2) by (auto simp: list_all_iff)
  ultimately show ?thesis by (simp add: update_rows_def Let_def)
qed

lemma update_keeps:
  assumes "\<And>r. ident r \<subseteq> ident (f r)" and "\<And>r r'. P r \<Longrightarrow> P r' \<Longrightarrow> tb_clash tb r r'"
  shows "keeps db_ok (update_rows pe tb P f)"
proof (rule keepsI)
  fix db assume ok: "db_ok db"
  let ?rows = "map (\<lambda>r. if P r then f r else r) (tb_rows tb db)" and ?changed = "map f (filter P (tb_rows tb db))"
  have grows: "known db \<subseteq> known (tb_put tb ?rows db)"
    by (rule known_grows) (use assms(1) in \<open>auto split: if_splits\<close>)
  have "db_ok (tb_put tb ?rows db)"
    if checks: "find (\<lambda>r. tb_check tb r \<noteq> None) ?changed = None"
      and apart: "\<not> list_ex (\<lambda>r. list_ex (tb_clash tb r) (filter (\<lambda>r. \<not> P r) (tb_rows tb db))) ?changed"
      and refs: "list_all (\<lambda>r. set (tb_refs tb r) \<subseteq> known db) ?changed"
  proof (rule ok_put [OF ok grows])
    have "sorted_wrt (\<lambda>r r'. \<not> tb_clash tb r r') ?rows"
      by (rule sorted_wrt_replace)
        (use rows_ok_get [OF ok] clash_sym assms(2) apart in \<open>auto simp: rows_ok_def list_ex_iff\<close>)
    moreover have "tb_check tb (f r) = None \<and> set (tb_refs tb (f r)) \<subseteq> known db" if "r \<in> set (tb_rows tb db)" "P r" for r
      using that refs find_None_all [OF checks, of "f r"] by (auto simp: list_all_iff)
    ultimately show "rows_ok tb ?rows (known (tb_put tb ?rows db))"
      using rows_ok_get [OF ok] grows by (fastforce simp: rows_ok_def)
  qed
  with ok show "db_ok (snd (update_rows pe tb P f db))" by (auto simp: update_rows_def Let_def split: option.split)
qed

lemma upsert_keeps:
  assumes "\<And>r. ident r \<subseteq> ident (merge r)" and "\<And>r r'. same r \<Longrightarrow> same r' \<Longrightarrow> tb_clash tb r r'"
  shows "keeps db_ok (upsert_row pe tb same merge r)"
proof (rule keepsI)
  fix db assume ok: "db_ok db"
  obtain res db' where run: "update_rows pe tb same merge db = (res, db')" by fastforce
  then have "db_ok db'" using keepsD [OF update_keeps [of merge same, OF assms] ok, of pe] by simp
  with ok run show "db_ok (snd (upsert_row pe tb same merge r db))"
    using keepsD [OF insert_keeps ok] by (auto simp: upsert_row_def split: option.split sum.split list.split)
qed

lemma insert_unless_keeps: "keeps db_ok (insert_unless pe tb same r)"
proof (rule keepsI)
  fix db assume ok: "db_ok db"
  obtain res db' where run: "insert_row pe tb r db = (res, db')" by fastforce
  then have "db_ok db'" using keepsD [OF insert_keeps ok, of pe r] by simp
  with ok run show "db_ok (snd (insert_unless pe tb same r db))"
    by (auto simp: insert_unless_def split: option.split sum.split)
qed

lemma delete_keeps:
  assumes "\<And>r. ident r = {}"
  shows "keeps db_ok (delete_rows tb P)"
proof (rule keepsI)
  fix db assume ok: "db_ok db"
  let ?rows = "filter (\<lambda>r. \<not> P r) (tb_rows tb db)"
  have grows: "known db \<subseteq> known (tb_put tb ?rows db)" by (rule known_grows) (simp add: assms)
  have "db_ok (tb_put tb ?rows db)"
    by (rule ok_put [OF ok grows])
      (use rows_ok_get [OF ok] grows in \<open>auto simp: rows_ok_def intro!: sorted_wrt_filter\<close>)
  then show "db_ok (snd (delete_rows tb P db))" by (simp add: delete_rows_def)
qed

end

section \<open>The tables of the schema\<close>

text \<open>The rows of a table are those of its component of the database.\<close>

lemma table_rows [simp]:
  "tb_rows app_users = db_app_users" "tb_put app_users = (\<lambda>rows db. db\<lparr>db_app_users := rows\<rparr>)"
  "tb_rows app_sessions = db_app_sessions" "tb_put app_sessions = (\<lambda>rows db. db\<lparr>db_app_sessions := rows\<rparr>)"
  "tb_rows repositories = db_repositories" "tb_put repositories = (\<lambda>rows db. db\<lparr>db_repositories := rows\<rparr>)"
  "tb_rows gitflame_connections = db_gitflame_connections" "tb_put gitflame_connections = (\<lambda>rows db. db\<lparr>db_gitflame_connections := rows\<rparr>)"
  "tb_rows gitflame_webhooks = db_gitflame_webhooks" "tb_put gitflame_webhooks = (\<lambda>rows db. db\<lparr>db_gitflame_webhooks := rows\<rparr>)"
  "tb_rows gitflame_webhook_events = db_gitflame_webhook_events" "tb_put gitflame_webhook_events = (\<lambda>rows db. db\<lparr>db_gitflame_webhook_events := rows\<rparr>)"
  "tb_rows repository_files = db_repository_files" "tb_put repository_files = (\<lambda>rows db. db\<lparr>db_repository_files := rows\<rparr>)"
  "tb_rows ai_configs = db_ai_configs" "tb_put ai_configs = (\<lambda>rows db. db\<lparr>db_ai_configs := rows\<rparr>)"
  "tb_rows repository_snapshots = db_repository_snapshots" "tb_put repository_snapshots = (\<lambda>rows db. db\<lparr>db_repository_snapshots := rows\<rparr>)"
  "tb_rows repository_snapshot_files = db_repository_snapshot_files" "tb_put repository_snapshot_files = (\<lambda>rows db. db\<lparr>db_repository_snapshot_files := rows\<rparr>)"
  "tb_rows issue_sessions = db_issue_sessions" "tb_put issue_sessions = (\<lambda>rows db. db\<lparr>db_issue_sessions := rows\<rparr>)"
  "tb_rows generated_plans = db_generated_plans" "tb_put generated_plans = (\<lambda>rows db. db\<lparr>db_generated_plans := rows\<rparr>)"
  "tb_rows agent_tasks = db_agent_tasks" "tb_put agent_tasks = (\<lambda>rows db. db\<lparr>db_agent_tasks := rows\<rparr>)"
  "tb_rows plan_revisions = db_plan_revisions" "tb_put plan_revisions = (\<lambda>rows db. db\<lparr>db_plan_revisions := rows\<rparr>)"
  "tb_rows git_workflow_payloads = db_git_workflow_payloads" "tb_put git_workflow_payloads = (\<lambda>rows db. db\<lparr>db_git_workflow_payloads := rows\<rparr>)"
  "tb_rows generated_files = db_generated_files" "tb_put generated_files = (\<lambda>rows db. db\<lparr>db_generated_files := rows\<rparr>)"
  "tb_rows user_responses = db_user_responses" "tb_put user_responses = (\<lambda>rows db. db\<lparr>db_user_responses := rows\<rparr>)"
  "tb_rows recommendation_runs = db_recommendation_runs" "tb_put recommendation_runs = (\<lambda>rows db. db\<lparr>db_recommendation_runs := rows\<rparr>)"
  "tb_rows recommendations = db_recommendations" "tb_put recommendations = (\<lambda>rows db. db\<lparr>db_recommendations := rows\<rparr>)"
  "tb_rows recommendation_statuses = db_recommendation_statuses" "tb_put recommendation_statuses = (\<lambda>rows db. db\<lparr>db_recommendation_statuses := rows\<rparr>)"
  by (simp_all add: table_defs)

lemma table_clash_commute:
  "tb_clash app_users x0 y0 \<Longrightarrow> tb_clash app_users y0 x0"
  "tb_clash app_sessions x1 y1 \<Longrightarrow> tb_clash app_sessions y1 x1"
  "tb_clash repositories x2 y2 \<Longrightarrow> tb_clash repositories y2 x2"
  "tb_clash gitflame_connections x3 y3 \<Longrightarrow> tb_clash gitflame_connections y3 x3"
  "tb_clash gitflame_webhooks x4 y4 \<Longrightarrow> tb_clash gitflame_webhooks y4 x4"
  "tb_clash gitflame_webhook_events x5 y5 \<Longrightarrow> tb_clash gitflame_webhook_events y5 x5"
  "tb_clash repository_files x6 y6 \<Longrightarrow> tb_clash repository_files y6 x6"
  "tb_clash ai_configs x7 y7 \<Longrightarrow> tb_clash ai_configs y7 x7"
  "tb_clash repository_snapshots x8 y8 \<Longrightarrow> tb_clash repository_snapshots y8 x8"
  "tb_clash repository_snapshot_files x9 y9 \<Longrightarrow> tb_clash repository_snapshot_files y9 x9"
  "tb_clash issue_sessions x10 y10 \<Longrightarrow> tb_clash issue_sessions y10 x10"
  "tb_clash generated_plans x11 y11 \<Longrightarrow> tb_clash generated_plans y11 x11"
  "tb_clash agent_tasks x12 y12 \<Longrightarrow> tb_clash agent_tasks y12 x12"
  "tb_clash plan_revisions x13 y13 \<Longrightarrow> tb_clash plan_revisions y13 x13"
  "tb_clash git_workflow_payloads x14 y14 \<Longrightarrow> tb_clash git_workflow_payloads y14 x14"
  "tb_clash generated_files x15 y15 \<Longrightarrow> tb_clash generated_files y15 x15"
  "tb_clash user_responses x16 y16 \<Longrightarrow> tb_clash user_responses y16 x16"
  "tb_clash recommendation_runs x17 y17 \<Longrightarrow> tb_clash recommendation_runs y17 x17"
  "tb_clash recommendations x18 y18 \<Longrightarrow> tb_clash recommendations y18 x18"
  "tb_clash recommendation_statuses x19 y19 \<Longrightarrow> tb_clash recommendation_statuses y19 x19"
  by (auto simp: table_defs)

lemma db_ok_tables:
  "db_ok db \<Longrightarrow> table_ok app_users db"
  "db_ok db \<Longrightarrow> table_ok app_sessions db"
  "db_ok db \<Longrightarrow> table_ok repositories db"
  "db_ok db \<Longrightarrow> table_ok gitflame_connections db"
  "db_ok db \<Longrightarrow> table_ok gitflame_webhooks db"
  "db_ok db \<Longrightarrow> table_ok gitflame_webhook_events db"
  "db_ok db \<Longrightarrow> table_ok repository_files db"
  "db_ok db \<Longrightarrow> table_ok ai_configs db"
  "db_ok db \<Longrightarrow> table_ok repository_snapshots db"
  "db_ok db \<Longrightarrow> table_ok repository_snapshot_files db"
  "db_ok db \<Longrightarrow> table_ok issue_sessions db"
  "db_ok db \<Longrightarrow> table_ok generated_plans db"
  "db_ok db \<Longrightarrow> table_ok agent_tasks db"
  "db_ok db \<Longrightarrow> table_ok plan_revisions db"
  "db_ok db \<Longrightarrow> table_ok git_workflow_payloads db"
  "db_ok db \<Longrightarrow> table_ok generated_files db"
  "db_ok db \<Longrightarrow> table_ok user_responses db"
  "db_ok db \<Longrightarrow> table_ok recommendation_runs db"
  "db_ok db \<Longrightarrow> table_ok recommendations db"
  "db_ok db \<Longrightarrow> table_ok recommendation_statuses db"
  by (simp_all only: db_ok_def)

text \<open>The references of a database grow with the identifiers of its tables, and a change of one table leaves the others valid.\<close>

lemma known_subset:
  assumes "user_id ` set (db_app_users db) \<subseteq> user_id ` set (db_app_users db')"
    and "rpo_id ` set (db_repositories db) \<subseteq> rpo_id ` set (db_repositories db')"
    and "cnx_id ` set (db_gitflame_connections db) \<subseteq> cnx_id ` set (db_gitflame_connections db')"
    and "wh_id ` set (db_gitflame_webhooks db) \<subseteq> wh_id ` set (db_gitflame_webhooks db')"
    and "acf_id ` set (db_ai_configs db) \<subseteq> acf_id ` set (db_ai_configs db')"
    and "sn_id ` set (db_repository_snapshots db) \<subseteq> sn_id ` set (db_repository_snapshots db')"
    and "iss_id ` set (db_issue_sessions db) \<subseteq> iss_id ` set (db_issue_sessions db')"
    and "gpl_id ` set (db_generated_plans db) \<subseteq> gpl_id ` set (db_generated_plans db')"
    and "atk_id ` set (db_agent_tasks db) \<subseteq> atk_id ` set (db_agent_tasks db')"
    and "rrn_id ` set (db_recommendation_runs db) \<subseteq> rrn_id ` set (db_recommendation_runs db')"
    and "card_id ` rcm_card ` set (db_recommendations db) \<subseteq> card_id ` rcm_card ` set (db_recommendations db')"
  shows "known db \<subseteq> known db'"
  unfolding known_def by (intro Un_mono image_mono assms)

lemma table_ok_frame:
  "table_ok tb db \<Longrightarrow> known db \<subseteq> known db' \<Longrightarrow>
     tb_rows tb db' = tb_rows tb db \<or> rows_ok tb (tb_rows tb db') (known db') \<Longrightarrow> table_ok tb db'"
  by (auto simp: table_ok_def elim: rows_ok_mono)

lemma db_ok_frame:
  assumes "db_ok db" and "known db \<subseteq> known db'"
    and "tb_rows app_users db' = tb_rows app_users db \<or> rows_ok app_users (tb_rows app_users db') (known db')"
    and "tb_rows app_sessions db' = tb_rows app_sessions db \<or> rows_ok app_sessions (tb_rows app_sessions db') (known db')"
    and "tb_rows repositories db' = tb_rows repositories db \<or> rows_ok repositories (tb_rows repositories db') (known db')"
    and "tb_rows gitflame_connections db' = tb_rows gitflame_connections db \<or> rows_ok gitflame_connections (tb_rows gitflame_connections db') (known db')"
    and "tb_rows gitflame_webhooks db' = tb_rows gitflame_webhooks db \<or> rows_ok gitflame_webhooks (tb_rows gitflame_webhooks db') (known db')"
    and "tb_rows gitflame_webhook_events db' = tb_rows gitflame_webhook_events db \<or> rows_ok gitflame_webhook_events (tb_rows gitflame_webhook_events db') (known db')"
    and "tb_rows repository_files db' = tb_rows repository_files db \<or> rows_ok repository_files (tb_rows repository_files db') (known db')"
    and "tb_rows ai_configs db' = tb_rows ai_configs db \<or> rows_ok ai_configs (tb_rows ai_configs db') (known db')"
    and "tb_rows repository_snapshots db' = tb_rows repository_snapshots db \<or> rows_ok repository_snapshots (tb_rows repository_snapshots db') (known db')"
    and "tb_rows repository_snapshot_files db' = tb_rows repository_snapshot_files db \<or> rows_ok repository_snapshot_files (tb_rows repository_snapshot_files db') (known db')"
    and "tb_rows issue_sessions db' = tb_rows issue_sessions db \<or> rows_ok issue_sessions (tb_rows issue_sessions db') (known db')"
    and "tb_rows generated_plans db' = tb_rows generated_plans db \<or> rows_ok generated_plans (tb_rows generated_plans db') (known db')"
    and "tb_rows agent_tasks db' = tb_rows agent_tasks db \<or> rows_ok agent_tasks (tb_rows agent_tasks db') (known db')"
    and "tb_rows plan_revisions db' = tb_rows plan_revisions db \<or> rows_ok plan_revisions (tb_rows plan_revisions db') (known db')"
    and "tb_rows git_workflow_payloads db' = tb_rows git_workflow_payloads db \<or> rows_ok git_workflow_payloads (tb_rows git_workflow_payloads db') (known db')"
    and "tb_rows generated_files db' = tb_rows generated_files db \<or> rows_ok generated_files (tb_rows generated_files db') (known db')"
    and "tb_rows user_responses db' = tb_rows user_responses db \<or> rows_ok user_responses (tb_rows user_responses db') (known db')"
    and "tb_rows recommendation_runs db' = tb_rows recommendation_runs db \<or> rows_ok recommendation_runs (tb_rows recommendation_runs db') (known db')"
    and "tb_rows recommendations db' = tb_rows recommendations db \<or> rows_ok recommendations (tb_rows recommendations db') (known db')"
    and "tb_rows recommendation_statuses db' = tb_rows recommendation_statuses db \<or> rows_ok recommendation_statuses (tb_rows recommendation_statuses db') (known db')"
  shows "db_ok db'"
  unfolding db_ok_def by (intro conjI table_ok_frame [OF _ assms(2)] db_ok_tables [OF assms(1)] assms(3-))

lemma references_subset [simp]: "(\<Union>r \<in> A. {(t, k r)}) \<subseteq> (\<Union>r \<in> B. {(t, k r)}) \<longleftrightarrow> k ` A \<subseteq> k ` B"
  by auto

interpretation app_users: constrained_table app_users "\<lambda>u. {(''app_users'', user_id u)}"
  by unfold_locales
    ((simp; fail) | (erule table_clash_commute db_ok_tables) | (rule known_subset; simp; fail) | (rule db_ok_frame, assumption, assumption; simp; fail))+

interpretation app_sessions: constrained_table app_sessions "\<lambda>_. {}"
  by unfold_locales
    ((simp; fail) | (erule table_clash_commute db_ok_tables) | (rule known_subset; simp; fail) | (rule db_ok_frame, assumption, assumption; simp; fail))+

interpretation repositories: constrained_table repositories "\<lambda>r. {(''repositories'', rpo_id r)}"
  by unfold_locales
    ((simp; fail) | (erule table_clash_commute db_ok_tables) | (rule known_subset; simp; fail) | (rule db_ok_frame, assumption, assumption; simp; fail))+

interpretation gitflame_connections: constrained_table gitflame_connections "\<lambda>r. {(''gitflame_connections'', cnx_id r)}"
  by unfold_locales
    ((simp; fail) | (erule table_clash_commute db_ok_tables) | (rule known_subset; simp; fail) | (rule db_ok_frame, assumption, assumption; simp; fail))+

interpretation gitflame_webhooks: constrained_table gitflame_webhooks "\<lambda>r. {(''gitflame_webhooks'', wh_id r)}"
  by unfold_locales
    ((simp; fail) | (erule table_clash_commute db_ok_tables) | (rule known_subset; simp; fail) | (rule db_ok_frame, assumption, assumption; simp; fail))+

interpretation gitflame_webhook_events: constrained_table gitflame_webhook_events "\<lambda>_. {}"
  by unfold_locales
    ((simp; fail) | (erule table_clash_commute db_ok_tables) | (rule known_subset; simp; fail) | (rule db_ok_frame, assumption, assumption; simp; fail))+

interpretation repository_files: constrained_table repository_files "\<lambda>_. {}"
  by unfold_locales
    ((simp; fail) | (erule table_clash_commute db_ok_tables) | (rule known_subset; simp; fail) | (rule db_ok_frame, assumption, assumption; simp; fail))+

interpretation ai_configs: constrained_table ai_configs "\<lambda>r. {(''ai_configs'', acf_id r)}"
  by unfold_locales
    ((simp; fail) | (erule table_clash_commute db_ok_tables) | (rule known_subset; simp; fail) | (rule db_ok_frame, assumption, assumption; simp; fail))+

interpretation repository_snapshots: constrained_table repository_snapshots "\<lambda>r. {(''repository_snapshots'', sn_id r)}"
  by unfold_locales
    ((simp; fail) | (erule table_clash_commute db_ok_tables) | (rule known_subset; simp; fail) | (rule db_ok_frame, assumption, assumption; simp; fail))+

interpretation repository_snapshot_files: constrained_table repository_snapshot_files "\<lambda>_. {}"
  by unfold_locales
    ((simp; fail) | (erule table_clash_commute db_ok_tables) | (rule known_subset; simp; fail) | (rule db_ok_frame, assumption, assumption; simp; fail))+

interpretation issue_sessions: constrained_table issue_sessions "\<lambda>r. {(''issue_sessions'', iss_id r)}"
  by unfold_locales
    ((simp; fail) | (erule table_clash_commute db_ok_tables) | (rule known_subset; simp; fail) | (rule db_ok_frame, assumption, assumption; simp; fail))+

interpretation generated_plans: constrained_table generated_plans "\<lambda>r. {(''generated_plans'', gpl_id r)}"
  by unfold_locales
    ((simp; fail) | (erule table_clash_commute db_ok_tables) | (rule known_subset; simp; fail) | (rule db_ok_frame, assumption, assumption; simp; fail))+

interpretation agent_tasks: constrained_table agent_tasks "\<lambda>r. {(''agent_tasks'', atk_id r)}"
  by unfold_locales
    ((simp; fail) | (erule table_clash_commute db_ok_tables) | (rule known_subset; simp; fail) | (rule db_ok_frame, assumption, assumption; simp; fail))+

interpretation plan_revisions: constrained_table plan_revisions "\<lambda>_. {}"
  by unfold_locales
    ((simp; fail) | (erule table_clash_commute db_ok_tables) | (rule known_subset; simp; fail) | (rule db_ok_frame, assumption, assumption; simp; fail))+

interpretation git_workflow_payloads: constrained_table git_workflow_payloads "\<lambda>_. {}"
  by unfold_locales
    ((simp; fail) | (erule table_clash_commute db_ok_tables) | (rule known_subset; simp; fail) | (rule db_ok_frame, assumption, assumption; simp; fail))+

interpretation generated_files: constrained_table generated_files "\<lambda>_. {}"
  by unfold_locales
    ((simp; fail) | (erule table_clash_commute db_ok_tables) | (rule known_subset; simp; fail) | (rule db_ok_frame, assumption, assumption; simp; fail))+

interpretation user_responses: constrained_table user_responses "\<lambda>_. {}"
  by unfold_locales
    ((simp; fail) | (erule table_clash_commute db_ok_tables) | (rule known_subset; simp; fail) | (rule db_ok_frame, assumption, assumption; simp; fail))+

interpretation recommendation_runs: constrained_table recommendation_runs "\<lambda>r. {(''recommendation_runs'', rrn_id r)}"
  by unfold_locales
    ((simp; fail) | (erule table_clash_commute db_ok_tables) | (rule known_subset; simp; fail) | (rule db_ok_frame, assumption, assumption; simp; fail))+

interpretation recommendations: constrained_table recommendations "\<lambda>r. {(''recommendations'', card_id (rcm_card r))}"
  by unfold_locales
    ((simp; fail) | (erule table_clash_commute db_ok_tables) | (rule known_subset; simp add: image_image; fail) | (rule db_ok_frame, assumption, assumption; simp; fail))+

interpretation recommendation_statuses: constrained_table recommendation_statuses "\<lambda>_. {}"
  by unfold_locales
    ((simp; fail) | (erule table_clash_commute db_ok_tables) | (rule known_subset; simp; fail) | (rule db_ok_frame, assumption, assumption; simp; fail))+

section \<open>Operations keep the constraints\<close>

lemma keeps_statement [keeps_intros]: "keeps P body \<Longrightarrow> keeps P (statement pe n texts body)"
  by (fastforce simp: keeps_def statement_def split: option.split sum.split prod.split dest: spec)

lemma keeps_transaction [keeps_intros]: "keeps P body \<Longrightarrow> keeps P (transaction pe m n commits body)"
  by (fastforce simp: keeps_def transaction_def split: option.split sum.split prod.split dest: spec)

lemma keeps_reading [keeps_intros]: "keeps P (\<lambda>db. (f db, db))"
  by (simp add: keeps_def)

lemma keeps_state: "(\<And>s. keeps P (m s)) \<Longrightarrow> keeps P (\<lambda>s. m s s)"
  by (simp add: keeps_def)

lemma keeps_reading_if [keeps_intros]: "keeps P (\<lambda>db. if c then (f db, db) else (g db, db))"
  by (simp add: keeps_def)

text \<open>Inserts keep the constraints whatever the row.\<close>

lemmas inserts_keep [keeps_intros] =
  app_sessions.insert_keeps repositories.insert_keeps ai_configs.insert_keeps repository_snapshot_files.insert_keeps
  agent_tasks.insert_keeps generated_files.insert_keeps user_responses.insert_keeps recommendation_runs.insert_keeps
  recommendation_statuses.insert_keeps issue_sessions.insert_unless_keeps recommendations.insert_unless_keeps

lemma keeps_sessions [keeps_intros]:
  "keeps db_ok (pg_UpsertAppUser pe user0)" "keeps db_ok (pg_AppSessionByTokenHash pe n tokenHash)"
  "keeps db_ok (pg_CreateAppSession pe userID tokenHash expiresAt)" "keeps db_ok (pg_RevokeAppSession pe sessionID)"
proof -
  show "keeps db_ok (pg_UpsertAppUser pe user0)"
    unfolding pg_UpsertAppUser_def Let_def
    by (intro keeps_intros app_users.upsert_keeps) (auto simp: app_users_def)
  show found: "keeps db_ok (pg_AppSessionByTokenHash pe n tokenHash)" for n
    unfolding pg_AppSessionByTokenHash_def
    by (intro keeps_intros keeps_state [where m = "\<lambda>db. bindS (update_rows pe app_sessions (P db) f) (g db)" for P f g]
        app_sessions.update_keeps) (auto simp: app_sessions_def)
  show "keeps db_ok (pg_CreateAppSession pe userID tokenHash expiresAt)"
    unfolding pg_CreateAppSession_def by (intro keeps_intros found)
  show "keeps db_ok (pg_RevokeAppSession pe sessionID)"
    unfolding pg_RevokeAppSession_def by (intro keeps_intros app_sessions.update_keeps) (auto simp: app_sessions_def)
qed

lemma keeps_upsertRepository [keeps_intros]: "keeps db_ok (upsertRepository pe n repository)"
  unfolding upsertRepository_def Let_def
  by (intro keeps_intros repositories.upsert_keeps) (auto simp: repositories_def)

lemma keeps_ensureRepository [keeps_intros]: "keeps db_ok (ensureRepositoryForSnapshot pe n externalID)"
  unfolding ensureRepositoryForSnapshot_def by (intro keeps_intros)

lemma keeps_insertAIConfig [keeps_intros]: "keeps db_ok (insertAIConfig pe t n repositoryID cfg)"
  unfolding insertAIConfig_def by (intro keeps_intros)

lemma keeps_upsert_files [keeps_intros]: "keeps db_ok (upsert_files pe n repositoryID commitSHA files)"
proof (induction files arbitrary: n)
  case (Cons item files)
  show ?case
    unfolding upsert_files.simps Let_def
    by (intro keeps_intros Cons.IH repository_files.upsert_keeps) (auto simp: repository_files_def)
qed (simp add: keeps_ret)

lemma keeps_configs [keeps_intros]:
  "keeps db_ok (pg_SaveAIConfig pe repository cfg)" "keeps db_ok (pg_LatestAIConfig pe externalID)"
  unfolding pg_SaveAIConfig_def pg_LatestAIConfig_def by (intro keeps_intros)+

lemma keeps_scanSession [keeps_intros]: "keeps P (scanSession pe n found)"
  unfolding scanSession_def loadGeneratedFiles_def by (intro keeps_intros)

lemma keeps_session_lookups [keeps_intros]:
  "keeps P (pg_Session pe n k)" "keeps P (sessionByRepositoryIssue pe n repositoryID issueID)"
  unfolding pg_Session_def sessionByRepositoryIssue_def by (intro keeps_intros)+

lemma keeps_create_session_rows [keeps_intros]: "keeps db_ok (create_session_rows pe t sessionID req cfg)"
  unfolding create_session_rows_def upsertRepositoryFiles_def by (intro keeps_intros)

lemma keeps_pg_CreateSession [keeps_intros]: "keeps db_ok (pg_CreateSession pe req cfg)"
  unfolding pg_CreateSession_def Let_def by (intro keeps_intros)

lemma keeps_insert_files [keeps_intros]: "keeps db_ok (insert_files pe t n sid taskID files)"
  by (induction files arbitrary: n) (auto intro!: keeps_intros)

lemma keeps_saveGeneratedFiles [keeps_intros]: "keeps db_ok (saveGeneratedFiles pe t n sid contract)"
  unfolding saveGeneratedFiles_def
  by (intro keeps_intros git_workflow_payloads.upsert_keeps generated_files.delete_keeps)
    (auto simp: git_workflow_payloads_def)

lemma keeps_record_response [keeps_intros]: "keeps db_ok (record_response pe n sid session)"
  unfolding record_response_def insertUserResponse_def Let_def by (intro keeps_intros)

lemma keeps_record_plan [keeps_intros]: "keeps db_ok (record_plan pe t n sid session)"
  unfolding record_plan_def
  by (intro keeps_intros generated_plans.upsert_keeps plan_revisions.upsert_keeps agent_tasks.update_keeps)
    (auto simp: generated_plans_def plan_revisions_def agent_tasks_def)

lemma keeps_pg_UpdateSession [keeps_intros]: "keeps db_ok (pg_UpdateSession pe session)"
  unfolding pg_UpdateSession_def
  by (intro keeps_intros issue_sessions.update_keeps) (auto simp: issue_sessions_def)

lemma keeps_pg_tasks [keeps_intros]:
  "keeps db_ok (pg_CreateTask pe sessionID issueID taskType)" "keeps P (pg_Task pe k)" "keeps P (pg_LatestTask pe sessionID)"
  "keeps db_ok (pg_UpdateTask pe task)"
proof -
  show "keeps db_ok (pg_CreateTask pe sessionID issueID taskType)"
    unfolding pg_CreateTask_def by (intro keeps_intros)
  show "keeps P (pg_Task pe k)" "keeps P (pg_LatestTask pe sessionID)"
    unfolding pg_Task_def pg_LatestTask_def first_task_def by (intro keeps_intros)+
  show "keeps db_ok (pg_UpdateTask pe task)"
    unfolding pg_UpdateTask_def by (intro keeps_intros agent_tasks.update_keeps) (auto simp: agent_tasks_def)
qed

lemma keeps_insert_cards [keeps_intros]: "keeps db_ok (insert_cards pe t i runID cards)"
  by (induction cards arbitrary: i) (auto simp: Let_def intro!: keeps_intros)

lemma keeps_updateRecommendation [keeps_intros]: "keeps db_ok (updateRecommendation pe k status)"
  unfolding updateRecommendation_def
  by (intro keeps_intros recommendations.update_keeps) (auto simp: recommendations_def)

lemma keeps_pg_recommendations [keeps_intros]:
  "keeps db_ok (pg_SaveRecommendations pe repository cfg summary cards)" "keeps P (pg_Recommendations pe repositoryID)"
  "keeps db_ok (pg_CloseRecommendation pe k)" "keeps db_ok (pg_DeleteRecommendation pe k)"
  unfolding pg_SaveRecommendations_def pg_Recommendations_def pg_CloseRecommendation_def pg_DeleteRecommendation_def
  by (intro keeps_intros)+

lemma keeps_connection_lookups [keeps_intros]:
  "keeps P (gitFlameConnectionByPredicate pe n placeholders predicate x y)" "keeps P (pg_GitFlameConnection pe n k)"
  "keeps P (pg_UserGitFlameConnection pe n userID k)" "keeps P (pg_UserGitFlameConnectionByRepository pe userID repositoryID)"
  unfolding pg_GitFlameConnection_def pg_UserGitFlameConnection_def pg_UserGitFlameConnectionByRepository_def
    gitFlameConnectionByPredicate_def Let_def
  by (intro keeps_intros keepsI; simp)+

lemma keeps_pg_connections [keeps_intros]:
  "keeps db_ok (pg_SaveGitFlameConnection pe c0)" "keeps db_ok (pg_RevokeGitFlameConnection pe userID k)"
  "keeps db_ok (pg_TouchGitFlameConnection pe userID k)"
proof -
  show "keeps db_ok (pg_SaveGitFlameConnection pe c0)"
    unfolding pg_SaveGitFlameConnection_def save_connection_row_def Let_def
    by (intro keeps_intros gitflame_connections.upsert_keeps) (auto simp: gitflame_connections_def merge_connection_def)
  show "keeps db_ok (pg_RevokeGitFlameConnection pe userID k)"
    unfolding pg_RevokeGitFlameConnection_def
    by (intro keeps_intros gitflame_connections.update_keeps) (auto simp: gitflame_connections_def)
  show "keeps db_ok (pg_TouchGitFlameConnection pe userID k)"
    unfolding pg_TouchGitFlameConnection_def
    by (intro keeps_intros gitflame_connections.update_keeps) (auto simp: gitflame_connections_def)
qed

lemma keeps_pg_webhooks [keeps_intros]:
  "keeps db_ok (pg_SaveGitFlameWebhook pe w0)" "keeps db_ok (pg_SaveGitFlameWebhookEvent pe e0)"
proof -
  show "keeps db_ok (pg_SaveGitFlameWebhook pe w0)"
    unfolding pg_SaveGitFlameWebhook_def Let_def
    by (intro keeps_intros gitflame_webhooks.upsert_keeps) (auto simp: gitflame_webhooks_def)
  show "keeps db_ok (pg_SaveGitFlameWebhookEvent pe e0)"
    unfolding pg_SaveGitFlameWebhookEvent_def Let_def
    by (intro keeps_intros gitflame_webhook_events.upsert_keeps) (auto simp: gitflame_webhook_events_def)
qed

lemma keeps_snapshot_files [keeps_intros]: "keeps db_ok (insert_snapshot_files pe n sid files)"
  by (induction files arbitrary: n) (auto intro!: keeps_intros)

lemma keeps_pg_snapshots [keeps_intros]: "keeps db_ok (pg_SaveRepositorySnapshot pe snapshot0 files)"
  unfolding pg_SaveRepositorySnapshot_def Let_def
  by (intro keeps_intros repository_snapshots.upsert_keeps repository_snapshot_files.delete_keeps)
    (auto simp: repository_snapshots_def)

end
