(* ===== verification/Session_Tokens.thy ===== *)
theory Session_Tokens imports Domain begin

text \<open>
  The part of the interface \<open>repository.Store\<close> (backend/internal/repository) that application sessions rest on, as a contract: an abstract
  table from token hashes to sessions, and what creating, finding and revoking a session do to it. Both stores keep the
  contract; what it promises about the life of a session is proved here once.
\<close>

section \<open>The abstract table\<close>

record token_entry =
  tk_session :: string
  tk_expires :: gotime
  tk_revoked :: bool

datatype token_call = Create_session string string gotime | Find_session string | Revoke_session string

text \<open>The operations of a store; \<open>'e\<close> is what an operation draws from its surroundings.\<close>

record ('e, 's) token_ops =
  to_create :: "'e \<Rightarrow> string \<Rightarrow> string \<Rightarrow> gotime \<Rightarrow> ('s, app_session) op"
  to_find :: "'e \<Rightarrow> string \<Rightarrow> ('s, app_session) op"
  to_revoke :: "'e \<Rightarrow> string \<Rightarrow> ('s, unit) op"

fun token_step :: "('e, 's) token_ops \<Rightarrow> 'e \<times> token_call \<Rightarrow> 's \<Rightarrow> 's" where
  "token_step ops (e, Create_session userID hash expires) s = snd (to_create ops e userID hash expires s)"
| "token_step ops (e, Find_session hash) s = snd (to_find ops e hash s)"
| "token_step ops (e, Revoke_session k) s = snd (to_revoke ops e k s)"

fun token_run :: "('e, 's) token_ops \<Rightarrow> ('e \<times> token_call) list \<Rightarrow> 's \<Rightarrow> 's" where
  "token_run ops [] s = s"
| "token_run ops (c # calls) s = token_run ops calls (token_step ops c s)"

text \<open>Whether a run revokes a session, and whether it is one that the contract speaks of and that creates no session with the hash.\<close>

fun revokes_now :: "('e, 's) token_ops \<Rightarrow> string \<Rightarrow> 'e \<times> token_call \<Rightarrow> 's \<Rightarrow> bool" where
  "revokes_now ops k (e, Revoke_session k') s \<longleftrightarrow> k' = k \<and> \<not> isl (fst (to_revoke ops e k s))"
| "revokes_now ops k c s \<longleftrightarrow> False"

fun revoked_by :: "('e, 's) token_ops \<Rightarrow> string \<Rightarrow> ('e \<times> token_call) list \<Rightarrow> 's \<Rightarrow> bool" where
  "revoked_by ops k [] s \<longleftrightarrow> False"
| "revoked_by ops k (c # calls) s \<longleftrightarrow> revokes_now ops k c s \<or> revoked_by ops k calls (token_step ops c s)"

fun quiet_run ::
    "('e, 's) token_ops \<Rightarrow> ('e \<Rightarrow> token_call \<Rightarrow> 's \<Rightarrow> bool) \<Rightarrow> string \<Rightarrow> ('e \<times> token_call) list \<Rightarrow> 's \<Rightarrow> bool" where
  "quiet_run ops admits hash [] s \<longleftrightarrow> True"
| "quiet_run ops admits hash (c # calls) s \<longleftrightarrow>
     admits (fst c) (snd c) s \<and> (case snd c of Create_session userID h expires \<Rightarrow> h \<noteq> hash | _ \<Rightarrow> True) \<and>
     quiet_run ops admits hash calls (token_step ops c s)"

definition mark_revoked :: "string \<Rightarrow> token_entry \<Rightarrow> token_entry" where
  "mark_revoked k t = (if tk_session t = k then t\<lparr>tk_revoked := True\<rparr> else t)"

definition entry_live :: "gotime \<Rightarrow> token_entry \<Rightarrow> bool" where
  "entry_live now t \<longleftrightarrow> \<not> tk_revoked t \<and> now < tk_expires t"

section \<open>The contract\<close>

locale session_tokens =
  fixes ops :: "('e, 's) token_ops"
    and view :: "'s \<Rightarrow> string \<Rightarrow> token_entry option"
    and ok :: "'s \<Rightarrow> bool"
    and admits :: "'e \<Rightarrow> token_call \<Rightarrow> 's \<Rightarrow> bool"
    and now_of :: "'e \<Rightarrow> gotime"
    and works :: "'e \<Rightarrow> bool"
  assumes step_ok: "ok s \<Longrightarrow> admits e c s \<Longrightarrow> ok (token_step ops (e, c) s)"
    and create_new: "ok s \<Longrightarrow> admits e (Create_session u h x) s \<Longrightarrow> to_create ops e u h x s = (Inr a, s') \<Longrightarrow>
      view s' h = Some \<lparr>tk_session = aps_id a, tk_expires = aps_expires_at a, tk_revoked = False\<rparr>"
    and create_other: "ok s \<Longrightarrow> admits e (Create_session u h x) s \<Longrightarrow> h' \<noteq> h \<Longrightarrow>
      view (snd (to_create ops e u h x s)) h' = view s h'"
    and find_view: "ok s \<Longrightarrow> view (snd (to_find ops e h s)) = view s"
    and find_live: "ok s \<Longrightarrow> fst (to_find ops e h s) = Inr a \<Longrightarrow>
      \<exists>t. view s h = Some t \<and> entry_live (now_of e) t \<and> aps_id a = tk_session t"
    and live_found: "ok s \<Longrightarrow> works e \<Longrightarrow> view s h = Some t \<Longrightarrow> entry_live (now_of e) t \<Longrightarrow> \<exists>a. fst (to_find ops e h s) = Inr a"
    and revoke_view: "ok s \<Longrightarrow> admits e (Revoke_session k) s \<Longrightarrow>
      view (snd (to_revoke ops e k s)) =
        (if isl (fst (to_revoke ops e k s)) then view s else map_option (mark_revoked k) \<circ> view s)"
begin

lemma step_entry:
  assumes "ok s" and "admits e c s" and "case c of Create_session u h' x \<Rightarrow> h' \<noteq> h | _ \<Rightarrow> True" and "view s h = Some t"
  shows "view (token_step ops (e, c) s) h =
    Some (if revokes_now ops (tk_session t) (e, c) s then t\<lparr>tk_revoked := True\<rparr> else t)"
proof (cases c)
  case (Create_session u h' x)
  with assms create_other [of s e u h' x h] show ?thesis by simp
next
  case (Find_session h')
  with assms find_view show ?thesis by simp
next
  case (Revoke_session k)
  with assms revoke_view [of s e k] show ?thesis by (auto simp: mark_revoked_def)
qed

lemma run_entry:
  "ok s \<Longrightarrow> quiet_run ops admits h calls s \<Longrightarrow> view s h = Some t \<Longrightarrow>
     ok (token_run ops calls s) \<and>
     view (token_run ops calls s) h = Some (if revoked_by ops (tk_session t) calls s then t\<lparr>tk_revoked := True\<rparr> else t)"
proof (induction calls arbitrary: s t)
  case (Cons c calls)
  obtain e call where c: "c = (e, call)" by (cases c)
  define t' where "t' = (if revokes_now ops (tk_session t) c s then t\<lparr>tk_revoked := True\<rparr> else t)"
  have "ok (token_step ops c s)" "quiet_run ops admits h calls (token_step ops c s)"
    using Cons.prems step_ok by (auto simp: c)
  moreover have "view (token_step ops c s) h = Some t'"
    using Cons.prems step_entry [of s e call h t] by (simp add: c t'_def)
  moreover have "tk_session t' = tk_session t" by (simp add: t'_def)
  ultimately show ?case
    using Cons.IH [of "token_step ops c s" t'] by (auto simp: t'_def)
qed simp

text \<open>A session is found exactly until it expires or is revoked.\<close>

lemma found_until_revoked:
  assumes "ok s" and "admits e (Create_session u h x) s" and "to_create ops e u h x s = (Inr a, s1)"
    and "quiet_run ops admits h calls s1" and "works e'"
  shows "(\<exists>b. fst (to_find ops e' h (token_run ops calls s1)) = Inr b \<and> aps_id b = aps_id a) \<longleftrightarrow>
    \<not> revoked_by ops (aps_id a) calls s1 \<and> now_of e' < aps_expires_at a"
proof -
  let ?t = "\<lparr>tk_session = aps_id a, tk_expires = aps_expires_at a, tk_revoked = False\<rparr>"
  let ?s2 = "token_run ops calls s1"
  have "ok s1" using step_ok [OF assms(1,2)] assms(3) by simp
  with run_entry [OF this assms(4) create_new [OF assms(1-3)]]
  have ok2: "ok ?s2" and view2: "view ?s2 h = Some (if revoked_by ops (aps_id a) calls s1 then ?t\<lparr>tk_revoked := True\<rparr> else ?t)"
    by simp_all
  show ?thesis
    using find_live [OF ok2, of e' h] live_found [OF ok2 assms(5), of h] view2
    by (fastforce simp: entry_live_def split: if_splits)
qed

end

end
