(* ===== verification/Postgres_Properties.thy ===== *)
theory Postgres_Properties imports Postgres_Constraints Session_Tokens begin

text \<open>
  The states that the persistent store can reach, in which the constraints of the schema hold, and the life of an application session.
\<close>

section \<open>Runs of the store\<close>

inductive pg_step :: "database \<Rightarrow> database \<Rightarrow> bool" where
  pg_user: "pg_step db (snd (pg_UpsertAppUser pe user db))"
| pg_create_app_session: "pg_step db (snd (pg_CreateAppSession pe userID tokenHash expiresAt db))"
| pg_find_app_session: "pg_step db (snd (pg_AppSessionByTokenHash pe n tokenHash db))"
| pg_revoke_app_session: "pg_step db (snd (pg_RevokeAppSession pe sessionID db))"
| pg_create_session: "pg_step db (snd (pg_CreateSession pe req cfg db))"
| pg_update_session: "pg_step db (snd (pg_UpdateSession pe session db))"
| pg_create_task: "pg_step db (snd (pg_CreateTask pe sessionID issueID taskType db))"
| pg_update_task: "pg_step db (snd (pg_UpdateTask pe task db))"
| pg_save_recommendations: "pg_step db (snd (pg_SaveRecommendations pe repository cfg summary cards db))"
| pg_save_config: "pg_step db (snd (pg_SaveAIConfig pe repository cfg db))"
| pg_close_recommendation: "pg_step db (snd (pg_CloseRecommendation pe k db))"
| pg_delete_recommendation: "pg_step db (snd (pg_DeleteRecommendation pe k db))"
| pg_save_connection: "pg_step db (snd (pg_SaveGitFlameConnection pe connection db))"
| pg_revoke_connection: "pg_step db (snd (pg_RevokeGitFlameConnection pe userID k db))"
| pg_touch_connection: "pg_step db (snd (pg_TouchGitFlameConnection pe userID k db))"
| pg_save_webhook: "pg_step db (snd (pg_SaveGitFlameWebhook pe webhook db))"
| pg_save_event: "pg_step db (snd (pg_SaveGitFlameWebhookEvent pe event db))"
| pg_save_snapshot: "pg_step db (snd (pg_SaveRepositorySnapshot pe snapshot files db))"

inductive_cases pg_stepE: "pg_step db db'"

definition reachable_db :: "database \<Rightarrow> bool" where
  "reachable_db db \<longleftrightarrow> pg_step\<^sup>*\<^sup>* empty_database db"

lemma pg_step_ok: "pg_step db db' \<Longrightarrow> db_ok db \<Longrightarrow> db_ok db'"
  by (induction rule: pg_step.induct) (simp_all add: keepsD keeps_intros)

lemma pg_run_ok: "pg_step\<^sup>*\<^sup>* db db' \<Longrightarrow> db_ok db \<Longrightarrow> db_ok db'"
  by (induction rule: rtranclp_induct) (auto intro: pg_step_ok)

lemma reachable_db_ok: "reachable_db db \<Longrightarrow> db_ok db"
  unfolding reachable_db_def by (rule pg_run_ok [OF _ db_ok_empty])

section \<open>Consistency\<close>

lemma known_iff:
  "(''app_users'', k) \<in> known db \<longleftrightarrow> k \<in> user_id ` set (db_app_users db)"
  "(''repositories'', k) \<in> known db \<longleftrightarrow> k \<in> rpo_id ` set (db_repositories db)"
  "(''ai_configs'', k) \<in> known db \<longleftrightarrow> k \<in> acf_id ` set (db_ai_configs db)"
  "(''issue_sessions'', k) \<in> known db \<longleftrightarrow> k \<in> iss_id ` set (db_issue_sessions db)"
  by (auto simp: known_def)

lemma find_some_with: "k \<in> key ` set rows \<Longrightarrow> \<exists>r. find (\<lambda>r. key r = k) rows = Some r \<and> r \<in> set rows \<and> key r = k"
  by (induction rows) auto

lemma table_row:
  assumes "table_ok tb db" and "r \<in> set (tb_rows tb db)"
  shows "tb_check tb r = None" and "set (tb_refs tb r) \<subseteq> known db"
  using assms by (auto simp: table_ok_def rows_ok_def)

lemma session_joins:
  assumes "db_ok db" and "s \<in> set (db_issue_sessions db)"
  shows "session_join db s \<noteq> None"
proof -
  have "set (tb_refs issue_sessions s) \<subseteq> known db"
    using table_row(2) [OF db_ok_tables(11) [OF assms(1)]] assms(2) by simp
  then have "iss_repository_id s \<in> rpo_id ` set (db_repositories db)" "iss_ai_config_id s \<in> acf_id ` set (db_ai_configs db)"
    by (simp_all add: issue_sessions_def known_iff)
  from find_some_with [OF this(1)] find_some_with [OF this(2)] show ?thesis by (auto simp: session_join_def)
qed

section \<open>Application sessions\<close>

definition pg_tokens :: "(pg_env, database) token_ops" where
  "pg_tokens = \<lparr>to_create = pg_CreateAppSession, to_find = (\<lambda>pe. pg_AppSessionByTokenHash pe 0), to_revoke = pg_RevokeAppSession\<rparr>"

text \<open>A session is revoked by its identifier as the store prints it.\<close>

definition pg_admits :: "pg_env \<Rightarrow> token_call \<Rightarrow> database \<Rightarrow> bool" where
  "pg_admits pe c db \<longleftrightarrow> (case c of Revoke_session k \<Rightarrow> (\<forall>u. pe_uuid pe k = Some u \<longrightarrow> u = k) | _ \<Rightarrow> True)"

definition row_entry :: "app_session_row \<Rightarrow> token_entry" where
  "row_entry r = \<lparr>tk_session = sess_id r, tk_expires = sess_expires_at r, tk_revoked = (sess_revoked_at r \<noteq> None)\<rparr>"

definition pg_entries :: "database \<Rightarrow> string \<Rightarrow> token_entry option" where
  "pg_entries db h = map_option row_entry (find (\<lambda>r. sess_token_hash r = h) (db_app_sessions db))"

lemma find_map_key: "(\<And>r. key (g r) = key r) \<Longrightarrow> find (\<lambda>r. key r = h) (map g rows) = map_option g (find (\<lambda>r. key r = h) rows)"
  by (induction rows) auto

lemma updated_entries:
  assumes "\<And>r. sess_token_hash (f r) = sess_token_hash r"
  shows "pg_entries (snd (update_rows pe app_sessions P f db)) h =
    (if isl (fst (update_rows pe app_sessions P f db)) then pg_entries db h
     else map_option (\<lambda>r. row_entry (if P r then f r else r)) (find (\<lambda>r. sess_token_hash r = h) (db_app_sessions db)))"
  using find_map_key [of sess_token_hash "\<lambda>r. if P r then f r else r" h "db_app_sessions db"] assms
  by (auto simp: update_rows_def Let_def pg_entries_def option.map_comp comp_def split: option.split)

lemma statement_cases:
  "statement pe n texts body db = (r, db') \<Longrightarrow> (\<exists>e. r = Inl e \<and> db' = db) \<or> (\<exists>a. r = Inr a \<and> body db = (Inr a, db'))"
  by (auto simp: statement_def split: option.splits if_splits prod.splits sum.splits)

lemma session_user:
  assumes "db_ok db" and "r \<in> set (db_app_sessions db)"
  shows "user_of_session db r \<noteq> None"
proof -
  have "set (tb_refs app_sessions r) \<subseteq> known db" using table_row(2) [OF db_ok_tables(2) [OF assms(1)]] assms(2) by simp
  then have "sess_user_id r \<in> user_id ` set (db_app_users db)" by (simp add: app_sessions_def known_iff)
  from find_some_with [OF this] show ?thesis by (auto simp: user_of_session_def)
qed

definition live_row :: "gotime \<Rightarrow> string \<Rightarrow> app_session_row \<Rightarrow> bool" where
  "live_row now h r \<longleftrightarrow> sess_token_hash r = h \<and> sess_revoked_at r = None \<and> sess_expires_at r > now"

definition seen :: "gotime \<Rightarrow> app_session_row \<Rightarrow> app_session_row" where
  "seen now r = r\<lparr>sess_last_seen_at := Some now\<rparr>"

lemma seen_simps [simp]:
  "sess_id (seen now r) = sess_id r" "sess_user_id (seen now r) = sess_user_id r" "sess_token_hash (seen now r) = sess_token_hash r"
  "sess_expires_at (seen now r) = sess_expires_at r" "sess_revoked_at (seen now r) = sess_revoked_at r"
  "row_entry (seen now r) = row_entry r" "tb_check app_sessions (seen now r) = tb_check app_sessions r"
  "tb_refs app_sessions (seen now r) = tb_refs app_sessions r" "tb_clash app_sessions (seen now r) r' = tb_clash app_sessions r r'"
  by (simp_all add: seen_def row_entry_def app_sessions_def)

lemma seen_eta: "sess_last_seen_at_update (\<lambda>_. Some now) = seen now"
  by (simp add: seen_def fun_eq_iff)

lemma map_filter_cong: "(\<And>r. r \<in> set rows \<Longrightarrow> P r = Q r) \<Longrightarrow> map (\<lambda>r. if P r then f r else r) rows = map (\<lambda>r. if Q r then f r else r) rows"
  by (induction rows) auto

text \<open>What a lookup does: it stamps the one live row with the hash.\<close>

lemma find_session_eq:
  assumes ok: "db_ok db" and fault: "pe_fault pe n = None"
  shows "pg_AppSessionByTokenHash pe n h db =
    (case find (live_row (pe_now pe n) h) (db_app_sessions db) of
       None \<Rightarrow> (Inl ErrNotFound, db)
     | Some r \<Rightarrow>
         (Inr (session_of_row (seen (pe_now pe n) r) (the (user_of_session db r))),
          db\<lparr>db_app_sessions := map (\<lambda>r. if live_row (pe_now pe n) h r then seen (pe_now pe n) r else r) (db_app_sessions db)\<rparr>))"
proof -
  let ?now = "pe_now pe n" and ?rows = "db_app_sessions db"
  let ?P = "\<lambda>r. user_of_session db r \<noteq> None \<and> sess_token_hash r = h \<and> sess_revoked_at r = None \<and> sess_expires_at r > ?now"
  let ?db' = "db\<lparr>db_app_sessions := map (\<lambda>r. if live_row ?now h r then seen ?now r else r) ?rows\<rparr>"
  have P: "?P r = live_row ?now h r" if "r \<in> set ?rows" for r
    using session_user [OF ok that] by (auto simp: live_row_def)
  have "update_rows pe app_sessions ?P (seen ?now) db =
      (Inr (map (seen ?now) (filter ?P ?rows)), db\<lparr>db_app_sessions := map (\<lambda>r. if ?P r then seen ?now r else r) ?rows\<rparr>)"
    using app_sessions.update_succeeds [OF ok, of ?P "seen ?now" pe] table_row [OF db_ok_tables(2) [OF ok]] by simp
  also have "map (\<lambda>r. if ?P r then seen ?now r else r) ?rows = map (\<lambda>r. if live_row ?now h r then seen ?now r else r) ?rows"
    by (rule map_filter_cong) (rule P)
  also have "filter ?P ?rows = filter (live_row ?now h) ?rows" by (rule filter_cong [OF refl P])
  finally have update: "update_rows pe app_sessions ?P (seen ?now) db = (Inr (map (seen ?now) (filter (live_row ?now h) ?rows)), ?db')" .
  have single: "filter (live_row ?now h) ?rows = [] \<or> (\<exists>r. filter (live_row ?now h) ?rows = [r])"
    using app_sessions.rows_ok_get [OF ok]
    by (intro sorted_wrt_unique [where C = "tb_clash app_sessions"]) (auto simp: rows_ok_def live_row_def app_sessions_def)
  show ?thesis
  proof (cases "find (live_row ?now h) ?rows")
    case None
    then have none: "filter (live_row ?now h) ?rows = []" by (auto simp: find_None_iff filter_empty_conv)
    then have "?db' = db" by (simp add: filter_empty_conv map_idI)
    with None none update fault show ?thesis
      by (simp add: pg_AppSessionByTokenHash_def statement_def bindS_def seen_eta map_filter_def)
  next
    case (Some r)
    then have r: "r \<in> set ?rows" "live_row ?now h r" by (auto simp: find_Some_iff)
    then have "r \<in> set (filter (live_row ?now h) ?rows)" by simp
    with single have one: "filter (live_row ?now h) ?rows = [r]" by (metis empty_iff empty_set insert_iff list.simps(15))
    obtain u where u: "user_of_session db r = Some u" using session_user [OF ok r(1)] by blast
    then have "user_of_session db (seen ?now r) = Some u" by (simp add: user_of_session_def)
    with Some one u update fault show ?thesis
      by (simp add: pg_AppSessionByTokenHash_def statement_def bindS_def seen_eta map_filter_def)
  qed
qed

lemma find_session_entries:
  assumes "db_ok db"
  shows "pg_entries (snd (pg_AppSessionByTokenHash pe n h db)) = pg_entries db"
proof (cases "pe_fault pe n")
  case None
  have "pg_entries (db\<lparr>db_app_sessions := map (\<lambda>r. if live_row now h r then seen now r else r) (db_app_sessions db)\<rparr>) h' =
      pg_entries db h'" for now h'
    using find_map_key [of sess_token_hash "\<lambda>r. if live_row now h r then seen now r else r" h' "db_app_sessions db"]
    by (auto simp: pg_entries_def option.map_comp comp_def if_distrib intro!: option.map_cong)
  with find_session_eq [OF assms None] show ?thesis by (auto simp: fun_eq_iff split: option.split)
qed (simp add: pg_AppSessionByTokenHash_def statement_def bindS_def)

lemma find_session_live:
  assumes "db_ok db" and "fst (pg_AppSessionByTokenHash pe n h db) = Inr a"
  shows "\<exists>t. pg_entries db h = Some t \<and> entry_live (pe_now pe n) t \<and> aps_id a = tk_session t \<and> aps_expires_at a = tk_expires t"
proof -
  have "pe_fault pe n = None"
    using assms(2) by (cases "pe_fault pe n") (simp_all add: pg_AppSessionByTokenHash_def statement_def bindS_def)
  with find_session_eq [OF assms(1) this, of h] assms(2) obtain r where
    r: "find (live_row (pe_now pe n) h) (db_app_sessions db) = Some r" "aps_id a = sess_id r" "aps_expires_at a = sess_expires_at r"
    by (auto simp: session_of_row_def split: option.splits)
  then have member: "r \<in> set (db_app_sessions db)" "live_row (pe_now pe n) h r" by (auto simp: find_Some_iff)
  then have "h \<in> sess_token_hash ` set (db_app_sessions db)" by (auto simp: live_row_def)
  from find_some_with [OF this] obtain r' where
    r': "find (\<lambda>r. sess_token_hash r = h) (db_app_sessions db) = Some r'" "r' \<in> set (db_app_sessions db)" "sess_token_hash r' = h"
    by blast
  have "r' = r"
    using app_sessions.rows_apart [OF assms(1), of r' r] member r' by (auto simp: live_row_def app_sessions_def)
  with r r' member show ?thesis by (auto simp: pg_entries_def row_entry_def entry_live_def live_row_def)
qed

lemma live_session_found:
  assumes "db_ok db" and "pe_fault pe n = None" and "pg_entries db h = Some t" and "entry_live (pe_now pe n) t"
  shows "\<exists>a. fst (pg_AppSessionByTokenHash pe n h db) = Inr a"
proof -
  from assms(3) obtain r where r: "find (\<lambda>r. sess_token_hash r = h) (db_app_sessions db) = Some r" "row_entry r = t"
    by (auto simp: pg_entries_def)
  then have "live_row (pe_now pe n) h r" "r \<in> set (db_app_sessions db)"
    using assms(4) by (auto simp: live_row_def row_entry_def entry_live_def find_Some_iff)
  then have "find (live_row (pe_now pe n) h) (db_app_sessions db) \<noteq> None" by (auto simp: find_None_iff)
  with find_session_eq [OF assms(1,2), of h] show ?thesis by (auto split: option.split)
qed

text \<open>Creating a session: a new row, and a lookup of it.\<close>

lemma inserted_row:
  "insert_row pe tb r db = (Inr r', db') \<Longrightarrow> r' = r \<and> db' = tb_put tb (tb_rows tb db @ [r]) db \<and>
     \<not> list_ex (tb_clash tb r) (tb_rows tb db) \<and> tb_check tb r = None"
  by (auto simp: insert_row_def split: option.splits if_splits)

lemma find_snoc: "find P (xs @ [x]) = (case find P xs of Some y \<Rightarrow> Some y | None \<Rightarrow> if P x then Some x else None)"
  by (induction xs) auto

lemma inserted_entries:
  assumes "insert_row pe app_sessions r db = (Inr r', db')"
  shows "pg_entries db' = (pg_entries db)(sess_token_hash r \<mapsto> row_entry r)"
proof -
  have db': "db_app_sessions db' = db_app_sessions db @ [r]" and new: "\<not> list_ex (tb_clash app_sessions r) (db_app_sessions db)"
    using inserted_row [OF assms] by simp_all
  have "find (\<lambda>r'. sess_token_hash r' = sess_token_hash r) (db_app_sessions db) = None"
    using new by (auto simp: find_None_iff list_ex_iff app_sessions_def)
  then show ?thesis by (auto simp: pg_entries_def db' find_snoc fun_eq_iff split: option.split)
qed

lemma create_session_entries:
  assumes ok: "db_ok db" and run: "pg_CreateAppSession pe u h x db = (res, db')"
  shows "h' \<noteq> h \<Longrightarrow> pg_entries db' h' = pg_entries db h'"
    and "res = Inr a \<Longrightarrow> pg_entries db' h = Some \<lparr>tk_session = aps_id a, tk_expires = aps_expires_at a, tk_revoked = False\<rparr>"
proof -
  have "(h' \<noteq> h \<longrightarrow> pg_entries db' h' = pg_entries db h') \<and>
    (\<forall>a. res = Inr a \<longrightarrow> pg_entries db' h = Some \<lparr>tk_session = aps_id a, tk_expires = aps_expires_at a, tk_revoked = False\<rparr>)"
  proof (cases "uuid_arg pe u")
    case (Inl err)
    with run show ?thesis by (auto simp: pg_CreateAppSession_def bindS_def)
  next
    case (Inr uid)
    let ?row = "\<lparr>sess_id = pe_fresh pe 0, sess_user_id = uid, sess_token_hash = h, sess_expires_at = timestamptz x,
            sess_last_seen_at = None, sess_revoked_at = None, sess_created_at = pe_now pe 0\<rparr>"
    obtain r1 db1 where insert: "statement pe 0 [] (insert_row pe app_sessions ?row) db = (r1, db1)" by fastforce
    from statement_cases [OF this] show ?thesis
    proof
      assume "\<exists>e. r1 = Inl e \<and> db1 = db"
      with insert run Inr show ?thesis by (auto simp: pg_CreateAppSession_def bindS_def)
    next
      assume "\<exists>a. r1 = Inr a \<and> insert_row pe app_sessions ?row db = (Inr a, db1)"
      then obtain row where r1: "r1 = Inr row" and inserted: "insert_row pe app_sessions ?row db = (Inr row, db1)" by blast
      have row: "row = ?row" using inserted_row [OF inserted] by simp
      have ok1: "db_ok db1" using keepsD_eq [OF app_sessions.insert_keeps inserted ok] .
      obtain r2 db2 where look: "pg_AppSessionByTokenHash pe 1 h db1 = (r2, db2)" by fastforce
      have "pg_entries db2 = pg_entries db1" using find_session_entries [OF ok1, of pe 1 h] look by simp
      then have entries: "pg_entries db2 = (pg_entries db)(h \<mapsto> row_entry ?row)" using inserted_entries [OF inserted] by simp
      from run insert r1 look Inr have "db' = db2" and "res = Inr a \<Longrightarrow> aps_id a = sess_id row \<and> aps_expires_at a = sess_expires_at row" for a
        by (auto simp: pg_CreateAppSession_def bindS_def split: sum.splits)
      with entries row show ?thesis by (auto simp: row_entry_def)
    qed
  qed
  then show "h' \<noteq> h \<Longrightarrow> pg_entries db' h' = pg_entries db h'"
    and "res = Inr a \<Longrightarrow> pg_entries db' h = Some \<lparr>tk_session = aps_id a, tk_expires = aps_expires_at a, tk_revoked = False\<rparr>"
    by simp_all
qed

lemma revoke_session_entries:
  assumes "\<forall>u. pe_uuid pe k = Some u \<longrightarrow> u = k" and run: "pg_RevokeAppSession pe k db = (res, db')"
  shows "pg_entries db' = (if isl res then pg_entries db else map_option (mark_revoked k) \<circ> pg_entries db)"
proof (cases "pe_uuid pe k")
  case None
  with run show ?thesis by (auto simp: pg_RevokeAppSession_def uuid_arg_def bindS_def)
next
  case (Some u)
  with assms(1) have uuid: "uuid_arg pe k = Inr k" by (simp add: uuid_arg_def)
  let ?P = "\<lambda>r. sess_id r = k \<and> sess_revoked_at r = None" and ?f = "\<lambda>r. r\<lparr>sess_revoked_at := Some (pe_now pe 0)\<rparr>"
  obtain r1 db1 where step: "statement pe 0 [] (update_rows pe app_sessions ?P ?f) db = (r1, db1)" by fastforce
  from statement_cases [OF this] show ?thesis
  proof
    assume "\<exists>e. r1 = Inl e \<and> db1 = db"
    with step run uuid show ?thesis by (auto simp: pg_RevokeAppSession_def bindS_def)
  next
    assume "\<exists>a. r1 = Inr a \<and> update_rows pe app_sessions ?P ?f db = (Inr a, db1)"
    then obtain changed where r1: "r1 = Inr changed" and update: "update_rows pe app_sessions ?P ?f db = (Inr changed, db1)" by blast
    from run step r1 uuid have res: "res = (if changed = [] then Inl ErrNotFound else Inr ())" and db': "db' = db1"
      by (auto simp: pg_RevokeAppSession_def bindS_def split: if_splits)
    have entries: "pg_entries db1 h = map_option (\<lambda>r. row_entry (if ?P r then ?f r else r))
        (find (\<lambda>r. sess_token_hash r = h) (db_app_sessions db))" for h
      using updated_entries [of ?f pe ?P db h] update by simp
    have "row_entry (if ?P r then ?f r else r) = mark_revoked k (row_entry r)" for r
      by (auto simp: row_entry_def mark_revoked_def)
    with entries have "pg_entries db1 h = map_option (mark_revoked k) (pg_entries db h)" for h
      by (simp add: pg_entries_def [of db] option.map_comp comp_def)
    then have marked: "pg_entries db1 = map_option (mark_revoked k) \<circ> pg_entries db" by (simp add: fun_eq_iff)
    have "changed = map ?f (filter ?P (db_app_sessions db))"
      "db1 = db\<lparr>db_app_sessions := map (\<lambda>r. if ?P r then ?f r else r) (db_app_sessions db)\<rparr>"
      using update by (auto simp: update_rows_def Let_def split: option.splits if_splits)
    then have "changed = [] \<Longrightarrow> db1 = db" by (simp add: filter_empty_conv map_idI)
    with marked res db' show ?thesis by auto
  qed
qed

interpretation persistent_sessions: session_tokens pg_tokens pg_entries db_ok pg_admits "\<lambda>pe. pe_now pe 0" "\<lambda>pe. pe_fault pe 0 = None"
proof unfold_locales
  fix db and pe :: pg_env and c
  assume "db_ok db"
  then show "db_ok (token_step pg_tokens (pe, c) db)"
    by (cases c) (simp_all add: pg_tokens_def keepsD keeps_intros)
next
  fix db and pe :: pg_env and u h x a db'
  assume "db_ok db" and "to_create pg_tokens pe u h x db = (Inr a, db')"
  then show "pg_entries db' h = Some \<lparr>tk_session = aps_id a, tk_expires = aps_expires_at a, tk_revoked = False\<rparr>"
    using create_session_entries(2) by (auto simp: pg_tokens_def)
next
  fix db and pe :: pg_env and u h x and h' :: string
  assume "db_ok db" and "h' \<noteq> h"
  then show "pg_entries (snd (to_create pg_tokens pe u h x db)) h' = pg_entries db h'"
    using create_session_entries(1) [of db pe u h x "fst (pg_CreateAppSession pe u h x db)"]
    by (simp add: pg_tokens_def prod_eq_iff)
next
  fix db and pe :: pg_env and h
  assume "db_ok db"
  then show "pg_entries (snd (to_find pg_tokens pe h db)) = pg_entries db" by (simp add: pg_tokens_def find_session_entries)
next
  fix db and pe :: pg_env and h a
  assume "db_ok db" and "fst (to_find pg_tokens pe h db) = Inr a"
  then show "\<exists>t. pg_entries db h = Some t \<and> entry_live (pe_now pe 0) t \<and> aps_id a = tk_session t"
    using find_session_live by (fastforce simp: pg_tokens_def)
next
  fix db and pe :: pg_env and h t
  assume "db_ok db" and "pe_fault pe 0 = None" and "pg_entries db h = Some t" and "entry_live (pe_now pe 0) t"
  then show "\<exists>a. fst (to_find pg_tokens pe h db) = Inr a" by (simp add: pg_tokens_def live_session_found)
next
  fix db and pe :: pg_env and k
  assume "pg_admits pe (Revoke_session k) db"
  then show "pg_entries (snd (to_revoke pg_tokens pe k db)) =
      (if isl (fst (to_revoke pg_tokens pe k db)) then pg_entries db else map_option (mark_revoked k) \<circ> pg_entries db)"
    using revoke_session_entries [of pe k db "fst (pg_RevokeAppSession pe k db)"]
    by (simp add: pg_tokens_def pg_admits_def prod_eq_iff)
qed

text \<open>C7: A session of the persistent store is found by its token exactly until it expires or is revoked, whatever other sessions are
  created (for other tokens), found and revoked (by the identifier as the store prints it) meanwhile and whichever of these operations
  fail; the last lookup itself is one without a fault.\<close>

theorem persistent_session_lifecycle:
  assumes "reachable_db db" and "pg_CreateAppSession pe userID h expiresAt db = (Inr a, db1)"
    and "quiet_run pg_tokens pg_admits h calls db1" and "pe_fault pe' 0 = None"
  shows "(\<exists>b. fst (pg_AppSessionByTokenHash pe' 0 h (token_run pg_tokens calls db1)) = Inr b \<and> aps_id b = aps_id a) \<longleftrightarrow>
    \<not> revoked_by pg_tokens (aps_id a) calls db1 \<and> pe_now pe' 0 < aps_expires_at a"
  using persistent_sessions.found_until_revoked [of db pe userID h expiresAt a db1 calls pe'] reachable_db_ok [OF assms(1)] assms(2-4)
  by (simp add: pg_tokens_def pg_admits_def)

end
