(* ===== verification/Postgres_Sessions.thy ===== *)
theory Postgres_Sessions imports Postgres_Properties Handlers_Apply begin

text \<open>
  What comes back of an issue session and of a task that were stored: the rows that \<open>UpdateSession\<close> and \<open>UpdateTask\<close> leave, and what a
  lookup makes of them; and where that differs from the in-memory store.
\<close>

section \<open>Frames\<close>

text \<open>A statement on a table keeps what does not depend on the table.\<close>

lemma frame_statements:
  assumes "\<And>rows db. P db \<Longrightarrow> P (tb_put tb rows db)"
  shows "keeps P (insert_row pe tb r)" and "keeps P (update_rows pe tb Q f)" and "keeps P (delete_rows tb Q)"
    and "keeps P (upsert_row pe tb same merge r)" and "keeps P (insert_unless pe tb same r)"
proof -
  show insert: "keeps P (insert_row pe tb r)" and update: "keeps P (update_rows pe tb Q f)" for Q f
    using assms by (auto simp: keeps_def insert_row_def update_rows_def Let_def split: option.split)
  show "keeps P (delete_rows tb Q)" using assms by (simp add: keeps_def delete_rows_def)
  have "P (snd (case update_rows pe tb same merge db of
      (Inr (updated # _), db') \<Rightarrow> (Inr updated, db') | (Inr [], db') \<Rightarrow> (Inr r, db') | (Inl e, _) \<Rightarrow> (Inl e, db)))" if "P db" for db
    using keepsD [OF update that, of same merge] that by (auto split: prod.split sum.split list.split)
  then show "keeps P (upsert_row pe tb same merge r)"
    using insert by (auto simp: keeps_def upsert_row_def split: option.split)
  have "P (snd (case insert_row pe tb r db of (Inl e, _) \<Rightarrow> (Inl e, db) | (Inr r', db') \<Rightarrow> (Inr True, db')))" if "P db" for db
    using keepsD [OF insert that] that by (auto split: prod.split sum.split)
  then show "keeps P (insert_unless pe tb same r)" by (auto simp: keeps_def insert_unless_def split: option.split)
qed

lemma transaction_committed:
  "transaction pe m n (\<lambda>_. True) body db = (Inr a, db') \<Longrightarrow> body db = (Inr a, db')"
  by (auto simp: transaction_def split: option.splits prod.splits sum.splits)

lemma statement_Inr: "statement pe n texts body db = (Inr a, db') \<Longrightarrow> body db = (Inr a, db')"
  using statement_cases by fastforce

lemma bind_liftR: "bindS (liftR r) f = (case r of Inl e \<Rightarrow> failS e | Inr a \<Rightarrow> f a)"
  by (auto simp: bindS_def fun_eq_iff split: sum.split)

text \<open>A statement that fails makes the operation fail.\<close>

lemma checked_row_refused: "tb_check tb r \<noteq> None \<Longrightarrow> isl (fst (insert_row pe tb r db))"
  by (auto simp: insert_row_def)

lemma statement_fails: "isl (fst (body db)) \<Longrightarrow> isl (fst (statement pe n texts body db))"
  by (cases "body db") (auto simp: statement_def split: option.split sum.split)

lemma bind_fails: "isl (fst (m db)) \<Longrightarrow> isl (fst (bindS m f db))"
  by (cases "m db") (auto simp: bindS_def isl_def)

section \<open>What an update of a session leaves\<close>

lemma keeps_files_loop:
  assumes "\<And>rows db. P db \<Longrightarrow> P (db\<lparr>db_generated_files := rows\<rparr>)"
  shows "keeps P (insert_files pe t n sid taskID files)"
proof (induction files arbitrary: n)
  case (Cons item files)
  then show ?case using assms by (auto intro!: keeps_intros frame_statements)
qed (simp add: keeps_ret)

lemma keeps_saved_files:
  assumes "\<And>rows db. P db \<Longrightarrow> P (db\<lparr>db_generated_files := rows\<rparr>)" and "\<And>rows db. P db \<Longrightarrow> P (db\<lparr>db_git_workflow_payloads := rows\<rparr>)"
  shows "keeps P (saveGeneratedFiles pe t n sid contract)"
  unfolding saveGeneratedFiles_def using assms by (intro keeps_intros frame_statements keeps_files_loop) simp_all

lemma keeps_responses:
  assumes "\<And>rows db. P db \<Longrightarrow> P (db\<lparr>db_user_responses := rows\<rparr>)"
  shows "keeps P (record_response pe n sid session)"
  unfolding record_response_def insertUserResponse_def Let_def using assms by (intro keeps_intros frame_statements) simp_all

lemma keeps_recorded_plan:
  assumes "\<And>rows db. P db \<Longrightarrow> P (db\<lparr>db_generated_plans := rows\<rparr>)" and "\<And>rows db. P db \<Longrightarrow> P (db\<lparr>db_plan_revisions := rows\<rparr>)"
    and "\<And>rows db. P db \<Longrightarrow> P (db\<lparr>db_agent_tasks := rows\<rparr>)"
  shows "keeps P (record_plan pe t n sid session)"
  unfolding record_plan_def using assms by (intro keeps_intros frame_statements) simp_all

text \<open>The steps of a successful update.\<close>

lemma UpdateSession_steps:
  assumes "pg_UpdateSession pe session db = (Inr (), db')"
  obtains sid revision workflow changed db1 db2 db3 where
    "uuid_arg pe (ses_id session) = Inr sid" and "int4_arg pe (ses_revision session) = Inr revision"
    and "workflow_json pe session = Inr workflow"
    and "update_rows pe issue_sessions (\<lambda>s. iss_id s = sid)
      (\<lambda>s. s\<lparr>iss_status := ses_status session, iss_current_revision := revision, iss_git_workflow := workflow,
         iss_updated_at := pe_now pe 0\<rparr>) db = (Inr changed, db1)"
    and "changed \<noteq> []"
    and "(case ses_generated_files session of None \<Rightarrow> retS () | Some contract \<Rightarrow> saveGeneratedFiles pe 0 10 sid contract) db1 = (Inr (), db2)"
    and "record_response pe 2 sid session db2 = (Inr (), db3)" and "record_plan pe 0 3 sid session db3 = (Inr (), db')"
proof -
  note body = transaction_committed [OF assms [unfolded pg_UpdateSession_def]]
  from body obtain sid where sid: "uuid_arg pe (ses_id session) = Inr sid"
    by (cases "uuid_arg pe (ses_id session)") (simp_all add: bind_liftR)
  from body sid obtain revision where rev: "int4_arg pe (ses_revision session) = Inr revision"
    by (cases "int4_arg pe (ses_revision session)") (simp_all add: bind_liftR)
  from body sid rev obtain workflow where wf: "workflow_json pe session = Inr workflow"
    by (cases "workflow_json pe session") (simp_all add: bind_liftR)
  show ?thesis
    using body that [OF sid rev wf]
    by (auto simp: bind_liftR sid rev wf elim!: bindS_InrE split: if_splits dest!: statement_Inr)
qed

text \<open>C13: Corrections are lost: the persistent store reads the feedback of a session from the revisions of its plan, and a request for a
  correction does not write one. Whatever feedback the session carries when it is stored for correction, the next lookup sees the
  feedback of before.\<close>

theorem correction_is_not_read_back:
  assumes "ses_status session = SessionCorrectionRequested" and "pg_UpdateSession pe session db = (Inr (), db')"
  shows "feedback_of_session pe' n sid db' = feedback_of_session pe' n sid db"
proof -
  let ?same = "\<lambda>d. db_plan_revisions d = db_plan_revisions db"
  from assms(2) show ?thesis
  proof (rule UpdateSession_steps)
    fix sid' revision workflow changed db1 db2 db3
    assume update: "update_rows pe issue_sessions (\<lambda>s. iss_id s = sid')
        (\<lambda>s. s\<lparr>iss_status := ses_status session, iss_current_revision := revision, iss_git_workflow := workflow,
           iss_updated_at := pe_now pe 0\<rparr>) db = (Inr changed, db1)"
      and files: "(case ses_generated_files session of None \<Rightarrow> retS () | Some contract \<Rightarrow> saveGeneratedFiles pe 0 10 sid' contract) db1 =
        (Inr (), db2)"
      and response: "record_response pe 2 sid' session db2 = (Inr (), db3)" and plan: "record_plan pe 0 3 sid' session db3 = (Inr (), db')"
    have "keeps ?same (update_rows pe issue_sessions P f)" for P f by (rule frame_statements(2)) (simp add: issue_sessions_def)
    from keepsD_eq [OF this update] have same1: "?same db1" by simp
    have "keeps ?same (case ses_generated_files session of None \<Rightarrow> retS () | Some contract \<Rightarrow> saveGeneratedFiles pe 0 10 sid' contract)"
      by (intro keeps_intros keeps_saved_files) simp_all
    from keepsD_eq [OF this files same1] have same2: "?same db2" .
    have "keeps ?same (record_response pe 2 sid' session)" by (rule keeps_responses) simp
    from keepsD_eq [OF this response same2] have "?same db3" .
    moreover have "db' = db3" using plan assms(1) by (simp add: record_plan_def status_defs)
    ultimately show ?thesis by (simp add: feedback_of_session_def)
  qed
qed

section \<open>Files that cannot be stored\<close>

text \<open>A contract with a file that is marked as skipped cannot be stored: the status is not one that the schema knows.\<close>

lemma skipped_text: "trim_space ''skipped'' \<noteq> []"
  by code_simp

lemma insert_files_refused:
  assumes "\<exists>item \<in> set files. gf_status item = ''skipped''"
  shows "isl (fst (insert_files pe t n sid taskID files db))"
  using assms
proof (induction files arbitrary: n db)
  case (Cons item files)
  show ?case
  proof (cases "gf_status item = ''skipped''")
    case True
    then have "stored_file item = item" by (simp add: stored_file_def skipped_text)
    with True have "tb_check generated_files \<lparr>gnf_id = k, gnf_issue_session_id = sid, gnf_agent_task_id = taskID,
        gnf_file = stored_file item, gnf_created_at = now\<rparr> \<noteq> None" for k now
      by (auto simp: generated_files_def first_violated_def find_None_iff)
    then show ?thesis by (simp add: bind_fails statement_fails checked_row_refused)
  next
    case False
    with Cons show ?thesis by (auto simp: bindS_def split: prod.split sum.split)
  qed
qed simp

lemma update_with_skipped_file:
  assumes "ses_generated_files session = Some contract" and "\<exists>item \<in> set (gc_files contract). gf_status item = ''skipped''"
  shows "isl (fst (pg_UpdateSession pe session db))"
proof (rule ccontr)
  assume "\<not> ?thesis"
  then obtain db' where "pg_UpdateSession pe session db = (Inr (), db')"
    by (cases "pg_UpdateSession pe session db"; cases "fst (pg_UpdateSession pe session db)") auto
  then show False
  proof (rule UpdateSession_steps)
    fix sid db1 db2
    assume files: "(case ses_generated_files session of None \<Rightarrow> retS () | Some contract \<Rightarrow> saveGeneratedFiles pe 0 10 sid contract) db1 =
      (Inr (), db2)"
    have "isl (fst (insert_files pe 0 20 sid taskID (gc_files contract) d))" for taskID d using assms(2) by (rule insert_files_refused)
    with files assms(1) show False
      by (auto simp: saveGeneratedFiles_def bind_liftR elim!: bindS_InrE split: sum.splits dest!: statement_Inr) (metis fst_conv isl_def sum.disc(2))
  qed
qed

text \<open>C27: When the generated files change nothing, the handler marks every file as skipped and stores the session before it answers 409. The
  persistent store refuses that session, whatever else it holds: nothing is stored, and the handler answers with the storage error.\<close>

theorem no_effective_changes_not_recorded:
  assumes "gc_files contract \<noteq> []"
  shows "\<exists>e. pg_UpdateSession pe (with_contract session (marked_files ''skipped'' (failed_contract now no_effective_changes contract))) db =
    (Inl e, db)"
proof -
  let ?session = "with_contract session (marked_files ''skipped'' (failed_contract now no_effective_changes contract))"
  have "isl (fst (pg_UpdateSession pe ?session db))"
    by (rule update_with_skipped_file)
      (use assms in \<open>auto simp: with_contract_def marked_files_def failed_contract_def neq_Nil_conv\<close>)
  moreover have "isl (fst (transaction pe n m (\<lambda>_. True) body db)) \<Longrightarrow> snd (transaction pe n m (\<lambda>_. True) body db) = db"
    for n m and body :: "unit pg_op"
    by (auto simp: transaction_def split: option.splits prod.splits sum.splits)
  ultimately have "snd (pg_UpdateSession pe ?session db) = db" by (simp only: pg_UpdateSession_def)
  with \<open>isl _\<close> show ?thesis by (metis isl_def prod.collapse)
qed

end
