(* ===== verification/Postgres_Roundtrips.thy ===== *)
theory Postgres_Roundtrips imports Postgres_Sessions begin

text \<open>
  What comes back of an issue session and of a task that were stored: \<open>UpdateSession\<close> followed by \<open>Session\<close>, and \<open>UpdateTask\<close>
  followed by \<open>Task\<close>.
\<close>

section \<open>What a statement leaves\<close>

lemma update_rows_effect:
  "update_rows pe tb P f db = (Inr changed, db') \<Longrightarrow>
     changed = map f (filter P (tb_rows tb db)) \<and> db' = tb_put tb (map (\<lambda>r. if P r then f r else r) (tb_rows tb db)) db"
  by (auto simp: update_rows_def Let_def split: option.splits if_splits)

lemma insert_row_effect:
  "insert_row pe tb r db = (Inr r', db') \<Longrightarrow> r' = r \<and> db' = tb_put tb (tb_rows tb db @ [r]) db"
  by (auto simp: insert_row_def split: option.splits if_splits)

lemma delete_rows_effect: "delete_rows tb P db = (Inr (), db') \<longleftrightarrow> db' = tb_put tb (filter (\<lambda>r. \<not> P r) (tb_rows tb db)) db"
  by (auto simp: delete_rows_def)

text \<open>After an upsert the rows of the key are the merged ones, or else the new one.\<close>

lemma upsert_row_effect:
  assumes "upsert_row pe tb same merge r db = (Inr u, db')" and rows: "\<And>rows. tb_rows tb (tb_put tb rows db) = rows"
    and "same r" and "\<And>x. same x \<Longrightarrow> same (merge x)"
  shows "filter same (tb_rows tb db') = (if list_ex same (tb_rows tb db) then map merge (filter same (tb_rows tb db)) else [r])"
    and "u \<in> set (filter same (tb_rows tb db'))"
proof -
  let ?rows = "tb_rows tb db"
  have merged: "filter same (map (\<lambda>r. if same r then merge r else r) xs) = map merge (filter same xs)" for xs
    using assms(4) by (induction xs) auto
  have none: "\<not> list_ex same xs \<Longrightarrow> filter same xs = []" for xs by (induction xs) auto
  have some: "list_ex same xs \<Longrightarrow> filter same xs \<noteq> []" for xs by (induction xs) auto
  have "filter same (tb_rows tb db') = (if list_ex same ?rows then map merge (filter same ?rows) else [r]) \<and>
      u \<in> set (filter same (tb_rows tb db'))"
  proof (cases "list_ex same ?rows")
    case True
    then obtain changed where "update_rows pe tb same merge db = (Inr changed, db')" and "changed = [] \<longrightarrow> u = r"
        and "changed \<noteq> [] \<longrightarrow> u = hd changed"
      using assms(1) by (auto simp: upsert_row_def split: option.splits prod.splits sum.splits list.splits)
    moreover from some [OF True] obtain x rest where "filter same ?rows = x # rest" by (cases "filter same ?rows") auto
    ultimately have "u = merge x" and "filter same (tb_rows tb db') = map merge (filter same ?rows)"
      by (auto dest!: update_rows_effect simp: rows merged)
    with True \<open>filter same ?rows = x # rest\<close> show ?thesis by simp
  next
    case False
    then have "insert_row pe tb r db = (Inr u, db')" using assms(1) by (auto simp: upsert_row_def split: option.splits)
    with False rows none [OF False] assms(3) show ?thesis by (auto dest!: insert_row_effect)
  qed
  then show "filter same (tb_rows tb db') = (if list_ex same ?rows then map merge (filter same ?rows) else [r])"
    and "u \<in> set (filter same (tb_rows tb db'))" by blast+
qed

section \<open>The files of a session\<close>

lemma insert_files_effect:
  "insert_files pe t n sid taskID files db = (Inr (), db') \<Longrightarrow>
     map gnf_file (filter (\<lambda>f. gnf_issue_session_id f = sid) (db_generated_files db')) =
       map gnf_file (filter (\<lambda>f. gnf_issue_session_id f = sid) (db_generated_files db)) @ map stored_file files"
proof (induction files arbitrary: n db)
  case (Cons item files)
  from Cons.prems obtain r db1 where "insert_row pe generated_files \<lparr>gnf_id = pe_fresh pe n, gnf_issue_session_id = sid,
      gnf_agent_task_id = taskID, gnf_file = stored_file item, gnf_created_at = pe_now pe t\<rparr> db = (Inr r, db1)"
    and rest: "insert_files pe t (n + 1) sid taskID files db1 = (Inr (), db')"
    by (auto elim!: bindS_InrE dest!: statement_Inr)
  then have "db_generated_files db1 = db_generated_files db @ [\<lparr>gnf_id = pe_fresh pe n, gnf_issue_session_id = sid,
      gnf_agent_task_id = taskID, gnf_file = stored_file item, gnf_created_at = pe_now pe t\<rparr>]"
    by (auto dest!: insert_row_effect simp: generated_files_def)
  with Cons.IH [OF rest] show ?case by simp
qed simp

text \<open>The payload and the files that a contract leaves.\<close>

lemma saved_files_effect:
  assumes "saveGeneratedFiles pe t n sid contract db = (Inr (), db')"
  obtains taskID where "optional_uuid pe (gc_task_id contract) = Inr taskID"
    and "map gnf_file (filter (\<lambda>f. gnf_issue_session_id f = sid) (db_generated_files db')) = map stored_file (gc_files contract)"
    and "\<exists>rest. filter (\<lambda>w. gwp_issue_session_id w = sid) (db_git_workflow_payloads db') = payload_of_contract sid taskID contract # rest"
proof -
  let ?mine = "\<lambda>w. gwp_issue_session_id w = sid"
  from assms obtain taskID u db1 db2 where task: "optional_uuid pe (gc_task_id contract) = Inr taskID"
    and payload: "upsert_row pe git_workflow_payloads ?mine (\<lambda>w. payload_of_contract sid taskID contract)
      (payload_of_contract sid taskID contract) db = (Inr u, db1)"
    and deleted: "delete_rows generated_files (\<lambda>f. gnf_issue_session_id f = sid) db1 = (Inr (), db2)"
    and files: "insert_files pe t (n + 10) sid taskID (gc_files contract) db2 = (Inr (), db')"
    by (auto simp: saveGeneratedFiles_def bind_liftR elim!: bindS_InrE split: sum.splits dest!: statement_Inr)
  have "filter ?mine (db_git_workflow_payloads db1) =
      (if list_ex ?mine (db_git_workflow_payloads db)
       then map (\<lambda>w. payload_of_contract sid taskID contract) (filter ?mine (db_git_workflow_payloads db))
       else [payload_of_contract sid taskID contract])"
    using upsert_row_effect(1) [OF payload] by (simp add: git_workflow_payloads_def payload_of_contract_def)
  then have "\<exists>rest. filter ?mine (db_git_workflow_payloads db1) = payload_of_contract sid taskID contract # rest"
    by (cases "filter ?mine (db_git_workflow_payloads db)") (auto simp: filter_empty_conv list_ex_iff)
  moreover have "db_git_workflow_payloads db2 = db_git_workflow_payloads db1" "filter (\<lambda>f. gnf_issue_session_id f = sid) (db_generated_files db2) = []"
    using deleted by (simp_all add: delete_rows_effect generated_files_def)
  moreover have "db_git_workflow_payloads db' = db_git_workflow_payloads db2"
  proof -
    have "keeps (\<lambda>d. db_git_workflow_payloads d = db_git_workflow_payloads db2) (insert_files pe t (n + 10) sid taskID (gc_files contract))"
      by (rule keeps_files_loop) simp
    from keepsD_eq [OF this files] show ?thesis by simp
  qed
  ultimately show ?thesis using that [OF task] insert_files_effect [OF files] by simp
qed

section \<open>Finding a session again\<close>

lemma single_row:
  assumes "filter Q rows = [] \<or> (\<exists>r. filter Q rows = [r])" and "r \<in> set rows" and "Q r"
  shows "filter Q (scan pe n rows) = [r]"
proof -
  have "r \<in> set (filter Q rows)" using assms(2,3) by simp
  with assms(1) have "filter Q rows = [r]" by (metis empty_iff empty_set insert_iff list.simps(15))
  then have "mset (filter Q rows) = {#r#}" by (simp only: mset_single_iff)
  then have "mset (filter Q (scan pe n rows)) = {#r#}" by (simp only: mset_filter mset_scan)
  then show ?thesis by (rule mset_single_iff [THEN iffD1])
qed

lemma joined_sessions:
  assumes "\<And>s. s \<in> set rows \<Longrightarrow> \<exists>r c p. session_join db s = Some (s, r, c, p)" and "\<And>s r. P s r = Q s"
  shows "filter (\<lambda>(s, r, c, p). P s r) (List.map_filter (session_join db) rows) = List.map_filter (session_join db) (filter Q rows)"
  using assms(1)
proof (induction rows)
  case (Cons s rows)
  then obtain r c p where "session_join db s = Some (s, r, c, p)" by force
  with Cons assms(2) show ?case by (simp add: List.map_filter_simps)
qed (simp add: List.map_filter_simps)

lemma session_join_shape: "session_join db s \<noteq> None \<Longrightarrow>
    \<exists>r c. session_join db s = Some (s, r, c, find (\<lambda>p. gpl_issue_session_id p = iss_id s) (db_generated_plans db))"
  by (auto simp: session_join_def split: option.splits)

lemma found_session:
  assumes ok: "db_ok db" and s: "s \<in> set (db_issue_sessions db)"
    and other: "\<forall>s' \<in> set (db_issue_sessions db). iss_external_issue_id s' \<noteq> iss_id s"
  shows "\<exists>r c. session_join db s = Some (s, r, c, find (\<lambda>p. gpl_issue_session_id p = iss_id s) (db_generated_plans db)) \<and>
    select_sessions pe n (\<lambda>s' r. iss_id s' = iss_id s \<or> iss_external_issue_id s' = iss_id s) db =
    [(s, r, c, find (\<lambda>p. gpl_issue_session_id p = iss_id s) (db_generated_plans db))]"
proof -
  let ?rows = "db_issue_sessions db" and ?Q = "\<lambda>s'. iss_id s' = iss_id s"
  have "filter ?Q ?rows = [] \<or> (\<exists>r. filter ?Q ?rows = [r])"
    using issue_sessions.rows_ok_get [OF ok]
    by (intro sorted_wrt_unique [where C = "tb_clash issue_sessions"]) (auto simp: rows_ok_def issue_sessions_def)
  from single_row [OF this s] have single: "filter ?Q (scan pe n ?rows) = [s]" by simp
  obtain r c where join: "session_join db s = Some (s, r, c, find (\<lambda>p. gpl_issue_session_id p = iss_id s) (db_generated_plans db))"
    using session_join_shape [OF session_joins [OF ok s]] by blast
  have "select_sessions pe n (\<lambda>s' r. iss_id s' = iss_id s \<or> iss_external_issue_id s' = iss_id s) db =
      List.map_filter (session_join db) (filter (\<lambda>s'. iss_id s' = iss_id s \<or> iss_external_issue_id s' = iss_id s) (scan pe n ?rows))"
    unfolding select_sessions_def using session_join_shape session_joins [OF ok] by (intro joined_sessions) (fastforce, simp)
  also have "filter (\<lambda>s'. iss_id s' = iss_id s \<or> iss_external_issue_id s' = iss_id s) (scan pe n ?rows) = filter ?Q (scan pe n ?rows)"
    using other by (intro filter_cong) auto
  finally show ?thesis using join by (simp add: single List.map_filter_simps)
qed

text \<open>The contract that is read back from the rows of a contract, up to the order of its files.\<close>

definition same_contract :: "generated_files_contract \<Rightarrow> generated_files_contract \<Rightarrow> bool" where
  "same_contract c contract \<longleftrightarrow>
     mset (gc_files c) = mset (map stored_file (gc_files contract)) \<and> gc_branch_name c = gc_branch_name contract \<and>
     gc_base_branch c = (if trim_space (gc_base_branch contract) = [] then ''main'' else gc_base_branch contract) \<and>
     gc_commit_message c = gc_commit_message contract \<and> gc_pr_title c = gc_pr_title contract \<and>
     gc_reviewer c = gc_reviewer contract \<and> gc_commit_sha c = gc_commit_sha contract \<and>
     gc_pull_request_id c = gc_pull_request_id contract \<and> gc_pull_request_url c = gc_pull_request_url contract \<and>
     gc_apply_error c = gc_apply_error contract \<and> gc_applied_at c = map_option timestamptz (gc_applied_at contract) \<and>
     gc_apply_status c =
       (if gc_apply_status contract = ''applied'' \<or> gc_apply_status contract = ''failed'' then gc_apply_status contract else [])"

lemma contract_of_payload:
  assumes "mset (map gnf_file files) = mset (map stored_file (gc_files contract))"
  shows "same_contract (contract_of_rows (payload_of_contract sid taskID contract) files stored) contract"
proof -
  have "gc_files contract = [] \<longleftrightarrow> files = []" using assms by (metis map_is_Nil_conv mset_zero_iff)
  with assms show ?thesis
  by (simp add: same_contract_def contract_of_rows_def payload_of_contract_def payload_status_def no_contract_def Let_def split: option.split)
qed

lemma loaded_contract:
  assumes "saveGeneratedFiles pe t n sid contract db = (Inr (), db1)"
    and "db_git_workflow_payloads db' = db_git_workflow_payloads db1" and "db_generated_files db' = db_generated_files db1"
    and "pe_fault pe' = (\<lambda>m. None)"
  shows "\<exists>c. loadGeneratedFiles pe' k sid stored db' = (Inr (Some c), db') \<and> same_contract c contract"
  using assms(1)
proof (rule saved_files_effect)
  fix taskID
  assume files: "map gnf_file (filter (\<lambda>f. gnf_issue_session_id f = sid) (db_generated_files db1)) = map stored_file (gc_files contract)"
    and "\<exists>rest. filter (\<lambda>w. gwp_issue_session_id w = sid) (db_git_workflow_payloads db1) = payload_of_contract sid taskID contract # rest"
  then obtain rest where payload: "filter (\<lambda>w. gwp_issue_session_id w = sid) (db_git_workflow_payloads db') =
      payload_of_contract sid taskID contract # rest"
    using assms(2) by auto
  have "mset (map gnf_file (files_of_session pe' (k + 1) sid db')) =
      mset (map gnf_file (filter (\<lambda>f. gnf_issue_session_id f = sid) (db_generated_files db1)))"
    using assms(3) by (simp add: files_of_session_def)
  then have "mset (map gnf_file (files_of_session pe' (k + 1) sid db')) = mset (map stored_file (gc_files contract))" by (simp only: files)
  from contract_of_payload [OF this] show ?thesis
    using payload assms(4) by (auto simp: loadGeneratedFiles_def bindS_def statement_def)
qed

text \<open>What a lookup makes of the files after an update.\<close>

lemma updated_files_loaded:
  assumes "(case ses_generated_files session of None \<Rightarrow> retS () | Some contract \<Rightarrow> saveGeneratedFiles pe t n sid contract) db1 = (Inr (), db2)"
    and "db_git_workflow_payloads db' = db_git_workflow_payloads db2" and "db_generated_files db' = db_generated_files db2"
    and "pe_fault pe' = (\<lambda>m. None)"
  shows "\<exists>generated. loadGeneratedFiles pe' k sid stored db' = (Inr generated, db') \<and>
    (\<forall>contract. ses_generated_files session = Some contract \<longrightarrow> (\<exists>c. generated = Some c \<and> same_contract c contract))"
proof (cases "ses_generated_files session")
  case None
  then show ?thesis using assms(4) by (auto simp: loadGeneratedFiles_def bindS_def statement_def split: list.split)
next
  case (Some contract)
  with assms(1) have "saveGeneratedFiles pe t n sid contract db1 = (Inr (), db2)" by simp
  from loaded_contract [OF this assms(2-4), of k stored] Some show ?thesis by auto
qed

text \<open>The plan that a session with a new plan leaves.\<close>

lemma bind_then_keeps:
  assumes "bindS m f db = (Inr b, db')" and "\<And>a x. keeps (\<lambda>d. g d = x) (f a)"
  obtains a db1 where "m db = (Inr a, db1)" and "g db' = g db1"
  using assms(1) by (rule bindS_InrE) (use that keepsD_eq [OF assms(2)] in blast)

lemma find_is_head: "find P xs = (case filter P xs of [] \<Rightarrow> None | x # rest \<Rightarrow> Some x)"
  by (induction xs) auto

lemma recorded_plan_effect:
  assumes "record_plan pe t n sid session db = (Inr (), db')" and "ses_status session = SessionPlanGenerated" and "ses_revision session > 0"
    and "trim_space (ses_plan_markdown session) \<noteq> []"
  shows "\<exists>p. find (\<lambda>p. gpl_issue_session_id p = sid) (db_generated_plans db') = Some p \<and> gpl_plan_markdown p = ses_plan_markdown session"
proof -
  let ?mine = "\<lambda>p. gpl_issue_session_id p = sid"
  have cond: "ses_status session = SessionPlanGenerated \<and> ses_revision session > 0 \<and> trim_space (ses_plan_markdown session) \<noteq> []"
    using assms(2-4) by simp
  obtain u db1 where upsert: "upsert_row pe generated_plans ?mine
        (\<lambda>p. p\<lparr>gpl_plan_markdown := ses_plan_markdown session, gpl_current_revision := ses_revision session\<rparr>)
        \<lparr>gpl_id = pe_fresh pe n, gpl_issue_session_id = sid, gpl_plan_markdown = ses_plan_markdown session,
         gpl_current_revision = ses_revision session\<rparr> db = (Inr u, db1)"
    and same: "db_generated_plans db' = db_generated_plans db1"
    using assms(1) unfolding record_plan_def
    by (simp only: cond not_True_eq_False if_False simp_thms)
      (elim bind_then_keeps [where g = db_generated_plans],
       (intro keeps_intros frame_statements; simp add: plan_revisions_def agent_tasks_def), blast dest: statement_Inr)
  have "\<exists>p rest. filter ?mine (db_generated_plans db1) = p # rest \<and> gpl_plan_markdown p = ses_plan_markdown session"
    using upsert_row_effect [OF upsert] by (cases "filter ?mine (db_generated_plans db)") (auto simp: generated_plans_def split: if_splits)
  then show ?thesis by (auto simp: same find_is_head)
qed

lemma updated_session_rows:
  assumes "update_rows pe issue_sessions (\<lambda>s. iss_id s = sid)
      (\<lambda>s. s\<lparr>iss_status := status, iss_current_revision := revision, iss_git_workflow := workflow, iss_updated_at := now\<rparr>) db =
      (Inr changed, db1)" and "changed \<noteq> []"
  shows "\<exists>s \<in> set (db_issue_sessions db). iss_id s = sid \<and>
      s\<lparr>iss_status := status, iss_current_revision := revision, iss_git_workflow := workflow, iss_updated_at := now\<rparr> \<in>
        set (db_issue_sessions db1)"
    and "iss_external_issue_id ` set (db_issue_sessions db1) = iss_external_issue_id ` set (db_issue_sessions db)"
proof -
  let ?f = "\<lambda>s. s\<lparr>iss_status := status, iss_current_revision := revision, iss_git_workflow := workflow, iss_updated_at := now\<rparr>"
  have rows: "db_issue_sessions db1 = map (\<lambda>s. if iss_id s = sid then ?f s else s) (db_issue_sessions db)"
    using update_rows_effect [OF assms(1)] by (simp add: issue_sessions_def)
  obtain s where s: "s \<in> set (db_issue_sessions db)" "iss_id s = sid"
    using update_rows_effect [OF assms(1)] assms(2) by (auto simp: filter_empty_conv issue_sessions_def)
  then have "?f s \<in> set (db_issue_sessions db1)" by (force simp: rows)
  with s show "\<exists>s \<in> set (db_issue_sessions db). iss_id s = sid \<and> ?f s \<in> set (db_issue_sessions db1)" by blast
  show "iss_external_issue_id ` set (db_issue_sessions db1) = iss_external_issue_id ` set (db_issue_sessions db)"
  proof -
    have "map iss_external_issue_id (db_issue_sessions db1) = map iss_external_issue_id (db_issue_sessions db)" by (simp add: rows)
    then show ?thesis by (metis set_map)
  qed
qed

lemma keeps_value:
  assumes "\<And>x. keeps (\<lambda>d. g d = x) m" and "m s = (r, s')"
  shows "g s' = g s"
  using keepsD [OF assms(1), of s] assms(2) by simp

text \<open>What a lookup makes of the one row that it selects.\<close>

lemma looked_up_session:
  assumes "select_sessions pe n (\<lambda>s' r. iss_id s' = k \<or> iss_external_issue_id s' = k) db = [(s, r, c, p)]"
    and "fst (pg_Session pe n k db) = Inr t"
  shows "ses_id t = iss_id s \<and> ses_status t = iss_status s \<and> ses_revision t = iss_current_revision s \<and>
    ses_plan_markdown t = (case p of None \<Rightarrow> [] | Some plan \<Rightarrow> gpl_plan_markdown plan) \<and> ses_request t = stored_request s r \<and>
    ses_config t = (acf_parsed c)\<lparr>cfg_raw := acf_raw_yml c\<rparr> \<and> ses_created_at t = iss_created_at s \<and>
    ses_updated_at t = iss_updated_at s \<and> ses_feedback_history t = feedback_of_session pe (n + 3) (iss_id s) db \<and>
    (\<exists>d. loadGeneratedFiles pe (n + 1) (iss_id s) (iss_git_workflow s) db = (Inr (ses_generated_files t), d))"
proof -
  obtain db' where run: "pg_Session pe n k db = (Inr t, db')" using assms(2) by (cases "pg_Session pe n k db") simp
  then have "scanSession pe (n + 1) [(s, r, c, p)] db = (Inr t, db')"
    using assms(1) by (auto simp: pg_Session_def elim!: bindS_InrE dest!: statement_Inr)
  then obtain generated d feedback d' where load: "loadGeneratedFiles pe (n + 1) (iss_id s) (iss_git_workflow s) db = (Inr generated, d)"
    and "feedback = feedback_of_session pe (n + 3) (iss_id s) d" and
    t: "t = \<lparr>ses_id = iss_id s, ses_status = iss_status s,
        ses_plan_markdown = (case p of None \<Rightarrow> [] | Some plan \<Rightarrow> gpl_plan_markdown plan),
        ses_request = stored_request s r, ses_config = (acf_parsed c)\<lparr>cfg_raw := acf_raw_yml c\<rparr>,
        ses_revision = iss_current_revision s, ses_feedback_history = feedback, ses_generated_files = generated,
        ses_created_at = iss_created_at s, ses_updated_at = iss_updated_at s\<rparr>"
    by (auto simp: scanSession_def numeral_3_eq_3 elim!: bindS_InrE dest!: statement_Inr)
  moreover have "d = db"
    using load by (auto simp: loadGeneratedFiles_def elim!: bindS_InrE split: list.splits dest!: statement_Inr)
  ultimately show ?thesis by auto
qed

lemma same_joins:
  assumes "session_join db s = Some (s, r, c, p)" and "session_join db' s' = Some (s', r', c', p')"
    and "iss_repository_id s' = iss_repository_id s" and "iss_ai_config_id s' = iss_ai_config_id s"
    and "db_repositories db' = db_repositories db" and "db_ai_configs db' = db_ai_configs db"
  shows "r' = r \<and> c' = c"
  using assms by (auto simp: session_join_def split: option.splits)

text \<open>Whether an update stores its plan: the session becomes \<open>plan_generated\<close> with a revision and a plan that is not blank.\<close>

definition stores_plan :: "issue_session \<Rightarrow> bool" where
  "stores_plan session \<longleftrightarrow>
     ses_status session = SessionPlanGenerated \<and> ses_revision session > 0 \<and> trim_space (ses_plan_markdown session) \<noteq> []"

lemma record_plan_skipped: "\<not> stores_plan session \<Longrightarrow> record_plan pe t n sid session db = (Inr (), db') \<longleftrightarrow> db' = db"
  by (auto simp: record_plan_def stores_plan_def)

text \<open>The frame of an update: it leaves repositories and configurations, and plans and their revisions but for those that it records.\<close>

lemma UpdateSession_frame:
  assumes "pg_UpdateSession pe session db = (Inr (), db')"
  shows "db_repositories db' = db_repositories db" and "db_ai_configs db' = db_ai_configs db"
    and "\<not> stores_plan session \<Longrightarrow> db_generated_plans db' = db_generated_plans db \<and> db_plan_revisions db' = db_plan_revisions db"
proof -
  let ?kept = "\<lambda>d. (db_repositories d, db_ai_configs d)" and ?plans = "\<lambda>d. (db_generated_plans d, db_plan_revisions d)"
  let ?all = "\<lambda>d. (?kept d, ?plans d)"
  have "?kept db' = ?kept db \<and> (\<not> stores_plan session \<longrightarrow> ?plans db' = ?plans db)"
    using assms
  proof (rule UpdateSession_steps)
    fix sid revision workflow changed db1 db2 db3
    assume update: "update_rows pe issue_sessions (\<lambda>s. iss_id s = sid)
        (\<lambda>s. s\<lparr>iss_status := ses_status session, iss_current_revision := revision, iss_git_workflow := workflow,
           iss_updated_at := pe_now pe 0\<rparr>) db = (Inr changed, db1)"
      and files: "(case ses_generated_files session of None \<Rightarrow> retS () | Some contract \<Rightarrow> saveGeneratedFiles pe 0 10 sid contract) db1 =
        (Inr (), db2)"
      and response: "record_response pe 2 sid session db2 = (Inr (), db3)" and plan: "record_plan pe 0 3 sid session db3 = (Inr (), db')"
    have "?all db1 = ?all db" using update_rows_effect [OF update] by (simp add: issue_sessions_def)
    moreover have "?all db2 = ?all db1"
      by (rule keeps_value [where m = "case ses_generated_files session of None \<Rightarrow> retS () | Some contract \<Rightarrow> saveGeneratedFiles pe 0 10 sid contract",
          OF _ files]) (intro keeps_intros keeps_saved_files; simp)
    moreover have "?all db3 = ?all db2"
      by (rule keeps_value [where m = "record_response pe 2 sid session", OF _ response]) (rule keeps_responses; simp)
    moreover have "?kept db' = ?kept db3"
      by (rule keeps_value [where m = "record_plan pe 0 3 sid session", OF _ plan]) (rule keeps_recorded_plan; simp)
    moreover have "db' = db3" if "\<not> stores_plan session" using plan record_plan_skipped [OF that] by blast
    ultimately show ?thesis by auto
  qed
  then show "db_repositories db' = db_repositories db" and "db_ai_configs db' = db_ai_configs db"
    and "\<not> stores_plan session \<Longrightarrow> db_generated_plans db' = db_generated_plans db \<and> db_plan_revisions db' = db_plan_revisions db"
    by simp_all
qed

lemma session_readable:
  assumes "select_sessions pe n (\<lambda>s' r. iss_id s' = k \<or> iss_external_issue_id s' = k) db = [(s, r, c, p)]"
    and "pe_fault pe = (\<lambda>n. None)" and "pe_text pe k"
  shows "\<exists>t. fst (pg_Session pe n k db) = Inr t"
proof -
  obtain generated where "loadGeneratedFiles pe (n + 1) (iss_id s) (iss_git_workflow s) db = (Inr generated, db)"
    using assms(2) by (cases "filter (\<lambda>w. gwp_issue_session_id w = iss_id s) (db_git_workflow_payloads db)")
      (auto simp: loadGeneratedFiles_def bindS_def statement_def)
  with assms show ?thesis by (simp add: pg_Session_def scanSession_def bindS_def statement_def)
qed

lemma nothing_loaded: "loadGeneratedFiles pe n sid stored db = (Inr None, d) \<Longrightarrow> stored = None \<and>
    filter (\<lambda>w. gwp_issue_session_id w = sid) (db_git_workflow_payloads db) = []"
  by (cases "filter (\<lambda>w. gwp_issue_session_id w = sid) (db_git_workflow_payloads db)")
    (auto simp: loadGeneratedFiles_def elim!: bindS_InrE dest!: statement_Inr)

text \<open>The row of the session before and after an update, and what a lookup makes of its plan and its files.\<close>

lemma UpdateSession_row:
  assumes "pg_UpdateSession pe session db = (Inr (), db')" and "uuid_arg pe (ses_id session) = Inr sid" and "pe_fault pe' = (\<lambda>n. None)"
  obtains old new workflow where "old \<in> set (db_issue_sessions db)" and "iss_id old = sid" and "new \<in> set (db_issue_sessions db')"
    and "new = old\<lparr>iss_status := ses_status session, iss_current_revision := ses_revision session, iss_git_workflow := workflow,
      iss_updated_at := pe_now pe 0\<rparr>"
    and "iss_external_issue_id ` set (db_issue_sessions db') = iss_external_issue_id ` set (db_issue_sessions db)"
    and "stores_plan session \<Longrightarrow>
      \<exists>p. find (\<lambda>p. gpl_issue_session_id p = sid) (db_generated_plans db') = Some p \<and> gpl_plan_markdown p = ses_plan_markdown session"
    and "\<And>d d0 g g0 stored. loadGeneratedFiles pe' 1 sid stored db = (Inr g0, d0) \<Longrightarrow>
      loadGeneratedFiles pe' 1 sid workflow db' = (Inr g, d) \<Longrightarrow>
      (case ses_generated_files session of None \<Rightarrow> g0 = None \<longrightarrow> g = None | Some contract \<Rightarrow> \<exists>c. g = Some c \<and> same_contract c contract)"
  using assms(1)
proof (rule UpdateSession_steps)
  fix sid' revision workflow changed db1 db2 db3
  assume sid': "uuid_arg pe (ses_id session) = Inr sid'" and revision: "int4_arg pe (ses_revision session) = Inr revision"
    and workflow: "workflow_json pe session = Inr workflow"
    and update: "update_rows pe issue_sessions (\<lambda>s. iss_id s = sid')
        (\<lambda>s. s\<lparr>iss_status := ses_status session, iss_current_revision := revision, iss_git_workflow := workflow,
           iss_updated_at := pe_now pe 0\<rparr>) db = (Inr changed, db1)" and changed: "changed \<noteq> []"
    and files: "(case ses_generated_files session of None \<Rightarrow> retS () | Some contract \<Rightarrow> saveGeneratedFiles pe 0 10 sid' contract) db1 =
        (Inr (), db2)"
    and response: "record_response pe 2 sid' session db2 = (Inr (), db3)" and plan: "record_plan pe 0 3 sid' session db3 = (Inr (), db')"
  have [simp]: "sid' = sid" using sid' assms(2) by simp
  have [simp]: "revision = ses_revision session" using revision by (auto simp: int4_arg_def split: if_splits)
  let ?rows = "\<lambda>d. (db_issue_sessions d, db_git_workflow_payloads d, db_generated_files d)"
  have "db_issue_sessions db2 = db_issue_sessions db1"
    by (rule keeps_value [where m = "case ses_generated_files session of None \<Rightarrow> retS () | Some contract \<Rightarrow> saveGeneratedFiles pe 0 10 sid' contract",
        OF _ files]) (intro keeps_intros keeps_saved_files; simp)
  moreover have "?rows db3 = ?rows db2" by (rule keeps_value [where m = "record_response pe 2 sid' session", OF _ response]) (rule keeps_responses; simp)
  moreover have "?rows db' = ?rows db3" by (rule keeps_value [where m = "record_plan pe 0 3 sid' session", OF _ plan]) (rule keeps_recorded_plan; simp)
  ultimately have sessions: "db_issue_sessions db' = db_issue_sessions db1"
    and later: "db_git_workflow_payloads db' = db_git_workflow_payloads db2" "db_generated_files db' = db_generated_files db2"
    by simp_all
  have payloads: "db_git_workflow_payloads db1 = db_git_workflow_payloads db" using update_rows_effect [OF update] by (simp add: issue_sessions_def)
  obtain old where old: "old \<in> set (db_issue_sessions db)" "iss_id old = sid"
      "old\<lparr>iss_status := ses_status session, iss_current_revision := ses_revision session, iss_git_workflow := workflow,
        iss_updated_at := pe_now pe 0\<rparr> \<in> set (db_issue_sessions db')"
    using updated_session_rows(1) [OF update changed] by (auto simp: sessions)
  have contract: "case ses_generated_files session of None \<Rightarrow> g0 = None \<longrightarrow> g = None | Some contract \<Rightarrow> \<exists>c. g = Some c \<and> same_contract c contract"
    if "loadGeneratedFiles pe' 1 sid stored db = (Inr g0, d0)" and "loadGeneratedFiles pe' 1 sid workflow db' = (Inr g, d)" for d d0 g g0 stored
  proof (cases "ses_generated_files session")
    case None
    then have "db_git_workflow_payloads db' = db_git_workflow_payloads db" "workflow = None"
      using files later payloads workflow by (simp_all add: workflow_json_def)
    with nothing_loaded [of pe' 1 sid stored db d0] that None show ?thesis
      using assms(3) by (auto simp: loadGeneratedFiles_def bindS_def statement_def)
  next
    case (Some contract)
    with updated_files_loaded [OF files later assms(3), of 1 workflow] that(2) show ?thesis by auto
  qed
  show ?thesis
    using that [OF old(1,2) old(3) refl _ _ contract] updated_session_rows(2) [OF update changed] recorded_plan_effect [OF plan]
    by (simp add: sessions stores_plan_def)
qed

text \<open>C11: What comes back of an issue session that was updated and is looked up by its identifier, field by field. The status and the
  revision are those of the update. The plan is that of the update only when the session became \<open>plan_generated\<close> with a positive
  revision and a plan that is not blank; otherwise it, and the history of feedback, are as before the update. The files of a contract
  come back with their outcome, up to their order and the defaults that the store fills in (\<open>same_contract\<close>); a session without a
  contract that had none has none. Whatever request, configuration and time of creation the update carries, they stay as they were,
  and the time of the update is that of the statement. Assumed are that no fault hits the lookups, and, because a lookup takes the
  number of an issue as well, that the identifier is not one.\<close>

theorem session_reads_back:
  assumes "reachable_db db" and "pg_UpdateSession pe session db = (Inr (), db')" and "uuid_arg pe (ses_id session) = Inr sid"
    and "\<forall>s \<in> set (db_issue_sessions db). iss_external_issue_id s \<noteq> sid" and "pe_fault pe' = (\<lambda>n. None)" and "pe_text pe' sid"
  shows "\<exists>s0 s. fst (pg_Session pe' 0 sid db) = Inr s0 \<and> fst (pg_Session pe' 0 sid db') = Inr s \<and> ses_id s = sid \<and>
    ses_status s = ses_status session \<and> ses_revision s = ses_revision session \<and>
    (if stores_plan session then ses_plan_markdown s = ses_plan_markdown session
     else ses_plan_markdown s = ses_plan_markdown s0 \<and> ses_feedback_history s = ses_feedback_history s0) \<and>
    (case ses_generated_files session of
       None \<Rightarrow> ses_generated_files s0 = None \<longrightarrow> ses_generated_files s = None
     | Some contract \<Rightarrow> \<exists>c. ses_generated_files s = Some c \<and> same_contract c contract) \<and>
    ses_request s = ses_request s0 \<and> ses_config s = ses_config s0 \<and> ses_created_at s = ses_created_at s0 \<and>
    ses_updated_at s = pe_now pe 0"
proof (rule UpdateSession_row [OF assms(2,3,5)])
  fix old new workflow
  assume old: "old \<in> set (db_issue_sessions db)" "iss_id old = sid" and new: "new \<in> set (db_issue_sessions db')"
      "new = old\<lparr>iss_status := ses_status session, iss_current_revision := ses_revision session, iss_git_workflow := workflow,
        iss_updated_at := pe_now pe 0\<rparr>"
    and numbers: "iss_external_issue_id ` set (db_issue_sessions db') = iss_external_issue_id ` set (db_issue_sessions db)"
    and plan: "stores_plan session \<Longrightarrow>
      \<exists>p. find (\<lambda>p. gpl_issue_session_id p = sid) (db_generated_plans db') = Some p \<and> gpl_plan_markdown p = ses_plan_markdown session"
    and files: "\<And>d d0 g g0 stored. loadGeneratedFiles pe' 1 sid stored db = (Inr g0, d0) \<Longrightarrow>
      loadGeneratedFiles pe' 1 sid workflow db' = (Inr g, d) \<Longrightarrow>
      (case ses_generated_files session of None \<Rightarrow> g0 = None \<longrightarrow> g = None | Some contract \<Rightarrow> \<exists>c. g = Some c \<and> same_contract c contract)"
  have before: "db_ok db" using assms(1) by (rule reachable_db_ok)
  have "keeps db_ok (pg_UpdateSession pe session)" by (intro keeps_intros)
  from keepsD [OF this before] assms(2) have ok: "db_ok db'" by simp
  note frame = UpdateSession_frame [OF assms(2)]
  have id: "iss_id new = sid" using new(2) old(2) by simp
  have other: "\<forall>s' \<in> set (db_issue_sessions db). iss_external_issue_id s' \<noteq> iss_id old" using assms(4) old(2) by simp
  have other': "\<forall>s' \<in> set (db_issue_sessions db'). iss_external_issue_id s' \<noteq> iss_id new"
    using numbers assms(4) unfolding id by (metis imageE imageI)
  let ?plan = "\<lambda>d. find (\<lambda>p. gpl_issue_session_id p = sid) (db_generated_plans d)"
  obtain r c where join: "session_join db old = Some (old, r, c, ?plan db)"
    and found: "select_sessions pe' 0 (\<lambda>s' r. iss_id s' = sid \<or> iss_external_issue_id s' = sid) db = [(old, r, c, ?plan db)]"
    using found_session [OF before old(1) other, of pe' 0] old(2) by auto
  obtain r' c' where join': "session_join db' new = Some (new, r', c', ?plan db')"
    and found': "select_sessions pe' 0 (\<lambda>s' r. iss_id s' = sid \<or> iss_external_issue_id s' = sid) db' = [(new, r', c', ?plan db')]"
    using found_session [OF ok new(1) other', of pe' 0] id by auto
  have same: "r' = r" "c' = c" using same_joins [OF join join' _ _ frame(1,2)] new(2) by simp_all
  obtain s0 s where s0: "fst (pg_Session pe' 0 sid db) = Inr s0" and s: "fst (pg_Session pe' 0 sid db') = Inr s"
    using session_readable [OF found assms(5,6)] session_readable [OF found' assms(5,6)] by blast
  note fields0 = looked_up_session [OF found s0] and fields = looked_up_session [OF found' s]
  have "if stores_plan session then ses_plan_markdown s = ses_plan_markdown session
     else ses_plan_markdown s = ses_plan_markdown s0 \<and> ses_feedback_history s = ses_feedback_history s0"
    using plan frame(3) fields fields0 old(2) id by (auto simp: feedback_of_session_def)
  moreover have "case ses_generated_files session of None \<Rightarrow> ses_generated_files s0 = None \<longrightarrow> ses_generated_files s = None
     | Some contract \<Rightarrow> \<exists>c. ses_generated_files s = Some c \<and> same_contract c contract"
    using files fields fields0 old(2) id new(2) by auto
  moreover have "stored_request new r' = stored_request old r" by (simp add: stored_request_def same new(2))
  ultimately show ?thesis using s0 s fields fields0 same id new(2) by (intro exI [of _ s0] exI [of _ s]) simp
qed

section \<open>Tasks\<close>

text \<open>What a lookup makes of a task that is stored once.\<close>

lemma looked_up_task:
  assumes "db_ok db" and "t \<in> set (db_agent_tasks db)" and "atk_id t = tid" and "pe_fault pe = (\<lambda>n. None)" and "pe_text pe tid"
  shows "fst (pg_Task pe tid db) = Inr (task_of_row db t)"
proof -
  have "filter (\<lambda>t. atk_id t = tid) (db_agent_tasks db) = [] \<or> (\<exists>r. filter (\<lambda>t. atk_id t = tid) (db_agent_tasks db) = [r])"
    using agent_tasks.rows_ok_get [OF assms(1)]
    by (intro sorted_wrt_unique [where C = "tb_clash agent_tasks"]) (auto simp: rows_ok_def agent_tasks_def)
  from single_row [OF this assms(2,3)] have "filter (\<lambda>t. atk_id t = tid) (scan pe 0 (db_agent_tasks db)) = [t]" .
  with assms(4,5) show ?thesis by (simp add: pg_Task_def first_task_def bindS_def statement_def)
qed

text \<open>C31: What comes back of a task that was updated and is looked up again: the status, the attempt, the model and the summary as they
  were given; the error, the relevant files and the usage as their encoding leaves them (\<open>encoding/json\<close> and then jsonb: what they
  make of a value is a parameter, about which nothing is assumed), an error exactly when there was one; and everything else, the
  session and the issue, the type, the plan and the time of creation, as it was before the update, whatever the update carries.\<close>

theorem task_reads_back:
  assumes "reachable_db db" and "pg_UpdateTask pe task db = (Inr (), db')" and "uuid_arg pe (task_id task) = Inr tid"
    and "pe_fault pe' = (\<lambda>n. None)" and "pe_text pe' tid"
  shows "\<exists>t0 t. fst (pg_Task pe' tid db) = Inr t0 \<and> fst (pg_Task pe' tid db') = Inr t \<and> task_id t = tid \<and>
    task_status t = task_status task \<and> task_attempt t = task_attempt task \<and> task_model t = task_model task \<and>
    task_tool_execution_summary t = task_tool_execution_summary task \<and>
    (case task_err task of None \<Rightarrow> task_err t = None | Some e \<Rightarrow> task_err t \<noteq> None \<and> task_err t = pe_json_error pe e) \<and>
    Some (task_relevant_files t) = pe_json_relevant pe (task_relevant_files task) \<and>
    Some (task_usage t) = pe_json_usage pe (task_usage task) \<and>
    task_session_id t = task_session_id t0 \<and> task_issue_id t = task_issue_id t0 \<and> task_type t = task_type t0 \<and>
    task_generated_plan_id t = task_generated_plan_id t0 \<and> task_plan_markdown t = task_plan_markdown t0 \<and>
    task_created_at t = task_created_at t0 \<and> task_updated_at t = pe_now pe 0"
proof -
  let ?mine = "\<lambda>t. atk_id t = tid"
  have before: "db_ok db" using assms(1) by (rule reachable_db_ok)
  have "keeps db_ok (pg_UpdateTask pe task)" by (intro keeps_intros)
  from keepsD [OF this before] assms(2) have ok: "db_ok db'" by simp
  from assms(2,3) obtain attempt errorJSON relevant usage f changed where
    attempt: "int4_arg pe (task_attempt task) = Inr attempt"
    and err: "(case task_err task of None \<Rightarrow> Inr None
      | Some e \<Rightarrow> (case json_arg pe (pe_json_error pe e) of Inl err \<Rightarrow> Inl err | Inr e' \<Rightarrow> Inr (Some e'))) = Inr errorJSON"
    and json: "json_arg pe (pe_json_relevant pe (task_relevant_files task)) = Inr relevant" "json_arg pe (pe_json_usage pe (task_usage task)) = Inr usage"
    and f: "f = (\<lambda>t :: agent_task_row. t\<lparr>atk_status := task_status task, atk_attempt := attempt,
      atk_error_message := (case task_err task of None \<Rightarrow> [] | Some e \<Rightarrow> te_detail e), atk_error := errorJSON,
      atk_relevant_files := relevant, atk_model := task_model task, atk_usage := usage,
      atk_tool_execution_summary := task_tool_execution_summary task,
      atk_started_at := (if task_status task = ''processing'' \<and> atk_started_at t = None then Some (pe_now pe 0) else atk_started_at t),
      atk_completed_at := (if task_status task \<in> {''completed'', ''failed''} then Some (pe_now pe 0) else atk_completed_at t),
      atk_updated_at := pe_now pe 0\<rparr>)"
    and update: "update_rows pe agent_tasks ?mine f db = (Inr changed, db')" and "changed \<noteq> []"
    unfolding pg_UpdateTask_def bind_liftR
    by (auto elim!: bindS_InrE split: if_splits sum.splits dest!: statement_Inr)
  have [simp]: "attempt = task_attempt task" using attempt by (auto simp: int4_arg_def split: if_splits)
  from update_rows_effect [OF update] \<open>changed \<noteq> []\<close> obtain t where t: "t \<in> set (db_agent_tasks db)" "?mine t"
    and rows: "db' = db\<lparr>db_agent_tasks := map (\<lambda>r. if ?mine r then f r else r) (db_agent_tasks db)\<rparr>"
    by (auto simp: agent_tasks_def filter_empty_conv)
  then have stored: "f t \<in> set (db_agent_tasks db')" "?mine (f t)" by (auto simp: rows f)
  let ?t = "task_of_row db' (f t)"
  have "case task_err task of None \<Rightarrow> task_err ?t = None | Some e \<Rightarrow> task_err ?t \<noteq> None \<and> task_err ?t = pe_json_error pe e"
    using err by (cases "task_err task"; cases "pe_json_error pe (the (task_err task))") (auto simp: json_arg_def task_of_row_def f)
  moreover have "Some (task_relevant_files ?t) = pe_json_relevant pe (task_relevant_files task)"
      "Some (task_usage ?t) = pe_json_usage pe (task_usage task)"
    using json by (auto simp: json_arg_def task_of_row_def f split: option.splits)
  ultimately show ?thesis
    using looked_up_task [OF before t assms(4,5)] looked_up_task [OF ok stored assms(4,5)] t(2)
    by (intro exI [of _ "task_of_row db t"] exI [of _ ?t]) (simp add: task_of_row_def f rows)
qed

end
