(* ===== verification/Postgres_Issues.thy ===== *)
theory Postgres_Issues imports Postgres_Roundtrips begin

text \<open>
  One session per issue: \<open>CreateSession\<close> of the persistent store, called again for an issue.
\<close>

section \<open>Whether an issue has a session\<close>

definition session_row_of :: "string \<Rightarrow> string \<Rightarrow> database \<Rightarrow> issue_session_row \<Rightarrow> bool" where
  "session_row_of repositoryID issueID db s \<longleftrightarrow>
     s \<in> set (db_issue_sessions db) \<and> iss_external_issue_id s = issueID \<and>
     (\<exists>r c p. session_join db s = Some (s, r, c, p) \<and> rpo_external_id r = repositoryID)"

definition has_session :: "string \<Rightarrow> string \<Rightarrow> database \<Rightarrow> bool" where
  "has_session repositoryID issueID db \<longleftrightarrow> (\<exists>s. session_row_of repositoryID issueID db s)"

lemma session_join_repository:
  "session_join db s = Some (s', r, c, p) \<Longrightarrow> s' = s \<and> r \<in> set (db_repositories db) \<and> rpo_id r = iss_repository_id s"
  by (auto simp: session_join_def find_Some_iff split: option.splits)

text \<open>The schema allows no second one.\<close>

lemma session_row_unique:
  assumes ok: "db_ok db" and "session_row_of repositoryID issueID db s" and "session_row_of repositoryID issueID db s'"
  shows "s = s'"
proof -
  from assms(2) obtain r c p where s: "s \<in> set (db_issue_sessions db)" "iss_external_issue_id s = issueID"
      "session_join db s = Some (s, r, c, p)" "rpo_external_id r = repositoryID"
    by (auto simp: session_row_of_def)
  from assms(3) obtain r' c' p' where s': "s' \<in> set (db_issue_sessions db)" "iss_external_issue_id s' = issueID"
      "session_join db s' = Some (s', r', c', p')" "rpo_external_id r' = repositoryID"
    by (auto simp: session_row_of_def)
  note joined = session_join_repository [OF s(3)] session_join_repository [OF s'(3)]
  have "r = r'" using repositories.rows_apart [OF ok, of r r'] joined s(4) s'(4) by (auto simp: repositories_def)
  with joined have "iss_repository_id s = iss_repository_id s'" by simp
  with issue_sessions.rows_apart [OF ok, of s s'] s(1,2) s'(1,2) show ?thesis by (auto simp: issue_sessions_def)
qed

lemma select_sessions_iff:
  "select_sessions pe n (\<lambda>s r. rpo_external_id r = repositoryID \<and> iss_external_issue_id s = issueID) db \<noteq> [] \<longleftrightarrow>
     has_session repositoryID issueID db"
proof -
  have shape: "session_join db s = Some (s', r, c, p) \<Longrightarrow> s' = s" for s s' r c p
    by (auto simp: session_join_def split: option.splits)
  have "x \<in> set (List.map_filter (session_join db) rows) \<longleftrightarrow> (\<exists>s \<in> set rows. session_join db s = Some x)" for x rows
    by (induction rows) (auto simp: List.map_filter_simps split: option.split)
  then show ?thesis
    using shape by (fastforce simp: select_sessions_def filter_empty_conv has_session_def session_row_of_def)
qed

text \<open>Reading a session changes nothing, and without faults it succeeds when there is one.\<close>

lemma loadGeneratedFiles_reads: "snd (loadGeneratedFiles pe n sid stored db) = db"
  by (auto simp: loadGeneratedFiles_def bindS_def statement_def split: option.split list.split)

lemma scanSession_reads: "scanSession pe n found db = (r, db') \<Longrightarrow> db' = db"
proof -
  assume run: "scanSession pe n found db = (r, db')"
  show "db' = db"
  proof (cases found)
    case Nil
    with run show ?thesis by (simp add: scanSession_def)
  next
    case (Cons x rest)
    obtain s rp c p where x: "x = (s, rp, c, p)" by (rule prod_cases4)
    obtain g d where load: "loadGeneratedFiles pe n (iss_id s) (iss_git_workflow s) db = (g, d)" by fastforce
    with loadGeneratedFiles_reads [of pe n "iss_id s" "iss_git_workflow s" db] have "d = db" by simp
    with run Cons x load show ?thesis
      by (auto simp: scanSession_def bindS_def statement_def split: sum.splits option.splits if_splits)
  qed
qed

lemma session_found:
  assumes "has_session repositoryID issueID db" and "pe_fault pe = (\<lambda>n. None)" and "pe_text pe repositoryID" and "pe_text pe issueID"
  shows "\<exists>s. sessionByRepositoryIssue pe n repositoryID issueID db = (Inr s, db)"
proof -
  obtain s r c p rest where "select_sessions pe n (\<lambda>s r. rpo_external_id r = repositoryID \<and> iss_external_issue_id s = issueID) db =
      (s, r, c, p) # rest"
    using assms(1) select_sessions_iff [of pe n repositoryID issueID db] by (metis list.exhaust prod_cases4)
  moreover obtain generated where "loadGeneratedFiles pe (n + 1) (iss_id s) (iss_git_workflow s) db = (Inr generated, db)"
    using assms(2) by (cases "filter (\<lambda>w. gwp_issue_session_id w = iss_id s) (db_git_workflow_payloads db)")
      (auto simp: loadGeneratedFiles_def bindS_def statement_def)
  ultimately show ?thesis
    using assms(2-4) by (simp add: sessionByRepositoryIssue_def scanSession_def bindS_def statement_def)
qed

text \<open>The session that a lookup returns is the one of a row that the statement selects.\<close>

lemma scanned_session: "scanSession pe n found db = (Inr s, db') \<Longrightarrow> \<exists>row r c p rest. found = (row, r, c, p) # rest \<and> ses_id s = iss_id row"
  by (cases found) (auto simp: scanSession_def elim!: bindS_InrE split: prod.splits)

lemma selected_session:
  assumes "(row, r, c, p) \<in> set (select_sessions pe n P db)"
  shows "row \<in> set (db_issue_sessions db) \<and> session_join db row = Some (row, r, c, p) \<and> P row r"
proof -
  have joined: "x \<in> set (List.map_filter (session_join db) rows) \<longleftrightarrow> (\<exists>s \<in> set rows. session_join db s = Some x)" for x rows
    by (induction rows) (auto simp: List.map_filter_simps split: option.split)
  from assms have "(row, r, c, p) \<in> set (List.map_filter (session_join db) (scan pe n (db_issue_sessions db)))" and "P row r"
    by (auto simp: select_sessions_def)
  then obtain s where "s \<in> set (db_issue_sessions db)" "session_join db s = Some (row, r, c, p)" by (auto simp: joined)
  with session_join_repository [OF this(2)] \<open>P row r\<close> show ?thesis by simp
qed

lemma found_has_session:
  assumes "sessionByRepositoryIssue pe n repositoryID issueID db = (Inr s, db')"
  shows "db' = db \<and> (\<exists>row. session_row_of repositoryID issueID db row \<and> ses_id s = iss_id row)"
proof -
  let ?P = "\<lambda>s r. rpo_external_id r = repositoryID \<and> iss_external_issue_id s = issueID"
  from assms have scan: "scanSession pe (n + 1) (select_sessions pe n ?P db) db = (Inr s, db')"
    by (auto simp: sessionByRepositoryIssue_def elim!: bindS_InrE dest!: statement_Inr)
  from scanned_session [OF scan] obtain row r c p where
    "(row, r, c, p) \<in> set (select_sessions pe n ?P db)" and id: "ses_id s = iss_id row"
    by (metis list.set_intros(1))
  from selected_session [OF this(1)] have "session_row_of repositoryID issueID db row" by (auto simp: session_row_of_def)
  with scanSession_reads [OF scan] id show ?thesis by blast
qed

section \<open>Creating a session\<close>

lemma upserted_repository:
  assumes "upsertRepository pe n repository db = (Inr rid, db')"
  shows "\<exists>u \<in> set (db_repositories db'). rpo_id u = rid \<and> rpo_external_id u = repo_id repository"
proof -
  let ?name = "if trim_space (repo_name repository) = [] then repo_id repository else repo_name repository"
  from assms obtain u where upsert: "upsert_row pe repositories (\<lambda>r. rpo_external_id r = repo_id repository)
      (\<lambda>r. r\<lparr>rpo_name := ?name, rpo_default_branch := repo_default_branch repository, rpo_web_url := repo_web_url repository\<rparr>)
      \<lparr>rpo_id = pe_fresh pe n, rpo_external_id = repo_id repository, rpo_name = ?name,
       rpo_default_branch = repo_default_branch repository, rpo_web_url = repo_web_url repository\<rparr> db = (Inr u, db')" and "rpo_id u = rid"
    by (auto simp: upsertRepository_def Let_def elim!: bindS_InrE dest!: statement_Inr)
  with upsert_row_effect(2) [OF upsert] show ?thesis by (auto simp: repositories_def)
qed

lemma keeps_file_rows:
  assumes "\<And>rows db. P db \<Longrightarrow> P (db\<lparr>db_repository_files := rows\<rparr>)"
  shows "keeps P (upsert_files pe n rid sha files)"
proof (induction files arbitrary: n)
  case (Cons item files)
  then show ?case using assms by (auto simp: Let_def repository_files_def intro!: keeps_intros frame_statements)
qed (simp add: keeps_ret)

lemma created_rows:
  assumes "create_session_rows pe t nid req cfg db = (Inr True, db')"
  obtains s u where "db_issue_sessions db' = db_issue_sessions db @ [s]" and "uuid_arg pe nid = Inr (iss_id s)"
    and "iss_external_issue_id s = issue_id (req_issue req)"
    and "u \<in> set (db_repositories db')" and "rpo_id u = iss_repository_id s" and "rpo_external_id u = repo_id (req_repository req)"
proof -
  let ?same = "\<lambda>d. (db_repositories d, db_issue_sessions d)"
  from assms obtain rid db1 cid db2 db3 requestJSON sid where
    repo: "upsertRepository pe (t + 1) (req_repository req) db = (Inr rid, db1)"
    and config: "insertAIConfig pe t (t + 2) rid cfg db1 = (Inr cid, db2)"
    and files: "upsertRepositoryFiles pe (t + 5) rid req db2 = (Inr (), db3)"
    and sid: "uuid_arg pe nid = Inr sid"
    and row: "insert_unless pe issue_sessions
           (\<lambda>s. iss_repository_id s = rid \<and> iss_external_issue_id s = issue_id (req_issue req))
           \<lparr>iss_id = sid, iss_repository_id = rid, iss_ai_config_id = cid,
            iss_external_issue_id = issue_id (req_issue req), iss_issue_title = issue_title (req_issue req),
            iss_issue_body = issue_body (req_issue req), iss_issue_author = issue_author (req_issue req),
            iss_status = SessionGenerating, iss_current_revision = 0, iss_git_workflow = None, iss_request = requestJSON,
            iss_created_at = pe_now pe t, iss_updated_at = pe_now pe t\<rparr> db3 = (Inr True, db')"
    by (auto simp: create_session_rows_def bind_liftR elim!: bindS_InrE split: sum.splits dest!: statement_Inr)
  let ?new = "\<lparr>iss_id = sid, iss_repository_id = rid, iss_ai_config_id = cid,
            iss_external_issue_id = issue_id (req_issue req), iss_issue_title = issue_title (req_issue req),
            iss_issue_body = issue_body (req_issue req), iss_issue_author = issue_author (req_issue req),
            iss_status = SessionGenerating, iss_current_revision = 0, iss_git_workflow = None, iss_request = requestJSON,
            iss_created_at = pe_now pe t, iss_updated_at = pe_now pe t\<rparr>"
  have "db_issue_sessions db1 = db_issue_sessions db"
    by (rule keeps_value [where m = "upsertRepository pe (t + 1) (req_repository req)", OF _ repo])
      (auto simp: upsertRepository_def Let_def repositories_def intro!: keeps_intros frame_statements)
  moreover have "?same db2 = ?same db1"
    by (rule keeps_value [where m = "insertAIConfig pe t (t + 2) rid cfg", OF _ config])
      (auto simp: insertAIConfig_def ai_configs_def intro!: keeps_intros frame_statements)
  moreover have "?same db3 = ?same db2"
    by (rule keeps_value [where m = "upsertRepositoryFiles pe (t + 5) rid req", OF _ files])
      (auto simp: upsertRepositoryFiles_def intro!: keeps_file_rows)
  moreover have "db' = db3\<lparr>db_issue_sessions := db_issue_sessions db3 @ [?new]\<rparr>"
    using row by (auto simp: insert_unless_def issue_sessions_def split: option.splits prod.splits sum.splits if_splits dest!: insert_row_effect)
  moreover obtain u where "u \<in> set (db_repositories db1)" "rpo_id u = rid" "rpo_external_id u = repo_id (req_repository req)"
    using upserted_repository [OF repo] by blast
  ultimately show ?thesis using that [of ?new u] sid by simp
qed

lemma stored_issue_has_session:
  assumes ok: "db_ok db" and s: "s \<in> set (db_issue_sessions db)" and u: "u \<in> set (db_repositories db)" "rpo_id u = iss_repository_id s"
  shows "session_row_of (rpo_external_id u) (iss_external_issue_id s) db s"
proof -
  obtain r c p where join: "session_join db s = Some (s, r, c, p)" using session_join_shape [OF session_joins [OF ok s]] by blast
  note r = session_join_repository [OF join]
  have "r = u"
    using repositories.rows_apart [OF ok, of r u] r u by (auto simp: repositories_def)
  with join s show ?thesis by (auto simp: session_row_of_def)
qed

lemma created_transaction:
  "transaction pe m n (\<lambda>created. created) body db = (Inr created, db') \<Longrightarrow> created \<Longrightarrow> body db = (Inr True, db')"
  by (auto simp: transaction_def split: option.splits prod.splits sum.splits if_splits)

lemma not_created_transaction:
  "transaction pe m n (\<lambda>created. created) body db = (Inr created, db') \<Longrightarrow> \<not> created \<Longrightarrow> db' = db"
  by (auto simp: transaction_def split: option.splits prod.splits sum.splits if_splits)

text \<open>The identifier of a new session is printed as it was made, and it is no issue's number, of the stored issues or the new one.\<close>

definition fresh_session_id :: "pg_env \<Rightarrow> issue_analyze_request \<Rightarrow> database \<Rightarrow> bool" where
  "fresh_session_id pe req db \<longleftrightarrow>
     uuid_arg pe (pe_newid pe 0) = Inr (pe_newid pe 0) \<and> issue_id (req_issue req) \<noteq> pe_newid pe 0 \<and>
     list_all (\<lambda>s. iss_external_issue_id s \<noteq> pe_newid pe 0) (db_issue_sessions db)"

lemma found_by_id:
  assumes "pg_Session pe n k db = (Inr s, db')"
  obtains row where "db' = db" and "row \<in> set (db_issue_sessions db)" and "iss_id row = k \<or> iss_external_issue_id row = k"
    and "ses_id s = iss_id row"
proof -
  let ?found = "sort_key (\<lambda>(s, _). - iss_updated_at s) (select_sessions pe n (\<lambda>s r. iss_id s = k \<or> iss_external_issue_id s = k) db)"
  obtain found d where rows: "statement pe n [k] (\<lambda>db. (Inr (sort_key (\<lambda>(s, _). - iss_updated_at s)
      (select_sessions pe n (\<lambda>s r. iss_id s = k \<or> iss_external_issue_id s = k) db)), db)) db = (Inr found, d)"
    and rest: "scanSession pe (n + 1) found d = (Inr s, db')"
    using assms unfolding pg_Session_def by (rule bindS_InrE)
  have "?found = found" "db = d" using statement_Inr [OF rows] unfolding prod.inject sum.inject by (rule conjunct1, rule conjunct2)
  with rest have scan: "scanSession pe (n + 1) ?found db = (Inr s, db')" by (simp only:)
  from scanned_session [OF scan] obtain row r c p rest where first: "?found = (row, r, c, p) # rest" and id: "ses_id s = iss_id row"
    by (elim exE conjE)
  have "(row, r, c, p) \<in> set ?found" unfolding first by simp
  then have "(row, r, c, p) \<in> set (select_sessions pe n (\<lambda>s r. iss_id s = k \<or> iss_external_issue_id s = k) db)" by simp
  from selected_session [OF this] have "row \<in> set (db_issue_sessions db)" "iss_id row = k \<or> iss_external_issue_id row = k" by simp_all
  from that [OF scanSession_reads [OF scan] this id] show ?thesis .
qed

lemma created_has_session:
  assumes "pg_CreateSession pe req cfg db = (Inr (s, created), db')" and ok: "db_ok db'" and fresh: "fresh_session_id pe req db"
  shows "\<exists>row. session_row_of (repo_id (req_repository req)) (issue_id (req_issue req)) db' row \<and> ses_id s = iss_id row"
proof -
  let ?existing = "\<lambda>n. sessionByRepositoryIssue pe n (repo_id (req_repository req)) (issue_id (req_issue req))"
  obtain r1 db1 where first: "?existing 0 db = (r1, db1)" by fastforce
  show ?thesis
  proof (cases r1)
    case (Inr found)
    with assms(1) first have "db' = db1" "s = found" by (simp_all add: pg_CreateSession_def Let_def tryS_def)
    with found_has_session first Inr show ?thesis by blast
  next
    case (Inl err)
    have "keeps (\<lambda>d. d = db) (?existing 0)" unfolding sessionByRepositoryIssue_def by (intro keeps_intros)
    from keepsD [OF this refl] first have [simp]: "db1 = db" by simp
    from Inl assms(1) first obtain inserted db2 where
      rows: "transaction pe 12 16 (\<lambda>created. created) (create_session_rows pe 12 (pe_newid pe 0) req cfg) db = (Inr inserted, db2)"
      and rest: "(if inserted then bindS (pg_Session pe 4 (pe_newid pe 0)) (\<lambda>session. retS (session, True))
          else bindS (?existing 8) (\<lambda>found. retS (found, False))) db2 = (Inr (s, created), db')"
      by (auto simp: pg_CreateSession_def Let_def tryS_def elim!: bindS_InrE split: if_splits)
    show ?thesis
    proof (cases inserted)
      case True
      with rest have found: "pg_Session pe 4 (pe_newid pe 0) db2 = (Inr s, db')" by (auto elim!: bindS_InrE)
      from found_by_id [OF found] obtain row where [simp]: "db' = db2" and row: "row \<in> set (db_issue_sessions db2)"
        "iss_id row = pe_newid pe 0 \<or> iss_external_issue_id row = pe_newid pe 0" "ses_id s = iss_id row" .
      from created_rows [OF created_transaction [OF rows True]] obtain new u where
        sessions: "db_issue_sessions db2 = db_issue_sessions db @ [new]" and new: "uuid_arg pe (pe_newid pe 0) = Inr (iss_id new)"
          "iss_external_issue_id new = issue_id (req_issue req)" and
        u: "u \<in> set (db_repositories db2)" "rpo_id u = iss_repository_id new" "rpo_external_id u = repo_id (req_repository req)" .
      have "iss_external_issue_id row \<noteq> pe_newid pe 0"
        using row(1) fresh new(2) by (auto simp: sessions fresh_session_id_def list_all_iff)
      with row(2) new(1) fresh have "iss_id row = iss_id new" by (simp add: fresh_session_id_def)
      moreover have "new \<in> set (db_issue_sessions db2)" by (simp add: sessions)
      with stored_issue_has_session [of db2 new u] ok u new(2)
      have "session_row_of (repo_id (req_repository req)) (issue_id (req_issue req)) db2 new" by simp
      ultimately show ?thesis using row(3) by auto
    next
      case False
      with rest obtain found where "?existing 8 db2 = (Inr found, db')" "s = found" by (auto elim!: bindS_InrE)
      with found_has_session show ?thesis by blast
    qed
  qed
qed

text \<open>C12: An issue gets one session: when a call has created or found a session for an issue of a repository, the next call for that
  issue, whatever else its request says, creates none and changes nothing, and returns the session with the same identifier, which is
  that of the row stored for this issue of this repository. A lookup without faults is needed for the second call; of the identifier
  that the first call makes for a new session, that it is not the number of an issue, because the new session is read back by a lookup
  that takes either.\<close>

theorem issue_gets_one_session:
  assumes "reachable_db db" and "pg_CreateSession pe req cfg db = (Inr (s, created), db')" and "fresh_session_id pe req db"
    and "repo_id (req_repository req2) = repo_id (req_repository req)" and "issue_id (req_issue req2) = issue_id (req_issue req)"
    and "pe_fault pe2 = (\<lambda>n. None)" and "pe_text pe2 (repo_id (req_repository req))" and "pe_text pe2 (issue_id (req_issue req))"
  shows "\<exists>s2 row. pg_CreateSession pe2 req2 cfg2 db' = (Inr (s2, False), db') \<and> ses_id s2 = ses_id s \<and> ses_id s = iss_id row \<and>
    session_row_of (repo_id (req_repository req)) (issue_id (req_issue req)) db' row"
proof -
  have "keeps db_ok (pg_CreateSession pe req cfg)" by (intro keeps_intros)
  from keepsD [OF this reachable_db_ok [OF assms(1)]] assms(2) have ok: "db_ok db'" by simp
  from created_has_session [OF assms(2) ok assms(3)] obtain row where
    row: "session_row_of (repo_id (req_repository req)) (issue_id (req_issue req)) db' row" "ses_id s = iss_id row" by blast
  then have "has_session (repo_id (req_repository req)) (issue_id (req_issue req)) db'" by (auto simp: has_session_def)
  from session_found [OF this assms(6-8), of 0] obtain s2 where
    found: "sessionByRepositoryIssue pe2 0 (repo_id (req_repository req)) (issue_id (req_issue req)) db' = (Inr s2, db')" by blast
  from found_has_session [OF found] obtain row2 where
    row2: "session_row_of (repo_id (req_repository req)) (issue_id (req_issue req)) db' row2" "ses_id s2 = iss_id row2" by blast
  have "row2 = row" using session_row_unique [OF ok row2(1) row(1)] .
  with found assms(4,5) row row2(2) show ?thesis by (auto simp: pg_CreateSession_def Let_def tryS_def)
qed

end
