(* ===== verification/Postgres_Connections.thy ===== *)
theory Postgres_Connections imports Postgres_Issues begin

text \<open>
  The connections of the persistent store: what the operations of one user leave of the connections of others, and what becomes of a
  connection that was revoked.
\<close>

section \<open>Whose connections an operation touches\<close>

text \<open>The connections that another user may see: those of everybody but \<open>uid\<close>, as the rows of the table in their order.\<close>

definition others_connections :: "string \<Rightarrow> database \<Rightarrow> connection_row list" where
  "others_connections uid db = filter (\<lambda>c. cnx_user_id c \<noteq> uid) (db_gitflame_connections db)"

lemma others_kept:
  assumes "\<And>c. Q c \<Longrightarrow> cnx_user_id c = uid" and "\<And>c. cnx_user_id (f c) = cnx_user_id c"
  shows "filter (\<lambda>c. cnx_user_id c \<noteq> uid) (map (\<lambda>c. if Q c then f c else c) rows) = filter (\<lambda>c. cnx_user_id c \<noteq> uid) rows"
  using assms by (induction rows) auto

lemma update_own_connections:
  assumes "\<And>c. Q c \<Longrightarrow> cnx_user_id c = uid" and "\<And>c. cnx_user_id (f c) = cnx_user_id c"
  shows "keeps (\<lambda>d. others_connections uid d = x) (update_rows pe gitflame_connections Q f)"
  using others_kept [where Q = Q and f = f and uid = uid, OF assms]
  by (auto simp: keeps_def others_connections_def update_rows_def Let_def gitflame_connections_def split: option.split)

lemma upsert_own_connection:
  assumes "\<And>c. Q c \<Longrightarrow> cnx_user_id c = uid" and "\<And>c. cnx_user_id (f c) = cnx_user_id c" and "cnx_user_id row = uid"
  shows "keeps (\<lambda>d. others_connections uid d = x) (upsert_row pe gitflame_connections Q f row)"
proof (rule keepsI)
  fix db assume "others_connections uid db = x"
  moreover from this have "others_connections uid (snd (update_rows pe gitflame_connections Q f db)) = x"
    using keepsD [OF update_own_connections [where Q = Q and f = f and uid = uid, OF assms(1,2)]] by simp
  moreover have "others_connections uid (snd (insert_row pe gitflame_connections row db)) = others_connections uid db"
    using assms(3) by (auto simp: others_connections_def insert_row_def gitflame_connections_def split: option.split)
  ultimately show "others_connections uid (snd (upsert_row pe gitflame_connections Q f row db)) = x"
    by (auto simp: upsert_row_def split: option.split prod.split sum.split list.split)
qed

lemma keeps_repository:
  assumes "\<And>rows db. P db \<Longrightarrow> P (db\<lparr>db_repositories := rows\<rparr>)"
  shows "keeps P (upsertRepository pe n repository)"
  unfolding upsertRepository_def Let_def using assms by (intro keeps_intros frame_statements) (simp add: repositories_def)

lemma others_repositories [simp]: "others_connections uid (db\<lparr>db_repositories := rows\<rparr>) = others_connections uid db"
  by (simp add: others_connections_def)

lemma saved_own_connection:
  assumes "uuid_arg pe (con_user_id c) = Inr uid"
  shows "keeps (\<lambda>d. others_connections uid d = x) (save_connection_row pe c)"
  unfolding save_connection_row_def Let_def bind_liftR assms sum.case
  by (intro keeps_intros keeps_repository upsert_own_connection) (auto simp: connection_row_of_def merge_connection_def)

lemma refused_user_saves_nothing:
  assumes "uuid_arg pe (con_user_id c) = Inl e"
  shows "keeps (\<lambda>d. db_gitflame_connections d = x) (save_connection_row pe c)"
  unfolding save_connection_row_def Let_def bind_liftR assms sum.case by (intro keeps_intros keeps_repository) auto

lemma update_one_connection:
  assumes "\<And>c. cnx_user_id (f c) = cnx_user_id c \<and> cnx_id (f c) = cnx_id c"
  shows "keeps (\<lambda>d. filter (\<lambda>c. \<not> (cnx_user_id c = uid \<and> cnx_id c = cid)) (db_gitflame_connections d) = x)
    (update_rows pe gitflame_connections (\<lambda>c. cnx_user_id c = uid \<and> cnx_id c = cid) f)"
proof -
  have "filter (\<lambda>c. \<not> (cnx_user_id c = uid \<and> cnx_id c = cid)) (map (\<lambda>c. if cnx_user_id c = uid \<and> cnx_id c = cid then f c else c) rows) =
      filter (\<lambda>c. \<not> (cnx_user_id c = uid \<and> cnx_id c = cid)) rows" for rows
    using assms by (induction rows) auto
  then show ?thesis
    by (auto simp: keeps_def update_rows_def Let_def gitflame_connections_def split: option.split)
qed

text \<open>C8: Storing, revoking or touching a GitFlame connection leaves the connections of every other user exactly as they were, whether the
  operation succeeds or fails: the rows of others are the same, in the same order. When the caller's identifier is none, no connection
  at all changes. Revoking and touching leave also the caller's connections with other identifiers alone.\<close>

theorem connections_of_others_untouched:
  "(case uuid_arg pe (con_user_id connection) of
      Inl e \<Rightarrow> db_gitflame_connections (snd (pg_SaveGitFlameConnection pe connection db)) = db_gitflame_connections db
    | Inr uid \<Rightarrow> others_connections uid (snd (pg_SaveGitFlameConnection pe connection db)) = others_connections uid db) \<and>
   (case (uuid_arg pe userID, uuid_arg pe k) of
      (Inr uid, Inr cid) \<Rightarrow>
        (let others = filter (\<lambda>c. \<not> (cnx_user_id c = uid \<and> cnx_id c = cid)) in
          others (db_gitflame_connections (snd (pg_RevokeGitFlameConnection pe userID k db))) = others (db_gitflame_connections db) \<and>
          others (db_gitflame_connections (snd (pg_TouchGitFlameConnection pe userID k db))) = others (db_gitflame_connections db))
    | _ \<Rightarrow> snd (pg_RevokeGitFlameConnection pe userID k db) = db \<and> snd (pg_TouchGitFlameConnection pe userID k db) = db)"
proof (intro conjI)
  let ?c = "pg_connection_defaults pe connection"
  have user: "con_user_id ?c = con_user_id connection" by (simp add: pg_connection_defaults_def Let_def)
  show "case uuid_arg pe (con_user_id connection) of
      Inl e \<Rightarrow> db_gitflame_connections (snd (pg_SaveGitFlameConnection pe connection db)) = db_gitflame_connections db
    | Inr uid \<Rightarrow> others_connections uid (snd (pg_SaveGitFlameConnection pe connection db)) = others_connections uid db"
  proof (cases "uuid_arg pe (con_user_id connection)")
    case (Inl e)
    then have "keeps (\<lambda>d. db_gitflame_connections d = db_gitflame_connections db) (pg_SaveGitFlameConnection pe connection)"
      unfolding pg_SaveGitFlameConnection_def using user by (intro keeps_intros refused_user_saves_nothing) simp
    from keepsD [OF this refl] Inl show ?thesis by simp
  next
    case (Inr uid)
    then have "keeps (\<lambda>d. others_connections uid d = others_connections uid db) (pg_SaveGitFlameConnection pe connection)"
      unfolding pg_SaveGitFlameConnection_def using user by (intro keeps_intros saved_own_connection) simp
    from keepsD [OF this refl] Inr show ?thesis by simp
  qed
  show "case (uuid_arg pe userID, uuid_arg pe k) of
      (Inr uid, Inr cid) \<Rightarrow>
        (let others = filter (\<lambda>c. \<not> (cnx_user_id c = uid \<and> cnx_id c = cid)) in
          others (db_gitflame_connections (snd (pg_RevokeGitFlameConnection pe userID k db))) = others (db_gitflame_connections db) \<and>
          others (db_gitflame_connections (snd (pg_TouchGitFlameConnection pe userID k db))) = others (db_gitflame_connections db))
    | _ \<Rightarrow> snd (pg_RevokeGitFlameConnection pe userID k db) = db \<and> snd (pg_TouchGitFlameConnection pe userID k db) = db"
  proof -
    let ?others = "\<lambda>uid cid d. filter (\<lambda>c. \<not> (cnx_user_id c = uid \<and> cnx_id c = cid)) (db_gitflame_connections d)"
    have one: "keeps (\<lambda>d. ?others uid cid d = x) (pg_RevokeGitFlameConnection pe userID k)"
        "keeps (\<lambda>d. ?others uid cid d = x) (pg_TouchGitFlameConnection pe userID k)"
      if "uuid_arg pe userID = Inr uid" "uuid_arg pe k = Inr cid" for uid cid x
      unfolding pg_RevokeGitFlameConnection_def pg_TouchGitFlameConnection_def bind_liftR that sum.case
      by (intro keeps_intros update_one_connection; simp)+
    show ?thesis
    proof (cases "uuid_arg pe userID")
      case (Inr uid)
      show ?thesis
      proof (cases "uuid_arg pe k")
        case cid: (Inr cid)
        show ?thesis using keepsD [OF one(1) [OF Inr cid] refl] keepsD [OF one(2) [OF Inr cid] refl] Inr cid by (simp add: Let_def)
      qed (use Inr in \<open>simp add: pg_RevokeGitFlameConnection_def pg_TouchGitFlameConnection_def bind_liftR failS_def\<close>)
    qed (simp add: pg_RevokeGitFlameConnection_def pg_TouchGitFlameConnection_def bind_liftR failS_def)
  qed
qed

section \<open>A revoked connection\<close>

text \<open>A connection that is found is a row of the table that the predicate admits.\<close>

lemma found_connection:
  assumes "gitFlameConnectionByPredicate pe n placeholders predicate x y db = (Inr c, db')"
  obtains row r where "row \<in> set (db_gitflame_connections db)" and "c = connection_of_row row r"
    and "predicate (if x \<noteq> [] then [x, y] else [y]) row r" and "length (if x \<noteq> [] then [x, y] else [y]) = placeholders"
proof -
  let ?args = "if x \<noteq> [] then [x, y] else [y]"
  obtain found d where rows: "statement pe n ?args (\<lambda>db.
      if length ?args \<noteq> placeholders then (Inl (refused pe ''arguments''), db)
      else (Inr (filter (\<lambda>(c, r). predicate ?args c r) (List.map_filter (connection_join db) (scan pe n (db_gitflame_connections db)))), db))
      db = (Inr found, d)"
    and first: "(case found of [] \<Rightarrow> failS ErrNotFound | (c, r) # _ \<Rightarrow> retS (connection_of_row c r)) d = (Inr c, db')"
    using assms unfolding gitFlameConnectionByPredicate_def Let_def by (rule bindS_InrE)
  from first obtain row r rest where found: "found = (row, r) # rest" and c: "c = connection_of_row row r"
    by (cases found) (auto split: prod.splits)
  let ?joined = "List.map_filter (connection_join db) (scan pe n (db_gitflame_connections db))"
  have "found = filter (\<lambda>(c, r). predicate ?args c r) ?joined" and args: "length ?args = placeholders"
    using statement_Inr [OF rows] by (simp_all split: if_split_asm)
  then have "(row, r) \<in> set (filter (\<lambda>(c, r). predicate ?args c r) ?joined)" using found by (metis list.set_intros(1))
  then have joined: "(row, r) \<in> set ?joined" and "predicate ?args row r" by auto
  from joined have "row \<in> set (db_gitflame_connections db)"
    by (auto simp: List.map_filter_def connection_join_def)
  from that [OF this c \<open>predicate ?args row r\<close> args] show ?thesis .
qed

lemma connection_by_id:
  assumes "db_ok db" and "row \<in> set (db_gitflame_connections db)" and "row' \<in> set (db_gitflame_connections db)" and "cnx_id row = cnx_id row'"
  shows "row = row'"
  using gitflame_connections.rows_apart [OF assms(1), of row row'] assms(2-4) by (auto simp: gitflame_connections_def)

text \<open>The row that a revocation leaves.\<close>

lemma revoked_row:
  assumes "pg_RevokeGitFlameConnection pe userID k db = (Inr c, db')" and "db_ok db'"
  obtains row r where "row \<in> set (db_gitflame_connections db')" and "c = connection_of_row row r"
    and "cnx_user_id row = userID" and "cnx_token_status row = ''revoked''" and "cnx_revoked_at row = Some (pe_now pe 0)"
proof -
  let ?f = "\<lambda>c. c\<lparr>cnx_token_status := ''revoked'', cnx_revoked_at := Some (pe_now pe 0), cnx_updated_at := pe_now pe 0\<rparr>"
  from assms(1) obtain uid cid changed db1 where
    update: "update_rows pe gitflame_connections (\<lambda>c. cnx_user_id c = uid \<and> cnx_id c = cid) ?f db = (Inr changed, db1)"
    and rest: "(case changed of [] \<Rightarrow> failS ErrNotFound | c # _ \<Rightarrow> pg_UserGitFlameConnection pe (Suc 0) userID (cnx_id c)) db1 = (Inr c, db')"
    by (auto simp: pg_RevokeGitFlameConnection_def bind_liftR elim!: bindS_InrE split: sum.splits dest!: statement_Inr)
  from rest obtain first later where changed: "changed = first # later"
    and found: "pg_UserGitFlameConnection pe (Suc 0) userID (cnx_id first) db1 = (Inr c, db')"
    by (cases changed) auto
  have "db' = db1"
    using keepsD_eq [OF keeps_connection_lookups(3) [of "\<lambda>d. d = db1" pe "Suc 0" userID "cnx_id first"] found] by simp
  note rows = update_rows_effect [OF update]
  obtain old where old: "old \<in> set (db_gitflame_connections db)" "cnx_user_id old = uid \<and> cnx_id old = cid" "first = ?f old"
  proof -
    have "first \<in> set (map ?f (filter (\<lambda>c. cnx_user_id c = uid \<and> cnx_id c = cid) (db_gitflame_connections db)))"
      using rows unfolding changed gitflame_connections_def by (metis list.set_intros(1) table.select_convs(1))
    then show ?thesis using that by auto
  qed
  have stored: "first \<in> set (db_gitflame_connections db')"
    using rows old \<open>db' = db1\<close> by (force simp: gitflame_connections_def)
  from found obtain row r where row: "row \<in> set (db_gitflame_connections db')" "c = connection_of_row row r"
      "cnx_user_id row = userID" "cnx_id row = cnx_id first"
    unfolding pg_UserGitFlameConnection_def \<open>db' = db1\<close> by (rule found_connection) (auto split: if_splits)
  have "row = first" using connection_by_id [OF assms(2) row(1) stored row(4)] .
  with row old(3) that show ?thesis by auto
qed

text \<open>C5: A connection that its user has revoked is not used again as it is: right after the revocation no lookup for a repository,
  by any user, returns it, so no client is made of its token until it is stored again; and the caller gets it back as his own, marked
  as revoked.\<close>

theorem persistent_revocation_holds:
  assumes "reachable_db db" and "pg_RevokeGitFlameConnection pe userID k db = (Inr c, db')"
  shows "con_user_id c = userID \<and> con_token_status c = ''revoked'' \<and> con_revoked_at c = Some (pe_now pe 0) \<and>
    (case fst (pg_UserGitFlameConnectionByRepository pe' anyone repositoryID db') of
       Inl e \<Rightarrow> True
     | Inr other \<Rightarrow> con_id other \<noteq> con_id c)"
proof -
  have "keeps db_ok (pg_RevokeGitFlameConnection pe userID k)" by (intro keeps_intros)
  from keepsD [OF this reachable_db_ok [OF assms(1)]] assms(2) have ok: "db_ok db'" by simp
  from revoked_row [OF assms(2) ok] obtain row r where
    row: "row \<in> set (db_gitflame_connections db')" "c = connection_of_row row r" "cnx_user_id row = userID"
      "cnx_token_status row = ''revoked''" "cnx_revoked_at row = Some (pe_now pe 0)" .
  have "con_id other \<noteq> con_id c" if "pg_UserGitFlameConnectionByRepository pe' anyone repositoryID db' = (Inr other, d)" for other d
  proof -
    from that obtain row' r' where "row' \<in> set (db_gitflame_connections db')" "other = connection_of_row row' r'" "cnx_revoked_at row' = None"
      unfolding pg_UserGitFlameConnectionByRepository_def by (rule found_connection) (auto split: if_splits)
    with connection_by_id [OF ok this(1) row(1)] row(2,5) show ?thesis by (auto simp: connection_of_row_def)
  qed
  with row show ?thesis
    by (cases "pg_UserGitFlameConnectionByRepository pe' anyone repositoryID db'") (auto simp: connection_of_row_def split: sum.split)
qed

end
