(* ===== verification/Memory_Sessions.thy ===== *)
theory Memory_Sessions imports Store_Properties Session_Tokens begin

text \<open>
  The application sessions of the in-memory store keep the contract of Session_Tokens.
\<close>

section \<open>Sessions of the in-memory store\<close>

text \<open>What an operation draws: the time, the time of the visit, and a new identifier.\<close>

definition memory_tokens :: "(gotime \<times> gotime \<times> string, memory_store) token_ops" where
  "memory_tokens =
     \<lparr>to_create = (\<lambda>(now, now2, nid). CreateAppSession now nid), to_find = (\<lambda>(now, now2, nid). AppSessionByTokenHash now now2),
      to_revoke = (\<lambda>(now, now2, nid). RevokeAppSession now)\<rparr>"

definition memory_admits :: "gotime \<times> gotime \<times> string \<Rightarrow> token_call \<Rightarrow> memory_store \<Rightarrow> bool" where
  "memory_admits e c s \<longleftrightarrow> (case c of Create_session u h x \<Rightarrow> ms_appSessions s (snd (snd e)) = None | _ \<Rightarrow> True)"

definition entry_of :: "app_session \<Rightarrow> token_entry" where
  "entry_of a = \<lparr>tk_session = aps_id a, tk_expires = aps_expires_at a, tk_revoked = (aps_revoked_at a \<noteq> None)\<rparr>"

definition memory_entries :: "memory_store \<Rightarrow> string \<Rightarrow> token_entry option" where
  "memory_entries s h = (case ms_sessionHashes s h of None \<Rightarrow> None | Some sid \<Rightarrow> map_option entry_of (ms_appSessions s sid))"

lemma hashed_session: "app_sessions_ok s \<Longrightarrow> ms_sessionHashes s h = Some sid \<Longrightarrow> \<exists>a. ms_appSessions s sid = Some a \<and> aps_id a = sid"
  by (force simp: app_sessions_ok_def keyed_def ran_def)

lemma keeps_app_sessions_ok:
  "keeps app_sessions_ok (CreateAppSession now nid userID tokenHash expiresAt)"
  "keeps app_sessions_ok (AppSessionByTokenHash now now2 tokenHash)" "keeps app_sessions_ok (RevokeAppSession now sessionID)"
  by (rule keepsI, force simp: app_sessions_ok_def keyed_def ran_def CreateAppSession_def AppSessionByTokenHash_def
      RevokeAppSession_def Let_def split: option.splits)+

interpretation memory_sessions: session_tokens memory_tokens memory_entries app_sessions_ok memory_admits fst "\<lambda>e. True"
proof unfold_locales
  fix s and e :: "gotime \<times> gotime \<times> string" and c
  assume "app_sessions_ok s"
  then show "app_sessions_ok (token_step memory_tokens (e, c) s)"
    by (cases c; cases e) (simp_all add: memory_tokens_def keepsD [OF keeps_app_sessions_ok(1)]
        keepsD [OF keeps_app_sessions_ok(2)] keepsD [OF keeps_app_sessions_ok(3)])
next
  fix s and e :: "gotime \<times> gotime \<times> string" and u h x a s'
  assume "to_create memory_tokens e u h x s = (Inr a, s')"
  then show "memory_entries s' h = Some \<lparr>tk_session = aps_id a, tk_expires = aps_expires_at a, tk_revoked = False\<rparr>"
    by (cases e) (auto simp: memory_tokens_def CreateAppSession_def Let_def memory_entries_def entry_of_def split: option.splits)
next
  fix s and e :: "gotime \<times> gotime \<times> string" and u h x h'
  assume "app_sessions_ok s" and "memory_admits e (Create_session u h x) s" and "h' \<noteq> h"
  then show "memory_entries (snd (to_create memory_tokens e u h x s)) h' = memory_entries s h'"
    by (cases e) (auto simp: memory_tokens_def memory_admits_def CreateAppSession_def Let_def memory_entries_def
        dest: hashed_session split: option.splits)
next
  fix s and e :: "gotime \<times> gotime \<times> string" and h
  assume "app_sessions_ok s"
  then show "memory_entries (snd (to_find memory_tokens e h s)) = memory_entries s"
    by (cases e) (auto simp: memory_tokens_def AppSessionByTokenHash_def Let_def memory_entries_def entry_of_def fun_eq_iff
        split: option.splits)
next
  fix s and e :: "gotime \<times> gotime \<times> string" and h a
  assume "fst (to_find memory_tokens e h s) = Inr a"
  then show "\<exists>t. memory_entries s h = Some t \<and> entry_live (fst e) t \<and> aps_id a = tk_session t"
    by (cases e) (auto simp: memory_tokens_def AppSessionByTokenHash_def Let_def memory_entries_def entry_of_def entry_live_def
        split: option.splits if_splits)
next
  fix s and e :: "gotime \<times> gotime \<times> string" and h t
  assume "memory_entries s h = Some t" and "entry_live (fst e) t"
  then show "\<exists>a. fst (to_find memory_tokens e h s) = Inr a"
    by (cases e) (auto simp: memory_tokens_def AppSessionByTokenHash_def Let_def memory_entries_def entry_of_def entry_live_def
        split: option.splits)
next
  fix s and e :: "gotime \<times> gotime \<times> string" and k
  assume "app_sessions_ok s"
  then show "memory_entries (snd (to_revoke memory_tokens e k s)) =
      (if isl (fst (to_revoke memory_tokens e k s)) then memory_entries s else map_option (mark_revoked k) \<circ> memory_entries s)"
    by (cases e) (auto simp: memory_tokens_def RevokeAppSession_def memory_entries_def entry_of_def mark_revoked_def fun_eq_iff
        dest: hashed_session split: option.splits)
qed

text \<open>C26: A session of the in-memory store is found by its token exactly until it expires or is revoked, whatever other sessions
  are created, found and revoked meanwhile.\<close>

theorem memory_session_lifecycle:
  assumes "reachable_store s" and "ms_appSessions s nid = None" and "CreateAppSession now nid userID h expiresAt s = (Inr a, s1)"
    and "quiet_run memory_tokens memory_admits h calls s1"
  shows "(\<exists>b. fst (AppSessionByTokenHash later later2 h (token_run memory_tokens calls s1)) = Inr b \<and> aps_id b = aps_id a) \<longleftrightarrow>
    \<not> revoked_by memory_tokens (aps_id a) calls s1 \<and> later < aps_expires_at a"
  using memory_sessions.found_until_revoked
    [of s "(now, 0, nid)" userID h expiresAt a s1 calls "(later, later2, [])"] reachable_ok [OF assms(1)] assms(2-4)
  by (simp add: memory_tokens_def memory_admits_def store_ok_def)

end
