(* ===== verification/Postgres_Samples.thy ===== *)
theory Postgres_Samples imports Postgres_Connections Memory_Sessions Server_Samples begin

text \<open>
  The properties of the two stores at concrete inputs: a database with a user, an application session, an issue session and a task.
\<close>

section \<open>Surroundings and states\<close>

definition sample_pe :: pg_env where
  "sample_pe =
     \<lparr>pe_now = (\<lambda>n. 5000), pe_clock = 5000, pe_fresh = (\<lambda>n. replicate (n + 1) (CHR ''f'')),
      pe_newid = (\<lambda>n. ''s'' @ replicate n (CHR ''s'')), pe_fault = (\<lambda>n. None), pe_migrated = True, pe_uuid = Some, pe_text = (\<lambda>t. True),
      pe_refuse = id, pe_scan = (\<lambda>n i. i), pe_sha256 = id, pe_json_request = Some, pe_json_config = Some, pe_json_contract = Some,
      pe_json_error = Some, pe_json_relevant = Some, pe_json_usage = Some, pe_json_strings = Some, pe_json_payload = Some\<rparr>"

lemma sample_pe_simps [simp]:
  "pe_uuid sample_pe = Some" "pe_text sample_pe = (\<lambda>t. True)" "pe_fault sample_pe = (\<lambda>n. None)" "pe_json_error sample_pe = Some"
  "pe_json_relevant sample_pe = Some" "pe_json_usage sample_pe = Some" "pe_now sample_pe = (\<lambda>n. 5000)" "uuid_arg sample_pe k = Inr k"
  by (simp_all add: sample_pe_def uuid_arg_def)

definition pg_user :: database where
  "pg_user = snd (pg_UpsertAppUser sample_pe sample_user empty_database)"

definition pg_created :: database where
  "pg_created = snd (pg_CreateSession sample_pe sample_request sample_config empty_database)"

definition pg_session :: issue_session where
  "pg_session =
     (with_contract (fst (sum.projr (fst (pg_CreateSession sample_pe sample_request sample_config empty_database))))
       (fresh_contract\<lparr>gc_task_id := []\<rparr>))
       \<lparr>ses_status := SessionPlanGenerated, ses_revision := 1, ses_plan_markdown := ''p''\<rparr>"

definition pg_task_created :: database where
  "pg_task_created = snd (pg_CreateTask sample_pe ''s'' ''7'' ''initial_plan'' pg_created)"

definition pg_task :: agent_task where
  "pg_task = (sum.projr (fst (pg_CreateTask sample_pe ''s'' ''7'' ''initial_plan'' pg_created)))\<lparr>task_status := TaskCompleted\<rparr>"

lemma pg_reachable: "reachable_db pg_user" "reachable_db pg_created" "reachable_db pg_task_created"
  unfolding reachable_db_def pg_user_def pg_task_created_def pg_created_def
  by (meson pg_user pg_create_session pg_create_task rtranclp.intros)+

lemma not_failed: "\<not> isl (fst p) \<Longrightarrow> \<exists>a s'. p = (Inr a, s')"
  by (cases p; cases "fst p") auto

section \<open>Witnesses\<close>

lemma correction_is_not_read_back_witness:
  "\<exists>db'. pg_UpdateSession sample_pe (pg_session\<lparr>ses_status := SessionCorrectionRequested, ses_feedback_history := [''again'']\<rparr>) pg_created =
      (Inr (), db') \<and> feedback_of_session sample_pe 0 ''s'' db' = []"
proof -
  let ?session = "pg_session\<lparr>ses_status := SessionCorrectionRequested, ses_feedback_history := [''again'']\<rparr>"
  have "\<not> isl (fst (pg_UpdateSession sample_pe ?session pg_created))" by code_simp
  from not_failed [OF this] obtain db' where run: "pg_UpdateSession sample_pe ?session pg_created = (Inr (), db')" by auto
  have "feedback_of_session sample_pe 0 ''s'' pg_created = []" by code_simp
  with correction_is_not_read_back [OF _ run, of sample_pe 0 "''s''"] run show ?thesis by simp
qed

lemma no_effective_changes_not_recorded_witness:
  "\<exists>e. pg_UpdateSession sample_pe (with_contract pg_session (marked_files ''skipped'' (failed_contract 7 no_effective_changes fresh_contract)))
    pg_created = (Inl e, pg_created)"
  by (rule no_effective_changes_not_recorded) (simp add: fresh_contract_def)

lemma session_reads_back_witness:
  "\<exists>db' s c. pg_UpdateSession sample_pe pg_session pg_created = (Inr (), db') \<and> fst (pg_Session sample_pe 0 ''s'' db') = Inr s \<and>
    ses_status s = SessionPlanGenerated \<and> ses_revision s = 1 \<and> ses_plan_markdown s = ''p'' \<and> ses_generated_files s = Some c \<and>
    same_contract c (fresh_contract\<lparr>gc_task_id := []\<rparr>)"
proof -
  have "\<not> isl (fst (pg_UpdateSession sample_pe pg_session pg_created))" by code_simp
  from not_failed [OF this] obtain db' where run: "pg_UpdateSession sample_pe pg_session pg_created = (Inr (), db')" by auto
  have "ses_id pg_session = ''s''" by code_simp
  then have sid: "uuid_arg sample_pe (ses_id pg_session) = Inr ''s''" by simp
  have "list_all (\<lambda>s. iss_external_issue_id s \<noteq> ''s'') (db_issue_sessions pg_created)" by code_simp
  then have other: "\<forall>s \<in> set (db_issue_sessions pg_created). iss_external_issue_id s \<noteq> ''s''" by (simp add: list_all_iff)
  have "stores_plan pg_session" by code_simp
  with session_reads_back [OF pg_reachable(2) run sid other, of sample_pe] run show ?thesis
    by (auto simp: pg_session_def with_contract_def)
qed

lemma issue_gets_one_session_witness:
  "\<exists>s2. pg_CreateSession sample_pe sample_request sample_config pg_created = (Inr (s2, False), pg_created) \<and> ses_id s2 = ''s''"
proof -
  have "case fst (pg_CreateSession sample_pe sample_request sample_config empty_database) of
      Inl e \<Rightarrow> False | Inr (s, created) \<Rightarrow> ses_id s = ''s'' \<and> created" by code_simp
  then obtain s where
    run: "pg_CreateSession sample_pe sample_request sample_config empty_database = (Inr (s, True), pg_created)" and id: "ses_id s = ''s''"
    by (cases "pg_CreateSession sample_pe sample_request sample_config empty_database") (auto simp: pg_created_def split: sum.splits)
  have "reachable_db empty_database" by (simp add: reachable_db_def)
  moreover have "fresh_session_id sample_pe sample_request empty_database" by code_simp
  ultimately show ?thesis using issue_gets_one_session [OF _ run, of sample_request sample_pe sample_config] id by auto
qed

lemma task_reads_back_witness:
  "\<exists>db' t. pg_UpdateTask sample_pe pg_task pg_task_created = (Inr (), db') \<and> fst (pg_Task sample_pe ''s'' db') = Inr t \<and>
    task_status t = TaskCompleted \<and> task_err t = None"
proof -
  have "\<not> isl (fst (pg_UpdateTask sample_pe pg_task pg_task_created))" by code_simp
  from not_failed [OF this] obtain db' where run: "pg_UpdateTask sample_pe pg_task pg_task_created = (Inr (), db')" by auto
  have "task_id pg_task = ''s''" and none: "task_err pg_task = None" by code_simp+
  with task_reads_back [OF pg_reachable(3) run, of "''s''" sample_pe] run show ?thesis unfolding none by (auto simp: pg_task_def)
qed

section \<open>Connections\<close>

definition pg_connected :: database where
  "pg_connected = snd (pg_SaveGitFlameConnection sample_pe (sample_stored\<lparr>con_id := [], con_user_id := ''f''\<rparr>) pg_user)"

lemma persistent_revocation_holds_witness:
  "\<exists>c db'. pg_RevokeGitFlameConnection sample_pe ''f'' ''s'' pg_connected = (Inr c, db') \<and> con_revoked_at c = Some 5000 \<and>
    (case fst (pg_UserGitFlameConnectionByRepository sample_pe ''f'' ''r'' db') of Inl e \<Rightarrow> True | Inr other \<Rightarrow> con_id other \<noteq> con_id c)"
proof -
  have "reachable_db pg_connected"
    using pg_reachable(1) unfolding reachable_db_def pg_connected_def by (rule rtranclp.rtrancl_into_rtrancl) (rule pg_save_connection)
  moreover have "\<not> isl (fst (pg_RevokeGitFlameConnection sample_pe ''f'' ''s'' pg_connected))" by code_simp
  from not_failed [OF this] obtain c db' where run: "pg_RevokeGitFlameConnection sample_pe ''f'' ''s'' pg_connected = (Inr c, db')" by auto
  ultimately show ?thesis
    using persistent_revocation_holds [OF _ run, where pe' = sample_pe and anyone = "''f''" and repositoryID = "''r''"] by simp
qed

section \<open>Application sessions\<close>

definition sample_hash :: string where
  "sample_hash = replicate 32 (CHR ''h'')"

lemma persistent_session_lifecycle_witness:
  "\<exists>a db1. pg_CreateAppSession sample_pe ''f'' sample_hash 9000 pg_user = (Inr a, db1) \<and>
    \<not> (\<exists>b. fst (pg_AppSessionByTokenHash sample_pe 0 sample_hash
        (token_run pg_tokens [(sample_pe, Find_session sample_hash), (sample_pe, Revoke_session ''f'')] db1)) = Inr b \<and> aps_id b = aps_id a)"
proof -
  have "case pg_CreateAppSession sample_pe ''f'' sample_hash 9000 pg_user of (Inr a, db1) \<Rightarrow>
      aps_id a = ''f'' \<and> revoked_by pg_tokens ''f'' [(sample_pe, Find_session sample_hash), (sample_pe, Revoke_session ''f'')] db1 | _ \<Rightarrow> False"
    by code_simp
  then obtain a db1 where run: "pg_CreateAppSession sample_pe ''f'' sample_hash 9000 pg_user = (Inr a, db1)" and "aps_id a = ''f''"
      and "revoked_by pg_tokens ''f'' [(sample_pe, Find_session sample_hash), (sample_pe, Revoke_session ''f'')] db1"
    by (auto split: prod.splits sum.splits)
  with persistent_session_lifecycle [OF pg_reachable(1) run,
      of "[(sample_pe, Find_session sample_hash), (sample_pe, Revoke_session ''f'')]" sample_pe]
  show ?thesis by (auto simp: pg_admits_def)
qed

lemma memory_session_lifecycle_witness:
  "\<exists>a s1. CreateAppSession 2 ''s1'' ''u'' sample_hash 100 one_user = (Inr a, s1) \<and>
    \<not> (\<exists>b. fst (AppSessionByTokenHash 9 9 sample_hash
        (token_run memory_tokens [((3, 3, []), Find_session sample_hash), ((4, 4, []), Revoke_session ''s1'')] s1)) = Inr b \<and> aps_id b = aps_id a)"
proof -
  let ?calls = "[((3, 3, []), Find_session sample_hash), ((4, 4, []), Revoke_session ''s1'')]"
  have "case CreateAppSession 2 ''s1'' ''u'' sample_hash 100 one_user of
      (Inr a, s1) \<Rightarrow> aps_id a = ''s1'' \<and> revoked_by memory_tokens ''s1'' ?calls s1 | _ \<Rightarrow> False"
    by code_simp
  then obtain a s1 where run: "CreateAppSession 2 ''s1'' ''u'' sample_hash 100 one_user = (Inr a, s1)" and "aps_id a = ''s1''"
      and "revoked_by memory_tokens ''s1'' ?calls s1"
    by (auto split: prod.splits sum.splits)
  moreover have "ms_appSessions one_user ''s1'' = None" by code_simp
  ultimately show ?thesis
    using memory_session_lifecycle [OF one_user_reachable _ run, of ?calls 9 9] by (auto simp: memory_admits_def)
qed

end
