(* ===== verification/Processes.thy ===== *)
theory Processes imports Agent_Worker Server_Config Metric_Definitions begin

text \<open>
  The two processes. The worker (backend/cmd/agent-worker/main.go): how it starts, its loop over the messages of the queue until the
  shutdown signal, and the gauges that it publishes; and what a whole run does to the jobs that wait. The server
  (backend/cmd/server/main.go): how it starts and how it ends.
\<close>

section \<open>The loop\<close>

text \<open>How the process ends, with the event of a fatal start; \<open>StillRunning\<close> is a loop that has not ended within the turns looked at.\<close>

datatype worker_exit = ExitFatal string go_error | ExitHealthy | ExitShutdown | ExitCrashed string | StillRunning

fun loop_end :: "turn \<Rightarrow> worker_exit option" where
  "loop_end TurnStopped = Some ExitShutdown"
| "loop_end (TurnCrashed t) = Some (ExitCrashed t)"
| "loop_end (TurnProcessed (WorkerCrashed t)) = Some (ExitCrashed t)"
| "loop_end other = None"

text \<open>Whether the shutdown signal has arrived is asked twice in a turn: before the read and after a read that failed. The worker of
  each turn has its own surroundings.\<close>

fun worker_loop ::
    "(nat \<Rightarrow> 's task_worker) \<Rightarrow> int \<Rightarrow> ('s \<Rightarrow> read_result \<times> 's) \<Rightarrow> nat \<Rightarrow> (bool \<times> bool) list \<Rightarrow> 's \<Rightarrow>
       turn list \<times> worker_exit \<times> 's" where
  "worker_loop w maxRetries read_next n [] s = ([], StillRunning, s)"
| "worker_loop w maxRetries read_next n ((stop, stopping) # signals) s =
     (if stop then ([], ExitShutdown, s)
      else
        (case worker_turn (w n) maxRetries read_next stopping s of
           (t, s') \<Rightarrow>
             (case loop_end t of
                Some e \<Rightarrow> ([t], e, s')
              | None \<Rightarrow>
                  (case worker_loop w maxRetries read_next (Suc n) signals s' of (turns, e, s'') \<Rightarrow> (t # turns, e, s'')))))"

section \<open>Starting\<close>

text \<open>What the process takes from outside: PostgreSQL, the address of Redis and the commands sent to it, the readiness check of the
  engine, the engine itself, JSON, the clock and identifiers of each turn, and the name of the host.\<close>

record 'r worker_world =
  ww_connect :: "string \<Rightarrow> go_error option"
  ww_parse_url :: "string \<Rightarrow> parsed_url result"
  ww_exec :: "redis_broker \<Rightarrow> 'r executor"
  ww_ready :: "(workflow_state \<times> 'r, unit) op"
  ww_engine :: generator
  ww_marshal :: "agent_job \<Rightarrow> string result"
  ww_unmarshal :: "string \<Rightarrow> agent_job result"
  ww_ambient :: "nat \<Rightarrow> ambient"
  ww_hostname :: string

text \<open>A check of the start, and \<open>fatal\<close> when it fails.\<close>

definition startup_check ::
    "string \<Rightarrow> ('s, unit) op \<Rightarrow> ('s \<Rightarrow> turn list \<times> worker_exit \<times> 's) \<Rightarrow> 's \<Rightarrow> turn list \<times> worker_exit \<times> 's" where
  "startup_check event check k s =
     (case check s of
        (Inl (Panic t), s') \<Rightarrow> ([], ExitCrashed t, s')
      | (Inl err, s') \<Rightarrow> ([], ExitFatal event err, s')
      | (Inr _, s') \<Rightarrow> k s')"

definition reads_queue ::
    "(string \<Rightarrow> agent_job result) \<Rightarrow> 'r executor \<Rightarrow> redis_broker \<Rightarrow> string \<Rightarrow> workflow_state \<times> 'r \<Rightarrow>
       read_result \<times> (workflow_state \<times> 'r)" where
  "reads_queue unmarshal exec b consumer = (\<lambda>(f, r). case queue_Read unmarshal exec b consumer r of (m, r') \<Rightarrow> (m, (f, r')))"

definition turn_worker :: "'r worker_world \<Rightarrow> redis_broker \<Rightarrow> nat \<Rightarrow> (workflow_state \<times> 'r) task_worker" where
  "turn_worker ww b n =
     agent_worker (ww_ambient ww (2 * n)) (ww_ambient ww (2 * n + 1)) (ww_engine ww) (ww_marshal ww) (ww_exec ww b) b"

definition consumer_name :: "'r worker_world \<Rightarrow> string" where
  "consumer_name ww = ww_hostname ww @ ''-1''"

definition serve_queue ::
    "'r worker_world \<Rightarrow> redis_broker \<Rightarrow> int \<Rightarrow> (bool \<times> bool) list \<Rightarrow> workflow_state \<times> 'r \<Rightarrow>
       turn list \<times> worker_exit \<times> (workflow_state \<times> 'r)" where
  "serve_queue ww b maxRetries signals =
     worker_loop (turn_worker ww b) maxRetries (reads_queue (ww_unmarshal ww) (ww_exec ww b) b (consumer_name ww)) 0 signals"

definition worker_main ::
    "'r worker_world \<Rightarrow> (string \<Rightarrow> string) \<Rightarrow> bool \<Rightarrow> (bool \<times> bool) list \<Rightarrow> workflow_state \<times> 'r \<Rightarrow>
       turn list \<times> worker_exit \<times> (workflow_state \<times> 'r)" where
  "worker_main ww getenv healthcheck signals s =
     (let cfg = Load getenv in
      case worker_configured cfg of
        Some err \<Rightarrow> ([], ExitFatal ''configuration_invalid'' err, s)
      | None \<Rightarrow>
          (case ww_connect ww (cf_database_url cfg) of
             Some err \<Rightarrow> ([], ExitFatal ''storage_unavailable'' err, s)
           | None \<Rightarrow>
               (case NewRedisBroker (ww_parse_url ww) (cf_redis_url cfg) (cf_agent_queue_name cfg) (cf_agent_consumer_group cfg)
                   (cf_queue_max_length cfg) of
                  Inl err \<Rightarrow> ([], ExitFatal ''queue_unavailable'' err, s)
                | Inr b \<Rightarrow>
                    if healthcheck then
                      startup_check ''healthcheck_failed'' (on_queue (queue_Ping (ww_exec ww b)))
                        (startup_check ''healthcheck_failed'' (ww_ready ww) (\<lambda>s. ([], ExitHealthy, s))) s
                    else
                      startup_check ''queue_group_failed'' (on_queue (EnsureGroup (ww_exec ww b) b))
                        (serve_queue ww b (cf_worker_max_retries cfg) signals) s)))"

text \<open>One refresh of the queue gauges by the worker; it is retried after every tick.\<close>

definition worker_collectQueueDepth ::
    "(rat \<Rightarrow> float64) \<Rightarrow> 'r executor \<Rightarrow> redis_broker \<Rightarrow> 'r \<times> registry \<Rightarrow> 'r \<times> registry" where
  "worker_collectQueueDepth rnd exec b = (\<lambda>(r, reg). case Depths exec b r of (depths, r') \<Rightarrow> (r', publish_depths rnd depths reg))"

text \<open>The identity of a build, as \<open>/version\<close> shows it.\<close>

record build_info =
  bi_service :: string
  bi_version :: string
  bi_commit :: string
  bi_build_time :: string
  bi_go_version :: string

definition Build :: "string \<Rightarrow> string \<Rightarrow> string \<Rightarrow> string \<Rightarrow> string \<Rightarrow> build_info" where
  "Build version commit buildTime goVersion service =
     \<lparr>bi_service = service, bi_version = version, bi_commit = commit, bi_build_time = buildTime, bi_go_version = goVersion\<rparr>"

section \<open>The server\<close>

text \<open>What ends the server: its listener, with an error unless it was closed, or the shutdown signal. After the signal the requests that
  are in flight may outlast their time, and the ticks of the wait for indexing jobs see how many run and whether the time is over.\<close>

datatype stop_cause = ListenerEnded "go_error option" | Signalled "go_error option" "(int \<times> bool) list"

datatype server_exit =
    StartupFailed go_error
  | ServerStopped go_error
  | ServerReturned
  | ShutdownComplete "go_error option" int
  | StillWaiting

definition server_main ::
    "(string \<Rightarrow> string) \<Rightarrow> (string \<Rightarrow> go_error option) \<Rightarrow> (string \<Rightarrow> parsed_url result) \<Rightarrow> (string \<Rightarrow> string) \<Rightarrow> stop_cause \<Rightarrow>
       server_exit" where
  "server_main sha256 connect parse_url getenv cause =
     (case New sha256 connect parse_url (Load getenv) of
        Inl err \<Rightarrow> StartupFailed err
      | Inr su \<Rightarrow>
          (case cause of
             ListenerEnded None \<Rightarrow> ServerReturned
           | ListenerEnded (Some err) \<Rightarrow> ServerStopped err
           | Signalled incomplete observations \<Rightarrow>
               (case WaitForBackgroundWork observations of
                  None \<Rightarrow> StillWaiting
                | Some remaining \<Rightarrow> ShutdownComplete incomplete remaining)))"

section \<open>What a read hands out\<close>

text \<open>Reading and claiming change no stream, and the message that they hand out, if it has the form of one, is an entry of the stream, the
  only one with its identifier.\<close>

definition handed_out :: "'r stream_view \<Rightarrow> redis_broker \<Rightarrow> 'r \<Rightarrow> resp \<Rightarrow> bool" where
  "handed_out view b s m \<longleftrightarrow>
     (\<forall>mid fs. m = RArr [RStr mid, RArr fs] \<longrightarrow>
        (\<exists>gs. fs = map RStr gs \<and> (mid, gs) \<in> set (view s (rb_stream b)) \<and>
           (\<forall>hs. (mid, hs) \<in> set (view s (rb_stream b)) \<longrightarrow> hs = gs)))"

definition delivers :: "'r executor \<Rightarrow> 'r stream_view \<Rightarrow> redis_broker \<Rightarrow> string \<Rightarrow> bool" where
  "delivers exec view b consumer \<longleftrightarrow>
     (\<forall>s v s'. exec (claim_command b consumer) s = (v, s') \<longrightarrow>
        view s' = view s \<and> (\<forall>x m. v = Inr x \<longrightarrow> claimed_message x = Some m \<longrightarrow> handed_out view b s m)) \<and>
     (\<forall>s v s'. exec (read_command b consumer) s = (v, s') \<longrightarrow>
        view s' = view s \<and> (\<forall>x m. v = Inr x \<longrightarrow> group_message x = Inr (Some m) \<longrightarrow> handed_out view b s m))"

text \<open>The contract of a read: the queue stays, a message that is handed out waits, and one that cannot be decoded does not.\<close>

definition read_fits :: "(string \<times> agent_job) set \<Rightarrow> read_result \<Rightarrow> bool" where
  "read_fits jobs out \<longleftrightarrow>
     (case out of
        (None, e) \<Rightarrow> True
      | (Some msg, None) \<Rightarrow> (\<forall>job. (msg_id msg, job) \<in> jobs \<longleftrightarrow> job = msg_job msg)
      | (Some msg, Some e) \<Rightarrow> msg_id msg \<notin> fst ` jobs)"

definition read_contract ::
    "('s \<Rightarrow> (string \<times> agent_job) set) \<Rightarrow> ('s \<Rightarrow> agent_job set) \<Rightarrow> ('s \<Rightarrow> read_result \<times> 's) \<Rightarrow> bool" where
  "read_contract waiting dead read_next \<longleftrightarrow>
     (\<forall>s. case read_next s of (out, s') \<Rightarrow> waiting s' = waiting s \<and> dead s' = dead s \<and> read_fits (waiting s) out)"

lemma decode_job_entry:
  "decode_job unmarshal mid (map RStr gs) = (m, e) \<Longrightarrow>
     (\<exists>msg. m = Some msg \<and> msg_id msg = mid \<and> entry_job unmarshal gs = (if e = None then Some (msg_job msg) else None))"
  by (auto simp: decode_job_def entry_job_def Let_def split: if_splits sum.splits)

lemma decoded_message:
  assumes "handed_out view b s m"
  shows "read_fits (waiting_jobs unmarshal view b s) (decodeStreamMessage unmarshal m)"
proof (cases "\<exists>mid fs. m = RArr [RStr mid, RArr fs]")
  case True
  then obtain mid fs where m: "m = RArr [RStr mid, RArr fs]" by blast
  from assms m obtain gs where gs: "fs = map RStr gs" "(mid, gs) \<in> set (view s (rb_stream b))"
    "\<And>hs. (mid, hs) \<in> set (view s (rb_stream b)) \<Longrightarrow> hs = gs"
    unfolding handed_out_def by blast
  then have waiting: "(mid, job) \<in> waiting_jobs unmarshal view b s \<longleftrightarrow> entry_job unmarshal gs = Some job" for job
    unfolding waiting_jobs_def by blast
  obtain msg e where decoded: "decode_job unmarshal mid (map RStr gs) = (Some msg, e)" "msg_id msg = mid"
    "entry_job unmarshal gs = (if e = None then Some (msg_job msg) else None)"
    using decode_job_entry [of unmarshal mid gs] by (cases "decode_job unmarshal mid (map RStr gs)") auto
  show ?thesis
  proof (cases e)
    case None
    with decoded waiting show ?thesis by (auto simp: m gs(1) read_fits_def)
  next
    case (Some err)
    with decoded waiting have "(mid, job) \<notin> waiting_jobs unmarshal view b s" for job by simp
    with Some decoded show ?thesis by (auto simp: m gs(1) read_fits_def)
  qed
next
  case False
  then have "fst (decodeStreamMessage unmarshal m) = None"
    by (cases "(unmarshal, m)" rule: decodeStreamMessage.cases) auto
  then show ?thesis by (simp add: read_fits_def split_beta)
qed

lemma queue_Read_contract:
  assumes "delivers exec view b consumer"
  shows "read_contract (waiting_jobs unmarshal view b) (dead_jobs unmarshal view b) (queue_Read unmarshal exec b consumer)"
  unfolding read_contract_def
proof
  fix r
  obtain v1 r1 where claim: "exec (claim_command b consumer) r = (v1, r1)" by fastforce
  obtain v2 r2 where grp: "exec (read_command b consumer) r1 = (v2, r2)" by fastforce
  have view1: "view r1 = view r" and claimed: "\<And>x m. v1 = Inr x \<Longrightarrow> claimed_message x = Some m \<Longrightarrow> handed_out view b r m"
    using assms claim unfolding delivers_def by blast+
  have view2: "view r2 = view r1" and read: "\<And>x m. v2 = Inr x \<Longrightarrow> group_message x = Inr (Some m) \<Longrightarrow> handed_out view b r1 m"
    using assms grp unfolding delivers_def by blast+
  have "handed_out view b r1 m = handed_out view b r m" for m by (simp add: handed_out_def view1)
  with claimed read have out: "\<And>x m. v1 = Inr x \<Longrightarrow> claimed_message x = Some m \<Longrightarrow> handed_out view b r m"
      "\<And>x m. v2 = Inr x \<Longrightarrow> group_message x = Inr (Some m) \<Longrightarrow> handed_out view b r m"
    by blast+
  have none: "read_fits jobs (None, e)" for jobs e by (simp add: read_fits_def)
  show "case queue_Read unmarshal exec b consumer r of (out, s') \<Rightarrow>
      waiting_jobs unmarshal view b s' = waiting_jobs unmarshal view b r \<and> dead_jobs unmarshal view b s' = dead_jobs unmarshal view b r \<and>
      read_fits (waiting_jobs unmarshal view b r) out"
    using decoded_message [OF out(1)] decoded_message [OF out(2)]
    by (simp add: queue_Read_def claim grp none same_view [OF view1] same_view [OF trans [OF view2 view1]]
        split: sum.split option.split)
qed

section \<open>A whole run\<close>

text \<open>The job that a turn executes with success, and those of a run.\<close>

definition completed_job :: "'s task_worker \<Rightarrow> ('s \<Rightarrow> read_result \<times> 's) \<Rightarrow> 's \<Rightarrow> agent_job list" where
  "completed_job w read_next s =
     (case read_next s of
        ((Some message, None), s') \<Rightarrow> if fst (tw_execute w (msg_job message) s') = Inr () then [msg_job message] else []
      | _ \<Rightarrow> [])"

fun completed_jobs ::
    "(nat \<Rightarrow> 's task_worker) \<Rightarrow> int \<Rightarrow> ('s \<Rightarrow> read_result \<times> 's) \<Rightarrow> nat \<Rightarrow> (bool \<times> bool) list \<Rightarrow> 's \<Rightarrow> agent_job list" where
  "completed_jobs w maxRetries read_next n [] s = []"
| "completed_jobs w maxRetries read_next n ((stop, stopping) # signals) s =
     (if stop then []
      else
        completed_job (w n) read_next s @
        (case worker_turn (w n) maxRetries read_next stopping s of
           (t, s') \<Rightarrow> if loop_end t = None then completed_jobs w maxRetries read_next (Suc n) signals s' else []))"

text \<open>The attempts at a job.\<close>

inductive_set attempts_at :: "agent_job \<Rightarrow> agent_job set" for job where
  first_attempt: "job \<in> attempts_at job"
| later_attempt: "j \<in> attempts_at job \<Longrightarrow> next_attempt j \<in> attempts_at job"

lemma attempts_trans: "k \<in> attempts_at j \<Longrightarrow> j \<in> attempts_at job \<Longrightarrow> k \<in> attempts_at job"
  by (induction rule: attempts_at.induct) (auto intro: attempts_at.intros)

text \<open>A read that fails loses nothing: what is buried does not wait.\<close>

lemma bury_keeps:
  assumes laws: "queue_laws waiting dead w" and "\<And>msg. m = Some msg \<Longrightarrow> msg_id msg \<notin> fst ` waiting s" and run: "bury w m err s = (t, s')"
  shows "waiting s \<subseteq> waiting s' \<and> dead s \<subseteq> dead s'"
proof (cases m)
  case (Some msg)
  obtain r1 s1 where dl: "tw_dead_letter w msg err s = (r1, s1)" by fastforce
  obtain r2 s2 where ack: "tw_ack w (msg_id msg) s1 = (r2, s2)" by fastforce
  have dead1: "waiting s1 = waiting s" "dead s \<subseteq> dead s1" using dead_letter_effect [OF laws dl] by blast+
  have "s' \<in> {s, s1, s2}"
    using run Some dl ack by (auto simp: bury_def split: if_splits sum.splits go_error.splits)
  moreover have "waiting s \<subseteq> waiting s2" "dead s2 = dead s1"
    using ack_effect [OF laws ack] assms(2) [OF Some] dead1(1) by force+
  ultimately show ?thesis using dead1 by auto
qed (use run in \<open>simp add: bury_def\<close>)

lemma worker_turn_read:
  assumes "read_next s = ((m, e), s1)"
  shows "worker_turn w maxRetries read_next stopping s =
    (case e of
       Some (Panic t) \<Rightarrow> (TurnCrashed t, s1)
     | Some err \<Rightarrow> if stopping then (TurnStopped, s1) else bury w m err s1
     | None \<Rightarrow>
         (case m of
            None \<Rightarrow> (TurnIdle, s1)
          | Some message \<Rightarrow> (case process w maxRetries message s1 of (d, s2) \<Rightarrow> (TurnProcessed d, s2))))"
  using assms by (cases m; cases e) (simp_all add: worker_turn_def split: go_error.split)

lemma turn_keeps:
  assumes laws: "queue_laws waiting dead w" and reads: "read_contract waiting dead read_next"
    and run: "worker_turn w maxRetries read_next stopping s = (t, s')"
  shows "dead s \<subseteq> dead s'"
    and "(mid, job) \<in> waiting s \<Longrightarrow>
      (\<exists>j \<in> attempts_at job. j \<in> snd ` waiting s' \<or> j \<in> dead s' \<or> j \<in> set (completed_job w read_next s))"
proof -
  obtain m e s1 where read: "read_next s = ((m, e), s1)" by (metis prod.collapse)
  have same: "waiting s1 = waiting s" "dead s1 = dead s" and fits: "read_fits (waiting s) (m, e)"
    using reads [unfolded read_contract_def, THEN spec, of s] by (simp_all add: read)
  have still: "\<exists>j \<in> attempts_at job. j \<in> snd ` waiting s' \<or> j \<in> dead s' \<or> j \<in> done" if "(mid, job) \<in> waiting s'" for mid job "done"
    using that by (force intro: first_attempt)
  have "dead s \<subseteq> dead s' \<and> ((mid, job) \<in> waiting s \<longrightarrow>
      (\<exists>j \<in> attempts_at job. j \<in> snd ` waiting s' \<or> j \<in> dead s' \<or> j \<in> set (completed_job w read_next s)))"
  proof (cases e)
    case (Some err)
    have "msg_id msg \<notin> fst ` waiting s1" if "m = Some msg" for msg using fits that Some same by (simp add: read_fits_def)
    from bury_keeps [OF laws this] have buried: "bury w m err s1 = (t, s') \<Longrightarrow> waiting s1 \<subseteq> waiting s' \<and> dead s1 \<subseteq> dead s'" by blast
    have "s' = s1 \<or> bury w m err s1 = (t, s')"
      using run Some by (cases err) (auto simp: worker_turn_read [where read_next = read_next, OF read] split: if_splits)
    with buried same have "waiting s \<subseteq> waiting s'" "dead s \<subseteq> dead s'" by auto
    with still show ?thesis by blast
  next
    case None
    show ?thesis
    proof (cases m)
      case (Some msg)
      obtain d where process: "process w maxRetries msg s1 = (d, s')"
        using run Some None by (auto simp: worker_turn_read [where read_next = read_next, OF read] split: prod.splits)
      have here: "(msg_id msg, msg_job msg) \<in> waiting s1" and only: "\<And>job. (msg_id msg, job) \<in> waiting s \<Longrightarrow> job = msg_job msg"
        using fits same Some None by (simp_all add: read_fits_def)
      note kept = process_keeps [OF laws process here]
      have "dead s \<subseteq> dead s'" using kept same by (simp add: retains_def)
      moreover have "\<exists>j \<in> attempts_at job. j \<in> snd ` waiting s' \<or> j \<in> dead s' \<or> j \<in> set (completed_job w read_next s)"
        if job: "(mid, job) \<in> waiting s"
      proof (cases "mid = msg_id msg")
        case True
        with job only have "job = msg_job msg" by blast
        with kept show ?thesis
          by (auto simp: completed_job_def read Some None traced_def intro: attempts_at.intros)
      next
        case False
        with kept job same have "(mid, job) \<in> waiting s'" by (auto simp: retains_def)
        then show ?thesis by (rule still)
      qed
      ultimately show ?thesis by blast
    next
      case None
      with run \<open>e = None\<close> have "s' = s1" by (simp add: worker_turn_read [where read_next = read_next, OF read])
      with same still show ?thesis by auto
    qed
  qed
  then show "dead s \<subseteq> dead s'" and "(mid, job) \<in> waiting s \<Longrightarrow>
      (\<exists>j \<in> attempts_at job. j \<in> snd ` waiting s' \<or> j \<in> dead s' \<or> j \<in> set (completed_job w read_next s))"
    by blast+
qed

lemma loop_keeps:
  assumes "\<And>n. queue_laws waiting dead (w n)" and "read_contract waiting dead read_next"
    and "worker_loop w maxRetries read_next n signals s = (turns, e, s')"
  shows "dead s \<subseteq> dead s' \<and> (\<forall>mid job. (mid, job) \<in> waiting s \<longrightarrow>
    (\<exists>j \<in> attempts_at job. j \<in> snd ` waiting s' \<or> j \<in> dead s' \<or> j \<in> set (completed_jobs w maxRetries read_next n signals s)))"
  using assms(3)
proof (induction signals arbitrary: n s turns)
  case Nil
  then show ?case by (force intro: first_attempt)
next
  case (Cons signal signals)
  obtain stop stopping where signal: "signal = (stop, stopping)" by (cases signal)
  show ?case
  proof (cases stop)
    case True
    with Cons.prems show ?thesis by (force simp: signal intro: first_attempt)
  next
    case False
    obtain t s1 where turn: "worker_turn (w n) maxRetries read_next stopping s = (t, s1)" by fastforce
    note kept = turn_keeps [OF assms(1,2) turn]
    show ?thesis
    proof (cases "loop_end t")
      case (Some x)
      with Cons.prems False turn have "s' = s1" by (simp add: signal)
      with kept Some False turn show ?thesis by (auto simp: signal)
    next
      case None
      then obtain rest where "worker_loop w maxRetries read_next (Suc n) signals s1 = (rest, e, s')"
        using Cons.prems False turn by (auto simp: signal split: prod.splits)
      note later = Cons.IH [OF this]
      let ?done = "completed_job (w n) read_next s" and ?later = "completed_jobs w maxRetries read_next (Suc n) signals s1"
      have all: "completed_jobs w maxRetries read_next n (signal # signals) s = ?done @ ?later" using None False turn by (simp add: signal)
      have "\<exists>j \<in> attempts_at job. j \<in> snd ` waiting s' \<or> j \<in> dead s' \<or> j \<in> set (?done @ ?later)" if job: "(mid, job) \<in> waiting s" for mid job
      proof -
        from kept(2) [OF job] obtain j where j: "j \<in> attempts_at job" "j \<in> snd ` waiting s1 \<or> j \<in> dead s1 \<or> j \<in> set ?done" by blast
        then consider mid' where "(mid', j) \<in> waiting s1" | "j \<in> dead s'" | "j \<in> set ?done" using later by fastforce
        then show ?thesis
        proof cases
          case 1
          with later obtain k where "k \<in> attempts_at j" "k \<in> snd ` waiting s' \<or> k \<in> dead s' \<or> k \<in> set ?later" by blast
          with attempts_trans [OF _ j(1)] show ?thesis by auto
        qed (use j(1) in auto)
      qed
      with kept(1) later all show ?thesis by auto
    qed
  qed
qed

section \<open>The run of the program\<close>

lemma read_contract_on_queue:
  assumes "read_contract waiting dead (queue_Read unmarshal exec b consumer)"
  shows "read_contract (\<lambda>s. waiting (snd s)) (\<lambda>s. dead (snd s)) (reads_queue unmarshal exec b consumer)"
  unfolding read_contract_def
proof
  fix s :: "workflow_state \<times> 'a"
  obtain f r where s: "s = (f, r)" by (cases s)
  from assms [unfolded read_contract_def, THEN spec, of r]
  show "case reads_queue unmarshal exec b consumer s of (out, s') \<Rightarrow>
      waiting (snd s') = waiting (snd s) \<and> dead (snd s') = dead (snd s) \<and> read_fits (waiting (snd s)) out"
    by (auto simp: reads_queue_def s split: prod.splits)
qed

text \<open>C15: The worker loses no job over a whole run, however many turns it takes, whatever fails, whatever panics and whenever the shutdown
  signal arrives: a job that waited when the run began was executed successfully, or it still waits, or it is in the dead letters,
  possibly with a later attempt; and no dead letter is gone.\<close>

theorem worker_run_loses_no_job:
  assumes "stream_commands (ww_exec ww b) view" and "delivers (ww_exec ww b) view b (consumer_name ww)"
    and "json_roundtrip (ww_marshal ww) (ww_unmarshal ww)" and "NewRedisBroker (ww_parse_url ww) rawURL stream groupName maxLength = Inr b"
    and "(mid, job) \<in> waiting_jobs (ww_unmarshal ww) view b (snd s)"
    and "serve_queue ww b maxRetries signals s = (turns, e, s')"
  shows "dead_jobs (ww_unmarshal ww) view b (snd s) \<subseteq> dead_jobs (ww_unmarshal ww) view b (snd s') \<and>
    (\<exists>j \<in> attempts_at job.
       j \<in> snd ` waiting_jobs (ww_unmarshal ww) view b (snd s') \<or> j \<in> dead_jobs (ww_unmarshal ww) view b (snd s') \<or>
       j \<in> set (completed_jobs (turn_worker ww b) maxRetries
         (reads_queue (ww_unmarshal ww) (ww_exec ww b) b (consumer_name ww)) 0 signals s))"
proof -
  let ?waiting = "\<lambda>s. waiting_jobs (ww_unmarshal ww) view b (snd s)" and ?dead = "\<lambda>s. dead_jobs (ww_unmarshal ww) view b (snd s)"
  have laws: "queue_laws ?waiting ?dead (turn_worker ww b n)" for n
    unfolding turn_worker_def by (rule agent_worker_laws [OF assms(1,3,4)])
  have reads: "read_contract ?waiting ?dead (reads_queue (ww_unmarshal ww) (ww_exec ww b) b (consumer_name ww))"
    by (rule read_contract_on_queue [OF queue_Read_contract [OF assms(2)]])
  note kept = loop_keeps [where waiting = ?waiting and dead = ?dead, OF laws reads assms(6) [unfolded serve_queue_def]]
  from conjunct1 [OF kept] conjunct2 [OF kept, rule_format, OF assms(5)] show ?thesis by (rule conjI)
qed

text \<open>A server that hands out the first entry of the stream.\<close>

definition reading_exec :: "(string \<Rightarrow> (string \<times> string list) list) executor" where
  "reading_exec args s =
     (if args = read_command sample_broker ''h-1'' then
        (case s ''jobs'' of
           [] \<Rightarrow> (Inr RNil, s)
         | (mid, fs) # rest \<Rightarrow>
             if mid \<in> fst ` set rest then (Inr RNil, s)
             else (Inr (RArr [RArr [RStr ''jobs'', RArr [RArr [RStr mid, RArr (map RStr fs)]]]]), s))
      else sample_exec args s)"

definition sample_world :: "(string \<Rightarrow> (string \<times> string list) list) worker_world" where
  "sample_world =
     \<lparr>ww_connect = (\<lambda>u. None), ww_parse_url = (\<lambda>u. Inr sample_url), ww_exec = (\<lambda>b. reading_exec), ww_ready = retS (),
      ww_engine = sample_generator, ww_marshal = sample_marshal, ww_unmarshal = (\<lambda>p. Inr no_job), ww_ambient = (\<lambda>n. sample_ambient ''z''),
      ww_hostname = ''h''\<rparr>"

lemma reading_exec_streams: "stream_commands reading_exec (\<lambda>s. s)"
proof -
  have "reading_exec (c # args) = sample_exec (c # args)" if "c \<noteq> ''XREADGROUP''" for c args
    using that by (simp add: reading_exec_def read_command_def fun_eq_iff)
  then show ?thesis
    using sample_exec_streams
    by (simp add: stream_commands_def xlen_counts_def xadd_appends_def xack_keeps_def xdel_deletes_def)
qed

lemma reading_exec_read:
  assumes "reading_exec (read_command sample_broker ''h-1'') s = (v, s')"
  shows "s' = s" and "v = Inr x \<Longrightarrow> group_message x = Inr (Some m) \<Longrightarrow> handed_out (\<lambda>s. s) sample_broker s m"
proof -
  have jobs: "rb_stream sample_broker = ''jobs''" by (simp add: sample_broker_def)
  have "s' = s \<and> (v = Inr x \<longrightarrow> group_message x = Inr (Some m) \<longrightarrow> handed_out (\<lambda>s. s) sample_broker s m)"
  proof (cases "s ''jobs''")
    case Nil
    with assms show ?thesis by (auto simp: reading_exec_def)
  next
    case (Cons entry rest)
    then obtain mid fs where jobs': "s ''jobs'' = (mid, fs) # rest" by (cases entry) simp
    show ?thesis
    proof (cases "mid \<in> fst ` set rest")
      case True
      with assms jobs' show ?thesis by (auto simp: reading_exec_def)
    next
      case False
      then have "handed_out (\<lambda>s. s) sample_broker s (RArr [RStr mid, RArr (map RStr fs)])"
        using jobs' by (force simp: handed_out_def jobs)
      with False assms jobs' show ?thesis by (auto simp: reading_exec_def)
    qed
  qed
  then show "s' = s" and "v = Inr x \<Longrightarrow> group_message x = Inr (Some m) \<Longrightarrow> handed_out (\<lambda>s. s) sample_broker s m" by blast+
qed

lemma reading_exec_delivers: "delivers reading_exec (\<lambda>s. s) sample_broker ''h-1''"
proof -
  have claim: "reading_exec (claim_command sample_broker ''h-1'') s = (Inr RNil, s)" for s
    by (simp add: reading_exec_def read_command_def claim_command_def)
  show ?thesis
    unfolding delivers_def
  proof (intro conjI allI impI)
    fix s v s' x m
    assume "reading_exec (claim_command sample_broker ''h-1'') s = (v, s')"
    then show "s' = s" and "v = Inr x \<Longrightarrow> claimed_message x = Some m \<Longrightarrow> handed_out (\<lambda>s. s) sample_broker s m"
      by (auto simp: claim)
  next
    fix s v s' x m
    assume "reading_exec (read_command sample_broker ''h-1'') s = (v, s')"
    from reading_exec_read [OF this] show "s' = s"
      and "v = Inr x \<Longrightarrow> group_message x = Inr (Some m) \<Longrightarrow> handed_out (\<lambda>s. s) sample_broker s m"
      by blast+
  qed
qed

lemma worker_run_loses_no_job_witness:
  "case serve_queue sample_world sample_broker 3 [(False, False), (True, False)] (initial_flow, sample_entries) of (turns, e, s') \<Rightarrow>
     (\<exists>j \<in> attempts_at no_job.
        j \<in> snd ` waiting_jobs (\<lambda>p. Inr no_job) (\<lambda>s. s) sample_broker (snd s') \<or>
        j \<in> dead_jobs (\<lambda>p. Inr no_job) (\<lambda>s. s) sample_broker (snd s') \<or>
        j \<in> set (completed_jobs (turn_worker sample_world sample_broker) 3 (reads_queue (\<lambda>p. Inr no_job) reading_exec sample_broker ''h-1'') 0
          [(False, False), (True, False)] (initial_flow, sample_entries)))"
proof -
  have here: "(''x'', no_job) \<in> waiting_jobs (\<lambda>p. Inr no_job) (\<lambda>s. s) sample_broker sample_entries"
    by (simp add: waiting_jobs_def sample_broker_def sample_entries_def entry_job_def decode_job_def)
  have world: "ww_exec sample_world sample_broker = reading_exec" "consumer_name sample_world = ''h-1''" "ww_unmarshal sample_world = (\<lambda>p. Inr no_job)"
    "ww_marshal sample_world = sample_marshal" "ww_parse_url sample_world = (\<lambda>u. Inr sample_url)"
    by (simp_all add: sample_world_def consumer_name_def)
  obtain turns e s' where run: "serve_queue sample_world sample_broker 3 [(False, False), (True, False)] (initial_flow, sample_entries) = (turns, e, s')"
    by (metis prod.collapse)
  from worker_run_loses_no_job [where ww = sample_world and b = sample_broker and view = "\<lambda>s. s", unfolded world,
      OF reading_exec_streams reading_exec_delivers sample_json sample_broker_new _ run] here
  show ?thesis by (simp add: run)
qed

end
