(* ===== verification/Spec2Isabelle.thy ===== *)
theory Spec2Isabelle imports Workflow_Properties Agent_Worker Server_Samples Middleware Server_Config Postgres_Samples Processes begin

text \<open>
  GitFlame CodePilot: a verification library for its Go backend

  The program. CodePilot turns an issue of a GitFlame repository into an implementation plan, and an approved plan into generated
  files, a branch and a pull request. The backend (src/backend) is a server and a worker. The server keeps sessions, connections,
  tasks and reports in a store, reads repositories from GitFlame, has them indexed by the CodeRAG service, and hands tasks to the
  agent engine: directly, from a goroutine, or through a Redis stream that the worker reads. A plan or a set of generated files is
  checked before it is stored; whatever a user approves is checked again. Webhooks of GitFlame start indexing and analysis.

  How it is modelled. A Go function that returns a value or an error is a function into a sum, an operation that changes state is
  a function from a state to a result and the state after it (Prelude: retS, bindS, tryS); an early return leaves the effects that
  came before it. A struct is a record with its fields in their order, a pointer that may be nil an option, a slice a list, a
  string the list of its bytes, an int an int with the wrap-around written out where the code can meet it (64-bit counters are
  words), a number in JSON a rational. A run-time panic is the error Panic. The clock, new identifiers, the random source, hashes
  and ciphers, the transport, JSON and YAML decoding, the order in which a map is visited or a goroutine finishes and everything
  that another service answers are arguments; what a theorem needs of them is one of its hypotheses.

  The theories, from the bottom up, each with the code under src/backend that it follows.

  Foundations. Prelude has errors, results, state passing and the interface of a keyed table; Domain the structs and constants of
  internal/domain/domain.go. Go_Strings, Go_Path, Go_Glob and Go_Regex are the parts of Go's standard library that the code calls
  (strings, strconv, path, filepath.Match, net/url escaping, UTF-8, regexp for the patterns of the plan validator).

  Plans, files and the workflow (internal/service). Plan_Validation: plan_validation.go, the validator of plans and the guard on
  paths. Generated_Files: the checks of workflow.go on request files and generated operations. Branch_Names: branches and
  pull-request payloads. Config: config.go, the .ai.yml of a repository. Workflow: the type Workflow on the store.
  Workflow_System: requests and executions of tasks as a step relation (sys_step). Workflow_Safety: its invariant.
  Workflow_Properties and Sample_Run: what follows, and a run that is computed from an issue to delivered code.

  The store (internal/repository). Recommendations: recommendations.go and id.go. Memory_Store: memory.go, one map per table, and
  its tables as keyed stores. Store_Properties: its operations as a step relation (store_step), the invariant store_ok and what
  the service relies on. Postgres_Tables: the tables of db/migrations/initial_schema.sql with their CHECK, UNIQUE and foreign key
  constraints, and the statements (insert, update, upsert, delete, transaction) on them. Postgres_Store and Postgres_Integration:
  postgres.go, each method with its statements in their order. Postgres_Constraints: a table as a locale, interpreted for each of
  the twenty tables, and that every operation keeps every constraint. Session_Tokens: the contract of application sessions as a
  locale; Memory_Sessions and Postgres_Properties interpret it on the two stores. Postgres_Sessions, Postgres_Roundtrips and
  Postgres_Issues: what a stored session or task reads back as, field by field, where the persistent store loses something, and
  that an issue gets one session. Postgres_Connections: operations on connections leave those of other users alone, and a revoked
  connection is not offered again. Postgres_Samples: concrete runs of both stores.

  The queue and the worker. Redis_Protocol: RESP, the requests and replies of internal/queue/redis.go. Redis_Broker: the broker on
  a stream, its refinement of a queue with pending entries. Agent_Client: internal/agent/client.go. Agent_Worker:
  cmd/agent-worker/main.go, from a message of the queue to its acknowledgement, retry or dead letter. Processes: the main
  functions of cmd/agent-worker and cmd/server, with the loop of the worker and what a whole run of it does to the jobs that wait.

  GitFlame and the services (internal/httpapi). Repository_Paths, GitFlame_Http, GitFlame_Tree, GitFlame_Files and GitFlame_Apply:
  gitflame_client.go (names and rules, requests, the tree of a repository, contents and metadata, the commit and the pull
  request). Service_Clients: rag_client.go and recommendation_client.go. Index_Jobs: repository_index_jobs.go, the registry of
  indexing goroutines and their waiters. Index_Sync and Index_Background: repository_indexing.go, repository_data.go.

  The server (internal/httpapi, internal/security). Credentials: credentials.go. Access: auth.go. Server_State: the type Server
  and the state of its requests. Webhooks, Handlers, Handlers_Apply, Ops: the handlers of webhooks.go, auth.go,
  repository_data.go, server.go and ops.go. Router: the routes of newServer and the serving of a request. Middleware: logging.go
  and requestid.go. Metrics and Metric_Definitions: observability/metrics.go, metrics_definitions.go and metrics_collector.go.
  Server_Config: config/config.go and the construction of a server. Server_Steps: the server as a system of small steps
  (server_step). Server_Properties, Webhook_Properties and Server_Samples: what holds in every state that it reaches, and concrete
  runs.

  What is shown. Invariants are proved by induction on the step relations and hold under every interleaving: stored plans are well
  formed and generated code is deliverable (Workflow_Safety), the tables of the store in memory stay consistent (Store_Properties;
  the constraints of the persistent store are those of its schema, which the model enforces on every statement, and
  Postgres_Constraints carries them to every reachable state), a repository has one registered indexing job at a time (Index_Jobs,
  and through index_view for the server; what push webhooks and waiting requests index themselves is not registered). Every request
  that the server can be sent, by whatever route, is a run of its small steps (Router), so these invariants hold after it; the
  steps admit any operation of the store, and what the guards of a handler ensure is proved of the handler. Loops over slices,
  maps and index tables are related to declarative descriptions (Generated_Files, Recommendations, Metrics, Ops). Parsers and
  encoders have round trips (Redis_Protocol, Credentials, Repository_Paths). The broker refines an abstract queue, and the worker
  loses no job on a broker of that kind, in one turn (Agent_Worker) and over a run (Processes). Every wait, retry and page loop
  ends. The error paths are values, and theorems say what they leave unchanged.

  Bounds. readRESP runs with fuel, one more than the bytes that are left, because every value takes a byte at least; that it never
  runs out is readRESP_terminates. The search for a pull request has fuel for its pages, and pull_request_search_ends shows that
  the search of the code ends within it. A tree has at most 10,000 entries, the limit of the code. The other loops are recursions
  on their data.

  Granularity. An operation of a store is atomic, by the lock of the memory store. The operations of the persistent store run one
  after the other, each with its statements in order, any of which may fail (the record pg_env says which, and what the server and
  the driver decide besides); a statement that fails changes nothing, and a transaction that is not committed leaves no trace. The
  workflow and the server run on the store in memory. In Workflow_System the handlers between their store operations are atomic
  and an execution is two steps, before and after the call of the engine. The code does not ensure that: Reject, Approve, Retry
  and the start of an execution read a session and write it back as a whole without a lock, so a write in between is lost, and
  stale_rejection_discards_work is such a run. The invariants of the workflow hold as far as handlers of the same session do not
  overlap. In Server_Steps every operation of the store, every answer from outside and every change of the registry is a step of
  its own, so check-then-act sequences (two deliveries with one identifier, an approval and a rejection) interleave as they can in
  the program.

  Not modelled. Listening, signals, tickers and the log set-up of the processes, the pages of the metrics port of the worker, and
  the pages that do not depend on the state (health, version, docs, openapi) beyond their routes: they return constants. The
  decoding of request bodies and the encoding of answers: a handler takes the decoded body or the error and gives the answer as a
  value. Log lines other than the access line, and the counting of calls inside the clients. Concurrent transactions of the
  persistent store, a commit whose answer is lost, and the other migrations, which bring an older schema to the one modelled.
  Redirects that net/http follows on its own: an exchange with GitFlame is the request of the code and the final answer. JSON
  encoding is a parameter; where a theorem needs that a job survives it (json_roundtrip), that holds for strings of valid UTF-8.
  The frontend, the Python services, infrastructure and migrations are not Go.
\<close>

end
